(* ===== verification/Prelude.thy ===== *)
theory Prelude
  imports Main "HOL-Library.Word" "HOL-Library.Signed_Division"
begin

text \<open>
  Shared vocabulary of the development: the machine integer types of the C++ sources, the
  ways in which the emulator process can die (\<open>error\<close>) and the result type of every
  operation that can die, the combinators for sequencing and for counted loops, and the
  word lemmas that the components use.
\<close>

unbundle bit_operations_syntax

section \<open>Types\<close>

type_synonym u8 = "8 word"
type_synonym u16 = "16 word"
type_synonym u32 = "32 word"
type_synonym u64 = "64 word"

text \<open>
  How a call can fail to return normally.  The Makefile compiles without \<open>NDEBUG\<close>, so a
  failed \<open>assert\<close> aborts the process (\<open>Assertion\<close>); \<open>std::out_of_range\<close> is thrown and
  never caught (\<open>Out_of_range\<close>), as is the exception of an array allocation with a negative length
  (\<open>Bad_alloc\<close>); an integer division by zero raises \<open>SIGFPE\<close>
  (\<open>Div_by_zero\<close>); an access outside an array or vector, or through a null pointer, is
  undefined behaviour (\<open>Undefined\<close>).
\<close>

datatype error = Assertion | Out_of_range | Bad_alloc | Div_by_zero | Undefined

type_synonym 'a res = "error + 'a"

section \<open>Sequencing\<close>

definition rbind :: "'a res \<Rightarrow> ('a \<Rightarrow> 'b res) \<Rightarrow> 'b res" where
  "rbind r f = (case r of Inl e \<Rightarrow> Inl e | Inr x \<Rightarrow> f x)"

text \<open>\<open>assert(b)\<close>.\<close>

definition assert_that :: "bool \<Rightarrow> unit res" where
  "assert_that b = (if b then Inr () else Inl Assertion)"

text \<open>
  A counted loop whose body can die: \<open>rfold body acc [0..<n]\<close> is
  \<open>for (i = 0; i < n; ++i) acc = body(acc, i);\<close>.
\<close>

primrec rfold :: "('b \<Rightarrow> 'a \<Rightarrow> 'b res) \<Rightarrow> 'b \<Rightarrow> 'a list \<Rightarrow> 'b res" where
  "rfold f acc [] = Inr acc"
| "rfold f acc (x # xs) = rbind (f acc x) (\<lambda>acc'. rfold f acc' xs)"

named_theorems res_simps \<open>computation rules of the result type\<close>

lemma rbind_Inl [simp, res_simps]: "rbind (Inl e) f = Inl e"
  by (simp add: rbind_def)

lemma rbind_Inr [simp, res_simps]: "rbind (Inr x) f = f x"
  by (simp add: rbind_def)

lemma rbind_eq_Inr_iff: "rbind r f = Inr y \<longleftrightarrow> (\<exists>x. r = Inr x \<and> f x = Inr y)"
  by (simp add: rbind_def split: sum.split)

lemma rbind_eq_Inl_iff:
  "rbind r f = Inl e \<longleftrightarrow> r = Inl e \<or> (\<exists>x. r = Inr x \<and> f x = Inl e)"
  by (auto simp: rbind_def split: sum.split)

lemma rbind_InrE [elim!]:
  assumes "rbind r f = Inr y"
  obtains x where "r = Inr x" "f x = Inr y"
  using assms by (auto simp: rbind_eq_Inr_iff)

lemma rbind_assoc: "rbind (rbind r f) g = rbind r (\<lambda>x. rbind (f x) g)"
  by (simp add: rbind_def split: sum.split)

lemma assert_that_True [simp, res_simps]: "assert_that True = Inr ()"
  by (simp add: assert_that_def)

lemma assert_that_False [simp, res_simps]: "assert_that False = Inl Assertion"
  by (simp add: assert_that_def)

lemma assert_that_Inr_iff [simp]: "assert_that b = Inr u \<longleftrightarrow> b"
  by (simp add: assert_that_def)

lemma rfold_append: "rfold f acc (xs @ ys) = rbind (rfold f acc xs) (\<lambda>a. rfold f a ys)"
  by (induction xs arbitrary: acc) (simp_all add: rbind_assoc)

lemma rfold_upt_Suc:
  "rfold f acc [0..<Suc n] = rbind (rfold f acc [0..<n]) (\<lambda>a. f a n)"
proof -
  have "rfold f acc [0..<Suc n] = rbind (rfold f acc [0..<n]) (\<lambda>a. rbind (f a n) Inr)"
    by (simp add: rfold_append)
  also have "(\<lambda>a. rbind (f a n) Inr) = (\<lambda>a. f a n)"
    by (rule ext) (simp add: rbind_def split: sum.split)
  finally show ?thesis .
qed

text \<open>A loop whose body always returns is a plain fold.\<close>

lemma rfold_Inr: "(\<And>a x. f a x = Inr (g a x)) \<Longrightarrow> rfold f acc xs = Inr (fold (\<lambda>x a. g a x) xs acc)"
  by (induction xs arbitrary: acc) simp_all

text \<open>Loops with bodies that agree on the elements.\<close>

lemma rfold_cong_set: "(\<And>s x. x \<in> set xs \<Longrightarrow> f s x = g s x) \<Longrightarrow> rfold f s xs = rfold g s xs"
proof (induction xs arbitrary: s)
  case (Cons x xs)
  then have "rfold f a xs = rfold g a xs" for a by simp
  then show ?case using Cons(2) by simp
qed simp

text \<open>Loop rule: an invariant that every iteration keeps while returning normally.\<close>

lemma rfold_upt_inv:
  assumes "P 0 acc"
    and "\<And>i a. i < n \<Longrightarrow> P i a \<Longrightarrow> \<exists>a'. f a i = Inr a' \<and> P (Suc i) a'"
  shows "\<exists>r. rfold f acc [0..<n] = Inr r \<and> P n r"
  using assms(2)
proof (induction n)
  case 0
  then show ?case using assms(1) by simp
next
  case (Suc n)
  then obtain r where r: "rfold f acc [0..<n] = Inr r" "P n r" by auto
  moreover obtain r' where "f r n = Inr r'" "P (Suc n) r'"
    using Suc.prems [of n r] r(2) by auto
  ultimately show ?case by (simp only: rfold_upt_Suc) simp
qed

section \<open>Words\<close>

lemma and_mask_take_bit [simp]: "(x :: 'a::len word) AND mask n = take_bit n x"
  by (simp add: take_bit_eq_mask)

lemma take_bit_word_beyond: "LENGTH('a) \<le> n \<Longrightarrow> take_bit n (x :: 'a::len word) = x"
  by (rule take_bit_word_eq_self)

lemma unat_take_bit_less: "n < LENGTH('a) \<Longrightarrow> unat (take_bit n (x :: 'a::len word)) < 2 ^ n"
  by (simp add: unsigned_take_bit_eq)

lemma take_bit_1_cases: "take_bit 1 (x :: 'a::len word) = 0 \<or> take_bit 1 x = 1"
  using not_mod_2_eq_0_eq_1 [of x] by (cases "x mod 2 = 0") (auto simp: take_bit_Suc)

lemma take_bit_1_eq_1_iff: "take_bit (Suc 0) (x :: 'a::len word) = 1 \<longleftrightarrow> bit x 0"
  by (simp add: take_bit_Suc odd_iff_mod_2_eq_one bit_0)

lemma bit_word_beyond [simp]: "LENGTH('a) \<le> n \<Longrightarrow> \<not> bit (x :: 'a::len word) n"
  using bit_imp_le_length [of x n] by auto

lemma unat_of_nat_small: "n < 2 ^ LENGTH('a) \<Longrightarrow> unat (of_nat n :: 'a::len word) = n"
  by (simp add: unat_of_nat)

lemma unat_bound: "unat (x :: 'a::len word) < 2 ^ LENGTH('a)"
  by (rule unsigned_less)

text \<open>Truncation commutes with the ring operations.\<close>

lemma ucast_down_add:
  "LENGTH('b) \<le> LENGTH('a) \<Longrightarrow> (ucast (x + y :: 'a::len word) :: 'b::len word) = ucast x + ucast y"
proof (transfer fixing: )
  fix x y :: int
  assume l: "LENGTH('b) \<le> LENGTH('a)"
  have "take_bit LENGTH('b) (take_bit LENGTH('a) x + take_bit LENGTH('a) y) =
    take_bit LENGTH('b) (take_bit LENGTH('b) (take_bit LENGTH('a) x) + take_bit LENGTH('b) (take_bit LENGTH('a) y))"
    by (simp only: take_bit_add)
  with l show "take_bit LENGTH('b) (take_bit LENGTH('a) (x + y)) =
    take_bit LENGTH('b) (take_bit LENGTH('a) x + take_bit LENGTH('a) y)"
    by (simp only: take_bit_take_bit min_absorb1 take_bit_add)
qed

lemma ucast_down_of_nat:
  "LENGTH('b) \<le> LENGTH('a) \<Longrightarrow> (ucast (of_nat n :: 'a::len word) :: 'b::len word) = of_nat n"
  by (transfer fixing: n) (simp add: take_bit_take_bit min_def)

lemma ucast_down_numeral [simp]:
  "LENGTH('b) \<le> LENGTH('a) \<Longrightarrow> (ucast (numeral n :: 'a::len word) :: 'b::len word) = numeral n"
  using ucast_down_of_nat [where 'a = 'a and 'b = 'b, of "numeral n"] by simp

lemma ucast_down_ucast:
  "LENGTH('b) \<le> LENGTH('a) \<Longrightarrow> (ucast (ucast (x :: 'c::len word) :: 'a::len word) :: 'b::len word) = ucast x"
  by (transfer fixing: ) (simp add: take_bit_take_bit min_def)

lemma ucast_up_ucast:
  "LENGTH('c) \<le> LENGTH('a) \<Longrightarrow> (ucast (ucast (x :: 'c::len word) :: 'a::len word) :: 'b::len word) = ucast x"
  by (transfer fixing: ) (simp add: take_bit_take_bit min_def)

text \<open>The masks written as literals in the sources.\<close>

lemma and_literal_masks:
  fixes x :: "'a::len word"
  shows "x AND 1 = take_bit 1 x" "x AND 3 = take_bit 2 x" "x AND 7 = take_bit 3 x"
    "x AND 0xFF = take_bit 8 x" "x AND 0xFFFF = take_bit 16 x" "x AND 0xFFFFFFFF = take_bit 32 x"
  using and_mask_take_bit [of x 1] and_mask_take_bit [of x 2] and_mask_take_bit [of x 3]
    and_mask_take_bit [of x 8] and_mask_take_bit [of x 16] and_mask_take_bit [of x 32]
  by (simp_all add: mask_numeral del: and_mask_take_bit)

text \<open>A value below a power of two has no higher bits.\<close>

lemma take_bit_less_self:
  assumes "(v :: 'a::len word) < 2 ^ n" "n < LENGTH('a)"
  shows "take_bit n v = v"
proof -
  have "unat (2 ^ n :: 'a word) = 2 ^ n"
    using unat_of_nat_small [where 'a = 'a, of "2 ^ n"] assms(2) by simp
  then have "unat v < 2 ^ n" using assms(1) by (simp add: word_less_nat_alt)
  then have "unat (take_bit n v) = unat v"
    by (simp only: unsigned_take_bit_eq take_bit_nat_eq_self)
  then show ?thesis by (simp only: word_unat_eq_iff)
qed

lemma bit_less_exp:
  assumes "(v :: 'a::len word) < 2 ^ n" "n < LENGTH('a)" "bit v k"
  shows "k < n"
  using take_bit_less_self [OF assms(1,2)] assms(3) by (metis bit_take_bit_iff)

lemma ucast_of_bool [simp]: "ucast (of_bool b :: 'a::len word) = (of_bool b :: 'b::len word)"
  by (cases b) simp_all

end
