(* ===== verification/Bit_Tools.thy ===== *)
theory Bit_Tools
  imports Prelude
begin

text \<open>
  \<open>bit_tools.h\<close>: the two lookup tables and the templates that crop, set, shift and
  sign-extend bit fields.  A template instance at an unsigned type of \<open>n\<close> bits is the
  definition at \<open>n word\<close>; the tables hold \<open>uint64_t\<close> values, so an operation at a
  narrower type converts the table entry down (\<open>ucast\<close>).  The lemmas replace the tables
  by \<open>mask\<close> and its complement and give every template its bit-level meaning.
\<close>

section \<open>The tables\<close>

definition mask_table :: "u64 list" where
  "mask_table =
    [0x0, 0x01, 0x03, 0x07, 0x0F,
     0x01F, 0x03F, 0x07F, 0x0FF, 0x01FF,
     0x03FF, 0x07FF, 0x0FFF, 0x01FFF, 0x03FFF,
     0x07FFF, 0x0FFFF, 0x01FFFF, 0x03FFFF, 0x07FFFF,
     0x0FFFFF, 0x01FFFFF, 0x03FFFFF, 0x07FFFFF, 0x0FFFFFF,
     0x01FFFFFF, 0x03FFFFFF, 0x07FFFFFF, 0x0FFFFFFF,
     0x01FFFFFFF, 0x03FFFFFFF, 0x07FFFFFFF, 0x0FFFFFFFF,
     0x01FFFFFFFF, 0x03FFFFFFFF, 0x07FFFFFFFF, 0x0FFFFFFFFF,
     0x01FFFFFFFFF, 0x03FFFFFFFFF, 0x07FFFFFFFFF, 0x0FFFFFFFFFF,
     0x01FFFFFFFFFF, 0x03FFFFFFFFFF, 0x07FFFFFFFFFF, 0x0FFFFFFFFFFF,
     0x01FFFFFFFFFFF, 0x03FFFFFFFFFFF, 0x07FFFFFFFFFFF, 0x0FFFFFFFFFFFF,
     0x01FFFFFFFFFFFF, 0x03FFFFFFFFFFFF, 0x07FFFFFFFFFFFF, 0x0FFFFFFFFFFFFF,
     0x01FFFFFFFFFFFFF, 0x03FFFFFFFFFFFFF, 0x07FFFFFFFFFFFFF, 0x0FFFFFFFFFFFFFF,
     0x01FFFFFFFFFFFFFF, 0x03FFFFFFFFFFFFFF, 0x07FFFFFFFFFFFFFF, 0x0FFFFFFFFFFFFFFF,
     0x01FFFFFFFFFFFFFFF, 0x03FFFFFFFFFFFFFFF, 0x07FFFFFFFFFFFFFFF, 0xFFFFFFFFFFFFFFFF]"

definition sign_mask :: "u64 list" where
  "sign_mask =
    [0xFFFFFFFFFFFFFFFE, 0xFFFFFFFFFFFFFFFC, 0xFFFFFFFFFFFFFFF8, 0xFFFFFFFFFFFFFFF0,
     0xFFFFFFFFFFFFFFE0, 0xFFFFFFFFFFFFFFC0, 0xFFFFFFFFFFFFFF80, 0xFFFFFFFFFFFFFF00,
     0xFFFFFFFFFFFFFE00, 0xFFFFFFFFFFFFFC00, 0xFFFFFFFFFFFFF800, 0xFFFFFFFFFFFFF000,
     0xFFFFFFFFFFFFE000, 0xFFFFFFFFFFFFC000, 0xFFFFFFFFFFFF8000, 0xFFFFFFFFFFFF0000,
     0xFFFFFFFFFFFE0000, 0xFFFFFFFFFFFC0000, 0xFFFFFFFFFFF80000, 0xFFFFFFFFFFF00000,
     0xFFFFFFFFFFE00000, 0xFFFFFFFFFFC00000, 0xFFFFFFFFFF800000, 0xFFFFFFFFFF000000,
     0xFFFFFFFFFE000000, 0xFFFFFFFFFC000000, 0xFFFFFFFFF8000000, 0xFFFFFFFFF0000000,
     0xFFFFFFFFE0000000, 0xFFFFFFFFC0000000, 0xFFFFFFFF80000000, 0xFFFFFFFF00000000,
     0xFFFFFFFE00000000, 0xFFFFFFFC00000000, 0xFFFFFFF800000000, 0xFFFFFFF000000000,
     0xFFFFFFE000000000, 0xFFFFFFC000000000, 0xFFFFFF8000000000, 0xFFFFFF0000000000,
     0xFFFFFE0000000000, 0xFFFFFC0000000000, 0xFFFFF80000000000, 0xFFFFF00000000000,
     0xFFFFE00000000000, 0xFFFFC00000000000, 0xFFFF800000000000, 0xFFFF000000000000,
     0xFFFE000000000000, 0xFFFC000000000000, 0xFFF8000000000000, 0xFFF0000000000000,
     0xFFE0000000000000, 0xFFC0000000000000, 0xFF80000000000000, 0xFF00000000000000,
     0xFE00000000000000, 0xFC00000000000000, 0xF800000000000000, 0xF000000000000000,
     0xE000000000000000, 0xC000000000000000, 0x8000000000000000, 0x0000000000000000]"

section \<open>The templates\<close>

primrec GenMask_loop :: "nat \<Rightarrow> 'a::len word" where
  "GenMask_loop 0 = 0"
| "GenMask_loop (Suc n) = push_bit 1 (GenMask_loop n) OR 1"

definition GenMask :: "nat \<Rightarrow> nat \<Rightarrow> 'a::len word" where
  "GenMask sz shift = push_bit shift (GenMask_loop sz)"

definition SetBit :: "'a::len word \<Rightarrow> int \<Rightarrow> nat \<Rightarrow> 'a word" where
  "SetBit data value pos =
     (if value \<noteq> 0 then data OR push_bit pos 1 else data AND NOT (push_bit pos 1))"

definition BitShift :: "'a::len word \<Rightarrow> nat \<Rightarrow> nat \<Rightarrow> nat \<Rightarrow> 'a word" where
  "BitShift val width offset distpos =
     push_bit distpos (drop_bit offset val AND ucast (mask_table ! width))"

definition bitcrop :: "'a::len word \<Rightarrow> nat \<Rightarrow> nat \<Rightarrow> 'a word" where
  "bitcrop val width offset = drop_bit offset val AND ucast (mask_table ! width)"

text \<open>The instance at a signed type: \<open>>>\<close> shifts the sign in.\<close>

definition bitcrop_signed :: "'a::len word \<Rightarrow> nat \<Rightarrow> nat \<Rightarrow> 'a word" where
  "bitcrop_signed val width offset =
     signed_drop_bit offset val AND ucast (mask_table ! width)"

definition SignExtend :: "'a::len word \<Rightarrow> nat \<Rightarrow> 'a word" where
  "SignExtend value width =
     (if drop_bit (width - 1) value AND 1 \<noteq> 0
      then value OR ucast (sign_mask ! (width - 1))
      else value AND ucast (NOT (sign_mask ! (width - 1))))"

definition bitset :: "'a::len word \<Rightarrow> nat \<Rightarrow> nat \<Rightarrow> 'a word \<Rightarrow> 'a word" where
  "bitset reg width offset val =
     (reg AND ucast (NOT (mask_table ! (width + offset)) OR mask_table ! offset))
     OR push_bit offset (val AND ucast (mask_table ! width))"

section \<open>What the tables hold\<close>

named_theorems bit_tools \<open>bit-level meaning of the templates\<close>

lemma nth_map_upt0: "i < n \<Longrightarrow> map f [0..<n] ! i = f i"
  by simp

lemma mask_table_nth: "i \<le> 64 \<Longrightarrow> mask_table ! i = mask i"
proof -
  assume i: "i \<le> 64"
  have t: "mask_table = map mask [0..<65]" by code_simp
  show ?thesis unfolding t by (rule nth_map_upt0) (use i in simp)
qed

lemma sign_mask_nth: "i < 64 \<Longrightarrow> sign_mask ! i = NOT (mask (Suc i))"
proof -
  assume i: "i < 64"
  have t: "sign_mask = map (\<lambda>i. NOT (mask (Suc i))) [0..<64]" by code_simp
  show ?thesis unfolding t by (rule nth_map_upt0) (use i in simp)
qed

lemma GenMask_loop_eq: "GenMask_loop n = (mask n :: 'a::len word)"
  by (induction n) (simp_all add: mask_Suc_double push_bit_eq_mult or.commute mult.commute)

lemma GenMask_eq [bit_tools]: "GenMask n s = push_bit s (mask n)"
  by (simp add: GenMask_def GenMask_loop_eq)

lemma bitcrop_eq [bit_tools]: "w \<le> 64 \<Longrightarrow> bitcrop v w s = take_bit w (drop_bit s v)"
  by (rule bit_word_eqI) (auto simp: bitcrop_def mask_table_nth bit_simps)

lemma bitcrop_bit [simp]: "bitcrop r (Suc 0) n = of_bool (bit r n)"
  by (simp add: bitcrop_eq take_bit_Suc bit_iff_odd_drop_bit even_iff_mod_2_eq_zero odd_iff_mod_2_eq_one)

lemma bitcrop_signed_eq:
  "w \<le> 64 \<Longrightarrow> s + w \<le> LENGTH('a) \<Longrightarrow>
   bitcrop_signed v w s = bitcrop (v :: 'a::len word) w s"
  by (rule bit_word_eqI) (auto simp: bitcrop_signed_def bitcrop_def mask_table_nth bit_simps)

lemma BitShift_eq [bit_tools]:
  "w \<le> 64 \<Longrightarrow> BitShift v w s d = push_bit d (take_bit w (drop_bit s v))"
  using bitcrop_eq [of w v s] by (simp add: BitShift_def bitcrop_def)

lemma SignExtend_eq [bit_tools]:
  assumes "0 < w" "w \<le> 64" "w \<le> LENGTH('a)" "LENGTH('a) \<le> 64"
  shows "SignExtend (v :: 'a::len word) w = signed_take_bit (w - 1) v"
proof -
  obtain k where w: "w = Suc k" using assms(1) by (cases w) auto
  have b: "(drop_bit k v AND 1 \<noteq> 0) = bit v k"
    by (simp add: bit_iff_odd_drop_bit one_and_eq odd_iff_mod_2_eq_one and_one_eq)
  have "SignExtend v (Suc k) = signed_take_bit k v"
    using assms unfolding w SignExtend_def diff_Suc_1 b
    by (intro bit_word_eqI) (auto simp: sign_mask_nth bit_simps min_def not_less Suc_le_eq le_less)
  with w show ?thesis by simp
qed

lemma bitset_eq [bit_tools]:
  assumes "w + s \<le> 64" "LENGTH('a) \<le> 64"
  shows "bitset (r :: 'a::len word) w s v =
    (r AND NOT (push_bit s (mask w))) OR push_bit s (take_bit w v)"
  using assms
  by (intro bit_word_eqI) (auto simp: bitset_def mask_table_nth bit_simps)

lemma SetBit_eq [bit_tools]:
  "SetBit d v p = (if v \<noteq> 0 then set_bit p d else unset_bit p d)"
  by (simp add: SetBit_def set_bit_eq_or unset_bit_eq_and_not push_bit_eq_mult)

section \<open>Fields of a word\<close>

lemma bit_bitset:
  assumes "w + s \<le> 64" "LENGTH('a) \<le> 64"
  shows "bit (bitset (r :: 'a::len word) w s v) n \<longleftrightarrow>
    (if s \<le> n \<and> n < s + w then n < LENGTH('a) \<and> bit v (n - s) else bit r n)"
  using assms by (auto simp: bitset_eq bit_simps dest: bit_imp_le_length)

text \<open>Reading the field just written returns the low bits of the value written.\<close>

lemma bitcrop_bitset_same:
  assumes "w + s \<le> LENGTH('a)" "LENGTH('a) \<le> 64"
  shows "bitcrop (bitset (r :: 'a::len word) w s v) w s = take_bit w v"
  using assms by (intro bit_word_eqI) (auto simp: bitcrop_eq bit_simps bit_bitset)

text \<open>Reading a disjoint field is not affected.\<close>

lemma bitcrop_bitset_other:
  assumes "w + s \<le> 64" "LENGTH('a) \<le> 64" "w' \<le> 64" "s' + w' \<le> s \<or> s + w \<le> s'"
  shows "bitcrop (bitset (r :: 'a::len word) w s v) w' s' = bitcrop r w' s'"
  using assms by (intro bit_word_eqI) (auto simp: bitcrop_eq bit_simps bit_bitset)

end
