(* ===== verification/Byte_Store.thy ===== *)
theory Byte_Store
  imports Bit_Tools
begin

text \<open>
  The abstract view of guest memory: a function from 32-bit addresses to bytes, with
  little-endian reads and writes of byte sequences that wrap around at \<open>2^32\<close>.  The locale
  \<open>byte_store\<close> is the interface that the memory promises to its clients (the CPU's loads and
  stores, the devices, the loader, the system calls); the loops those clients run over it
  are verified here once.
\<close>

type_synonym bytes = "u32 \<Rightarrow> u8"

definition read_bytes :: "bytes \<Rightarrow> u32 \<Rightarrow> nat \<Rightarrow> u8 list" where
  "read_bytes f a n = map (\<lambda>k. f (a + of_nat k)) [0..<n]"

definition write_bytes :: "bytes \<Rightarrow> u32 \<Rightarrow> u8 list \<Rightarrow> bytes" where
  "write_bytes f a bs = (\<lambda>x. if unat (x - a) < length bs then bs ! unat (x - a) else f x)"

text \<open>Little-endian encoding of a 64-bit value in \<open>n\<close> bytes, and its inverse.\<close>

definition le_bytes :: "u64 \<Rightarrow> nat \<Rightarrow> u8 list" where
  "le_bytes w n = map (\<lambda>k. ucast (drop_bit (8 * k) w)) [0..<n]"

primrec le_word :: "u8 list \<Rightarrow> u64" where
  "le_word [] = 0"
| "le_word (b # bs) = ucast b OR push_bit 8 (le_word bs)"

section \<open>Byte sequences\<close>

lemma length_read_bytes [simp]: "length (read_bytes f a n) = n"
  by (simp add: read_bytes_def)

lemma length_le_bytes [simp]: "length (le_bytes w n) = n"
  by (simp add: le_bytes_def)

lemma nth_read_bytes [simp]: "k < n \<Longrightarrow> read_bytes f a n ! k = f (a + of_nat k)"
  by (simp add: read_bytes_def)

lemma nth_le_bytes [simp]: "k < n \<Longrightarrow> le_bytes w n ! k = ucast (drop_bit (8 * k) w)"
  by (simp add: le_bytes_def)

lemma read_bytes_Suc: "read_bytes f a (Suc n) = f a # read_bytes f (a + 1) n"
  by (rule nth_equalityI) (auto simp: nth_Cons algebra_simps split: nat.splits)

lemma read_bytes_0 [simp]: "read_bytes f a 0 = []"
  by (simp add: read_bytes_def)

lemma read_bytes_snoc: "read_bytes f a (Suc n) = read_bytes f a n @ [f (a + of_nat n)]"
  by (simp add: read_bytes_def)

lemma read_bytes_append: "read_bytes f a (n + k) = read_bytes f a n @ read_bytes f (a + of_nat n) k"
  by (rule nth_equalityI) (auto simp: nth_append of_nat_diff algebra_simps not_less)

lemma write_bytes_Nil [simp]: "write_bytes f a [] = f"
  by (simp add: write_bytes_def)

lemma write_bytes_snoc:
  assumes "length bs < 2 ^ 32"
  shows "write_bytes f a (bs @ [b]) = (write_bytes f a bs)(a + of_nat (length bs) := b)"
proof
  fix x
  have u: "unat (of_nat (length bs) :: u32) = length bs"
    using assms by (simp add: unat_of_nat_small)
  have "unat (x - a) = length bs \<longleftrightarrow> x = a + of_nat (length bs)"
    by (metis u add_diff_cancel_left' diff_add_cancel add.commute word_unat_eq_iff)
  then show "write_bytes f a (bs @ [b]) x = ((write_bytes f a bs)(a + of_nat (length bs) := b)) x"
    by (auto simp: write_bytes_def nth_append less_Suc_eq)
qed

lemma write_bytes_single: "write_bytes f a [b] = f(a := b)"
  using write_bytes_snoc [of "[]" f a b] by simp

lemma write_bytes_append:
  assumes "length bs + length cs \<le> 2 ^ 32"
  shows "write_bytes f a (bs @ cs) = write_bytes (write_bytes f a bs) (a + of_nat (length bs)) cs"
  using assms
proof (induction cs rule: rev_induct)
  case (snoc c cs)
  then have "write_bytes f a (bs @ cs @ [c]) = (write_bytes f a (bs @ cs))(a + of_nat (length (bs @ cs)) := c)"
    using write_bytes_snoc [of "bs @ cs" f a c] by simp
  with snoc show ?case by (simp add: write_bytes_snoc algebra_simps)
qed simp

text \<open>Reading back what was written, and frame.\<close>

lemma read_write_bytes:
  assumes "length bs \<le> 2 ^ 32"
  shows "read_bytes (write_bytes f a bs) a (length bs) = bs"
  using assms by (intro nth_equalityI) (auto simp: write_bytes_def unat_of_nat_small)

lemma write_bytes_other: "length bs \<le> unat (x - a) \<Longrightarrow> write_bytes f a bs x = f x"
  by (simp add: write_bytes_def)

section \<open>Little-endian values\<close>

lemma bit_le_word:
  "bit (le_word bs) n \<longleftrightarrow> n < 64 \<and> n div 8 < length bs \<and> bit (bs ! (n div 8)) (n mod 8)"
proof (induction bs arbitrary: n)
  case (Cons b bs)
  show ?case
  proof (cases "n < 8")
    case True
    then show ?thesis by (simp add: bit_or_iff bit_push_bit_iff bit_ucast_iff)
  next
    case False
    then obtain k where n: "n = k + 8" by (metis add.commute le_add_diff_inverse not_less)
    have d: "n div 8 = Suc (k div 8)" and m: "n mod 8 = k mod 8" unfolding n by simp_all
    have "bit (le_word (b # bs)) n \<longleftrightarrow> n < 64 \<and> bit (le_word bs) k"
      using n by (auto simp: bit_or_iff bit_push_bit_iff bit_ucast_iff)
    then show ?thesis unfolding d m Cons.IH using n by (auto simp: less_imp_add_positive)
  qed
qed simp

lemma bit_nth_le_bytes:
  "k < n \<Longrightarrow> bit (le_bytes w n ! k) j \<longleftrightarrow> j < 8 \<and> bit w (8 * k + j)"
  by (auto simp: bit_simps add.commute)

lemma le_word_le_bytes: "n \<le> 8 \<Longrightarrow> le_word (le_bytes w n) = take_bit (8 * n) w"
proof (rule bit_word_eqI)
  fix j assume "j < LENGTH(64)"
  moreover have "j div 8 < n \<longleftrightarrow> j < 8 * n" by (simp add: div_less_iff_less_mult mult.commute)
  ultimately show "bit (le_word (le_bytes w n)) j = bit (take_bit (8 * n) w) j"
    by (auto simp: bit_le_word bit_nth_le_bytes bit_take_bit_iff simp del: nth_le_bytes)
qed

lemma le_bytes_append: "le_bytes w (n + k) = le_bytes w n @ le_bytes (drop_bit (8 * n) w) k"
proof (rule nth_equalityI)
  fix i assume "i < length (le_bytes w (n + k))"
  then show "le_bytes w (n + k) ! i = (le_bytes w n @ le_bytes (drop_bit (8 * n) w) k) ! i"
  proof (cases "i < n")
    case False
    with \<open>i < length (le_bytes w (n + k))\<close> obtain j where "i = n + j" "j < k"
      by (metis length_le_bytes add_less_cancel_left le_add_diff_inverse not_less)
    then show ?thesis by (simp add: nth_append algebra_simps)
  qed (simp add: nth_append)
qed simp

lemma le_bytes_take_bit: "8 * n \<le> b \<Longrightarrow> le_bytes (take_bit b w) n = le_bytes w n"
proof (rule nth_equalityI)
  fix i assume b: "8 * n \<le> b" and "i < length (le_bytes (take_bit b w) n)"
  then have "i < n" by simp
  then have "8 * i + 8 \<le> b" using b by linarith
  with \<open>i < n\<close> show "le_bytes (take_bit b w) n ! i = le_bytes w n ! i"
    by (auto intro!: bit_word_eqI simp: bit_simps)
qed simp

lemma le_bytes_le_word: "length bs \<le> 8 \<Longrightarrow> le_bytes (le_word bs) (length bs) = bs"
proof (rule nth_equalityI)
  fix i assume i: "i < length (le_bytes (le_word bs) (length bs))" and l: "length bs \<le> 8"
  show "le_bytes (le_word bs) (length bs) ! i = bs ! i"
  proof (rule bit_word_eqI)
    fix j assume "j < LENGTH(8)"
    with i l have "(8 * i + j) div 8 = i" "(8 * i + j) mod 8 = j" "8 * i + j < 64" by auto
    with i \<open>j < LENGTH(8)\<close> show "bit (le_bytes (le_word bs) (length bs) ! i) j = bit (bs ! i) j"
      by (simp add: bit_le_word bit_simps add.commute)
  qed
qed simp

lemma le_word_append:
  assumes "length bs < 8"
  shows "le_word (bs @ cs) = le_word bs OR push_bit (8 * length bs) (le_word cs)"
  using assms
proof (induction bs)
  case (Cons b bs)
  then have "le_word ((b # bs) @ cs) = ucast b OR push_bit 8 (le_word bs OR push_bit (8 * length bs) (le_word cs))"
    by simp
  also have "\<dots> = le_word (b # bs) OR push_bit (8 * length (b # bs)) (le_word cs)"
    by (simp add: push_bit_or or.assoc add.commute)
  finally show ?case .
qed simp

lemma le_word_snoc:
  "length bs < 8 \<Longrightarrow> le_word (bs @ [b]) = le_word bs OR push_bit (8 * length bs) (ucast b)"
  by (simp add: le_word_append)

lemma le_word_less: "length bs < 8 \<Longrightarrow> le_word bs = take_bit (8 * length bs) (le_word bs)"
  by (rule bit_word_eqI)
     (auto simp: bit_le_word bit_take_bit_iff div_less_iff_less_mult mult.commute)

section \<open>The interface\<close>

locale byte_store =
  fixes rd :: "'m \<Rightarrow> u64 \<Rightarrow> u8 res"
    and wr :: "'m \<Rightarrow> u64 \<Rightarrow> u8 \<Rightarrow> 'm res"
    and inv :: "'m \<Rightarrow> bool"
    and abs :: "'m \<Rightarrow> bytes"
  assumes rd_abs: "inv m \<Longrightarrow> rd m i = Inr (abs m (ucast i))"
    and wr_abs: "inv m \<Longrightarrow> \<exists>m'. wr m i d = Inr m' \<and> inv m' \<and> abs m' = (abs m)(ucast i := d)"
begin

lemma rd_wr:
  assumes "inv m"
  shows "\<exists>m'. wr m i d = Inr m' \<and> rd m' j = Inr (if ucast j = (ucast i :: u32) then d else abs m (ucast j))"
  using wr_abs [OF assms, of i d] rd_abs by (auto simp: fun_upd_def)

text \<open>Storing bytes one by one is one \<open>write_bytes\<close>.\<close>

lemma wr_loop:
  assumes "inv m" "n \<le> 2 ^ 32"
  shows "\<exists>m'. rfold (\<lambda>m k. wr m (i + of_nat k) (g k)) m [0..<n] = Inr m' \<and>
    inv m' \<and> abs m' = write_bytes (abs m) (ucast i) (map g [0..<n])"
proof (rule rfold_upt_inv)
  show "inv m \<and> abs m = write_bytes (abs m) (ucast i) (map g [0..<0])" using assms by simp
next
  fix k m1
  assume k: "k < n" and I: "inv m1 \<and> abs m1 = write_bytes (abs m) (ucast i) (map g [0..<k])"
  then obtain m2 where m2: "wr m1 (i + of_nat k) (g k) = Inr m2" "inv m2"
      "abs m2 = (abs m1)(ucast (i + of_nat k) := g k)"
    using wr_abs by blast
  have c: "ucast (i + of_nat k) = (ucast i + of_nat k :: u32)"
    by (simp add: ucast_down_add ucast_down_of_nat)
  show "\<exists>a'. wr m1 (i + of_nat k) (g k) = Inr a' \<and> inv a' \<and>
      abs a' = write_bytes (abs m) (ucast i) (map g [0..<Suc k])"
    using m2 I k assms(2) write_bytes_snoc [of "map g [0..<k]" "abs m" "ucast i" "g k"]
    by (auto simp: c)
qed

text \<open>Collecting bytes one by one is one \<open>read_bytes\<close>.\<close>

lemma rd_loop:
  assumes "inv m"
  shows "rfold (\<lambda>bs k. rbind (rd m (i + of_nat k)) (\<lambda>b. Inr (bs @ [b]))) [] [0..<n] =
    Inr (read_bytes (abs m) (ucast i) n)"
proof (induction n)
  case (Suc n)
  have "ucast (i + of_nat n) = (ucast i + of_nat n :: u32)"
    by (simp add: ucast_down_add ucast_down_of_nat)
  with Suc show ?case by (simp only: rfold_upt_Suc) (simp add: rd_abs [OF assms] read_bytes_snoc)
qed simp

end

end
