(* ===== verification/Memory_Wrapper.thy ===== *)
theory Memory_Wrapper
  imports Byte_Store
begin

text \<open>
  \<open>memory_wrapper.h\<close> and \<open>memory_wrapper.cpp\<close>: guest memory as 4096 lazily allocated
  blocks of \<open>2^18\<close> 32-bit words.  The state is the record \<open>memory\<close>; every access is a
  definition that returns an \<open>error\<close> where the code asserts, throws or indexes a vector
  out of range.  The abstraction \<open>mem_abs\<close> reads the state as one byte per 32-bit
  address; the lemmas show that a well-formed memory never fails on an aligned access,
  that each read returns the bytes of the abstraction in little-endian order, and that each
  write updates exactly its own bytes (addresses wrap at \<open>2^32\<close>).
\<close>

section \<open>State\<close>

text \<open>
  A \<open>std::vector<uint32_t>\<close>: its size and its elements.  Elements at and above the size
  do not exist; the accessors check the size first.
\<close>

record vec =
  vec_size :: nat
  vec_data :: "nat \<Rightarrow> u32"

definition vec_empty :: vec where
  "vec_empty = \<lparr>vec_size = 0, vec_data = (\<lambda>_. 0)\<rparr>"

definition vec_resize :: "vec \<Rightarrow> nat \<Rightarrow> vec" where
  "vec_resize v n =
     \<lparr>vec_size = n, vec_data = (\<lambda>i. if i < vec_size v then vec_data v i else 0)\<rparr>"

definition vec_get :: "vec \<Rightarrow> nat \<Rightarrow> u32 res" where
  "vec_get v i = (if i < vec_size v then Inr (vec_data v i) else Inl Undefined)"

definition vec_set :: "vec \<Rightarrow> nat \<Rightarrow> u32 \<Rightarrow> vec res" where
  "vec_set v i x =
     (if i < vec_size v then Inr (v\<lparr>vec_data := (vec_data v)(i := x)\<rparr>) else Inl Undefined)"

definition vec_eq :: "vec \<Rightarrow> vec \<Rightarrow> bool" where
  "vec_eq v w \<longleftrightarrow> vec_size v = vec_size w \<and> (\<forall>i \<in> {..<vec_size v}. vec_data v i = vec_data w i)"

record memory =
  mapping :: "nat \<Rightarrow> vec"
  assigned :: "nat \<Rightarrow> bool"

section \<open>Constants\<close>

primrec GenerateBitMask :: "nat \<Rightarrow> u32" where
  "GenerateBitMask 0 = 0"
| "GenerateBitMask (Suc n) = push_bit 1 (GenerateBitMask n) OR 1"

definition kTotalBits :: nat where "kTotalBits = 32"

definition kOffsetBits :: nat where "kOffsetBits = 20"

definition kWordBits :: nat where "kWordBits = 2"

definition kOffsetMask :: u32 where "kOffsetMask = GenerateBitMask kOffsetBits"

definition kEntryBits :: nat where "kEntryBits = kTotalBits - kOffsetBits"

definition kEntryMask :: u32 where "kEntryMask = GenerateBitMask kEntryBits"

definition kMapEntry :: nat where "kMapEntry = 2 ^ kEntryBits"

section \<open>Operations\<close>

definition MemoryWrapper :: memory where
  "MemoryWrapper = \<lparr>mapping = (\<lambda>_. vec_empty), assigned = (\<lambda>_. False)\<rparr>"

definition CheckRange :: "memory \<Rightarrow> nat \<Rightarrow> bool res" where
  "CheckRange m entry = (if entry \<ge> kMapEntry then Inl Out_of_range else Inr (assigned m entry))"

definition mw_entry :: "u64 \<Rightarrow> nat" where
  "mw_entry i = unat (drop_bit kOffsetBits i AND ucast kEntryMask)"

definition mw_word_offset :: "u64 \<Rightarrow> nat" where
  "mw_word_offset i = unat (drop_bit kWordBits (i AND ucast kOffsetMask))"

definition Read32 :: "memory \<Rightarrow> u64 \<Rightarrow> u32 res" where
  "Read32 m i =
     rbind (assert_that (i AND 3 = 0)) (\<lambda>_.
     rbind (CheckRange m (mw_entry i)) (\<lambda>present.
     if present then vec_get (mapping m (mw_entry i)) (mw_word_offset i) else Inr 0))"

definition Write32 :: "memory \<Rightarrow> u64 \<Rightarrow> u32 \<Rightarrow> memory res" where
  "Write32 m i value =
     rbind (assert_that (i AND 3 = 0)) (\<lambda>_.
     rbind (CheckRange m (mw_entry i)) (\<lambda>present.
     let entry = mw_entry i;
         m' = (if present then m
               else m\<lparr>assigned := (assigned m)(entry := True),
                      mapping := (mapping m)(entry :=
                        vec_resize (mapping m entry) (2 ^ (kOffsetBits - kWordBits)))\<rparr>)
     in rbind (vec_set (mapping m' entry) (mw_word_offset i) value) (\<lambda>v.
        Inr (m'\<lparr>mapping := (mapping m')(entry := v)\<rparr>))))"

definition dram_address :: "u64 \<Rightarrow> u64" where
  "dram_address i = push_bit kWordBits (drop_bit kWordBits i)"

definition ReadByte :: "memory \<Rightarrow> u64 \<Rightarrow> u8 res" where
  "ReadByte m i =
     rbind (Read32 m (dram_address i)) (\<lambda>w.
     let read_data = (ucast w :: u64); byte_offset = unat (i AND 3)
     in Inr (ucast (drop_bit (byte_offset * 8) read_data AND 0xFF)))"

definition WriteByte_mask :: "u64 list" where
  "WriteByte_mask = [0xFFFFFF00, 0xFFFF00FF, 0xFF00FFFF, 0x00FFFFFF]"

definition WriteByte :: "memory \<Rightarrow> u64 \<Rightarrow> u8 \<Rightarrow> memory res" where
  "WriteByte m i data =
     rbind (Read32 m (dram_address i)) (\<lambda>w.
     let original_data = (ucast w :: u64); byte_offset = unat (i AND 3);
         write_data = (original_data AND WriteByte_mask ! byte_offset)
                      OR push_bit (byte_offset * 8) (ucast data)
     in Write32 m (dram_address i) (ucast write_data))"

definition Read16 :: "memory \<Rightarrow> u64 \<Rightarrow> u16 res" where
  "Read16 m i =
     rbind (assert_that (i AND 1 = 0)) (\<lambda>_.
     rbind (Read32 m (dram_address i)) (\<lambda>w.
     let read_data = (ucast w :: u64); short_word_offset = unat (i AND 3)
     in Inr (ucast (drop_bit (short_word_offset * 8) read_data AND 0xFFFF))))"

definition Write16_mask :: "u64 list" where
  "Write16_mask = [0xFFFF0000, 0x0000FFFF]"

definition Write16 :: "memory \<Rightarrow> u64 \<Rightarrow> u16 \<Rightarrow> memory res" where
  "Write16 m i data =
     rbind (assert_that (i AND 1 = 0)) (\<lambda>_.
     rbind (Read32 m (dram_address i)) (\<lambda>original_data.
     let short_word_offset = unat (drop_bit 1 i AND 1);
         write_data = (original_data AND ucast (Write16_mask ! short_word_offset))
                      OR push_bit (short_word_offset * 16) (ucast data)
     in Write32 m (dram_address i) write_data))"

definition Read64 :: "memory \<Rightarrow> u64 \<Rightarrow> u64 res" where
  "Read64 m i =
     rbind (assert_that (i AND 7 = 0)) (\<lambda>_.
     rbind (Read32 m (dram_address i)) (\<lambda>lower.
     rbind (Read32 m (dram_address i + 4)) (\<lambda>upper.
     Inr ((ucast lower :: u64) OR push_bit 32 (ucast upper)))))"

definition Write64 :: "memory \<Rightarrow> u64 \<Rightarrow> u64 \<Rightarrow> memory res" where
  "Write64 m i value =
     rbind (assert_that (i AND 7 = 0)) (\<lambda>_.
     rbind (Write32 m (dram_address i) (ucast (value AND 0xFFFFFFFF))) (\<lambda>m'.
     Write32 m' (dram_address i + 4) (ucast (drop_bit 32 value AND 0xFFFFFFFF))))"

definition mem_equal :: "memory \<Rightarrow> memory \<Rightarrow> bool" where
  "mem_equal l r \<longleftrightarrow>
     (\<forall>e \<in> {..<kMapEntry}. vec_eq (mapping l e) (mapping r e)) \<and>
     (\<forall>e \<in> {..<kMapEntry}. assigned l e = assigned r e)"

definition mem_not_equal :: "memory \<Rightarrow> memory \<Rightarrow> bool" where
  "mem_not_equal l r \<longleftrightarrow>
     (\<exists>e \<in> {..<kMapEntry}. \<not> vec_eq (mapping l e) (mapping r e)) \<or>
     (\<exists>e \<in> {..<kMapEntry}. assigned l e \<noteq> assigned r e)"

section \<open>Well-formedness and abstraction\<close>

text \<open>An assigned block is fully allocated, an unassigned one is still empty.\<close>

definition mem_wf :: "memory \<Rightarrow> bool" where
  "mem_wf m \<longleftrightarrow>
     (\<forall>e. vec_size (mapping m e) = (if assigned m e then 2 ^ (kOffsetBits - kWordBits) else 0))"

definition word_at :: "memory \<Rightarrow> u64 \<Rightarrow> u32" where
  "word_at m i =
     (if assigned m (mw_entry i) then vec_data (mapping m (mw_entry i)) (mw_word_offset i) else 0)"

text \<open>The byte at a 32-bit address.\<close>

definition mem_abs :: "memory \<Rightarrow> bytes" where
  "mem_abs m a = ucast (drop_bit (8 * (unat a mod 4)) (word_at m (ucast a)))"

section \<open>Address arithmetic\<close>

lemmas mw_consts = kTotalBits_def kOffsetBits_def kWordBits_def kEntryBits_def kMapEntry_def

lemma GenerateBitMask_eq: "GenerateBitMask n = mask n"
  by (induction n) (simp_all add: mask_Suc_double push_bit_eq_mult or.commute mult.commute)

lemma mw_entry_eq: "mw_entry i = unat i div 2 ^ 20 mod 2 ^ 12"
proof -
  have "ucast kEntryMask = (mask 12 :: u64)"
    by (simp add: kEntryMask_def GenerateBitMask_eq mw_consts mask_eq_exp_minus_1)
  then have "mw_entry i = unat (take_bit 12 (drop_bit 20 i))"
    by (simp add: mw_entry_def mw_consts)
  then show ?thesis
    by (simp only: unsigned_take_bit_eq unat_drop_bit_eq) (simp only: take_bit_eq_mod drop_bit_eq_div)
qed

lemma mw_word_offset_eq: "mw_word_offset i = unat i mod 2 ^ 20 div 2 ^ 2"
proof -
  have "ucast kOffsetMask = (mask 20 :: u64)"
    by (simp add: kOffsetMask_def GenerateBitMask_eq mw_consts mask_eq_exp_minus_1)
  then have "mw_word_offset i = unat (drop_bit 2 (take_bit 20 i))"
    by (simp add: mw_word_offset_def mw_consts)
  then show ?thesis
    by (simp only: unsigned_take_bit_eq unat_drop_bit_eq) (simp only: take_bit_eq_mod drop_bit_eq_div)
qed

lemma mw_entry_less: "mw_entry i < kMapEntry"
  by (simp add: mw_entry_eq mw_consts)

lemma mw_word_offset_less: "mw_word_offset i < 2 ^ (kOffsetBits - kWordBits)"
  by (simp add: mw_word_offset_eq mw_consts less_mult_imp_div_less)

text \<open>Block number and word offset together are bits 2 to 31 of the address.\<close>

definition widx :: "u32 \<Rightarrow> nat" where
  "widx a = unat a div 4"

lemma widx_split: "widx (ucast i) = 2 ^ 18 * mw_entry i + mw_word_offset i"
proof -
  have "unat (ucast i :: u32) = unat i mod (2 ^ 20 * 2 ^ 12)"
    by (simp add: unsigned_ucast_eq take_bit_eq_mod)
  also have "\<dots> = 2 ^ 20 * (unat i div 2 ^ 20 mod 2 ^ 12) + unat i mod 2 ^ 20"
    by (rule mod_mult2_eq)
  finally have "unat (ucast i :: u32) = 4 * (2 ^ 18 * mw_entry i) + unat i mod 2 ^ 20"
    by (simp add: mw_entry_eq)
  then show ?thesis by (simp add: widx_def mw_word_offset_eq)
qed

lemma mw_index_eq_iff:
  "mw_entry i = mw_entry j \<and> mw_word_offset i = mw_word_offset j \<longleftrightarrow>
   widx (ucast i) = widx (ucast j)"
proof -
  have "(2 ^ 18 * e + k) div 2 ^ 18 = e" "(2 ^ 18 * e + k) mod 2 ^ 18 = k" if "k < 2 ^ 18" for e k :: nat
    using that by simp_all
  moreover have "mw_word_offset i < 2 ^ 18" "mw_word_offset j < 2 ^ 18"
    using mw_word_offset_less [of i] mw_word_offset_less [of j] by (simp_all add: mw_consts)
  ultimately show ?thesis unfolding widx_split by metis
qed

lemma dram_address_aligned [simp]: "dram_address i AND 3 = 0"
  by (rule bit_word_eqI) (auto simp: dram_address_def mw_consts and_literal_masks bit_simps)

lemma word_at_cong: "widx (ucast i) = widx (ucast j) \<Longrightarrow> word_at m i = word_at m j"
  using mw_index_eq_iff [of i j] by (simp add: word_at_def)

lemma unat_ucast32: "unat (ucast (i :: u64) :: u32) = unat i mod 2 ^ 32"
  by (simp add: unsigned_ucast_eq take_bit_eq_mod)

lemma unat_dram_address: "unat (dram_address i) = unat i div 4 * 4"
proof -
  have "unat i < 2 ^ 64" using unat_bound [of i] by simp
  then have "unat i div 4 * 4 < 2 ^ 64"
    by (rule order.strict_trans1 [OF div_times_less_eq_dividend])
  then show ?thesis
    by (simp add: dram_address_def mw_consts push_bit_eq_mult drop_bit_eq_div
        unat_word_ariths unat_div_distrib)
qed

lemma widx_dram_address [simp]: "widx (ucast (dram_address i)) = widx (ucast i)"
proof -
  have "unat i div 4 * 4 mod 2 ^ 32 div 4 = unat i div 4 mod 2 ^ 30"
    using mult_mod_right [of 4 "unat i div 4" "2 ^ 30"] by (simp add: mult.commute)
  moreover have "unat i mod 2 ^ 32 div 4 = unat i div 4 mod 2 ^ 30"
    using mod_mult2_eq [of "unat i" 4 "2 ^ 30"] by simp
  ultimately show ?thesis by (simp add: widx_def unat_ucast32 unat_dram_address)
qed

section \<open>32-bit accesses\<close>

lemma mem_wf_MemoryWrapper: "mem_wf MemoryWrapper"
  by (simp add: mem_wf_def MemoryWrapper_def vec_empty_def)

lemma mem_abs_MemoryWrapper: "mem_abs MemoryWrapper = (\<lambda>_. 0)"
  by (simp add: fun_eq_iff mem_abs_def word_at_def MemoryWrapper_def)

lemma CheckRange_ok [simp]: "CheckRange m (mw_entry i) = Inr (assigned m (mw_entry i))"
  using mw_entry_less [of i] by (simp add: CheckRange_def)

lemma Read32_wf: "mem_wf m \<Longrightarrow> i AND 3 = 0 \<Longrightarrow> Read32 m i = Inr (word_at m i)"
  using mw_word_offset_less [of i]
  by (simp add: Read32_def word_at_def vec_get_def mem_wf_def)

lemma Write32_wf:
  assumes "mem_wf m" "i AND 3 = 0"
  obtains m' where "Write32 m i v = Inr m'" "mem_wf m'"
    "\<And>j. word_at m' j = (if widx (ucast j) = widx (ucast i) then v else word_at m j)"
proof -
  let ?e = "mw_entry i"
  define m1 where "m1 = (if assigned m ?e then m
               else m\<lparr>assigned := (assigned m)(?e := True),
                      mapping := (mapping m)(?e :=
                        vec_resize (mapping m ?e) (2 ^ (kOffsetBits - kWordBits)))\<rparr>)"
  define m2 where "m2 = m1\<lparr>mapping := (mapping m1)(?e :=
     (mapping m1 ?e)\<lparr>vec_data := (vec_data (mapping m1 ?e))(mw_word_offset i := v)\<rparr>)\<rparr>"
  have wf1: "mem_wf m1" and as1: "assigned m1 ?e" and at1: "word_at m1 = word_at m"
    using assms(1) by (auto simp: m1_def mem_wf_def vec_resize_def word_at_def fun_eq_iff)
  then have "Write32 m i v = Inr m2"
    using assms(2) mw_word_offset_less [of i]
    by (simp add: Write32_def m1_def m2_def Let_def vec_set_def mem_wf_def split: if_splits)
  moreover have "mem_wf m2" using wf1 as1 by (auto simp: m2_def mem_wf_def)
  moreover have "word_at m2 j = (if widx (ucast j) = widx (ucast i) then v else word_at m j)" for j
    using as1 mw_index_eq_iff [of j i] by (auto simp: m2_def word_at_def simp flip: at1)
  ultimately show thesis by (rule that)
qed

section \<open>Byte lanes\<close>

definition byte_of :: "u32 \<Rightarrow> nat \<Rightarrow> u8" where
  "byte_of w k = ucast (drop_bit (8 * k) w)"

lemma bit_byte_of: "bit (byte_of w k) n \<longleftrightarrow> n < 8 \<and> bit w (8 * k + n)"
  by (auto simp: byte_of_def bit_simps)

lemma mem_abs_lane: "mem_abs m a = byte_of (word_at m (ucast a)) (unat a mod 4)"
  by (simp add: mem_abs_def byte_of_def)

lemma widx_ucast_ucast [simp]: "widx (ucast (ucast a :: u64)) = widx a"
  by (simp add: ucast_up_ucast)

lemma word_at_ucast [simp]: "word_at m (ucast (ucast i :: u32)) = word_at m i"
  by (rule word_at_cong) simp

lemma unat_mod4_ucast: "unat (ucast (i :: u64) :: u32) mod 4 = unat i mod 4"
  by (simp add: unat_ucast32 mod_mod_cancel)

lemma unat_and_3: "unat ((i :: u64) AND 3) = unat i mod 4"
  by (simp only: and_literal_masks unsigned_take_bit_eq) (simp add: take_bit_eq_mod)

lemma aligned4_iff: "(i :: u64) AND 3 = 0 \<longleftrightarrow> unat i mod 4 = 0"
  by (metis unat_and_3 unat_eq_zero)

lemma widx_mod4_inject: "widx x = widx a \<and> unat x mod 4 = unat a mod 4 \<longleftrightarrow> x = a"
  by (metis widx_def div_mult_mod_eq word_unat_eq_iff)

text \<open>The word at an aligned address: its four bytes are the next four addresses.\<close>

lemma aligned4_diff:
  assumes "unat a mod 4 = 0"
  shows "unat (x - a) < 4 \<longleftrightarrow> widx x = widx a"
    and "widx x = widx a \<Longrightarrow> unat (x - a) = unat x mod 4"
proof -
  obtain k where k: "unat a = 4 * k" using assms by (metis mod_0_imp_dvd dvdE)
  have la: "unat a < 4 * 2 ^ 30" using unat_bound [of a] by simp
  have lx: "unat x < 4 * 2 ^ 30" using unat_bound [of x] by simp
  have d: "unat (x - a) = (if unat a \<le> unat x then unat x - unat a else unat x + 4 * 2 ^ 30 - unat a)"
    by (simp add: unat_sub_if')
  show "unat (x - a) < 4 \<longleftrightarrow> widx x = widx a"
    using la lx by (auto simp: d widx_def k)
  show "widx x = widx a \<Longrightarrow> unat (x - a) = unat x mod 4"
    using la lx by (auto simp: d widx_def k minus_div_mult_eq_mod [symmetric] mult.commute)
qed

lemma byte_lanes_le: "map (byte_of w) [0..<4] = le_bytes (ucast w) 4"
  by (rule nth_equalityI) (auto intro!: bit_word_eqI simp: bit_byte_of bit_simps)

lemma read_bytes_word:
  assumes "i AND 3 = 0"
  shows "read_bytes (mem_abs m) (ucast i) 4 = le_bytes (ucast (word_at m i)) 4"
proof -
  have "mem_abs m (ucast i + of_nat k) = byte_of (word_at m i) k" if "k < 4" for k
  proof -
    have u: "unat (ucast i + of_nat k - ucast i :: u32) = k"
      using that by (simp add: unat_of_nat_small)
    have a: "unat (ucast i :: u32) mod 4 = 0"
      using assms by (simp add: unat_mod4_ucast aligned4_iff)
    have w: "widx (ucast i + of_nat k) = widx (ucast i)"
      using aligned4_diff(1) [OF a, of "ucast i + of_nat k"] u that by simp
    have "unat (ucast i + of_nat k :: u32) mod 4 = k"
      using aligned4_diff(2) [OF a w] u by simp
    moreover have "word_at m (ucast (ucast i + of_nat k :: u32)) = word_at m i"
      by (rule word_at_cong) (simp add: w)
    ultimately show ?thesis by (simp add: mem_abs_lane)
  qed
  then have "read_bytes (mem_abs m) (ucast i) 4 = map (byte_of (word_at m i)) [0..<4]"
    by (intro nth_equalityI) auto
  then show ?thesis by (simp only: byte_lanes_le)
qed

text \<open>What a write of one word does to the bytes.\<close>

lemma mem_abs_word_update:
  assumes "\<And>j. word_at m' j = (if widx (ucast j) = widx (ucast i) then w else word_at m j)"
  shows "mem_abs m' x =
    (if widx x = widx (ucast i) then byte_of w (unat x mod 4) else mem_abs m x)"
  by (simp add: mem_abs_lane assms)

section \<open>Refinement of the byte view\<close>

lemma ucast_word_le: "ucast (word_at m i) = le_word (le_bytes (ucast (word_at m i)) 4)"
  by (simp add: le_word_le_bytes) (rule bit_word_eqI, auto simp: bit_simps dest: bit_imp_le_length)

lemma ucast_ucast_32: "ucast (ucast (v :: u64) :: u32) = (take_bit 32 v :: u64)"
  by (rule bit_word_eqI) (auto simp: bit_simps)

lemma Read32_abs:
  assumes "mem_wf m" "i AND 3 = 0"
  shows "Read32 m i = Inr (ucast (le_word (read_bytes (mem_abs m) (ucast i) 4)))"
  using assms by (simp add: Read32_wf read_bytes_word ucast_up_ucast flip: ucast_word_le)

lemma Write32_abs:
  assumes "mem_wf m" "i AND 3 = 0"
  obtains m' where "Write32 m i v = Inr m'" "mem_wf m'"
    "mem_abs m' = write_bytes (mem_abs m) (ucast i) (le_bytes (ucast v) 4)"
proof -
  obtain m' where m': "Write32 m i v = Inr m'" "mem_wf m'"
    "\<And>j. word_at m' j = (if widx (ucast j) = widx (ucast i) then v else word_at m j)"
    using Write32_wf [OF assms] by blast
  have a: "unat (ucast i :: u32) mod 4 = 0"
    using assms(2) by (simp add: unat_mod4_ucast aligned4_iff)
  have "mem_abs m' = write_bytes (mem_abs m) (ucast i) (le_bytes (ucast v) 4)"
    using aligned4_diff [OF a]
    by (auto simp: fun_eq_iff write_bytes_def mem_abs_word_update [OF m'(3)] byte_of_def
        simp flip: byte_lanes_le)
  with m' show thesis by (intro that)
qed

lemma word_at_dram [simp]: "word_at m (dram_address i) = word_at m i"
  by (rule word_at_cong) simp

lemma ReadByte_abs: "mem_wf m \<Longrightarrow> ReadByte m i = Inr (mem_abs m (ucast i))"
  by (simp add: ReadByte_def Read32_wf mem_abs_lane unat_mod4_ucast unat_and_3 Let_def)
     (rule bit_word_eqI, auto simp: bit_byte_of and_literal_masks bit_simps mult.commute)

lemma WriteByte_mask_nth:
  "k < 4 \<Longrightarrow> WriteByte_mask ! k = (mask 32 AND NOT (push_bit (8 * k) (mask 8)))"
  by (auto simp: WriteByte_mask_def less_Suc_eq numeral_eq_Suc mask_eq_exp_minus_1)

lemma byte_of_WriteByte:
  assumes "p < 4" "q < 4"
  shows "byte_of (ucast ((ucast w AND WriteByte_mask ! p) OR push_bit (p * 8) (ucast d :: u64))) q =
    (if q = p then d else byte_of w q)"
proof -
  have "q * 8 + n < p * 8 \<or> p * 8 + 8 \<le> q * 8 + n \<or> q = p" if "n < 8" for n
    using that by arith
  then show ?thesis using assms
    by (intro bit_word_eqI)
       (fastforce simp: bit_byte_of WriteByte_mask_nth bit_simps mult.commute not_le)
qed

lemma WriteByte_abs:
  assumes "mem_wf m"
  obtains m' where "WriteByte m i d = Inr m'" "mem_wf m'" "mem_abs m' = (mem_abs m)(ucast i := d)"
proof -
  let ?p = "unat (i AND 3)"
  let ?w = "ucast ((ucast (word_at m i) AND WriteByte_mask ! ?p) OR push_bit (?p * 8) (ucast d :: u64))"
  obtain m' where m': "Write32 m (dram_address i) ?w = Inr m'" "mem_wf m'"
    "\<And>j. word_at m' j = (if widx (ucast j) = widx (ucast (dram_address i)) then ?w else word_at m j)"
    using Write32_wf [OF assms dram_address_aligned] by blast
  have p: "?p = unat (ucast i :: u32) mod 4" by (simp add: unat_and_3 unat_mod4_ucast)
  have "mem_abs m' x = ((mem_abs m)(ucast i := d)) x" for x
  proof (cases "widx x = widx (ucast i)")
    case True
    then have "word_at m (ucast x) = word_at m i"
      by (intro word_at_cong) simp
    with True widx_mod4_inject [of x "ucast i"] show ?thesis
      unfolding mem_abs_word_update [OF m'(3)] p
      by (simp add: byte_of_WriteByte mem_abs_lane)
  qed (auto simp: mem_abs_word_update [OF m'(3)])
  then have "mem_abs m' = (mem_abs m)(ucast i := d)" ..
  moreover have "WriteByte m i d = Inr m'"
    using m'(1) assms by (simp add: WriteByte_def Read32_wf Let_def)
  ultimately show thesis using m'(2) by (intro that)
qed

text \<open>The memory implements the byte store that its clients rely on.\<close>

interpretation mw: byte_store ReadByte WriteByte mem_wf mem_abs
proof
  show "mem_wf m \<Longrightarrow> ReadByte m i = Inr (mem_abs m (ucast i))" for m i
    by (rule ReadByte_abs)
  show "mem_wf m \<Longrightarrow> \<exists>m'. WriteByte m i d = Inr m' \<and> mem_wf m' \<and> mem_abs m' = (mem_abs m)(ucast i := d)" for m i d
    by (metis WriteByte_abs)
qed

lemma aligned8_imp_4: "(i :: u64) AND 7 = 0 \<Longrightarrow> i AND 3 = 0"
  by (auto simp: and_literal_masks bit_eq_iff bit_take_bit_iff)

lemma dram_address_id: "i AND 3 = 0 \<Longrightarrow> dram_address i = i"
  using bits_ident [of 2 i] by (simp add: dram_address_def mw_consts and_literal_masks)

lemma aligned4_add: "(i :: u64) AND 3 = 0 \<Longrightarrow> (i + 4) AND 3 = 0"
  by (simp add: and_literal_masks take_bit_eq_0_iff)

lemma Read64_abs:
  assumes "mem_wf m" "i AND 7 = 0"
  shows "Read64 m i = Inr (le_word (read_bytes (mem_abs m) (ucast i) 8))"
proof -
  have a: "i AND 3 = 0" using assms(2) by (rule aligned8_imp_4)
  have "read_bytes (mem_abs m) (ucast i) (4 + 4) =
      read_bytes (mem_abs m) (ucast i) 4 @ read_bytes (mem_abs m) (ucast (i + 4)) 4"
    by (simp only: read_bytes_append) (simp add: ucast_down_add)
  then have "read_bytes (mem_abs m) (ucast i) 8 =
      le_bytes (ucast (word_at m i)) 4 @ le_bytes (ucast (word_at m (i + 4))) 4"
    using a by (simp add: read_bytes_word aligned4_add)
  then show ?thesis using assms a
    by (simp add: Read64_def Read32_wf dram_address_id aligned4_add le_word_append flip: ucast_word_le)
qed

lemma Write64_abs:
  assumes "mem_wf m" "i AND 7 = 0"
  obtains m' where "Write64 m i v = Inr m'" "mem_wf m'"
    "mem_abs m' = write_bytes (mem_abs m) (ucast i) (le_bytes v 8)"
proof -
  have a: "i AND 3 = 0" using assms(2) by (rule aligned8_imp_4)
  let ?lo = "ucast (v AND 0xFFFFFFFF) :: u32" and ?hi = "ucast (drop_bit 32 v AND 0xFFFFFFFF) :: u32"
  obtain m1 where m1: "Write32 m i ?lo = Inr m1" "mem_wf m1"
    "mem_abs m1 = write_bytes (mem_abs m) (ucast i) (le_bytes (ucast ?lo) 4)"
    using Write32_abs [OF assms(1) a] by blast
  obtain m2 where m2: "Write32 m1 (i + 4) ?hi = Inr m2" "mem_wf m2"
    "mem_abs m2 = write_bytes (mem_abs m1) (ucast (i + 4)) (le_bytes (ucast ?hi) 4)"
    using Write32_abs [OF m1(2) aligned4_add [OF a]] by blast
  have "le_bytes v (4 + 4) = le_bytes (ucast ?lo) 4 @ le_bytes (ucast ?hi) 4"
    by (simp only: le_bytes_append) (simp add: ucast_ucast_32 and_literal_masks le_bytes_take_bit)
  then have "mem_abs m2 = write_bytes (mem_abs m) (ucast i) (le_bytes v 8)"
    by (simp add: m2(3) m1(3) write_bytes_append ucast_down_add)
  moreover have "Write64 m i v = Inr m2"
    using assms(2) m1(1) m2(1) a by (simp add: Write64_def dram_address_id)
  ultimately show thesis using m2(2) by (intro that)
qed

section \<open>16-bit accesses\<close>

lemma aligned2_succ:
  assumes "unat (a :: u32) mod 2 = 0"
  shows "widx (a + 1) = widx a" "unat (a + 1) mod 4 = unat a mod 4 + 1"
proof -
  obtain k where k: "unat a = 2 * k" using assms by (metis mod_0_imp_dvd dvdE)
  have "unat a < 2 ^ 32" using unat_bound [of a] by simp
  then have "k < 2 ^ 31" using k by simp
  then have u: "unat (a + 1) = 2 * k + 1" using k by (simp add: unat_word_ariths)
  show "widx (a + 1) = widx a" "unat (a + 1) mod 4 = unat a mod 4 + 1"
    unfolding widx_def u k by presburger+
qed

lemma unat_mod2_ucast: "unat (ucast (i :: u64) :: u32) mod 2 = unat i mod 2"
  by (simp add: unat_ucast32 mod_mod_cancel)

lemma aligned2_iff: "(i :: u64) AND 1 = 0 \<longleftrightarrow> unat i mod 2 = 0"
proof -
  have "unat (i AND 1) = unat i mod 2"
    by (simp only: and_literal_masks unsigned_take_bit_eq) (simp add: take_bit_eq_mod)
  then show ?thesis by (metis unat_eq_zero)
qed

lemma read_bytes_2: "read_bytes f a 2 = [f a, f (a + 1)]"
  by (simp add: read_bytes_def numeral_2_eq_2)

lemma write_bytes_2: "write_bytes f a [b, c] = f(a := b, a + 1 := c)"
  using write_bytes_snoc [of "[b]" f a c] by (simp add: write_bytes_single)

lemma Read16_abs:
  assumes "mem_wf m" "i AND 1 = 0"
  shows "Read16 m i = Inr (ucast (le_word (read_bytes (mem_abs m) (ucast i) 2)))"
proof -
  let ?a = "ucast i :: u32"
  have a: "unat ?a mod 2 = 0" using assms(2) by (simp add: unat_mod2_ucast aligned2_iff)
  have "word_at m (ucast (?a + 1)) = word_at m i"
    using aligned2_succ(1) [OF a] by (intro word_at_cong) simp
  then have "read_bytes (mem_abs m) ?a 2 =
      [byte_of (word_at m i) (unat i mod 4), byte_of (word_at m i) (unat i mod 4 + 1)]"
    by (simp add: read_bytes_2 mem_abs_lane aligned2_succ(2) [OF a] unat_mod4_ucast)
  then have "(ucast (le_word (read_bytes (mem_abs m) ?a 2)) :: u16) =
      ucast (drop_bit (8 * (unat i mod 4)) (word_at m i))"
    by (auto intro!: bit_word_eqI simp: bit_simps bit_byte_of not_less algebra_simps)
  then show ?thesis using assms
    by (simp add: Read16_def Read32_wf Let_def unat_and_3)
       (rule bit_word_eqI, auto simp: and_literal_masks bit_simps mult.commute)
qed

lemma Write16_mask_nth:
  "s < 2 \<Longrightarrow> (ucast (Write16_mask ! s) :: u32) = NOT (push_bit (16 * s) (mask 16))"
  by (auto simp: Write16_mask_def less_2_cases_iff mask_eq_exp_minus_1)

lemma byte_of_Write16:
  fixes w :: u32 and d :: u16
  assumes "s < 2" "q < 4"
  defines "w' \<equiv> (w AND ucast (Write16_mask ! s)) OR push_bit (s * 16) (ucast d)"
  shows "byte_of w' (2 * s) = ucast d" "byte_of w' (2 * s + 1) = ucast (drop_bit 8 d)"
    "q \<noteq> 2 * s \<Longrightarrow> q \<noteq> 2 * s + 1 \<Longrightarrow> byte_of w' q = byte_of w q"
proof -
  show "byte_of w' (2 * s) = ucast d" "byte_of w' (2 * s + 1) = ucast (drop_bit 8 d)"
    using assms(1) by (auto intro!: bit_word_eqI
        simp: w'_def bit_byte_of Write16_mask_nth bit_simps algebra_simps)
  assume "q \<noteq> 2 * s" "q \<noteq> 2 * s + 1"
  then have "8 * q + n < 16 * s \<or> 16 * s + 16 \<le> 8 * q + n" if "n < 8" for n
    using that by arith
  then show "byte_of w' q = byte_of w q"
    using assms(1,2) by (intro bit_word_eqI)
      (fastforce simp: w'_def bit_byte_of Write16_mask_nth bit_simps mult.commute not_le)
qed

lemma Write16_abs:
  assumes "mem_wf m" "i AND 1 = 0"
  obtains m' where "Write16 m i d = Inr m'" "mem_wf m'"
    "mem_abs m' = write_bytes (mem_abs m) (ucast i) (le_bytes (ucast d) 2)"
proof -
  let ?a = "ucast i :: u32"
  define s where "s = unat (drop_bit 1 i AND 1)"
  define w where "w = (word_at m i AND ucast (Write16_mask ! s)) OR push_bit (s * 16) (ucast d)"
  obtain m' where m': "Write32 m (dram_address i) w = Inr m'" "mem_wf m'"
    "\<And>j. word_at m' j = (if widx (ucast j) = widx (ucast (dram_address i)) then w else word_at m j)"
    using Write32_wf [OF assms(1) dram_address_aligned] by blast
  have a: "unat ?a mod 2 = 0" using assms(2) by (simp add: unat_mod2_ucast aligned2_iff)
  have s: "s = unat i div 2 mod 2" unfolding s_def
    by (simp only: and_literal_masks unsigned_take_bit_eq unat_drop_bit_eq)
       (simp add: take_bit_eq_mod drop_bit_eq_div)
  then have s2: "s < 2" by simp
  have q: "unat ?a mod 4 = 2 * s"
    using a unfolding s unat_mod4_ucast unat_mod2_ucast by presburger
  have "mem_abs m' x = ((mem_abs m)(?a := ucast d, ?a + 1 := ucast (drop_bit 8 d))) x" for x
  proof (cases "widx x = widx ?a")
    case True
    then have wx: "word_at m (ucast x) = word_at m i" by (intro word_at_cong) simp
    have x0: "x = ?a \<longleftrightarrow> unat x mod 4 = 2 * s"
      using True widx_mod4_inject [of x ?a] q by auto
    have x1: "x = ?a + 1 \<longleftrightarrow> unat x mod 4 = 2 * s + 1"
      using True widx_mod4_inject [of x "?a + 1"] aligned2_succ [OF a] q by auto
    show ?thesis
      unfolding mem_abs_word_update [OF m'(3)] fun_upd_apply x0 x1
      using True byte_of_Write16 [OF s2, of "unat x mod 4" "word_at m i" d]
      by (auto simp: mem_abs_lane wx w_def)
  next
    case False
    moreover from False have "x \<noteq> ?a" "x \<noteq> ?a + 1" using aligned2_succ(1) [OF a] by auto
    ultimately show ?thesis by (simp add: mem_abs_word_update [OF m'(3)])
  qed
  then have "mem_abs m' = (mem_abs m)(?a := ucast d, ?a + 1 := ucast (drop_bit 8 d))" ..
  moreover have "le_bytes (ucast d) 2 = [ucast d, ucast (drop_bit 8 d)]"
    by (simp add: le_bytes_def numeral_2_eq_2) (auto intro!: bit_word_eqI simp: bit_simps)
  moreover have "Write16 m i d = Inr m'"
    using m'(1) assms by (simp add: Write16_def Read32_wf Let_def s_def w_def)
  ultimately show thesis using m'(2) by (intro that) (simp_all add: write_bytes_2)
qed

section \<open>Properties\<close>

text \<open>C19: Every read of a well-formed memory at an address aligned to its width returns the little-endian
  value of the bytes stored from that address on; it never aborts, throws or leaves a vector's bounds.\<close>

theorem memory_reads_bytes:
  assumes "mem_wf m"
  shows "ReadByte m i = Inr (mem_abs m (ucast i)) \<and>
    (i AND 1 = 0 \<longrightarrow> Read16 m i = Inr (ucast (le_word (read_bytes (mem_abs m) (ucast i) 2)))) \<and>
    (i AND 3 = 0 \<longrightarrow> Read32 m i = Inr (ucast (le_word (read_bytes (mem_abs m) (ucast i) 4)))) \<and>
    (i AND 7 = 0 \<longrightarrow> Read64 m i = Inr (le_word (read_bytes (mem_abs m) (ucast i) 8)))"
  by (simp add: assms ReadByte_abs Read16_abs Read32_abs Read64_abs)

theorem memory_reads_bytes_witness:
  "Read64 MemoryWrapper 0x80000000 = Inr (le_word (read_bytes (mem_abs MemoryWrapper) 0x80000000 8))"
  using memory_reads_bytes [OF mem_wf_MemoryWrapper, of "0x80000000"] by simp

text \<open>C20: Every aligned write returns a well-formed memory in which exactly the bytes of its width are
  replaced, in little-endian order; a block that was not allocated yet makes no difference.\<close>

theorem memory_writes_bytes:
  assumes "mem_wf m"
  shows "(\<exists>m'. WriteByte m i b = Inr m' \<and> mem_wf m' \<and> mem_abs m' = (mem_abs m)(ucast i := b)) \<and>
    (i AND 1 = 0 \<longrightarrow> (\<exists>m'. Write16 m i h = Inr m' \<and> mem_wf m' \<and>
       mem_abs m' = write_bytes (mem_abs m) (ucast i) (le_bytes (ucast h) 2))) \<and>
    (i AND 3 = 0 \<longrightarrow> (\<exists>m'. Write32 m i w = Inr m' \<and> mem_wf m' \<and>
       mem_abs m' = write_bytes (mem_abs m) (ucast i) (le_bytes (ucast w) 4))) \<and>
    (i AND 7 = 0 \<longrightarrow> (\<exists>m'. Write64 m i d = Inr m' \<and> mem_wf m' \<and>
       mem_abs m' = write_bytes (mem_abs m) (ucast i) (le_bytes d 8)))"
  by (intro conjI impI) (metis assms WriteByte_abs Write16_abs Write32_abs Write64_abs)+

theorem memory_writes_bytes_witness:
  "\<exists>m'. Write64 MemoryWrapper 0x80000000 5 = Inr m' \<and> mem_wf m' \<and>
     mem_abs m' = write_bytes (mem_abs MemoryWrapper) 0x80000000 (le_bytes 5 8)"
  using memory_writes_bytes [OF mem_wf_MemoryWrapper, of "0x80000000" 0 0 0 5] by simp

text \<open>A 32-bit or 64-bit access of a well-formed memory fails only by the alignment assertion, and
  does so at every misaligned address.\<close>

theorem memory_misaligned_aborts:
  assumes "mem_wf m"
  shows "(Read32 m i = Inl e \<longleftrightarrow> e = Assertion \<and> i AND 3 \<noteq> 0) \<and>
    (Write32 m i w = Inl e \<longleftrightarrow> e = Assertion \<and> i AND 3 \<noteq> 0) \<and>
    (Read64 m i = Inl e \<longleftrightarrow> e = Assertion \<and> i AND 7 \<noteq> 0) \<and>
    (Write64 m i d = Inl e \<longleftrightarrow> e = Assertion \<and> i AND 7 \<noteq> 0)"
proof (intro conjI)
  show "Read32 m i = Inl e \<longleftrightarrow> e = Assertion \<and> i AND 3 \<noteq> 0"
    using assms by (cases "i AND 3 = 0") (simp_all add: Read32_wf, auto simp: Read32_def)
  show "Write32 m i w = Inl e \<longleftrightarrow> e = Assertion \<and> i AND 3 \<noteq> 0"
    by (cases "i AND 3 = 0") (metis Write32_wf [OF assms] Inl_Inr_False, auto simp: Write32_def)
  show "Read64 m i = Inl e \<longleftrightarrow> e = Assertion \<and> i AND 7 \<noteq> 0"
    using assms by (cases "i AND 7 = 0") (simp_all add: Read64_abs, auto simp: Read64_def)
  show "Write64 m i d = Inl e \<longleftrightarrow> e = Assertion \<and> i AND 7 \<noteq> 0"
    by (cases "i AND 7 = 0") (metis Write64_abs [OF assms] Inl_Inr_False, auto simp: Write64_def)
qed

theorem memory_misaligned_aborts_witness: "Read64 MemoryWrapper 4 = Inl Assertion"
  using memory_misaligned_aborts [OF mem_wf_MemoryWrapper, of 4 Assertion 0 0] by simp

end
