(* ===== verification/Elf.thy ===== *)
theory Elf
  imports Memory_Wrapper
begin

text \<open>
  The ELF loader of \<open>RISCV_Emulator.cc\<close>.  The file is the list of its bytes; a pointer to a header is an offset
  in it.  The headers are the structures of \<open>elf.h\<close> (\<open>Windows/win32_elf.h\<close>), given by the names and sizes of their
  members in order; none of them has padding.  Reading outside the file, or through a null pointer, is undefined
  behaviour.  The sources have every function twice, for 32-bit and 64-bit files; the two differ in the
  structures and in the width of addresses, which are the parameter \<open>elf_class\<close> here.
\<close>

section \<open>Structures\<close>

datatype elf_class = ELF32 | ELF64

type_synonym layout = "(string \<times> nat) list"

definition Elf32_Ehdr :: layout where
  "Elf32_Ehdr =
     [(''e_ident'', 16), (''e_type'', 2), (''e_machine'', 2), (''e_version'', 4), (''e_entry'', 4), (''e_phoff'', 4),
      (''e_shoff'', 4), (''e_flags'', 4), (''e_ehsize'', 2), (''e_phentsize'', 2), (''e_phnum'', 2),
      (''e_shentsize'', 2), (''e_shnum'', 2), (''e_shstrndx'', 2)]"

definition Elf64_Ehdr :: layout where
  "Elf64_Ehdr =
     [(''e_ident'', 16), (''e_type'', 2), (''e_machine'', 2), (''e_version'', 4), (''e_entry'', 8), (''e_phoff'', 8),
      (''e_shoff'', 8), (''e_flags'', 4), (''e_ehsize'', 2), (''e_phentsize'', 2), (''e_phnum'', 2),
      (''e_shentsize'', 2), (''e_shnum'', 2), (''e_shstrndx'', 2)]"

definition Elf32_Shdr :: layout where
  "Elf32_Shdr =
     [(''sh_name'', 4), (''sh_type'', 4), (''sh_flags'', 4), (''sh_addr'', 4), (''sh_offset'', 4), (''sh_size'', 4),
      (''sh_link'', 4), (''sh_info'', 4), (''sh_addralign'', 4), (''sh_entsize'', 4)]"

definition Elf64_Shdr :: layout where
  "Elf64_Shdr =
     [(''sh_name'', 4), (''sh_type'', 4), (''sh_flags'', 8), (''sh_addr'', 8), (''sh_offset'', 8), (''sh_size'', 8),
      (''sh_link'', 4), (''sh_info'', 4), (''sh_addralign'', 8), (''sh_entsize'', 8)]"

definition Elf32_Sym :: layout where
  "Elf32_Sym =
     [(''st_name'', 4), (''st_value'', 4), (''st_size'', 4), (''st_info'', 1), (''st_other'', 1), (''st_shndx'', 2)]"

definition Elf64_Sym :: layout where
  "Elf64_Sym =
     [(''st_name'', 4), (''st_info'', 1), (''st_other'', 1), (''st_shndx'', 2), (''st_value'', 8), (''st_size'', 8)]"

definition Elf32_Phdr :: layout where
  "Elf32_Phdr =
     [(''p_type'', 4), (''p_offset'', 4), (''p_vaddr'', 4), (''p_paddr'', 4), (''p_filesz'', 4), (''p_memsz'', 4),
      (''p_flags'', 4), (''p_align'', 4)]"

definition Elf64_Phdr :: layout where
  "Elf64_Phdr =
     [(''p_type'', 4), (''p_flags'', 4), (''p_offset'', 8), (''p_vaddr'', 8), (''p_paddr'', 8), (''p_filesz'', 8),
      (''p_memsz'', 8), (''p_align'', 8)]"

definition sizeof :: "layout \<Rightarrow> nat" where
  "sizeof l = sum_list (map snd l)"

fun member_at :: "layout \<Rightarrow> string \<Rightarrow> nat \<Rightarrow> (nat \<times> nat) option" where
  "member_at [] name off = None"
| "member_at ((n, w) # l) name off = (if n = name then Some (off, w) else member_at l name (off + w))"

definition data_byte :: "u8 list \<Rightarrow> nat \<Rightarrow> u8 res" where
  "data_byte program i = (if i < length program then Inr (program ! i) else Inl Undefined)"

definition data_word :: "u8 list \<Rightarrow> nat \<Rightarrow> nat \<Rightarrow> u64 res" where
  "data_word program i n = (if i + n \<le> length program then Inr (le_word (take n (drop i program))) else Inl Undefined)"

text \<open>\<open>pointer->name\<close>\<close>

definition member :: "layout \<Rightarrow> string \<Rightarrow> u8 list \<Rightarrow> nat \<Rightarrow> u64 res" where
  "member l name program pointer =
     (case member_at l name 0 of
        None \<Rightarrow> Inl Undefined
      | Some (off, w) \<Rightarrow> data_word program (pointer + off) w)"

definition Ehdr :: "elf_class \<Rightarrow> layout" where "Ehdr k = (case k of ELF32 \<Rightarrow> Elf32_Ehdr | ELF64 \<Rightarrow> Elf64_Ehdr)"

definition Shdr :: "elf_class \<Rightarrow> layout" where "Shdr k = (case k of ELF32 \<Rightarrow> Elf32_Shdr | ELF64 \<Rightarrow> Elf64_Shdr)"

definition Sym :: "elf_class \<Rightarrow> layout" where "Sym k = (case k of ELF32 \<Rightarrow> Elf32_Sym | ELF64 \<Rightarrow> Elf64_Sym)"

definition Phdr :: "elf_class \<Rightarrow> layout" where "Phdr k = (case k of ELF32 \<Rightarrow> Elf32_Phdr | ELF64 \<Rightarrow> Elf64_Phdr)"

text \<open>A value of type \<open>Elf32_Addr\<close> or \<open>Elf64_Addr\<close>.\<close>

definition elf_addr :: "elf_class \<Rightarrow> u64 \<Rightarrow> u64" where
  "elf_addr k a = (case k of ELF32 \<Rightarrow> a AND 0xFFFFFFFF | ELF64 \<Rightarrow> a)"

text \<open>The product of a \<open>uint16_t\<close> and a non-negative \<open>int\<close>: undefined when it leaves the range of \<open>int\<close>.\<close>

definition int_product :: "u64 \<Rightarrow> nat \<Rightarrow> nat res" where
  "int_product x n = (if unat x * n < 2 ^ 31 then Inr (unat x * n) else Inl Undefined)"

section \<open>Headers\<close>

definition require :: "'a res \<Rightarrow> ('a \<Rightarrow> bool) \<Rightarrow> bool res \<Rightarrow> bool res" where
  "require r p k = rbind r (\<lambda>x. if p x then k else Inr False)"

definition IsRightElf :: "u8 list \<Rightarrow> bool res" where
  "IsRightElf program =
     require (data_byte program 0) (\<lambda>x. x = 0x7f)
    (require (data_byte program 1) (\<lambda>x. x = of_char (CHR ''E''))
    (require (data_byte program 2) (\<lambda>x. x = of_char (CHR ''L''))
    (require (data_byte program 3) (\<lambda>x. x = of_char (CHR ''F''))
    (require (data_byte program 4) (\<lambda>x. x = 1 \<or> x = 2)
    (require (data_byte program 5) (\<lambda>x. x = 1)
    (require (data_byte program 6) (\<lambda>x. x = 1)
    (require (data_byte program 7) (\<lambda>x. x = 0)
    (require (member Elf32_Ehdr ''e_type'' program 0) (\<lambda>x. x = 2)
    (require (member Elf32_Ehdr ''e_machine'' program 0) (\<lambda>x. x = 243)
    (Inr True))))))))))"

definition Is64BitElf :: "u8 list \<Rightarrow> bool res" where
  "Is64BitElf program = rbind (data_byte program 4) (\<lambda>x. Inr (x = 2))"

text \<open>\<open>GetElf32Shdr\<close> and \<open>GetElf64Shdr\<close>; the null pointer is \<open>None\<close>.\<close>

definition GetElfShdr :: "elf_class \<Rightarrow> u8 list \<Rightarrow> nat \<Rightarrow> nat option res" where
  "GetElfShdr k program index =
     rbind (member (Ehdr k) ''e_shnum'' program 0) (\<lambda>e_shnum.
     if unat e_shnum \<le> index then Inr None
     else
      rbind (member (Ehdr k) ''e_shoff'' program 0) (\<lambda>e_shoff.
      rbind (member (Ehdr k) ''e_shentsize'' program 0) (\<lambda>e_shentsize.
      rbind (int_product e_shentsize index) (\<lambda>off.
      Inr (Some (unat e_shoff + off))))))"

definition deref :: "nat option \<Rightarrow> nat res" where
  "deref p = (case p of None \<Rightarrow> Inl Undefined | Some x \<Rightarrow> Inr x)"

definition GetElfSectionName :: "elf_class \<Rightarrow> u8 list \<Rightarrow> nat \<Rightarrow> nat res" where
  "GetElfSectionName k program shdr =
     rbind (member (Ehdr k) ''e_shstrndx'' program 0) (\<lambda>e_shstrndx.
     rbind (GetElfShdr k program (unat e_shstrndx)) (\<lambda>nhdr.
     rbind (deref nhdr) (\<lambda>nhdr.
     rbind (member (Shdr k) ''sh_offset'' program nhdr) (\<lambda>sh_offset.
     rbind (member (Shdr k) ''sh_name'' program shdr) (\<lambda>sh_name.
     Inr (unat sh_offset + unat sh_name))))))"

text \<open>The searches also print the offset of the section they find.  \<open>!strcmp(s, name)\<close>: the bytes are read up to the first difference.\<close>

fun strcmp_eq :: "u8 list \<Rightarrow> nat \<Rightarrow> string \<Rightarrow> bool res" where
  "strcmp_eq program s [] = rbind (data_byte program s) (\<lambda>b. Inr (b = 0))"
| "strcmp_eq program s (c # cs) =
     rbind (data_byte program s) (\<lambda>b. if b = of_char c then strcmp_eq program (s + 1) cs else Inr False)"

text \<open>Printing a string reads it up to its null byte.\<close>

definition print_cstring :: "u8 list \<Rightarrow> nat \<Rightarrow> unit res" where
  "print_cstring program s = (if 0 \<in> set (drop s program) then Inr () else Inl Undefined)"

fun search_shdr_name :: "elf_class \<Rightarrow> u8 list \<Rightarrow> string \<Rightarrow> nat list \<Rightarrow> nat option res" where
  "search_shdr_name k program name [] = Inr None"
| "search_shdr_name k program name (i # is) =
     rbind (GetElfShdr k program i) (\<lambda>p.
     rbind (deref p) (\<lambda>shdr.
     rbind (GetElfSectionName k program shdr) (\<lambda>section_name.
     rbind (strcmp_eq program section_name name) (\<lambda>eq.
     if eq then rbind (member (Shdr k) ''sh_offset'' program shdr) (\<lambda>_. Inr (Some shdr))
     else search_shdr_name k program name is))))"

definition SearchElfShdr :: "elf_class \<Rightarrow> u8 list \<Rightarrow> string \<Rightarrow> nat option res" where
  "SearchElfShdr k program name =
     rbind (member (Ehdr k) ''e_shnum'' program 0) (\<lambda>e_shnum. search_shdr_name k program name [0..<unat e_shnum])"

fun search_shdr_type :: "elf_class \<Rightarrow> u8 list \<Rightarrow> u64 \<Rightarrow> nat list \<Rightarrow> nat option res" where
  "search_shdr_type k program t [] = Inr None"
| "search_shdr_type k program t (i # is) =
     rbind (GetElfShdr k program i) (\<lambda>p.
     rbind (deref p) (\<lambda>shdr.
     rbind (member (Shdr k) ''sh_type'' program shdr) (\<lambda>sh_type.
     if sh_type = t then
       rbind (GetElfSectionName k program shdr) (\<lambda>section_name.
       rbind (print_cstring program section_name) (\<lambda>_.
       rbind (member (Shdr k) ''sh_offset'' program shdr) (\<lambda>_. Inr (Some shdr))))
     else search_shdr_type k program t is)))"

definition SearchElfShdrType :: "elf_class \<Rightarrow> u8 list \<Rightarrow> u64 \<Rightarrow> nat option res" where
  "SearchElfShdrType k program t =
     rbind (member (Ehdr k) ''e_shnum'' program 0) (\<lambda>e_shnum. search_shdr_type k program t [0..<unat e_shnum])"

section \<open>Loading\<close>

text \<open>
  The copy loop of a segment counts in 32 bits.  A file has at most \<open>2^30\<close> bytes (\<open>ReadFile\<close>), so that a larger size in the
  header makes the loop read outside the file before the counter can wrap: the indices below are those of the code.
\<close>

definition load_segment :: "elf_class \<Rightarrow> u8 list \<Rightarrow> memory \<Rightarrow> nat \<Rightarrow> memory res" where
  "load_segment k program memory phdr =
     rbind (member (Phdr k) ''p_type'' program phdr) (\<lambda>p_type.
     if p_type = 1 then
       rbind (member (Phdr k) ''p_vaddr'' program phdr) (\<lambda>p_vaddr.
       rbind (member (Phdr k) ''p_offset'' program phdr) (\<lambda>p_offset.
       rbind (member (Phdr k) ''p_filesz'' program phdr) (\<lambda>p_filesz.
       rfold (\<lambda>memory i.
         rbind (data_byte program (unat (elf_addr k (p_offset + of_nat i)))) (\<lambda>b.
         WriteByte memory (elf_addr k (p_vaddr + of_nat i)) b)) memory [0..<unat p_filesz])))
     else Inr memory)"

definition load_segments :: "elf_class \<Rightarrow> u8 list \<Rightarrow> memory \<Rightarrow> memory res" where
  "load_segments k program memory =
     rbind (member (Ehdr k) ''e_phnum'' program 0) (\<lambda>e_phnum.
     rfold (\<lambda>memory i.
       rbind (member (Ehdr k) ''e_phoff'' program 0) (\<lambda>e_phoff.
       rbind (member (Ehdr k) ''e_phentsize'' program 0) (\<lambda>e_phentsize.
       rbind (int_product e_phentsize i) (\<lambda>off.
       load_segment k program memory (unat e_phoff + off))))) memory [0..<unat e_phnum])"

text \<open>
  The loop that clears the section \<open>.bss\<close> counts in 32 bits up to a 64-bit end (in a 64-bit file): it does not
  return when the end lies above the counter's range.
\<close>

partial_function (option) bss_loop :: "memory \<Rightarrow> u32 \<Rightarrow> u64 \<Rightarrow> memory res option" where
  "bss_loop memory i end_address =
     (if ucast i < end_address then
        (case WriteByte memory (ucast i) 0 of
           Inl e \<Rightarrow> Some (Inl e)
         | Inr memory \<Rightarrow> bss_loop memory (i + 1) end_address)
      else Some (Inr memory))"

definition clear_bss :: "elf_class \<Rightarrow> u8 list \<Rightarrow> memory \<Rightarrow> memory res option" where
  "clear_bss k program memory =
     (case rbind (SearchElfShdr k program ''.bss'') (\<lambda>shdr.
           case shdr of
             None \<Rightarrow> Inr None
           | Some shdr \<Rightarrow>
               rbind (member (Shdr k) ''sh_addr'' program shdr) (\<lambda>sh_addr.
               rbind (member (Shdr k) ''sh_size'' program shdr) (\<lambda>sh_size.
               Inr (Some (sh_addr, elf_addr k (sh_addr + sh_size)))))) of
        Inl e \<Rightarrow> Some (Inl e)
      | Inr None \<Rightarrow> Some (Inr memory)
      | Inr (Some (sh_addr, end_address)) \<Rightarrow> bss_loop memory (ucast sh_addr) end_address)"

text \<open>\<open>Load32BitElfFile\<close> and \<open>Load64BitElfFile\<close>; \<open>None\<close> when the loader does not return.\<close>

definition LoadBitElfFile :: "elf_class \<Rightarrow> u8 list \<Rightarrow> memory \<Rightarrow> memory res option" where
  "LoadBitElfFile k program memory =
     (case load_segments k program memory of
        Inl e \<Rightarrow> Some (Inl e)
      | Inr memory \<Rightarrow> clear_bss k program memory)"

text \<open>
  A file that \<open>IsRightElf\<close> rejects is loaded all the same: the result only selects a message.  The result is the
  flag \<open>flag_64bit\<close> and the memory.
\<close>

definition LoadElfFile :: "u8 list \<Rightarrow> memory \<Rightarrow> (bool \<times> memory) res option" where
  "LoadElfFile program memory =
     (case rbind (IsRightElf program) (\<lambda>_. Is64BitElf program) of
        Inl e \<Rightarrow> Some (Inl e)
      | Inr flag_64bit \<Rightarrow>
          map_option (\<lambda>r. rbind r (\<lambda>memory. Inr (flag_64bit, memory)))
            (LoadBitElfFile (if flag_64bit then ELF64 else ELF32) program memory))"

section \<open>Symbols and entry point\<close>

fun find_symbol :: "elf_class \<Rightarrow> u8 list \<Rightarrow> string \<Rightarrow> u64 \<Rightarrow> u64 \<Rightarrow> nat list \<Rightarrow> nat option res" where
  "find_symbol k program name symtab strtab [] = Inr None"
| "find_symbol k program name symtab strtab (i # is) =
     (let symbol = unat symtab + i * sizeof (Sym k)
      in rbind (member (Sym k) ''st_name'' program symbol) (\<lambda>st_name.
         rbind (strcmp_eq program (unat strtab + unat st_name) name) (\<lambda>eq.
         if eq then Inr (Some symbol) else find_symbol k program name symtab strtab is)))"

text \<open>The number of symbols is converted to \<open>int\<close>.\<close>

definition FindElfSymbol :: "elf_class \<Rightarrow> u8 list \<Rightarrow> string \<Rightarrow> nat option res" where
  "FindElfSymbol k program target_name =
     rbind (SearchElfShdrType k program 2) (\<lambda>shdr.
     case shdr of
       None \<Rightarrow> Inr None
     | Some shdr \<Rightarrow>
         rbind (member (Shdr k) ''sh_size'' program shdr) (\<lambda>sh_size.
         let number = sint (ucast (sh_size div of_nat (sizeof (Sym k))) :: u32)
         in rbind (SearchElfShdr k program ''.strtab'') (\<lambda>strtab_shdr.
            case strtab_shdr of
              None \<Rightarrow> Inr None
            | Some strtab_shdr \<Rightarrow>
                if number \<le> 0 then Inr None
                else
                 rbind (member (Shdr k) ''sh_offset'' program shdr) (\<lambda>symtab.
                 rbind (member (Shdr k) ''sh_offset'' program strtab_shdr) (\<lambda>strtab.
                 find_symbol k program target_name symtab strtab [0..<nat number])))))"

text \<open>The value is cut to 32 bits, and \<open>-1\<close> is returned as \<open>uint32_t\<close>.\<close>

definition GetElfGlobalPointer :: "elf_class \<Rightarrow> u8 list \<Rightarrow> u32 res" where
  "GetElfGlobalPointer k program =
     rbind (FindElfSymbol k program ''__global_pointer$'') (\<lambda>symbol.
     case symbol of
       Some symbol \<Rightarrow> rbind (member (Sym k) ''st_value'' program symbol) (\<lambda>v. Inr (ucast v))
     | None \<Rightarrow> Inr (- 1))"

definition GetGlobalPointer :: "bool \<Rightarrow> u8 list \<Rightarrow> u64 res" where
  "GetGlobalPointer flag_64bit program =
     rbind (GetElfGlobalPointer (if flag_64bit then ELF32 else ELF64) program) (\<lambda>v. Inr (ucast v))"

definition GetElfEntryPoint :: "elf_class \<Rightarrow> u8 list \<Rightarrow> u32 res" where
  "GetElfEntryPoint k program = rbind (member (Ehdr k) ''e_entry'' program 0) (\<lambda>v. Inr (ucast v))"

definition GetEntryPoint :: "bool \<Rightarrow> u8 list \<Rightarrow> u64 res" where
  "GetEntryPoint flag_64bit program =
     rbind (GetElfEntryPoint (if flag_64bit then ELF64 else ELF32) program) (\<lambda>v. Inr (ucast v))"

end
