(* ===== verification/Pte.thy ===== *)
theory Pte
  imports Bit_Tools
begin

text \<open>
  \<open>pte.h\<close> and \<open>pte.cpp\<close>: page table entries of Sv32 (\<open>Pte32\<close>) and Sv39 (\<open>Pte64\<close>).  An
  entry is its only member \<open>pte_\<close>, a 32-bit or 64-bit word; a setter returns the new
  entry.  The locale \<open>word_field\<close> states what a getter and a setter of one field promise;
  it is interpreted for the fields of both classes.
\<close>

section \<open>Sv32 entries\<close>

definition Pte32_GetPpn :: "u32 \<Rightarrow> u32" where
  "Pte32_GetPpn pte = bitcrop pte 22 10"

definition Pte32_GetPpn1 :: "u32 \<Rightarrow> u32" where
  "Pte32_GetPpn1 pte = bitcrop pte 12 20"

definition Pte32_GetPpn0 :: "u32 \<Rightarrow> u32" where
  "Pte32_GetPpn0 pte = bitcrop pte 10 10"

definition Pte32_GetRsw :: "u32 \<Rightarrow> u32" where
  "Pte32_GetRsw pte = bitcrop pte 2 8"

definition Pte32_GetD :: "u32 \<Rightarrow> u32" where
  "Pte32_GetD pte = bitcrop pte 1 7"

definition Pte32_GetA :: "u32 \<Rightarrow> u32" where
  "Pte32_GetA pte = bitcrop pte 1 6"

definition Pte32_GetG :: "u32 \<Rightarrow> u32" where
  "Pte32_GetG pte = bitcrop pte 1 5"

definition Pte32_GetU :: "u32 \<Rightarrow> u32" where
  "Pte32_GetU pte = bitcrop pte 1 4"

definition Pte32_GetX :: "u32 \<Rightarrow> u32" where
  "Pte32_GetX pte = bitcrop pte 1 3"

definition Pte32_GetW :: "u32 \<Rightarrow> u32" where
  "Pte32_GetW pte = bitcrop pte 1 2"

definition Pte32_GetR :: "u32 \<Rightarrow> u32" where
  "Pte32_GetR pte = bitcrop pte 1 1"

definition Pte32_GetV :: "u32 \<Rightarrow> u32" where
  "Pte32_GetV pte = bitcrop pte 1 0"

definition Pte32_SetPpn :: "u32 \<Rightarrow> u32 \<Rightarrow> u32" where
  "Pte32_SetPpn pte ppn = (pte AND NOT (GenMask 22 10)) OR push_bit 10 ppn"

definition Pte32_SetRsw :: "u32 \<Rightarrow> u32 \<Rightarrow> u32" where
  "Pte32_SetRsw pte rsw = (pte AND NOT (GenMask 2 8)) OR push_bit 8 rsw"

definition Pte32_SetD :: "u32 \<Rightarrow> int \<Rightarrow> u32" where
  "Pte32_SetD pte value = SetBit pte value 7"

definition Pte32_SetA :: "u32 \<Rightarrow> int \<Rightarrow> u32" where
  "Pte32_SetA pte value = SetBit pte value 6"

definition Pte32_SetG :: "u32 \<Rightarrow> int \<Rightarrow> u32" where
  "Pte32_SetG pte value = SetBit pte value 5"

definition Pte32_SetU :: "u32 \<Rightarrow> int \<Rightarrow> u32" where
  "Pte32_SetU pte value = SetBit pte value 4"

definition Pte32_SetX :: "u32 \<Rightarrow> int \<Rightarrow> u32" where
  "Pte32_SetX pte value = SetBit pte value 3"

definition Pte32_SetW :: "u32 \<Rightarrow> int \<Rightarrow> u32" where
  "Pte32_SetW pte value = SetBit pte value 2"

definition Pte32_SetR :: "u32 \<Rightarrow> int \<Rightarrow> u32" where
  "Pte32_SetR pte value = SetBit pte value 1"

definition Pte32_SetV :: "u32 \<Rightarrow> int \<Rightarrow> u32" where
  "Pte32_SetV pte value = SetBit pte value 0"

definition Pte32_IsValid :: "u32 \<Rightarrow> bool" where
  "Pte32_IsValid pte =
     (let v = Pte32_GetV pte; r = Pte32_GetR pte; w = Pte32_GetW pte
      in if v = 0 \<or> (r = 0 \<and> w = 1) then False else True)"

definition Pte32_IsLeaf :: "u32 \<Rightarrow> bool" where
  "Pte32_IsLeaf pte \<longleftrightarrow> Pte32_GetR pte \<noteq> 0 \<or> Pte32_GetW pte \<noteq> 0 \<or> Pte32_GetX pte \<noteq> 0"

section \<open>Sv39 entries\<close>

text \<open>The getters return \<open>uint32_t\<close>: the 44-bit page number is cut to its low 32 bits.\<close>

definition Pte64_GetPpn :: "u64 \<Rightarrow> u32" where
  "Pte64_GetPpn pte = ucast (bitcrop pte 44 10)"

definition Pte64_GetPpn2 :: "u64 \<Rightarrow> u32" where
  "Pte64_GetPpn2 pte = ucast (bitcrop pte 26 28)"

definition Pte64_GetPpn1 :: "u64 \<Rightarrow> u32" where
  "Pte64_GetPpn1 pte = ucast (bitcrop pte 9 19)"

definition Pte64_GetPpn0 :: "u64 \<Rightarrow> u32" where
  "Pte64_GetPpn0 pte = ucast (bitcrop pte 9 10)"

definition Pte64_GetRsw :: "u64 \<Rightarrow> u32" where
  "Pte64_GetRsw pte = ucast (bitcrop pte 2 8)"

definition Pte64_GetD :: "u64 \<Rightarrow> u32" where
  "Pte64_GetD pte = ucast (bitcrop pte 1 7)"

definition Pte64_GetA :: "u64 \<Rightarrow> u32" where
  "Pte64_GetA pte = ucast (bitcrop pte 1 6)"

definition Pte64_GetG :: "u64 \<Rightarrow> u32" where
  "Pte64_GetG pte = ucast (bitcrop pte 1 5)"

definition Pte64_GetU :: "u64 \<Rightarrow> u32" where
  "Pte64_GetU pte = ucast (bitcrop pte 1 4)"

definition Pte64_GetX :: "u64 \<Rightarrow> u32" where
  "Pte64_GetX pte = ucast (bitcrop pte 1 3)"

definition Pte64_GetW :: "u64 \<Rightarrow> u32" where
  "Pte64_GetW pte = ucast (bitcrop pte 1 2)"

definition Pte64_GetR :: "u64 \<Rightarrow> u32" where
  "Pte64_GetR pte = ucast (bitcrop pte 1 1)"

definition Pte64_GetV :: "u64 \<Rightarrow> u32" where
  "Pte64_GetV pte = ucast (bitcrop pte 1 0)"

definition Pte64_SetPpn :: "u64 \<Rightarrow> u64 \<Rightarrow> u64" where
  "Pte64_SetPpn pte ppn = (pte AND NOT (GenMask 22 10)) OR push_bit 10 ppn"

definition Pte64_SetRsw :: "u64 \<Rightarrow> u32 \<Rightarrow> u64" where
  "Pte64_SetRsw pte rsw = (pte AND NOT (GenMask 2 8)) OR push_bit 8 (ucast rsw)"

definition Pte64_SetD :: "u64 \<Rightarrow> int \<Rightarrow> u64" where
  "Pte64_SetD pte value = SetBit pte value 7"

definition Pte64_SetA :: "u64 \<Rightarrow> int \<Rightarrow> u64" where
  "Pte64_SetA pte value = SetBit pte value 6"

definition Pte64_SetG :: "u64 \<Rightarrow> int \<Rightarrow> u64" where
  "Pte64_SetG pte value = SetBit pte value 5"

definition Pte64_SetU :: "u64 \<Rightarrow> int \<Rightarrow> u64" where
  "Pte64_SetU pte value = SetBit pte value 4"

definition Pte64_SetX :: "u64 \<Rightarrow> int \<Rightarrow> u64" where
  "Pte64_SetX pte value = SetBit pte value 3"

definition Pte64_SetW :: "u64 \<Rightarrow> int \<Rightarrow> u64" where
  "Pte64_SetW pte value = SetBit pte value 2"

definition Pte64_SetR :: "u64 \<Rightarrow> int \<Rightarrow> u64" where
  "Pte64_SetR pte value = SetBit pte value 1"

definition Pte64_SetV :: "u64 \<Rightarrow> int \<Rightarrow> u64" where
  "Pte64_SetV pte value = SetBit pte value 0"

definition Pte64_IsValid :: "u64 \<Rightarrow> bool" where
  "Pte64_IsValid pte =
     (let v = Pte64_GetV pte; r = Pte64_GetR pte; w = Pte64_GetW pte
      in if v = 0 \<or> (r = 0 \<and> w = 1) then False else True)"

definition Pte64_IsLeaf :: "u64 \<Rightarrow> bool" where
  "Pte64_IsLeaf pte \<longleftrightarrow> Pte64_GetR pte \<noteq> 0 \<or> Pte64_GetW pte \<noteq> 0 \<or> Pte64_GetX pte \<noteq> 0"

section \<open>Fields\<close>

text \<open>
  A field of a word: reading returns the value last written if it fits (\<open>ok\<close>), writing
  twice is writing once, and writing back what was read changes nothing.
\<close>

locale word_field =
  fixes get :: "'r \<Rightarrow> 'v"
    and put :: "'r \<Rightarrow> 'v \<Rightarrow> 'r"
    and ok :: "'v \<Rightarrow> bool"
  assumes get_put: "ok v \<Longrightarrow> get (put r v) = v"
    and put_put: "ok v \<Longrightarrow> put (put r v) v' = put r v'"
    and put_get: "put r (get r) = r"
    and ok_get: "ok (get r)"
begin

lemma put_eq_iff: "ok v \<Longrightarrow> put r v = r \<longleftrightarrow> get r = v"
  using get_put put_get by metis

lemma put_inject: "ok v \<Longrightarrow> ok w \<Longrightarrow> put r v = put r w \<longleftrightarrow> v = w"
  using get_put by metis

text \<open>Restoring a saved value undoes any later write.\<close>

lemma restore: "ok v \<Longrightarrow> put (put r v) (get r) = r"
  by (simp add: put_put put_get)

end

text \<open>A one-bit flag accessed through \<open>bitcrop\<close> and \<open>SetBit\<close>.\<close>

definition flag_get :: "nat \<Rightarrow> 'a::len word \<Rightarrow> bool" where
  "flag_get n r \<longleftrightarrow> bitcrop r 1 n \<noteq> 0"

definition flag_put :: "nat \<Rightarrow> 'a::len word \<Rightarrow> bool \<Rightarrow> 'a word" where
  "flag_put n r b = SetBit r (of_bool b) n"

lemma flag_get_iff: "flag_get n r \<longleftrightarrow> bit r n"
  by (simp add: flag_get_def)

lemma bit_flag_put: "bit (flag_put n (r :: 'a::len word) b) k \<longleftrightarrow> (if k = n then b \<and> k < LENGTH('a) else bit r k)"
  by (auto simp: flag_put_def SetBit_eq bit_simps dest: bit_imp_le_length)

lemma word_field_flag: "n < LENGTH('a) \<Longrightarrow> word_field (flag_get n) (flag_put n :: 'a::len word \<Rightarrow> _) (\<lambda>_. True)"
  by unfold_locales (auto intro!: bit_word_eqI simp: flag_get_iff bit_flag_put split: if_splits)

lemmas pte32_defs =
  Pte32_GetPpn_def Pte32_GetPpn1_def Pte32_GetPpn0_def Pte32_GetRsw_def Pte32_SetPpn_def Pte32_SetRsw_def
  Pte32_GetD_def Pte32_SetD_def Pte32_GetA_def Pte32_SetA_def Pte32_GetG_def Pte32_SetG_def Pte32_GetU_def Pte32_SetU_def Pte32_GetX_def Pte32_SetX_def Pte32_GetW_def Pte32_SetW_def Pte32_GetR_def Pte32_SetR_def Pte32_GetV_def Pte32_SetV_def

lemmas pte64_defs =
  Pte64_GetPpn_def Pte64_GetPpn2_def Pte64_GetPpn1_def Pte64_GetPpn0_def Pte64_GetRsw_def Pte64_SetPpn_def Pte64_SetRsw_def
  Pte64_GetD_def Pte64_SetD_def Pte64_GetA_def Pte64_SetA_def Pte64_GetG_def Pte64_SetG_def Pte64_GetU_def Pte64_SetU_def Pte64_GetX_def Pte64_SetX_def Pte64_GetW_def Pte64_SetW_def Pte64_GetR_def Pte64_SetR_def Pte64_GetV_def Pte64_SetV_def

interpretation pte32_D: word_field "\<lambda>p. Pte32_GetD p \<noteq> 0" "\<lambda>p b. Pte32_SetD p (of_bool b)" "\<lambda>_. True"
  using word_field_flag [where 'a = 32, of 7]
  by (simp add: pte32_defs flag_get_def [abs_def] flag_put_def [abs_def])

interpretation pte32_A: word_field "\<lambda>p. Pte32_GetA p \<noteq> 0" "\<lambda>p b. Pte32_SetA p (of_bool b)" "\<lambda>_. True"
  using word_field_flag [where 'a = 32, of 6]
  by (simp add: pte32_defs flag_get_def [abs_def] flag_put_def [abs_def])

interpretation pte32_G: word_field "\<lambda>p. Pte32_GetG p \<noteq> 0" "\<lambda>p b. Pte32_SetG p (of_bool b)" "\<lambda>_. True"
  using word_field_flag [where 'a = 32, of 5]
  by (simp add: pte32_defs flag_get_def [abs_def] flag_put_def [abs_def])

interpretation pte32_U: word_field "\<lambda>p. Pte32_GetU p \<noteq> 0" "\<lambda>p b. Pte32_SetU p (of_bool b)" "\<lambda>_. True"
  using word_field_flag [where 'a = 32, of 4]
  by (simp add: pte32_defs flag_get_def [abs_def] flag_put_def [abs_def])

interpretation pte32_X: word_field "\<lambda>p. Pte32_GetX p \<noteq> 0" "\<lambda>p b. Pte32_SetX p (of_bool b)" "\<lambda>_. True"
  using word_field_flag [where 'a = 32, of 3]
  by (simp add: pte32_defs flag_get_def [abs_def] flag_put_def [abs_def])

interpretation pte32_W: word_field "\<lambda>p. Pte32_GetW p \<noteq> 0" "\<lambda>p b. Pte32_SetW p (of_bool b)" "\<lambda>_. True"
  using word_field_flag [where 'a = 32, of 2]
  by (simp add: pte32_defs flag_get_def [abs_def] flag_put_def [abs_def])

interpretation pte32_R: word_field "\<lambda>p. Pte32_GetR p \<noteq> 0" "\<lambda>p b. Pte32_SetR p (of_bool b)" "\<lambda>_. True"
  using word_field_flag [where 'a = 32, of 1]
  by (simp add: pte32_defs flag_get_def [abs_def] flag_put_def [abs_def])

interpretation pte32_V: word_field "\<lambda>p. Pte32_GetV p \<noteq> 0" "\<lambda>p b. Pte32_SetV p (of_bool b)" "\<lambda>_. True"
  using word_field_flag [where 'a = 32, of 0]
  by (simp add: pte32_defs flag_get_def [abs_def] flag_put_def [abs_def])

interpretation pte64_D: word_field "\<lambda>p. Pte64_GetD p \<noteq> 0" "\<lambda>p b. Pte64_SetD p (of_bool b)" "\<lambda>_. True"
  using word_field_flag [where 'a = 64, of 7]
  by (simp add: pte64_defs flag_get_def [abs_def] flag_put_def [abs_def])

interpretation pte64_A: word_field "\<lambda>p. Pte64_GetA p \<noteq> 0" "\<lambda>p b. Pte64_SetA p (of_bool b)" "\<lambda>_. True"
  using word_field_flag [where 'a = 64, of 6]
  by (simp add: pte64_defs flag_get_def [abs_def] flag_put_def [abs_def])

interpretation pte64_G: word_field "\<lambda>p. Pte64_GetG p \<noteq> 0" "\<lambda>p b. Pte64_SetG p (of_bool b)" "\<lambda>_. True"
  using word_field_flag [where 'a = 64, of 5]
  by (simp add: pte64_defs flag_get_def [abs_def] flag_put_def [abs_def])

interpretation pte64_U: word_field "\<lambda>p. Pte64_GetU p \<noteq> 0" "\<lambda>p b. Pte64_SetU p (of_bool b)" "\<lambda>_. True"
  using word_field_flag [where 'a = 64, of 4]
  by (simp add: pte64_defs flag_get_def [abs_def] flag_put_def [abs_def])

interpretation pte64_X: word_field "\<lambda>p. Pte64_GetX p \<noteq> 0" "\<lambda>p b. Pte64_SetX p (of_bool b)" "\<lambda>_. True"
  using word_field_flag [where 'a = 64, of 3]
  by (simp add: pte64_defs flag_get_def [abs_def] flag_put_def [abs_def])

interpretation pte64_W: word_field "\<lambda>p. Pte64_GetW p \<noteq> 0" "\<lambda>p b. Pte64_SetW p (of_bool b)" "\<lambda>_. True"
  using word_field_flag [where 'a = 64, of 2]
  by (simp add: pte64_defs flag_get_def [abs_def] flag_put_def [abs_def])

interpretation pte64_R: word_field "\<lambda>p. Pte64_GetR p \<noteq> 0" "\<lambda>p b. Pte64_SetR p (of_bool b)" "\<lambda>_. True"
  using word_field_flag [where 'a = 64, of 1]
  by (simp add: pte64_defs flag_get_def [abs_def] flag_put_def [abs_def])

interpretation pte64_V: word_field "\<lambda>p. Pte64_GetV p \<noteq> 0" "\<lambda>p b. Pte64_SetV p (of_bool b)" "\<lambda>_. True"
  using word_field_flag [where 'a = 64, of 0]
  by (simp add: pte64_defs flag_get_def [abs_def] flag_put_def [abs_def])

lemma Pte32_ppn_bits:
  "bit (Pte32_SetPpn p v) n \<longleftrightarrow> (if 10 \<le> n then n < 32 \<and> bit v (n - 10) else bit p n)"
  by (auto simp: pte32_defs bit_tools bit_simps)

interpretation pte32_ppn: word_field Pte32_GetPpn Pte32_SetPpn "\<lambda>v. v < 2 ^ 22"
proof
  fix v r v' :: u32
  show "v < 2 ^ 22 \<Longrightarrow> Pte32_GetPpn (Pte32_SetPpn r v) = v"
    by (rule bit_word_eqI) (auto simp: Pte32_GetPpn_def bitcrop_eq bit_simps Pte32_ppn_bits dest: bit_less_exp [of v 22, simplified])
  show "Pte32_SetPpn (Pte32_SetPpn r v) v' = Pte32_SetPpn r v'"
    by (rule bit_word_eqI) (auto simp: Pte32_ppn_bits)
  show "Pte32_SetPpn r (Pte32_GetPpn r) = r"
    by (rule bit_word_eqI) (auto simp: Pte32_ppn_bits Pte32_GetPpn_def bitcrop_eq bit_simps)
  show "Pte32_GetPpn r < 2 ^ 22"
    using unat_take_bit_less [of 22 "drop_bit 10 r"]
    by (simp add: Pte32_GetPpn_def bitcrop_eq word_less_nat_alt unsigned_take_bit_eq)
qed

lemma Pte32_IsValid_iff: "Pte32_IsValid p \<longleftrightarrow> bit p 0 \<and> (bit p 2 \<longrightarrow> bit p 1)"
  by (auto simp: Pte32_IsValid_def pte32_defs)

lemma Pte32_IsLeaf_iff: "Pte32_IsLeaf p \<longleftrightarrow> bit p 1 \<or> bit p 2 \<or> bit p 3"
  by (simp add: Pte32_IsLeaf_def pte32_defs)

lemma Pte64_IsValid_iff: "Pte64_IsValid p \<longleftrightarrow> bit p 0 \<and> (bit p 2 \<longrightarrow> bit p 1)"
  by (auto simp: Pte64_IsValid_def pte64_defs)

lemma Pte64_IsLeaf_iff: "Pte64_IsLeaf p \<longleftrightarrow> bit p 1 \<or> bit p 2 \<or> bit p 3"
  by (simp add: Pte64_IsLeaf_def pte64_defs)

end
