(* ===== verification/Mmu.thy ===== *)
theory Mmu
  imports Pte Memory_Wrapper
begin

text \<open>
  \<open>Mmu.h\<close> and \<open>Mmu.cpp\<close>: address translation by Sv32 and Sv39 page walks.  The shared
  memory is an argument and a result; the members \<open>mxl_\<close>, \<open>page_fault_\<close>,
  \<open>faulting_address_\<close> and \<open>privilege_\<close> form the record \<open>mmu\<close>.  The abstract specification
  \<open>pt_translate\<close> is the page walk of the privileged architecture, without its permission checks, which the code does not make, on the byte view of memory,
  written with division and remainder on natural numbers and parametrised by the paging
  scheme; \<open>VirtualToPhysical64\<close> and \<open>VirtualToPhysical32\<close> are shown to implement its
  instances \<open>sv39\<close> and \<open>sv32\<close>.
\<close>

section \<open>State\<close>

datatype PrivilegeMode = USER_MODE | SUPERVISOR_MODE | MACHINE_MODE

record mmu =
  mmu_mxl :: int
  mmu_page_fault :: bool
  mmu_faulting_address :: u64
  mmu_privilege :: PrivilegeMode

definition mmu_init :: mmu where
  "mmu_init = \<lparr>mmu_mxl = 0, mmu_page_fault = False, mmu_faulting_address = 0,
               mmu_privilege = MACHINE_MODE\<rparr>"

definition SetMxl :: "mmu \<Rightarrow> int \<Rightarrow> mmu" where
  "SetMxl u mxl = u\<lparr>mmu_mxl := mxl\<rparr>"

definition SetPrivilege :: "mmu \<Rightarrow> PrivilegeMode \<Rightarrow> mmu" where
  "SetPrivilege u privilege = u\<lparr>mmu_privilege := privilege\<rparr>"

definition mmu_fault :: "mmu \<Rightarrow> u64 \<Rightarrow> mmu" where
  "mmu_fault u virtual_address =
     u\<lparr>mmu_page_fault := True, mmu_faulting_address := virtual_address\<rparr>"

definition kPageSize :: nat where "kPageSize = 2 ^ 12"

definition kMmuLevels :: nat where "kMmuLevels = 2"

definition k64BitMmuLevels :: nat where "k64BitMmuLevels = 3"

section \<open>Sv39\<close>

text \<open>How the loop over the levels ends: in a page fault, or at a leaf entry.\<close>

datatype 'a walk = Walk_fault | Walk_leaf nat (walk_pte: 'a) (walk_address: 'a)

fun walk64 :: "memory \<Rightarrow> (nat \<Rightarrow> u64) \<Rightarrow> nat \<Rightarrow> u64 \<Rightarrow> u64 walk res" where
  "walk64 mem vpn level ppn =
     (let pte_address = ppn * of_nat kPageSize + vpn level * 8
      in rbind (Read64 mem pte_address) (\<lambda>pte.
         if \<not> Pte64_IsValid pte then Inr Walk_fault
         else if Pte64_IsLeaf pte then Inr (Walk_leaf level pte pte_address)
         else case level of
                0 \<Rightarrow> Inr Walk_fault
              | Suc level' \<Rightarrow> walk64 mem vpn level' (ucast (Pte64_GetPpn pte))))"

declare walk64.simps [simp del]

definition VirtualToPhysical64 ::
  "mmu \<Rightarrow> memory \<Rightarrow> u64 \<Rightarrow> u64 \<Rightarrow> bool \<Rightarrow> (u64 \<times> mmu \<times> memory) res" where
  "VirtualToPhysical64 u mem virtual_address satp write_access =
     (let mode = (ucast (bitcrop satp 4 60) :: u8)
      in if mode = 0 then Inr (virtual_address, u, mem)
         else if mode \<noteq> 8 then Inr (virtual_address, mmu_fault u virtual_address, mem)
         else
          let ppn = bitcrop satp 44 0;
              vpn = (\<lambda>level. if level = 2 then bitcrop virtual_address 9 30
                             else if level = 1 then bitcrop virtual_address 9 21
                             else bitcrop virtual_address 9 12);
              offset = (ucast (bitcrop virtual_address 12 0) :: u16)
          in rbind (walk64 mem vpn (k64BitMmuLevels - 1) ppn) (\<lambda>w. case w of
               Walk_fault \<Rightarrow> Inr (virtual_address, mmu_fault u virtual_address, mem)
             | Walk_leaf level pte pte_address \<Rightarrow>
                 if (level > 0 \<and> Pte64_GetPpn0 pte \<noteq> 0) \<or> (level > 1 \<and> Pte64_GetPpn1 pte \<noteq> 0)
                 then Inr (virtual_address, mmu_fault u virtual_address, mem)
                 else
                  let pte = Pte64_SetA pte 1;
                      pte = (if write_access then Pte64_SetD pte 1 else pte)
                  in rbind (Write64 mem pte_address pte) (\<lambda>mem'.
                     let ppn2 = (ucast (Pte64_GetPpn2 pte) :: u64);
                         ppn1 = (if level > 1 then vpn 1 else ucast (Pte64_GetPpn1 pte));
                         ppn0 = (if level > 0 then ucast (vpn 0) else Pte64_GetPpn0 pte :: u32);
                         physical_address = push_bit 30 ppn2 OR push_bit 21 ppn1
                           OR push_bit 12 (ucast ppn0) OR ucast offset
                     in Inr (physical_address AND 0x00FFFFFFFFFFFFFF, u, mem'))))"

section \<open>Sv32\<close>

fun walk32 :: "memory \<Rightarrow> (nat \<Rightarrow> u32) \<Rightarrow> nat \<Rightarrow> u32 \<Rightarrow> u32 walk res" where
  "walk32 mem vpn level ppn =
     (let pte_address = ppn * of_nat kPageSize + vpn level * 4
      in rbind (Read32 mem (ucast pte_address)) (\<lambda>pte.
         if \<not> Pte32_IsValid pte then Inr Walk_fault
         else if Pte32_IsLeaf pte then Inr (Walk_leaf level pte pte_address)
         else case level of
                0 \<Rightarrow> Inr Walk_fault
              | Suc level' \<Rightarrow> walk32 mem vpn level' (Pte32_GetPpn pte)))"

declare walk32.simps [simp del]

definition VirtualToPhysical32 ::
  "mmu \<Rightarrow> memory \<Rightarrow> u64 \<Rightarrow> u64 \<Rightarrow> bool \<Rightarrow> (u64 \<times> mmu \<times> memory) res" where
  "VirtualToPhysical32 u mem virtual_address satp write_access =
     (let mode = (ucast (bitcrop satp 1 31) :: u8)
      in if mode = 0 then Inr (virtual_address, u, mem)
         else
          let ppn = (ucast (bitcrop satp 22 0) :: u32);
              vpn1 = (ucast (bitcrop virtual_address 10 22) :: u16);
              vpn0 = (ucast (bitcrop virtual_address 10 12) :: u16);
              offset = (ucast (bitcrop virtual_address 12 0) :: u16);
              vpn = (\<lambda>level. if level = kMmuLevels - 1 then ucast vpn1 else ucast vpn0)
          in rbind (walk32 mem vpn (kMmuLevels - 1) ppn) (\<lambda>w. case w of
               Walk_fault \<Rightarrow> Inr (virtual_address, mmu_fault u virtual_address, mem)
             | Walk_leaf level pte pte_address \<Rightarrow>
                 if level > 0 \<and> Pte32_GetPpn0 pte \<noteq> 0
                 then Inr (virtual_address, mmu_fault u virtual_address, mem)
                 else
                  let pte = Pte32_SetA pte 1;
                      pte = (if write_access then Pte32_SetD pte 1 else pte)
                  in rbind (Write32 mem (ucast pte_address) pte) (\<lambda>mem'.
                     let ppn1 = (ucast (Pte32_GetPpn1 pte) :: u64);
                         ppn0 = (if level = 1 then ucast vpn0 else Pte32_GetPpn0 pte :: u32);
                         physical_address = push_bit 22 ppn1
                           OR push_bit 12 (ucast ppn0) OR ucast offset
                     in Inr (physical_address AND 0xFFFFFFFF, u, mem'))))"

definition Mmu_VirtualToPhysical ::
  "mmu \<Rightarrow> memory \<Rightarrow> u64 \<Rightarrow> u64 \<Rightarrow> bool \<Rightarrow> (u64 \<times> mmu \<times> memory) res" where
  "Mmu_VirtualToPhysical u mem virtual_address satp write_access =
     (let u = u\<lparr>mmu_page_fault := False, mmu_faulting_address := 0\<rparr>
      in if mmu_privilege u = MACHINE_MODE then Inr (virtual_address, u, mem)
         else if mmu_mxl u = 1 then VirtualToPhysical32 u mem virtual_address satp write_access
         else VirtualToPhysical64 u mem virtual_address satp write_access)"

section \<open>The translation algorithm\<close>

text \<open>
  A paging scheme: number of levels, index bits per level, bytes of an entry and bits of
  a physical page number.
\<close>

record paging =
  pg_levels :: nat
  pg_index_bits :: nat
  pg_pte_bytes :: nat
  pg_ppn_bits :: nat

definition sv39 :: paging where
  "sv39 = \<lparr>pg_levels = 3, pg_index_bits = 9, pg_pte_bytes = 8, pg_ppn_bits = 44\<rparr>"

definition sv32 :: paging where
  "sv32 = \<lparr>pg_levels = 2, pg_index_bits = 10, pg_pte_bytes = 4, pg_ppn_bits = 22\<rparr>"

definition pte_ppn :: "paging \<Rightarrow> u64 \<Rightarrow> nat" where
  "pte_ppn c p = unat p div 2 ^ 10 mod 2 ^ pg_ppn_bits c"

definition va_index :: "paging \<Rightarrow> u64 \<Rightarrow> nat \<Rightarrow> nat" where
  "va_index c va level = unat va div 2 ^ (12 + pg_index_bits c * level) mod 2 ^ pg_index_bits c"

definition read_pte :: "paging \<Rightarrow> bytes \<Rightarrow> nat \<Rightarrow> u64" where
  "read_pte c f a = le_word (read_bytes f (of_nat a) (pg_pte_bytes c))"

fun pt_walk :: "paging \<Rightarrow> bytes \<Rightarrow> u64 \<Rightarrow> nat \<Rightarrow> nat \<Rightarrow> (nat \<times> u64 \<times> nat) option" where
  "pt_walk c f va level table =
     (let a = table * 2 ^ 12 + va_index c va level * pg_pte_bytes c; p = read_pte c f a
      in if \<not> bit p 0 \<or> (bit p 2 \<and> \<not> bit p 1) then None
         else if bit p 1 \<or> bit p 3 then Some (level, p, a)
         else case level of 0 \<Rightarrow> None | Suc level' \<Rightarrow> pt_walk c f va level' (pte_ppn c p))"

declare pt_walk.simps [simp del]

definition pte_mark :: "bool \<Rightarrow> u64 \<Rightarrow> u64" where
  "pte_mark write p = (if write then set_bit 7 (set_bit 6 p) else set_bit 6 p)"

definition pt_translate :: "paging \<Rightarrow> bytes \<Rightarrow> nat \<Rightarrow> u64 \<Rightarrow> bool \<Rightarrow> (nat \<times> bytes) option" where
  "pt_translate c f root va write =
     (case pt_walk c f va (pg_levels c - 1) root of
        None \<Rightarrow> None
      | Some (level, p, a) \<Rightarrow>
          if pte_ppn c p mod 2 ^ (pg_index_bits c * level) \<noteq> 0 then None
          else Some (pte_ppn c p * 2 ^ 12 + unat va mod 2 ^ (12 + pg_index_bits c * level),
                     write_bytes f (of_nat a) (le_bytes (pte_mark write p) (pg_pte_bytes c))))"

lemma paging_sel [simp]:
  "pg_levels sv39 = 3" "pg_index_bits sv39 = 9" "pg_pte_bytes sv39 = 8" "pg_ppn_bits sv39 = 44"
  "pg_levels sv32 = 2" "pg_index_bits sv32 = 10" "pg_pte_bytes sv32 = 4" "pg_ppn_bits sv32 = 22"
  by (simp_all add: sv39_def sv32_def)

section \<open>Slices of words as natural numbers\<close>

lemma unat_slice:
  "k < LENGTH('a) \<Longrightarrow> unat (take_bit k (drop_bit n (x :: 'a::len word))) = unat x div 2 ^ n mod 2 ^ k"
  by (simp only: unsigned_take_bit_eq unat_drop_bit_eq) (simp only: take_bit_eq_mod drop_bit_eq_div)

lemma of_nat_slice:
  assumes "k < LENGTH('a)"
  shows "of_nat (unat x div 2 ^ n mod 2 ^ k) = take_bit k (drop_bit n (x :: 'a::len word))"
  by (simp flip: unat_slice [OF assms])

lemma unat_ucast_up: "LENGTH('a) \<le> LENGTH('b) \<Longrightarrow> unat (ucast (x :: 'a::len word) :: 'b::len word) = unat x"
  by (simp add: unsigned_ucast_eq take_bit_nat_eq_self_iff)
     (rule less_le_trans [OF unat_bound], simp)

lemma of_nat_unat_ucast: "(of_nat (unat (x :: 'a::len word)) :: 'b::len word) = ucast x"
  by simp

lemma of_nat_slice_ucast:
  assumes "k < LENGTH('a)"
  shows "(of_nat (unat x div 2 ^ n mod 2 ^ k) :: 'b::len word) = ucast (take_bit k (drop_bit n (x :: 'a::len word)))"
  by (simp only: unat_slice [OF assms, symmetric] of_nat_unat_ucast)

lemma ucast_down_mult:
  "LENGTH('b) \<le> LENGTH('a) \<Longrightarrow> (ucast (x * y :: 'a::len word) :: 'b::len word) = ucast x * ucast y"
proof (transfer fixing: )
  fix x y :: int
  assume l: "LENGTH('b) \<le> LENGTH('a)"
  have "take_bit LENGTH('b) (take_bit LENGTH('a) x * take_bit LENGTH('a) y) =
    take_bit LENGTH('b) (take_bit LENGTH('b) (take_bit LENGTH('a) x) * take_bit LENGTH('b) (take_bit LENGTH('a) y))"
    by (simp only: take_bit_mult)
  with l show "take_bit LENGTH('b) (take_bit LENGTH('a) (x * y)) =
    take_bit LENGTH('b) (take_bit LENGTH('a) x * take_bit LENGTH('a) y)"
    by (simp only: take_bit_take_bit min_absorb1 take_bit_mult)
qed

lemma take_bit_multiple: "take_bit k (x * 2 ^ k :: 'a::len word) = 0"
  by (simp add: take_bit_eq_0_iff)

section \<open>The Sv39 walk\<close>

lemma page_aligned:
  "((p * of_nat kPageSize + v * 8 :: u64) AND 7 = 0)"
proof -
  have "p * of_nat kPageSize + v * 8 = (p * 2 ^ 9 + v) * (2 ^ 3 :: u64)"
    by (simp add: kPageSize_def algebra_simps)
  then show ?thesis by (simp only: and_literal_masks take_bit_multiple)
qed

lemma page_aligned4: "((ucast (p * of_nat kPageSize + v * 4 :: u32) :: u64) AND 3 = 0)"
proof -
  have "p * of_nat kPageSize + v * 4 = (p * 2 ^ 10 + v) * (2 ^ 2 :: u32)"
    by (simp add: kPageSize_def algebra_simps)
  then have "take_bit 2 (p * of_nat kPageSize + v * 4) = 0" by (simp only: take_bit_multiple)
  then show ?thesis
    by (auto simp: and_literal_masks bit_eq_iff bit_take_bit_iff bit_ucast_iff)
qed

lemma pt_valid64: "Pte64_IsValid p \<longleftrightarrow> \<not> (\<not> bit p 0 \<or> (bit p 2 \<and> \<not> bit p 1))"
  by (auto simp: Pte64_IsValid_iff)

lemma pt_leaf64: "Pte64_IsValid p \<Longrightarrow> Pte64_IsLeaf p \<longleftrightarrow> bit p 1 \<or> bit p 3"
  by (auto simp: Pte64_IsValid_iff Pte64_IsLeaf_iff)

text \<open>The walk of the code follows the walk of the specification; entry addresses agree modulo \<open>2^32\<close>.\<close>

definition walk_rel :: "('a::len word) walk \<Rightarrow> (nat \<times> u64 \<times> nat) option \<Rightarrow> bool" where
  "walk_rel w s \<longleftrightarrow>
     (case w of Walk_fault \<Rightarrow> s = None
      | Walk_leaf l p a \<Rightarrow> (\<exists>b. s = Some (l, ucast p, b) \<and> of_nat b = (ucast a :: u32)))"

lemma walk_rel_simps [simp]:
  "walk_rel Walk_fault s \<longleftrightarrow> s = None"
  "walk_rel (Walk_leaf l p a) s \<longleftrightarrow> (\<exists>b. s = Some (l, ucast p, b) \<and> of_nat b = (ucast a :: u32))"
  by (simp_all add: walk_rel_def)

lemma walk64_entry:
  assumes "mem_wf m" and "v = of_nat i" and "of_nat (table * 2 ^ 12) = (ucast (ppn * of_nat kPageSize) :: u32)"
  shows "of_nat (table * 2 ^ 12 + i * 8) = (ucast (ppn * of_nat kPageSize + v * 8) :: u32)"
    and "Read64 m (ppn * of_nat kPageSize + v * 8) = Inr (read_pte sv39 (mem_abs m) (table * 2 ^ 12 + i * 8))"
proof -
  show ab: "of_nat (table * 2 ^ 12 + i * 8) = (ucast (ppn * of_nat kPageSize + v * 8) :: u32)"
    using assms(2,3) by (simp add: ucast_down_add ucast_down_mult ucast_down_of_nat)
  show "Read64 m (ppn * of_nat kPageSize + v * 8) = Inr (read_pte sv39 (mem_abs m) (table * 2 ^ 12 + i * 8))"
    using assms(1) unfolding read_pte_def ab by (simp add: Read64_abs page_aligned)
qed

lemma pte_ppn_page64:
  "of_nat (pte_ppn sv39 p * 2 ^ 12) = (ucast (ucast (Pte64_GetPpn p) * of_nat kPageSize :: u64) :: u32)"
proof -
  have "of_nat (pte_ppn sv39 p * 2 ^ 12) = (push_bit 12 (ucast (take_bit 44 (drop_bit 10 p))) :: u32)"
    by (simp only: pte_ppn_def paging_sel of_nat_mult of_nat_slice_ucast [where 'a = 64, simplified])
       (simp add: push_bit_eq_mult)
  also have "\<dots> = ucast (push_bit 12 (ucast (Pte64_GetPpn p)) :: u64)"
    by (rule bit_word_eqI) (auto simp: pte64_defs bitcrop_eq bit_simps)
  finally show ?thesis by (simp add: kPageSize_def push_bit_eq_mult mult.commute)
qed

lemma walk64_refines:
  assumes "mem_wf m"
    and "\<And>l. l \<le> level \<Longrightarrow> vpn l = of_nat (va_index sv39 va l)"
    and "of_nat (table * 2 ^ 12) = (ucast (ppn * of_nat kPageSize) :: u32)"
  shows "\<exists>w. walk64 m vpn level ppn = Inr w \<and> walk_rel w (pt_walk sv39 (mem_abs m) va level table) \<and>
    (\<forall>l p a. w = Walk_leaf l p a \<longrightarrow> a AND 7 = 0 \<and> l \<le> level)"
  using assms(2,3)
proof (induction level arbitrary: ppn table)
  case 0
  show ?case
    using walk64_entry [OF assms(1) 0(1) [OF order.refl] 0(2)] page_aligned [of ppn "vpn 0"]
    unfolding walk64.simps [of m vpn 0] pt_walk.simps [of sv39 _ va 0]
    by (auto simp: Let_def pt_valid64 pt_leaf64)
next
  case (Suc level)
  let ?p = "read_pte sv39 (mem_abs m) (table * 2 ^ 12 + va_index sv39 va (Suc level) * 8)"
  have IH: "\<exists>w. walk64 m vpn level (ucast (Pte64_GetPpn ?p)) = Inr w \<and>
      walk_rel w (pt_walk sv39 (mem_abs m) va level (pte_ppn sv39 ?p)) \<and>
      (\<forall>l p a. w = Walk_leaf l p a \<longrightarrow> a AND 7 = 0 \<and> l \<le> level)"
    using Suc.prems(1) by (intro Suc.IH pte_ppn_page64) simp
  show ?case
    using walk64_entry [OF assms(1) Suc.prems(1) [OF order.refl] Suc.prems(2)] page_aligned [of ppn "vpn (Suc level)"] IH
    unfolding walk64.simps [of m vpn "Suc level"] pt_walk.simps [of sv39 _ va "Suc level"]
    by (cases "Pte64_IsValid ?p"; cases "Pte64_IsLeaf ?p")
       (auto simp: pt_valid64 pt_leaf64 Let_def)
qed

section \<open>Sv39 refinement\<close>

lemma va_index39: "of_nat (va_index sv39 va l) = (take_bit 9 (drop_bit (12 + 9 * l) va) :: u64)"
  by (simp add: va_index_def of_nat_slice [where 'a = 64 and k = 9, simplified])

lemma word_add_or:
  "(\<And>n. n < LENGTH('a) \<Longrightarrow> \<not> (bit x n \<and> bit y n)) \<Longrightarrow> x + y = x OR (y :: 'a::len word)"
  by (rule disjunctive_add_eq_or) (auto simp: bit_eq_iff bit_and_iff)

lemma unat_mod_take_bit: "unat (w :: 'a::len word) mod 2 ^ k = unat (take_bit k w)"
  by (subst unsigned_take_bit_eq) (rule take_bit_eq_mod [symmetric])

lemma pte_ppn_unat: "pte_ppn c p = unat (take_bit (pg_ppn_bits c) (drop_bit 10 p))"
  unfolding pte_ppn_def unat_mod_take_bit [symmetric] unat_drop_bit_eq by (simp only: drop_bit_eq_div)

lemma take_bit_0_iff: "take_bit k (w :: 'a::len word) = 0 \<longleftrightarrow> (\<forall>n<k. \<not> bit w n)"
  by (auto simp: bit_eq_iff bit_take_bit_iff dest: bit_imp_le_length)

lemma superpage39:
  assumes "l \<le> 2"
  shows "(l > 0 \<and> Pte64_GetPpn0 p \<noteq> 0) \<or> (l > 1 \<and> Pte64_GetPpn1 p \<noteq> 0) \<longleftrightarrow>
    pte_ppn sv39 p mod 2 ^ (9 * l) \<noteq> 0"
proof -
  let ?w = "take_bit 44 (drop_bit 10 p) :: u64"
  have "Pte64_GetPpn0 p = ucast (take_bit 9 ?w)" "Pte64_GetPpn1 p = ucast (take_bit 9 (drop_bit 9 ?w))"
    by (auto intro!: bit_word_eqI simp: pte64_defs bitcrop_eq bit_simps)
  moreover have "(ucast (take_bit 9 x) :: u32) = 0 \<longleftrightarrow> take_bit 9 (x :: u64) = 0" for x
    by (auto simp: bit_eq_iff bit_ucast_iff bit_take_bit_iff)
  ultimately have g: "Pte64_GetPpn0 p = 0 \<longleftrightarrow> (\<forall>n<9. \<not> bit ?w n)"
      "Pte64_GetPpn1 p = 0 \<longleftrightarrow> (\<forall>n<9. \<not> bit ?w (9 + n))"
    by (simp_all only: take_bit_0_iff bit_drop_bit_eq o_def)
  have "(\<forall>n<18. \<not> bit ?w n) \<longleftrightarrow> (\<forall>n<9. \<not> bit ?w n) \<and> (\<forall>n<9. \<not> bit ?w (9 + n))"
    by (auto simp: less_diff_conv) (metis add.commute le_add_diff_inverse less_diff_conv2 not_less numeral_Bit0 add_less_cancel_left)
  moreover have "pte_ppn sv39 p mod 2 ^ (9 * l) = 0 \<longleftrightarrow> (\<forall>n<9 * l. \<not> bit ?w n)"
    by (simp only: pte_ppn_unat paging_sel unat_mod_take_bit unat_eq_zero take_bit_0_iff)
  ultimately show ?thesis using assms g
    by (cases "l = 0"; cases "l = 1") (auto simp: le_Suc_eq numeral_2_eq_2)
qed

text \<open>The physical address: page number and page offset do not overlap.\<close>

lemma pt_physical:
  assumes "pte_ppn c p mod 2 ^ k = 0"
  shows "of_nat (pte_ppn c p * 2 ^ 12 + unat va mod 2 ^ (12 + k)) =
    (push_bit 12 (take_bit (pg_ppn_bits c) (drop_bit 10 p)) OR take_bit (12 + k) va :: u64)"
proof -
  let ?w = "take_bit (pg_ppn_bits c) (drop_bit 10 p) :: u64"
  have z: "\<not> bit ?w n" if "n < k" for n
    using assms that by (simp only: pte_ppn_unat unat_mod_take_bit unat_eq_zero take_bit_0_iff) simp
  have "of_nat (pte_ppn c p * 2 ^ 12 + unat va mod 2 ^ (12 + k)) =
      (push_bit 12 ?w + take_bit (12 + k) va :: u64)"
    by (simp only: pte_ppn_unat unat_mod_take_bit of_nat_add of_nat_mult of_nat_unat_ucast ucast_id) (simp add: push_bit_eq_mult)
  also have "\<dots> = push_bit 12 ?w OR take_bit (12 + k) va"
  proof (rule word_add_or)
    fix n
    show "\<not> (bit (push_bit 12 ?w) n \<and> bit (take_bit (12 + k) va) n)"
      using z [of "n - 12"]
      by (cases "n - 12 < k") (auto simp: bit_push_bit_iff bit_take_bit_iff)
  qed
  finally show ?thesis .
qed

lemma bit_shift_slice:
  "t \<le> s \<Longrightarrow> bit (push_bit s (take_bit w (drop_bit t (p :: 'a::len word)))) n \<longleftrightarrow>
     n < LENGTH('a) \<and> s \<le> n \<and> n < s + w \<and> bit p (n - (s - t))"
  by (auto simp: bit_simps add.commute)

lemma ucast_slice_via:
  "w \<le> LENGTH('b) \<Longrightarrow> ucast (ucast (take_bit w x) :: 'b::len word) = take_bit w (x :: 'a::len word)"
  by (rule bit_word_eqI) (auto simp: bit_simps)

lemma pte64_slices:
  "(ucast (Pte64_GetPpn2 p) :: u64) = take_bit 26 (drop_bit 28 p)"
  "(ucast (Pte64_GetPpn1 p) :: u64) = take_bit 9 (drop_bit 19 p)"
  "(ucast (Pte64_GetPpn0 p) :: u64) = take_bit 9 (drop_bit 10 p)"
  by (simp_all add: pte64_defs bitcrop_eq ucast_slice_via)

text \<open>The address that the code composes from the fields of the leaf and of the virtual address.\<close>

lemma pa_bits39:
  fixes p va :: u64
  assumes "l \<le> 2" "\<And>n. n < 9 * l \<Longrightarrow> \<not> bit p (10 + n)"
  shows "(push_bit 30 (ucast (Pte64_GetPpn2 p) :: u64)
    OR push_bit 21 (if l > 1 then bitcrop va 9 21 else ucast (Pte64_GetPpn1 p))
    OR push_bit 12 (ucast (if l > 0 then ucast (bitcrop va 9 12) else Pte64_GetPpn0 p :: u32))
    OR ucast (ucast (bitcrop va 12 0) :: u16)) AND 0x00FFFFFFFFFFFFFF =
   push_bit 12 (take_bit 44 (drop_bit 10 p)) OR take_bit (12 + 9 * l) va" (is "?L = ?R")
proof (rule bit_word_eqI)
  fix n assume n: "n < LENGTH(64)"
  have m: "(0x00FFFFFFFFFFFFFF :: u64) = mask 56" by (simp add: mask_eq_exp_minus_1)
  have "bit ?L n \<longleftrightarrow> n < 56 \<and>
    (30 \<le> n \<and> bit p (n - 2)
     \<or> 21 \<le> n \<and> n < 30 \<and> (if l > 1 then bit va n else bit p (n - 2))
     \<or> 12 \<le> n \<and> n < 21 \<and> (if l > 0 then bit va n else bit p (n - 2))
     \<or> n < 12 \<and> bit va n)"
    using n unfolding m by (auto simp: if_distrib [of ucast] if_distrib [of "push_bit _"] pte64_slices bitcrop_eq
        ucast_slice_via bit_and_iff bit_or_iff bit_shift_slice bit_mask_iff bit_take_bit_iff simp del: and_mask_take_bit)
  moreover have "bit ?R n \<longleftrightarrow> 12 \<le> n \<and> n < 56 \<and> bit p (n - 2) \<or> n < 12 + 9 * l \<and> bit va n"
    using n by (auto simp: bit_or_iff bit_shift_slice bit_take_bit_iff)
  moreover have "\<not> bit p (n - 2)" if "12 \<le> n" "n < 12 + 9 * l"
  proof -
    have "10 + (n - 12) = n - 2" "n - 12 < 9 * l" using that by auto
    then show ?thesis using assms(2) [of "n - 12"] by simp
  qed
  moreover have "l = 0 \<or> l = 1 \<or> l = 2" using assms(1) by auto
  ultimately show "bit ?L n = bit ?R n"
    by (elim disjE; cases "n < 12"; cases "n < 21"; cases "n < 30"; simp)
qed

lemma bit_pte_mark: "8 \<le> n \<Longrightarrow> bit (pte_mark write p) n \<longleftrightarrow> bit p n"
  by (auto simp: pte_mark_def bit_set_bit_iff)

lemma pte_mark_ppn: "drop_bit 10 (pte_mark write p) = drop_bit 10 p"
  by (rule bit_word_eqI) (simp add: bit_drop_bit_eq bit_pte_mark)

lemma pte64_mark:
  "(if write then Pte64_SetD (Pte64_SetA p 1) 1 else Pte64_SetA p 1) = pte_mark write p"
  by (simp add: pte_mark_def pte64_defs SetBit_eq)

abbreviation vpn39 :: "u64 \<Rightarrow> nat \<Rightarrow> u64" where
  "vpn39 va \<equiv> \<lambda>level. if level = 2 then bitcrop va 9 30 else if level = 1 then bitcrop va 9 21
     else bitcrop va 9 12"

lemma V2P64_leaf:
  assumes wf: "mem_wf m" and mode: "bitcrop satp 4 60 = 8"
    and w: "walk64 m (vpn39 va) 2 (bitcrop satp 44 0) = Inr (Walk_leaf l p a)"
    and l: "l \<le> 2" and a7: "a AND 7 = 0" and ppn: "pte_ppn sv39 p mod 2 ^ (9 * l) = 0"
  shows "\<exists>m'. VirtualToPhysical64 u m va satp write =
      Inr (of_nat (pte_ppn sv39 p * 2 ^ 12 + unat va mod 2 ^ (12 + 9 * l)), u, m') \<and> mem_wf m' \<and>
      mem_abs m' = write_bytes (mem_abs m) (ucast a) (le_bytes (pte_mark write p) 8)"
proof -
  obtain m' where m': "Write64 m a (pte_mark write p) = Inr m'" "mem_wf m'"
      "mem_abs m' = write_bytes (mem_abs m) (ucast a) (le_bytes (pte_mark write p) 8)"
    using Write64_abs [OF wf a7] by blast
  have z: "\<not> bit (pte_mark write p) (10 + n)" if "n < 9 * l" for n
  proof -
    have "take_bit (9 * l) (take_bit 44 (drop_bit 10 p)) = 0"
      using ppn by (simp only: pte_ppn_unat paging_sel unat_mod_take_bit unat_eq_zero)
    with that l have "\<not> bit p (10 + n)"
      by (auto simp: take_bit_0_iff bit_simps)
    then show ?thesis by (simp add: bit_pte_mark)
  qed
  have "VirtualToPhysical64 u m va satp write =
      Inr (push_bit 12 (take_bit 44 (drop_bit 10 (pte_mark write p))) OR take_bit (12 + 9 * l) va, u, m')"
    using w mode m'(1) superpage39 [OF l, of p] ppn pa_bits39 [OF l z, where va = va]
    by (simp add: VirtualToPhysical64_def k64BitMmuLevels_def pte64_mark)
       (auto simp: Let_def)
  with m' show ?thesis unfolding pte_mark_ppn pt_physical [OF ppn] paging_sel by blast
qed

text \<open>Sv39 translation when \<open>satp\<close> selects it: the code and the specification agree on faults, on the
  physical address and on the memory afterwards.\<close>

lemma V2P64_sv39:
  assumes wf: "mem_wf m" and mode: "bitcrop satp 4 60 = 8"
  shows "case pt_translate sv39 (mem_abs m) (unat satp mod 2 ^ 44) va write of
      None \<Rightarrow> VirtualToPhysical64 u m va satp write = Inr (va, mmu_fault u va, m)
    | Some (pa, f) \<Rightarrow> \<exists>m'. VirtualToPhysical64 u m va satp write = Inr (of_nat pa, u, m') \<and>
        mem_wf m' \<and> mem_abs m' = f"
proof -
  have vpn: "vpn39 va l = of_nat (va_index sv39 va l)" if "l \<le> 2" for l
    using that by (auto simp: va_index39 bitcrop_eq le_Suc_eq numeral_2_eq_2)
  have table: "of_nat (unat satp mod 2 ^ 44 * 2 ^ 12) = (ucast (bitcrop satp 44 0 * of_nat kPageSize) :: u32)"
    by (simp only: unat_mod_take_bit of_nat_mult of_nat_unat_ucast) (simp add: bitcrop_eq kPageSize_def ucast_down_mult)
  obtain w where w: "walk64 m (vpn39 va) 2 (bitcrop satp 44 0) = Inr w"
      "walk_rel w (pt_walk sv39 (mem_abs m) va 2 (unat satp mod 2 ^ 44))"
      "\<And>l p a. w = Walk_leaf l p a \<Longrightarrow> a AND 7 = 0 \<and> l \<le> 2"
    using walk64_refines [OF wf vpn table] by blast
  show ?thesis
  proof (cases w)
    case Walk_fault
    with w mode show ?thesis
      by (simp add: pt_translate_def VirtualToPhysical64_def Let_def k64BitMmuLevels_def)
  next
    case (Walk_leaf l p a)
    then have l: "l \<le> 2" "a AND 7 = 0" using w(3) by auto
    show ?thesis
    proof (cases "pte_ppn sv39 p mod 2 ^ (9 * l) = 0")
      case False
      with w Walk_leaf mode superpage39 [OF l(1), of p] show ?thesis
        by (auto simp: pt_translate_def VirtualToPhysical64_def Let_def k64BitMmuLevels_def)
    next
      case True
      note leaf = w(1) [unfolded Walk_leaf]
      from w(2) Walk_leaf show ?thesis
        using V2P64_leaf [OF wf mode leaf l True, of u "write"] True
        by (auto simp: pt_translate_def)
    qed
  qed
qed

section \<open>Sv32 refinement\<close>

lemma pt_valid32: "Pte32_IsValid p \<longleftrightarrow> \<not> (\<not> bit (ucast p :: u64) 0 \<or> (bit (ucast p :: u64) 2 \<and> \<not> bit (ucast p :: u64) 1))"
  by (auto simp: Pte32_IsValid_iff bit_ucast_iff)

lemma pt_leaf32: "Pte32_IsValid p \<Longrightarrow> Pte32_IsLeaf p \<longleftrightarrow> bit (ucast p :: u64) 1 \<or> bit (ucast p :: u64) 3"
  by (auto simp: Pte32_IsValid_iff Pte32_IsLeaf_iff bit_ucast_iff)

lemma ucast_le_word4: "length bs = 4 \<Longrightarrow> ucast (ucast (le_word bs) :: u32) = le_word bs"
  using le_word_less [of bs] by (simp add: ucast_ucast_32)

lemma walk32_entry:
  assumes "mem_wf m" and "v = of_nat i" and "of_nat (table * 2 ^ 12) = (ppn * of_nat kPageSize :: u32)"
  shows "of_nat (table * 2 ^ 12 + i * 4) = (ppn * of_nat kPageSize + v * 4 :: u32)"
    and "Read32 m (ucast (ppn * of_nat kPageSize + v * 4)) =
      Inr (ucast (read_pte sv32 (mem_abs m) (table * 2 ^ 12 + i * 4)))"
    and "ucast (ucast (read_pte sv32 (mem_abs m) (table * 2 ^ 12 + i * 4)) :: u32) =
      read_pte sv32 (mem_abs m) (table * 2 ^ 12 + i * 4)"
proof -
  show ab: "of_nat (table * 2 ^ 12 + i * 4) = (ppn * of_nat kPageSize + v * 4 :: u32)"
    using assms(2,3) by simp
  show "Read32 m (ucast (ppn * of_nat kPageSize + v * 4)) =
      Inr (ucast (read_pte sv32 (mem_abs m) (table * 2 ^ 12 + i * 4)))"
    using assms(1) page_aligned4 [of ppn v] unfolding read_pte_def ab
    by (simp add: Read32_abs ucast_up_ucast)
  show "ucast (ucast (read_pte sv32 (mem_abs m) (table * 2 ^ 12 + i * 4)) :: u32) =
      read_pte sv32 (mem_abs m) (table * 2 ^ 12 + i * 4)"
    by (simp add: read_pte_def ucast_le_word4)
qed

lemma pte_ppn_unat32: "pte_ppn sv32 (ucast (p :: u32)) = unat (take_bit 22 (drop_bit 10 p))"
  using unat_slice [of 22 10 p] by (simp add: pte_ppn_def unat_ucast_up)

lemma pte_ppn_page32: "of_nat (pte_ppn sv32 (ucast p) * 2 ^ 12) = (Pte32_GetPpn p * of_nat kPageSize :: u32)"
  by (simp only: pte_ppn_unat32 of_nat_mult of_nat_unat_ucast)
     (simp add: kPageSize_def pte32_defs bitcrop_eq)

lemma walk32_refines:
  assumes "mem_wf m"
    and "\<And>l. l \<le> level \<Longrightarrow> vpn l = of_nat (va_index sv32 va l)"
    and "of_nat (table * 2 ^ 12) = (ppn * of_nat kPageSize :: u32)"
  shows "\<exists>w. walk32 m vpn level ppn = Inr w \<and> walk_rel w (pt_walk sv32 (mem_abs m) va level table) \<and>
    (\<forall>l p a. w = Walk_leaf l p a \<longrightarrow> (ucast a :: u64) AND 3 = 0 \<and> l \<le> level)"
  using assms(2,3)
proof (induction level arbitrary: ppn table)
  case 0
  note entry = walk32_entry [OF assms(1) 0(1) [OF order.refl] 0(2)]
  define p where "p = (ucast (read_pte sv32 (mem_abs m) (table * 2 ^ 12 + va_index sv32 va 0 * 4)) :: u32)"
  show ?case
    using entry page_aligned4 [of ppn "vpn 0"]
    unfolding walk32.simps [of m vpn 0] pt_walk.simps [of sv32 _ va 0] p_def [symmetric]
    by (cases "Pte32_IsValid p"; cases "Pte32_IsLeaf p") (auto simp: pt_valid32 pt_leaf32 Let_def)
next
  case (Suc level)
  note entry = walk32_entry [OF assms(1) Suc.prems(1) [OF order.refl] Suc.prems(2)]
  define p where "p = (ucast (read_pte sv32 (mem_abs m) (table * 2 ^ 12 + va_index sv32 va (Suc level) * 4)) :: u32)"
  have IH: "\<exists>w. walk32 m vpn level (Pte32_GetPpn p) = Inr w \<and>
      walk_rel w (pt_walk sv32 (mem_abs m) va level (pte_ppn sv32 (ucast p))) \<and>
      (\<forall>l p a. w = Walk_leaf l p a \<longrightarrow> (ucast a :: u64) AND 3 = 0 \<and> l \<le> level)"
    using Suc.prems(1) by (intro Suc.IH pte_ppn_page32) simp
  show ?case
    using entry page_aligned4 [of ppn "vpn (Suc level)"] IH
    unfolding walk32.simps [of m vpn "Suc level"] pt_walk.simps [of sv32 _ va "Suc level"] p_def [symmetric]
    by (cases "Pte32_IsValid p"; cases "Pte32_IsLeaf p") (auto simp: pt_valid32 pt_leaf32 Let_def)
qed

lemma superpage32:
  assumes "l \<le> 1"
  shows "l > 0 \<and> Pte32_GetPpn0 p \<noteq> 0 \<longleftrightarrow> pte_ppn sv32 (ucast p) mod 2 ^ (10 * l) \<noteq> 0"
proof -
  have "Pte32_GetPpn0 p = take_bit 10 (take_bit 22 (drop_bit 10 p))"
    by (simp add: pte32_defs bitcrop_eq take_bit_take_bit)
  moreover have "l = 0 \<or> l = 1" using assms by auto
  ultimately show ?thesis
    by (elim disjE) (simp_all add: pte_ppn_unat32 unat_mod_take_bit [of _ 10, simplified] unat_gt_0)
qed

lemma pte32_mark:
  "ucast (if write then Pte32_SetD (Pte32_SetA p 1) 1 else Pte32_SetA p 1) = pte_mark write (ucast p)"
  by (rule bit_word_eqI) (auto simp: pte_mark_def pte32_defs SetBit_eq bit_simps)

lemma pa_bits32:
  fixes p :: u32 and va :: u64
  assumes "l \<le> 1" "\<And>n. n < 10 * l \<Longrightarrow> \<not> bit p (10 + n)"
  shows "(push_bit 22 (ucast (Pte32_GetPpn1 p) :: u64)
    OR push_bit 12 (ucast (if l = 1 then ucast (ucast (bitcrop va 10 12) :: u16) else Pte32_GetPpn0 p :: u32))
    OR ucast (ucast (bitcrop va 12 0) :: u16)) AND 0xFFFFFFFF =
   take_bit 32 (push_bit 12 (take_bit 22 (drop_bit 10 (ucast p))) OR take_bit (12 + 10 * l) va)" (is "?L = ?R")
proof (rule bit_word_eqI)
  fix n assume n: "n < LENGTH(64)"
  have s: "(ucast (Pte32_GetPpn1 p) :: u64) = take_bit 12 (drop_bit 20 (ucast p))"
     "(ucast (Pte32_GetPpn0 p) :: u64) = take_bit 10 (drop_bit 10 (ucast p))"
     "ucast (ucast (ucast (take_bit 10 (drop_bit 12 va)) :: u16) :: u32) = take_bit 10 (drop_bit 12 va)"
    by (auto intro!: bit_word_eqI simp: pte32_defs bitcrop_eq bit_simps)
  have "bit ?L n \<longleftrightarrow> n < 32 \<and>
    (22 \<le> n \<and> bit p (n - 2)
     \<or> 12 \<le> n \<and> n < 22 \<and> (if l = 1 then bit va n else bit p (n - 2))
     \<or> n < 12 \<and> bit va n)"
    using n by (auto simp: if_distrib [of ucast] if_distrib [of "push_bit _"] s bitcrop_eq bit_ucast_iff
        ucast_slice_via and_literal_masks bit_or_iff bit_shift_slice bit_take_bit_iff)
  moreover have "bit ?R n \<longleftrightarrow> n < 32 \<and> (12 \<le> n \<and> bit p (n - 2) \<or> n < 12 + 10 * l \<and> bit va n)"
    using n by (auto simp: bit_or_iff bit_shift_slice bit_take_bit_iff bit_ucast_iff)
  moreover have "\<not> bit p (n - 2)" if "12 \<le> n" "n < 12 + 10 * l"
  proof -
    have "10 + (n - 12) = n - 2" "n - 12 < 10 * l" using that by auto
    then show ?thesis using assms(2) [of "n - 12"] by simp
  qed
  moreover have "l = 0 \<or> l = 1" using assms(1) by auto
  ultimately show "bit ?L n = bit ?R n"
    by (elim disjE; cases "n < 12"; cases "n < 22"; simp)
qed

abbreviation vpn32 :: "u64 \<Rightarrow> nat \<Rightarrow> u32" where
  "vpn32 va \<equiv> \<lambda>level. if level = 1 then ucast (ucast (bitcrop va 10 22) :: u16)
     else ucast (ucast (bitcrop va 10 12) :: u16)"

lemma V2P32_leaf:
  assumes wf: "mem_wf m" and mode: "bit satp 31"
    and w: "walk32 m (vpn32 va) 1 (ucast (bitcrop satp 22 0)) = Inr (Walk_leaf l p a)"
    and l: "l \<le> 1" and a3: "(ucast a :: u64) AND 3 = 0" and ppn: "pte_ppn sv32 (ucast p) mod 2 ^ (10 * l) = 0"
  shows "\<exists>m'. VirtualToPhysical32 u m va satp write =
      Inr (take_bit 32 (of_nat (pte_ppn sv32 (ucast p) * 2 ^ 12 + unat va mod 2 ^ (12 + 10 * l))), u, m') \<and> mem_wf m' \<and>
      mem_abs m' = write_bytes (mem_abs m) a (le_bytes (pte_mark write (ucast p)) 4)"
proof -
  define q where "q = (if write then Pte32_SetD (Pte32_SetA p 1) 1 else Pte32_SetA p 1)"
  have q: "ucast q = pte_mark write (ucast p)" by (simp only: q_def pte32_mark)
  obtain m' where m': "Write32 m (ucast a) q = Inr m'" "mem_wf m'"
      "mem_abs m' = write_bytes (mem_abs m) a (le_bytes (pte_mark write (ucast p)) 4)"
    using Write32_abs [OF wf a3, of q] unfolding q by (auto simp: ucast_up_ucast)
  have qp: "drop_bit 10 (ucast q :: u64) = drop_bit 10 (ucast p)" by (simp only: q pte_mark_ppn)
  have z: "\<not> bit q (10 + n)" if "n < 10 * l" for n
  proof -
    have "take_bit (10 * l) (take_bit 22 (drop_bit 10 (ucast q :: u64))) = 0"
      using ppn by (simp only: pte_ppn_unat paging_sel unat_mod_take_bit unat_eq_zero qp)
    with that l show ?thesis by (auto simp: take_bit_0_iff bit_simps)
  qed
  have "VirtualToPhysical32 u m va satp write =
      Inr (take_bit 32 (push_bit 12 (take_bit 22 (drop_bit 10 (ucast q))) OR take_bit (12 + 10 * l) va), u, m')"
    using w mode m'(1) superpage32 [OF l, of p] ppn pa_bits32 [OF l z, where va = va]
    by (simp add: VirtualToPhysical32_def kMmuLevels_def flip: q_def)
       (auto simp: Let_def)
  with m' show ?thesis unfolding qp pt_physical [OF ppn] paging_sel by blast
qed

lemma va_index32:
  "of_nat (va_index sv32 va l) = (ucast (ucast (take_bit 10 (drop_bit (12 + 10 * l) va)) :: u16) :: u32)"
proof -
  have "(of_nat (va_index sv32 va l) :: u32) = ucast (take_bit 10 (drop_bit (12 + 10 * l) va))"
    by (simp add: va_index_def of_nat_slice_ucast [where 'a = 64 and k = 10, simplified])
  also have "\<dots> = ucast (ucast (take_bit 10 (drop_bit (12 + 10 * l) va)) :: u16)"
    by (rule bit_word_eqI) (auto simp: bit_simps)
  finally show ?thesis .
qed

lemma V2P32_sv32:
  assumes wf: "mem_wf m" and mode: "bit satp 31"
  shows "case pt_translate sv32 (mem_abs m) (unat satp mod 2 ^ 22) va write of
      None \<Rightarrow> VirtualToPhysical32 u m va satp write = Inr (va, mmu_fault u va, m)
    | Some (pa, f) \<Rightarrow> \<exists>m'. VirtualToPhysical32 u m va satp write = Inr (take_bit 32 (of_nat pa), u, m') \<and>
        mem_wf m' \<and> mem_abs m' = f"
proof -
  have vpn: "vpn32 va l = of_nat (va_index sv32 va l)" if "l \<le> 1" for l
    using that by (auto simp: va_index32 bitcrop_eq le_Suc_eq)
  have table: "of_nat (unat satp mod 2 ^ 22 * 2 ^ 12) = (ucast (bitcrop satp 22 0) * of_nat kPageSize :: u32)"
    by (simp only: unat_mod_take_bit of_nat_mult of_nat_unat_ucast) (simp add: bitcrop_eq kPageSize_def)
  obtain w where w: "walk32 m (vpn32 va) 1 (ucast (bitcrop satp 22 0)) = Inr w"
      "walk_rel w (pt_walk sv32 (mem_abs m) va 1 (unat satp mod 2 ^ 22))"
      "\<And>l p a. w = Walk_leaf l p a \<Longrightarrow> (ucast a :: u64) AND 3 = 0 \<and> l \<le> 1"
    using walk32_refines [OF wf vpn table] by blast
  show ?thesis
  proof (cases w)
    case Walk_fault
    with w mode show ?thesis
      by (simp add: pt_translate_def VirtualToPhysical32_def Let_def kMmuLevels_def)
  next
    case (Walk_leaf l p a)
    then have l: "l \<le> 1" "(ucast a :: u64) AND 3 = 0" using w(3) by auto
    show ?thesis
    proof (cases "pte_ppn sv32 (ucast p) mod 2 ^ (10 * l) = 0")
      case False
      with w Walk_leaf mode superpage32 [OF l(1), of p] show ?thesis
        by (auto simp: pt_translate_def VirtualToPhysical32_def Let_def kMmuLevels_def)
    next
      case True
      note leaf = w(1) [unfolded Walk_leaf]
      from w(2) Walk_leaf show ?thesis
        using V2P32_leaf [OF wf mode leaf l True, of u "write"] True
        by (auto simp: pt_translate_def)
    qed
  qed
qed

section \<open>Both schemes\<close>

lemma mode64_u8: "(ucast (bitcrop (satp :: u64) 4 60) :: u8) = 8 \<Longrightarrow> bitcrop satp 4 60 = 8"
  using ucast_slice_via [where 'b = 8, of 4 "drop_bit 60 satp"] by (simp add: bitcrop_eq)

text \<open>Every translation returns, and leaves a well-formed memory and the MMU's other members alone.\<close>

lemma V2P64_returns:
  assumes "mem_wf m"
  shows "\<exists>pa u' m'. VirtualToPhysical64 u m va satp w = Inr (pa, u', m') \<and> mem_wf m' \<and>
    (u' = u \<or> (u' = mmu_fault u va \<and> m' = m \<and> pa = va))"
proof (cases "bitcrop satp 4 60 = 8")
  case True
  then show ?thesis using V2P64_sv39 [OF assms True, of u va w]
    using assms by (auto split: option.splits)
next
  case False
  then show ?thesis using assms
    by (auto simp: VirtualToPhysical64_def Let_def dest: mode64_u8)
qed

lemma V2P32_returns:
  assumes "mem_wf m"
  shows "\<exists>pa u' m'. VirtualToPhysical32 u m va satp w = Inr (pa, u', m') \<and> mem_wf m' \<and>
    (u' = u \<or> (u' = mmu_fault u va \<and> m' = m \<and> pa = va))"
proof (cases "bit satp 31")
  case True
  then show ?thesis using V2P32_sv32 [OF assms True, of u va w]
    using assms by (auto split: option.splits)
next
  case False
  then show ?thesis using assms by (auto simp: VirtualToPhysical32_def Let_def)
qed

lemma Mmu_V2P_returns:
  assumes "mem_wf m"
  shows "\<exists>pa u' m'. Mmu_VirtualToPhysical u m va satp w = Inr (pa, u', m') \<and> mem_wf m' \<and>
    mmu_mxl u' = mmu_mxl u \<and> mmu_privilege u' = mmu_privilege u"
  using V2P64_returns [OF assms, of "u\<lparr>mmu_page_fault := False, mmu_faulting_address := 0\<rparr>" va satp w]
    V2P32_returns [OF assms, of "u\<lparr>mmu_page_fault := False, mmu_faulting_address := 0\<rparr>" va satp w] assms
  by (auto simp: Mmu_VirtualToPhysical_def Let_def mmu_fault_def)

section \<open>Properties\<close>

text \<open>C4: In user and supervisor mode on a 64-bit hart with \<open>satp\<close> in mode 8, translation implements the
  Sv39 page walk: it faults exactly when the walk meets an invalid entry, no leaf, or a misaligned superpage, reporting the virtual address; otherwise
  it returns the specified physical address, and memory differs only in the accessed and dirty bits of the leaf.  (The permission bits of
  the leaf are not checked; \<open>permissions_ignored\<close> of \<open>Paging_Spec\<close> is an access that the architecture refuses.)\<close>

theorem sv39_refinement:
  assumes "mem_wf m" "bitcrop satp 4 60 = 8" "mmu_privilege u \<noteq> MACHINE_MODE" "mmu_mxl u \<noteq> 1"
  shows "case pt_translate sv39 (mem_abs m) (unat satp mod 2 ^ 44) va write of
      None \<Rightarrow> Mmu_VirtualToPhysical u m va satp write =
        Inr (va, u\<lparr>mmu_page_fault := True, mmu_faulting_address := va\<rparr>, m)
    | Some (pa, f) \<Rightarrow> \<exists>m'. Mmu_VirtualToPhysical u m va satp write =
        Inr (of_nat pa, u\<lparr>mmu_page_fault := False, mmu_faulting_address := 0\<rparr>, m') \<and>
        mem_wf m' \<and> mem_abs m' = f"
  using V2P64_sv39 [OF assms(1,2), of "u\<lparr>mmu_page_fault := False, mmu_faulting_address := 0\<rparr>" va "write"] assms(3,4)
  by (auto simp: Mmu_VirtualToPhysical_def Let_def mmu_fault_def split: option.splits)

text \<open>A gigapage that maps the low virtual addresses to \<open>0x40000000\<close>.\<close>

lemma gigapage_pte: "le_word (le_bytes 0x100000CF 8) = 0x100000CF"
  by (simp add: le_word_le_bytes take_bit_word_beyond)

lemma gigapage_example:
  assumes "read_pte sv39 f 0x1000 = 0x100000CF"
  shows "pt_translate sv39 f 1 0x1234 False = Some (0x40001234, write_bytes f 0x1000 (le_bytes 0x100000CF 8))"
proof -
  have "va_index sv39 0x1234 2 = 0" by (simp add: va_index_def)
  then have "pt_walk sv39 f 0x1234 2 1 = Some (2, 0x100000CF, 0x1000)"
    using assms by (simp add: pt_walk.simps [of sv39 f "0x1234" 2] Let_def)
  then show ?thesis
    by (simp add: pt_translate_def pte_ppn_def pte_mark_def)
qed

theorem sv39_refinement_witness:
  "\<exists>m m'. mem_wf m \<and> Mmu_VirtualToPhysical (mmu_init\<lparr>mmu_mxl := 2, mmu_privilege := SUPERVISOR_MODE\<rparr>)
     m 0x1234 0x8000000000000001 False =
     Inr (0x40001234, mmu_init\<lparr>mmu_mxl := 2, mmu_privilege := SUPERVISOR_MODE\<rparr>, m')"
proof -
  obtain m where m: "mem_wf m"
      "mem_abs m = write_bytes (mem_abs MemoryWrapper) 0x1000 (le_bytes 0x100000CF 8)"
    using Write64_abs [OF mem_wf_MemoryWrapper, of "0x1000" "0x100000CF"] by auto
  have "read_pte sv39 (mem_abs m) 0x1000 = 0x100000CF"
    using read_write_bytes [of "le_bytes 0x100000CF 8" "mem_abs MemoryWrapper" "0x1000"]
    by (simp add: read_pte_def m(2) gigapage_pte)
  note t = gigapage_example [OF this]
  have "bitcrop 0x8000000000000001 4 60 = (8 :: u64)" by (simp add: bitcrop_eq)
  from sv39_refinement [OF m(1) this, of "mmu_init\<lparr>mmu_mxl := 2, mmu_privilege := SUPERVISOR_MODE\<rparr>" "0x1234" False]
  show ?thesis using t m(1) by (auto simp: mmu_init_def)
qed

text \<open>C12: In user and supervisor mode on a 32-bit hart with the mode bit of \<open>satp\<close> set, translation implements the Sv32 page walk of two
  levels: it faults exactly when the walk meets an invalid entry, no leaf, or a misaligned megapage, reporting the virtual address; otherwise it
  returns the low 32 bits of the specified physical address (an Sv32 address has 34 bits; the code drops the upper two), and memory differs only
  in the accessed and dirty bits of the leaf.  The permission bits are not checked here either.\<close>

theorem sv32_refinement:
  assumes "mem_wf m" "bit satp 31" "mmu_privilege u \<noteq> MACHINE_MODE" "mmu_mxl u = 1"
  shows "case pt_translate sv32 (mem_abs m) (unat satp mod 2 ^ 22) va write of
      None \<Rightarrow> Mmu_VirtualToPhysical u m va satp write =
        Inr (va, u\<lparr>mmu_page_fault := True, mmu_faulting_address := va\<rparr>, m)
    | Some (pa, f) \<Rightarrow> \<exists>m'. Mmu_VirtualToPhysical u m va satp write =
        Inr (of_nat (pa mod 2 ^ 32), u\<lparr>mmu_page_fault := False, mmu_faulting_address := 0\<rparr>, m') \<and>
        mem_wf m' \<and> mem_abs m' = f"
proof -
  have "of_nat (n mod 2 ^ 32) = (take_bit 32 (of_nat n) :: u64)" for n
    by (simp only: take_bit_of_nat take_bit_eq_mod [of 32 n])
  with V2P32_sv32 [OF assms(1,2), of "u\<lparr>mmu_page_fault := False, mmu_faulting_address := 0\<rparr>" va "write"] assms(3,4)
  show ?thesis by (auto simp: Mmu_VirtualToPhysical_def Let_def mmu_fault_def split: option.splits)
qed

text \<open>A megapage that maps the low virtual addresses to \<open>0x40000000\<close>, and a user store to it: the dirty bit is set.\<close>

lemma megapage_example:
  assumes "read_pte sv32 f 0x1000 = 0x1000000F"
  shows "pt_translate sv32 f 1 0x1234 True = Some (0x40001234, write_bytes f 0x1000 (le_bytes 0x100000CF 4))"
proof -
  have "va_index sv32 0x1234 1 = 0" by (simp add: va_index_def)
  then have "pt_walk sv32 f 0x1234 1 1 = Some (1, 0x1000000F, 0x1000)"
    using assms by (simp add: pt_walk.simps [of sv32 f "0x1234" "Suc 0"] Let_def)
  then show ?thesis
    by (simp add: pt_translate_def pte_ppn_def pte_mark_def)
qed

theorem sv32_refinement_witness:
  "\<exists>m m'. mem_wf m \<and> Mmu_VirtualToPhysical (mmu_init\<lparr>mmu_mxl := 1, mmu_privilege := USER_MODE\<rparr>) m 0x1234 0x80000001 True =
     Inr (0x40001234, mmu_init\<lparr>mmu_mxl := 1, mmu_privilege := USER_MODE\<rparr>, m') \<and> mem_abs m' 0x1000 = 0xCF"
proof -
  obtain m where m: "mem_wf m"
      "mem_abs m = write_bytes (mem_abs MemoryWrapper) 0x1000 (le_bytes 0x1000000F 4)"
    using Write32_abs [OF mem_wf_MemoryWrapper, of "0x1000" "0x1000000F"] by auto
  have "read_pte sv32 (mem_abs m) 0x1000 = 0x1000000F"
    using read_write_bytes [of "le_bytes 0x1000000F 4" "mem_abs MemoryWrapper" "0x1000"]
    by (simp add: read_pte_def m(2) le_word_le_bytes)
  note t = megapage_example [OF this]
  from sv32_refinement [OF m(1), of "0x80000001" "mmu_init\<lparr>mmu_mxl := 1, mmu_privilege := USER_MODE\<rparr>" "0x1234" True]
  show ?thesis using t m(1) by (auto simp: mmu_init_def write_bytes_def le_bytes_def bit_simps)
qed

end
