(* ===== verification/Host.thy ===== *)
theory Host
  imports Prelude
begin

text \<open>
  The code outside the repository that the emulator calls: the ncurses library and the POSIX
  file interface.  It is a parameter of the model: a record of functions on an arbitrary type
  \<open>'w\<close> of states of the outside world, and of the constants that the C headers define.
\<close>

text \<open>The members of \<open>struct stat\<close> that the emulator reads, at their Linux x86-64 widths.\<close>

record host_stat =
  hs_dev :: u64
  hs_ino :: u64
  hs_mode :: u32
  hs_nlink :: u64
  hs_uid :: u32
  hs_gid :: u32
  hs_rdev :: u64
  hs_size :: u64
  hs_blksize :: u64
  hs_blocks :: u64
  hs_atim_sec :: u64
  hs_atim_nsec :: u64
  hs_mtim_sec :: u64
  hs_mtim_nsec :: u64
  hs_ctim_sec :: u64
  hs_ctim_nsec :: u64

text \<open>
  \<open>read\<close> returns the count and the contents of the caller's buffer afterwards, position by
  position, because the emulator copies the whole buffer whatever the count is.  \<open>h_stack\<close> gives the
  indeterminate bytes of an uninitialised local structure.
\<close>

record 'w host =
  h_getch :: "'w \<Rightarrow> u32 \<times> 'w"
  h_addch :: "u32 \<Rightarrow> 'w \<Rightarrow> 'w"
  h_ERR :: u32
  h_KEY_BACKSPACE :: u32
  h_KEY_DC :: u32
  h_write :: "u32 \<Rightarrow> u8 list \<Rightarrow> 'w \<Rightarrow> u64 \<times> 'w"
  h_read :: "u32 \<Rightarrow> nat \<Rightarrow> 'w \<Rightarrow> (u64 \<times> (nat \<Rightarrow> u8)) \<times> 'w"
  h_open :: "u8 list \<Rightarrow> u32 \<Rightarrow> u64 \<Rightarrow> 'w \<Rightarrow> u32 \<times> 'w"
  h_close :: "u32 \<Rightarrow> 'w \<Rightarrow> u32 \<times> 'w"
  h_lseek :: "u32 \<Rightarrow> u64 \<Rightarrow> u32 \<Rightarrow> 'w \<Rightarrow> u64 \<times> 'w"
  h_fstat :: "u32 \<Rightarrow> 'w \<Rightarrow> (u32 \<times> host_stat) \<times> 'w"
  h_stack :: "'w \<Rightarrow> nat \<Rightarrow> u8"
  h_O_RDWR :: u32
  h_O_RDONLY :: u32
  h_O_APPEND :: u32
  h_O_CLOEXEC :: u32
  h_O_CREAT :: u32
  h_O_DIRECT :: u32
  h_O_DIRECTORY :: u32
  h_O_EXCL :: u32
  h_O_NOCTTY :: u32
  h_O_NONBLOCK :: u32
  h_O_SYNC :: u32
  h_O_TRUNC :: u32

end
