(* ===== verification/Peripheral.thy ===== *)
theory Peripheral
  imports Memory_Wrapper Host
begin

text \<open>
  \<open>ScreenEmulation\<close> and \<open>PeripheralEmulator\<close>: terminal, host interface of the RISC-V test
  suite, UART, timer and virtio block device.  The class members are the records \<open>screen\<close>
  and \<open>periph\<close>; guest memory and the outside world are passed along.  The member
  \<open>uart_queue\<close> is never used and has no field; diagnostics printed to \<open>std::cerr\<close> are left out.
\<close>

section \<open>ScreenEmulation\<close>

record screen =
  scr_counter :: int
  scr_key_value :: u32
  scr_key_valid :: bool

definition kThreshold :: int where "kThreshold = 1000"

text \<open>\<open>key_value_\<close> has no initialiser: its first value is an argument.\<close>

definition ScreenEmulation :: "u32 \<Rightarrow> screen" where
  "ScreenEmulation key_value = \<lparr>scr_counter = 0, scr_key_value = key_value, scr_key_valid = False\<rparr>"

definition CheckInput :: "'w host \<Rightarrow> screen \<Rightarrow> 'w \<Rightarrow> bool \<times> screen \<times> 'w" where
  "CheckInput h s w =
     (let s = s\<lparr>scr_counter := scr_counter s + 1\<rparr>
      in if scr_counter s < kThreshold then (scr_key_valid s, s, w)
         else
          let s = s\<lparr>scr_counter := 0\<rparr>
          in if scr_key_valid s then (scr_key_valid s, s, w)
             else
              let (c, w') = h_getch h w
              in if c = h_ERR h then (scr_key_valid s, s, w')
                 else (True, s\<lparr>scr_key_value := c, scr_key_valid := True\<rparr>, w'))"

definition GetKeyValue :: "screen \<Rightarrow> u32 \<times> screen" where
  "GetKeyValue s = (scr_key_value s, s\<lparr>scr_key_valid := False\<rparr>)"

definition putchar :: "'w host \<Rightarrow> u32 \<Rightarrow> 'w \<Rightarrow> 'w" where
  "putchar h c w = h_addch h c w"

section \<open>Addresses\<close>

abbreviation (input) kPlicAddress :: u64 where "kPlicAddress \<equiv> 0x0c000000"

abbreviation (input) kPlicClaimAddress :: u64 where "kPlicClaimAddress \<equiv> kPlicAddress + 0x201004"

abbreviation (input) kToHost0 :: u64 where "kToHost0 \<equiv> 0x80001000"

abbreviation (input) kToHost1 :: u64 where "kToHost1 \<equiv> 0x80003000"

abbreviation (input) kUartBase :: u64 where "kUartBase \<equiv> 0x10000000"

abbreviation (input) kUartLsrReady :: u8 where "kUartLsrReady \<equiv> 1"

abbreviation (input) kUartRhr :: u64 where "kUartRhr \<equiv> kUartBase"

abbreviation (input) kUartLsr :: u64 where "kUartLsr \<equiv> kUartBase + 5"

abbreviation (input) kTimerBase :: u64 where "kTimerBase \<equiv> 0x2000000"

abbreviation (input) kTimerCmp :: u64 where "kTimerCmp \<equiv> kTimerBase + 0x4000"

abbreviation (input) kTimerMtime :: u64 where "kTimerMtime \<equiv> kTimerBase + 0xbff8"

abbreviation (input) kQueueNumMax :: int where "kQueueNumMax \<equiv> 8"

abbreviation (input) kVirtioBase :: u64 where "kVirtioBase \<equiv> 0x10001000"

abbreviation (input) kVirtioEnd :: u64 where "kVirtioEnd \<equiv> kVirtioBase + 0x100 - 1"

abbreviation (input) kVirtioMmioPageSize :: u64 where "kVirtioMmioPageSize \<equiv> kVirtioBase + 0x28"

abbreviation (input) kVirtioMmioQueueSel :: u64 where "kVirtioMmioQueueSel \<equiv> kVirtioBase + 0x30"

abbreviation (input) kVirtioMmioQueueMax :: u64 where "kVirtioMmioQueueMax \<equiv> kVirtioBase + 0x34"

abbreviation (input) kVirtioMmioQueueNum :: u64 where "kVirtioMmioQueueNum \<equiv> kVirtioBase + 0x38"

abbreviation (input) kVirtioMmioQueuePfn :: u64 where "kVirtioMmioQueuePfn \<equiv> kVirtioBase + 0x40"

abbreviation (input) kVirtioMmioQueueNotify :: u64 where "kVirtioMmioQueueNotify \<equiv> kVirtioBase + 0x50"

abbreviation (input) kSectorSize :: u64 where "kSectorSize \<equiv> 512"

section \<open>PeripheralEmulator\<close>

record periph =
  p_mxl :: int
  p_host_emulation_enable :: bool
  p_host_write :: u32
  p_host_value :: u64
  p_end_flag :: bool
  p_error_flag :: bool
  p_device_emulation_enable :: bool
  p_uart_write :: bool
  p_uart_read :: bool
  p_uart_full :: bool
  p_uart_write_value :: u8
  p_uart_interrupt :: bool
  p_uart_break :: bool
  p_scr_emulation :: "screen option"
  p_elapsed_cycles :: u64
  p_next_cycle :: u64
  p_timercmp_update :: bool
  p_timer_interrupt :: bool
  p_disk_image :: "u8 list option"
  p_virtio_write :: bool
  p_virtio_address :: u64
  p_virtio_width :: u64
  p_virtio_data :: u64
  p_queue_num :: int
  p_virtio_interrupt :: bool

definition PeripheralEmulator :: "int \<Rightarrow> periph" where
  "PeripheralEmulator mxl =
     \<lparr>p_mxl = mxl, p_host_emulation_enable = False, p_host_write = 0, p_host_value = 0,
      p_end_flag = False, p_error_flag = False, p_device_emulation_enable = False,
      p_uart_write = False, p_uart_read = False, p_uart_full = False, p_uart_write_value = 0,
      p_uart_interrupt = False, p_uart_break = False, p_scr_emulation = None,
      p_elapsed_cycles = 0, p_next_cycle = 0, p_timercmp_update = True, p_timer_interrupt = False,
      p_disk_image = None, p_virtio_write = False, p_virtio_address = 0, p_virtio_width = 0,
      p_virtio_data = 0, p_queue_num = 8, p_virtio_interrupt = False\<rparr>"

definition SetDiskImage :: "periph \<Rightarrow> u8 list option \<Rightarrow> periph" where
  "SetDiskImage p disk_image = p\<lparr>p_disk_image := disk_image\<rparr>"

definition periph_SetHostEmulationEnable :: "periph \<Rightarrow> bool \<Rightarrow> periph" where
  "periph_SetHostEmulationEnable p enable = p\<lparr>p_host_emulation_enable := enable\<rparr>"

definition periph_SetDeviceEmulationEnable :: "periph \<Rightarrow> bool \<Rightarrow> periph" where
  "periph_SetDeviceEmulationEnable p enable = p\<lparr>p_device_emulation_enable := enable\<rparr>"

definition ClearUartInterruptStatus :: "periph \<Rightarrow> periph" where
  "ClearUartInterruptStatus p = p\<lparr>p_uart_interrupt := False\<rparr>"

definition ClearInterruptStatus :: "periph \<Rightarrow> periph" where
  "ClearInterruptStatus p = p\<lparr>p_virtio_interrupt := False\<rparr>"

subsection \<open>Memory-mapped accesses\<close>

text \<open>\<open>width\<close> is the width of the access in bytes, between 1 and 8.\<close>

definition CheckDeviceWrite :: "periph \<Rightarrow> u64 \<Rightarrow> nat \<Rightarrow> u64 \<Rightarrow> periph" where
  "CheckDeviceWrite p address width data =
     (let a = (if p_mxl p = 1 then address AND 0xFFFFFFFF else address);
          p = p\<lparr>p_host_write := p_host_write p OR (if a = kToHost0 then 1 else 0)\<rparr>;
          p = p\<lparr>p_host_write := p_host_write p OR (if a = kToHost1 then 2 else 0)\<rparr>;
          p = (if kUartBase < address + of_nat width \<and> address \<le> kUartBase
               then let offset = kUartBase - address
                    in p\<lparr>p_uart_write_value := ucast (drop_bit (unat (offset * 8)) data AND 0xFF),
                         p_uart_write := True\<rparr>
               else p);
          p = (if kVirtioBase < address + of_nat width \<and> address \<le> kVirtioEnd
               then p\<lparr>p_virtio_address := address, p_virtio_data := data, p_virtio_width := of_nat width,
                      p_virtio_write := True\<rparr>
               else p)
      in if kTimerCmp < address + of_nat width \<and> address < kTimerCmp + 8
         then p\<lparr>p_timercmp_update := True\<rparr> else p)"

definition CheckDeviceRead :: "periph \<Rightarrow> u64 \<Rightarrow> nat \<Rightarrow> periph" where
  "CheckDeviceRead p address width =
     (if kUartBase < address + of_nat width \<and> address \<le> kUartBase then p\<lparr>p_uart_read := True\<rparr> else p)"

definition MemoryMappedValueUpdate :: "periph \<Rightarrow> memory \<Rightarrow> memory res" where
  "MemoryMappedValueUpdate p mem = Write64 mem kTimerMtime (p_elapsed_cycles p)"

subsection \<open>Host interface\<close>

definition HostEmulation :: "periph \<Rightarrow> memory \<Rightarrow> periph res" where
  "HostEmulation p mem =
     (let read_host = (\<lambda>a. if p_mxl p = 1 then rbind (Read32 mem a) (\<lambda>x. Inr (ucast x)) else Read64 mem a)
      in if p_host_write p = 0 then Inr p
         else if p_host_write p AND 0b10 \<noteq> 0 then
           rbind (read_host kToHost1) (\<lambda>payload.
           Inr (p\<lparr>p_host_value := drop_bit 1 payload, p_host_write := 0, p_end_flag := True\<rparr>))
         else
           let p = p\<lparr>p_end_flag := False\<rparr>
           in rbind (read_host kToHost0) (\<lambda>payload.
              let device = (if p_mxl p = 1 then 0 else ucast (drop_bit 56 payload AND 0xFF) :: u8);
                  command = (if p_mxl p = 1 then 0 else ucast (drop_bit 48 payload AND 0x3FFFF) :: u32);
                  p = (if device = 0 then
                         if command = 0 then
                           let value = payload AND 0xFFFFFFFFFFFF
                           in if value AND 1 = 0 then p
                              else p\<lparr>p_host_value := drop_bit 1 value, p_end_flag := True\<rparr>
                         else p\<lparr>p_error_flag := True, p_end_flag := True\<rparr>
                       else p)
              in Inr (p\<lparr>p_host_write := 0\<rparr>)))"

subsection \<open>UART\<close>

definition UartInit :: "periph \<Rightarrow> memory \<Rightarrow> u32 \<Rightarrow> (periph \<times> memory) res" where
  "UartInit p mem key_value =
     rbind (ReadByte mem (kUartBase + 5)) (\<lambda>isr.
     rbind (WriteByte mem (kUartBase + 5) (isr OR push_bit 5 1)) (\<lambda>mem.
     Inr (p\<lparr>p_scr_emulation := Some (ScreenEmulation key_value)\<rparr>, mem)))"

definition SetUartBuffer :: "periph \<Rightarrow> memory \<Rightarrow> u32 \<Rightarrow> (periph \<times> memory) res" where
  "SetUartBuffer p mem key =
     rbind (ReadByte mem kUartLsr) (\<lambda>uart_lsr_status.
     rbind (WriteByte mem kUartRhr (ucast key)) (\<lambda>mem.
     rbind (WriteByte mem kUartLsr (uart_lsr_status OR kUartLsrReady)) (\<lambda>mem.
     Inr (p\<lparr>p_uart_full := True\<rparr>, mem))))"

definition ClearUartBuffer :: "periph \<Rightarrow> memory \<Rightarrow> (periph \<times> memory) res" where
  "ClearUartBuffer p mem =
     rbind (ReadByte mem kUartLsr) (\<lambda>uart_lsr_status.
     rbind (WriteByte mem kUartLsr (uart_lsr_status AND NOT kUartLsrReady)) (\<lambda>mem.
     Inr (p\<lparr>p_uart_full := False\<rparr>, mem)))"

definition UartInterrupt :: "periph \<Rightarrow> memory \<Rightarrow> (periph \<times> memory) res" where
  "UartInterrupt p mem =
     rbind (Write32 mem kPlicClaimAddress 10) (\<lambda>mem. Inr (p\<lparr>p_uart_interrupt := True\<rparr>, mem))"

text \<open>The key codes that the UART translates: backspace and delete, and Ctrl-A and Ctrl-C, which end the emulation.\<close>

definition uart_key :: "'w host \<Rightarrow> periph \<Rightarrow> u32 \<Rightarrow> u32 \<times> periph" where
  "uart_key h p key_input =
     (if key_input = h_KEY_BACKSPACE h then (8, p)
      else if key_input = h_KEY_DC h then (127, p)
      else if key_input = 0x61 AND 0x1f \<or> key_input = 0x63 AND 0x1f then (key_input, p\<lparr>p_uart_break := True\<rparr>)
      else (key_input, p))"

definition UartEmulation :: "'w host \<Rightarrow> periph \<Rightarrow> memory \<Rightarrow> 'w \<Rightarrow> (periph \<times> memory \<times> 'w) res" where
  "UartEmulation h p mem w =
     rbind (if p_uart_write p then
              case p_scr_emulation p of None \<Rightarrow> Inl Undefined
              | Some _ \<Rightarrow> Inr (p\<lparr>p_uart_write := False\<rparr>, putchar h (ucast (p_uart_write_value p)) w)
            else Inr (p, w)) (\<lambda>(p, w).
     rbind (if p_uart_read p then
              rbind (ClearUartBuffer p mem) (\<lambda>(p, mem). Inr (p\<lparr>p_uart_read := False\<rparr>, mem))
            else Inr (p, mem)) (\<lambda>(p, mem).
     if p_uart_full p then Inr (p, mem, w)
     else case p_scr_emulation p of
         None \<Rightarrow> Inl Undefined
       | Some scr \<Rightarrow>
           let (valid, scr, w) = CheckInput h scr w; p = p\<lparr>p_scr_emulation := Some scr\<rparr>
           in if \<not> valid then Inr (p, mem, w)
              else
               let (key_input, scr) = GetKeyValue scr;
                   (key_input, p) = uart_key h (p\<lparr>p_scr_emulation := Some scr\<rparr>) key_input
               in rbind (SetUartBuffer p mem key_input) (\<lambda>(p, mem).
                  rbind (UartInterrupt p mem) (\<lambda>(p, mem). Inr (p, mem, w)))))"

subsection \<open>Timer\<close>

definition periph_TimerTick :: "periph \<Rightarrow> memory \<Rightarrow> periph res" where
  "periph_TimerTick p mem =
     (let p = p\<lparr>p_elapsed_cycles := p_elapsed_cycles p + 1\<rparr>
      in rbind (if p_timercmp_update p then
                  rbind (Read64 mem kTimerCmp) (\<lambda>cmp. Inr (p\<lparr>p_next_cycle := cmp, p_timercmp_update := False\<rparr>))
                else Inr p) (\<lambda>p.
         Inr (if p_elapsed_cycles p = p_next_cycle p then p\<lparr>p_timer_interrupt := True\<rparr> else p)))"

definition ClearTimerInterrupt :: "periph \<Rightarrow> periph" where
  "ClearTimerInterrupt p = p\<lparr>p_timer_interrupt := False\<rparr>"

subsection \<open>Virtio block device\<close>

record VRingDesc =
  vd_addr :: u64
  vd_len :: u32
  vd_flags :: u16
  vd_next :: u16

record virtio_blk_outhdr =
  oh_type :: u32
  oh_reserved :: u32
  oh_sector :: u64

definition VirtioInit :: "memory \<Rightarrow> memory res" where
  "VirtioInit mem =
     rbind (Write32 mem (kVirtioBase + 0x00) 0x74726976) (\<lambda>mem.
     rbind (Write32 mem (kVirtioBase + 0x4) 1) (\<lambda>mem.
     rbind (Write32 mem (kVirtioBase + 0x8) 2) (\<lambda>mem.
     rbind (Write32 mem (kVirtioBase + 0xc) 0x554d4551) (\<lambda>mem.
     Write32 mem (kVirtioBase + 0x34) 8))))"

definition read_desc :: "memory \<Rightarrow> u64 \<Rightarrow> u16 \<Rightarrow> VRingDesc res" where
  "read_desc mem desc_address desc_index =
     (let address = desc_address + ucast desc_index * 16
      in rbind (Read64 mem address) (\<lambda>addr.
         rbind (Read32 mem (address + 8)) (\<lambda>len.
         rbind (Read16 mem (address + 12)) (\<lambda>flags.
         rbind (Read16 mem (address + 14)) (\<lambda>nxt.
         Inr \<lparr>vd_addr = addr, vd_len = len, vd_flags = flags, vd_next = nxt\<rparr>)))))"

definition read_outhdr :: "memory \<Rightarrow> u64 \<Rightarrow> virtio_blk_outhdr res" where
  "read_outhdr mem outhdr_address =
     rbind (Read32 mem outhdr_address) (\<lambda>t.
     rbind (Read32 mem (outhdr_address + 4)) (\<lambda>reserved.
     rbind (Read64 mem (outhdr_address + 8)) (\<lambda>sector.
     Inr \<lparr>oh_type = t, oh_reserved = reserved, oh_sector = sector\<rparr>)))"

text \<open>An access to a missing disk image, or outside it, is undefined behaviour.\<close>

definition disk_get :: "u8 list option \<Rightarrow> u64 \<Rightarrow> u8 res" where
  "disk_get d i =
     (case d of None \<Rightarrow> Inl Undefined
      | Some bs \<Rightarrow> if unat i < length bs then Inr (bs ! unat i) else Inl Undefined)"

definition disk_set :: "u8 list option \<Rightarrow> u64 \<Rightarrow> u8 \<Rightarrow> u8 list option res" where
  "disk_set d i v =
     (case d of None \<Rightarrow> Inl Undefined
      | Some bs \<Rightarrow> if unat i < length bs then Inr (Some (bs[unat i := v])) else Inl Undefined)"

definition disc_access ::
  "u8 list option \<Rightarrow> memory \<Rightarrow> u64 \<Rightarrow> u64 \<Rightarrow> u32 \<Rightarrow> bool \<Rightarrow> (u8 list option \<times> memory) res" where
  "disc_access disk mem sector buffer_address len write =
     (let kSectorAddress = sector * kSectorSize
      in if write then
           rbind (rfold (\<lambda>d k. rbind (ReadByte mem (buffer_address + of_nat k)) (\<lambda>b.
                    disk_set d (kSectorAddress + of_nat k) b)) disk [0..<unat len])
             (\<lambda>disk. Inr (disk, mem))
         else
           rbind (rfold (\<lambda>m k. rbind (disk_get disk (kSectorAddress + of_nat k)) (\<lambda>b.
                    WriteByte m (buffer_address + of_nat k) b)) mem [0..<unat len])
             (\<lambda>mem. Inr (disk, mem)))"

text \<open>The chain of three descriptors: header, data, status.  Every \<open>goto ERROR\<close> ends in \<open>assert(false)\<close>.\<close>

definition process_disc_access ::
  "u8 list option \<Rightarrow> memory \<Rightarrow> u64 \<Rightarrow> u16 \<Rightarrow> (u8 list option \<times> memory) res" where
  "process_disc_access disk mem desc_address desc_index =
     rbind (read_desc mem desc_address desc_index) (\<lambda>desc.
     rbind (read_outhdr mem (vd_addr desc)) (\<lambda>outhdr.
     let write_access = (oh_type outhdr = 1); sector = oh_sector outhdr
     in if vd_flags desc AND 0b01 \<noteq> 1 then Inl Assertion
        else
         rbind (read_desc mem desc_address (vd_next desc)) (\<lambda>desc.
         let buffer_address = vd_addr desc
         in if (vd_flags desc AND 0b10 = 0) \<noteq> write_access then Inl Assertion
            else
             rbind (disc_access disk mem sector buffer_address (vd_len desc) write_access) (\<lambda>(disk, mem).
             rbind (read_desc mem desc_address (vd_next desc)) (\<lambda>desc.
             if vd_len desc \<noteq> 1 \<or> vd_flags desc AND 0b11 \<noteq> 0b10 then Inl Assertion
             else rbind (WriteByte mem (vd_addr desc) 0) (\<lambda>mem. Inr (disk, mem)))))))"

text \<open>\<open>Read16(...) % queue_num_\<close> is an \<open>int\<close> remainder: it traps when \<open>queue_num_\<close> is zero.\<close>

definition get_desc_index :: "memory \<Rightarrow> int \<Rightarrow> u64 \<Rightarrow> u16 res" where
  "get_desc_index mem queue_num avail_address =
     rbind (Read16 mem (avail_address + 2)) (\<lambda>x.
     if queue_num = 0 then Inl Div_by_zero
     else
      let index = (of_int (uint x smod queue_num) :: u16)
      in rbind (assert_that (uint index < queue_num)) (\<lambda>_.
         Read16 mem (avail_address + 4 + ucast index * 2)))"

definition process_used_buffer :: "memory \<Rightarrow> u64 \<Rightarrow> u16 \<Rightarrow> memory res" where
  "process_used_buffer mem used_buffer_address index =
     rbind (Read16 mem (used_buffer_address + 2)) (\<lambda>current_used_index.
     rbind (Write32 mem (used_buffer_address + 4 + ucast current_used_index * 8) (ucast index)) (\<lambda>mem.
     rbind (Write32 mem (used_buffer_address + 4 + ucast current_used_index * 8 + 4) 3) (\<lambda>mem.
     Write16 mem (used_buffer_address + 2) (current_used_index + 1))))"

definition VirtioDiskAccess ::
  "u8 list option \<Rightarrow> memory \<Rightarrow> int \<Rightarrow> u64 \<Rightarrow> (u8 list option \<times> memory) res" where
  "VirtioDiskAccess disk mem queue_num queue_address =
     (let desc_address = queue_address;
          avail_address = queue_address + ucast (of_int queue_num * 16 :: u32);
          used_address = ((avail_address + of_int (2 * (2 + queue_num)) + 4096 - 1) div 4096) * 4096
      in rbind (get_desc_index mem queue_num avail_address) (\<lambda>desc_index.
         rbind (process_disc_access disk mem desc_address desc_index) (\<lambda>(disk, mem).
         rbind (process_used_buffer mem used_address desc_index) (\<lambda>mem. Inr (disk, mem)))))"

definition virtio_queue_sel :: "periph \<Rightarrow> memory \<Rightarrow> memory res" where
  "virtio_queue_sel p mem =
     (if kVirtioMmioQueueSel < p_virtio_address p + p_virtio_width p \<and>
         p_virtio_address p < kVirtioMmioQueueSel + 4 then
        rbind (Read32 mem kVirtioMmioQueueSel) (\<lambda>queue_sel.
        Write32 mem kVirtioMmioQueueMax (if queue_sel = 0 then of_int kQueueNumMax else 0))
      else Inr mem)"

definition VirtioEmulation :: "periph \<Rightarrow> memory \<Rightarrow> (periph \<times> memory) res" where
  "VirtioEmulation p mem =
     (if \<not> p_virtio_write p then Inr (p, mem)
      else
       let p = p\<lparr>p_virtio_write := False\<rparr>
       in rbind (virtio_queue_sel p mem) (\<lambda>mem.
          if p_virtio_address p + p_virtio_width p \<le> kVirtioMmioQueueNotify \<or>
             kVirtioMmioQueueNotify + 4 \<le> p_virtio_address p
          then Inr (p, mem)
          else
           rbind (Read32 mem kVirtioMmioQueueNotify) (\<lambda>queue_number.
           rbind (assert_that (queue_number = 0)) (\<lambda>_.
           rbind (Read32 mem kVirtioMmioQueueNum) (\<lambda>qn.
           let p = p\<lparr>p_queue_num := sint qn\<rparr>
           in rbind (assert_that (p_queue_num p \<le> kQueueNumMax)) (\<lambda>_.
              rbind (Read32 mem kVirtioMmioPageSize) (\<lambda>page_size.
              rbind (assert_that (page_size = 4096)) (\<lambda>_.
              rbind (Read32 mem kVirtioMmioQueuePfn) (\<lambda>pfn.
              rbind (VirtioDiskAccess (p_disk_image p) mem (p_queue_num p) (ucast (pfn * page_size))) (\<lambda>(disk, mem).
              rbind (Write32 mem kPlicClaimAddress 1) (\<lambda>mem.
              Inr (p\<lparr>p_disk_image := disk, p_virtio_interrupt := True\<rparr>, mem))))))))))))"

definition Initialize :: "periph \<Rightarrow> memory \<Rightarrow> u32 \<Rightarrow> (periph \<times> memory) res" where
  "Initialize p mem key_value =
     rbind (UartInit p mem key_value) (\<lambda>(p, mem).
     rbind (VirtioInit mem) (\<lambda>mem. Inr (p, mem)))"

definition Emulation :: "'w host \<Rightarrow> periph \<Rightarrow> memory \<Rightarrow> 'w \<Rightarrow> (periph \<times> memory \<times> 'w) res" where
  "Emulation h p mem w =
     rbind (if p_host_emulation_enable p then HostEmulation p mem else Inr p) (\<lambda>p.
     if p_device_emulation_enable p then
       rbind (UartEmulation h p mem w) (\<lambda>(p, mem, w).
       rbind (VirtioEmulation p mem) (\<lambda>(p, mem). Inr (p, mem, w)))
     else Inr (p, mem, w))"

end
