(* ===== verification/Cpu_Types.thy ===== *)
theory Cpu_Types
  imports Prelude
begin

text \<open>
  The enumerations of \<open>RISCV_cpu.h\<close>.  The sources keep enumerators in integer variables of
  several widths (\<open>uint32_t instruction\<close>, \<open>uint8_t funct3\<close>, \<open>int16_t csr\<close>), so an
  enumerator is its number: at any word width, or a natural number for the trap causes.
\<close>

section \<open>Trap causes\<close>

text \<open>\<open>enum ExceptionCode\<close>: interrupts and exceptions share the numbers.\<close>

abbreviation (input) USER_SOFTWARE_INTERRUPT :: "nat" where "USER_SOFTWARE_INTERRUPT \<equiv> 0"

abbreviation (input) SUPERVISOR_SOFTWARRE_INTERRUPT :: "nat" where "SUPERVISOR_SOFTWARRE_INTERRUPT \<equiv> 1"

abbreviation (input) MACHINE_SOFTWARE_INTERRUPT :: "nat" where "MACHINE_SOFTWARE_INTERRUPT \<equiv> 3"

abbreviation (input) SUPERVIOR_TIMER_INTERRUPT :: "nat" where "SUPERVIOR_TIMER_INTERRUPT \<equiv> 5"

abbreviation (input) MACHINE_TIMER_INTERRUPT :: "nat" where "MACHINE_TIMER_INTERRUPT \<equiv> 7"

abbreviation (input) SUPERVISOR_EXTERNAL_INTERRUPT :: "nat" where "SUPERVISOR_EXTERNAL_INTERRUPT \<equiv> 9"

abbreviation (input) MACHINE_EXTERNAL_INTERRUPT :: "nat" where "MACHINE_EXTERNAL_INTERRUPT \<equiv> 11"

abbreviation (input) INSTRUCTION_ADDRESS_MISALIGNED :: "nat" where "INSTRUCTION_ADDRESS_MISALIGNED \<equiv> 0"

abbreviation (input) INSTRUCTION_ACCESS_FAULT :: "nat" where "INSTRUCTION_ACCESS_FAULT \<equiv> 1"

abbreviation (input) ILLEGAL_INSTRUCTION :: "nat" where "ILLEGAL_INSTRUCTION \<equiv> 2"

abbreviation (input) BREAK_POINT :: "nat" where "BREAK_POINT \<equiv> 3"

abbreviation (input) LOAD_ADDRESS_MISALIGNED :: "nat" where "LOAD_ADDRESS_MISALIGNED \<equiv> 4"

abbreviation (input) LOAD_ACCESS_FAULT :: "nat" where "LOAD_ACCESS_FAULT \<equiv> 5"

abbreviation (input) STORE_ADDRESS_MISALIGNED :: "nat" where "STORE_ADDRESS_MISALIGNED \<equiv> 6"

abbreviation (input) STORE_ACCESS_FAULT :: "nat" where "STORE_ACCESS_FAULT \<equiv> 7"

abbreviation (input) ECALL_UMODE :: "nat" where "ECALL_UMODE \<equiv> 8"

abbreviation (input) ECALL_SMODE :: "nat" where "ECALL_SMODE \<equiv> 9"

abbreviation (input) ECALL_MMODE :: "nat" where "ECALL_MMODE \<equiv> 11"

abbreviation (input) INSTRUCTION_PAGE_FAULT :: "nat" where "INSTRUCTION_PAGE_FAULT \<equiv> 12"

abbreviation (input) LOAD_PAGE_FAULT :: "nat" where "LOAD_PAGE_FAULT \<equiv> 13"

abbreviation (input) STORE_PAGE_FAULT :: "nat" where "STORE_PAGE_FAULT \<equiv> 15"

section \<open>CSR addresses\<close>

text \<open>\<open>enum CsrsAddresses\<close>.\<close>

abbreviation (input) USTATUS :: "'a::len word" where "USTATUS \<equiv> 0"

abbreviation (input) UIE :: "'a::len word" where "UIE \<equiv> 0x004"

abbreviation (input) UTVEC :: "'a::len word" where "UTVEC \<equiv> 0x005"

abbreviation (input) USCRATCH :: "'a::len word" where "USCRATCH \<equiv> 0x040"

abbreviation (input) UEPC :: "'a::len word" where "UEPC \<equiv> 0x041"

abbreviation (input) UCAUSE :: "'a::len word" where "UCAUSE \<equiv> 0x042"

abbreviation (input) UTVAL :: "'a::len word" where "UTVAL \<equiv> 0x43"

abbreviation (input) UIP :: "'a::len word" where "UIP \<equiv> 0x44"

abbreviation (input) SSTATUS :: "'a::len word" where "SSTATUS \<equiv> 0x100"

abbreviation (input) SEDELEG :: "'a::len word" where "SEDELEG \<equiv> 0x102"

abbreviation (input) SIDELEG :: "'a::len word" where "SIDELEG \<equiv> 0x103"

abbreviation (input) SIE :: "'a::len word" where "SIE \<equiv> 0x104"

abbreviation (input) STVEC :: "'a::len word" where "STVEC \<equiv> 0x105"

abbreviation (input) SCOUNTEREN :: "'a::len word" where "SCOUNTEREN \<equiv> 0x106"

abbreviation (input) SSCRATCH :: "'a::len word" where "SSCRATCH \<equiv> 0x140"

abbreviation (input) SEPC :: "'a::len word" where "SEPC \<equiv> 0x141"

abbreviation (input) SCAUSE :: "'a::len word" where "SCAUSE \<equiv> 0x142"

abbreviation (input) STVAL :: "'a::len word" where "STVAL \<equiv> 0x143"

abbreviation (input) SIP :: "'a::len word" where "SIP \<equiv> 0x144"

abbreviation (input) SATP :: "'a::len word" where "SATP \<equiv> 0x180"

abbreviation (input) MSTATUS :: "'a::len word" where "MSTATUS \<equiv> 0x300"

abbreviation (input) MISA :: "'a::len word" where "MISA \<equiv> 0x301"

abbreviation (input) MEDELEG :: "'a::len word" where "MEDELEG \<equiv> 0x302"

abbreviation (input) MIDELEG :: "'a::len word" where "MIDELEG \<equiv> 0x303"

abbreviation (input) MIE :: "'a::len word" where "MIE \<equiv> 0x304"

abbreviation (input) MTVEC :: "'a::len word" where "MTVEC \<equiv> 0x305"

abbreviation (input) MCOUNTEREN :: "'a::len word" where "MCOUNTEREN \<equiv> 0x306"

abbreviation (input) MSCRATCH :: "'a::len word" where "MSCRATCH \<equiv> 0x340"

abbreviation (input) MEPC :: "'a::len word" where "MEPC \<equiv> 0x341"

abbreviation (input) MCAUSE :: "'a::len word" where "MCAUSE \<equiv> 0x342"

abbreviation (input) MTVAL :: "'a::len word" where "MTVAL \<equiv> 0x343"

abbreviation (input) MIP :: "'a::len word" where "MIP \<equiv> 0x344"

section \<open>Registers\<close>

text \<open>\<open>enum Registers\<close>: numbers and ABI names.\<close>

abbreviation (input) ZERO :: "'a::len word" where "ZERO \<equiv> 0"

abbreviation (input) X0 :: "'a::len word" where "X0 \<equiv> 0"

abbreviation (input) X1 :: "'a::len word" where "X1 \<equiv> 1"

abbreviation (input) X2 :: "'a::len word" where "X2 \<equiv> 2"

abbreviation (input) X3 :: "'a::len word" where "X3 \<equiv> 3"

abbreviation (input) X4 :: "'a::len word" where "X4 \<equiv> 4"

abbreviation (input) X5 :: "'a::len word" where "X5 \<equiv> 5"

abbreviation (input) X6 :: "'a::len word" where "X6 \<equiv> 6"

abbreviation (input) X7 :: "'a::len word" where "X7 \<equiv> 7"

abbreviation (input) X8 :: "'a::len word" where "X8 \<equiv> 8"

abbreviation (input) X9 :: "'a::len word" where "X9 \<equiv> 9"

abbreviation (input) X10 :: "'a::len word" where "X10 \<equiv> 10"

abbreviation (input) X11 :: "'a::len word" where "X11 \<equiv> 11"

abbreviation (input) X12 :: "'a::len word" where "X12 \<equiv> 12"

abbreviation (input) X13 :: "'a::len word" where "X13 \<equiv> 13"

abbreviation (input) X14 :: "'a::len word" where "X14 \<equiv> 14"

abbreviation (input) X15 :: "'a::len word" where "X15 \<equiv> 15"

abbreviation (input) X16 :: "'a::len word" where "X16 \<equiv> 16"

abbreviation (input) RA :: "'a::len word" where "RA \<equiv> 1"

abbreviation (input) SP :: "'a::len word" where "SP \<equiv> 2"

abbreviation (input) GP :: "'a::len word" where "GP \<equiv> 3"

abbreviation (input) TP :: "'a::len word" where "TP \<equiv> 4"

abbreviation (input) T0 :: "'a::len word" where "T0 \<equiv> 5"

abbreviation (input) T1 :: "'a::len word" where "T1 \<equiv> 6"

abbreviation (input) T2 :: "'a::len word" where "T2 \<equiv> 7"

abbreviation (input) FP :: "'a::len word" where "FP \<equiv> 8"

abbreviation (input) S0 :: "'a::len word" where "S0 \<equiv> 8"

abbreviation (input) S1 :: "'a::len word" where "S1 \<equiv> 9"

abbreviation (input) A0 :: "'a::len word" where "A0 \<equiv> 10"

abbreviation (input) A1 :: "'a::len word" where "A1 \<equiv> 11"

abbreviation (input) A2 :: "'a::len word" where "A2 \<equiv> 12"

abbreviation (input) A3 :: "'a::len word" where "A3 \<equiv> 13"

abbreviation (input) A4 :: "'a::len word" where "A4 \<equiv> 14"

abbreviation (input) A5 :: "'a::len word" where "A5 \<equiv> 15"

abbreviation (input) A6 :: "'a::len word" where "A6 \<equiv> 16"

abbreviation (input) A7 :: "'a::len word" where "A7 \<equiv> 17"

abbreviation (input) S2 :: "'a::len word" where "S2 \<equiv> 18"

abbreviation (input) S3 :: "'a::len word" where "S3 \<equiv> 19"

abbreviation (input) S4 :: "'a::len word" where "S4 \<equiv> 20"

abbreviation (input) S5 :: "'a::len word" where "S5 \<equiv> 21"

abbreviation (input) S6 :: "'a::len word" where "S6 \<equiv> 22"

abbreviation (input) S7 :: "'a::len word" where "S7 \<equiv> 23"

abbreviation (input) S8 :: "'a::len word" where "S8 \<equiv> 24"

abbreviation (input) S9 :: "'a::len word" where "S9 \<equiv> 25"

abbreviation (input) S10 :: "'a::len word" where "S10 \<equiv> 26"

abbreviation (input) S11 :: "'a::len word" where "S11 \<equiv> 27"

abbreviation (input) T3 :: "'a::len word" where "T3 \<equiv> 28"

abbreviation (input) T4 :: "'a::len word" where "T4 \<equiv> 29"

abbreviation (input) T5 :: "'a::len word" where "T5 \<equiv> 30"

abbreviation (input) T6 :: "'a::len word" where "T6 \<equiv> 31"

section \<open>Opcodes\<close>

text \<open>\<open>enum op_label\<close>.\<close>

abbreviation (input) OPCODE_ARITHLOG :: "'a::len word" where "OPCODE_ARITHLOG \<equiv> 0b00110011"

abbreviation (input) OPCODE_ARITHLOG_64 :: "'a::len word" where "OPCODE_ARITHLOG_64 \<equiv> 0b00111011"

abbreviation (input) OPCODE_ARITHLOG_I :: "'a::len word" where "OPCODE_ARITHLOG_I \<equiv> 0b00010011"

abbreviation (input) OPCODE_ARITHLOG_I64 :: "'a::len word" where "OPCODE_ARITHLOG_I64 \<equiv> 0b0011011"

abbreviation (input) OPCODE_B :: "'a::len word" where "OPCODE_B \<equiv> 0b01100011"

abbreviation (input) OPCODE_LD :: "'a::len word" where "OPCODE_LD \<equiv> 0b00000011"

abbreviation (input) OPCODE_J :: "'a::len word" where "OPCODE_J \<equiv> 0b01101111"

abbreviation (input) OPCODE_S :: "'a::len word" where "OPCODE_S \<equiv> 0b00100011"

abbreviation (input) OPCODE_JALR :: "'a::len word" where "OPCODE_JALR \<equiv> 0b01100111"

abbreviation (input) OPCODE_LUI :: "'a::len word" where "OPCODE_LUI \<equiv> 0b00110111"

abbreviation (input) OPCODE_AUIPC :: "'a::len word" where "OPCODE_AUIPC \<equiv> 0b00010111"

abbreviation (input) OPCODE_SYSTEM :: "'a::len word" where "OPCODE_SYSTEM \<equiv> 0b01110011"

abbreviation (input) OPCODE_FENCE :: "'a::len word" where "OPCODE_FENCE \<equiv> 0b0001111"

abbreviation (input) OPCODE_AMO :: "'a::len word" where "OPCODE_AMO \<equiv> 0b0101111"

section \<open>Function codes\<close>

text \<open>\<open>enum op_funct\<close>, \<open>op_funct3\<close> and \<open>op_funct5\<close>.\<close>

abbreviation (input) FUNC_NORM :: "'a::len word" where "FUNC_NORM \<equiv> 0"

abbreviation (input) FUNC_ALT :: "'a::len word" where "FUNC_ALT \<equiv> 0b0100000"

abbreviation (input) FUNC_MRET :: "'a::len word" where "FUNC_MRET \<equiv> 0b0011000"

abbreviation (input) FUNC_MULT :: "'a::len word" where "FUNC_MULT \<equiv> 0b0000001"

abbreviation (input) FUNC3_ADDSUB :: "'a::len word" where "FUNC3_ADDSUB \<equiv> 0"

abbreviation (input) FUNC3_AND :: "'a::len word" where "FUNC3_AND \<equiv> 0b111"

abbreviation (input) FUNC3_OR :: "'a::len word" where "FUNC3_OR \<equiv> 0b110"

abbreviation (input) FUNC3_XOR :: "'a::len word" where "FUNC3_XOR \<equiv> 0b100"

abbreviation (input) FUNC3_SL :: "'a::len word" where "FUNC3_SL \<equiv> 0b001"

abbreviation (input) FUNC3_SR :: "'a::len word" where "FUNC3_SR \<equiv> 0b0101"

abbreviation (input) FUNC3_SLT :: "'a::len word" where "FUNC3_SLT \<equiv> 0b010"

abbreviation (input) FUNC3_SLTU :: "'a::len word" where "FUNC3_SLTU \<equiv> 0b011"

abbreviation (input) FUNC3_BEQ :: "'a::len word" where "FUNC3_BEQ \<equiv> 0"

abbreviation (input) FUNC3_BGE :: "'a::len word" where "FUNC3_BGE \<equiv> 0b101"

abbreviation (input) FUNC3_BGEU :: "'a::len word" where "FUNC3_BGEU \<equiv> 0b111"

abbreviation (input) FUNC3_BLT :: "'a::len word" where "FUNC3_BLT \<equiv> 0b100"

abbreviation (input) FUNC3_BLTU :: "'a::len word" where "FUNC3_BLTU \<equiv> 0b110"

abbreviation (input) FUNC3_BNE :: "'a::len word" where "FUNC3_BNE \<equiv> 0b001"

abbreviation (input) FUNC3_LSB :: "'a::len word" where "FUNC3_LSB \<equiv> 0"

abbreviation (input) FUNC3_LSBU :: "'a::len word" where "FUNC3_LSBU \<equiv> 0b100"

abbreviation (input) FUNC3_LSH :: "'a::len word" where "FUNC3_LSH \<equiv> 0b001"

abbreviation (input) FUNC3_LSHU :: "'a::len word" where "FUNC3_LSHU \<equiv> 0b101"

abbreviation (input) FUNC3_LSW :: "'a::len word" where "FUNC3_LSW \<equiv> 0b010"

abbreviation (input) FUNC3_LSD :: "'a::len word" where "FUNC3_LSD \<equiv> 0b011"

abbreviation (input) FUNC3_LSWU :: "'a::len word" where "FUNC3_LSWU \<equiv> 0b110"

abbreviation (input) FUNC3_JALR :: "'a::len word" where "FUNC3_JALR \<equiv> 0"

abbreviation (input) FUNC3_SYSTEM :: "'a::len word" where "FUNC3_SYSTEM \<equiv> 0"

abbreviation (input) FUNC3_CSRRC :: "'a::len word" where "FUNC3_CSRRC \<equiv> 0b011"

abbreviation (input) FUNC3_CSRRCI :: "'a::len word" where "FUNC3_CSRRCI \<equiv> 0b111"

abbreviation (input) FUNC3_CSRRS :: "'a::len word" where "FUNC3_CSRRS \<equiv> 0b010"

abbreviation (input) FUNC3_CSRRSI :: "'a::len word" where "FUNC3_CSRRSI \<equiv> 0b110"

abbreviation (input) FUNC3_CSRRW :: "'a::len word" where "FUNC3_CSRRW \<equiv> 0b001"

abbreviation (input) FUNC3_CSRRWI :: "'a::len word" where "FUNC3_CSRRWI \<equiv> 0b101"

abbreviation (input) FUNC3_FENCE :: "'a::len word" where "FUNC3_FENCE \<equiv> 0"

abbreviation (input) FUNC3_FENCEI :: "'a::len word" where "FUNC3_FENCEI \<equiv> 0b001"

abbreviation (input) FUNC3_MUL :: "'a::len word" where "FUNC3_MUL \<equiv> 0"

abbreviation (input) FUNC3_MULH :: "'a::len word" where "FUNC3_MULH \<equiv> 0b001"

abbreviation (input) FUNC3_MULHSU :: "'a::len word" where "FUNC3_MULHSU \<equiv> 0b010"

abbreviation (input) FUNC3_MULHU :: "'a::len word" where "FUNC3_MULHU \<equiv> 0b011"

abbreviation (input) FUNC3_DIV :: "'a::len word" where "FUNC3_DIV \<equiv> 0b100"

abbreviation (input) FUNC3_DIVU :: "'a::len word" where "FUNC3_DIVU \<equiv> 0b101"

abbreviation (input) FUNC3_REM :: "'a::len word" where "FUNC3_REM \<equiv> 0b110"

abbreviation (input) FUNC3_REMU :: "'a::len word" where "FUNC3_REMU \<equiv> 0b111"

abbreviation (input) FUNC3_AMOW :: "'a::len word" where "FUNC3_AMOW \<equiv> 0b010"

abbreviation (input) FUNC3_AMOD :: "'a::len word" where "FUNC3_AMOD \<equiv> 0b011"

abbreviation (input) FUNC5_AMOADD :: "'a::len word" where "FUNC5_AMOADD \<equiv> 0"

abbreviation (input) FUNC5_AMOAND :: "'a::len word" where "FUNC5_AMOAND \<equiv> 0b01100"

abbreviation (input) FUNC5_AMOMAX :: "'a::len word" where "FUNC5_AMOMAX \<equiv> 0b10100"

abbreviation (input) FUNC5_AMOMAXU :: "'a::len word" where "FUNC5_AMOMAXU \<equiv> 0b11100"

abbreviation (input) FUNC5_AMOMIN :: "'a::len word" where "FUNC5_AMOMIN \<equiv> 0b10000"

abbreviation (input) FUNC5_AMOMINU :: "'a::len word" where "FUNC5_AMOMINU \<equiv> 0b11000"

abbreviation (input) FUNC5_AMOOR :: "'a::len word" where "FUNC5_AMOOR \<equiv> 0b01000"

abbreviation (input) FUNC5_AMOSWAP :: "'a::len word" where "FUNC5_AMOSWAP \<equiv> 0b00001"

abbreviation (input) FUNC5_AMOXOR :: "'a::len word" where "FUNC5_AMOXOR \<equiv> 0b00100"

section \<open>Instructions\<close>

text \<open>\<open>enum instruction\<close>: the decoded instruction, kept in a \<open>uint32_t\<close>.\<close>

abbreviation (input) INST_ERROR :: "'a::len word" where "INST_ERROR \<equiv> 0"

abbreviation (input) INST_ADD :: "'a::len word" where "INST_ADD \<equiv> 1"

abbreviation (input) INST_ADDW :: "'a::len word" where "INST_ADDW \<equiv> 2"

abbreviation (input) INST_AND :: "'a::len word" where "INST_AND \<equiv> 3"

abbreviation (input) INST_SUB :: "'a::len word" where "INST_SUB \<equiv> 4"

abbreviation (input) INST_SUBW :: "'a::len word" where "INST_SUBW \<equiv> 5"

abbreviation (input) INST_OR :: "'a::len word" where "INST_OR \<equiv> 6"

abbreviation (input) INST_XOR :: "'a::len word" where "INST_XOR \<equiv> 7"

abbreviation (input) INST_SLL :: "'a::len word" where "INST_SLL \<equiv> 8"

abbreviation (input) INST_SLLW :: "'a::len word" where "INST_SLLW \<equiv> 9"

abbreviation (input) INST_SRL :: "'a::len word" where "INST_SRL \<equiv> 10"

abbreviation (input) INST_SRLW :: "'a::len word" where "INST_SRLW \<equiv> 11"

abbreviation (input) INST_SRA :: "'a::len word" where "INST_SRA \<equiv> 12"

abbreviation (input) INST_SRAW :: "'a::len word" where "INST_SRAW \<equiv> 13"

abbreviation (input) INST_SLT :: "'a::len word" where "INST_SLT \<equiv> 14"

abbreviation (input) INST_SLTU :: "'a::len word" where "INST_SLTU \<equiv> 15"

abbreviation (input) INST_ADDI :: "'a::len word" where "INST_ADDI \<equiv> 16"

abbreviation (input) INST_ADDIW :: "'a::len word" where "INST_ADDIW \<equiv> 17"

abbreviation (input) INST_ANDI :: "'a::len word" where "INST_ANDI \<equiv> 18"

abbreviation (input) INST_ORI :: "'a::len word" where "INST_ORI \<equiv> 19"

abbreviation (input) INST_XORI :: "'a::len word" where "INST_XORI \<equiv> 20"

abbreviation (input) INST_SLLI :: "'a::len word" where "INST_SLLI \<equiv> 21"

abbreviation (input) INST_SLLIW :: "'a::len word" where "INST_SLLIW \<equiv> 22"

abbreviation (input) INST_SRLI :: "'a::len word" where "INST_SRLI \<equiv> 23"

abbreviation (input) INST_SRLIW :: "'a::len word" where "INST_SRLIW \<equiv> 24"

abbreviation (input) INST_SRAI :: "'a::len word" where "INST_SRAI \<equiv> 25"

abbreviation (input) INST_SRAIW :: "'a::len word" where "INST_SRAIW \<equiv> 26"

abbreviation (input) INST_SLTI :: "'a::len word" where "INST_SLTI \<equiv> 27"

abbreviation (input) INST_SLTIU :: "'a::len word" where "INST_SLTIU \<equiv> 28"

abbreviation (input) INST_BEQ :: "'a::len word" where "INST_BEQ \<equiv> 29"

abbreviation (input) INST_BGE :: "'a::len word" where "INST_BGE \<equiv> 30"

abbreviation (input) INST_BGEU :: "'a::len word" where "INST_BGEU \<equiv> 31"

abbreviation (input) INST_BLT :: "'a::len word" where "INST_BLT \<equiv> 32"

abbreviation (input) INST_BLTU :: "'a::len word" where "INST_BLTU \<equiv> 33"

abbreviation (input) INST_BNE :: "'a::len word" where "INST_BNE \<equiv> 34"

abbreviation (input) INST_JAL :: "'a::len word" where "INST_JAL \<equiv> 35"

abbreviation (input) INST_JALR :: "'a::len word" where "INST_JALR \<equiv> 36"

abbreviation (input) INST_LB :: "'a::len word" where "INST_LB \<equiv> 37"

abbreviation (input) INST_LBU :: "'a::len word" where "INST_LBU \<equiv> 38"

abbreviation (input) INST_LH :: "'a::len word" where "INST_LH \<equiv> 39"

abbreviation (input) INST_LHU :: "'a::len word" where "INST_LHU \<equiv> 40"

abbreviation (input) INST_LW :: "'a::len word" where "INST_LW \<equiv> 41"

abbreviation (input) INST_LWU :: "'a::len word" where "INST_LWU \<equiv> 42"

abbreviation (input) INST_LD :: "'a::len word" where "INST_LD \<equiv> 43"

abbreviation (input) INST_SB :: "'a::len word" where "INST_SB \<equiv> 44"

abbreviation (input) INST_SH :: "'a::len word" where "INST_SH \<equiv> 45"

abbreviation (input) INST_SW :: "'a::len word" where "INST_SW \<equiv> 46"

abbreviation (input) INST_SD :: "'a::len word" where "INST_SD \<equiv> 47"

abbreviation (input) INST_LUI :: "'a::len word" where "INST_LUI \<equiv> 48"

abbreviation (input) INST_AUIPC :: "'a::len word" where "INST_AUIPC \<equiv> 49"

abbreviation (input) INST_SYSTEM :: "'a::len word" where "INST_SYSTEM \<equiv> 50"

abbreviation (input) INST_CSRRC :: "'a::len word" where "INST_CSRRC \<equiv> 51"

abbreviation (input) INST_CSRRCI :: "'a::len word" where "INST_CSRRCI \<equiv> 52"

abbreviation (input) INST_CSRRS :: "'a::len word" where "INST_CSRRS \<equiv> 53"

abbreviation (input) INST_CSRRSI :: "'a::len word" where "INST_CSRRSI \<equiv> 54"

abbreviation (input) INST_CSRRW :: "'a::len word" where "INST_CSRRW \<equiv> 55"

abbreviation (input) INST_CSRRWI :: "'a::len word" where "INST_CSRRWI \<equiv> 56"

abbreviation (input) INST_FENCE :: "'a::len word" where "INST_FENCE \<equiv> 57"

abbreviation (input) INST_FENCEI :: "'a::len word" where "INST_FENCEI \<equiv> 58"

abbreviation (input) INST_MUL :: "'a::len word" where "INST_MUL \<equiv> 59"

abbreviation (input) INST_MULH :: "'a::len word" where "INST_MULH \<equiv> 60"

abbreviation (input) INST_MULHSU :: "'a::len word" where "INST_MULHSU \<equiv> 61"

abbreviation (input) INST_MULHU :: "'a::len word" where "INST_MULHU \<equiv> 62"

abbreviation (input) INST_MULW :: "'a::len word" where "INST_MULW \<equiv> 63"

abbreviation (input) INST_DIV :: "'a::len word" where "INST_DIV \<equiv> 64"

abbreviation (input) INST_DIVU :: "'a::len word" where "INST_DIVU \<equiv> 65"

abbreviation (input) INST_DIVUW :: "'a::len word" where "INST_DIVUW \<equiv> 66"

abbreviation (input) INST_DIVW :: "'a::len word" where "INST_DIVW \<equiv> 67"

abbreviation (input) INST_REM :: "'a::len word" where "INST_REM \<equiv> 68"

abbreviation (input) INST_REMU :: "'a::len word" where "INST_REMU \<equiv> 69"

abbreviation (input) INST_REMUW :: "'a::len word" where "INST_REMUW \<equiv> 70"

abbreviation (input) INST_REMW :: "'a::len word" where "INST_REMW \<equiv> 71"

abbreviation (input) INST_AMOADDD :: "'a::len word" where "INST_AMOADDD \<equiv> 72"

abbreviation (input) INST_AMOADDW :: "'a::len word" where "INST_AMOADDW \<equiv> 73"

abbreviation (input) INST_AMOANDD :: "'a::len word" where "INST_AMOANDD \<equiv> 74"

abbreviation (input) INST_AMOANDW :: "'a::len word" where "INST_AMOANDW \<equiv> 75"

abbreviation (input) INST_AMOMAXD :: "'a::len word" where "INST_AMOMAXD \<equiv> 76"

abbreviation (input) INST_AMOMAXW :: "'a::len word" where "INST_AMOMAXW \<equiv> 77"

abbreviation (input) INST_AMOMAXUD :: "'a::len word" where "INST_AMOMAXUD \<equiv> 78"

abbreviation (input) INST_AMOMAXUW :: "'a::len word" where "INST_AMOMAXUW \<equiv> 79"

abbreviation (input) INST_AMOMIND :: "'a::len word" where "INST_AMOMIND \<equiv> 80"

abbreviation (input) INST_AMOMINW :: "'a::len word" where "INST_AMOMINW \<equiv> 81"

abbreviation (input) INST_AMOMINUD :: "'a::len word" where "INST_AMOMINUD \<equiv> 82"

abbreviation (input) INST_AMOMINUW :: "'a::len word" where "INST_AMOMINUW \<equiv> 83"

abbreviation (input) INST_AMOORD :: "'a::len word" where "INST_AMOORD \<equiv> 84"

abbreviation (input) INST_AMOORW :: "'a::len word" where "INST_AMOORW \<equiv> 85"

abbreviation (input) INST_AMOXORD :: "'a::len word" where "INST_AMOXORD \<equiv> 86"

abbreviation (input) INST_AMOXORW :: "'a::len word" where "INST_AMOXORW \<equiv> 87"

abbreviation (input) INST_AMOSWAPD :: "'a::len word" where "INST_AMOSWAPD \<equiv> 88"

abbreviation (input) INST_AMOSWAPW :: "'a::len word" where "INST_AMOSWAPW \<equiv> 89"

end
