(* ===== verification/System_Call.thy ===== *)
theory System_Call
  imports Memory_Wrapper Host Cpu_Types
begin

text \<open>
  \<open>system_call_emulator\<close>: the newlib system calls that \<open>ECALL\<close> performs on the host when
  emulation is enabled.  The state that a call reads and writes (the register file, guest
  memory, the program break, the count of open handles and the outside world) is the record
  \<open>sys_state\<close>.  The Windows branches and the debug output are left out.
\<close>

section \<open>File status\<close>

record guest_stat =
  gs_dev :: u16
  gs_ino :: u16
  gs_mode :: u32
  gs_nlink :: u16
  gs_uid :: u16
  gs_gid :: u16
  gs_rdev :: u16
  gs_size :: u32
  gs_spare0 :: u32
  gs_atim :: u64
  gs_spare1 :: u32
  gs_spare1_2 :: u32
  gs_mtim :: u64
  gs_spare2 :: u32
  gs_spare2_2 :: u32
  gs_ctim :: u64
  gs_spare3 :: u32
  gs_blksize :: u32
  gs_blocks :: u32
  gs_spare4_0 :: u32
  gs_spare4_1 :: u32

definition ConvGuestStatToHostStat :: "guest_stat \<Rightarrow> host_stat \<Rightarrow> host_stat" where
  "ConvGuestStatToHostStat g hs =
     hs\<lparr>hs_dev := ucast (gs_dev g), hs_ino := ucast (gs_ino g), hs_mode := gs_mode g,
        hs_nlink := ucast (gs_nlink g), hs_uid := ucast (gs_uid g), hs_gid := ucast (gs_gid g),
        hs_rdev := ucast (gs_rdev g), hs_size := scast (gs_size g),
        hs_blksize := scast (gs_blksize g), hs_blocks := scast (gs_blocks g),
        hs_atim_sec := gs_atim g, hs_atim_nsec := 0, hs_mtim_sec := gs_mtim g, hs_mtim_nsec := 0,
        hs_ctim_sec := gs_ctim g, hs_ctim_nsec := 0\<rparr>"

definition ConvHostStatToGuestStat :: "host_stat \<Rightarrow> guest_stat \<Rightarrow> guest_stat" where
  "ConvHostStatToGuestStat hs g =
     g\<lparr>gs_dev := ucast (hs_dev hs), gs_ino := ucast (hs_ino hs), gs_mode := hs_mode hs,
       gs_nlink := ucast (hs_nlink hs), gs_uid := ucast (hs_uid hs), gs_gid := ucast (hs_gid hs),
       gs_rdev := ucast (hs_rdev hs), gs_size := ucast (hs_size hs),
       gs_blksize := ucast (hs_blksize hs), gs_blocks := ucast (hs_blocks hs),
       gs_atim := hs_atim_sec hs, gs_mtim := hs_mtim_sec hs, gs_ctim := hs_ctim_sec hs\<rparr>"

text \<open>
  The object representation of \<open>Riscv32NewlibStat\<close> on the host, 88 bytes: every member at its
  natural alignment, four bytes of padding at the end.
\<close>

definition guest_stat_bytes :: "guest_stat \<Rightarrow> u8 list \<Rightarrow> u8 list" where
  "guest_stat_bytes g padding =
     le_bytes (ucast (gs_dev g)) 2 @ le_bytes (ucast (gs_ino g)) 2 @ le_bytes (ucast (gs_mode g)) 4 @
     le_bytes (ucast (gs_nlink g)) 2 @ le_bytes (ucast (gs_uid g)) 2 @ le_bytes (ucast (gs_gid g)) 2 @
     le_bytes (ucast (gs_rdev g)) 2 @ le_bytes (ucast (gs_size g)) 4 @ le_bytes (ucast (gs_spare0 g)) 4 @
     le_bytes (gs_atim g) 8 @ le_bytes (ucast (gs_spare1 g)) 4 @ le_bytes (ucast (gs_spare1_2 g)) 4 @
     le_bytes (gs_mtim g) 8 @ le_bytes (ucast (gs_spare2 g)) 4 @ le_bytes (ucast (gs_spare2_2 g)) 4 @
     le_bytes (gs_ctim g) 8 @ le_bytes (ucast (gs_spare3 g)) 4 @ le_bytes (ucast (gs_blksize g)) 4 @
     le_bytes (ucast (gs_blocks g)) 4 @ le_bytes (ucast (gs_spare4_0 g)) 4 @ le_bytes (ucast (gs_spare4_1 g)) 4 @
     padding"

text \<open>The uninitialised structure, and its padding, as the stack holds them.\<close>

definition stack_word :: "(nat \<Rightarrow> u8) \<Rightarrow> nat \<Rightarrow> nat \<Rightarrow> u64" where
  "stack_word st a n = le_word (map (\<lambda>k. st (a + k)) [0..<n])"

definition stack_guest_stat :: "(nat \<Rightarrow> u8) \<Rightarrow> guest_stat" where
  "stack_guest_stat st =
     \<lparr>gs_dev = ucast (stack_word st 0 2), gs_ino = ucast (stack_word st 2 2), gs_mode = ucast (stack_word st 4 4),
      gs_nlink = ucast (stack_word st 8 2), gs_uid = ucast (stack_word st 10 2), gs_gid = ucast (stack_word st 12 2),
      gs_rdev = ucast (stack_word st 14 2), gs_size = ucast (stack_word st 16 4),
      gs_spare0 = ucast (stack_word st 20 4), gs_atim = stack_word st 24 8,
      gs_spare1 = ucast (stack_word st 32 4), gs_spare1_2 = ucast (stack_word st 36 4),
      gs_mtim = stack_word st 40 8, gs_spare2 = ucast (stack_word st 48 4),
      gs_spare2_2 = ucast (stack_word st 52 4), gs_ctim = stack_word st 56 8,
      gs_spare3 = ucast (stack_word st 64 4), gs_blksize = ucast (stack_word st 68 4),
      gs_blocks = ucast (stack_word st 72 4), gs_spare4_0 = ucast (stack_word st 76 4),
      gs_spare4_1 = ucast (stack_word st 80 4)\<rparr>"

section \<open>Strings and buffers in guest memory\<close>

fun strlen_loop :: "memory \<Rightarrow> u64 \<Rightarrow> nat \<Rightarrow> nat \<Rightarrow> nat res" where
  "strlen_loop mem index 0 counter = rbind (ReadByte mem index) (\<lambda>_. Inr counter)"
| "strlen_loop mem index (Suc n) counter =
     rbind (ReadByte mem index) (\<lambda>b.
     if b \<noteq> 0 then strlen_loop mem (index + 1) n (counter + 1) else Inr counter)"

definition MemoryWrapperStrlen :: "memory \<Rightarrow> u64 \<Rightarrow> nat \<Rightarrow> nat res" where
  "MemoryWrapperStrlen mem address max_len = strlen_loop mem address max_len 0"

definition MemoryWrapperCopy :: "memory \<Rightarrow> u64 \<Rightarrow> nat \<Rightarrow> u8 list res" where
  "MemoryWrapperCopy mem address len =
     rfold (\<lambda>dst i. rbind (ReadByte mem (address + of_nat i)) (\<lambda>b. Inr (dst @ [b]))) [] [0..<len]"

definition store_bytes :: "memory \<Rightarrow> u64 \<Rightarrow> (nat \<Rightarrow> u8) \<Rightarrow> nat \<Rightarrow> memory res" where
  "store_bytes mem address buffer len =
     rfold (\<lambda>m i. WriteByte m (address + of_nat i) (buffer i)) mem [0..<len]"

section \<open>The system calls\<close>

record 'w sys_state =
  sy_reg :: "u32 \<Rightarrow> u64"
  sy_mem :: memory
  sy_brk :: u64
  sy_openHandles :: int
  sy_world :: 'w

definition sys_reg :: "'w sys_state \<Rightarrow> u32 \<Rightarrow> u64 \<Rightarrow> 'w sys_state" where
  "sys_reg s r v = s\<lparr>sy_reg := (sy_reg s)(r := v)\<rparr>"

text \<open>\<open>new unsigned char[length]\<close> with an \<open>int\<close> length.\<close>

definition alloc_length :: "u64 \<Rightarrow> nat res" where
  "alloc_length x = (let length = sint (ucast x :: u32) in if length < 0 then Inl Bad_alloc else Inr (nat length))"

definition sys_write :: "'w host \<Rightarrow> 'w sys_state \<Rightarrow> 'w sys_state res" where
  "sys_write h s =
     rbind (alloc_length (sy_reg s A2)) (\<lambda>length.
     rbind (MemoryWrapperCopy (sy_mem s) (sy_reg s A1) length) (\<lambda>buffer.
     let (return_value, w) = h_write h (ucast (sy_reg s A0)) buffer (sy_world s)
     in Inr (sys_reg (s\<lparr>sy_world := w\<rparr>) A0 return_value)))"

definition sys_brk :: "'w sys_state \<Rightarrow> u64 \<Rightarrow> 'w sys_state" where
  "sys_brk s limit =
     (if sy_reg s A0 = 0 then sys_reg s A0 (sy_brk s)
      else if sy_reg s A0 < limit then s\<lparr>sy_brk := sy_reg s A0\<rparr>
      else sys_reg s A0 (- 1))"

definition sys_read :: "'w host \<Rightarrow> 'w sys_state \<Rightarrow> 'w sys_state res" where
  "sys_read h s =
     rbind (alloc_length (sy_reg s A2)) (\<lambda>length.
     let ((return_value, buffer), w) = h_read h (ucast (sy_reg s A0)) length (sy_world s);
         s = sys_reg (s\<lparr>sy_world := w\<rparr>) A0 (ucast (ucast return_value :: u32))
     in rbind (store_bytes (sy_mem s) (sy_reg s A1) buffer length) (\<lambda>mem. Inr (s\<lparr>sy_mem := mem\<rparr>)))"

definition sys_fstat :: "'w host \<Rightarrow> 'w sys_state \<Rightarrow> 'w sys_state res" where
  "sys_fstat h s =
     (let st = h_stack h (sy_world s);
          ((return_value, host_stat), w) = h_fstat h (ucast (sy_reg s A0)) (sy_world s);
          guest_stat = ConvHostStatToGuestStat host_stat (stack_guest_stat st);
          statbuf = guest_stat_bytes guest_stat (map st [84..<88])
      in rbind (store_bytes (sy_mem s) (sy_reg s A1) (\<lambda>i. statbuf ! i) 88) (\<lambda>mem.
         Inr (sys_reg (s\<lparr>sy_mem := mem, sy_world := w\<rparr>) A0 (scast return_value))))"

definition sys_close :: "'w host \<Rightarrow> 'w sys_state \<Rightarrow> 'w sys_state" where
  "sys_close h s =
     (if sy_openHandles s > 0 then
        let (return_value, w) = h_close h (ucast (sy_reg s A0)) (sy_world s)
        in sys_reg (s\<lparr>sy_world := w, sy_openHandles := sy_openHandles s - 1\<rparr>) A0 (scast return_value)
      else sys_reg s A0 0)"

text \<open>The flags of newlib, and their translation to the flags of the host.\<close>

definition open_flags :: "'w host \<Rightarrow> u64 \<Rightarrow> u32" where
  "open_flags h x =
     (let flag = (if x AND 0x000002 \<noteq> 0 then h_O_RDWR h else h_O_RDONLY h);
          flag = flag OR (if x AND 0x000008 \<noteq> 0 then h_O_APPEND h else 0);
          flag = flag OR (if x AND 0x040000 \<noteq> 0 then h_O_CLOEXEC h else 0);
          flag = flag OR (if x AND 0x000200 \<noteq> 0 then h_O_CREAT h else 0);
          flag = flag OR (if x AND 0x080000 \<noteq> 0 then h_O_DIRECT h else 0);
          flag = flag OR (if x AND 0x200000 \<noteq> 0 then h_O_DIRECTORY h else 0);
          flag = flag OR (if x AND 0x000800 \<noteq> 0 then h_O_EXCL h else 0);
          flag = flag OR (if x AND 0x008000 \<noteq> 0 then h_O_NOCTTY h else 0);
          flag = flag OR (if x AND 0x004000 \<noteq> 0 then h_O_NONBLOCK h else 0);
          flag = flag OR (if x AND 0x002000 \<noteq> 0 then h_O_SYNC h else 0)
      in flag OR (if x AND 0x000400 \<noteq> 0 then h_O_TRUNC h else 0))"

definition sys_open :: "'w host \<Rightarrow> 'w sys_state \<Rightarrow> 'w sys_state res" where
  "sys_open h s =
     (let flag = open_flags h (sy_reg s A1)
      in rbind (MemoryWrapperStrlen (sy_mem s) (sy_reg s A0) 1024) (\<lambda>length.
         if length > 0 then
           rbind (MemoryWrapperCopy (sy_mem s) (sy_reg s A0) length) (\<lambda>buffer.
           let (return_value, w) = h_open h (buffer @ [0]) flag (sy_reg s A2) (sy_world s);
               s = s\<lparr>sy_world := w\<rparr>;
               s = (if 0 \<le> sint return_value then s\<lparr>sy_openHandles := sy_openHandles s + 1\<rparr> else s)
           in Inr (sys_reg s A0 (scast return_value)))
         else Inr (sys_reg s A0 (- 1))))"

definition sys_lseek :: "'w host \<Rightarrow> 'w sys_state \<Rightarrow> 'w sys_state" where
  "sys_lseek h s =
     (let (return_value, w) = h_lseek h (ucast (sy_reg s A0)) (sy_reg s A1) (ucast (sy_reg s A2)) (sy_world s)
      in sys_reg (s\<lparr>sy_world := w\<rparr>) A0 (scast (ucast return_value :: u32)))"

text \<open>The result is the pair of \<open>error_flag\<close> and \<open>end_flag\<close>, and the state afterwards.\<close>

definition SystemCallEmulation :: "'w host \<Rightarrow> 'w sys_state \<Rightarrow> u64 \<Rightarrow> ((bool \<times> bool) \<times> 'w sys_state) res" where
  "SystemCallEmulation h s limit =
     (let a7 = sy_reg s A7; continue = (\<lambda>s. Inr ((False, False), s))
      in if a7 = 93 then Inr ((False, True), s)
      else if a7 = 64 then rbind (sys_write h s) continue
      else if a7 = 214 then continue (sys_brk s limit)
      else if a7 = 63 then rbind (sys_read h s) continue
      else if a7 = 80 then rbind (sys_fstat h s) continue
      else if a7 = 57 then continue (sys_close h s)
      else if a7 = 1024 then rbind (sys_open h s) continue
      else if a7 = 62 then continue (sys_lseek h s)
      else Inr ((False, True), s))"

end
