(* ===== verification/Instruction_Encdec.thy ===== *)
theory Instruction_Encdec
  imports Bit_Tools Cpu_Types
begin

text \<open>
  \<open>instruction_encdec.h\<close> and \<open>instruction_encdec.cc\<close>: the six 32-bit instruction formats as
  bit-field classes with \<open>GetValue\<close> (encode) and \<open>SetValue\<close> (decode), and the functions
  that extract registers and immediates from an instruction word.  A bit field of \<open>n\<close>
  bits is an \<open>n word\<close>; an \<open>int32_t\<close> is the \<open>u32\<close> of its two's complement bits.
\<close>

section \<open>Fields of an instruction word\<close>

definition GetOpcode :: "u32 \<Rightarrow> u32" where
  "GetOpcode ir = bitcrop ir 7 0"

definition GetRd :: "u32 \<Rightarrow> u32" where
  "GetRd ir = bitcrop ir 5 7"

definition GetRs1 :: "u32 \<Rightarrow> u32" where
  "GetRs1 ir = bitcrop ir 5 15"

definition GetRs2 :: "u32 \<Rightarrow> u32" where
  "GetRs2 ir = bitcrop ir 5 20"

definition GetImm12 :: "u32 \<Rightarrow> u32" where
  "GetImm12 ir = SignExtend (bitcrop ir 12 20) 12"

definition GetCsr :: "u32 \<Rightarrow> u32" where
  "GetCsr ir = bitcrop ir 12 20"

definition GetImm13 :: "u32 \<Rightarrow> u32" where
  "GetImm13 ir =
     (let imm13 = BitShift ir 1 31 12 OR BitShift ir 6 25 5;
          imm13 = imm13 OR (BitShift ir 4 8 1 OR BitShift ir 1 7 11)
      in SignExtend imm13 13)"

definition GetImm21 :: "u32 \<Rightarrow> u32" where
  "GetImm21 ir =
     (let offset19_12 = bitcrop ir 8 12; offset11 = bitcrop ir 1 20;
          offset10_1 = bitcrop ir 10 21; offset20 = bitcrop ir 1 31;
          imm21 = push_bit 20 offset20 OR push_bit 12 offset19_12 OR push_bit 11 offset11
                  OR push_bit 1 offset10_1
      in SignExtend imm21 21)"

definition GetStypeImm12 :: "u32 \<Rightarrow> u32" where
  "GetStypeImm12 ir =
     (let imm12 = push_bit 5 (bitcrop ir 7 25) OR bitcrop ir 5 7 in SignExtend imm12 12)"

definition GetShamt :: "u32 \<Rightarrow> u32" where
  "GetShamt ir = bitcrop ir 6 20"

definition GetImm20 :: "u32 \<Rightarrow> u32" where
  "GetImm20 ir = SignExtend (bitcrop ir 20 12) 20"

definition GetImm :: "u32 \<Rightarrow> u32" where
  "GetImm ir =
     (let opcode = (ucast (bitcrop ir 7 0) :: u16); funct3 = (ucast (bitcrop ir 3 12) :: u8);
          imm = GetImm12 ir
      in if opcode = OPCODE_ARITHLOG_I \<or> opcode = OPCODE_ARITHLOG_I64
           then (if funct3 = FUNC3_SL \<or> funct3 = FUNC3_SR then imm AND 0b111111 else imm)
         else if opcode = OPCODE_B then GetImm13 ir
         else if opcode = OPCODE_LUI \<or> opcode = OPCODE_AUIPC then push_bit 12 (GetImm20 ir)
         else if opcode = OPCODE_J then GetImm21 ir
         else if opcode = OPCODE_S then GetStypeImm12 ir
         else imm)"

section \<open>The format classes\<close>

record bit_field =
  bf_opcode :: "7 word"
  bf_rd :: "5 word"
  bf_rs2 :: "5 word"
  bf_rs1 :: "5 word"
  bf_funct3 :: "3 word"

record RType = bit_field + r_funct7 :: "7 word"

record IType = bit_field + i_imm12 :: "12 word"

record SType = bit_field + s_imm12 :: "12 word"

record BType = bit_field + b_imm13 :: "13 word"

record JType = bit_field + j_imm21 :: "21 word"

record UType = bit_field + u_imm20 :: "24 word"

definition RType_GetValue :: "RType \<Rightarrow> u32" where
  "RType_GetValue t =
     push_bit 25 (ucast (r_funct7 t)) OR push_bit 20 (ucast (bf_rs2 t)) OR push_bit 15 (ucast (bf_rs1 t))
     OR (push_bit 12 (ucast (bf_funct3 t)) OR push_bit 7 (ucast (bf_rd t)) OR ucast (bf_opcode t))"

definition RType_SetValue :: "RType \<Rightarrow> u32 \<Rightarrow> RType" where
  "RType_SetValue t value =
     t\<lparr>r_funct7 := ucast (bitcrop value 7 25), bf_rs2 := ucast (bitcrop value 5 20),
       bf_rs1 := ucast (bitcrop value 5 15), bf_funct3 := ucast (bitcrop value 3 12),
       bf_rd := ucast (bitcrop value 5 7), bf_opcode := ucast (bitcrop value 7 0)\<rparr>"

definition IType_GetValue :: "IType \<Rightarrow> u32" where
  "IType_GetValue t =
     push_bit 20 (scast (i_imm12 t)) OR push_bit 15 (ucast (bf_rs1 t))
     OR (push_bit 12 (ucast (bf_funct3 t)) OR push_bit 7 (ucast (bf_rd t)) OR ucast (bf_opcode t))"

definition IType_SetValue :: "IType \<Rightarrow> u32 \<Rightarrow> IType" where
  "IType_SetValue t value =
     (let opcode = ucast (bitcrop value 7 0); funct3 = ucast (bitcrop value 3 12);
          imm12 = ucast (GetImm12 value);
          imm12 = (if (opcode = OPCODE_ARITHLOG_I \<or> opcode = OPCODE_ARITHLOG_I64) \<and>
                      (funct3 = FUNC3_SR \<or> funct3 = FUNC3_SL)
                   then imm12 AND 0b0111111 else imm12)
      in t\<lparr>bf_opcode := opcode, bf_funct3 := funct3, i_imm12 := imm12,
           bf_rs1 := ucast (bitcrop value 5 15), bf_rd := ucast (bitcrop value 5 7)\<rparr>)"

definition SType_GetValue :: "SType \<Rightarrow> u32" where
  "SType_GetValue t =
     (let imm12 = (scast (s_imm12 t) :: u16);
          imm11_5_7 = scast (bitcrop_signed imm12 7 5); imm4_0_5 = scast (bitcrop_signed imm12 5 0)
      in push_bit 25 imm11_5_7 OR push_bit 20 (ucast (bf_rs2 t)) OR push_bit 15 (ucast (bf_rs1 t))
         OR (push_bit 12 (ucast (bf_funct3 t)) OR push_bit 7 imm4_0_5 OR ucast (bf_opcode t)))"

definition SType_SetValue :: "SType \<Rightarrow> u32 \<Rightarrow> SType" where
  "SType_SetValue t value =
     t\<lparr>bf_rs2 := ucast (bitcrop value 5 20), bf_rs1 := ucast (bitcrop value 5 15),
       bf_funct3 := ucast (bitcrop value 3 12), bf_opcode := ucast (bitcrop value 7 0),
       s_imm12 := ucast (GetStypeImm12 value)\<rparr>"

definition BType_GetValue :: "BType \<Rightarrow> u32" where
  "BType_GetValue t =
     (let imm13 = (scast (b_imm13 t) :: u16);
          imm12_1 = scast (bitcrop_signed imm13 1 12); imm10_5_6 = scast (bitcrop_signed imm13 6 5);
          imm4_1_4 = scast (bitcrop_signed imm13 4 1); imm11_1 = scast (bitcrop_signed imm13 1 11)
      in (push_bit 31 imm12_1 OR push_bit 25 imm10_5_6)
         OR (push_bit 20 (ucast (bf_rs2 t)) OR push_bit 15 (ucast (bf_rs1 t)))
         OR (push_bit 12 (ucast (bf_funct3 t)) OR push_bit 8 imm4_1_4 OR push_bit 7 imm11_1
             OR ucast (bf_opcode t)))"

definition BType_SetValue :: "BType \<Rightarrow> u32 \<Rightarrow> BType" where
  "BType_SetValue t value =
     t\<lparr>bf_rs2 := ucast (bitcrop value 5 20), bf_rs1 := ucast (bitcrop value 5 15),
       bf_funct3 := ucast (bitcrop value 3 12), bf_opcode := ucast (bitcrop value 7 0),
       b_imm13 := ucast (GetImm13 value)\<rparr>"

definition UType_GetValue :: "UType \<Rightarrow> u32" where
  "UType_GetValue t =
     push_bit 12 (ucast (u_imm20 t) AND 0xFFFFF) OR (push_bit 7 (ucast (bf_rd t)) OR ucast (bf_opcode t))"

definition UType_SetValue :: "UType \<Rightarrow> u32 \<Rightarrow> UType" where
  "UType_SetValue t value =
     t\<lparr>u_imm20 := ucast (GetImm20 value), bf_rd := ucast (bitcrop value 5 7),
       bf_opcode := ucast (bitcrop value 7 0)\<rparr>"

definition JType_GetValue :: "JType \<Rightarrow> u32" where
  "JType_GetValue t =
     (let imm21 = (scast (j_imm21 t) :: u32);
          imm20_1 = bitcrop_signed imm21 1 20; imm10_1_10 = bitcrop_signed imm21 10 1;
          imm11_1 = bitcrop_signed imm21 1 11; imm19_12 = bitcrop_signed imm21 8 12
      in push_bit 31 imm20_1 OR push_bit 21 imm10_1_10 OR push_bit 20 imm11_1 OR push_bit 12 imm19_12
         OR (push_bit 7 (ucast (bf_rd t)) OR ucast (bf_opcode t)))"

definition JType_SetValue :: "JType \<Rightarrow> u32 \<Rightarrow> JType" where
  "JType_SetValue t value =
     t\<lparr>j_imm21 := ucast (GetImm21 value), bf_rd := ucast (bitcrop value 5 7),
       bf_opcode := ucast (bitcrop value 7 0)\<rparr>"

section \<open>Bits of the formats\<close>

text \<open>The decoded value of a field that is cut from bits \<open>s\<close> and up.\<close>

lemma bit_field_in:
  "bit (push_bit s (ucast (x :: 'a::len word)) :: u32) n \<longleftrightarrow> n < 32 \<and> s \<le> n \<and> n < s + LENGTH('a) \<and> bit x (n - s)"
  by (auto simp: bit_simps dest: bit_imp_le_length)

lemma bit_bitcrop: "w \<le> 64 \<Longrightarrow> bit (bitcrop v w s) n \<longleftrightarrow> n < w \<and> bit v (s + n)"
  by (auto simp: bitcrop_eq bit_simps)

text \<open>The immediates, bit by bit.\<close>

lemma bit_sext: "bit (signed_take_bit k (x :: u32)) n \<longleftrightarrow> n < 32 \<and> bit x (min k n)"
  by (simp add: bit_signed_take_bit_iff possible_bit_def min.commute)

lemma bit_times2: "bit (x * 2 :: u32) n \<longleftrightarrow> 0 < n \<and> n < 32 \<and> bit x (n - 1)"
  using bit_push_bit_iff [of 1 x n] by (auto simp: push_bit_eq_mult mult.commute)

lemmas imm_bits = SignExtend_eq bit_sext BitShift_eq bitcrop_eq bit_simps bit_times2 bit_iff_odd_drop_bit [symmetric]

lemma bit_GetImm12: "n < 32 \<Longrightarrow> bit (GetImm12 ir) n \<longleftrightarrow> bit ir (20 + min 11 n)"
  by (auto simp: GetImm12_def imm_bits min_def)

lemma bit_GetStypeImm12:
  "n < 32 \<Longrightarrow> bit (GetStypeImm12 ir) n \<longleftrightarrow> bit ir (if n < 5 then 7 + n else 20 + min 11 n)"
  by (auto simp: GetStypeImm12_def imm_bits min_def)

lemma bit_GetImm13:
  "n < 32 \<Longrightarrow> bit (GetImm13 ir) n \<longleftrightarrow>
     0 < n \<and> bit ir (if n < 5 then 7 + n else if n < 11 then 20 + n else if n = 11 then 7 else 31)"
  by (cases "n = 0"; cases "n < 5"; cases "n < 11"; cases "n = 11")
     (auto simp: GetImm13_def imm_bits min_def)

lemma bit_GetImm21:
  "n < 32 \<Longrightarrow> bit (GetImm21 ir) n \<longleftrightarrow>
     0 < n \<and> bit ir (if n < 11 then 20 + n else if n = 11 then 20 else if n < 20 then n else 31)"
  by (cases "n = 0"; cases "n < 11"; cases "n = 11"; cases "n < 20")
     (auto simp: GetImm21_def imm_bits min_def)

lemma bit_GetImm20: "n < 32 \<Longrightarrow> bit (GetImm20 ir) n \<longleftrightarrow> bit ir (12 + min 19 n)"
  by (auto simp: GetImm20_def imm_bits min_def)

text \<open>A slice of a signed immediate field.\<close>

lemma bit_imm_slice:
  fixes x :: "'a::len word"
  assumes "s + w \<le> LENGTH('a)" "LENGTH('a) \<le> LENGTH('b)" "w < LENGTH('b)" "w \<le> 64" "w < 32"
  shows "bit (scast (bitcrop_signed (scast x :: 'b::len word) w s) :: u32) n \<longleftrightarrow> n < w \<and> bit x (s + n)"
proof -
  have "bitcrop_signed (scast x :: 'b word) w s = take_bit w (drop_bit s (scast x))"
    using assms by (simp add: bitcrop_signed_eq bitcrop_eq)
  moreover have "\<not> bit (take_bit w (drop_bit s (scast x :: 'b word))) (LENGTH('b) - 1)"
    using assms(3) by (auto simp: bit_take_bit_iff)
  moreover have "min (LENGTH('a) - 1) (s + n) = s + n" if "n < w" using that assms(1) by linarith
  moreover have "min (LENGTH('b) - 1) n = n" if "n < w" using that assms(3) by linarith
  ultimately show ?thesis
    using assms by (cases "n < w") (auto simp: bit_signed_iff bit_take_bit_iff bit_drop_bit_eq min_def)
qed

text \<open>The 32 bit positions, for proofs that look at each of them.\<close>

lemma less_32_cases:
  "(pos :: nat) < 32 \<Longrightarrow>
    pos = 0 \<or> pos = 1 \<or> pos = 2 \<or> pos = 3 \<or> pos = 4 \<or> pos = 5 \<or> pos = 6 \<or> pos = 7 \<or> pos = 8 \<or> pos = 9 \<or> pos = 10 \<or> pos = 11 \<or> pos = 12 \<or> pos = 13 \<or> pos = 14 \<or> pos = 15 \<or>
    pos = 16 \<or> pos = 17 \<or> pos = 18 \<or> pos = 19 \<or> pos = 20 \<or> pos = 21 \<or> pos = 22 \<or> pos = 23 \<or> pos = 24 \<or> pos = 25 \<or> pos = 26 \<or> pos = 27 \<or> pos = 28 \<or> pos = 29 \<or> pos = 30 \<or> pos = 31"
  by presburger

lemmas format_bits = bit_or_iff bit_push_bit_iff bit_imm_slice bit_field_in bit_field_in [of 0, simplified] bit_ucast_iff bit_bitcrop

lemma RType_get_set: "RType_GetValue (RType_SetValue t v) = v"
proof (rule bit_word_eqI)
  fix n assume "n < LENGTH(32)"
  then consider "n < 7" | "7 \<le> n \<and> n < 12" | "12 \<le> n \<and> n < 15" | "15 \<le> n \<and> n < 20" | "20 \<le> n \<and> n < 25" | "25 \<le> n \<and> n < 32"
    by force
  then show "bit (RType_GetValue (RType_SetValue t v)) n = bit v n"
    by cases (auto simp: RType_GetValue_def RType_SetValue_def format_bits)
qed

lemma RType_set_get: "RType_SetValue t (RType_GetValue t) = t"
  unfolding RType_SetValue_def
  by (intro RType.equality bit_field.equality)
     (auto intro!: bit_word_eqI simp: RType_GetValue_def format_bits)

lemma SType_get_set: "SType_GetValue (SType_SetValue t v) = v"
proof (rule bit_word_eqI)
  fix n assume "n < LENGTH(32)"
  then have "n < 32" by simp
  from less_32_cases [OF this] show "bit (SType_GetValue (SType_SetValue t v)) n = bit v n"
    by (elim disjE) (simp_all add: SType_GetValue_def SType_SetValue_def Let_def format_bits bit_GetStypeImm12 numeral_2_eq_2)
qed

lemma SType_imm: "ucast (GetStypeImm12 (SType_GetValue t)) = s_imm12 t"
proof (rule bit_word_eqI)
  fix n assume "n < LENGTH(12)"
  then consider "n < 5" | "5 \<le> n \<and> n < 11" | "n = 11" by force
  then show "bit (ucast (GetStypeImm12 (SType_GetValue t)) :: 12 word) n = bit (s_imm12 t) n"
    by cases (auto simp: SType_GetValue_def Let_def format_bits bit_GetStypeImm12 min_def)
qed

lemma SType_set_get: "SType_SetValue t (SType_GetValue t) = t"
  unfolding SType_SetValue_def SType_imm
  by (intro SType.equality bit_field.equality)
     (auto intro!: bit_word_eqI simp: SType_GetValue_def Let_def format_bits)

lemma BType_get_set: "BType_GetValue (BType_SetValue t v) = v"
proof (rule bit_word_eqI)
  fix n assume "n < LENGTH(32)"
  then have "n < 32" by simp
  from less_32_cases [OF this] show "bit (BType_GetValue (BType_SetValue t v)) n = bit v n"
    by (elim disjE) (simp_all add: BType_GetValue_def BType_SetValue_def Let_def format_bits bit_GetImm13 numeral_2_eq_2)
qed

lemma JType_get_set: "JType_GetValue (JType_SetValue t v) = v"
proof (rule bit_word_eqI)
  fix n assume "n < LENGTH(32)"
  then consider "n < 7" | "7 \<le> n \<and> n < 12" | "12 \<le> n \<and> n < 20" | "n = 20" | "21 \<le> n \<and> n < 31" | "n = 31"
    by force
  then show "bit (JType_GetValue (JType_SetValue t v)) n = bit v n"
    by cases (auto simp: JType_GetValue_def JType_SetValue_def Let_def format_bits bit_imm_slice [where 'b = 32, simplified] bit_GetImm21)
qed

lemma and_mask20: "(x :: u32) AND 0xFFFFF = take_bit 20 x"
  using and_mask_take_bit [of x 20] by (simp add: mask_numeral del: and_mask_take_bit)

lemma UType_get_set: "UType_GetValue (UType_SetValue t v) = v"
proof (rule bit_word_eqI)
  fix n assume "n < LENGTH(32)"
  then have "n < 32" by simp
  from less_32_cases [OF this] show "bit (UType_GetValue (UType_SetValue t v)) n = bit v n"
    unfolding UType_GetValue_def and_mask20
    by (elim disjE) (simp_all add: UType_SetValue_def Let_def format_bits bit_take_bit_iff bit_GetImm20 numeral_2_eq_2)
qed

lemma BType_imm: "\<not> bit (b_imm13 t) 0 \<Longrightarrow> ucast (GetImm13 (BType_GetValue t)) = b_imm13 t"
proof (rule bit_word_eqI)
  assume z: "\<not> bit (b_imm13 t) 0"
  fix n assume "n < LENGTH(13)"
  then consider "n = 0" | "1 \<le> n \<and> n < 5" | "5 \<le> n \<and> n < 11" | "n = 11" | "n = 12" by force
  then show "bit (ucast (GetImm13 (BType_GetValue t)) :: 13 word) n = bit (b_imm13 t) n"
    using z by cases (auto simp: BType_GetValue_def Let_def format_bits bit_GetImm13)
qed

lemma BType_set_get: "\<not> bit (b_imm13 t) 0 \<Longrightarrow> BType_SetValue t (BType_GetValue t) = t"
  unfolding BType_SetValue_def BType_imm
  by (intro BType.equality bit_field.equality)
     (auto intro!: bit_word_eqI simp: BType_GetValue_def Let_def format_bits)

lemma JType_imm: "\<not> bit (j_imm21 t) 0 \<Longrightarrow> ucast (GetImm21 (JType_GetValue t)) = j_imm21 t"
proof (rule bit_word_eqI)
  assume z: "\<not> bit (j_imm21 t) 0"
  fix n assume "n < LENGTH(21)"
  then consider "n = 0" | "1 \<le> n \<and> n < 11" | "n = 11" | "12 \<le> n \<and> n < 20" | "n = 20" by force
  then show "bit (ucast (GetImm21 (JType_GetValue t)) :: 21 word) n = bit (j_imm21 t) n"
    using z by cases (auto simp: JType_GetValue_def Let_def format_bits bit_imm_slice [where 'b = 32, simplified] bit_GetImm21)
qed

lemma JType_set_get: "\<not> bit (j_imm21 t) 0 \<Longrightarrow> JType_SetValue t (JType_GetValue t) = t"
  unfolding JType_SetValue_def JType_imm
  by (intro JType.equality bit_field.equality)
     (auto intro!: bit_word_eqI simp: JType_GetValue_def Let_def format_bits bit_imm_slice [where 'b = 32, simplified])

text \<open>The upper immediate is held sign-extended to 24 bits.\<close>

lemma UType_imm: "signed_take_bit 19 (u_imm20 t) = u_imm20 t \<Longrightarrow> ucast (GetImm20 (UType_GetValue t)) = u_imm20 t"
proof (rule bit_word_eqI)
  assume z: "signed_take_bit 19 (u_imm20 t) = u_imm20 t"
  fix n assume n: "n < LENGTH(24)"
  have "bit (ucast (GetImm20 (UType_GetValue t)) :: 24 word) n = bit (u_imm20 t) (min 19 n)"
    using n unfolding UType_GetValue_def and_mask20
    by (auto simp: format_bits bit_take_bit_iff bit_GetImm20 min_def)
  also have "\<dots> = bit (signed_take_bit 19 (u_imm20 t)) n"
    using n by (simp add: bit_signed_take_bit_iff min.commute)
  finally show "bit (ucast (GetImm20 (UType_GetValue t)) :: 24 word) n = bit (u_imm20 t) n"
    unfolding z .
qed

lemma UType_set_get:
  assumes "signed_take_bit 19 (u_imm20 t) = u_imm20 t"
  shows "UType_SetValue t (UType_GetValue t) = t"
  unfolding UType_SetValue_def UType_imm [OF assms]
  by (intro UType.equality bit_field.equality)
     (auto intro!: bit_word_eqI simp: UType_GetValue_def and_mask20 format_bits bit_take_bit_iff)

text \<open>
  The immediate of an I-type word is kept entirely, except that a shift keeps its low six bits:
  the upper ones select between logical and arithmetic right shift.
\<close>

definition is_shift :: "7 word \<Rightarrow> 3 word \<Rightarrow> bool" where
  "is_shift opcode funct3 \<longleftrightarrow>
     (opcode = OPCODE_ARITHLOG_I \<or> opcode = OPCODE_ARITHLOG_I64) \<and> (funct3 = FUNC3_SR \<or> funct3 = FUNC3_SL)"

lemma IType_get_set:
  assumes "\<not> is_shift (ucast (bitcrop v 7 0)) (ucast (bitcrop v 3 12))"
  shows "IType_GetValue (IType_SetValue t v) = v"
proof (rule bit_word_eqI)
  fix n assume "n < LENGTH(32)"
  then have n: "n < 32" by simp
  have "IType_SetValue t v = t\<lparr>bf_opcode := ucast (bitcrop v 7 0), bf_funct3 := ucast (bitcrop v 3 12),
      i_imm12 := ucast (GetImm12 v), bf_rs1 := ucast (bitcrop v 5 15), bf_rd := ucast (bitcrop v 5 7)\<rparr>"
    using assms unfolding IType_SetValue_def is_shift_def Let_def by (simp only: if_False)
  with less_32_cases [OF n] show "bit (IType_GetValue (IType_SetValue t v)) n = bit v n"
    by (elim disjE) (simp_all add: IType_GetValue_def format_bits bit_GetImm12 bit_signed_iff numeral_2_eq_2)
qed

lemma IType_imm: "ucast (GetImm12 (IType_GetValue t)) = i_imm12 t"
proof (rule bit_word_eqI)
  fix n assume "n < LENGTH(12)"
  then have "n < 32" "n < 12" by simp_all
  then show "bit (ucast (GetImm12 (IType_GetValue t)) :: 12 word) n = bit (i_imm12 t) n"
    by (cases "n = 11") (auto simp: IType_GetValue_def format_bits bit_GetImm12 bit_signed_iff min_def)
qed

lemma IType_fields:
  "ucast (bitcrop (IType_GetValue t) 7 0) = bf_opcode t" "ucast (bitcrop (IType_GetValue t) 3 12) = bf_funct3 t"
  "ucast (bitcrop (IType_GetValue t) 5 15) = bf_rs1 t" "ucast (bitcrop (IType_GetValue t) 5 7) = bf_rd t"
  by (auto intro!: bit_word_eqI simp: IType_GetValue_def format_bits bit_signed_iff)

lemma IType_set_get:
  assumes "is_shift (bf_opcode t) (bf_funct3 t) \<Longrightarrow> i_imm12 t AND 0b0111111 = i_imm12 t"
  shows "IType_SetValue t (IType_GetValue t) = t"
  using assms unfolding IType_SetValue_def IType_imm IType_fields Let_def is_shift_def
  by (intro IType.equality bit_field.equality) auto

section \<open>The contract of a format\<close>

text \<open>
  Encoding and decoding are inverse: on the words that the format can hold (\<open>word_ok\<close>) and on the
  field values that survive encoding (\<open>ok\<close>).
\<close>

locale instruction_format =
  fixes encode :: "'t \<Rightarrow> u32" and decode :: "'t \<Rightarrow> u32 \<Rightarrow> 't"
    and ok :: "'t \<Rightarrow> bool" and word_ok :: "u32 \<Rightarrow> bool"
  assumes encode_decode: "word_ok v \<Longrightarrow> encode (decode t v) = v"
    and decode_encode: "ok t \<Longrightarrow> decode t (encode t) = t"
begin

lemma encode_surj: "word_ok v \<Longrightarrow> \<exists>t. encode t = v"
  using encode_decode by metis

text \<open>Two decodings of different words differ, whatever was in the fields before.\<close>

lemma decode_inject: "word_ok v \<Longrightarrow> word_ok w \<Longrightarrow> decode t v = decode t' w \<Longrightarrow> v = w"
  using encode_decode by metis

end

interpretation rtype: instruction_format RType_GetValue RType_SetValue "\<lambda>_. True" "\<lambda>_. True"
  by unfold_locales (simp_all add: RType_get_set RType_set_get)

interpretation itype: instruction_format IType_GetValue IType_SetValue
  "\<lambda>t. is_shift (bf_opcode t) (bf_funct3 t) \<longrightarrow> i_imm12 t AND 0b0111111 = i_imm12 t"
  "\<lambda>v. \<not> is_shift (ucast (bitcrop v 7 0)) (ucast (bitcrop v 3 12))"
  by unfold_locales (simp_all add: IType_get_set IType_set_get)

interpretation stype: instruction_format SType_GetValue SType_SetValue "\<lambda>_. True" "\<lambda>_. True"
  by unfold_locales (simp_all add: SType_get_set SType_set_get)

interpretation btype: instruction_format BType_GetValue BType_SetValue "\<lambda>t. \<not> bit (b_imm13 t) 0" "\<lambda>_. True"
  by unfold_locales (simp_all add: BType_get_set BType_set_get)

interpretation jtype: instruction_format JType_GetValue JType_SetValue "\<lambda>t. \<not> bit (j_imm21 t) 0" "\<lambda>_. True"
  by unfold_locales (simp_all add: JType_get_set JType_set_get)

interpretation utype: instruction_format UType_GetValue UType_SetValue
  "\<lambda>t. signed_take_bit 19 (u_imm20 t) = u_imm20 t" "\<lambda>_. True"
  by unfold_locales (simp_all add: UType_get_set UType_set_get)

section \<open>Ranges\<close>

lemma sint_signed_take_bit: "k < LENGTH('a) \<Longrightarrow> sint (signed_take_bit k (x :: 'a::len word)) = signed_take_bit k (uint x)"
  by (rule bit_eqI) (auto simp: bit_signed_iff bit_signed_take_bit_iff bit_unsigned_iff min_def)

lemma sint_sext_range:
  "k < LENGTH('a) \<Longrightarrow> - (2 ^ k) \<le> sint (signed_take_bit k (x :: 'a::len word)) \<and> sint (signed_take_bit k x) < 2 ^ k"
  by (simp add: sint_signed_take_bit signed_take_bit_int_greater_eq_minus_exp signed_take_bit_int_less_exp)

lemma GetImm_sext:
  "GetImm12 ir = signed_take_bit 11 (bitcrop ir 12 20)"
  "\<exists>x. GetImm13 ir = signed_take_bit 12 x" "\<exists>x. GetImm21 ir = signed_take_bit 20 x"
  "\<exists>x. GetStypeImm12 ir = signed_take_bit 11 x"
  by (auto simp: GetImm12_def GetImm13_def GetImm21_def GetStypeImm12_def SignExtend_eq Let_def)

lemma reg_index_less: "bitcrop (ir :: u32) 5 s < 32"
  using unat_take_bit_less [of 5 "drop_bit s ir"] by (simp add: bitcrop_eq word_less_nat_alt)

section \<open>Properties\<close>

text \<open>C21: Encoding and decoding a 32-bit instruction are inverse in all six formats: decoding any word and
  encoding the fields gives the word back (a shift-immediate word excepted), and decoding an encoded
  instruction gives its fields back when branch and jump offsets are even, shift amounts fit and the upper immediate is sign-extended.\<close>

theorem formats_roundtrip:
  "RType_GetValue (RType_SetValue r v) = v \<and> RType_SetValue r (RType_GetValue r) = r \<and>
   SType_GetValue (SType_SetValue s v) = v \<and> SType_SetValue s (SType_GetValue s) = s \<and>
   BType_GetValue (BType_SetValue b v) = v \<and> (\<not> bit (b_imm13 b) 0 \<longrightarrow> BType_SetValue b (BType_GetValue b) = b) \<and>
   JType_GetValue (JType_SetValue j v) = v \<and> (\<not> bit (j_imm21 j) 0 \<longrightarrow> JType_SetValue j (JType_GetValue j) = j) \<and>
   UType_GetValue (UType_SetValue u v) = v \<and>
     (signed_take_bit 19 (u_imm20 u) = u_imm20 u \<longrightarrow> UType_SetValue u (UType_GetValue u) = u) \<and>
   (\<not> is_shift (ucast (bitcrop v 7 0)) (ucast (bitcrop v 3 12)) \<longrightarrow> IType_GetValue (IType_SetValue i v) = v) \<and>
   ((is_shift (bf_opcode i) (bf_funct3 i) \<longrightarrow> i_imm12 i AND 0b0111111 = i_imm12 i) \<longrightarrow>
      IType_SetValue i (IType_GetValue i) = i)"
  by (intro conjI impI rtype.encode_decode rtype.decode_encode stype.encode_decode stype.decode_encode
      btype.encode_decode btype.decode_encode jtype.encode_decode jtype.decode_encode
      utype.encode_decode utype.decode_encode itype.encode_decode itype.decode_encode TrueI)
     (assumption+, erule (1) mp)

theorem formats_roundtrip_witness:
  "BType_SetValue \<lparr>bf_opcode = 0x63, bf_rd = 0, bf_rs2 = 3, bf_rs1 = 4, bf_funct3 = 1, b_imm13 = 0x1FF0\<rparr>
     (BType_GetValue \<lparr>bf_opcode = 0x63, bf_rd = 0, bf_rs2 = 3, bf_rs1 = 4, bf_funct3 = 1, b_imm13 = 0x1FF0\<rparr>) =
   \<lparr>bf_opcode = 0x63, bf_rd = 0, bf_rs2 = 3, bf_rs1 = 4, bf_funct3 = 1, b_imm13 = 0x1FF0\<rparr>"
  using formats_roundtrip [where b = "\<lparr>bf_opcode = 0x63, bf_rd = 0, bf_rs2 = 3, bf_rs1 = 4, bf_funct3 = 1, b_imm13 = 0x1FF0\<rparr>"]
  by simp

text \<open>Decoded register numbers are below 32, branch and jump offsets are even, and every immediate lies in
  the range of its format.\<close>

theorem decoded_fields_in_range:
  "GetRd ir < 32 \<and> GetRs1 ir < 32 \<and> GetRs2 ir < 32 \<and> GetCsr ir < 4096 \<and>
   - 2048 \<le> sint (GetImm12 ir) \<and> sint (GetImm12 ir) < 2048 \<and>
   - 2048 \<le> sint (GetStypeImm12 ir) \<and> sint (GetStypeImm12 ir) < 2048 \<and>
   - 4096 \<le> sint (GetImm13 ir) \<and> sint (GetImm13 ir) < 4096 \<and> even (GetImm13 ir) \<and>
   - 1048576 \<le> sint (GetImm21 ir) \<and> sint (GetImm21 ir) < 1048576 \<and> even (GetImm21 ir)"
proof -
  have "GetCsr ir < 4096"
    using unat_take_bit_less [of 12 "drop_bit 20 ir"] by (simp add: GetCsr_def bitcrop_eq word_less_nat_alt)
  moreover have "even (GetImm13 ir)" "even (GetImm21 ir)"
    using bit_GetImm13 [of 0 ir] bit_GetImm21 [of 0 ir] by (simp_all add: bit_0)
  moreover obtain x y z where "GetImm13 ir = signed_take_bit 12 x" "GetImm21 ir = signed_take_bit 20 y"
      "GetStypeImm12 ir = signed_take_bit 11 z"
    using GetImm_sext [of ir] by blast
  ultimately show ?thesis
    using sint_sext_range [where 'a = 32, of 12 x] sint_sext_range [where 'a = 32, of 20 y]
      sint_sext_range [where 'a = 32, of 11 z] sint_sext_range [where 'a = 32, of 11 "bitcrop ir 12 20"]
    by (simp add: GetRd_def GetRs1_def GetRs2_def reg_index_less GetImm_sext(1))
qed

end
