(* ===== verification/Decode.thy ===== *)
theory Decode
  imports Instruction_Encdec
begin

text \<open>
  The decoders of \<open>RISCV_cpu.cc\<close>: \<open>GetCode32\<close> for 32-bit instructions, one definition per
  opcode of its switch, and \<open>GetCode16\<close> for compressed instructions, one definition per
  case that computes operands.  An undecodable word yields \<open>INST_ERROR\<close>.
\<close>

type_synonym code = u32

section \<open>32-bit instructions\<close>

definition code_ARITHLOG :: "u8 \<Rightarrow> u8 \<Rightarrow> code" where
  "code_ARITHLOG funct3 funct7 =
     (if funct7 = FUNC_NORM \<or> funct7 = FUNC_ALT then
        if funct3 = FUNC3_ADDSUB then (if funct7 = FUNC_NORM then INST_ADD else INST_SUB)
        else if funct3 = FUNC3_AND then INST_AND
        else if funct3 = FUNC3_OR then INST_OR
        else if funct3 = FUNC3_XOR then INST_XOR
        else if funct3 = FUNC3_SR then
          (if funct7 = FUNC_NORM then INST_SRL else if funct7 = FUNC_ALT then INST_SRA else INST_ERROR)
        else if funct3 = FUNC3_SL then INST_SLL
        else if funct3 = FUNC3_SLT then INST_SLT
        else if funct3 = FUNC3_SLTU then INST_SLTU
        else INST_ERROR
      else if funct7 = FUNC_MULT then
        if funct3 = FUNC3_MUL then INST_MUL
        else if funct3 = FUNC3_MULH then INST_MULH
        else if funct3 = FUNC3_MULHSU then INST_MULHSU
        else if funct3 = FUNC3_MULHU then INST_MULHU
        else if funct3 = FUNC3_DIV then INST_DIV
        else if funct3 = FUNC3_DIVU then INST_DIVU
        else if funct3 = FUNC3_REM then INST_REM
        else if funct3 = FUNC3_REMU then INST_REMU
        else INST_ERROR
      else INST_ERROR)"

definition code_ARITHLOG_64 :: "u8 \<Rightarrow> u8 \<Rightarrow> code" where
  "code_ARITHLOG_64 funct3 funct7 =
     (if funct7 = FUNC_NORM \<or> funct7 = FUNC_ALT then
        if funct3 = FUNC3_ADDSUB then (if funct7 = FUNC_NORM then INST_ADDW else INST_SUBW)
        else if funct3 = FUNC3_SL then INST_SLLW
        else if funct3 = FUNC3_SR then
          (if funct7 = FUNC_NORM then INST_SRLW else if funct7 = FUNC_ALT then INST_SRAW else INST_ERROR)
        else INST_ERROR
      else if funct7 = FUNC_MULT then
        if funct3 = FUNC3_MUL then INST_MULW
        else if funct3 = FUNC3_DIVU then INST_DIVUW
        else if funct3 = FUNC3_DIV then INST_DIVW
        else if funct3 = FUNC3_REMU then INST_REMUW
        else if funct3 = FUNC3_REM then INST_REMW
        else INST_ERROR
      else INST_ERROR)"

definition code_ARITHLOG_I :: "u8 \<Rightarrow> u8 \<Rightarrow> code" where
  "code_ARITHLOG_I funct3 funct7 =
     (if funct3 = FUNC3_ADDSUB then INST_ADDI
      else if funct3 = FUNC3_AND then INST_ANDI
      else if funct3 = FUNC3_OR then INST_ORI
      else if funct3 = FUNC3_XOR then INST_XORI
      else if funct3 = FUNC3_SL then INST_SLLI
      else if funct3 = FUNC3_SR then
        (if drop_bit 1 funct7 = 0 then INST_SRLI
         else if drop_bit 1 funct7 = 0b010000 then INST_SRAI else INST_ERROR)
      else if funct3 = FUNC3_SLT then INST_SLTI
      else if funct3 = FUNC3_SLTU then INST_SLTIU
      else INST_ERROR)"

definition code_ARITHLOG_I64 :: "u8 \<Rightarrow> u8 \<Rightarrow> code" where
  "code_ARITHLOG_I64 funct3 funct7 =
     (if funct3 = FUNC3_ADDSUB then INST_ADDIW
      else if funct3 = FUNC3_SL then INST_SLLIW
      else if funct3 = FUNC3_SR then
        (if drop_bit 1 funct7 = 0 then INST_SRLIW
         else if drop_bit 1 funct7 = 0b010000 then INST_SRAIW else INST_ERROR)
      else INST_ERROR)"

definition code_B :: "u8 \<Rightarrow> code" where
  "code_B funct3 =
     (if funct3 = FUNC3_BEQ then INST_BEQ
      else if funct3 = FUNC3_BLT then INST_BLT
      else if funct3 = FUNC3_BLTU then INST_BLTU
      else if funct3 = FUNC3_BGE then INST_BGE
      else if funct3 = FUNC3_BGEU then INST_BGEU
      else if funct3 = FUNC3_BNE then INST_BNE
      else INST_ERROR)"

definition code_LD :: "u8 \<Rightarrow> code" where
  "code_LD funct3 =
     (if funct3 = FUNC3_LSB then INST_LB
      else if funct3 = FUNC3_LSBU then INST_LBU
      else if funct3 = FUNC3_LSH then INST_LH
      else if funct3 = FUNC3_LSHU then INST_LHU
      else if funct3 = FUNC3_LSW then INST_LW
      else if funct3 = FUNC3_LSWU then INST_LWU
      else if funct3 = FUNC3_LSD then INST_LD
      else INST_ERROR)"

definition code_S :: "u8 \<Rightarrow> code" where
  "code_S funct3 =
     (if funct3 = FUNC3_LSB then INST_SB
      else if funct3 = FUNC3_LSH then INST_SH
      else if funct3 = FUNC3_LSW then INST_SW
      else if funct3 = FUNC3_LSD then INST_SD
      else INST_ERROR)"

definition code_SYSTEM :: "u8 \<Rightarrow> code" where
  "code_SYSTEM funct3 =
     (if funct3 = FUNC3_SYSTEM then INST_SYSTEM
      else if funct3 = FUNC3_CSRRC then INST_CSRRC
      else if funct3 = FUNC3_CSRRCI then INST_CSRRCI
      else if funct3 = FUNC3_CSRRS then INST_CSRRS
      else if funct3 = FUNC3_CSRRSI then INST_CSRRSI
      else if funct3 = FUNC3_CSRRW then INST_CSRRW
      else if funct3 = FUNC3_CSRRWI then INST_CSRRWI
      else INST_ERROR)"

definition code_FENCE :: "u8 \<Rightarrow> code" where
  "code_FENCE funct3 =
     (if funct3 = FUNC3_FENCEI then INST_FENCEI
      else if funct3 = FUNC3_FENCE then INST_FENCE
      else INST_ERROR)"

definition code_AMO :: "u8 \<Rightarrow> u8 \<Rightarrow> code" where
  "code_AMO funct3 funct5 =
     (let d = (funct3 = FUNC3_AMOD)
      in if funct5 = FUNC5_AMOADD then (if d then INST_AMOADDD else INST_AMOADDW)
      else if funct5 = FUNC5_AMOAND then (if d then INST_AMOANDD else INST_AMOANDW)
      else if funct5 = FUNC5_AMOMAX then (if d then INST_AMOMAXD else INST_AMOMAXW)
      else if funct5 = FUNC5_AMOMAXU then (if d then INST_AMOMAXUD else INST_AMOMAXUW)
      else if funct5 = FUNC5_AMOMIN then (if d then INST_AMOMIND else INST_AMOMINW)
      else if funct5 = FUNC5_AMOMINU then (if d then INST_AMOMINUD else INST_AMOMINUW)
      else if funct5 = FUNC5_AMOOR then (if d then INST_AMOORD else INST_AMOORW)
      else if funct5 = FUNC5_AMOXOR then (if d then INST_AMOXORD else INST_AMOXORW)
      else if funct5 = FUNC5_AMOSWAP then (if d then INST_AMOSWAPD else INST_AMOSWAPW)
      else INST_ERROR)"

definition GetCode32 :: "u32 \<Rightarrow> code" where
  "GetCode32 ir =
     (let opcode = (ucast (bitcrop ir 7 0) :: u16);
          funct3 = (ucast (bitcrop ir 3 12) :: u8);
          funct7 = (ucast (bitcrop ir 7 25) :: u8);
          funct5 = drop_bit 2 funct7
      in if opcode = OPCODE_ARITHLOG then code_ARITHLOG funct3 funct7
      else if opcode = OPCODE_ARITHLOG_64 then code_ARITHLOG_64 funct3 funct7
      else if opcode = OPCODE_ARITHLOG_I then code_ARITHLOG_I funct3 funct7
      else if opcode = OPCODE_ARITHLOG_I64 then code_ARITHLOG_I64 funct3 funct7
      else if opcode = OPCODE_B then code_B funct3
      else if opcode = OPCODE_J then INST_JAL
      else if opcode = OPCODE_JALR then (if funct3 = FUNC3_JALR then INST_JALR else INST_ERROR)
      else if opcode = OPCODE_LD then code_LD funct3
      else if opcode = OPCODE_S then code_S funct3
      else if opcode = OPCODE_LUI then INST_LUI
      else if opcode = OPCODE_AUIPC then INST_AUIPC
      else if opcode = OPCODE_SYSTEM then code_SYSTEM funct3
      else if opcode = OPCODE_FENCE then code_FENCE funct3
      else if opcode = OPCODE_AMO then code_AMO funct3 funct5
      else INST_ERROR)"

section \<open>Compressed instructions\<close>

text \<open>The out parameters of \<open>GetCode16\<close>.\<close>

record decoded =
  d_instruction :: code
  d_rd :: u32
  d_rs1 :: u32
  d_rs2 :: u32
  d_imm :: u32

text \<open>The initial values of its local variables: also what an unsupported word yields.\<close>

definition c_init :: decoded where
  "c_init = \<lparr>d_instruction = INST_ERROR, d_rd = 0, d_rs1 = 0, d_rs2 = 0, d_imm = 0\<rparr>"

definition c_addi4spn :: "u32 \<Rightarrow> decoded" where
  "c_addi4spn ir =
     (if bitcrop ir 8 5 = 0 then c_init
      else c_init\<lparr>d_instruction := INST_ADDI, d_rs1 := 2, d_rd := bitcrop ir 3 2 + 8,
        d_imm := push_bit 4 (bitcrop ir 2 11) OR push_bit 6 (bitcrop ir 4 7)
                 OR push_bit 2 (bitcrop ir 1 6) OR push_bit 3 (bitcrop ir 1 5)\<rparr>)"

definition c_jump_imm :: "u32 \<Rightarrow> u32" where
  "c_jump_imm ir =
     SignExtend (push_bit 11 (bitcrop ir 1 12) OR push_bit 4 (bitcrop ir 1 11)
       OR push_bit 8 (bitcrop ir 2 9) OR push_bit 10 (bitcrop ir 1 8) OR push_bit 6 (bitcrop ir 1 7)
       OR push_bit 7 (bitcrop ir 1 6) OR push_bit 1 (bitcrop ir 3 3) OR push_bit 5 (bitcrop ir 1 2)) 12"

definition c_addi_jal :: "u32 \<Rightarrow> u32 \<Rightarrow> int \<Rightarrow> decoded" where
  "c_addi_jal opcode ir mxl =
     (if opcode = 0b101 \<and> mxl = 1
      then c_init\<lparr>d_instruction := INST_JAL, d_rd := X1, d_imm := c_jump_imm ir\<rparr>
      else c_init\<lparr>d_instruction := if drop_bit 2 opcode = 0 then INST_ADDI else INST_ADDIW,
        d_rs1 := bitcrop ir 5 7, d_rd := bitcrop ir 5 7,
        d_imm := SignExtend (push_bit 5 (bitcrop ir 1 12) OR bitcrop ir 5 2) 6\<rparr>)"

definition c_slli :: "u32 \<Rightarrow> decoded" where
  "c_slli ir =
     c_init\<lparr>d_instruction := INST_SLLI, d_rs1 := bitcrop ir 5 7, d_rd := bitcrop ir 5 7,
       d_imm := push_bit 5 (bitcrop ir 1 12) OR bitcrop ir 5 2\<rparr>"

definition c_lw :: "u32 \<Rightarrow> decoded" where
  "c_lw ir =
     c_init\<lparr>d_instruction := INST_LW, d_rs1 := bitcrop ir 3 7 + 8, d_rd := bitcrop ir 3 2 + 8,
       d_imm := push_bit 3 (bitcrop ir 3 10) OR push_bit 2 (bitcrop ir 1 6) OR push_bit 6 (bitcrop ir 1 5)\<rparr>"

definition c_li :: "u32 \<Rightarrow> decoded" where
  "c_li ir =
     c_init\<lparr>d_instruction := INST_ADDI, d_rs1 := 0, d_rd := bitcrop ir 5 7,
       d_imm := SignExtend (push_bit 5 (bitcrop ir 1 12) OR bitcrop ir 5 2) 6\<rparr>"

definition c_lwsp :: "u32 \<Rightarrow> decoded" where
  "c_lwsp ir =
     c_init\<lparr>d_instruction := INST_LW, d_rd := bitcrop ir 5 7, d_rs1 := X2,
       d_imm := push_bit 5 (bitcrop ir 1 12) OR push_bit 2 (bitcrop ir 3 4) OR push_bit 6 (bitcrop ir 2 2)\<rparr>"

definition c_ld :: "u32 \<Rightarrow> decoded" where
  "c_ld ir =
     c_init\<lparr>d_instruction := INST_LD, d_rd := bitcrop ir 3 2 + 8, d_rs1 := bitcrop ir 3 7 + 8,
       d_imm := push_bit 3 (bitcrop ir 3 10) OR push_bit 6 (bitcrop ir 2 5)\<rparr>"

definition c_ldsp :: "u32 \<Rightarrow> decoded" where
  "c_ldsp ir =
     c_init\<lparr>d_instruction := INST_LD, d_rd := bitcrop ir 5 7, d_rs1 := 2,
       d_imm := push_bit 5 (bitcrop ir 1 12) OR push_bit 3 (bitcrop ir 2 5) OR push_bit 6 (bitcrop ir 3 2)\<rparr>"

definition c_lui_addi16sp :: "u32 \<Rightarrow> decoded" where
  "c_lui_addi16sp ir =
     (let rd = bitcrop ir 5 7
      in if rd \<noteq> X2 then
           let imm = SignExtend (push_bit 17 (bitcrop ir 1 12) OR push_bit 12 (bitcrop ir 5 2)) 18
           in c_init\<lparr>d_instruction := if imm = 0 then INST_ERROR else INST_LUI, d_rd := rd, d_imm := imm\<rparr>
         else
           let imm = SignExtend (push_bit 9 (bitcrop ir 1 12) OR push_bit 4 (bitcrop ir 1 6)
                       OR push_bit 6 (bitcrop ir 1 5) OR push_bit 7 (bitcrop ir 2 3)
                       OR push_bit 5 (bitcrop ir 1 2)) 10
           in c_init\<lparr>d_instruction := if imm = 0 then INST_ERROR else INST_ADDI, d_rd := rd, d_rs1 := 2,
                     d_imm := imm\<rparr>)"

definition c_add_jalr :: "u32 \<Rightarrow> decoded" where
  "c_add_jalr ir =
     (if bitcrop ir 1 12 = 1 then
        if bitcrop ir 5 2 = 0 \<and> bitcrop ir 5 7 = 0 then
          c_init\<lparr>d_instruction := INST_SYSTEM, d_imm := 1\<rparr>
        else if bitcrop ir 5 2 = 0 then
          c_init\<lparr>d_instruction := INST_JALR, d_rs1 := bitcrop ir 5 7, d_rd := X1, d_imm := 0\<rparr>
        else if bitcrop ir 5 7 = 0 then c_init
        else c_init\<lparr>d_instruction := INST_ADD, d_rs1 := bitcrop ir 5 7, d_rd := bitcrop ir 5 7,
               d_rs2 := bitcrop ir 5 2\<rparr>
      else if bitcrop ir 5 2 = 0 then
        c_init\<lparr>d_instruction := INST_JALR, d_rs1 := bitcrop ir 5 7, d_rd := 0, d_imm := 0\<rparr>
      else c_init\<lparr>d_instruction := INST_ADD, d_rd := bitcrop ir 5 7, d_rs2 := bitcrop ir 5 2, d_rs1 := 0\<rparr>)"

definition c_reg_op :: "code \<Rightarrow> u32 \<Rightarrow> decoded" where
  "c_reg_op inst ir =
     c_init\<lparr>d_instruction := inst, d_rs1 := bitcrop ir 3 7 + 8, d_rd := bitcrop ir 3 7 + 8,
       d_rs2 := bitcrop ir 3 2 + 8\<rparr>"

definition c_arith :: "u32 \<Rightarrow> decoded" where
  "c_arith ir =
     (if bitcrop ir 3 10 = 0b011 \<and> bitcrop ir 2 5 = 0b11 then c_reg_op INST_AND ir
      else if bitcrop ir 3 10 = 0b011 \<and> bitcrop ir 2 5 = 0b01 then c_reg_op INST_XOR ir
      else if bitcrop ir 3 10 = 0b011 \<and> bitcrop ir 2 5 = 0 then c_reg_op INST_SUB ir
      else if bitcrop ir 3 10 = 0b011 \<and> bitcrop ir 2 5 = 0b10 then c_reg_op INST_OR ir
      else if bitcrop ir 3 10 = 0b111 \<and> bitcrop ir 2 5 = 0b01 then c_reg_op INST_ADDW ir
      else if bitcrop ir 3 10 = 0b111 \<and> bitcrop ir 2 5 = 0 then c_reg_op INST_SUBW ir
      else if bitcrop ir 1 11 = 0 then
        c_init\<lparr>d_instruction := if bitcrop ir 1 10 = 1 then INST_SRAI else INST_SRLI,
          d_rs1 := bitcrop ir 3 7 + 8, d_rd := bitcrop ir 3 7 + 8,
          d_imm := push_bit 5 (bitcrop ir 1 12) + bitcrop ir 5 2\<rparr>
      else if bitcrop ir 1 10 = 0 then
        c_init\<lparr>d_instruction := INST_ANDI, d_rs1 := bitcrop ir 3 7 + 8, d_rd := bitcrop ir 3 7 + 8,
          d_imm := SignExtend (push_bit 5 (bitcrop ir 1 12) + bitcrop ir 5 2) 6\<rparr>
      else c_init)"

definition c_j :: "u32 \<Rightarrow> decoded" where
  "c_j ir = c_init\<lparr>d_instruction := INST_JAL, d_rd := 0, d_imm := c_jump_imm ir\<rparr>"

definition c_sw :: "u32 \<Rightarrow> decoded" where
  "c_sw ir =
     c_init\<lparr>d_instruction := INST_SW, d_rs1 := bitcrop ir 3 7 + 8, d_rs2 := bitcrop ir 3 2 + 8,
       d_imm := push_bit 3 (bitcrop ir 3 10) OR push_bit 2 (bitcrop ir 1 6) OR push_bit 6 (bitcrop ir 1 5)\<rparr>"

definition c_sd :: "u32 \<Rightarrow> decoded" where
  "c_sd ir =
     c_init\<lparr>d_instruction := INST_SD, d_rs1 := bitcrop ir 3 7 + 8, d_rs2 := bitcrop ir 3 2 + 8,
       d_imm := push_bit 3 (bitcrop ir 3 10) OR push_bit 6 (bitcrop ir 2 5)\<rparr>"

definition c_branch :: "u32 \<Rightarrow> u32 \<Rightarrow> decoded" where
  "c_branch opcode ir =
     c_init\<lparr>d_instruction := if opcode = 0b11001 then INST_BEQ else INST_BNE,
       d_rs1 := bitcrop ir 3 7 + 8, d_rs2 := 0,
       d_imm := SignExtend (push_bit 8 (bitcrop ir 1 12) OR push_bit 3 (bitcrop ir 2 10)
         OR push_bit 6 (bitcrop ir 2 5) OR push_bit 1 (bitcrop ir 2 3) OR push_bit 5 (bitcrop ir 1 2)) 9\<rparr>"

definition c_swsp :: "u32 \<Rightarrow> decoded" where
  "c_swsp ir =
     c_init\<lparr>d_instruction := INST_SW, d_rs1 := 2, d_rs2 := bitcrop ir 5 2,
       d_imm := push_bit 2 (bitcrop ir 4 9) OR push_bit 6 (bitcrop ir 2 7)\<rparr>"

definition c_sdsp :: "u32 \<Rightarrow> decoded" where
  "c_sdsp ir =
     c_init\<lparr>d_instruction := INST_SD, d_rs1 := X2, d_rs2 := bitcrop ir 5 2,
       d_imm := push_bit 3 (bitcrop ir 3 10) OR push_bit 6 (bitcrop ir 3 7)\<rparr>"

definition GetCode16 :: "u32 \<Rightarrow> int \<Rightarrow> decoded" where
  "GetCode16 ir mxl =
     (let opcode = push_bit 2 (drop_bit 13 ir AND 0b111) OR (ir AND 0b11)
      in if opcode = 0 then c_addi4spn ir
      else if opcode = 1 \<or> opcode = 0b101 then c_addi_jal opcode ir mxl
      else if opcode = 0b00010 then c_slli ir
      else if opcode = 0b01000 then c_lw ir
      else if opcode = 0b01001 then c_li ir
      else if opcode = 0b01010 then c_lwsp ir
      else if opcode = 0b01100 then c_ld ir
      else if opcode = 0b01110 then c_ldsp ir
      else if opcode = 0b01101 then c_lui_addi16sp ir
      else if opcode = 0b10010 then c_add_jalr ir
      else if opcode = 0b10001 then c_arith ir
      else if opcode = 0b10101 then c_j ir
      else if opcode = 0b11000 then c_sw ir
      else if opcode = 0b11100 then c_sd ir
      else if opcode = 0b11001 \<or> opcode = 0b11101 then c_branch opcode ir
      else if opcode = 0b11010 then c_swsp ir
      else if opcode = 0b11110 then c_sdsp ir
      else c_init)"

section \<open>The instruction encodings of the ISA manual\<close>

text \<open>
  For each instruction that the emulator supports, the mask and the match value of its encoding: a word is
  that instruction if the masked bits equal the match value.
\<close>

definition isa_R :: "(code \<times> u32) list" where
  "isa_R =
    [(INST_ADD, 0x00000033), (INST_SUB, 0x40000033), (INST_SLL, 0x00001033), (INST_SLT, 0x00002033),
     (INST_SLTU, 0x00003033), (INST_XOR, 0x00004033), (INST_SRL, 0x00005033), (INST_SRA, 0x40005033),
     (INST_OR, 0x00006033), (INST_AND, 0x00007033), (INST_MUL, 0x02000033), (INST_MULH, 0x02001033),
     (INST_MULHSU, 0x02002033), (INST_MULHU, 0x02003033), (INST_DIV, 0x02004033), (INST_DIVU, 0x02005033),
     (INST_REM, 0x02006033), (INST_REMU, 0x02007033), (INST_ADDW, 0x0000003B), (INST_SUBW, 0x4000003B),
     (INST_SLLW, 0x0000103B), (INST_SRLW, 0x0000503B), (INST_SRAW, 0x4000503B), (INST_MULW, 0x0200003B),
     (INST_DIVW, 0x0200403B), (INST_DIVUW, 0x0200503B), (INST_REMW, 0x0200603B), (INST_REMUW, 0x0200703B),
     (INST_SLLIW, 0x0000101B), (INST_SRLIW, 0x0000501B), (INST_SRAIW, 0x4000501B)]"

definition isa_I :: "(code \<times> u32) list" where
  "isa_I =
    [(INST_ADDI, 0x00000013), (INST_SLTI, 0x00002013), (INST_SLTIU, 0x00003013), (INST_XORI, 0x00004013),
     (INST_ORI, 0x00006013), (INST_ANDI, 0x00007013), (INST_ADDIW, 0x0000001B), (INST_BEQ, 0x00000063),
     (INST_BNE, 0x00001063), (INST_BLT, 0x00004063), (INST_BGE, 0x00005063), (INST_BLTU, 0x00006063),
     (INST_BGEU, 0x00007063), (INST_JALR, 0x00000067), (INST_LB, 0x00000003), (INST_LH, 0x00001003),
     (INST_LW, 0x00002003), (INST_LD, 0x00003003), (INST_LBU, 0x00004003), (INST_LHU, 0x00005003),
     (INST_LWU, 0x00006003), (INST_SB, 0x00000023), (INST_SH, 0x00001023), (INST_SW, 0x00002023),
     (INST_SD, 0x00003023), (INST_SYSTEM, 0x00000073), (INST_CSRRW, 0x00001073), (INST_CSRRS, 0x00002073),
     (INST_CSRRC, 0x00003073), (INST_CSRRWI, 0x00005073), (INST_CSRRSI, 0x00006073),
     (INST_CSRRCI, 0x00007073), (INST_FENCE, 0x0000000F), (INST_FENCEI, 0x0000100F)]"

definition isa_SH :: "(code \<times> u32) list" where
  "isa_SH =
    [(INST_SLLI, 0x00001013), (INST_SRLI, 0x00005013), (INST_SRAI, 0x40005013)]"

definition isa_AMO :: "(code \<times> u32) list" where
  "isa_AMO =
    [(INST_AMOADDW, 0x0000202F), (INST_AMOADDD, 0x0000302F), (INST_AMOSWAPW, 0x0800202F),
     (INST_AMOSWAPD, 0x0800302F), (INST_AMOXORW, 0x2000202F), (INST_AMOXORD, 0x2000302F),
     (INST_AMOORW, 0x4000202F), (INST_AMOORD, 0x4000302F), (INST_AMOANDW, 0x6000202F),
     (INST_AMOANDD, 0x6000302F), (INST_AMOMINW, 0x8000202F), (INST_AMOMIND, 0x8000302F),
     (INST_AMOMAXW, 0xA000202F), (INST_AMOMAXD, 0xA000302F), (INST_AMOMINUW, 0xC000202F),
     (INST_AMOMINUD, 0xC000302F), (INST_AMOMAXUW, 0xE000202F), (INST_AMOMAXUD, 0xE000302F)]"

definition isa_U :: "(code \<times> u32) list" where
  "isa_U =
    [(INST_JAL, 0x0000006F), (INST_LUI, 0x00000037), (INST_AUIPC, 0x00000017)]"

definition isa_encodings :: "(code \<times> u32 \<times> u32) list" where
  "isa_encodings =
     map (\<lambda>(c, m). (c, 0xFE00707F, m)) isa_R @ map (\<lambda>(c, m). (c, 0x707F, m)) isa_I @
     map (\<lambda>(c, m). (c, 0xFC00707F, m)) isa_SH @ map (\<lambda>(c, m). (c, 0xF800707F, m)) isa_AMO @
     map (\<lambda>(c, m). (c, 0x7F, m)) isa_U"

text \<open>A field that lies inside the mask is read from the match value.\<close>

lemma bitcrop_masked:
  assumes "ir AND msk = mtch" "w \<le> 64" "take_bit w (drop_bit s msk) = mask w"
  shows "bitcrop ir w s = bitcrop (mtch :: u32) w s"
proof -
  have "take_bit w (drop_bit s mtch) = take_bit w (drop_bit s ir) AND take_bit w (drop_bit s msk)"
    by (simp flip: assms(1) add: take_bit_and drop_bit_and)
  then show ?thesis by (simp add: assms bitcrop_eq)
qed

lemma fields_U: "ir AND 0x7F = m \<Longrightarrow> bitcrop ir 7 0 = bitcrop (m :: u32) 7 0"
  by (erule bitcrop_masked) (simp_all add: mask_eq_exp_minus_1)

lemma fields_I:
  "ir AND 0x707F = m \<Longrightarrow> bitcrop ir 7 0 = bitcrop (m :: u32) 7 0 \<and> bitcrop ir 3 12 = bitcrop m 3 12"
  by (intro conjI; erule bitcrop_masked) (simp_all add: mask_eq_exp_minus_1)

lemma fields_R:
  "ir AND 0xFE00707F = m \<Longrightarrow>
    bitcrop ir 7 0 = bitcrop (m :: u32) 7 0 \<and> bitcrop ir 3 12 = bitcrop m 3 12 \<and> bitcrop ir 7 25 = bitcrop m 7 25"
  by (intro conjI; erule bitcrop_masked) (simp_all add: mask_eq_exp_minus_1)

lemma drop_funct7: "k < 7 \<Longrightarrow> drop_bit k (ucast (bitcrop (ir :: u32) 7 25) :: u8) = ucast (bitcrop ir (7 - k) (25 + k))"
  by (rule bit_word_eqI) (auto simp: bit_drop_bit_eq bit_ucast_iff bit_bitcrop algebra_simps)

lemma fields_SH:
  "ir AND 0xFC00707F = m \<Longrightarrow>
    bitcrop ir 7 0 = bitcrop (m :: u32) 7 0 \<and> bitcrop ir 3 12 = bitcrop m 3 12 \<and> bitcrop ir 6 26 = bitcrop m 6 26"
  by (intro conjI; erule bitcrop_masked) (simp_all add: mask_eq_exp_minus_1)

lemma fields_AMO:
  "ir AND 0xF800707F = m \<Longrightarrow>
    bitcrop ir 7 0 = bitcrop (m :: u32) 7 0 \<and> bitcrop ir 3 12 = bitcrop m 3 12 \<and> bitcrop ir 5 27 = bitcrop m 5 27"
  by (intro conjI; erule bitcrop_masked) (simp_all add: mask_eq_exp_minus_1)

lemma bitcrop_numeral:
  "w \<le> 64 \<Longrightarrow> bitcrop (numeral n) w s = take_bit w (drop_bit s (numeral n))"
  by (simp add: bitcrop_eq)

lemmas code_defs = code_ARITHLOG_def code_ARITHLOG_64_def code_ARITHLOG_I_def code_ARITHLOG_I64_def code_B_def
  code_LD_def code_S_def code_SYSTEM_def code_FENCE_def code_AMO_def

lemma GetCode32_opcode:
  "bitcrop ir 7 0 = OPCODE_ARITHLOG \<Longrightarrow> GetCode32 ir = code_ARITHLOG (ucast (bitcrop ir 3 12)) (ucast (bitcrop ir 7 25))"
  "bitcrop ir 7 0 = OPCODE_ARITHLOG_64 \<Longrightarrow> GetCode32 ir = code_ARITHLOG_64 (ucast (bitcrop ir 3 12)) (ucast (bitcrop ir 7 25))"
  "bitcrop ir 7 0 = OPCODE_ARITHLOG_I \<Longrightarrow> GetCode32 ir = code_ARITHLOG_I (ucast (bitcrop ir 3 12)) (ucast (bitcrop ir 7 25))"
  "bitcrop ir 7 0 = OPCODE_ARITHLOG_I64 \<Longrightarrow> GetCode32 ir = code_ARITHLOG_I64 (ucast (bitcrop ir 3 12)) (ucast (bitcrop ir 7 25))"
  "bitcrop ir 7 0 = OPCODE_B \<Longrightarrow> GetCode32 ir = code_B (ucast (bitcrop ir 3 12))"
  "bitcrop ir 7 0 = OPCODE_J \<Longrightarrow> GetCode32 ir = INST_JAL"
  "bitcrop ir 7 0 = OPCODE_JALR \<Longrightarrow> GetCode32 ir = (if ucast (bitcrop ir 3 12) = (FUNC3_JALR :: u8) then INST_JALR else INST_ERROR)"
  "bitcrop ir 7 0 = OPCODE_LD \<Longrightarrow> GetCode32 ir = code_LD (ucast (bitcrop ir 3 12))"
  "bitcrop ir 7 0 = OPCODE_S \<Longrightarrow> GetCode32 ir = code_S (ucast (bitcrop ir 3 12))"
  "bitcrop ir 7 0 = OPCODE_LUI \<Longrightarrow> GetCode32 ir = INST_LUI"
  "bitcrop ir 7 0 = OPCODE_AUIPC \<Longrightarrow> GetCode32 ir = INST_AUIPC"
  "bitcrop ir 7 0 = OPCODE_SYSTEM \<Longrightarrow> GetCode32 ir = code_SYSTEM (ucast (bitcrop ir 3 12))"
  "bitcrop ir 7 0 = OPCODE_FENCE \<Longrightarrow> GetCode32 ir = code_FENCE (ucast (bitcrop ir 3 12))"
  "bitcrop ir 7 0 = OPCODE_AMO \<Longrightarrow> GetCode32 ir = code_AMO (ucast (bitcrop ir 3 12)) (ucast (bitcrop ir 5 27))"
  by (simp_all add: GetCode32_def drop_funct7)

lemma isa_R_ok: "list_all (\<lambda>(c, m). \<forall>ir. ir AND 0xFE00707F = m \<longrightarrow> GetCode32 ir = c) isa_R"
  unfolding isa_R_def list.pred_inject(2) prod.case
  by (intro conjI list.pred_inject(1) allI impI; drule fields_R; simp add: GetCode32_opcode bitcrop_numeral code_ARITHLOG_def code_ARITHLOG_64_def code_ARITHLOG_I64_def)

lemma isa_I_ok: "list_all (\<lambda>(c, m). \<forall>ir. ir AND 0x707F = m \<longrightarrow> GetCode32 ir = c) isa_I"
  unfolding isa_I_def list.pred_inject(2) prod.case
  by (intro conjI list.pred_inject(1) allI impI; drule fields_I; simp add: GetCode32_opcode bitcrop_numeral code_ARITHLOG_I_def code_ARITHLOG_I64_def code_B_def code_LD_def code_S_def code_SYSTEM_def code_FENCE_def)

lemma isa_SH_ok: "list_all (\<lambda>(c, m). \<forall>ir. ir AND 0xFC00707F = m \<longrightarrow> GetCode32 ir = c) isa_SH"
  unfolding isa_SH_def list.pred_inject(2) prod.case
  by (intro conjI list.pred_inject(1) allI impI; drule fields_SH; simp add: GetCode32_opcode bitcrop_numeral code_ARITHLOG_I_def drop_funct7)

lemma isa_AMO_ok: "list_all (\<lambda>(c, m). \<forall>ir. ir AND 0xF800707F = m \<longrightarrow> GetCode32 ir = c) isa_AMO"
  unfolding isa_AMO_def list.pred_inject(2) prod.case
  by (intro conjI list.pred_inject(1) allI impI; drule fields_AMO; simp add: GetCode32_opcode bitcrop_numeral code_AMO_def)

lemma isa_U_ok: "list_all (\<lambda>(c, m). \<forall>ir. ir AND 0x7F = m \<longrightarrow> GetCode32 ir = c) isa_U"
  unfolding isa_U_def list.pred_inject(2) prod.case
  by (intro conjI list.pred_inject(1) allI impI; drule fields_U; simp add: GetCode32_opcode bitcrop_numeral )

lemma isa_encodings_ok: "(c, msk, mtch) \<in> set isa_encodings \<Longrightarrow> ir AND msk = mtch \<Longrightarrow> GetCode32 ir = c"
  using isa_R_ok isa_I_ok isa_SH_ok isa_AMO_ok isa_U_ok by (auto simp: isa_encodings_def list_all_iff)

text \<open>C18: Every word that carries the encoding of a supported 32-bit instruction is decoded as that instruction,
  whatever its register and immediate fields are.\<close>

theorem GetCode32_decodes_isa:
  assumes "(c, msk, mtch) \<in> set isa_encodings" "ir AND msk = mtch"
  shows "GetCode32 ir = c"
  by (rule isa_encodings_ok [OF assms])

theorem GetCode32_decodes_isa_witness: "GetCode32 0x40B50533 = INST_SUB"
proof -
  have "(INST_SUB, 0xFE00707F, 0x40000033) \<in> set isa_encodings"
    by (simp add: isa_encodings_def isa_R_def)
  then show ?thesis by (rule GetCode32_decodes_isa) simp
qed

end
