(* ===== verification/Cpu_State.thy ===== *)
theory Cpu_State
  imports Mmu Peripheral System_Call Decode
begin

text \<open>
  The state of \<open>RiscvCpu\<close> and the operations on its control and status registers: construction,
  the mirrors of \<open>mstatus\<close>, \<open>mip\<close> and \<open>mie\<close> in the user, supervisor and machine CSRs, traps,
  interrupts and returns from traps (\<open>RISCV_cpu.h\<close>, \<open>RISCV_cpu.cc\<close>).
\<close>

section \<open>State\<close>

text \<open>
  The members of the class.  The memory that the CPU, the MMU and the peripherals share through
  pointers is the single field \<open>cpu_memory\<close>.  The register file and the CSRs are functions of
  the index; indices from 32 and from 4096 on lie outside the arrays.  The last two fields are
  the global \<open>openHandles\<close> of the system call emulator and the state of the outside world.
\<close>

record 'w cpu =
  cpu_xlen :: nat
  cpu_mxl :: int
  cpu_reg :: "u32 \<Rightarrow> u64"
  cpu_pc :: u64
  cpu_timer_interrupt :: bool
  cpu_ir :: u32
  cpu_next_pc :: u64
  cpu_mstatus :: u64
  cpu_mie :: u64
  cpu_mip :: u64
  cpu_privilege :: PrivilegeMode
  cpu_memory :: memory
  cpu_csrs :: "u32 \<Rightarrow> u64"
  cpu_ctype :: bool
  cpu_page_fault :: bool
  cpu_prev_page_fault :: bool
  cpu_prev_faulting_address :: u64
  cpu_error_flag :: bool
  cpu_end_flag :: bool
  cpu_faulting_address :: u64
  cpu_mmu :: mmu
  cpu_peripheral :: periph
  cpu_ecall_emulation :: bool
  cpu_host_emulation :: bool
  cpu_peripheral_emulation :: bool
  cpu_virtio_interrupt :: bool
  cpu_uart_interrupt :: bool
  cpu_disable_machine_interrupt_delegation :: bool
  cpu_top :: u64
  cpu_bottom :: u64
  cpu_brk :: u64
  cpu_openHandles :: int
  cpu_world :: 'w

text \<open>The register file has 32 entries; every decoded register number has five bits, so an access outside it does not arise.\<close>

definition set_reg :: "u32 \<Rightarrow> u64 \<Rightarrow> 'w cpu \<Rightarrow> 'w cpu" where
  "set_reg r v c = c\<lparr>cpu_reg := (cpu_reg c)(r := v)\<rparr>"

definition set_csr :: "u32 \<Rightarrow> u64 \<Rightarrow> 'w cpu \<Rightarrow> 'w cpu" where
  "set_csr i v c = c\<lparr>cpu_csrs := (cpu_csrs c)(i := v)\<rparr>"

definition SetRegister :: "'w cpu \<Rightarrow> u32 \<Rightarrow> u64 \<Rightarrow> 'w cpu res" where
  "SetRegister c num value = (if num < 32 then Inr (set_reg num value c) else Inl Undefined)"

definition ReadRegister :: "'w cpu \<Rightarrow> u32 \<Rightarrow> u64 res" where
  "ReadRegister c num = (if num < 32 then Inr (cpu_reg c num) else Inl Undefined)"

definition SetCsr :: "'w cpu \<Rightarrow> u32 \<Rightarrow> u64 \<Rightarrow> 'w cpu res" where
  "SetCsr c index value = (if index < 4096 then Inr (set_csr index value c) else Inl Undefined)"

definition ReadCsr :: "'w cpu \<Rightarrow> u32 \<Rightarrow> u64 res" where
  "ReadCsr c index = (if index < 4096 then Inr (cpu_csrs c index) else Inl Undefined)"

definition SetMemory :: "'w cpu \<Rightarrow> memory \<Rightarrow> 'w cpu" where
  "SetMemory c mem = c\<lparr>cpu_memory := mem\<rparr>"

definition SetWorkMemory :: "'w cpu \<Rightarrow> u64 \<Rightarrow> u64 \<Rightarrow> 'w cpu" where
  "SetWorkMemory c t b = c\<lparr>cpu_top := t, cpu_bottom := b\<rparr>"

definition SetEcallEmulationEnable :: "'w cpu \<Rightarrow> bool \<Rightarrow> 'w cpu" where
  "SetEcallEmulationEnable c e = c\<lparr>cpu_ecall_emulation := e\<rparr>"

definition DisableMachineInterruptDelegation :: "'w cpu \<Rightarrow> bool \<Rightarrow> 'w cpu" where
  "DisableMachineInterruptDelegation c b = c\<lparr>cpu_disable_machine_interrupt_delegation := b\<rparr>"

definition SetHostEmulationEnable :: "'w cpu \<Rightarrow> bool \<Rightarrow> 'w cpu" where
  "SetHostEmulationEnable c e =
     c\<lparr>cpu_host_emulation := e, cpu_peripheral := periph_SetHostEmulationEnable (cpu_peripheral c) e\<rparr>"

definition SetDeviceEmulationEnable :: "'w cpu \<Rightarrow> bool \<Rightarrow> 'w cpu" where
  "SetDeviceEmulationEnable c e =
     c\<lparr>cpu_peripheral_emulation := e,
       cpu_peripheral := periph_SetDeviceEmulationEnable (cpu_peripheral c) e\<rparr>"

definition cpu_SetDiskImage :: "'w cpu \<Rightarrow> u8 list option \<Rightarrow> 'w cpu" where
  "cpu_SetDiskImage c disk_image = c\<lparr>cpu_peripheral := SetDiskImage (cpu_peripheral c) disk_image\<rparr>"

definition DeviceInitialization :: "'w cpu \<Rightarrow> u32 \<Rightarrow> 'w cpu res" where
  "DeviceInitialization c key_value =
     (if \<not> cpu_peripheral_emulation c then Inr c
      else rbind (Initialize (cpu_peripheral c) (cpu_memory c) key_value) (\<lambda>(p, mem).
           Inr (c\<lparr>cpu_peripheral := p, cpu_memory := mem\<rparr>)))"

section \<open>Status register mirrors\<close>

definition kSstatusMask_32 :: u64 where "kSstatusMask_32 = 0b11011110000100110011"

definition kUstatusMask_32 :: u64 where "kUstatusMask_32 = 0b11011110000000010001"

definition kSstatusMask_64 :: u64 where "kSstatusMask_64 = 0b1100000000000011011110000100110011"

definition kUstatusMask_64 :: u64 where "kUstatusMask_64 = 0b11011110000000010001"

definition kUipMask :: u64 where "kUipMask = 0b0000100010001"

definition kSipMask :: u64 where "kSipMask = 0b0001100110011"

definition kUieMask :: u64 where "kUieMask = 0b0000100010001"

definition kSieMask :: u64 where "kSieMask = 0b0001100110011"

definition ustatus_mask :: "'w cpu \<Rightarrow> u64" where
  "ustatus_mask c = (if cpu_mxl c = 1 then kUstatusMask_32 else kUstatusMask_64)"

definition sstatus_mask :: "'w cpu \<Rightarrow> u64" where
  "sstatus_mask c = (if cpu_mxl c = 1 then kSstatusMask_32 else kSstatusMask_64)"

definition ApplyMstatusToCsr :: "'w cpu \<Rightarrow> 'w cpu" where
  "ApplyMstatusToCsr c =
     set_csr MSTATUS (cpu_mstatus c)
       (set_csr SSTATUS (cpu_mstatus c AND sstatus_mask c)
         (set_csr USTATUS (cpu_mstatus c AND ustatus_mask c) c))"

definition UpdateMstatus :: "'w cpu \<Rightarrow> u16 \<Rightarrow> 'w cpu" where
  "UpdateMstatus c csr =
     (let c = (if csr = USTATUS then
                 c\<lparr>cpu_mstatus := (cpu_mstatus c AND NOT (ustatus_mask c)) OR (cpu_csrs c USTATUS AND ustatus_mask c)\<rparr>
               else if csr = SSTATUS then
                 c\<lparr>cpu_mstatus := (cpu_mstatus c AND NOT (sstatus_mask c)) OR (cpu_csrs c SSTATUS AND sstatus_mask c)\<rparr>
               else if csr = MSTATUS then c\<lparr>cpu_mstatus := cpu_csrs c MSTATUS\<rparr>
               else c);
          sd_xs_fs_mask = push_bit (cpu_xlen c - 1) 1 OR 0b011110000000000000;
          c = c\<lparr>cpu_mstatus := cpu_mstatus c AND NOT sd_xs_fs_mask\<rparr>;
          c = (if cpu_mxl c = 2
               then c\<lparr>cpu_mstatus := (cpu_mstatus c AND NOT (push_bit 32 0b1111)) OR push_bit 32 0b1010\<rparr>
               else c)
      in ApplyMstatusToCsr c)"

definition ApplyInterruptPending :: "'w cpu \<Rightarrow> 'w cpu" where
  "ApplyInterruptPending c =
     set_csr MIP (cpu_mip c) (set_csr SIP (cpu_mip c AND kSipMask) (set_csr UIP (cpu_mip c AND kUipMask) c))"

definition UpdateInterruptPending :: "'w cpu \<Rightarrow> u16 \<Rightarrow> 'w cpu" where
  "UpdateInterruptPending c csr =
     (if csr = MIP then ApplyInterruptPending (c\<lparr>cpu_mip := cpu_csrs c MIP\<rparr>)
      else if csr = UIP then
        ApplyInterruptPending (c\<lparr>cpu_mip := (cpu_mip c AND NOT kUipMask) OR (cpu_csrs c UIP AND kUipMask)\<rparr>)
      else if csr = SIP then
        ApplyInterruptPending (c\<lparr>cpu_mip := (cpu_mip c AND NOT kSipMask) OR (cpu_csrs c SIP AND kSipMask)\<rparr>)
      else c)"

definition ApplyInterruptEnable :: "'w cpu \<Rightarrow> 'w cpu" where
  "ApplyInterruptEnable c =
     set_csr MIE (cpu_mie c) (set_csr SIE (cpu_mie c AND kSieMask) (set_csr UIE (cpu_mie c AND kUieMask) c))"

definition UpdateInterruptEnable :: "'w cpu \<Rightarrow> u16 \<Rightarrow> 'w cpu" where
  "UpdateInterruptEnable c csr =
     (if csr = MIE then ApplyInterruptEnable (c\<lparr>cpu_mie := cpu_csrs c MIE\<rparr>)
      else if csr = UIE then
        ApplyInterruptEnable (c\<lparr>cpu_mie := (cpu_mie c AND NOT kUieMask) OR (cpu_csrs c UIE AND kUieMask)\<rparr>)
      else if csr = SIE then
        ApplyInterruptEnable (c\<lparr>cpu_mie := (cpu_mie c AND NOT kSieMask) OR (cpu_csrs c SIE AND kSieMask)\<rparr>)
      else c)"

definition UpdateStatus :: "'w cpu \<Rightarrow> u16 \<Rightarrow> 'w cpu" where
  "UpdateStatus c csr =
     (if csr \<in> {USTATUS, SSTATUS, MSTATUS} then UpdateMstatus c csr
      else if csr \<in> {UIP, SIP, MIP} then UpdateInterruptPending c csr
      else if csr \<in> {UIE, SIE, MIE} then UpdateInterruptEnable c csr
      else c)"

definition CsrsInstruction :: "'w cpu \<Rightarrow> code \<Rightarrow> u32 \<Rightarrow> u32 \<Rightarrow> u32 \<Rightarrow> 'w cpu" where
  "CsrsInstruction c instruction csr rd rs1 =
     (let t = cpu_csrs c csr;
          new_t = (if instruction = INST_CSRRC then t AND NOT (cpu_reg c rs1)
                   else if instruction = INST_CSRRCI then t AND ucast (NOT rs1)
                   else if instruction = INST_CSRRS then t OR cpu_reg c rs1
                   else if instruction = INST_CSRRSI then t OR ucast rs1
                   else if instruction = INST_CSRRW then cpu_reg c rs1
                   else if instruction = INST_CSRRWI then ucast rs1
                   else t)
      in UpdateStatus (set_reg rd t (set_csr csr new_t c)) (ucast csr))"

section \<open>Construction\<close>

text \<open>
  The members without an initialiser keep what \<open>raw\<close> holds.  On a 64-bit hart the expression
  \<open>mxl_ << (xlen_ - 2)\<close> shifts an \<open>int\<close> by 62, which C++ leaves undefined: its value is the
  argument \<open>misa_shift\<close>.
\<close>

definition InitializeCsrs :: "'w cpu \<Rightarrow> u32 \<Rightarrow> 'w cpu" where
  "InitializeCsrs c misa_shift =
     (let c = c\<lparr>cpu_csrs := (\<lambda>_. 0)\<rparr>;
          extensions = (0b00000101000010000100000000 :: u32);
          m = (if cpu_mxl c = 1 then push_bit (cpu_xlen c - 2) (of_int (cpu_mxl c)) else misa_shift);
          c = set_csr MISA (ucast (m OR extensions)) c
      in if cpu_mxl c = 2
         then ApplyMstatusToCsr (c\<lparr>cpu_mstatus := push_bit 34 (of_int (cpu_mxl c)) OR push_bit 32 (of_int (cpu_mxl c))\<rparr>)
         else c)"

definition ClearTimerInterruptFlag :: "'w cpu \<Rightarrow> 'w cpu" where
  "ClearTimerInterruptFlag c = c\<lparr>cpu_timer_interrupt := False\<rparr>"

definition RiscvCpu :: "bool \<Rightarrow> 'w cpu \<Rightarrow> u32 \<Rightarrow> 'w cpu" where
  "RiscvCpu en64bit raw misa_shift =
     (let c = raw\<lparr>cpu_mie := 0, cpu_mip := 0, cpu_page_fault := False, cpu_prev_page_fault := False,
                 cpu_prev_faulting_address := 0, cpu_mmu := mmu_init, cpu_ecall_emulation := False,
                 cpu_host_emulation := False, cpu_peripheral_emulation := False,
                 cpu_virtio_interrupt := False, cpu_uart_interrupt := False,
                 cpu_disable_machine_interrupt_delegation := False,
                 cpu_top := 0x80000000, cpu_bottom := 0x40000000, cpu_brk := 0x40000000\<rparr>;
          c = c\<lparr>cpu_mxl := if en64bit then 2 else 1, cpu_xlen := if en64bit then 64 else 32,
                cpu_privilege := MACHINE_MODE, cpu_mstatus := 0,
                cpu_reg := (\<lambda>i. if i < 32 then 0 else cpu_reg c i)\<rparr>;
          c = InitializeCsrs c misa_shift;
          c = ClearTimerInterruptFlag c
      in c\<lparr>cpu_peripheral := PeripheralEmulator (cpu_mxl c)\<rparr>)"

section \<open>Interrupt pending bits\<close>

definition SetInterruptPending :: "'w cpu \<Rightarrow> nat \<Rightarrow> 'w cpu" where
  "SetInterruptPending c cause = ApplyInterruptEnable (c\<lparr>cpu_mip := bitset (cpu_mip c) 1 cause 1\<rparr>)"

definition ClearInterruptPending :: "'w cpu \<Rightarrow> nat \<Rightarrow> 'w cpu" where
  "ClearInterruptPending c cause = ApplyInterruptPending (c\<lparr>cpu_mip := bitset (cpu_mip c) 1 cause 0\<rparr>)"

section \<open>Privilege levels\<close>

definition IntToPrivilegeMode :: "int \<Rightarrow> PrivilegeMode res" where
  "IntToPrivilegeMode value =
     (if value = 0 then Inr USER_MODE
      else if value = 1 then Inr SUPERVISOR_MODE
      else if value = 3 then Inr MACHINE_MODE
      else Inl Out_of_range)"

fun PriviledgeToInt :: "PrivilegeMode \<Rightarrow> int" where
  "PriviledgeToInt USER_MODE = 0"
| "PriviledgeToInt SUPERVISOR_MODE = 1"
| "PriviledgeToInt MACHINE_MODE = 3"

section \<open>Traps\<close>

definition is_page_fault :: "nat \<Rightarrow> bool" where
  "is_page_fault cause \<longleftrightarrow>
     cause = INSTRUCTION_PAGE_FAULT \<or> cause = LOAD_PAGE_FAULT \<or> cause = STORE_PAGE_FAULT"

definition trap_supported :: "nat \<Rightarrow> bool \<Rightarrow> bool" where
  "trap_supported cause interrupt \<longleftrightarrow>
     (interrupt \<and> (cause = MACHINE_TIMER_INTERRUPT \<or> cause = SUPERVISOR_SOFTWARRE_INTERRUPT \<or>
                     cause = SUPERVISOR_EXTERNAL_INTERRUPT)) \<or>
     (\<not> interrupt \<and> (cause = INSTRUCTION_PAGE_FAULT \<or> cause = LOAD_PAGE_FAULT \<or>
                       cause = STORE_PAGE_FAULT \<or> cause = ECALL_UMODE \<or> cause = ECALL_SMODE \<or>
                       cause = ECALL_MMODE))"

definition global_mie :: "'w cpu \<Rightarrow> bool" where
  "global_mie c \<longleftrightarrow>
     (cpu_privilege c = MACHINE_MODE \<and> bitcrop (cpu_mstatus c) 1 3 = 1) \<or> cpu_privilege c \<noteq> MACHINE_MODE"

definition global_sie :: "'w cpu \<Rightarrow> bool" where
  "global_sie c \<longleftrightarrow>
     (cpu_privilege c = SUPERVISOR_MODE \<and> bitcrop (cpu_mstatus c) 1 1 = 1) \<or> cpu_privilege c = USER_MODE"

text \<open>Page fault specific processing: two faults in a row at the same address end the emulation.\<close>

definition trap_page_fault :: "nat \<Rightarrow> bool \<Rightarrow> 'w cpu \<Rightarrow> 'w cpu" where
  "trap_page_fault cause interrupt c =
     (if \<not> interrupt \<and> is_page_fault cause then
        let c = (if cpu_prev_page_fault c \<and> cpu_prev_faulting_address c = cpu_faulting_address c
                 then c\<lparr>cpu_error_flag := True\<rparr> else c)
        in c\<lparr>cpu_prev_page_fault := cpu_page_fault c,
             cpu_prev_faulting_address := cpu_faulting_address c, cpu_page_fault := False\<rparr>
      else c)"

definition sv_delegation :: "nat \<Rightarrow> bool \<Rightarrow> 'w cpu \<Rightarrow> bool" where
  "sv_delegation cause interrupt c \<longleftrightarrow>
     (cpu_privilege c = USER_MODE \<or> cpu_privilege c = SUPERVISOR_MODE) \<and>
     (if interrupt then
        let mideleg_mask = (if cpu_disable_machine_interrupt_delegation c then 0x666 else 0xfff)
        in bitcrop (cpu_csrs c MIDELEG AND mideleg_mask) 1 cause = 1
      else bitcrop (cpu_csrs c MEDELEG) 1 cause = 1)"

definition trap_tval :: "nat \<Rightarrow> bool \<Rightarrow> 'w cpu \<Rightarrow> u64" where
  "trap_tval cause interrupt c =
     (if \<not> interrupt then
        if is_page_fault cause then cpu_faulting_address c
        else if cause = ILLEGAL_INSTRUCTION then ucast (cpu_ir c) else 0
      else 0)"

definition trap_cause :: "nat \<Rightarrow> bool \<Rightarrow> 'w cpu \<Rightarrow> u64" where
  "trap_cause cause interrupt c =
     of_nat cause OR (if interrupt then push_bit (cpu_xlen c - 1) 1 else 0)"

definition trap_vector :: "u64 \<Rightarrow> u64 \<Rightarrow> bool \<Rightarrow> 'w cpu \<Rightarrow> u64" where
  "trap_vector tvec cause_csr interrupt c =
     (if tvec AND 0b11 = 0 \<or> interrupt then tvec AND NOT 0b11
      else (tvec AND NOT 0b11) + 4 * (cause_csr AND GenMask (cpu_xlen c - 1) 0))"

definition trap_to_supervisor :: "nat \<Rightarrow> bool \<Rightarrow> u64 \<Rightarrow> u64 \<Rightarrow> 'w cpu \<Rightarrow> 'w cpu" where
  "trap_to_supervisor cause interrupt sie tval c =
     (let c = set_csr SCAUSE (trap_cause cause interrupt c) c;
          c = set_csr SEPC (cpu_pc c) c;
          c = c\<lparr>cpu_next_pc := trap_vector (cpu_csrs c STVEC) (cpu_csrs c SCAUSE) interrupt c\<rparr>;
          c = set_csr STVAL tval c;
          c = c\<lparr>cpu_mstatus := bitset (cpu_mstatus c) 1 5 sie\<rparr>;
          c = c\<lparr>cpu_mstatus := bitset (cpu_mstatus c) 1 1 0\<rparr>;
          c = c\<lparr>cpu_mstatus := bitset (cpu_mstatus c) 1 8 (of_int (PriviledgeToInt (cpu_privilege c)))\<rparr>;
          c = ApplyMstatusToCsr c
      in c\<lparr>cpu_privilege := SUPERVISOR_MODE\<rparr>)"

definition trap_to_machine :: "nat \<Rightarrow> bool \<Rightarrow> u64 \<Rightarrow> u64 \<Rightarrow> 'w cpu \<Rightarrow> 'w cpu" where
  "trap_to_machine cause interrupt mie tval c =
     (let c = set_csr MCAUSE (trap_cause cause interrupt c) c;
          c = set_csr MEPC (cpu_pc c) c;
          c = c\<lparr>cpu_next_pc := trap_vector (cpu_csrs c MTVEC) (cpu_csrs c MCAUSE) interrupt c\<rparr>;
          c = set_csr MTVAL tval c;
          c = c\<lparr>cpu_mstatus := bitset (cpu_mstatus c) 1 7 mie\<rparr>;
          c = c\<lparr>cpu_mstatus := bitset (cpu_mstatus c) 1 3 0\<rparr>;
          c = c\<lparr>cpu_mstatus := bitset (cpu_mstatus c) 2 11 (of_int (PriviledgeToInt (cpu_privilege c)))\<rparr>;
          c = ApplyMstatusToCsr c
      in c\<lparr>cpu_privilege := MACHINE_MODE\<rparr>)"

definition Trap :: "'w cpu \<Rightarrow> nat \<Rightarrow> bool \<Rightarrow> 'w cpu res" where
  "Trap c cause interrupt =
     rbind (assert_that (trap_supported cause interrupt)) (\<lambda>_.
     let mie = of_bool (global_mie c); sie = of_bool (global_sie c);
         c = trap_page_fault cause interrupt c;
         tval = trap_tval cause interrupt c;
         c = (if sv_delegation cause interrupt c then trap_to_supervisor cause interrupt sie tval c
              else trap_to_machine cause interrupt mie tval c);
         c = (if interrupt \<and> cause \<noteq> SUPERVISOR_SOFTWARRE_INTERRUPT \<and> cause \<noteq> MACHINE_SOFTWARE_INTERRUPT
              then ClearInterruptPending c cause else c)
     in Inr (ApplyMstatusToCsr c))"

definition Ecall :: "'w cpu \<Rightarrow> 'w cpu res" where
  "Ecall c =
     Trap c (case cpu_privilege c of MACHINE_MODE \<Rightarrow> ECALL_MMODE | SUPERVISOR_MODE \<Rightarrow> ECALL_SMODE
             | USER_MODE \<Rightarrow> ECALL_UMODE) False"

definition Mret :: "'w cpu \<Rightarrow> 'w cpu res" where
  "Mret c =
     rbind (IntToPrivilegeMode (uint (bitcrop (cpu_mstatus c) 2 11))) (\<lambda>mpp.
     let c = c\<lparr>cpu_privilege := mpp\<rparr>;
         mpie = bitcrop (cpu_mstatus c) 1 7;
         c = c\<lparr>cpu_mstatus := bitset (cpu_mstatus c) 1 3 mpie\<rparr>;
         c = c\<lparr>cpu_mstatus := bitset (cpu_mstatus c) 1 7 1\<rparr>;
         c = c\<lparr>cpu_mstatus := bitset (cpu_mstatus c) 2 11 0\<rparr>;
         c = ApplyMstatusToCsr c
     in Inr (c\<lparr>cpu_next_pc := cpu_csrs c MEPC\<rparr>))"

definition Sret :: "'w cpu \<Rightarrow> 'w cpu res" where
  "Sret c =
     rbind (IntToPrivilegeMode (uint (bitcrop (cpu_mstatus c) 1 8))) (\<lambda>spp.
     let c = c\<lparr>cpu_privilege := spp\<rparr>;
         spie = bitcrop (cpu_mstatus c) 1 5;
         c = c\<lparr>cpu_mstatus := bitset (cpu_mstatus c) 1 1 spie\<rparr>;
         c = c\<lparr>cpu_mstatus := bitset (cpu_mstatus c) 1 5 1\<rparr>;
         c = c\<lparr>cpu_mstatus := bitset (cpu_mstatus c) 2 8 0\<rparr>;
         c = set_csr MSTATUS (cpu_mstatus c) c;
         c = ApplyMstatusToCsr c
     in Inr (c\<lparr>cpu_next_pc := cpu_csrs c SEPC\<rparr>))"

definition pending_trap :: "'w cpu \<Rightarrow> nat option" where
  "pending_trap c =
     (let interrupt_status = cpu_mip c AND cpu_mie c;
          mstatus_mie = (cpu_privilege c \<noteq> MACHINE_MODE \<or> bitcrop (cpu_mstatus c) 1 3 = 1);
          mstatus_sie = (cpu_privilege c = USER_MODE \<or>
                         (cpu_privilege c = SUPERVISOR_MODE \<and> bitcrop (cpu_mstatus c) 1 1 = 1))
      in if mstatus_sie \<and> bitcrop interrupt_status 1 1 = 1 then Some SUPERVISOR_SOFTWARRE_INTERRUPT
         else if mstatus_mie \<and> bitcrop interrupt_status 1 3 = 1 then Some MACHINE_SOFTWARE_INTERRUPT
         else if mstatus_sie \<and> bitcrop interrupt_status 1 5 = 1 then Some SUPERVIOR_TIMER_INTERRUPT
         else if mstatus_mie \<and> bitcrop interrupt_status 1 7 = 1 then Some MACHINE_TIMER_INTERRUPT
         else if mstatus_sie \<and> bitcrop interrupt_status 1 9 = 1 then Some SUPERVISOR_EXTERNAL_INTERRUPT
         else if mstatus_mie \<and> bitcrop interrupt_status 1 11 = 1 then Some MACHINE_EXTERNAL_INTERRUPT
         else None)"

definition CheckPendingInterrupt :: "'w cpu \<Rightarrow> (bool \<times> 'w cpu) res" where
  "CheckPendingInterrupt c =
     (case pending_trap c of None \<Rightarrow> Inr (False, c)
      | Some cause \<Rightarrow> rbind (Trap c cause True) (\<lambda>c. Inr (True, c)))"

section \<open>Interrupt sources\<close>

definition TimerTick :: "'w cpu \<Rightarrow> 'w cpu res" where
  "TimerTick c =
     rbind (periph_TimerTick (cpu_peripheral c) (cpu_memory c)) (\<lambda>p.
     let c = c\<lparr>cpu_peripheral := p\<rparr>
     in Inr (if \<not> p_timer_interrupt p then c
             else SetInterruptPending (c\<lparr>cpu_peripheral := ClearTimerInterrupt p\<rparr>) 7))"

definition DiskInterruptCheck :: "'w cpu \<Rightarrow> 'w cpu" where
  "DiskInterruptCheck c =
     (if cpu_virtio_interrupt c then SetInterruptPending (c\<lparr>cpu_virtio_interrupt := False\<rparr>) 9 else c)"

definition UartInterruptCheck :: "'w cpu \<Rightarrow> 'w cpu" where
  "UartInterruptCheck c =
     (if cpu_uart_interrupt c then SetInterruptPending (c\<lparr>cpu_uart_interrupt := False\<rparr>) 9 else c)"

definition InterruptCheck :: "'w cpu \<Rightarrow> 'w cpu" where
  "InterruptCheck c = UartInterruptCheck (DiskInterruptCheck c)"

definition PeripheralEmulations :: "'w host \<Rightarrow> 'w cpu \<Rightarrow> 'w cpu res" where
  "PeripheralEmulations h c =
     rbind (Emulation h (cpu_peripheral c) (cpu_memory c) (cpu_world c)) (\<lambda>(p, mem, w).
     let c = c\<lparr>cpu_peripheral := p, cpu_memory := mem, cpu_world := w\<rparr>;
         c = (if p_end_flag p
              then (set_reg A0 (p_host_value p) c)
                     \<lparr>cpu_error_flag := cpu_error_flag c \<or> p_error_flag p, cpu_end_flag := True\<rparr>
              else c);
         c = (if p_virtio_interrupt p
              then c\<lparr>cpu_peripheral := ClearInterruptStatus (cpu_peripheral c), cpu_virtio_interrupt := True\<rparr>
              else c);
         c = (if p_uart_interrupt p
              then c\<lparr>cpu_peripheral := ClearUartInterruptStatus (cpu_peripheral c), cpu_uart_interrupt := True\<rparr>
              else c)
     in Inr (if p_uart_break p then c\<lparr>cpu_end_flag := True\<rparr> else c))"

section \<open>A concrete object\<close>

text \<open>A freshly constructed CPU on zeroed storage, for evaluating the model on concrete inputs.\<close>

definition blank_cpu :: "unit cpu" where
  "blank_cpu =
     \<lparr>cpu_xlen = 0, cpu_mxl = 0, cpu_reg = (\<lambda>_. 0), cpu_pc = 0, cpu_timer_interrupt = False, cpu_ir = 0,
      cpu_next_pc = 0, cpu_mstatus = 0, cpu_mie = 0, cpu_mip = 0, cpu_privilege = USER_MODE,
      cpu_memory = MemoryWrapper, cpu_csrs = (\<lambda>_. 0), cpu_ctype = False, cpu_page_fault = False,
      cpu_prev_page_fault = False, cpu_prev_faulting_address = 0, cpu_error_flag = False,
      cpu_end_flag = False, cpu_faulting_address = 0, cpu_mmu = mmu_init,
      cpu_peripheral = PeripheralEmulator 0, cpu_ecall_emulation = False, cpu_host_emulation = False,
      cpu_peripheral_emulation = False, cpu_virtio_interrupt = False, cpu_uart_interrupt = False,
      cpu_disable_machine_interrupt_delegation = False, cpu_top = 0, cpu_bottom = 0, cpu_brk = 0,
      cpu_openHandles = 0, cpu_world = ()\<rparr>"

definition blank_hart :: "bool \<Rightarrow> unit cpu" where
  "blank_hart en64bit = RiscvCpu en64bit blank_cpu 0"

lemmas RiscvCpu_defs = RiscvCpu_def InitializeCsrs_def ClearTimerInterruptFlag_def ApplyMstatusToCsr_def set_csr_def

lemma blank_hart_sel [simp]:
  "cpu_xlen (blank_hart b) = (if b then 64 else 32)" "cpu_mxl (blank_hart b) = (if b then 2 else 1)"
  "cpu_reg (blank_hart b) r = 0" "cpu_privilege (blank_hart b) = MACHINE_MODE"
  "cpu_memory (blank_hart b) = MemoryWrapper"
  by (simp_all add: blank_hart_def blank_cpu_def RiscvCpu_defs Let_def)

end
