(* ===== verification/Cpu_Alu.thy ===== *)
theory Cpu_Alu
  imports Cpu_State
begin

text \<open>
  The register-to-register part of the instruction set: branches, integer operations, immediate
  and shift instructions, multiplication and division (\<open>RISCV_cpu.cc\<close>).  An \<open>int64_t\<close> value
  is the \<open>u64\<close> of its bits, read through \<open>sint\<close>; an \<open>int32_t\<close> immediate is sign-extended to
  64 bits by \<open>scast\<close>.  The values are computed by functions of the operands; the handlers store
  them in the destination register.
\<close>

section \<open>Sign extension\<close>

definition kUpper32bitMask :: u64 where "kUpper32bitMask = 0xFFFFFFFF00000000"

definition Sext32bit :: "u64 \<Rightarrow> u64" where
  "Sext32bit data32bit =
     (if drop_bit 31 data32bit AND 1 \<noteq> 0 then data32bit OR kUpper32bitMask
      else data32bit AND NOT kUpper32bitMask)"

section \<open>Branches\<close>

definition branch_condition :: "code \<Rightarrow> u64 \<Rightarrow> u64 \<Rightarrow> bool" where
  "branch_condition instruction a b =
     (if instruction = INST_BEQ then a = b
      else if instruction = INST_BGE then sint b \<le> sint a
      else if instruction = INST_BGEU then b \<le> a
      else if instruction = INST_BLT then sint a < sint b
      else if instruction = INST_BLTU then a < b
      else if instruction = INST_BNE then a \<noteq> b
      else False)"

definition BranchInstruction :: "'w cpu \<Rightarrow> code \<Rightarrow> u32 \<Rightarrow> u32 \<Rightarrow> u32 \<Rightarrow> u64" where
  "BranchInstruction c instruction rs1 rs2 imm13 =
     (if branch_condition instruction (cpu_reg c rs1) (cpu_reg c rs2)
      then cpu_pc c + scast imm13 else cpu_next_pc c)"

section \<open>Integer operations\<close>

definition w_instruction :: "code \<Rightarrow> bool" where
  "w_instruction instruction \<longleftrightarrow>
     instruction = INST_ADDW \<or> instruction = INST_SUBW \<or> instruction = INST_SLLW \<or>
     instruction = INST_SRLW \<or> instruction = INST_SRAW"

definition operation_value :: "nat \<Rightarrow> code \<Rightarrow> u64 \<Rightarrow> u64 \<Rightarrow> u64 res" where
  "operation_value xlen instruction a b =
     (let shift_mask = (if xlen = 32 \<or> w_instruction instruction then 0b0011111 else 0b0111111);
          shamt = unat (b AND shift_mask)
      in rbind
        (if instruction = INST_ADD \<or> instruction = INST_ADDW then Inr (a + b)
         else if instruction = INST_SUB \<or> instruction = INST_SUBW then Inr (a - b)
         else if instruction = INST_AND then Inr (a AND b)
         else if instruction = INST_OR then Inr (a OR b)
         else if instruction = INST_XOR then Inr (a XOR b)
         else if instruction = INST_SLL \<or> instruction = INST_SLLW then Inr (push_bit shamt a)
         else if instruction = INST_SRL \<or> instruction = INST_SRLW then
           Inr (drop_bit shamt (if xlen = 32 \<or> instruction = INST_SRLW then a AND 0xFFFFFFFF else a))
         else if instruction = INST_SRA then Inr (signed_drop_bit shamt a)
         else if instruction = INST_SRAW then Inr (drop_bit shamt (Sext32bit a))
         else Inl Assertion) (\<lambda>temp64.
        Inr (if xlen = 32 \<or> w_instruction instruction then Sext32bit temp64 else temp64)))"

definition OperationInstruction :: "'w cpu \<Rightarrow> code \<Rightarrow> u32 \<Rightarrow> u32 \<Rightarrow> u32 \<Rightarrow> 'w cpu res" where
  "OperationInstruction c instruction rd rs1 rs2 =
     rbind (operation_value (cpu_xlen c) instruction (cpu_reg c rs1) (cpu_reg c rs2)) (\<lambda>v.
     Inr (set_reg rd v c))"

definition immediate_value :: "nat \<Rightarrow> code \<Rightarrow> u64 \<Rightarrow> u64 \<Rightarrow> u64 res" where
  "immediate_value xlen instruction a imm =
     rbind
       (if instruction = INST_ADDI \<or> instruction = INST_ADDIW then Inr (a + imm)
        else if instruction = INST_ANDI then Inr (a AND imm)
        else if instruction = INST_ORI then Inr (a OR imm)
        else if instruction = INST_XORI then Inr (a XOR imm)
        else Inl Assertion) (\<lambda>temp64.
     Inr (if xlen = 32 \<or> instruction = INST_ADDIW then Sext32bit temp64 else temp64))"

definition ImmediateInstruction :: "'w cpu \<Rightarrow> code \<Rightarrow> u32 \<Rightarrow> u32 \<Rightarrow> u32 \<Rightarrow> 'w cpu res" where
  "ImmediateInstruction c instruction rd rs1 imm12 =
     rbind (immediate_value (cpu_xlen c) instruction (cpu_reg c rs1) (scast imm12)) (\<lambda>v.
     Inr (set_reg rd v c))"

text \<open>
  Shifts by an immediate.  \<open>CheckShiftSign\<close> only prints a message.  \<open>SRAIW\<close> shifts an \<open>int32_t\<close>:
  a shift by 32 or more is undefined behaviour.  A shift of a 64-bit value by 64 or more, undefined as well, cannot be decoded: shift amounts
  have six bits, so the value given for it here is never used.
\<close>

definition shift_value :: "nat \<Rightarrow> code \<Rightarrow> u64 \<Rightarrow> nat \<Rightarrow> u64 res" where
  "shift_value xlen instruction a shamt =
     (if instruction = INST_SLLI then
        Inr (if xlen = 32 then Sext32bit (push_bit shamt a) else push_bit shamt a)
      else if instruction = INST_SLLIW then Inr (Sext32bit (push_bit shamt a AND 0xFFFFFFFF))
      else if instruction = INST_SRLI then
        Inr (if xlen = 32 then Sext32bit (drop_bit shamt (a AND NOT kUpper32bitMask)) else drop_bit shamt a)
      else if instruction = INST_SRLIW then Inr (Sext32bit (drop_bit shamt (a AND 0xFFFFFFFF)))
      else if instruction = INST_SRAI then Inr (signed_drop_bit shamt a)
      else if shamt < 32 then Inr (scast (signed_drop_bit shamt (ucast a :: u32)))
      else Inl Undefined)"

definition CheckShiftSign :: "nat \<Rightarrow> u8 \<Rightarrow> u8 \<Rightarrow> bool" where
  "CheckShiftSign xlen shamt instruction =
     (if xlen = 32 \<or> instruction = INST_SLLIW \<or> instruction = INST_SRAIW \<or> instruction = INST_SRLIW
      then drop_bit 5 shamt \<noteq> 0 else False)"

definition ImmediateShiftInstruction :: "'w cpu \<Rightarrow> code \<Rightarrow> u32 \<Rightarrow> u32 \<Rightarrow> u32 \<Rightarrow> 'w cpu res" where
  "ImmediateShiftInstruction c instruction rd rs1 shamt =
     (if instruction \<in> {INST_SLLI, INST_SLLIW, INST_SRLI, INST_SRLIW, INST_SRAI, INST_SRAIW} then
        rbind (shift_value (cpu_xlen c) instruction (cpu_reg c rs1) (unat shamt)) (\<lambda>v. Inr (set_reg rd v c))
      else Inr c)"

section \<open>Multiplication and division\<close>

definition GetMulh64 :: "u64 \<Rightarrow> u64 \<Rightarrow> u64" where
  "GetMulh64 op1 op2 =
     (let a = signed_drop_bit 32 op1; b = op1 AND 0xFFFFFFFF;
          c = signed_drop_bit 32 op2; d = op2 AND 0xFFFFFFFF;
          ac = a * c; ad = a * d; bc = b * c; bd = b * d;
          d32 = (ad AND 0xFFFFFFFF) + (bc AND 0xFFFFFFFF) + drop_bit 32 bd
      in ac + signed_drop_bit 32 ad + signed_drop_bit 32 bc + drop_bit 32 d32)"

definition GetMulhsu64 :: "u64 \<Rightarrow> u64 \<Rightarrow> u64" where
  "GetMulhsu64 op1 op2 =
     (let a = signed_drop_bit 32 op1; b = op1 AND 0xFFFFFFFF;
          c = drop_bit 32 op2; d = op2 AND 0xFFFFFFFF;
          ac = a * c; ad = a * d; bc = b * c; bd = b * d;
          d32 = (ad AND 0xFFFFFFFF) + (bc AND 0xFFFFFFFF) + drop_bit 32 bd
      in ac + signed_drop_bit 32 ad + drop_bit 32 bc + drop_bit 32 d32)"

definition GetMulhu64 :: "u64 \<Rightarrow> u64 \<Rightarrow> u64" where
  "GetMulhu64 op1 op2 =
     (let a = drop_bit 32 op1; b = op1 AND 0xFFFFFFFF;
          c = drop_bit 32 op2; d = op2 AND 0xFFFFFFFF;
          ac = a * c; ad = a * d; bc = b * c; bd = b * d;
          d32 = (ad AND 0xFFFFFFFF) + (bc AND 0xFFFFFFFF) + drop_bit 32 bd
      in ac + drop_bit 32 ad + drop_bit 32 bc + drop_bit 32 d32)"

text \<open>
  C++ division of 64-bit integers: it traps on a zero divisor and, for \<open>int64_t\<close>, when
  the quotient does not fit.
\<close>

definition udiv64 :: "u64 \<Rightarrow> u64 \<Rightarrow> u64 res" where
  "udiv64 a b = (if b = 0 then Inl Div_by_zero else Inr (a div b))"

definition umod64 :: "u64 \<Rightarrow> u64 \<Rightarrow> u64 res" where
  "umod64 a b = (if b = 0 then Inl Div_by_zero else Inr (a mod b))"

definition sdiv64 :: "u64 \<Rightarrow> u64 \<Rightarrow> u64 res" where
  "sdiv64 a b =
     (if b = 0 \<or> (sint a = - (2 ^ 63) \<and> sint b = - 1) then Inl Div_by_zero
      else Inr (of_int (sint a sdiv sint b)))"

definition smod64 :: "u64 \<Rightarrow> u64 \<Rightarrow> u64 res" where
  "smod64 a b =
     (if b = 0 \<or> (sint a = - (2 ^ 63) \<and> sint b = - 1) then Inl Div_by_zero
      else Inr (of_int (sint a smod sint b)))"

text \<open>
  On a 32-bit hart \<open>MULH\<close> multiplies two \<open>int64_t\<close>: for registers that are not sign-extended 32-bit values the product can overflow, which is undefined in
  C++ and wraps here.  For sign-extended registers the product fits.
\<close>

definition mul_value :: "nat \<Rightarrow> code \<Rightarrow> u64 \<Rightarrow> u64 \<Rightarrow> u64" where
  "mul_value xlen instruction a b =
     (if instruction = INST_MUL then a * b
      else if instruction = INST_MULW then a * b
      else if instruction = INST_MULH then
        (if xlen = 32 then signed_drop_bit 32 (a * b) else GetMulh64 a b)
      else if instruction = INST_MULHSU then
        (if xlen = 32 then drop_bit 32 (a * (b AND 0xFFFFFFFF)) else GetMulhsu64 a b)
      else
        (if xlen = 32 then drop_bit 32 ((a AND 0xFFFFFFFF) * (b AND 0xFFFFFFFF)) else GetMulhu64 a b))"

definition div_value :: "nat \<Rightarrow> code \<Rightarrow> u64 \<Rightarrow> u64 \<Rightarrow> u64 res" where
  "div_value xlen instruction a b =
     (let largest_negative = push_bit (xlen - 1) 1
      in if instruction = INST_DIV then
           (if b = 0 then Inr (- 1)
            else if sint b = - 1 \<and> a = largest_negative then Inr largest_negative
            else sdiv64 a b)
         else if instruction = INST_DIVU then
           (if b = 0 then Inr (NOT 0)
            else if xlen = 32 then udiv64 (a AND 0xFFFFFFFF) (b AND 0xFFFFFFFF)
            else udiv64 a b)
         else if instruction = INST_DIVUW then
           (if b = 0 then Inr (NOT 0) else udiv64 (a AND 0xFFFFFFFF) (b AND 0xFFFFFFFF))
         else
           (if b = 0 then Inr (- 1)
            else if sint b = - 1 \<and> a = push_bit 31 1 then Inr (push_bit 31 1)
            else sdiv64 (SignExtend a 32) (SignExtend b 32)))"

definition rem_value :: "nat \<Rightarrow> code \<Rightarrow> u64 \<Rightarrow> u64 \<Rightarrow> u64 res" where
  "rem_value xlen instruction a b =
     (let largest_negative = push_bit (xlen - 1) 1
      in if instruction = INST_REM then
           (if b = 0 then Inr a
            else if sint b = - 1 \<and> a = largest_negative then Inr 0
            else smod64 a b)
         else if instruction = INST_REMU then
           (if b = 0 then Inr a
            else if xlen = 32 then umod64 (a AND 0xFFFFFFFF) (b AND 0xFFFFFFFF)
            else umod64 a b)
         else if instruction = INST_REMUW then
           (if b = 0 then Inr a else umod64 (a AND 0xFFFFFFFF) (b AND 0xFFFFFFFF))
         else
           (if b = 0 then Inr a
            else if sint b = - 1 \<and> a = push_bit 31 1 then Inr 0
            else smod64 (SignExtend a 32) (SignExtend b 32)))"

definition mult_value :: "nat \<Rightarrow> code \<Rightarrow> u64 \<Rightarrow> u64 \<Rightarrow> u64 res" where
  "mult_value xlen instruction a b =
     rbind
       (if instruction \<in> {INST_MUL, INST_MULW, INST_MULH, INST_MULHSU, INST_MULHU} then
          Inr (mul_value xlen instruction a b)
        else if instruction \<in> {INST_DIV, INST_DIVU, INST_DIVUW, INST_DIVW} then div_value xlen instruction a b
        else if instruction \<in> {INST_REM, INST_REMU, INST_REMUW, INST_REMW} then rem_value xlen instruction a b
        else Inl Assertion) (\<lambda>temp64.
     let sign_extend_en = (xlen = 32 \<or>
           instruction \<in> {INST_MULW, INST_DIVUW, INST_DIVW, INST_REMUW, INST_REMW})
     in Inr (if sign_extend_en then Sext32bit temp64 else temp64))"

definition MultInstruction :: "'w cpu \<Rightarrow> code \<Rightarrow> u32 \<Rightarrow> u32 \<Rightarrow> u32 \<Rightarrow> 'w cpu res" where
  "MultInstruction c instruction rd rs1 rs2 =
     rbind (mult_value (cpu_xlen c) instruction (cpu_reg c rs1) (cpu_reg c rs2)) (\<lambda>v.
     Inr (set_reg rd v c))"

end
