(* ===== verification/Cpu_Mem.thy ===== *)
theory Cpu_Mem
  imports Cpu_Alu
begin

text \<open>
  The instructions that access memory (\<open>RISCV_cpu.cc\<close>): address translation with the privilege
  override of \<open>mstatus.MPRV\<close>, instruction fetch, loads, stores and atomic memory operations.
  Widths are in bytes.
\<close>

section \<open>Translation and fetch\<close>

definition VirtualToPhysical :: "'w cpu \<Rightarrow> u64 \<Rightarrow> bool \<Rightarrow> (u64 \<times> 'w cpu) res" where
  "VirtualToPhysical c virtual_address write_access =
     rbind (if cpu_privilege c = MACHINE_MODE \<and> (ucast (bitcrop (cpu_csrs c MSTATUS) 1 17) :: u32) = 1
            then IntToPrivilegeMode (uint (ucast (bitcrop (cpu_csrs c MSTATUS) 2 11) :: u32))
            else Inr (cpu_privilege c)) (\<lambda>privilege.
     rbind (Mmu_VirtualToPhysical (SetPrivilege (SetMxl (cpu_mmu c) (cpu_mxl c)) privilege)
              (cpu_memory c) virtual_address (cpu_csrs c SATP) write_access) (\<lambda>(physical_address, u, mem).
     let c = c\<lparr>cpu_mmu := u, cpu_memory := mem\<rparr>
     in Inr (physical_address,
             if mmu_page_fault u
             then c\<lparr>cpu_page_fault := True, cpu_faulting_address := mmu_faulting_address u\<rparr> else c)))"

definition LoadCmd :: "'w cpu \<Rightarrow> u64 \<Rightarrow> (u32 \<times> 'w cpu) res" where
  "LoadCmd c pc =
     rbind (VirtualToPhysical c pc False) (\<lambda>(physical_address, c).
     rbind (Read32 (cpu_memory c) (push_bit 2 (drop_bit 2 physical_address))) (\<lambda>word.
     let cmd = (if pc AND 0b10 = 0b10 then drop_bit 16 word AND 0xFFFF else word)
     in rbind (if \<not> cpu_page_fault c \<and> pc AND 0b10 = 0b10 \<and> cmd AND 0b11 = 0b11 then
                 rbind (VirtualToPhysical c (pc + 2) False) (\<lambda>(physical_address_upper, c).
                 rbind (Read32 (cpu_memory c) (push_bit 2 (drop_bit 2 physical_address_upper))) (\<lambda>cmd_upper.
                 Inr ((cmd AND 0xFFFF) OR push_bit 16 (cmd_upper AND 0xFFFF), c)))
               else Inr (cmd, c)) (\<lambda>(cmd, c).
        Inr (if cmd AND 0b11 = 0b11 then cmd else cmd AND 0xFFFF, c))))"

section \<open>Physical accesses\<close>

definition LoadWd :: "memory \<Rightarrow> u64 \<Rightarrow> nat \<Rightarrow> u64 res" where
  "LoadWd mem physical_address width =
     rbind (assert_that (1 \<le> width \<and> width \<le> 8)) (\<lambda>_.
     if width = 4 \<and> physical_address AND 0b11 = 0 then rbind (Read32 mem physical_address) (\<lambda>x. Inr (ucast x))
     else if width = 8 \<and> physical_address AND 0b111 = 0 then Read64 mem physical_address
     else rfold (\<lambda>result offset.
            rbind (ReadByte mem (physical_address + of_nat offset)) (\<lambda>loaded_byte.
            Inr (result OR push_bit (offset * 8) (ucast loaded_byte)))) 0 [0..<width])"

definition StoreWd :: "memory \<Rightarrow> u64 \<Rightarrow> u64 \<Rightarrow> nat \<Rightarrow> memory res" where
  "StoreWd mem physical_address data width =
     rbind (assert_that (1 \<le> width \<and> width \<le> 8)) (\<lambda>_.
     if width = 4 \<and> physical_address AND 0b11 = 0 then Write32 mem physical_address (ucast data)
     else if width = 8 \<and> physical_address AND 0b111 = 0 then Write64 mem physical_address data
     else rfold (\<lambda>m offset.
            WriteByte m (physical_address + of_nat offset) (ucast (drop_bit (offset * 8) data AND 0xFF)))
            mem [0..<width])"

section \<open>Widths\<close>

definition GetLoadWidth :: "code \<Rightarrow> nat res" where
  "GetLoadWidth instruction =
     (if instruction = INST_LB \<or> instruction = INST_LBU then Inr 1
      else if instruction = INST_LH \<or> instruction = INST_LHU then Inr 2
      else if instruction = INST_LW \<or> instruction = INST_LWU then Inr 4
      else if instruction = INST_LD then Inr 8
      else Inl Assertion)"

definition GetStoreWidth :: "code \<Rightarrow> nat res" where
  "GetStoreWidth instruction =
     (if instruction = INST_SB then Inr 1
      else if instruction = INST_SH then Inr 2
      else if instruction = INST_SW then Inr 4
      else if instruction = INST_SD then Inr 8
      else Inl Assertion)"

text \<open>An access that crosses a 64-bit boundary is split there: the width of its first part.\<close>

definition GetAccessWidth :: "nat \<Rightarrow> u64 \<Rightarrow> nat" where
  "GetAccessWidth width address =
     (let burst_overflow = drop_bit 3 ((address AND 0b111) + of_nat width - 1) \<noteq> 0
      in if burst_overflow then
           let mask = (if width = 2 then 0b1 else if width = 4 then 0b11 else if width = 8 then 0b111 else 0)
           in width - unat (address AND mask)
         else width)"

section \<open>Loads\<close>

text \<open>The value read, or nothing when the second part faulted and trapped.\<close>

definition load_parts :: "'w cpu \<Rightarrow> u64 \<Rightarrow> nat \<Rightarrow> (u64 option \<times> 'w cpu) res" where
  "load_parts c address width =
     (let access_width = GetAccessWidth width address; next_width = width - access_width
      in rbind (LoadWd (cpu_memory c) address access_width) (\<lambda>load_data.
         if next_width > 0 then
           rbind (VirtualToPhysical c (address + of_nat access_width) False) (\<lambda>(next_address, c).
           if cpu_page_fault c then rbind (Trap c LOAD_PAGE_FAULT False) (\<lambda>c. Inr (None, c))
           else rbind (LoadWd (cpu_memory c) next_address next_width) (\<lambda>load_data_high.
                Inr (Some (load_data OR push_bit (access_width * 8) load_data_high), c)))
         else Inr (Some load_data, c)))"

definition load_extend :: "code \<Rightarrow> nat \<Rightarrow> u64 \<Rightarrow> u64" where
  "load_extend instruction width load_data =
     (if instruction = INST_LB \<or> instruction = INST_LH \<or> instruction = INST_LW
      then SignExtend load_data (width * 8)
      else if instruction = INST_LWU then load_data AND 0xFFFFFFFF
      else load_data)"

definition LoadInstruction :: "'w cpu \<Rightarrow> code \<Rightarrow> u32 \<Rightarrow> u32 \<Rightarrow> u32 \<Rightarrow> 'w cpu res" where
  "LoadInstruction c instruction rd rs1 imm12 =
     rbind (MemoryMappedValueUpdate (cpu_peripheral c) (cpu_memory c)) (\<lambda>mem.
     let c = c\<lparr>cpu_memory := mem\<rparr>; source_address = cpu_reg c rs1 + scast imm12
     in rbind (VirtualToPhysical c source_address False) (\<lambda>(address, c).
        if cpu_page_fault c then Trap c LOAD_PAGE_FAULT False
        else
         rbind (GetLoadWidth instruction) (\<lambda>width.
         rbind (load_parts c address width) (\<lambda>(load_data, c).
         case load_data of
           None \<Rightarrow> Inr c
         | Some load_data \<Rightarrow>
             Inr (set_reg rd (load_extend instruction width load_data)
                    (c\<lparr>cpu_peripheral := CheckDeviceRead (cpu_peripheral c) address width\<rparr>))))))"

section \<open>Stores\<close>

text \<open>
  \<open>GenerateBitMask\<close> computes an \<open>int\<close>: for four bytes and more the mask is \<open>-1\<close>, which the
  conversion to \<open>uint64_t\<close> sign-extends.
\<close>

definition store_parts :: "'w cpu \<Rightarrow> u64 \<Rightarrow> u64 \<Rightarrow> u64 \<Rightarrow> nat \<Rightarrow> (bool \<times> 'w cpu) res" where
  "store_parts c dst_address address data width =
     (let access_width = GetAccessWidth width dst_address; next_width = width - access_width
      in rbind (StoreWd (cpu_memory c) address (data AND scast (GenerateBitMask (access_width * 8))) access_width) (\<lambda>mem.
         let c = c\<lparr>cpu_memory := mem\<rparr>
         in if next_width > 0 then
              rbind (VirtualToPhysical c (dst_address + of_nat access_width) True) (\<lambda>(next_address, c).
              if cpu_page_fault c then rbind (Trap c STORE_PAGE_FAULT False) (\<lambda>c. Inr (False, c))
              else rbind (StoreWd (cpu_memory c) next_address (drop_bit (access_width * 8) data) next_width) (\<lambda>mem.
                   Inr (True, c\<lparr>cpu_memory := mem\<rparr>)))
            else Inr (True, c)))"

definition StoreInstruction :: "'w cpu \<Rightarrow> code \<Rightarrow> u32 \<Rightarrow> u32 \<Rightarrow> u32 \<Rightarrow> 'w cpu res" where
  "StoreInstruction c instruction rs1 rs2 imm12_stype =
     (let dst_address = cpu_reg c rs1 + scast imm12_stype
      in rbind (VirtualToPhysical c dst_address True) (\<lambda>(address, c).
         if cpu_page_fault c then Trap c STORE_PAGE_FAULT False
         else
          rbind (GetStoreWidth instruction) (\<lambda>width.
          rbind (store_parts c dst_address address (cpu_reg c rs2) width) (\<lambda>(stored, c).
          if stored
          then Inr (c\<lparr>cpu_peripheral := CheckDeviceWrite (cpu_peripheral c) address width (cpu_reg c rs2)\<rparr>)
          else Inr c))))"

section \<open>Atomic memory operations\<close>

definition amo_width :: "code \<Rightarrow> nat" where
  "amo_width instruction =
     (if instruction \<in> {INST_AMOADDD, INST_AMOANDD, INST_AMOMAXD, INST_AMOMAXUD, INST_AMOMIND, INST_AMOMINUD,
                         INST_AMOORD, INST_AMOXORD, INST_AMOSWAPD} then 8 else 4)"

definition smax :: "'a::len word \<Rightarrow> 'a word \<Rightarrow> 'a word" where
  "smax a b = (if sint b < sint a then a else b)"

definition smin :: "'a::len word \<Rightarrow> 'a word \<Rightarrow> 'a word" where
  "smin a b = (if sint a < sint b then a else b)"

definition umax :: "'a::len word \<Rightarrow> 'a word \<Rightarrow> 'a word" where
  "umax a b = (if b < a then a else b)"

definition umin :: "'a::len word \<Rightarrow> 'a word \<Rightarrow> 'a word" where
  "umin a b = (if a < b then a else b)"

definition amo_value :: "code \<Rightarrow> u64 \<Rightarrow> u64 \<Rightarrow> u64 res" where
  "amo_value instruction t b =
     (if instruction = INST_AMOADDD then Inr (t + b)
      else if instruction = INST_AMOADDW then Inr (SignExtend (t + b) 32)
      else if instruction = INST_AMOANDD then Inr (t AND b)
      else if instruction = INST_AMOANDW then Inr (SignExtend (t AND b) 32)
      else if instruction = INST_AMOMAXD then Inr (smax t b)
      else if instruction = INST_AMOMAXW then
        Inr (SignExtend (scast (smax (ucast (SignExtend t 32)) (ucast (SignExtend b 32)) :: u32)) 32)
      else if instruction = INST_AMOMAXUD then Inr (umax t b)
      else if instruction = INST_AMOMAXUW then Inr (SignExtend (ucast (umax (ucast t) (ucast b) :: u32)) 32)
      else if instruction = INST_AMOMIND then Inr (smin t b)
      else if instruction = INST_AMOMINW then
        Inr (SignExtend (scast (smin (ucast (SignExtend t 32)) (ucast (SignExtend b 32)) :: u32)) 32)
      else if instruction = INST_AMOMINUD then Inr (umin t b)
      else if instruction = INST_AMOMINUW then Inr (SignExtend (ucast (umin (ucast t) (ucast b) :: u32)) 32)
      else if instruction = INST_AMOORD then Inr (t OR b)
      else if instruction = INST_AMOORW then Inr (SignExtend (t OR b) 32)
      else if instruction = INST_AMOXORD then Inr (t XOR b)
      else if instruction = INST_AMOXORW then Inr (SignExtend (t XOR b) 32)
      else if instruction = INST_AMOSWAPD \<or> instruction = INST_AMOSWAPW then Inr b
      else Inl Assertion)"

definition AmoInstruction :: "'w cpu \<Rightarrow> code \<Rightarrow> u32 \<Rightarrow> u32 \<Rightarrow> u32 \<Rightarrow> 'w cpu res" where
  "AmoInstruction c instruction rd rs1 rs2 =
     (let virtual_address = cpu_reg c rs1; word_width = amo_width instruction
      in rbind (VirtualToPhysical c virtual_address False) (\<lambda>(physical_address, c).
         rbind (LoadWd (cpu_memory c) physical_address word_width) (\<lambda>t.
         let t = (if word_width = 4 then SignExtend t 32 else t)
         in rbind (amo_value instruction t (cpu_reg c rs2)) (\<lambda>new_value.
            rbind (VirtualToPhysical c virtual_address True) (\<lambda>(physical_address, c).
            rbind (StoreWd (cpu_memory c) physical_address new_value word_width) (\<lambda>mem.
            Inr (set_reg rd t (c\<lparr>cpu_memory := mem\<rparr>))))))))"

end
