(* ===== verification/Cpu_Run.thy ===== *)
theory Cpu_Run
  imports Cpu_Mem
begin

text \<open>
  The fetch, decode and execute loop of \<open>RiscvCpu::RunCpu\<close>: the \<open>SYSTEM\<close> instruction, the dispatch
  on the decoded instruction, one iteration of the loop, and the loop.  The loop need not end: it is
  a partial function, and \<open>run_fuel\<close> is the same loop cut off after a number of iterations.
\<close>

section \<open>System instructions\<close>

definition SystemCall :: "'w host \<Rightarrow> 'w cpu \<Rightarrow> ((bool \<times> bool) \<times> 'w cpu) res" where
  "SystemCall h c =
     rbind (SystemCallEmulation h
              \<lparr>sy_reg = cpu_reg c, sy_mem = cpu_memory c, sy_brk = cpu_brk c,
               sy_openHandles = cpu_openHandles c, sy_world = cpu_world c\<rparr> (cpu_top c)) (\<lambda>(flags, s).
     Inr (flags, c\<lparr>cpu_reg := sy_reg s, cpu_memory := sy_mem s, cpu_brk := sy_brk s,
                   cpu_openHandles := sy_openHandles s, cpu_world := sy_world s\<rparr>))"

definition SystemInstruction :: "'w host \<Rightarrow> 'w cpu \<Rightarrow> u32 \<Rightarrow> u32 \<Rightarrow> 'w cpu res" where
  "SystemInstruction h c rd imm =
     (if imm = 0b000000000000 then
        if cpu_ecall_emulation c then
          rbind (SystemCall h c) (\<lambda>((error_flag, end_flag), c).
          Inr (c\<lparr>cpu_error_flag := error_flag, cpu_end_flag := end_flag\<rparr>))
        else Ecall c
      else if imm = 0b000000000001 then Inr c
      else if imm = 0b001100000010 then Mret c
      else if imm = 0b000100000010 then Sret c
      else if signed_drop_bit 5 imm = 0b0001001 \<and> rd = 0 then Inr c
      else Inr (c\<lparr>cpu_error_flag := True\<rparr>))"

section \<open>Dispatch\<close>

text \<open>The operands of an instruction, after decoding.\<close>

definition is_operation :: "code \<Rightarrow> bool" where
  "is_operation i \<longleftrightarrow> i \<in> {INST_ADD, INST_ADDW, INST_AND, INST_SUB, INST_SUBW, INST_OR, INST_XOR, INST_SLL, INST_SLLW,
     INST_SRL, INST_SRLW, INST_SRA, INST_SRAW}"

definition is_immediate :: "code \<Rightarrow> bool" where
  "is_immediate i \<longleftrightarrow> i \<in> {INST_ADDI, INST_ADDIW, INST_ANDI, INST_ORI, INST_XORI}"

definition is_shift_immediate :: "code \<Rightarrow> bool" where
  "is_shift_immediate i \<longleftrightarrow> i \<in> {INST_SLLI, INST_SLLIW, INST_SRLI, INST_SRLIW, INST_SRAI, INST_SRAIW}"

definition is_branch :: "code \<Rightarrow> bool" where
  "is_branch i \<longleftrightarrow> i \<in> {INST_BEQ, INST_BGE, INST_BGEU, INST_BLT, INST_BLTU, INST_BNE}"

definition is_load :: "code \<Rightarrow> bool" where
  "is_load i \<longleftrightarrow> i \<in> {INST_LB, INST_LBU, INST_LH, INST_LHU, INST_LW, INST_LWU, INST_LD}"

definition is_store :: "code \<Rightarrow> bool" where
  "is_store i \<longleftrightarrow> i \<in> {INST_SB, INST_SH, INST_SW, INST_SD}"

definition is_csr :: "code \<Rightarrow> bool" where
  "is_csr i \<longleftrightarrow> i \<in> {INST_CSRRC, INST_CSRRCI, INST_CSRRS, INST_CSRRSI, INST_CSRRW, INST_CSRRWI}"

definition is_mult :: "code \<Rightarrow> bool" where
  "is_mult i \<longleftrightarrow> i \<in> {INST_MUL, INST_MULH, INST_MULHSU, INST_MULHU, INST_MULW, INST_DIV, INST_DIVU, INST_DIVUW, INST_DIVW,
     INST_REM, INST_REMU, INST_REMUW, INST_REMW}"

definition is_amo :: "code \<Rightarrow> bool" where
  "is_amo i \<longleftrightarrow> i \<in> {INST_AMOADDD, INST_AMOADDW, INST_AMOANDD, INST_AMOANDW, INST_AMOMAXD, INST_AMOMAXW, INST_AMOMAXUD,
     INST_AMOMAXUW, INST_AMOMIND, INST_AMOMINW, INST_AMOMINUD, INST_AMOMINUW, INST_AMOORD, INST_AMOORW, INST_AMOXORD,
     INST_AMOXORW, INST_AMOSWAPD, INST_AMOSWAPW}"

definition compare_value :: "code \<Rightarrow> u64 \<Rightarrow> u64 \<Rightarrow> u64 \<Rightarrow> u64" where
  "compare_value i a b imm =
     (if i = INST_SLT then of_bool (sint a < sint b)
      else if i = INST_SLTU then of_bool (a < b)
      else if i = INST_SLTI then of_bool (sint a < sint imm)
      else of_bool (a < imm))"

definition JalInstruction :: "'w cpu \<Rightarrow> u32 \<Rightarrow> u32 \<Rightarrow> 'w cpu" where
  "JalInstruction c rd imm =
     (let c = set_reg rd (cpu_next_pc c) c;
          c = c\<lparr>cpu_next_pc := cpu_pc c + scast imm\<rparr>
      in if cpu_next_pc c = cpu_pc c then c\<lparr>cpu_error_flag := True\<rparr> else c)"

definition JalrInstruction :: "'w cpu \<Rightarrow> u32 \<Rightarrow> u32 \<Rightarrow> u32 \<Rightarrow> 'w cpu" where
  "JalrInstruction c rd rs1 imm =
     (let t = cpu_next_pc c;
          c = c\<lparr>cpu_next_pc := (cpu_reg c rs1 + scast imm) AND NOT 1\<rparr>;
          c = set_reg rd t c
      in if rd = ZERO \<and> rs1 = RA \<and> cpu_reg c rs1 = 0 \<and> imm = 0 then c\<lparr>cpu_end_flag := True\<rparr> else c)"

definition upper_value :: "'w cpu \<Rightarrow> code \<Rightarrow> u32 \<Rightarrow> u64" where
  "upper_value c i imm =
     (let temp64 = (if i = INST_LUI then scast imm else cpu_pc c + scast imm)
      in if cpu_xlen c = 32 then Sext32bit temp64 else temp64)"

definition execute :: "'w host \<Rightarrow> 'w cpu \<Rightarrow> code \<Rightarrow> u32 \<Rightarrow> u32 \<Rightarrow> u32 \<Rightarrow> u32 \<Rightarrow> u32 \<Rightarrow> 'w cpu res" where
  "execute h c instruction rd rs1 rs2 imm csr =
     (if is_operation instruction then OperationInstruction c instruction rd rs1 rs2
      else if is_immediate instruction then ImmediateInstruction c instruction rd rs1 imm
      else if is_shift_immediate instruction then ImmediateShiftInstruction c instruction rd rs1 imm
      else if instruction \<in> {INST_SLT, INST_SLTU, INST_SLTI, INST_SLTIU} then
        Inr (set_reg rd (compare_value instruction (cpu_reg c rs1) (cpu_reg c rs2) (scast imm)) c)
      else if is_branch instruction then
        Inr (c\<lparr>cpu_next_pc := BranchInstruction c instruction rs1 rs2 imm\<rparr>)
      else if instruction = INST_JAL then Inr (JalInstruction c rd imm)
      else if instruction = INST_JALR then Inr (JalrInstruction c rd rs1 imm)
      else if is_load instruction then LoadInstruction c instruction rd rs1 imm
      else if is_store instruction then StoreInstruction c instruction rs1 rs2 imm
      else if instruction = INST_LUI \<or> instruction = INST_AUIPC then
        Inr (set_reg rd (upper_value c instruction imm) c)
      else if instruction = INST_SYSTEM then SystemInstruction h c rd imm
      else if is_csr instruction then Inr (CsrsInstruction c instruction csr rd rs1)
      else if instruction = INST_FENCE \<or> instruction = INST_FENCEI then Inr c
      else if is_mult instruction then MultInstruction c instruction rd rs1 rs2
      else if is_amo instruction then AmoInstruction c instruction rd rs1 rs2
      else Inr (c\<lparr>cpu_error_flag := True\<rparr>))"

section \<open>The loop\<close>

text \<open>Decode the fetched word and execute it.\<close>

definition decode_execute :: "'w host \<Rightarrow> 'w cpu \<Rightarrow> 'w cpu res" where
  "decode_execute h c =
     (let ir = cpu_ir c; c = c\<lparr>cpu_ctype := ir AND 0b11 \<noteq> 0b11\<rparr>
      in if \<not> cpu_ctype c then
           execute h (c\<lparr>cpu_next_pc := cpu_pc c + 4\<rparr>) (GetCode32 ir) (GetRd ir) (GetRs1 ir) (GetRs2 ir) (GetImm ir) (GetCsr ir)
         else
          let d = GetCode16 ir (cpu_mxl c)
          in execute h (c\<lparr>cpu_next_pc := cpu_pc c + 2\<rparr>) (d_instruction d) (d_rd d) (d_rs1 d) (d_rs2 d) (d_imm d) (GetCsr ir))"

text \<open>The end of an iteration: infinite loop detection, \<open>x0\<close>, and the peripherals.\<close>

definition finish_step :: "'w host \<Rightarrow> 'w cpu \<Rightarrow> 'w cpu res" where
  "finish_step h c =
     (let c = (if cpu_pc c = cpu_next_pc c then c\<lparr>cpu_error_flag := True\<rparr> else c);
          c = set_reg ZERO 0 c
      in if cpu_host_emulation c \<or> cpu_peripheral_emulation c then PeripheralEmulations h c else Inr c)"

definition fetch_execute :: "'w host \<Rightarrow> 'w cpu \<Rightarrow> 'w cpu res" where
  "fetch_execute h c =
     rbind (LoadCmd c (cpu_pc c)) (\<lambda>(ir, c).
     let c = c\<lparr>cpu_ir := ir\<rparr>
     in if cpu_page_fault c then Trap c INSTRUCTION_PAGE_FAULT False
        else rbind (decode_execute h c) (finish_step h))"

definition step :: "'w host \<Rightarrow> 'w cpu \<Rightarrow> 'w cpu res" where
  "step h c =
     rbind (TimerTick (c\<lparr>cpu_pc := cpu_next_pc c\<rparr>)) (\<lambda>c.
     rbind (CheckPendingInterrupt (InterruptCheck c)) (\<lambda>(trapped, c).
     if trapped then Inr c else fetch_execute h c))"

definition running :: "'w cpu \<Rightarrow> bool" where
  "running c \<longleftrightarrow> \<not> cpu_error_flag c \<and> \<not> cpu_end_flag c"

partial_function (option) run_loop :: "'w host \<Rightarrow> 'w cpu \<Rightarrow> 'w cpu res option" where
  "run_loop h c =
     (case step h c of
        Inl e \<Rightarrow> Some (Inl e)
      | Inr c' \<Rightarrow> if running c' then run_loop h c' else Some (Inr c'))"

definition start_cpu :: "'w cpu \<Rightarrow> u64 \<Rightarrow> 'w cpu" where
  "start_cpu c start_pc = c\<lparr>cpu_error_flag := False, cpu_end_flag := False, cpu_next_pc := start_pc\<rparr>"

text \<open>\<open>None\<close> when the loop does not end.\<close>

definition RunCpu :: "'w host \<Rightarrow> 'w cpu \<Rightarrow> u64 \<Rightarrow> (bool \<times> 'w cpu) res option" where
  "RunCpu h c start_pc =
     map_option (\<lambda>r. rbind r (\<lambda>c. Inr (cpu_error_flag c, c))) (run_loop h (start_cpu c start_pc))"

section \<open>Bounded execution\<close>

fun run_fuel :: "'w host \<Rightarrow> nat \<Rightarrow> 'w cpu \<Rightarrow> 'w cpu res option" where
  "run_fuel h 0 c = None"
| "run_fuel h (Suc n) c =
     (case step h c of
        Inl e \<Rightarrow> Some (Inl e)
      | Inr c' \<Rightarrow> if running c' then run_fuel h n c' else Some (Inr c'))"

lemma run_fuel_mono: "run_fuel h n c = Some r \<Longrightarrow> n \<le> m \<Longrightarrow> run_fuel h m c = Some r"
proof (induction h n c arbitrary: m rule: run_fuel.induct)
  case (2 h n c)
  then obtain m' where "m = Suc m'" "n \<le> m'" by (cases m) auto
  with 2 show ?case by (auto split: sum.splits if_splits)
qed simp

lemma run_fuel_loop: "run_fuel h n c = Some r \<Longrightarrow> run_loop h c = Some r"
proof (induction h n c rule: run_fuel.induct)
  case (2 h n c)
  then show ?case by (subst run_loop.simps) (auto split: sum.splits if_splits)
qed simp

lemma run_loop_fuel: "run_loop h c = Some r \<Longrightarrow> \<exists>n. run_fuel h n c = Some r"
proof (induction h c r rule: run_loop.raw_induct [rotated 1, consumes 1])
  case (1 run_loop h c r)
  show ?case
  proof (cases "step h c")
    case (Inl e)
    with 1(2) have "r = Inl e" by simp
    with Inl show ?thesis by (intro exI [of _ "Suc 0"]) simp
  next
    case (Inr c')
    show ?thesis
    proof (cases "running c'")
      case True
      with 1(2) Inr have "run_loop h c' = Some r" by simp
      with 1(1) obtain n where "run_fuel h n c' = Some r" by blast
      with Inr True show ?thesis by (intro exI [of _ "Suc n"]) simp
    next
      case False
      with 1(2) Inr have "r = Inr c'" by simp
      with Inr False show ?thesis by (intro exI [of _ "Suc 0"]) simp
    qed
  qed
qed

lemma run_loop_iff: "run_loop h c = Some r \<longleftrightarrow> (\<exists>n. run_fuel h n c = Some r)"
  using run_fuel_loop run_loop_fuel by blast

end
