(* ===== verification/Front_End.thy ===== *)
theory Front_End
  imports Elf Cpu_Run
begin

text \<open>
  The main program \<open>RISCV_Emulator.cc\<close>: command line, default page tables, and the set-up and run of the
  emulator.  The command line is the list \<open>argv\<close> of strings, the first of which is the name of the program; the
  contents of files are a function \<open>file\<close> from names, the empty list for a file that cannot be opened.
\<close>

section \<open>Command line\<close>

record options =
  opt_error :: bool
  opt_filename :: string
  opt_verbose :: bool
  opt_address64bit :: bool
  opt_paging :: bool
  opt_ecall_emulation :: bool
  opt_host_emulation :: bool
  opt_device_enable :: bool
  opt_disable_machine_interrupt_delegation :: bool
  opt_diskimage_file :: string

text \<open>A character of a C string; the string ends with a null character.\<close>

definition arg_char :: "string \<Rightarrow> nat \<Rightarrow> char" where
  "arg_char s i = (if i < length s then s ! i else CHR 0x00)"

definition no_options :: options where
  "no_options =
     \<lparr>opt_error = False, opt_filename = [], opt_verbose = False, opt_address64bit = False, opt_paging = False,
      opt_ecall_emulation = False, opt_host_emulation = False, opt_device_enable = False,
      opt_disable_machine_interrupt_delegation = False, opt_diskimage_file = []\<rparr>"

fun parse_args :: "string list \<Rightarrow> options \<Rightarrow> options" where
  "parse_args [] opts = opts"
| "parse_args (a # as) opts =
     (if opt_error opts then opts
      else if arg_char a 0 = CHR ''-'' then
        if arg_char a 1 = CHR ''v'' then parse_args as (opts\<lparr>opt_verbose := True\<rparr>)
        else if arg_char a 1 = CHR ''6'' \<and> arg_char a 2 = CHR ''4'' then parse_args as (opts\<lparr>opt_address64bit := True\<rparr>)
        else if arg_char a 1 = CHR ''p'' then parse_args as (opts\<lparr>opt_paging := True\<rparr>)
        else if arg_char a 1 = CHR ''e'' then parse_args as (opts\<lparr>opt_ecall_emulation := True\<rparr>)
        else if arg_char a 1 = CHR ''h'' then parse_args as (opts\<lparr>opt_host_emulation := True\<rparr>)
        else if arg_char a 1 = CHR ''d'' then parse_args as (opts\<lparr>opt_device_enable := True\<rparr>)
        else if arg_char a 1 = CHR ''m'' then parse_args as (opts\<lparr>opt_disable_machine_interrupt_delegation := True\<rparr>)
        else if arg_char a 1 = CHR ''s'' then
          (case as of
             [] \<Rightarrow> opts\<lparr>opt_error := True\<rparr>
           | b # bs \<Rightarrow> parse_args bs (opts\<lparr>opt_diskimage_file := b\<rparr>))
        else opts\<lparr>opt_error := True\<rparr>
      else if opt_filename opts = [] then parse_args as (opts\<lparr>opt_filename := a\<rparr>)
      else opts\<lparr>opt_error := True\<rparr>)"

definition ParseCmd :: "string list \<Rightarrow> options" where
  "ParseCmd argv = (if length argv < 2 then no_options\<lparr>opt_error := True\<rparr> else parse_args (tl argv) no_options)"

section \<open>Default page tables\<close>

definition k32BitMmuLevel1 :: u32 where "k32BitMmuLevel1 = 0xC0000000"

definition k32BitMmuLevel0 :: u32 where "k32BitMmuLevel0 = k32BitMmuLevel1 + push_bit 10 1 * 4"

definition k64BitMmuLevel2 :: u64 where "k64BitMmuLevel2 = 0xC0000000"

definition k64BitMmuLevel1 :: u64 where "k64BitMmuLevel1 = k64BitMmuLevel2 + push_bit 9 1 * 8"

definition k64BitMmuLevel0 :: u64 where "k64BitMmuLevel0 = k64BitMmuLevel1 + 4 * push_bit 9 1 * 8"

text \<open>One entry: the page number is replaced in the running entry, which is then written.\<close>

definition put_pte32 :: "u32 \<times> memory \<Rightarrow> u32 \<Rightarrow> u32 \<Rightarrow> (u32 \<times> memory) res" where
  "put_pte32 s address ppn =
     (case s of (pte, memory) \<Rightarrow>
       let pte = Pte32_SetPpn pte ppn
       in rbind (Write32 memory (ucast address) pte) (\<lambda>memory. Inr (pte, memory)))"

definition SetDefaultMmuTable32 :: "memory \<Rightarrow> memory res" where
  "SetDefaultMmuTable32 memory =
     (let level1 = k32BitMmuLevel1; level0 = k32BitMmuLevel0; pte = Pte32_SetV 0 1
      in rbind (rfold (\<lambda>s i. put_pte32 s (level1 + of_nat i * 4) (drop_bit 12 (level0 + of_nat (i * 1024 * 4))))
            (pte, memory) [0..<1024]) (\<lambda>(pte, memory).
         let pte = Pte32_SetR (Pte32_SetW (Pte32_SetX pte 1) 1) 1
         in rbind (rfold (\<lambda>s j. rfold (\<lambda>s i.
                     let ppn = of_nat (j * 1024 + i); address = level0 + ppn * 4
                     in rbind (assert_that (address < level1 \<or> level1 + 1024 * 4 \<le> address)) (\<lambda>_.
                        put_pte32 s address ppn)) s [0..<1024])
               (pte, memory) [0..<1024]) (\<lambda>(pte, memory).
            Inr memory)))"

text \<open>The 64-bit tables are written with a \<open>Pte32\<close> too; its value is zero-extended.\<close>

definition put_pte64 :: "u32 \<times> memory \<Rightarrow> u32 \<Rightarrow> u64 \<Rightarrow> (u32 \<times> memory) res" where
  "put_pte64 s address ppn =
     (case s of (pte, memory) \<Rightarrow>
       let pte = Pte32_SetPpn pte (ucast ppn)
       in rbind (Write64 memory (ucast address) (ucast pte)) (\<lambda>memory. Inr (pte, memory)))"

definition SetDefaultMmuTable64 :: "memory \<Rightarrow> memory res" where
  "SetDefaultMmuTable64 memory =
     (let level2 = k64BitMmuLevel2; level1 = k64BitMmuLevel1; level0 = k64BitMmuLevel0
      in rbind (rfold (\<lambda>(pte, memory) i.
            let address = ucast (level2 + of_nat i * 8)
            in if i < 4 then put_pte64 (Pte32_SetV pte 1, memory) address (drop_bit 12 (level1 + of_nat i * 512 * 8))
               else put_pte64 (pte, memory) address 0)
            (0, memory) [0..<512]) (\<lambda>(pte, memory).
         let pte = Pte32_SetV pte 1
         in rbind (rfold (\<lambda>s j. rfold (\<lambda>s i.
                     put_pte64 s (ucast (level1 + of_nat j * 512 * 8 + of_nat i * 8))
                       (drop_bit 12 (level0 + of_nat j * 512 * 512 * 8 + of_nat i * 512 * 8))) s [0..<512])
               (pte, memory) [0..<4]) (\<lambda>(pte, memory).
            let pte = Pte32_SetR (Pte32_SetW (Pte32_SetX pte 1) 1) 1
            in rbind (rfold (\<lambda>s k. rfold (\<lambda>s j. rfold (\<lambda>s i.
                        let ppn = of_nat k * 512 * 512 + of_nat j * 512 + of_nat i
                        in put_pte64 s (ucast (level0 + ppn * 8)) ppn) s [0..<512]) s [0..<512])
                  (pte, memory) [0..<4]) (\<lambda>(pte, memory).
               Inr memory))))"

definition SetDefaultMmuTable :: "bool \<Rightarrow> memory \<Rightarrow> memory res" where
  "SetDefaultMmuTable address64bit memory =
     (if address64bit then SetDefaultMmuTable64 memory else SetDefaultMmuTable32 memory)"

section \<open>The main program\<close>

definition kMaxBinarySize :: nat where "kMaxBinarySize = 1024 * 1024 * 1024"

text \<open>\<open>None\<close>: the program exits with status \<open>-1\<close>.\<close>

definition ReadFile :: "(string \<Rightarrow> u8 list) \<Rightarrow> string \<Rightarrow> u8 list option" where
  "ReadFile file filename =
     (let size = length (file filename) in if kMaxBinarySize < size \<or> size = 0 then None else Some (file filename))"

abbreviation (input) kTop :: u32 where "kTop \<equiv> 0x80000000"

abbreviation (input) kBottom :: u32 where "kBottom \<equiv> 0x40000000"

definition default_satp :: "bool \<Rightarrow> bool \<Rightarrow> u64" where
  "default_satp paging address64bit =
     (if paging then
        if address64bit then drop_bit 12 k64BitMmuLevel2 OR push_bit 60 8
        else ucast (drop_bit 12 k32BitMmuLevel1 OR push_bit 31 1)
      else 0)"

text \<open>The CPU when \<open>RunCpu\<close> is called.  \<open>raw\<close>, \<open>misa_shift\<close> and \<open>key_value\<close> are the uninitialised values that the constructors leave.\<close>

definition setup_cpu ::
  "options \<Rightarrow> 'w cpu \<Rightarrow> u32 \<Rightarrow> u32 \<Rightarrow> memory \<Rightarrow> u8 list option \<Rightarrow> u64 \<Rightarrow> 'w cpu res" where
  "setup_cpu opts raw misa_shift key_value memory disk_image global_pointer =
     (let cpu = RiscvCpu (opt_address64bit opts) raw misa_shift;
          cpu = SetEcallEmulationEnable cpu (opt_ecall_emulation opts)
      in rbind (SetRegister cpu SP (ucast kTop)) (\<lambda>cpu.
         rbind (SetRegister cpu GP global_pointer) (\<lambda>cpu.
         rbind (SetDefaultMmuTable (opt_address64bit opts) memory) (\<lambda>memory.
         rbind (SetCsr cpu SATP (default_satp (opt_paging opts) (opt_address64bit opts))) (\<lambda>cpu.
         let cpu = SetMemory cpu memory;
             cpu = SetWorkMemory cpu (ucast kTop) (ucast kBottom);
             cpu = SetHostEmulationEnable cpu (opt_host_emulation opts);
             cpu = SetDeviceEmulationEnable cpu (opt_device_enable opts);
             cpu = DisableMachineInterruptDelegation cpu (opt_disable_machine_interrupt_delegation opts)
         in rbind (DeviceInitialization cpu key_value) (\<lambda>cpu.
            Inr (cpu_SetDiskImage cpu disk_image)))))))"

text \<open>Entry point and global pointer of the program.\<close>

definition program_pointers :: "bool \<Rightarrow> u8 list \<Rightarrow> (u64 \<times> u64) res" where
  "program_pointers flag_64bit program =
     rbind (GetEntryPoint flag_64bit program) (\<lambda>entry.
     let entry_point = ucast (ucast entry :: u32)
     in rbind (GetGlobalPointer flag_64bit program) (\<lambda>global_pointer.
        Inr (entry_point, if global_pointer = - 1 then entry_point else global_pointer)))"

text \<open>No disk image is a null pointer; an unreadable one ends the program.\<close>

definition read_disk_image :: "(string \<Rightarrow> u8 list) \<Rightarrow> options \<Rightarrow> u8 list option option" where
  "read_disk_image file opts =
     (if opt_diskimage_file opts = [] then Some None else map_option Some (ReadFile file (opt_diskimage_file opts)))"

text \<open>The last part of \<open>run\<close>, from the loaded program on.\<close>

definition run_loaded ::
  "(string \<Rightarrow> u8 list) \<Rightarrow> 'w host \<Rightarrow> 'w cpu \<Rightarrow> u32 \<Rightarrow> u32 \<Rightarrow> options \<Rightarrow> u8 list \<Rightarrow> bool \<Rightarrow> memory \<Rightarrow> int res option" where
  "run_loaded file h raw misa_shift key_value opts program flag_64bit memory =
     (case program_pointers flag_64bit program of
        Inl e \<Rightarrow> Some (Inl e)
      | Inr (entry_point, global_pointer) \<Rightarrow>
          (case read_disk_image file opts of
             None \<Rightarrow> Some (Inr (- 1))
           | Some disk_image \<Rightarrow>
               (case setup_cpu opts raw misa_shift key_value memory disk_image global_pointer of
                  Inl e \<Rightarrow> Some (Inl e)
                | Inr cpu \<Rightarrow>
                    map_option (\<lambda>r. rbind r (\<lambda>(err, cpu). rbind (ReadRegister cpu A0) (\<lambda>v. Inr (sint (ucast v :: u32)))))
                      (RunCpu h cpu entry_point))))"

text \<open>The status that the process returns: \<open>None\<close> when it does not end.\<close>

definition run ::
  "(string \<Rightarrow> u8 list) \<Rightarrow> 'w host \<Rightarrow> 'w cpu \<Rightarrow> u32 \<Rightarrow> u32 \<Rightarrow> string list \<Rightarrow> int res option" where
  "run file h raw misa_shift key_value argv =
     (let opts = ParseCmd argv
      in if opt_error opts then Some (Inr (- 1))
         else case ReadFile file (opt_filename opts) of
           None \<Rightarrow> Some (Inr (- 1))
         | Some program \<Rightarrow>
             (case LoadElfFile program MemoryWrapper of
                None \<Rightarrow> None
              | Some (Inl e) \<Rightarrow> Some (Inl e)
              | Some (Inr (flag_64bit, memory)) \<Rightarrow>
                  run_loaded file h raw misa_shift key_value opts program flag_64bit memory))"

end
