(* ===== verification/Page_Tables.thy ===== *)
theory Page_Tables
  imports Front_End
begin

text \<open>
  The default page tables: what \<open>SetDefaultMmuTable\<close> leaves in memory maps every 32-bit address to itself, and keeps doing so
  while translation sets accessed and dirty bits.
\<close>

section \<open>Tables of entries\<close>

definition table_bytes :: "nat \<Rightarrow> (nat \<Rightarrow> u64) \<Rightarrow> nat \<Rightarrow> u8 list" where
  "table_bytes w e n = concat (map (\<lambda>i. le_bytes (e i) w) [0..<n])"

lemma table_bytes_Suc: "table_bytes w e (Suc n) = table_bytes w e n @ le_bytes (e n) w"
  by (simp add: table_bytes_def)

lemma length_table_bytes [simp]: "length (table_bytes w e n) = w * n"
  by (induction n) (simp_all add: table_bytes_def)

lemma nth_table_bytes: "k < n \<Longrightarrow> j < w \<Longrightarrow> table_bytes w e n ! (w * k + j) = le_bytes (e k) w ! j"
proof (induction n)
  case (Suc n)
  have "w * k + j < w * n" if "k < n"
  proof -
    have "w * k + j < w * Suc k" using Suc(3) by simp
    also have "\<dots> \<le> w * n" using that by (intro mult_le_mono2) simp
    finally show ?thesis .
  qed
  with Suc show ?case by (cases "k = n") (auto simp: table_bytes_Suc nth_append)
qed simp

lemma read_table:
  assumes "w * n \<le> 2 ^ 32" "k < n"
  shows "read_bytes (write_bytes f a (table_bytes w e n)) (a + of_nat (w * k)) w = le_bytes (e k) w"
proof (rule nth_equalityI)
  fix j
  assume "j < length (read_bytes (write_bytes f a (table_bytes w e n)) (a + of_nat (w * k)) w)"
  then have j: "j < w" by simp
  have "w * k + j < w * Suc k" using j by simp
  also have "\<dots> \<le> w * n" using assms(2) by (intro mult_le_mono2) simp
  finally have l: "w * k + j < w * n" .
  have e: "a + of_nat (w * k) + of_nat j - a = (of_nat (w * k + j) :: u32)" by simp
  have u: "unat (of_nat (w * k + j) :: u32) = w * k + j" by (rule unat_of_nat_small) (use assms l in simp)
  show "read_bytes (write_bytes f a (table_bytes w e n)) (a + of_nat (w * k)) w ! j = le_bytes (e k) w ! j"
    using l nth_table_bytes [OF assms(2) j] unfolding nth_read_bytes [OF j] write_bytes_def e u by simp
qed simp

lemma read_bytes_other:
  assumes "\<And>j. j < n \<Longrightarrow> length bs \<le> unat (b + of_nat j - a)"
  shows "read_bytes (write_bytes f a bs) b n = read_bytes f b n"
  by (rule nth_equalityI) (simp_all add: write_bytes_other assms)

text \<open>A loop that writes the entries of a table in order.\<close>

lemma table_loop:
  assumes body: "\<And>i s m. i < n \<Longrightarrow> I i s \<Longrightarrow> mem_wf m \<Longrightarrow> \<exists>s' m'. F (s, m) i = Inr (s', m') \<and> I (Suc i) s' \<and> mem_wf m' \<and>
      mem_abs m' = write_bytes (mem_abs m) (base + of_nat (w * i)) (le_bytes (e i) w)"
    and start: "I 0 s" "mem_wf m" "w * n \<le> 2 ^ 32"
  shows "\<exists>s' m'. rfold F (s, m) [0..<n] = Inr (s', m') \<and> I n s' \<and> mem_wf m' \<and>
    mem_abs m' = write_bytes (mem_abs m) base (table_bytes w e n)"
proof -
  let ?P = "\<lambda>i (s', m'). I i s' \<and> mem_wf m' \<and> mem_abs m' = write_bytes (mem_abs m) base (table_bytes w e i)"
  have "\<exists>r. rfold F (s, m) [0..<n] = Inr r \<and> ?P n r"
  proof (rule rfold_upt_inv)
    show "?P 0 (s, m)" using start by (simp add: table_bytes_def)
    fix i acc
    assume i: "i < n" and "?P i acc"
    then obtain s1 m1 where p: "acc = (s1, m1)" "I i s1" "mem_wf m1" "mem_abs m1 = write_bytes (mem_abs m) base (table_bytes w e i)"
      by (cases acc) auto
    obtain s2 m2 where q: "F (s1, m1) i = Inr (s2, m2)" "I (Suc i) s2" "mem_wf m2"
        "mem_abs m2 = write_bytes (mem_abs m1) (base + of_nat (w * i)) (le_bytes (e i) w)"
      using body [OF i p(2,3)] by blast
    have "w * Suc i \<le> w * n" using i by (intro mult_le_mono2) simp
    then have "length (table_bytes w e i) + length (le_bytes (e i) w) \<le> 2 ^ 32" using start(3) by simp
    from write_bytes_append [OF this, of "mem_abs m" base] have "mem_abs m2 = write_bytes (mem_abs m) base (table_bytes w e (Suc i))"
      by (simp add: q(4) p(4) table_bytes_Suc)
    with q show "\<exists>r. F acc i = Inr r \<and> ?P (Suc i) r" unfolding p(1) by auto
  qed
  then show ?thesis by auto
qed

text \<open>Nested loops over an index in mixed radix.\<close>

lemma rfold_map: "rfold f s (map g xs) = rfold (\<lambda>s x. f s (g x)) s xs"
  by (induction xs arbitrary: s) simp_all

lemma rfold_nested: "rfold (\<lambda>s j. rfold (\<lambda>s i. f s (j * n + i)) s [0..<n]) s [0..<k] = rfold f s [0..<k * n]"
proof (induction k)
  case (Suc k)
  have "[0..<Suc k * n] = [0..<k * n] @ map (\<lambda>i. k * n + i) [0..<n]"
    using upt_add_eq_append [of 0 "k * n" n] map_add_upt [of "k * n" n] by (simp add: add.commute)
  moreover have "rbind r Inr = r" for r :: "'a res" by (cases r) simp_all
  ultimately show ?case by (simp only: rfold_append rfold_map) (simp add: rfold_append Suc)
qed simp

section \<open>The entries\<close>

lemma SetPpn32: "take_bit 10 p = fl \<Longrightarrow> Pte32_SetPpn p v = fl OR push_bit 10 v"
  by (rule bit_word_eqI) (auto simp: Pte32_ppn_bits bit_simps)

lemma take_bit_pte: "take_bit 10 (fl :: u32) = fl \<Longrightarrow> take_bit 10 (fl OR push_bit 10 v) = fl"
proof (rule bit_word_eqI)
  fix n
  assume "take_bit 10 fl = fl" "n < LENGTH(32)"
  then have "bit fl n \<Longrightarrow> n < 10" by (metis bit_take_bit_iff)
  then show "bit (take_bit 10 (fl OR push_bit 10 v)) n = bit fl n" by (auto simp: bit_simps)
qed

lemma ucast_and32: "(ucast (a :: u32) :: u64) AND ucast (k :: u32) = ucast (a AND k)"
  by (rule bit_word_eqI) (auto simp: bit_simps)

lemma aligned_ucast: "(a :: u32) AND 3 = 0 \<Longrightarrow> (ucast a :: u64) AND 3 = 0" "(a :: u32) AND 7 = 0 \<Longrightarrow> (ucast a :: u64) AND 7 = 0"
  using ucast_and32 [of a 3] ucast_and32 [of a 7] by simp_all

lemma put_pte32_abs:
  assumes "take_bit 10 p = fl" "take_bit 10 fl = fl" "mem_wf m" "a AND 3 = 0"
  shows "\<exists>p' m'. put_pte32 (p, m) a v = Inr (p', m') \<and> take_bit 10 p' = fl \<and> mem_wf m' \<and>
    mem_abs m' = write_bytes (mem_abs m) a (le_bytes (ucast (fl OR push_bit 10 v)) 4)"
proof -
  obtain m' where m': "Write32 m (ucast a) (fl OR push_bit 10 v) = Inr m'" "mem_wf m'"
      "mem_abs m' = write_bytes (mem_abs m) (ucast (ucast a :: u64)) (le_bytes (ucast (fl OR push_bit 10 v)) 4)"
    by (rule Write32_abs [OF assms(3) aligned_ucast(1) [OF assms(4)]])
  then show ?thesis
    using take_bit_pte [OF assms(2), of v] by (simp add: put_pte32_def SetPpn32 [OF assms(1)] ucast_up_ucast)
qed

lemma put_pte64_abs:
  assumes "take_bit 10 p = fl" "take_bit 10 fl = fl" "mem_wf m" "a AND 7 = 0"
  shows "\<exists>p' m'. put_pte64 (p, m) a v = Inr (p', m') \<and> take_bit 10 p' = fl \<and> mem_wf m' \<and>
    mem_abs m' = write_bytes (mem_abs m) a (le_bytes (ucast (fl OR push_bit 10 (ucast v))) 8)"
proof -
  obtain m' where m': "Write64 m (ucast a) (ucast (fl OR push_bit 10 (ucast v))) = Inr m'" "mem_wf m'"
      "mem_abs m' = write_bytes (mem_abs m) (ucast (ucast a :: u64)) (le_bytes (ucast (fl OR push_bit 10 (ucast v))) 8)"
    by (rule Write64_abs [OF assms(3) aligned_ucast(2) [OF assms(4)]])
  then show ?thesis
    using take_bit_pte [OF assms(2), of "ucast v"] by (simp add: put_pte64_def SetPpn32 [OF assms(1)] ucast_up_ucast)
qed

lemma level_flags:
  "take_bit 10 (Pte32_SetV 0 1) = 1"
  "take_bit 10 p = 1 \<Longrightarrow> take_bit 10 (Pte32_SetR (Pte32_SetW (Pte32_SetX p 1) 1) 1) = 0xF"
  "take_bit 10 p \<in> {0, 1} \<Longrightarrow> take_bit 10 (Pte32_SetV p 1) = 1"
proof -
  have b: "bit (1 :: u32) n \<longleftrightarrow> n = 0" for n by (simp add: bit_1_iff)
  show "take_bit 10 (Pte32_SetV 0 1) = 1"
    by (simp add: Pte32_SetV_def SetBit_eq)
  show "take_bit 10 (Pte32_SetR (Pte32_SetW (Pte32_SetX p 1) 1) 1) = 0xF" if "take_bit 10 p = 1"
  proof -
    have "take_bit 10 (Pte32_SetR (Pte32_SetW (Pte32_SetX p 1) 1) 1) = mask 4"
    proof (rule bit_word_eqI)
      fix n
      have "bit (take_bit 10 p) n \<longleftrightarrow> n = 0" using that b by simp
      then show "bit (take_bit 10 (Pte32_SetR (Pte32_SetW (Pte32_SetX p 1) 1) 1)) n = bit (mask 4 :: u32) n" if "n < LENGTH(32)"
        using that by (auto simp: pte32_defs SetBit_eq bit_set_bit_iff bit_take_bit_iff bit_mask_iff)
    qed
    then show ?thesis by (simp add: mask_numeral)
  qed
  show "take_bit 10 (Pte32_SetV p 1) = 1" if "take_bit 10 p \<in> {0, 1}"
  proof (rule bit_word_eqI)
    fix n
    have "bit (take_bit 10 p) n \<Longrightarrow> n = 0" using that by (auto simp: b)
    then show "bit (take_bit 10 (Pte32_SetV p 1)) n = bit (1 :: u32) n" if "n < LENGTH(32)"
      using that by (auto simp: b Pte32_SetV_def SetBit_eq bit_set_bit_iff bit_take_bit_iff)
  qed
qed

section \<open>Tables that map addresses to themselves\<close>

definition inner_entry :: "paging \<Rightarrow> u64 \<Rightarrow> nat \<Rightarrow> bool" where
  "inner_entry c e q \<longleftrightarrow> bit e 0 \<and> \<not> bit e 1 \<and> \<not> bit e 2 \<and> \<not> bit e 3 \<and> pte_ppn c e = q"

definition leaf_entry :: "paging \<Rightarrow> u64 \<Rightarrow> nat \<Rightarrow> bool" where
  "leaf_entry c e q \<longleftrightarrow> bit e 0 \<and> bit e 1 \<and> pte_ppn c e = q"

definition identity32 :: "bytes \<Rightarrow> bool" where
  "identity32 f \<longleftrightarrow>
     (\<forall>i < 1024. inner_entry sv32 (read_pte sv32 f (0xC0000000 + 4 * i)) (0xC0001 + i)) \<and>
     (\<forall>p < 2 ^ 20. leaf_entry sv32 (read_pte sv32 f (0xC0001000 + 4 * p)) p)"

definition identity64 :: "bytes \<Rightarrow> bool" where
  "identity64 f \<longleftrightarrow>
     (\<forall>i < 4. inner_entry sv39 (read_pte sv39 f (0xC0000000 + 8 * i)) (0xC0001 + i)) \<and>
     (\<forall>i < 2048. inner_entry sv39 (read_pte sv39 f (0xC0001000 + 8 * i)) (0xC0005 + i)) \<and>
     (\<forall>p < 2 ^ 20. leaf_entry sv39 (read_pte sv39 f (0xC0005000 + 8 * p)) p)"

lemma entry_ppn:
  assumes "take_bit 10 (fl :: u32) = fl" "unat v < 2 ^ 22" "22 \<le> pg_ppn_bits c"
  shows "pte_ppn c (ucast (fl OR push_bit 10 v)) = unat v"
proof -
  have v: "take_bit 22 v = v" using assms(2) by (intro take_bit_less_self) (simp_all add: word_less_nat_alt)
  have "take_bit (pg_ppn_bits c) (drop_bit 10 (ucast (fl OR push_bit 10 v) :: u64)) = ucast v"
  proof (rule bit_word_eqI)
    fix n
    have "bit fl (10 + n) \<longleftrightarrow> False" using assms(1) by (metis bit_take_bit_iff not_add_less1)
    moreover have "bit v n \<Longrightarrow> n < 22" using v by (metis bit_take_bit_iff)
    ultimately show "bit (take_bit (pg_ppn_bits c) (drop_bit 10 (ucast (fl OR push_bit 10 v) :: u64))) n = bit (ucast v :: u64) n"
      if "n < LENGTH(64)" using that assms(3) by (auto simp: bit_simps)
  qed
  then show ?thesis by (simp add: pte_ppn_unat unat_ucast_up)
qed

lemma table_entries:
  assumes "unat v < 2 ^ 22" "22 \<le> pg_ppn_bits c"
  shows "inner_entry c (ucast ((1 :: u32) OR push_bit 10 v)) (unat v)" "leaf_entry c (ucast ((0xF :: u32) OR push_bit 10 v)) (unat v)"
proof -
  have f: "take_bit 10 (1 :: u32) = 1" "take_bit 10 (0xF :: u32) = 0xF" by simp_all
  show "inner_entry c (ucast ((1 :: u32) OR push_bit 10 v)) (unat v)"
    by (simp add: inner_entry_def entry_ppn [OF f(1) assms] bit_simps)
  show "leaf_entry c (ucast ((0xF :: u32) OR push_bit 10 v)) (unat v)"
    by (simp add: leaf_entry_def entry_ppn [OF f(2) assms] bit_simps)
qed

lemma leaf_mark: "leaf_entry c e q \<Longrightarrow> leaf_entry c (pte_mark wr e) q"
  by (auto simp: leaf_entry_def pte_ppn_unat pte_mark_ppn) (auto simp: pte_mark_def bit_set_bit_iff)

text \<open>Entries at different aligned addresses do not overlap.\<close>

lemma aligned_apart:
  assumes "a < 2 ^ 32" "b < 2 ^ 32" "w dvd a" "w dvd b" "w dvd (2 ^ 32 :: nat)" "a \<noteq> b" "j < w"
  shows "w \<le> unat (of_nat b + of_nat j - of_nat a :: u32)"
proof -
  have e: "of_nat b + of_nat j - of_nat a = (of_nat (2 ^ 32 + b + j - a) :: u32)"
    using assms(1) by (simp add: of_nat_diff)
  have d: "x + w \<le> y" if "w dvd x" "w dvd y" "x < y" for x y :: nat
  proof -
    from that obtain k l where kl: "x = w * k" "y = w * l" by (auto elim!: dvdE)
    with that(3) have "Suc k \<le> l" by (simp add: Suc_le_eq)
    then have "w * Suc k \<le> w * l" by (rule mult_le_mono2)
    with kl show ?thesis by simp
  qed
  show ?thesis
  proof (cases "a < b")
    case True
    then have "of_nat b + of_nat j - of_nat a = (of_nat (b + j - a) :: u32)" by (simp add: of_nat_diff)
    moreover have "b + j - a < 2 ^ LENGTH(32)" using d [OF assms(4,5,2)] assms(7) by simp
    ultimately have "unat (of_nat b + of_nat j - of_nat a :: u32) = b + j - a" by (simp only: unat_of_nat_small)
    with d [OF assms(3,4) True] show ?thesis by linarith
  next
    case False
    with assms(6) have "b < a" by simp
    have "2 ^ 32 + b + j - a < 2 ^ LENGTH(32)" using d [OF assms(4,3) \<open>b < a\<close>] assms(7) by simp
    then have "unat (of_nat b + of_nat j - of_nat a :: u32) = 2 ^ 32 + b + j - a" unfolding e by (rule unat_of_nat_small)
    with d [OF assms(3,5,1)] show ?thesis by linarith
  qed
qed

section \<open>Setting up the tables\<close>

lemma aligned_entry: "((base :: u32) AND 3 = 0) \<Longrightarrow> (base + of_nat i * 4) AND 3 = 0"
  by (simp add: and_literal_masks take_bit_eq_0_iff)

lemma aligned_entry64: "((base :: u32) AND 7 = 0) \<Longrightarrow> (base + of_nat i * 8) AND 7 = 0"
  by (simp add: and_literal_masks take_bit_eq_0_iff)

text \<open>Reading an entry of a table back, and reading beside a table.\<close>

lemma read_entry:
  assumes "w * n \<le> 2 ^ 32" "k < n" "pg_pte_bytes c = w" "w = 4 \<or> w = 8"
  shows "read_pte c (write_bytes f (of_nat a) (table_bytes w (\<lambda>i. ucast (e i :: u32)) n)) (a + w * k) = ucast (e k)"
proof -
  have "take_bit (8 * w) (ucast (e k) :: u64) = ucast (e k)"
    using assms(4) bit_imp_le_length [of "e k"] by (auto intro!: bit_word_eqI simp: bit_simps)
  then show ?thesis
    using read_table [OF assms(1,2), of f "of_nat a" "\<lambda>i. ucast (e i)"] assms(4)
    by (auto simp: read_pte_def assms(3) le_word_le_bytes)
qed

lemma read_bytes_apart:
  assumes "a + length bs \<le> b \<or> b + n \<le> a" "a + length bs \<le> 2 ^ 32" "b + n \<le> 2 ^ 32"
  shows "read_bytes (write_bytes f (of_nat a) bs) (of_nat b) n = read_bytes f (of_nat b) n"
proof (rule read_bytes_other)
  fix j
  assume j: "j < n"
  show "length bs \<le> unat (of_nat b + of_nat j - of_nat a :: u32)"
  proof (cases "a \<le> b + j")
    case True
    have "of_nat b + of_nat j - of_nat a = (of_nat (b + j - a) :: u32)" using True by (simp add: of_nat_diff)
    moreover have "b + j - a < 2 ^ LENGTH(32)" using assms(3) j by simp
    ultimately have "unat (of_nat b + of_nat j - of_nat a :: u32) = b + j - a" by (simp only: unat_of_nat_small)
    with assms(1) j True show ?thesis by linarith
  next
    case False
    have "of_nat b + of_nat j - of_nat a = (of_nat (2 ^ 32 + b + j - a) :: u32)" using assms(2) by (simp add: of_nat_diff)
    moreover have "2 ^ 32 + b + j - a < 2 ^ LENGTH(32)" using False by simp
    ultimately have "unat (of_nat b + of_nat j - of_nat a :: u32) = 2 ^ 32 + b + j - a" by (simp only: unat_of_nat_small)
    with assms(2) show ?thesis by linarith
  qed
qed

lemma read_apart:
  assumes "a + length bs \<le> b \<or> b + pg_pte_bytes c \<le> a" "a + length bs \<le> 2 ^ 32" "b + pg_pte_bytes c \<le> 2 ^ 32"
  shows "read_pte c (write_bytes f (of_nat a) bs) b = read_pte c f b"
  by (simp add: read_pte_def read_bytes_apart [OF assms])

lemma table_loop32:
  assumes "(base :: u32) AND 3 = 0" "take_bit 10 fl = fl" "take_bit 10 p = fl" "mem_wf m" "4 * n \<le> 2 ^ 32"
  shows "\<exists>p' m'. rfold (\<lambda>s i. put_pte32 s (base + of_nat i * 4) (g i)) (p, m) [0..<n] = Inr (p', m') \<and> take_bit 10 p' = fl \<and> mem_wf m' \<and>
    mem_abs m' = write_bytes (mem_abs m) base (table_bytes 4 (\<lambda>i. ucast (fl OR push_bit 10 (g i))) n)"
proof (rule table_loop [where I = "\<lambda>_ p. take_bit 10 p = fl"])
  fix i p m
  assume "take_bit 10 p = fl" "mem_wf m"
  from put_pte32_abs [OF this(1) assms(2) this(2) aligned_entry [OF assms(1), of i], of "g i"]
  show "\<exists>s' m'. put_pte32 (p, m) (base + of_nat i * 4) (g i) = Inr (s', m') \<and> take_bit 10 s' = fl \<and> mem_wf m' \<and>
      mem_abs m' = write_bytes (mem_abs m) (base + of_nat (4 * i)) (le_bytes (ucast (fl OR push_bit 10 (g i))) 4)"
    by (simp add: mult.commute)
qed (use assms in auto)

definition pointers32 :: "u8 list" where
  "pointers32 = table_bytes 4 (\<lambda>i. ucast (1 OR push_bit 10 (drop_bit 12 (k32BitMmuLevel0 + of_nat (i * 1024 * 4))))) 1024"

definition leaves32 :: "u8 list" where
  "leaves32 = table_bytes 4 (\<lambda>i. ucast ((0xF :: u32) OR push_bit 10 (of_nat i))) (1024 * 1024)"

lemma tables32_identity: "identity32 (write_bytes (write_bytes f 0xC0000000 pointers32) 0xC0001000 leaves32)" (is "identity32 ?f")
  unfolding identity32_def
proof (intro conjI allI impI)
  fix p :: nat
  assume p: "p < 2 ^ 20"
  then have "unat (of_nat p :: u32) = p" by (intro unat_of_nat_small) simp
  moreover have "read_pte sv32 ?f (0xC0001000 + 4 * p) = ucast ((0xF :: u32) OR push_bit 10 (of_nat p))"
    using read_entry [of 4 "1024 * 1024" p sv32 "write_bytes f 0xC0000000 pointers32" "0xC0001000"] p by (simp add: leaves32_def)
  ultimately show "leaf_entry sv32 (read_pte sv32 ?f (0xC0001000 + 4 * p)) p"
    using table_entries(2) [of "of_nat p" sv32] p by simp
next
  fix i :: nat
  assume i: "i < 1024"
  let ?g = "\<lambda>i. drop_bit 12 (k32BitMmuLevel0 + of_nat (i * 1024 * 4))"
  have "unat (0xC0001000 + of_nat (i * 1024 * 4) :: u32) = unat (of_nat (0xC0001000 + i * 4096) :: u32)" by (simp add: mult.commute)
  also have "\<dots> = 0xC0001000 + i * 4096" by (rule unat_of_nat_small) (use i in simp)
  finally have v: "unat (?g i) = 0xC0001 + i" by (simp add: k32BitMmuLevel0_def k32BitMmuLevel1_def drop_bit_eq_div unat_div)
  have "read_pte sv32 ?f (0xC0000000 + 4 * i) = read_pte sv32 (write_bytes f 0xC0000000 pointers32) (0xC0000000 + 4 * i)"
    using read_apart [of "0xC0001000" leaves32 "0xC0000000 + 4 * i" sv32 "write_bytes f 0xC0000000 pointers32"] i by (simp add: leaves32_def)
  also have "\<dots> = ucast (1 OR push_bit 10 (?g i))"
    using read_entry [of 4 1024 i sv32 f "0xC0000000" "\<lambda>i. 1 OR push_bit 10 (?g i)"] i by (simp add: pointers32_def)
  finally show "inner_entry sv32 (read_pte sv32 ?f (0xC0000000 + 4 * i)) (0xC0001 + i)"
    using table_entries(1) [of "?g i" sv32] v i by simp
qed

text \<open>The assertion of the inner loop, that the leaves lie beside the pointers, always holds.\<close>

lemma leaf_address_apart:
  assumes "j < 1024" "i < 1024"
  shows "assert_that (0xC0001000 + of_nat (j * 1024 + i) * 4 < (0xC0000000 :: u32) \<or> 0xC0001000 \<le> (0xC0001000 + of_nat (j * 1024 + i) * 4 :: u32)) = Inr ()"
proof -
  have l: "j * 1024 + i < 2 ^ 20" using assms by simp
  have "unat (0xC0001000 + of_nat (j * 1024 + i) * 4 :: u32) = unat (of_nat (0xC0001000 + (j * 1024 + i) * 4) :: u32)" by simp
  also have "\<dots> = 0xC0001000 + (j * 1024 + i) * 4" by (rule unat_of_nat_small) (use l in simp)
  finally show ?thesis by (simp add: word_le_nat_alt)
qed

lemma SetDefaultMmuTable32_identity:
  assumes "mem_wf m"
  shows "\<exists>m'. SetDefaultMmuTable32 m = Inr m' \<and> mem_wf m' \<and> identity32 (mem_abs m')"
proof -
  let ?g = "\<lambda>i. drop_bit 12 (k32BitMmuLevel0 + of_nat (i * 1024 * 4))"
  have b: "k32BitMmuLevel1 = 0xC0000000" "k32BitMmuLevel0 = 0xC0001000" by (simp_all add: k32BitMmuLevel1_def k32BitMmuLevel0_def)
  obtain p1 m1 where l1: "rfold (\<lambda>s i. put_pte32 s (k32BitMmuLevel1 + of_nat i * 4) (?g i)) (Pte32_SetV 0 1, m) [0..<1024] = Inr (p1, m1)"
      "take_bit 10 p1 = 1" "mem_wf m1" "mem_abs m1 = write_bytes (mem_abs m) 0xC0000000 pointers32"
    using table_loop32 [of "0xC0000000" 1 "Pte32_SetV 0 1" m 1024 ?g] assms level_flags(1) by (auto simp: b pointers32_def)
  let ?p = "Pte32_SetR (Pte32_SetW (Pte32_SetX p1 1) 1) 1"
  obtain p0 m0 where l0: "rfold (\<lambda>s i. put_pte32 s (0xC0001000 + of_nat i * 4) (of_nat i)) (?p, m1) [0..<1024 * 1024] = Inr (p0, m0)"
      "mem_wf m0" "mem_abs m0 = write_bytes (mem_abs m1) 0xC0001000 leaves32"
    using table_loop32 [of "0xC0001000" "0xF" ?p m1 "1024 * 1024" "\<lambda>i. of_nat i"] l1(3) level_flags(2) [OF l1(2)] by (auto simp: leaves32_def)
  have nest: "rfold (\<lambda>s j. rfold (\<lambda>s i.
        let ppn = of_nat (j * 1024 + i); address = k32BitMmuLevel0 + ppn * 4
        in rbind (assert_that (address < k32BitMmuLevel1 \<or> k32BitMmuLevel1 + 1024 * 4 \<le> address)) (\<lambda>_. put_pte32 s address ppn)) s [0..<1024])
      (?p, m1) [0..<1024] = Inr (p0, m0)"
    unfolding l0(1) [symmetric] rfold_nested [of "\<lambda>s i. put_pte32 s (0xC0001000 + of_nat i * 4) (of_nat i)", symmetric]
    by (intro rfold_cong_set) (simp add: b Let_def leaf_address_apart del: of_nat_add of_nat_mult)
  have "SetDefaultMmuTable32 m = Inr m0"
    unfolding SetDefaultMmuTable32_def Let_def l1(1) rbind_Inr prod.case nest [unfolded Let_def] by simp
  with l0 l1(4) tables32_identity [of "mem_abs m"] show ?thesis by simp
qed

lemma table_loop64:
  assumes "(base :: u32) AND 7 = 0" "take_bit 10 fl = fl" "take_bit 10 p = fl" "mem_wf m" "8 * n \<le> 2 ^ 32"
    and adr: "\<And>i. i < n \<Longrightarrow> a i = base + of_nat i * 8"
  shows "\<exists>p' m'. rfold (\<lambda>s i. put_pte64 s (a i) (g i)) (p, m) [0..<n] = Inr (p', m') \<and> take_bit 10 p' = fl \<and> mem_wf m' \<and>
    mem_abs m' = write_bytes (mem_abs m) base (table_bytes 8 (\<lambda>i. ucast (fl OR push_bit 10 (ucast (g i)))) n)"
proof (rule table_loop [where I = "\<lambda>_ p. take_bit 10 p = fl"])
  fix i p m
  assume i: "i < n" and "take_bit 10 p = fl" "mem_wf m"
  from put_pte64_abs [OF this(2) assms(2) this(3) aligned_entry64 [OF assms(1), of i], of "g i"]
  show "\<exists>s' m'. put_pte64 (p, m) (a i) (g i) = Inr (s', m') \<and> take_bit 10 s' = fl \<and> mem_wf m' \<and>
      mem_abs m' = write_bytes (mem_abs m) (base + of_nat (8 * i)) (le_bytes (ucast (fl OR push_bit 10 (ucast (g i)))) 8)"
    by (simp add: adr [OF i] mult.commute)
qed (use assms in auto)

text \<open>The root table: from the second entry on, the valid bit is set already.\<close>

lemma root_loop64:
  assumes "mem_wf m"
  defines "g \<equiv> \<lambda>i :: nat. if i < 4 then drop_bit 12 (k64BitMmuLevel1 + of_nat i * 512 * 8) else 0"
  shows "\<exists>p' m'. rfold (\<lambda>(pte, memory) i.
            let address = ucast (k64BitMmuLevel2 + of_nat i * 8)
            in if i < 4 then put_pte64 (Pte32_SetV pte 1, memory) address (drop_bit 12 (k64BitMmuLevel1 + of_nat i * 512 * 8))
               else put_pte64 (pte, memory) address 0) (0, m) [0..<512] = Inr (p', m') \<and> take_bit 10 p' = 1 \<and> mem_wf m' \<and>
    mem_abs m' = write_bytes (mem_abs m) 0xC0000000 (table_bytes 8 (\<lambda>i. ucast ((1 :: u32) OR push_bit 10 (ucast (g i)))) 512)"
    (is "\<exists>p' m'. rfold ?F _ _ = _ \<and> _")
proof -
  have "\<exists>p' m'. rfold ?F (0, m) [0..<512] = Inr (p', m') \<and> take_bit 10 p' = of_bool ((0 :: nat) < 512) \<and> mem_wf m' \<and>
    mem_abs m' = write_bytes (mem_abs m) 0xC0000000 (table_bytes 8 (\<lambda>i. ucast ((1 :: u32) OR push_bit 10 (ucast (g i)))) 512)"
  proof (rule table_loop [where I = "\<lambda>(i :: nat) (p :: u32). take_bit 10 p = of_bool (0 < i)"])
    fix i :: nat and p :: u32 and m
    assume i: "i < 512" "take_bit 10 p = of_bool (0 < i)" "mem_wf m"
    have a: "ucast (k64BitMmuLevel2 + of_nat i * 8) = (0xC0000000 + of_nat i * 8 :: u32)"
      by (simp add: k64BitMmuLevel2_def ucast_down_add ucast_down_mult ucast_down_of_nat)
    define q where "q = (if i < 4 then Pte32_SetV p 1 else p)"
    have q: "take_bit 10 q = 1" using i(2) level_flags(3) [of p] by (auto simp: q_def)
    have e: "?F (p, m) i = put_pte64 (q, m) (0xC0000000 + of_nat i * 8) (g i)" by (simp add: q_def g_def a)
    have "(0xC0000000 + of_nat i * 8 :: u32) AND 7 = 0" by (rule aligned_entry64) simp
    from put_pte64_abs [OF q _ i(3) this, of "g i"]
    show "\<exists>s' m'. ?F (p, m) i = Inr (s', m') \<and> take_bit 10 s' = of_bool (0 < Suc i) \<and> mem_wf m' \<and>
        mem_abs m' = write_bytes (mem_abs m) (0xC0000000 + of_nat (8 * i)) (le_bytes (ucast ((1 :: u32) OR push_bit 10 (ucast (g i)))) 8)"
      unfolding e by (simp add: mult.commute)
  qed (use assms in auto)
  then show ?thesis by simp
qed

text \<open>The two lower tables, with their nested loops written as one.\<close>

lemma middle_loop64:
  "rfold (\<lambda>s j. rfold (\<lambda>s i. put_pte64 s (ucast (k64BitMmuLevel1 + of_nat j * 512 * 8 + of_nat i * 8))
       (drop_bit 12 (k64BitMmuLevel0 + of_nat j * 512 * 512 * 8 + of_nat i * 512 * 8))) s [0..<512]) s [0..<4] =
   rfold (\<lambda>s n. put_pte64 s (ucast (k64BitMmuLevel1 + of_nat n * 8)) (drop_bit 12 (k64BitMmuLevel0 + of_nat n * 4096))) s [0..<4 * 512]"
  unfolding rfold_nested [of "\<lambda>s n. put_pte64 s (ucast (k64BitMmuLevel1 + of_nat n * 8)) (drop_bit 12 (k64BitMmuLevel0 + of_nat n * 4096))", symmetric]
  by (simp add: algebra_simps)

lemma leaf_loop64:
  "rfold (\<lambda>s k. rfold (\<lambda>s j. rfold (\<lambda>s i. put_pte64 s (ucast (k64BitMmuLevel0 + (of_nat k * 512 * 512 + of_nat j * 512 + of_nat i) * 8))
       (of_nat k * 512 * 512 + of_nat j * 512 + of_nat i)) s [0..<512]) s [0..<512]) s [0..<4] =
   rfold (\<lambda>s n. put_pte64 s (ucast (k64BitMmuLevel0 + of_nat n * 8)) (of_nat n)) s [0..<4 * (512 * 512)]" (is "?L = _")
proof -
  let ?f = "\<lambda>s n. put_pte64 s (ucast (k64BitMmuLevel0 + of_nat n * 8)) (of_nat n)"
  have "?L = rfold (\<lambda>s k. rfold (\<lambda>s j. rfold (\<lambda>s i. ?f s (k * (512 * 512) + (j * 512 + i))) s [0..<512]) s [0..<512]) s [0..<4]"
    by (simp add: algebra_simps)
  also have "\<dots> = rfold (\<lambda>s k. rfold (\<lambda>s n. ?f s (k * (512 * 512) + n)) s [0..<512 * 512]) s [0..<4]"
    using rfold_nested [of "\<lambda>s n. ?f s (k * (512 * 512) + n)" 512 _ 512 for k] by (intro rfold_cong_set) simp
  also have "\<dots> = rfold ?f s [0..<4 * (512 * 512)]" by (rule rfold_nested)
  finally show ?thesis .
qed

lemma level_addresses64:
  "ucast (k64BitMmuLevel1 + of_nat i * 8) = (0xC0001000 + of_nat i * 8 :: u32)"
  "ucast (k64BitMmuLevel0 + of_nat i * 8) = (0xC0005000 + of_nat i * 8 :: u32)"
  by (simp_all add: k64BitMmuLevel2_def k64BitMmuLevel1_def k64BitMmuLevel0_def ucast_down_add ucast_down_mult ucast_down_of_nat)

lemma table_pages64:
  "i < 4 \<Longrightarrow> unat (ucast (drop_bit 12 (k64BitMmuLevel1 + of_nat i * 512 * 8)) :: u32) = 0xC0001 + i"
  "i < 2048 \<Longrightarrow> unat (ucast (drop_bit 12 (k64BitMmuLevel0 + of_nat i * 4096)) :: u32) = 0xC0005 + i"
proof -
  have gen: "unat (ucast (drop_bit 12 (of_nat (b * 4096 + i * 4096) :: u64)) :: u32) = b + i" if "b + i < 2 ^ 32" for b
  proof -
    have "unat (of_nat (b * 4096 + i * 4096) :: u64) = b * 4096 + i * 4096" by (rule unat_of_nat_small) (use that in simp)
    then have "unat (drop_bit 12 (of_nat (b * 4096 + i * 4096) :: u64)) = b + i" by (simp add: drop_bit_eq_div unat_div)
    then show ?thesis using that by (simp add: unat_ucast32)
  qed
  show "unat (ucast (drop_bit 12 (k64BitMmuLevel1 + of_nat i * 512 * 8)) :: u32) = 0xC0001 + i" if "i < 4"
    using gen [of "0xC0001"] that by (simp add: k64BitMmuLevel2_def k64BitMmuLevel1_def mult.commute)
  show "unat (ucast (drop_bit 12 (k64BitMmuLevel0 + of_nat i * 4096)) :: u32) = 0xC0005 + i" if "i < 2048"
    using gen [of "0xC0005"] that by (simp add: k64BitMmuLevel2_def k64BitMmuLevel1_def k64BitMmuLevel0_def)
qed

text \<open>The bytes of the three tables.\<close>

definition level2_entry :: "nat \<Rightarrow> u32" where
  "level2_entry i = 1 OR push_bit 10 (ucast (if i < 4 then drop_bit 12 (k64BitMmuLevel1 + of_nat i * 512 * 8) else 0))"

definition level1_entry :: "nat \<Rightarrow> u32" where
  "level1_entry i = 1 OR push_bit 10 (ucast (drop_bit 12 (k64BitMmuLevel0 + of_nat i * 4096)))"

definition level0_entry :: "nat \<Rightarrow> u32" where
  "level0_entry i = 0xF OR push_bit 10 (ucast (of_nat i :: u64))"

definition tables64 :: "bytes \<Rightarrow> bytes" where
  "tables64 f =
     write_bytes (write_bytes (write_bytes f
       0xC0000000 (table_bytes 8 (\<lambda>i. ucast (level2_entry i)) 512))
       0xC0001000 (table_bytes 8 (\<lambda>i. ucast (level1_entry i)) (4 * 512)))
       0xC0005000 (table_bytes 8 (\<lambda>i. ucast (level0_entry i)) (4 * (512 * 512)))"

lemma tables64_below:
  assumes "b + n \<le> 0xC0000000"
  shows "read_bytes (tables64 f) (of_nat b) n = read_bytes f (of_nat b) n"
  unfolding tables64_def
  using assms read_bytes_apart [of "0xC0005000" "table_bytes 8 (\<lambda>i. ucast (level0_entry i)) (4 * (512 * 512))" b n]
    read_bytes_apart [of "0xC0001000" "table_bytes 8 (\<lambda>i. ucast (level1_entry i)) (4 * 512)" b n]
    read_bytes_apart [of "0xC0000000" "table_bytes 8 (\<lambda>i. ucast (level2_entry i)) 512" b n] by simp

lemma SetDefaultMmuTable64_abs:
  assumes "mem_wf m"
  shows "\<exists>m'. SetDefaultMmuTable64 m = Inr m' \<and> mem_wf m' \<and> mem_abs m' = tables64 (mem_abs m)"
proof -
  obtain p2 m2 where l2: "rfold (\<lambda>(pte, memory) i.
            let address = ucast (k64BitMmuLevel2 + of_nat i * 8)
            in if i < 4 then put_pte64 (Pte32_SetV pte 1, memory) address (drop_bit 12 (k64BitMmuLevel1 + of_nat i * 512 * 8))
               else put_pte64 (pte, memory) address 0) (0, m) [0..<512] = Inr (p2, m2)"
      "take_bit 10 p2 = 1" "mem_wf m2"
      "mem_abs m2 = write_bytes (mem_abs m) 0xC0000000 (table_bytes 8 (\<lambda>i. ucast (level2_entry i)) 512)"
    using root_loop64 [OF assms(1)] unfolding level2_entry_def by blast
  have v: "take_bit 10 (Pte32_SetV p2 1) = 1" by (rule level_flags(3)) (simp add: l2(2))
  obtain p1 m1 where l1: "rfold (\<lambda>s n. put_pte64 s (ucast (k64BitMmuLevel1 + of_nat n * 8)) (drop_bit 12 (k64BitMmuLevel0 + of_nat n * 4096)))
        (Pte32_SetV p2 1, m2) [0..<4 * 512] = Inr (p1, m1)" "take_bit 10 p1 = 1" "mem_wf m1"
      "mem_abs m1 = write_bytes (mem_abs m2) 0xC0001000 (table_bytes 8 (\<lambda>i. ucast ((1 :: u32) OR push_bit 10 (ucast (drop_bit 12 (k64BitMmuLevel0 + of_nat i * 4096))))) (4 * 512))"
    using table_loop64 [of "0xC0001000" 1 "Pte32_SetV p2 1" m2 "4 * 512" "\<lambda>n. ucast (k64BitMmuLevel1 + of_nat n * 8)"
      "\<lambda>n. drop_bit 12 (k64BitMmuLevel0 + of_nat n * 4096)"] v l2(3) level_addresses64(1) by auto
  let ?p = "Pte32_SetR (Pte32_SetW (Pte32_SetX p1 1) 1) 1"
  obtain p0 m0 where l0: "rfold (\<lambda>s n. put_pte64 s (ucast (k64BitMmuLevel0 + of_nat n * 8)) (of_nat n)) (?p, m1) [0..<4 * (512 * 512)] = Inr (p0, m0)"
      "mem_wf m0" "mem_abs m0 = write_bytes (mem_abs m1) 0xC0005000 (table_bytes 8 (\<lambda>i. ucast ((0xF :: u32) OR push_bit 10 (ucast (of_nat i :: u64)))) (4 * (512 * 512)))"
    using table_loop64 [of "0xC0005000" "0xF" ?p m1 "4 * (512 * 512)" "\<lambda>n. ucast (k64BitMmuLevel0 + of_nat n * 8)" "\<lambda>n. of_nat n"]
      l1(3) level_flags(2) [OF l1(2)] level_addresses64(2) by auto
  have "SetDefaultMmuTable64 m = Inr m0"
    unfolding SetDefaultMmuTable64_def Let_def l2(1) [unfolded Let_def] rbind_Inr prod.case middle_loop64 l1(1) leaf_loop64 l0(1) by simp
  with l0(2,3) l1(4) l2(4) show ?thesis by (simp add: tables64_def level1_entry_def level0_entry_def)
qed

lemma SetDefaultMmuTable64_identity:
  assumes "mem_wf m"
  shows "\<exists>m'. SetDefaultMmuTable64 m = Inr m' \<and> mem_wf m' \<and> identity64 (mem_abs m')"
proof -
  let ?g = "\<lambda>i :: nat. if i < 4 then drop_bit 12 (k64BitMmuLevel1 + of_nat i * 512 * 8) else 0"
  let ?f2 = "write_bytes (mem_abs m) 0xC0000000 (table_bytes 8 (\<lambda>i. ucast (level2_entry i)) 512)"
  let ?f1 = "write_bytes ?f2 0xC0001000 (table_bytes 8 (\<lambda>i. ucast (level1_entry i)) (4 * 512))"
  let ?f0 = "write_bytes ?f1 0xC0005000 (table_bytes 8 (\<lambda>i. ucast (level0_entry i)) (4 * (512 * 512)))"
  obtain m' where m': "SetDefaultMmuTable64 m = Inr m'" "mem_wf m'" "mem_abs m' = ?f0"
    using SetDefaultMmuTable64_abs [OF assms] unfolding tables64_def by blast
  have b0: "read_pte sv39 ?f0 a = read_pte sv39 ?f1 a" if "a + 8 \<le> 0xC0005000" for a
    using read_apart [of "0xC0005000" "table_bytes 8 (\<lambda>i. ucast (level0_entry i)) (4 * (512 * 512))" a sv39 ?f1] that by simp
  have b1: "read_pte sv39 ?f1 a = read_pte sv39 ?f2 a" if "a + 8 \<le> 0xC0001000" for a
    using read_apart [of "0xC0001000" "table_bytes 8 (\<lambda>i. ucast (level1_entry i)) (4 * 512)" a sv39 ?f2] that by simp
  have "identity64 ?f0"
    unfolding identity64_def
  proof (intro conjI allI impI)
    fix i :: nat
    assume i: "i < 4"
    then have "read_pte sv39 ?f0 (0xC0000000 + 8 * i) = ucast (level2_entry i)"
      using b0 [of "0xC0000000 + 8 * i"] b1 [of "0xC0000000 + 8 * i"] read_entry [of 8 512 i sv39 "mem_abs m" "0xC0000000" level2_entry] by simp
    then show "inner_entry sv39 (read_pte sv39 ?f0 (0xC0000000 + 8 * i)) (0xC0001 + i)"
      using table_entries(1) [of "ucast (?g i)" sv39] table_pages64(1) [OF i] i by (simp add: level2_entry_def)
  next
    fix i :: nat
    assume i: "i < 2048"
    then have "read_pte sv39 ?f0 (0xC0001000 + 8 * i) = ucast (level1_entry i)"
      using b0 [of "0xC0001000 + 8 * i"] read_entry [of 8 "4 * 512" i sv39 ?f2 "0xC0001000" level1_entry] by simp
    then show "inner_entry sv39 (read_pte sv39 ?f0 (0xC0001000 + 8 * i)) (0xC0005 + i)"
      using table_entries(1) [of "ucast (drop_bit 12 (k64BitMmuLevel0 + of_nat i * 4096))" sv39] table_pages64(2) [OF i] i by (simp add: level1_entry_def)
  next
    fix p :: nat
    assume p: "p < 2 ^ 20"
    have u: "unat (ucast (of_nat p :: u64) :: u32) = p" using p by (simp add: unat_ucast32 unat_of_nat)
    have "read_pte sv39 ?f0 (0xC0005000 + 8 * p) = ucast (level0_entry p)"
      using read_entry [of 8 "4 * (512 * 512)" p sv39 ?f1 "0xC0005000" level0_entry] p by simp
    then show "leaf_entry sv39 (read_pte sv39 ?f0 (0xC0005000 + 8 * p)) p"
      using table_entries(2) [of "ucast (of_nat p :: u64)" sv39] p u by (simp add: level0_entry_def)
  qed
  with m' show ?thesis by auto
qed

section \<open>Translation under the default tables\<close>

definition default_tables :: "bool \<Rightarrow> bytes \<Rightarrow> bool" where
  "default_tables address64bit f = (if address64bit then identity64 f else identity32 f)"

definition tables_end :: "bool \<Rightarrow> nat" where
  "tables_end address64bit = (if address64bit then 0xC0805000 else 0xC0401000)"

lemma read_pte_write:
  assumes "a < 2 ^ 32" "b < 2 ^ 32" "pg_pte_bytes c dvd a" "pg_pte_bytes c dvd b" "pg_pte_bytes c = 4 \<or> pg_pte_bytes c = 8"
  shows "read_pte c (write_bytes f (of_nat a) (le_bytes x (pg_pte_bytes c))) b =
    (if a = b then take_bit (8 * pg_pte_bytes c) x else read_pte c f b)"
proof (cases "a = b")
  case True
  have "read_bytes (write_bytes f (of_nat b) (le_bytes x (pg_pte_bytes c))) (of_nat b) (pg_pte_bytes c) = le_bytes x (pg_pte_bytes c)"
    using read_write_bytes [of "le_bytes x (pg_pte_bytes c)" f "of_nat b"] assms(5) by auto
  with True assms(5) show ?thesis by (auto simp: read_pte_def le_word_le_bytes)
next
  case False
  have "pg_pte_bytes c dvd (2 ^ 32 :: nat)" using assms(5) by auto
  then have "read_bytes (write_bytes f (of_nat a) (le_bytes x (pg_pte_bytes c))) (of_nat b) (pg_pte_bytes c) = read_bytes f (of_nat b) (pg_pte_bytes c)"
    using aligned_apart [OF assms(1-4) _ False] by (intro read_bytes_other) simp
  with False show ?thesis by (simp add: read_pte_def)
qed

lemma leaf_take_bit:
  assumes "leaf_entry c e q" "10 + pg_ppn_bits c \<le> n"
  shows "leaf_entry c (take_bit n e) q"
proof -
  have "take_bit (pg_ppn_bits c) (drop_bit 10 (take_bit n e)) = take_bit (pg_ppn_bits c) (drop_bit 10 e)"
    by (rule bit_word_eqI) (use assms(2) in \<open>auto simp: bit_simps\<close>)
  with assms show ?thesis by (auto simp: leaf_entry_def pte_ppn_unat bit_take_bit_iff)
qed

lemma walk_inner:
  assumes "inner_entry c (read_pte c f (table * 2 ^ 12 + va_index c va (Suc level) * pg_pte_bytes c)) q"
  shows "pt_walk c f va (Suc level) table = pt_walk c f va level q"
  using assms by (simp add: pt_walk.simps [of c f va "Suc level"] inner_entry_def Let_def)

lemma walk_leaf:
  assumes "leaf_entry c (read_pte c f (table * 2 ^ 12 + va_index c va level * pg_pte_bytes c)) q"
  shows "pt_walk c f va level table =
    Some (level, read_pte c f (table * 2 ^ 12 + va_index c va level * pg_pte_bytes c), table * 2 ^ 12 + va_index c va level * pg_pte_bytes c)"
  using assms by (simp add: pt_walk.simps [of c f va level] leaf_entry_def Let_def)

lemma identity_walk32:
  assumes "identity32 f" "unat va < 2 ^ 32"
  defines "p \<equiv> unat va div 2 ^ 12"
  shows "pt_walk sv32 f va 1 0xC0000 = Some (0, read_pte sv32 f (0xC0001000 + 4 * p), 0xC0001000 + 4 * p)"
proof -
  let ?i = "va_index sv32 va 1" and ?j = "va_index sv32 va 0"
  have i: "?i = p div 2 ^ 10" "?j = p mod 2 ^ 10" "p < 2 ^ 20"
    using assms(2) by (simp_all add: va_index_def p_def div_mult2_eq [symmetric] mult.commute)
  then have "?i < 1024" by simp
  then have "inner_entry sv32 (read_pte sv32 f (0xC0000 * 2 ^ 12 + ?i * pg_pte_bytes sv32)) (0xC0001 + ?i)"
    using assms(1) by (simp add: identity32_def mult.commute [of _ "4 :: nat"])
  then have w: "pt_walk sv32 f va (Suc 0) 0xC0000 = pt_walk sv32 f va 0 (0xC0001 + ?i)" using walk_inner by simp
  have "1024 * ?i + ?j = p" using i(1,2) by simp
  moreover have "(0xC0001 + ?i) * 2 ^ 12 + ?j * pg_pte_bytes sv32 = 0xC0001000 + 4 * (1024 * ?i + ?j)" by simp
  ultimately have a: "(0xC0001 + ?i) * 2 ^ 12 + ?j * pg_pte_bytes sv32 = 0xC0001000 + 4 * p" by simp
  have "leaf_entry sv32 (read_pte sv32 f (0xC0001000 + 4 * p)) p" using assms(1) i(3) by (simp add: identity32_def)
  from walk_leaf [where c = sv32 and f = f and table = "0xC0001 + ?i" and va = va and level = 0, unfolded a, OF this] w show ?thesis by simp
qed

lemma identity_walk64:
  assumes "identity64 f" "unat va < 2 ^ 32"
  defines "p \<equiv> unat va div 2 ^ 12"
  shows "pt_walk sv39 f va 2 0xC0000 = Some (0, read_pte sv39 f (0xC0005000 + 8 * p), 0xC0005000 + 8 * p)"
proof -
  let ?i = "va_index sv39 va 2" and ?j = "va_index sv39 va 1" and ?k = "va_index sv39 va 0"
  have i: "?i = p div 2 ^ 18" "?j = p div 2 ^ 9 mod 2 ^ 9" "?k = p mod 2 ^ 9" "p < 2 ^ 20"
    using assms(2) by (simp_all add: va_index_def p_def div_mult2_eq [symmetric] mult.commute)
  then have "?i < 4" by simp
  then have "inner_entry sv39 (read_pte sv39 f (0xC0000 * 2 ^ 12 + ?i * pg_pte_bytes sv39)) (0xC0001 + ?i)"
    using assms(1) by (simp add: identity64_def mult.commute [of _ "8 :: nat"])
  then have w2: "pt_walk sv39 f va (Suc (Suc 0)) 0xC0000 = pt_walk sv39 f va (Suc 0) (0xC0001 + ?i)"
    using walk_inner [of sv39 f "0xC0000" va "Suc 0"] by (simp add: numeral_2_eq_2)
  have q: "p div 2 ^ 9 = 512 * ?i + ?j" using i div_mult_mod_eq [of "p div 512" 512] by (simp add: div_mult2_eq [symmetric])
  moreover have "p div 2 ^ 9 < 2048" using i(4) by simp
  ultimately have "512 * ?i + ?j < 2048" by simp
  then have "inner_entry sv39 (read_pte sv39 f (0xC0001000 + 8 * (512 * ?i + ?j))) (0xC0005 + (512 * ?i + ?j))"
    using assms(1) unfolding identity64_def by blast
  moreover have "(0xC0001 + ?i) * 2 ^ 12 + va_index sv39 va (Suc 0) * pg_pte_bytes sv39 = 0xC0001000 + 8 * (512 * ?i + ?j)" by simp
  ultimately have w1: "pt_walk sv39 f va (Suc 0) (0xC0001 + ?i) = pt_walk sv39 f va 0 (0xC0005 + p div 2 ^ 9)"
    unfolding q by (intro walk_inner) (simp only:)
  have "512 * (p div 2 ^ 9) + ?k = p" using i(3) by simp
  moreover have "(0xC0005 + p div 2 ^ 9) * 2 ^ 12 + ?k * pg_pte_bytes sv39 = 0xC0005000 + 8 * (512 * (p div 2 ^ 9) + ?k)" by simp
  ultimately have a: "(0xC0005 + p div 2 ^ 9) * 2 ^ 12 + ?k * pg_pte_bytes sv39 = 0xC0005000 + 8 * p" by simp
  have "leaf_entry sv39 (read_pte sv39 f (0xC0005000 + 8 * p)) p" using assms(1) i(4) by (simp add: identity64_def)
  from walk_leaf [where c = sv39 and f = f and table = "0xC0005 + p div 2 ^ 9" and va = va and level = 0, unfolded a, OF this] w1 w2
  show ?thesis by (simp add: numeral_2_eq_2)
qed

text \<open>The marks of a translation keep the tables.\<close>

lemma identity32_mark:
  assumes "identity32 f" "p < 2 ^ 20"
  shows "identity32 (write_bytes f (of_nat (0xC0001000 + 4 * p)) (le_bytes (pte_mark wr (read_pte sv32 f (0xC0001000 + 4 * p))) 4))" (is "identity32 ?f")
proof -
  have r: "read_pte sv32 ?f b = (if 0xC0001000 + 4 * p = b then take_bit 32 (pte_mark wr (read_pte sv32 f b)) else read_pte sv32 f b)"
    if "b < 2 ^ 32" "4 dvd b" for b
    using read_pte_write [of "0xC0001000 + 4 * p" b sv32] that assms(2) by (auto intro: dvd_add)
  show ?thesis
    unfolding identity32_def
  proof (intro conjI allI impI)
    fix i :: nat
    assume i: "i < 1024"
    then have "read_pte sv32 ?f (0xC0000000 + 4 * i) = read_pte sv32 f (0xC0000000 + 4 * i)"
      by (subst r) (auto intro: dvd_add)
    then show "inner_entry sv32 (read_pte sv32 ?f (0xC0000000 + 4 * i)) (0xC0001 + i)"
      using assms(1) i by (simp add: identity32_def)
  next
    fix q :: nat
    assume q: "q < 2 ^ 20"
    let ?e = "read_pte sv32 f (0xC0001000 + 4 * q)"
    have l: "leaf_entry sv32 ?e q" using assms(1) q by (simp add: identity32_def)
    then have "leaf_entry sv32 (take_bit 32 (pte_mark wr ?e)) q" by (intro leaf_take_bit leaf_mark) simp_all
    moreover have "read_pte sv32 ?f (0xC0001000 + 4 * q) \<in> {?e, take_bit 32 (pte_mark wr ?e)}"
      using q by (subst r) (auto intro: dvd_add)
    ultimately show "leaf_entry sv32 (read_pte sv32 ?f (0xC0001000 + 4 * q)) q" using l by auto
  qed
qed

lemma identity64_mark:
  assumes "identity64 f" "p < 2 ^ 20"
  shows "identity64 (write_bytes f (of_nat (0xC0005000 + 8 * p)) (le_bytes (pte_mark wr (read_pte sv39 f (0xC0005000 + 8 * p))) 8))" (is "identity64 ?f")
proof -
  have r: "read_pte sv39 ?f b = (if 0xC0005000 + 8 * p = b then pte_mark wr (read_pte sv39 f b) else read_pte sv39 f b)"
    if "b < 2 ^ 32" "8 dvd b" for b
    using read_pte_write [of "0xC0005000 + 8 * p" b sv39] that assms(2) by (auto intro: dvd_add simp: take_bit_word_beyond)
  have below: "read_pte sv39 ?f b = read_pte sv39 f b" if "b < 0xC0005000" "8 dvd b" for b
    using that by (subst r) auto
  show ?thesis
    unfolding identity64_def
  proof (intro conjI allI impI)
    fix i :: nat
    assume i: "i < 4"
    have "read_pte sv39 ?f (0xC0000000 + 8 * i) = read_pte sv39 f (0xC0000000 + 8 * i)"
      by (rule below) (use i in \<open>auto intro: dvd_add\<close>)
    then show "inner_entry sv39 (read_pte sv39 ?f (0xC0000000 + 8 * i)) (0xC0001 + i)"
      using assms(1) i by (simp add: identity64_def)
  next
    fix i :: nat
    assume i: "i < 2048"
    have "read_pte sv39 ?f (0xC0001000 + 8 * i) = read_pte sv39 f (0xC0001000 + 8 * i)"
      by (rule below) (use i in \<open>auto intro: dvd_add\<close>)
    then show "inner_entry sv39 (read_pte sv39 ?f (0xC0001000 + 8 * i)) (0xC0005 + i)"
      using assms(1) i by (simp add: identity64_def)
  next
    fix q :: nat
    assume q: "q < 2 ^ 20"
    let ?e = "read_pte sv39 f (0xC0005000 + 8 * q)"
    have l: "leaf_entry sv39 ?e q" using assms(1) q by (simp add: identity64_def)
    moreover have "read_pte sv39 ?f (0xC0005000 + 8 * q) \<in> {?e, pte_mark wr ?e}"
      using q by (subst r) (auto intro: dvd_add)
    ultimately show "leaf_entry sv39 (read_pte sv39 ?f (0xC0005000 + 8 * q)) q" using leaf_mark by auto
  qed
qed

text \<open>Translation under the tables.\<close>

lemma identity_translate32:
  assumes "identity32 f" "unat va < 2 ^ 32"
  shows "\<exists>f'. pt_translate sv32 f 0xC0000 va wr = Some (unat va, f') \<and> identity32 f'"
proof -
  define p where "p = unat va div 2 ^ 12"
  have p: "p < 2 ^ 20" "p * 2 ^ 12 + unat va mod 2 ^ 12 = unat va" using assms(2) by (simp_all add: p_def)
  let ?e = "read_pte sv32 f (0xC0001000 + 4 * p)"
  have "pte_ppn sv32 ?e = p" using assms(1) p(1) by (simp add: identity32_def leaf_entry_def)
  with identity_walk32 [OF assms, folded p_def] identity32_mark [OF assms(1) p(1), of wr] p(2) show ?thesis
    by (simp add: pt_translate_def)
qed

lemma identity_translate64:
  assumes "identity64 f" "unat va < 2 ^ 32"
  shows "\<exists>f'. pt_translate sv39 f 0xC0000 va wr = Some (unat va, f') \<and> identity64 f'"
proof -
  define p where "p = unat va div 2 ^ 12"
  have p: "p < 2 ^ 20" "p * 2 ^ 12 + unat va mod 2 ^ 12 = unat va" using assms(2) by (simp_all add: p_def)
  let ?e = "read_pte sv39 f (0xC0005000 + 8 * p)"
  have "pte_ppn sv39 ?e = p" using assms(1) p(1) by (simp add: identity64_def leaf_entry_def)
  with identity_walk64 [OF assms, folded p_def] identity64_mark [OF assms(1) p(1), of wr] p(2) show ?thesis
    by (simp add: pt_translate_def)
qed

text \<open>Stores beside the tables keep them.\<close>

lemma default_tables_outside:
  assumes "default_tables address64bit f" "a + length bs \<le> 2 ^ 32" "a + length bs \<le> 0xC0000000 \<or> tables_end address64bit \<le> a"
  shows "default_tables address64bit (write_bytes f (of_nat a) bs)"
proof -
  have r: "read_pte c (write_bytes f (of_nat a) bs) b = read_pte c f b"
    if "0xC0000000 \<le> b" "b + pg_pte_bytes c \<le> tables_end address64bit" for b c
    by (rule read_apart) (use assms(2,3) that in \<open>auto simp: tables_end_def split: if_splits\<close>)
  show ?thesis
  proof (cases address64bit)
    case True
    then have "tables_end address64bit = 0xC0805000" by (simp add: tables_end_def)
    with True assms(1) r [where c = sv39] show ?thesis by (simp add: default_tables_def identity64_def)
  next
    case False
    then have "tables_end address64bit = 0xC0401000" by (simp add: tables_end_def)
    with False assms(1) r [where c = sv32] show ?thesis by (simp add: default_tables_def identity32_def)
  qed
qed

lemma default_tables_translate:
  assumes "default_tables address64bit (mem_abs m)" "mem_wf m" "unat va < 2 ^ 32"
    "mmu_privilege u \<noteq> MACHINE_MODE" "mmu_mxl u = (if address64bit then 2 else 1)"
  shows "\<exists>m'. Mmu_VirtualToPhysical u m va (default_satp True address64bit) wr =
      Inr (va, u\<lparr>mmu_page_fault := False, mmu_faulting_address := 0\<rparr>, m') \<and> mem_wf m' \<and> default_tables address64bit (mem_abs m')"
proof (cases address64bit)
  case True
  have satp: "default_satp True True = 0x80000000000C0000" by (simp add: default_satp_def k64BitMmuLevel2_def)
  have "bitcrop (default_satp True True) 4 60 = 8" by (simp add: satp bitcrop_eq)
  from V2P64_sv39 [OF assms(2) this, of "u\<lparr>mmu_page_fault := False, mmu_faulting_address := 0\<rparr>" va wr] True assms
    identity_translate64 [of "mem_abs m" va wr]
  show ?thesis by (auto simp: Mmu_VirtualToPhysical_def Let_def default_tables_def satp)
next
  case False
  have satp: "default_satp True False = 0x800C0000" by (simp add: default_satp_def k32BitMmuLevel1_def)
  have b: "bit (default_satp True False) 31" by (simp add: satp)
  have t: "take_bit 32 va = va" using assms(3) by (intro take_bit_less_self) (simp_all add: word_less_nat_alt)
  from V2P32_sv32 [OF assms(2) b, of "u\<lparr>mmu_page_fault := False, mmu_faulting_address := 0\<rparr>" va wr] False assms
    identity_translate32 [of "mem_abs m" va wr] t
  show ?thesis by (auto simp: Mmu_VirtualToPhysical_def Let_def default_tables_def satp)
qed

lemma SetDefaultMmuTable_tables:
  "mem_wf m \<Longrightarrow> \<exists>m'. SetDefaultMmuTable address64bit m = Inr m' \<and> mem_wf m' \<and> default_tables address64bit (mem_abs m')"
  using SetDefaultMmuTable64_identity [of m] SetDefaultMmuTable32_identity [of m] by (simp add: SetDefaultMmuTable_def default_tables_def)

section \<open>Properties\<close>

text \<open>C11: The tables that \<open>SetDefaultMmuTable\<close> writes, with the \<open>satp\<close> of the option \<open>-p\<close>, map every 32-bit address to
  itself without a fault in user and supervisor mode, for reads and writes; they go on doing so after a translation (which sets accessed and dirty
  bits) and after any store beside the tables.\<close>

theorem default_tables_identity:
  assumes "mem_wf m"
  shows "(\<exists>m'. SetDefaultMmuTable address64bit m = Inr m' \<and> mem_wf m' \<and> default_tables address64bit (mem_abs m')) \<and>
    (\<forall>m u va wr. default_tables address64bit (mem_abs m) \<and> mem_wf m \<and> unat va < 2 ^ 32 \<and>
        mmu_privilege u \<noteq> MACHINE_MODE \<and> mmu_mxl u = (if address64bit then 2 else 1) \<longrightarrow>
      (\<exists>m'. Mmu_VirtualToPhysical u m va (default_satp True address64bit) wr =
          Inr (va, u\<lparr>mmu_page_fault := False, mmu_faulting_address := 0\<rparr>, m') \<and>
        mem_wf m' \<and> default_tables address64bit (mem_abs m'))) \<and>
    (\<forall>f a bs. default_tables address64bit f \<and> a + length bs \<le> 2 ^ 32 \<and>
        (a + length bs \<le> 0xC0000000 \<or> tables_end address64bit \<le> a) \<longrightarrow>
      default_tables address64bit (write_bytes f (of_nat a) bs))"
  using SetDefaultMmuTable_tables [OF assms, of address64bit] default_tables_translate [of address64bit]
    default_tables_outside [of address64bit] by blast

theorem default_tables_identity_witness:
  "\<exists>m m'. SetDefaultMmuTable True MemoryWrapper = Inr m \<and>
     Mmu_VirtualToPhysical (mmu_init\<lparr>mmu_mxl := 2, mmu_privilege := USER_MODE\<rparr>) m 0x80001234 (default_satp True True) True =
       Inr (0x80001234, mmu_init\<lparr>mmu_mxl := 2, mmu_privilege := USER_MODE, mmu_page_fault := False, mmu_faulting_address := 0\<rparr>, m') \<and>
     default_tables True (write_bytes (mem_abs m') (of_nat 0x1000) [1, 2, 3])"
proof -
  note p = default_tables_identity [OF mem_wf_MemoryWrapper, of True]
  obtain m where m: "SetDefaultMmuTable True MemoryWrapper = Inr m" "mem_wf m" "default_tables True (mem_abs m)"
    using p by blast
  let ?u = "mmu_init\<lparr>mmu_mxl := 2, mmu_privilege := USER_MODE\<rparr>"
  have "unat (0x80001234 :: u64) < 2 ^ 32 \<and> mmu_privilege ?u \<noteq> MACHINE_MODE \<and> mmu_mxl ?u = (if True then 2 else 1)" by simp
  with m p obtain m' where t: "Mmu_VirtualToPhysical ?u m 0x80001234 (default_satp True True) True =
      Inr (0x80001234, ?u\<lparr>mmu_page_fault := False, mmu_faulting_address := 0\<rparr>, m')" "default_tables True (mem_abs m')"
    by blast
  have "(0x1000 :: nat) + length [1 :: u8, 2, 3] \<le> 2 ^ 32 \<and> (0x1000 + length [1 :: u8, 2, 3] \<le> 0xC0000000 \<or> tables_end True \<le> 0x1000)" by simp
  with t(2) p have "default_tables True (write_bytes (mem_abs m') (of_nat 0x1000) [1, 2, 3])" by blast
  with m(1) t(1) show ?thesis by auto
qed

end
