(* ===== verification/Elf_Spec.thy ===== *)
theory Elf_Spec
  imports Elf
begin

text \<open>
  What the ELF loader does to memory: the specification reads the header fields at the offsets that the file format
  prescribes and lists the loadable segments; the loader's result is memory with these segments written in order and the
  section \<open>.bss\<close> cleared.
\<close>

section \<open>The file format\<close>

text \<open>A little-endian number of \<open>n\<close> bytes at offset \<open>a\<close>.\<close>

definition fld :: "u8 list \<Rightarrow> nat \<Rightarrow> nat \<Rightarrow> nat" where
  "fld program a n = unat (le_word (take n (drop a program)))"

text \<open>Offsets and widths of the fields that the loader uses.\<close>

record elf_format =
  f_addr :: nat
  f_phoff :: nat
  f_shoff :: nat
  f_phentsize :: nat
  f_ehsize :: nat
  f_phsize :: nat
  f_shsize :: nat
  f_p_offset :: nat
  f_p_vaddr :: nat
  f_p_filesz :: nat
  f_sh_addr :: nat
  f_sh_offset :: nat
  f_sh_size :: nat

definition elf_format :: "elf_class \<Rightarrow> elf_format" where
  "elf_format k =
     (case k of
        ELF32 \<Rightarrow> \<lparr>f_addr = 4, f_phoff = 28, f_shoff = 32, f_phentsize = 42, f_ehsize = 52, f_phsize = 32, f_shsize = 40,
          f_p_offset = 4, f_p_vaddr = 8, f_p_filesz = 16, f_sh_addr = 12, f_sh_offset = 16, f_sh_size = 20\<rparr>
      | ELF64 \<Rightarrow> \<lparr>f_addr = 8, f_phoff = 32, f_shoff = 40, f_phentsize = 54, f_ehsize = 64, f_phsize = 56, f_shsize = 64,
          f_p_offset = 8, f_p_vaddr = 16, f_p_filesz = 32, f_sh_addr = 16, f_sh_offset = 24, f_sh_size = 32\<rparr>)"

definition phdr_at :: "elf_class \<Rightarrow> u8 list \<Rightarrow> nat \<Rightarrow> nat" where
  "phdr_at k program i =
     (let e = elf_format k in fld program (f_phoff e) (f_addr e) + fld program (f_phentsize e) 2 * i)"

definition phnum :: "elf_class \<Rightarrow> u8 list \<Rightarrow> nat" where
  "phnum k program = fld program (f_phentsize (elf_format k) + 2) 2"

text \<open>Start address and contents of a segment; \<open>None\<close> when it is not loadable.\<close>

definition segment :: "elf_class \<Rightarrow> u8 list \<Rightarrow> nat \<Rightarrow> (u32 \<times> u8 list) option" where
  "segment k program p =
     (let e = elf_format k
      in if fld program p 4 = 1
         then Some (of_nat (fld program (p + f_p_vaddr e) (f_addr e)),
                    take (fld program (p + f_p_filesz e) (f_addr e)) (drop (fld program (p + f_p_offset e) (f_addr e)) program))
         else None)"

definition store_segment :: "(u32 \<times> u8 list) option \<Rightarrow> bytes \<Rightarrow> bytes" where
  "store_segment s f = (case s of None \<Rightarrow> f | Some (a, bs) \<Rightarrow> write_bytes f a bs)"

definition image :: "elf_class \<Rightarrow> u8 list \<Rightarrow> bytes \<Rightarrow> bytes" where
  "image k program f = fold store_segment (map (\<lambda>i. segment k program (phdr_at k program i)) [0..<phnum k program]) f"

text \<open>The program headers and the segments lie inside the file.\<close>

definition segment_ok :: "elf_class \<Rightarrow> u8 list \<Rightarrow> nat \<Rightarrow> bool" where
  "segment_ok k program p \<longleftrightarrow>
     (let e = elf_format k
      in p + f_phsize e \<le> length program \<and>
         (fld program p 4 = 1 \<longrightarrow>
            fld program (p + f_p_offset e) (f_addr e) + fld program (p + f_p_filesz e) (f_addr e) \<le> length program))"

definition segments_ok :: "elf_class \<Rightarrow> u8 list \<Rightarrow> bool" where
  "segments_ok k program \<longleftrightarrow>
     length program < 2 ^ 31 \<and> f_ehsize (elf_format k) \<le> length program \<and>
     (\<forall>i \<in> set [0..<phnum k program]. segment_ok k program (phdr_at k program i))"

text \<open>Sections: their headers, names and lookup by name.\<close>

definition shdr_at :: "elf_class \<Rightarrow> u8 list \<Rightarrow> nat \<Rightarrow> nat" where
  "shdr_at k program i =
     (let e = elf_format k in fld program (f_shoff e) (f_addr e) + fld program (f_phentsize e + 4) 2 * i)"

definition shnum :: "elf_class \<Rightarrow> u8 list \<Rightarrow> nat" where
  "shnum k program = fld program (f_phentsize (elf_format k) + 6) 2"

definition shstrndx :: "elf_class \<Rightarrow> u8 list \<Rightarrow> nat" where
  "shstrndx k program = fld program (f_phentsize (elf_format k) + 8) 2"

definition cstring :: "u8 list \<Rightarrow> nat \<Rightarrow> u8 list" where
  "cstring program a = takeWhile (\<lambda>b. b \<noteq> 0) (drop a program)"

definition name_at :: "elf_class \<Rightarrow> u8 list \<Rightarrow> nat \<Rightarrow> nat" where
  "name_at k program p =
     (let e = elf_format k
      in fld program (shdr_at k program (shstrndx k program) + f_sh_offset e) (f_addr e) + fld program p 4)"

definition find_section :: "elf_class \<Rightarrow> u8 list \<Rightarrow> string \<Rightarrow> nat option" where
  "find_section k program name =
     find (\<lambda>p. cstring program (name_at k program p) = map of_char name) (map (shdr_at k program) [0..<shnum k program])"

definition sections_ok :: "elf_class \<Rightarrow> u8 list \<Rightarrow> bool" where
  "sections_ok k program \<longleftrightarrow>
     length program < 2 ^ 31 \<and> f_ehsize (elf_format k) \<le> length program \<and>
     shstrndx k program < shnum k program \<and>
     (\<forall>i \<in> set [0..<shnum k program].
        shdr_at k program i + f_shsize (elf_format k) \<le> length program \<and>
        0 \<in> set (drop (name_at k program (shdr_at k program i)) program))"

definition bss_range :: "elf_class \<Rightarrow> u8 list \<Rightarrow> (nat \<times> nat) option" where
  "bss_range k program =
     map_option (\<lambda>p. (fld program (p + f_sh_addr (elf_format k)) (f_addr (elf_format k)),
                      fld program (p + f_sh_size (elf_format k)) (f_addr (elf_format k))))
       (find_section k program ''.bss'')"

definition clear_range :: "(nat \<times> nat) option \<Rightarrow> bytes \<Rightarrow> bytes" where
  "clear_range r f = (case r of None \<Rightarrow> f | Some (a, n) \<Rightarrow> write_bytes f (of_nat a) (replicate n 0))"

text \<open>A file that the loader handles: headers, names and segments inside the file, and \<open>.bss\<close> inside the 32-bit address space.\<close>

definition elf_ok :: "elf_class \<Rightarrow> u8 list \<Rightarrow> bool" where
  "elf_ok k program \<longleftrightarrow>
     segments_ok k program \<and> sections_ok k program \<and>
     (case bss_range k program of None \<Rightarrow> True | Some (a, n) \<Rightarrow> a + n < 2 ^ 32)"

definition file_class :: "u8 list \<Rightarrow> elf_class" where
  "file_class program = (if program ! 4 = 2 then ELF64 else ELF32)"

section \<open>Fields\<close>

lemma data_word_fld: "a + n \<le> length program \<Longrightarrow> data_word program a n = Inr (of_nat (fld program a n))"
  by (simp add: data_word_def fld_def)

lemma unat_of_fld [simp]: "unat (of_nat (fld program a n) :: u64) = fld program a n"
  by (simp add: fld_def)

lemma member_fld:
  "member_at l name 0 = Some (off, w) \<Longrightarrow> p + off + w \<le> length program \<Longrightarrow> member l name program p = Inr (of_nat (fld program (p + off) w))"
  by (simp add: member_def data_word_fld)

lemma phdr_members:
  assumes "p + f_phsize (elf_format k) \<le> length program"
  shows "member (Phdr k) ''p_type'' program p = Inr (of_nat (fld program p 4))"
    "member (Phdr k) ''p_vaddr'' program p = Inr (of_nat (fld program (p + f_p_vaddr (elf_format k)) (f_addr (elf_format k))))"
    "member (Phdr k) ''p_offset'' program p = Inr (of_nat (fld program (p + f_p_offset (elf_format k)) (f_addr (elf_format k))))"
    "member (Phdr k) ''p_filesz'' program p = Inr (of_nat (fld program (p + f_p_filesz (elf_format k)) (f_addr (elf_format k))))"
  using assms by (cases k; simp add: member_def data_word_fld elf_format_def Phdr_def Elf32_Phdr_def Elf64_Phdr_def)+

lemma ehdr_members:
  assumes "f_ehsize (elf_format k) \<le> length program"
  shows "member (Ehdr k) ''e_phnum'' program 0 = Inr (of_nat (phnum k program))"
    "member (Ehdr k) ''e_phoff'' program 0 = Inr (of_nat (fld program (f_phoff (elf_format k)) (f_addr (elf_format k))))"
    "member (Ehdr k) ''e_phentsize'' program 0 = Inr (of_nat (fld program (f_phentsize (elf_format k)) 2))"
  using assms by (cases k; simp add: member_def data_word_fld elf_format_def Ehdr_def Elf32_Ehdr_def Elf64_Ehdr_def phnum_def)+

section \<open>Loading segments\<close>

lemma elf_addr_less: "n < 2 ^ 32 \<Longrightarrow> unat (elf_addr k (of_nat n)) = n"
  by (cases k) (simp_all add: elf_addr_def and_literal_masks unsigned_take_bit_eq unat_of_nat take_bit_nat_eq_self)

lemma elf_addr_ucast: "(ucast (elf_addr k a) :: u32) = ucast a"
  by (cases k) (auto intro!: bit_word_eqI simp: elf_addr_def and_literal_masks bit_simps)

lemma copy_loop:
  assumes "mem_wf m" "off + n \<le> length program" "length program < 2 ^ 31"
  shows "\<exists>m'. rfold (\<lambda>memory i. rbind (data_byte program (unat (elf_addr k (of_nat off + of_nat i)))) (\<lambda>b.
        WriteByte memory (elf_addr k (v + of_nat i)) b)) m [0..<n] = Inr m' \<and> mem_wf m' \<and>
      mem_abs m' = write_bytes (mem_abs m) (ucast v) (take n (drop off program))"
proof -
  let ?P = "\<lambda>i m'. mem_wf m' \<and> mem_abs m' = write_bytes (mem_abs m) (ucast v) (take i (drop off program))"
  have "\<exists>m'. rfold (\<lambda>memory i. rbind (data_byte program (unat (elf_addr k (of_nat off + of_nat i)))) (\<lambda>b.
        WriteByte memory (elf_addr k (v + of_nat i)) b)) m [0..<n] = Inr m' \<and> ?P n m'"
  proof (rule rfold_upt_inv)
    show "?P 0 m" using assms(1) by simp
    fix i m1
    assume i: "i < n" and P: "?P i m1"
    have b: "data_byte program (unat (elf_addr k (of_nat off + of_nat i))) = Inr (program ! (off + i))"
      using elf_addr_less [of "off + i" k] i assms(2,3) by (simp add: data_byte_def)
    obtain m2 where m2: "WriteByte m1 (elf_addr k (v + of_nat i)) (program ! (off + i)) = Inr m2" "mem_wf m2"
        "mem_abs m2 = (mem_abs m1)(ucast v + of_nat i := program ! (off + i))"
      using WriteByte_abs [of m1 "elf_addr k (v + of_nat i)" "program ! (off + i)"] P
      by (auto simp: elf_addr_ucast ucast_down_add ucast_down_of_nat)
    have "take (Suc i) (drop off program) = take i (drop off program) @ [program ! (off + i)]"
      using i assms(2) by (simp add: take_Suc_conv_app_nth)
    moreover have "length (take i (drop off program)) = i" using i assms(2) by simp
    ultimately have "mem_abs m2 = write_bytes (mem_abs m) (ucast v) (take (Suc i) (drop off program))"
      using write_bytes_snoc [of "take i (drop off program)" "mem_abs m" "ucast v" "program ! (off + i)"] P m2(3) i assms(2,3) by simp
    with b m2 show "\<exists>s'. rbind (data_byte program (unat (elf_addr k (of_nat off + of_nat i)))) (\<lambda>b.
        WriteByte m1 (elf_addr k (v + of_nat i)) b) = Inr s' \<and> ?P (Suc i) s'" by simp
  qed
  then show ?thesis by blast
qed

lemma load_segment_abs:
  assumes "mem_wf m" "segment_ok k program p" "length program < 2 ^ 31"
  shows "\<exists>m'. load_segment k program m p = Inr m' \<and> mem_wf m' \<and> mem_abs m' = store_segment (segment k program p) (mem_abs m)"
proof -
  have p: "p + f_phsize (elf_format k) \<le> length program" using assms(2) by (simp add: segment_ok_def Let_def)
  have one: "(of_nat (fld program p 4) :: u64) = 1 \<longleftrightarrow> fld program p 4 = 1"
    using unat_of_fld [of program p 4] by (metis of_nat_1 unat_1)
  show ?thesis
  proof (cases "fld program p 4 = 1")
    case False
    then show ?thesis using assms(1) one by (simp add: load_segment_def phdr_members [OF p] segment_def store_segment_def Let_def)
  next
    case True
    let ?e = "elf_format k"
    let ?v = "fld program (p + f_p_vaddr ?e) (f_addr ?e)" and ?o = "fld program (p + f_p_offset ?e) (f_addr ?e)"
      and ?z = "fld program (p + f_p_filesz ?e) (f_addr ?e)"
    have "?o + ?z \<le> length program" using assms(2) True by (simp add: segment_ok_def Let_def)
    from copy_loop [OF assms(1) this assms(3), of k "of_nat ?v"] True show ?thesis
      by (simp add: load_segment_def phdr_members [OF p] segment_def store_segment_def Let_def ucast_down_of_nat)
  qed
qed

lemma load_segments_abs:
  assumes "mem_wf m" "segments_ok k program"
  shows "\<exists>m'. load_segments k program m = Inr m' \<and> mem_wf m' \<and> mem_abs m' = image k program (mem_abs m)"
proof -
  have e: "f_ehsize (elf_format k) \<le> length program" and l: "length program < 2 ^ 31"
    and ok: "\<And>i. i < phnum k program \<Longrightarrow> segment_ok k program (phdr_at k program i)"
    using assms(2) by (simp_all add: segments_ok_def)
  let ?body = "\<lambda>memory i. rbind (member (Ehdr k) ''e_phoff'' program 0) (\<lambda>e_phoff.
       rbind (member (Ehdr k) ''e_phentsize'' program 0) (\<lambda>e_phentsize.
       rbind (int_product e_phentsize i) (\<lambda>off.
       load_segment k program memory (unat e_phoff + off))))"
  let ?P = "\<lambda>i m'. mem_wf m' \<and> mem_abs m' = fold store_segment (map (\<lambda>i. segment k program (phdr_at k program i)) [0..<i]) (mem_abs m)"
  have "\<exists>m'. rfold ?body m [0..<phnum k program] = Inr m' \<and> ?P (phnum k program) m'"
  proof (rule rfold_upt_inv)
    show "?P 0 m" using assms(1) by simp
    fix i m1
    assume i: "i < phnum k program" and P: "?P i m1"
    let ?z = "fld program (f_phentsize (elf_format k)) 2"
    have "phdr_at k program i \<le> length program" using ok [OF i] by (simp add: segment_ok_def Let_def)
    then have "?z * i < 2 ^ 31" using l by (simp add: phdr_at_def Let_def)
    then have b: "?body m1 i = load_segment k program m1 (phdr_at k program i)"
      by (simp add: ehdr_members [OF e] int_product_def phdr_at_def Let_def)
    show "\<exists>s'. ?body m1 i = Inr s' \<and> ?P (Suc i) s'"
      unfolding b using load_segment_abs [OF _ ok [OF i] l, of m1] P by auto
  qed
  moreover have "unat (of_nat (phnum k program) :: u64) = phnum k program" by (simp add: phnum_def)
  ultimately show ?thesis by (simp add: load_segments_def ehdr_members(1) [OF e] image_def)
qed

section \<open>Sections\<close>

lemma ehdr_section_members:
  assumes "f_ehsize (elf_format k) \<le> length program"
  shows "member (Ehdr k) ''e_shnum'' program 0 = Inr (of_nat (shnum k program))"
    "member (Ehdr k) ''e_shoff'' program 0 = Inr (of_nat (fld program (f_shoff (elf_format k)) (f_addr (elf_format k))))"
    "member (Ehdr k) ''e_shentsize'' program 0 = Inr (of_nat (fld program (f_phentsize (elf_format k) + 4) 2))"
    "member (Ehdr k) ''e_shstrndx'' program 0 = Inr (of_nat (shstrndx k program))"
  using assms
  by (cases k; simp add: member_def data_word_fld elf_format_def Ehdr_def Elf32_Ehdr_def Elf64_Ehdr_def shnum_def shstrndx_def)+

lemma shdr_members:
  assumes "p + f_shsize (elf_format k) \<le> length program"
  shows "member (Shdr k) ''sh_name'' program p = Inr (of_nat (fld program p 4))"
    "member (Shdr k) ''sh_addr'' program p = Inr (of_nat (fld program (p + f_sh_addr (elf_format k)) (f_addr (elf_format k))))"
    "member (Shdr k) ''sh_offset'' program p = Inr (of_nat (fld program (p + f_sh_offset (elf_format k)) (f_addr (elf_format k))))"
    "member (Shdr k) ''sh_size'' program p = Inr (of_nat (fld program (p + f_sh_size (elf_format k)) (f_addr (elf_format k))))"
  using assms by (cases k; simp add: member_def data_word_fld elf_format_def Shdr_def Elf32_Shdr_def Elf64_Shdr_def)+

lemma strcmp_eq_cstring:
  "0 \<in> set (drop a program) \<Longrightarrow> \<forall>c \<in> set s. of_char c \<noteq> (0 :: u8) \<Longrightarrow>
    strcmp_eq program a s = Inr (cstring program a = map of_char s)"
proof (induction s arbitrary: a)
  case Nil
  then have "a < length program" by (cases "a < length program") simp_all
  then show ?case by (simp add: data_byte_def cstring_def Cons_nth_drop_Suc [symmetric])
next
  case (Cons c s)
  then have a: "a < length program" by (cases "a < length program") simp_all
  have d: "drop a program = program ! a # drop (Suc a) program" using a by (simp add: Cons_nth_drop_Suc)
  show ?case
  proof (cases "program ! a = of_char c")
    case True
    with Cons(2,3) d have "0 \<in> set (drop (Suc a) program)" by auto
    with Cons True a show ?thesis by (simp add: data_byte_def cstring_def d)
  next
    case False
    with a Cons(3) show ?thesis by (auto simp: data_byte_def cstring_def d)
  qed
qed

lemma shnum_unat: "unat (of_nat (shnum k program) :: u64) = shnum k program" "unat (of_nat (shstrndx k program) :: u64) = shstrndx k program"
  by (simp_all add: shnum_def shstrndx_def)

lemma GetElfShdr_at:
  assumes "sections_ok k program" "i < shnum k program"
  shows "GetElfShdr k program i = Inr (Some (shdr_at k program i))"
proof -
  have e: "f_ehsize (elf_format k) \<le> length program" using assms(1) by (simp add: sections_ok_def)
  have "shdr_at k program i + f_shsize (elf_format k) \<le> length program" "length program < 2 ^ 31" using assms by (simp_all add: sections_ok_def)
  then have "fld program (f_phentsize (elf_format k) + 4) 2 * i < 2 ^ 31" by (simp add: shdr_at_def Let_def)
  with assms(2) show ?thesis
    by (simp add: GetElfShdr_def ehdr_section_members [OF e] shnum_unat int_product_def shdr_at_def Let_def)
qed

lemma GetElfSectionName_at:
  assumes "sections_ok k program" "i < shnum k program"
  shows "GetElfSectionName k program (shdr_at k program i) = Inr (name_at k program (shdr_at k program i))"
proof -
  have e: "f_ehsize (elf_format k) \<le> length program" and x: "shstrndx k program < shnum k program"
    and b: "\<And>j. j < shnum k program \<Longrightarrow> shdr_at k program j + f_shsize (elf_format k) \<le> length program"
    using assms(1) by (simp_all add: sections_ok_def)
  show ?thesis
    by (simp add: GetElfSectionName_def ehdr_section_members(4) [OF e] shnum_unat GetElfShdr_at [OF assms(1) x] deref_def
        shdr_members(3) [OF b [OF x]] shdr_members(1) [OF b [OF assms(2)]] name_at_def Let_def)
qed

lemma search_shdr_name_find:
  assumes "sections_ok k program" "\<forall>c \<in> set name. of_char c \<noteq> (0 :: u8)" "\<forall>i \<in> set is. i < shnum k program"
  shows "search_shdr_name k program name is =
    Inr (find (\<lambda>p. cstring program (name_at k program p) = map of_char name) (map (shdr_at k program) is))"
  using assms(3)
proof (induction "is")
  case (Cons i "is")
  then have i: "i < shnum k program" by simp
  have "0 \<in> set (drop (name_at k program (shdr_at k program i)) program)" and b: "shdr_at k program i + f_shsize (elf_format k) \<le> length program"
    using assms(1) i by (auto simp: sections_ok_def)
  from strcmp_eq_cstring [OF this(1) assms(2)] Cons show ?case
    by (simp add: GetElfShdr_at [OF assms(1) i] deref_def GetElfSectionName_at [OF assms(1) i] shdr_members(3) [OF b])
qed simp

lemma SearchElfShdr_find:
  assumes "sections_ok k program" "\<forall>c \<in> set name. of_char c \<noteq> (0 :: u8)"
  shows "SearchElfShdr k program name = Inr (find_section k program name)"
proof -
  have e: "f_ehsize (elf_format k) \<le> length program" using assms(1) by (simp add: sections_ok_def)
  show ?thesis
    by (simp add: SearchElfShdr_def ehdr_section_members(1) [OF e] shnum_unat search_shdr_name_find [OF assms] find_section_def)
qed

section \<open>Clearing \<open>.bss\<close>\<close>

lemma unat_u32_less: "unat (i :: u32) < 2 ^ 32"
  using unsigned_less [of i] by simp

lemma unat_ucast_u64: "unat (ucast (i :: u32) :: u64) = unat i"
  using unat_u32_less [of i] by (simp add: unsigned_ucast_eq take_bit_nat_eq_self)

lemma bss_loop_clears:
  assumes "mem_wf m" "unat e < 2 ^ 32"
  shows "\<exists>m'. bss_loop m i e = Some (Inr m') \<and> mem_wf m' \<and> mem_abs m' = write_bytes (mem_abs m) i (replicate (unat e - unat i) 0)"
  using assms(1)
proof (induction "unat e - unat i" arbitrary: m i)
  case 0
  then have "\<not> ucast i < e" by (simp add: word_less_nat_alt unat_ucast_u64)
  with 0 show ?case by (simp add: bss_loop.simps [of m i])
next
  case (Suc n)
  then have l: "unat i < unat e" by simp
  then have less: "ucast i < e" by (simp add: word_less_nat_alt unat_ucast_u64)
  have i1: "unat (i + 1) = Suc (unat i)" using l assms(2) by (simp add: unat_word_ariths)
  obtain m2 where m2: "WriteByte m (ucast i) 0 = Inr m2" "mem_wf m2" "mem_abs m2 = (mem_abs m)(i := 0)"
    using WriteByte_abs [OF Suc(3), of "ucast i" 0] by (auto simp: ucast_up_ucast)
  have n: "n = unat e - unat (i + 1)" using Suc(2) i1 by simp
  obtain m3 where m3: "bss_loop m2 (i + 1) e = Some (Inr m3)" "mem_wf m3"
      "mem_abs m3 = write_bytes (mem_abs m2) (i + 1) (replicate n 0)"
    using Suc(1) [OF n m2(2)] n by auto
  have "length [0 :: u8] + length (replicate n (0 :: u8)) \<le> 2 ^ 32" using Suc(2) assms(2) by simp
  from write_bytes_append [OF this, of "mem_abs m" i] have "mem_abs m3 = write_bytes (mem_abs m) i (replicate (Suc n) 0)"
    by (simp add: m3(3) m2(3) write_bytes_single)
  with m3 less m2(1) Suc(2) show ?case by (simp add: bss_loop.simps [of m i])
qed

lemma bss_loop_diverges: "bss_loop m i e = Some r \<Longrightarrow> mem_wf m \<Longrightarrow> unat e < 2 ^ 32"
proof (induction rule: bss_loop.raw_induct [rotated, consumes 1, case_names step])
  case (step loop m i e r)
  show ?case
  proof (cases "ucast i < e")
    case True
    obtain m2 where "WriteByte m (ucast i) 0 = Inr m2" "mem_wf m2" using WriteByte_abs [OF step(3), of "ucast i" 0] by auto
    with step(1) [of m2 "i + 1" e r] step(2) True show ?thesis by simp
  next
    case False
    then have "unat e \<le> unat i" by (simp add: word_less_nat_alt unat_ucast_u64)
    then show ?thesis using unat_u32_less [of i] by simp
  qed
qed

text \<open>Both halves: clearing returns exactly when the end is a 32-bit address.\<close>

lemma bss_loop_returns_iff: "mem_wf m \<Longrightarrow> (\<exists>r. bss_loop m i e = Some r) \<longleftrightarrow> unat e < 2 ^ 32"
  using bss_loop_clears [of m e i] bss_loop_diverges [of m i e] by blast

lemma clear_bss_eq:
  assumes "sections_ok k program"
  shows "clear_bss k program m =
    (case bss_range k program of
       None \<Rightarrow> Some (Inr m)
     | Some (a, n) \<Rightarrow> bss_loop m (of_nat a) (elf_addr k (of_nat (a + n))))"
proof (cases "find_section k program ''.bss''")
  case None
  then show ?thesis by (simp add: clear_bss_def SearchElfShdr_find [OF assms] bss_range_def)
next
  case (Some p)
  have "p \<in> set (map (shdr_at k program) [0..<shnum k program])"
    using Some by (auto simp: find_section_def find_Some_iff)
  then have b: "p + f_shsize (elf_format k) \<le> length program" using assms by (auto simp: sections_ok_def)
  show ?thesis
    by (simp add: clear_bss_def SearchElfShdr_find [OF assms] Some shdr_members [OF b] bss_range_def ucast_down_of_nat)
qed

lemma clear_bss_abs:
  assumes "mem_wf m" "sections_ok k program" "case bss_range k program of None \<Rightarrow> True | Some (a, n) \<Rightarrow> a + n < 2 ^ 32"
  shows "\<exists>m'. clear_bss k program m = Some (Inr m') \<and> mem_wf m' \<and> mem_abs m' = clear_range (bss_range k program) (mem_abs m)"
proof (cases "bss_range k program")
  case None
  then show ?thesis using assms(1) by (simp add: clear_bss_eq [OF assms(2)] clear_range_def)
next
  case (Some r)
  then obtain a n where r: "bss_range k program = Some (a, n)" by (cases r) simp
  with assms(3) have l: "a + n < 2 ^ 32" by simp
  have u: "unat (of_nat a :: u32) = a" using l by (simp add: unat_of_nat)
  show ?thesis
    using bss_loop_clears [OF assms(1), of "elf_addr k (of_nat (a + n))" "of_nat a"] l elf_addr_less [OF l, of k]
    by (simp add: clear_bss_eq [OF assms(2)] r u clear_range_def)
qed

lemma bss_end_fits: "unat (elf_addr k (of_nat x)) < 2 ^ 32 \<longleftrightarrow> k = ELF32 \<or> x mod 2 ^ 64 < 2 ^ 32"
proof (cases k)
  case ELF32
  have "unat (take_bit 32 (of_nat x :: u64)) < 2 ^ 32" by (rule unat_take_bit_less) simp
  with ELF32 show ?thesis by (simp add: elf_addr_def and_literal_masks)
next
  case ELF64
  then show ?thesis by (simp add: elf_addr_def unat_of_nat)
qed

lemma clear_bss_returns_iff:
  assumes "mem_wf m" "sections_ok k program"
  shows "(\<exists>r. clear_bss k program m = Some r) \<longleftrightarrow>
    (case bss_range k program of None \<Rightarrow> True | Some (a, n) \<Rightarrow> k = ELF32 \<or> (a + n) mod 2 ^ 64 < 2 ^ 32)"
proof (cases "bss_range k program")
  case None
  then show ?thesis by (simp add: clear_bss_eq [OF assms(2)])
next
  case (Some r)
  then obtain a n where r: "bss_range k program = Some (a, n)" by (cases r) simp
  then have "(\<exists>s. clear_bss k program m = Some s) \<longleftrightarrow> unat (elf_addr k (of_nat (a + n))) < 2 ^ 32"
    by (simp add: clear_bss_eq [OF assms(2)] bss_loop_returns_iff [OF assms(1)])
  with r show ?thesis by (simp only: bss_end_fits option.case prod.case)
qed

lemma LoadBitElfFile_abs:
  assumes "mem_wf m" "elf_ok k program"
  shows "\<exists>m'. LoadBitElfFile k program m = Some (Inr m') \<and> mem_wf m' \<and>
    mem_abs m' = clear_range (bss_range k program) (image k program (mem_abs m))"
proof -
  obtain m1 where m1: "load_segments k program m = Inr m1" "mem_wf m1" "mem_abs m1 = image k program (mem_abs m)"
    using load_segments_abs [OF assms(1)] assms(2) by (auto simp: elf_ok_def)
  with clear_bss_abs [OF m1(2), of k program] assms(2) show ?thesis by (simp add: LoadBitElfFile_def elf_ok_def)
qed

lemma require_returns: "\<exists>x. r = Inr x \<Longrightarrow> \<exists>b. c = Inr b \<Longrightarrow> \<exists>b. require r p c = Inr b"
  by (auto simp: require_def)

lemma IsRightElf_returns: "20 \<le> length program \<Longrightarrow> \<exists>b. IsRightElf program = Inr b"
  unfolding IsRightElf_def by (intro require_returns exI) (auto simp: data_byte_def member_def Elf32_Ehdr_def data_word_def)

lemma elf_ok_length: "elf_ok k program \<Longrightarrow> 52 \<le> length program"
  by (cases k) (auto simp: elf_ok_def segments_ok_def elf_format_def)

lemma LoadElfFile_abs:
  assumes "mem_wf m" "elf_ok (file_class program) program"
  shows "\<exists>m'. LoadElfFile program m = Some (Inr (file_class program = ELF64, m')) \<and> mem_wf m' \<and>
    mem_abs m' = clear_range (bss_range (file_class program) program) (image (file_class program) program (mem_abs m))"
proof -
  have l: "52 \<le> length program" by (rule elf_ok_length [OF assms(2)])
  then obtain b where "IsRightElf program = Inr b" using IsRightElf_returns [of program] by auto
  moreover have "Is64BitElf program = Inr (file_class program = ELF64)" using l by (simp add: Is64BitElf_def data_byte_def file_class_def)
  moreover have "(if file_class program = ELF64 then ELF64 else ELF32) = file_class program" by (cases "file_class program") simp_all
  ultimately show ?thesis using LoadBitElfFile_abs [OF assms] by (auto simp: LoadElfFile_def)
qed

section \<open>Entry point and global pointer\<close>

lemma u64_low: "ucast (of_nat x :: u32) = (of_nat (x mod 2 ^ 32) :: u64)"
proof -
  have "x mod 2 ^ 32 < 2 ^ 64" by (rule less_trans [OF mod_less_divisor]) simp_all
  then show ?thesis by (simp add: word_unat_eq_iff unat_ucast_u64 unat_of_nat)
qed

lemma GetEntryPoint_at:
  assumes "f_ehsize (elf_format k) \<le> length program"
  shows "GetEntryPoint (k = ELF64) program = Inr (of_nat (fld program 24 (f_addr (elf_format k)) mod 2 ^ 32))"
proof (cases k)
  case ELF32
  with assms show ?thesis
    by (simp add: GetEntryPoint_def GetElfEntryPoint_def member_def data_word_fld elf_format_def Ehdr_def Elf32_Ehdr_def)
       (simp add: u64_low ucast_down_of_nat)
next
  case ELF64
  with assms show ?thesis
    by (simp add: GetEntryPoint_def GetElfEntryPoint_def member_def data_word_fld elf_format_def Ehdr_def Elf64_Ehdr_def)
       (simp add: u64_low ucast_down_of_nat)
qed

text \<open>The global pointer is a 32-bit value, also when the symbol is missing.\<close>

lemma GetGlobalPointer_u32:
  assumes "GetGlobalPointer flag_64bit program = Inr g"
  shows "unat g < 2 ^ 32"
  using assms unat_u32_less by (auto simp: GetGlobalPointer_def unat_ucast_u64)

section \<open>A small file\<close>

text \<open>A 32-bit file with eight bytes of code at \<open>0x1000\<close> and a \<open>.bss\<close> of sixteen bytes at \<open>0x2000\<close>.\<close>

definition small_elf :: "u8 list" where
  "small_elf =
    [0x7F, 0x45, 0x4C, 0x46, 1, 1, 1, 0, 0, 0, 0, 0, 0, 0, 0, 0, 2, 0, 0xF3, 0, 1, 0, 0, 0, 0, 0x10, 0, 0, 0x34, 0,
      0, 0, 0x6C, 0, 0, 0, 0, 0, 0, 0, 0x34, 0, 0x20, 0, 1, 0, 0x28, 0, 2, 0, 1, 0, 1, 0, 0, 0, 0x54, 0, 0, 0, 0,
      0x10, 0, 0, 0, 0x10, 0, 0, 8, 0, 0, 0, 8, 0, 0, 0, 5, 0, 0, 0, 4, 0, 0, 0, 0x13, 0, 0, 0, 0x67, 0x80, 0, 0, 0,
      0x2E, 0x62, 0x73, 0x73, 0, 0x2E, 0x6E, 0x61, 0x6D, 0x65, 0x73, 0, 0, 0, 0, 1, 0, 0, 0, 8, 0, 0, 0, 3, 0, 0, 0,
      0, 0x20, 0, 0, 0, 0, 0, 0, 0x10, 0, 0, 0, 0, 0, 0, 0, 0, 0, 0, 0, 1, 0, 0, 0, 0, 0, 0, 0, 6, 0, 0, 0, 3, 0, 0,
      0, 0, 0, 0, 0, 0, 0, 0, 0, 0x5C, 0, 0, 0, 0xD, 0, 0, 0, 0, 0, 0, 0, 0, 0, 0, 0, 1, 0, 0, 0, 0, 0, 0, 0]"

lemma small_elf_fields:
  "fld small_elf 28 4 = 52"
  "fld small_elf 32 4 = 108"
  "fld small_elf 42 2 = 32"
  "fld small_elf 44 2 = 1"
  "fld small_elf 46 2 = 40"
  "fld small_elf 48 2 = 2"
  "fld small_elf 50 2 = 1"
  "fld small_elf 52 4 = 1"
  "fld small_elf 56 4 = 84"
  "fld small_elf 60 4 = 4096"
  "fld small_elf 68 4 = 8"
  "fld small_elf 108 4 = 1"
  "fld small_elf 120 4 = 8192"
  "fld small_elf 124 4 = 0"
  "fld small_elf 128 4 = 16"
  "fld small_elf 148 4 = 6"
  "fld small_elf 160 4 = 0"
  "fld small_elf 164 4 = 92"
  "fld small_elf 168 4 = 13"
  "fld small_elf 24 4 = 4096"
  by (simp_all add: fld_def small_elf_def)

lemma small_elf_simps:
  "length small_elf = 188" "phnum ELF32 small_elf = 1" "shnum ELF32 small_elf = 2" "shstrndx ELF32 small_elf = 1"
  "phdr_at ELF32 small_elf 0 = 52" "shdr_at ELF32 small_elf 0 = 108" "shdr_at ELF32 small_elf (Suc 0) = 148"
  "name_at ELF32 small_elf 108 = 93" "name_at ELF32 small_elf 148 = 98"
  by (simp_all add: phnum_def shnum_def shstrndx_def phdr_at_def shdr_at_def name_at_def elf_format_def small_elf_fields)
     (simp add: small_elf_def)

lemma small_elf_names: "cstring small_elf 93 = map of_char ''.bss''" "0 \<in> set (drop 93 small_elf)" "0 \<in> set (drop 98 small_elf)"
  by (simp_all add: cstring_def small_elf_def)

lemma small_elf_bss: "bss_range ELF32 small_elf = Some (0x2000, 16)"
proof -
  have "[0..<2] = [0, 1 :: nat]" by (simp add: upt_rec)
  then show ?thesis
    by (simp add: bss_range_def find_section_def small_elf_simps small_elf_names elf_format_def small_elf_fields)
qed

lemma small_elf_ok: "elf_ok ELF32 small_elf"
proof -
  have "[0..<2] = [0, 1 :: nat]" by (simp add: upt_rec)
  then show ?thesis
    by (simp add: elf_ok_def segments_ok_def sections_ok_def segment_ok_def small_elf_simps small_elf_names small_elf_bss elf_format_def
        small_elf_fields)
qed

lemma small_elf_image:
  "image ELF32 small_elf f = write_bytes f 0x1000 [0x13, 0, 0, 0, 0x67, 0x80, 0, 0]"
proof -
  have "take 8 (drop 84 small_elf) = [0x13, 0, 0, 0, 0x67, 0x80, 0, 0]" by (simp add: small_elf_def)
  then show ?thesis by (simp add: image_def small_elf_simps segment_def elf_format_def small_elf_fields store_segment_def)
qed

lemma small_elf_class: "file_class small_elf = ELF32"
  by (simp add: file_class_def small_elf_def)

section \<open>Properties\<close>

text \<open>C14: Loading an ELF file, 32-bit or 64-bit, whose headers, names and segments lie inside the file and whose \<open>.bss\<close> ends below
  \<open>2^32\<close> returns, reports the class of the file, and leaves memory as before but for the loadable segments, written in the order of the program
  headers at their virtual addresses, and the section \<open>.bss\<close>, which is zero.\<close>

theorem elf_loader_correct:
  assumes "mem_wf m" "elf_ok (file_class program) program"
  shows "\<exists>m'. LoadElfFile program m = Some (Inr (file_class program = ELF64, m')) \<and> mem_wf m' \<and>
    mem_abs m' = clear_range (bss_range (file_class program) program) (image (file_class program) program (mem_abs m))"
  by (rule LoadElfFile_abs [OF assms])

theorem elf_loader_correct_witness:
  "\<exists>m'. LoadElfFile small_elf MemoryWrapper = Some (Inr (False, m')) \<and> mem_wf m' \<and>
     mem_abs m' = write_bytes (write_bytes (mem_abs MemoryWrapper) 0x1000 [0x13, 0, 0, 0, 0x67, 0x80, 0, 0]) 0x2000 (replicate 16 0)"
  using elf_loader_correct [OF mem_wf_MemoryWrapper, of small_elf] small_elf_ok
  by (simp add: small_elf_class small_elf_bss small_elf_image clear_range_def)

text \<open>C35: The loader returns for every 32-bit file with readable headers, and for a 64-bit file exactly when the end of \<open>.bss\<close> (computed in 64
  bits) fits the 32-bit counter of the clearing loop.\<close>

theorem elf_loader_terminates:
  assumes "mem_wf m" "segments_ok k program" "sections_ok k program"
  shows "(\<exists>r. LoadBitElfFile k program m = Some r) \<longleftrightarrow>
    (case bss_range k program of
       None \<Rightarrow> True
     | Some (a, n) \<Rightarrow> k = ELF32 \<or> (a + n) mod 2 ^ 64 < 2 ^ 32)"
proof -
  obtain m1 where "load_segments k program m = Inr m1" "mem_wf m1" using load_segments_abs [OF assms(1,2)] by blast
  with clear_bss_returns_iff [OF _ assms(3), of m1] show ?thesis by (simp add: LoadBitElfFile_def)
qed

theorem elf_loader_terminates_witness: "\<exists>r. LoadBitElfFile ELF32 small_elf MemoryWrapper = Some r"
  using elf_loader_terminates [OF mem_wf_MemoryWrapper, of ELF32 small_elf] small_elf_ok by (simp add: elf_ok_def small_elf_bss)

end
