(* ===== verification/Cpu_Alu_Spec.thy ===== *)
theory Cpu_Alu_Spec
  imports Cpu_Alu
begin

text \<open>
  The arithmetic instructions against a reference semantics.  A 32-bit hart keeps its registers
  sign-extended to 64 bits (\<open>scast\<close> of a 32-bit value); the \<open>W\<close> instructions of a 64-bit hart
  work on the low halves.  The reference operations are the word operations of the register
  width, and the mathematical product and quotient.
\<close>

section \<open>Sign extension\<close>

lemma Sext32bit_eq: "Sext32bit x = scast (ucast x :: u32)"
proof -
  have b: "(drop_bit 31 x AND 1 \<noteq> 0) = bit x 31"
    by (simp add: bit_iff_odd_drop_bit one_and_eq odd_iff_mod_2_eq_one and_one_eq)
  have m: "kUpper32bitMask = NOT (mask 32)" by (simp add: kUpper32bitMask_def mask_eq_exp_minus_1)
  show ?thesis unfolding Sext32bit_def b m
  proof (rule bit_word_eqI)
    fix n
    show "bit (if bit x 31 then x OR NOT (mask 32) else x AND NOT (NOT (mask 32))) n = bit (scast (ucast x :: u32) :: u64) n"
      if "n < LENGTH(64)" using that by (cases "n = 31") (auto simp: bit_simps min_def)
  qed
qed

lemma ucast_scast_id [simp]: "(ucast (scast (x :: u32) :: u64) :: u32) = x"
proof (rule bit_word_eqI)
  fix n show "n < LENGTH(32) \<Longrightarrow> bit (ucast (scast x :: u64) :: u32) n = bit x n"
    by (cases "n = 31") (auto simp: bit_simps min_def)
qed

lemma SignExtend32_eq: "SignExtend (x :: u64) 32 = scast (ucast x :: u32)"
  by (rule bit_word_eqI) (auto simp: SignExtend_eq bit_simps min_def)

lemma sint_scast32: "sint (scast (x :: u32) :: u64) = sint x"
  by (rule bit_eqI) (auto simp: bit_simps min_def)

section \<open>Reference operations\<close>

definition alu_spec :: "code \<Rightarrow> 'a::len word \<Rightarrow> 'a word \<Rightarrow> 'a word" where
  "alu_spec op x y =
     (if op = INST_ADD then x + y
      else if op = INST_SUB then x - y
      else if op = INST_AND then x AND y
      else if op = INST_OR then x OR y
      else if op = INST_XOR then x XOR y
      else if op = INST_SLL then push_bit (unat y mod LENGTH('a)) x
      else if op = INST_SRL then drop_bit (unat y mod LENGTH('a)) x
      else signed_drop_bit (unat y mod LENGTH('a)) x)"

definition base_ops :: "code set" where
  "base_ops = {INST_ADD, INST_SUB, INST_AND, INST_OR, INST_XOR, INST_SLL, INST_SRL, INST_SRA}"

lemma unat_and_31: "unat ((b :: u64) AND 0b11111) = unat b mod 32"
  using unat_mod_take_bit [of b 5] and_mask_take_bit [of b 5] by (simp add: mask_numeral)

lemma unat_and_63: "unat ((b :: u64) AND 0b111111) = unat b mod 64"
  using unat_mod_take_bit [of b 6] and_mask_take_bit [of b 6] by (simp add: mask_numeral)

lemma unat_ucast_mod32: "unat (ucast (b :: u64) :: u32) mod 32 = unat b mod 32"
  by (simp add: unat_ucast32 mod_mod_cancel)

lemma operation64: "op \<in> base_ops \<Longrightarrow> operation_value 64 op a b = Inr (alu_spec op a b)"
  by (auto simp: base_ops_def operation_value_def alu_spec_def w_instruction_def Let_def unat_and_63)

text \<open>The low half of a result depends on the low halves of the operands only.\<close>

lemma ucast32_ops:
  fixes a b :: u64
  shows "(ucast (a + b) :: u32) = ucast a + ucast b" "(ucast (a - b) :: u32) = ucast a - ucast b"
    "(ucast (a AND b) :: u32) = ucast a AND ucast b" "(ucast (a OR b) :: u32) = ucast a OR ucast b"
    "(ucast (a XOR b) :: u32) = ucast a XOR ucast b" "(ucast (push_bit n a) :: u32) = push_bit n (ucast a)"
proof -
  show "(ucast (a + b) :: u32) = ucast a + ucast b" by (rule ucast_down_add) simp
  have "(ucast (a - b) :: u32) + ucast b = ucast a"
    using ucast_down_add [where 'a = 64 and 'b = 32, of "a - b" b] by simp
  then show "(ucast (a - b) :: u32) = ucast a - ucast b" by (simp add: eq_diff_eq)
  show "(ucast (a AND b) :: u32) = ucast a AND ucast b" "(ucast (a OR b) :: u32) = ucast a OR ucast b"
    "(ucast (a XOR b) :: u32) = ucast a XOR ucast b" "(ucast (push_bit n a) :: u32) = push_bit n (ucast a)"
    by (auto intro!: bit_word_eqI simp: bit_simps)
qed

lemma ucast32_srl: "(ucast (drop_bit n (take_bit 32 (a :: u64))) :: u32) = drop_bit n (ucast a)"
  by (rule bit_word_eqI) (auto simp: bit_simps)

lemma bit_sra: "bit (signed_drop_bit n (x :: 'a::len word)) k \<longleftrightarrow> k < LENGTH('a) \<and> bit x (min (LENGTH('a) - 1) (n + k))"
proof (cases "LENGTH('a) - n \<le> k")
  case True
  then have "min (LENGTH('a) - 1) (n + k) = LENGTH('a) - 1" by linarith
  with True show ?thesis by (auto simp: bit_signed_drop_bit_iff dest: bit_imp_le_length)
next
  case False
  then have "min (LENGTH('a) - 1) (n + k) = n + k" "k < LENGTH('a)" by linarith+
  with False show ?thesis by (auto simp: bit_signed_drop_bit_iff)
qed

lemma ucast32_sra:
  assumes "n < 32"
  shows "(ucast (drop_bit n (scast (x :: u32) :: u64)) :: u32) = signed_drop_bit n x"
    and "(ucast (signed_drop_bit n (scast (x :: u32) :: u64)) :: u32) = signed_drop_bit n x"
  using assms by (auto intro!: bit_word_eqI simp: bit_sra bit_ucast_iff bit_drop_bit_eq bit_signed_iff min_def)

lemma operation32:
  assumes "op \<in> base_ops"
  shows "operation_value 32 op (scast x) (scast y) = Inr (scast (alu_spec op x (y :: u32)))"
proof -
  have sh: "unat (scast y AND 0b11111 :: u64) = unat y mod 32"
    using unat_ucast_mod32 [of "scast y"] by (simp add: unat_and_31)
  show ?thesis
    using assms ucast32_sra [of "unat y mod 32" x] unfolding base_ops_def
    by (auto simp: operation_value_def alu_spec_def w_instruction_def Let_def sh Sext32bit_eq and_literal_masks ucast32_ops ucast32_srl)
qed

text \<open>The instruction of a 64-bit hart that works on the low halves.\<close>

definition word_ops :: "(code \<times> code) list" where
  "word_ops = [(INST_ADDW, INST_ADD), (INST_SUBW, INST_SUB), (INST_SLLW, INST_SLL), (INST_SRLW, INST_SRL),
     (INST_SRAW, INST_SRA)]"

lemma operationW:
  assumes "(wop, op) \<in> set word_ops"
  shows "operation_value xlen wop a b = Inr (scast (alu_spec op (ucast a) (ucast b :: u32)))"
proof -
  have sh: "unat (b AND 0b11111) = unat (ucast b :: u32) mod 32"
    by (simp add: unat_and_31 unat_ucast_mod32)
  show ?thesis
    using assms ucast32_sra(1) [of "unat (ucast b :: u32) mod 32" "ucast a"] unfolding word_ops_def
    by (auto simp: operation_value_def alu_spec_def w_instruction_def Let_def sh Sext32bit_eq and_literal_masks ucast32_ops ucast32_srl)
qed

section \<open>High half of a product\<close>

text \<open>Schoolbook multiplication in base \<open>2^32\<close>: the high half of a product of two-digit numbers.\<close>

lemma schoolbook_high:
  fixes A B C D :: int
  assumes "B * D = Q * 2 ^ 32 + R" "0 \<le> R" "R < 2 ^ 32"
  shows "((A * 2 ^ 32 + B) * (C * 2 ^ 32 + D)) div 2 ^ 64 =
    A * C + (A * D) div 2 ^ 32 + (B * C) div 2 ^ 32 + ((A * D) mod 2 ^ 32 + (B * C) mod 2 ^ 32 + Q) div 2 ^ 32"
proof -
  define p q p' q' where pq: "p = (A * D) div 2 ^ 32" "q = (A * D) mod 2 ^ 32" "p' = (B * C) div 2 ^ 32" "q' = (B * C) mod 2 ^ 32"
  define S where "S = q + q' + Q"
  have AD: "A * D = p * 2 ^ 32 + q" and BC: "B * C = p' * 2 ^ 32 + q'" by (simp_all add: pq)
  have "(A * 2 ^ 32 + B) * (C * 2 ^ 32 + D) = (A * C) * 2 ^ 64 + (A * D + B * C) * 2 ^ 32 + B * D"
    by (simp add: algebra_simps)
  also have "\<dots> = (S * 2 ^ 32 + R) + (A * C + p + p') * 2 ^ 64"
    unfolding AD BC assms(1) S_def by (simp add: algebra_simps)
  finally have "((A * 2 ^ 32 + B) * (C * 2 ^ 32 + D)) div 2 ^ 64 = A * C + p + p' + (S * 2 ^ 32 + R) div 2 ^ 64"
    by (simp only: div_mult_self1 power_not_zero zero_neq_numeral not_False_eq_True)
  moreover have "(S * 2 ^ 32 + R) div 2 ^ 64 = (S * 2 ^ 32 + R) div 2 ^ 32 div 2 ^ 32"
  proof -
    have "(2 :: int) ^ 64 = 2 ^ 32 * 2 ^ 32" by simp
    then show ?thesis by (simp only: zdiv_zmult2_eq [of "2 ^ 32"] zero_le_power zero_le_numeral)
  qed
  moreover have "(S * 2 ^ 32 + R) div 2 ^ 32 = S" using assms(2,3) by simp
  ultimately show ?thesis by (simp only: S_def pq)
qed

lemma uint_low32: "uint ((x :: u64) AND 0xFFFFFFFF) = uint x mod 2 ^ 32"
  by (simp only: and_literal_masks unsigned_take_bit_eq) (simp add: take_bit_eq_mod)

lemma uint_high32: "uint (drop_bit 32 (x :: u64)) = uint x div 2 ^ 32"
  by (simp add: drop_bit_eq_div uint_div_distrib)

lemma sint_high32: "sint (signed_drop_bit 32 (x :: u64)) = sint x div 2 ^ 32"
  by (simp only: sint_signed_drop_bit_eq drop_bit_eq_div)

lemma sint_low32: "sint (x :: u64) mod 2 ^ 32 = uint x mod 2 ^ 32"
proof -
  have "take_bit 32 (sint x) = take_bit 32 (uint x)"
    by (rule bit_eqI) (auto simp: bit_simps min_def)
  then show ?thesis by (simp only: take_bit_eq_mod)
qed

lemma and_low_of_int: "((of_int x :: u64) AND 0xFFFFFFFF) = of_int (x mod 2 ^ 32)"
proof -
  have "uint ((of_int x :: u64) AND 0xFFFFFFFF) = x mod 2 ^ 64 mod 2 ^ 32"
    by (simp only: uint_low32) (simp add: uint_word_of_int_eq take_bit_eq_mod)
  also have "\<dots> = x mod 2 ^ 32" by (simp add: mod_mod_cancel)
  finally show ?thesis by (metis word_of_int_uint)
qed

lemma uhigh_of_int: "0 \<le> x \<Longrightarrow> x < 2 ^ 64 \<Longrightarrow> drop_bit 32 (of_int x :: u64) = of_int (x div 2 ^ 32)"
  by (rule word_uint_eqI) (simp add: uint_high32 uint_word_of_int_eq take_bit_int_eq_self pos_imp_zdiv_nonneg_iff)

lemma shigh_of_int:
  assumes "- (2 ^ 63) \<le> x" "x < 2 ^ 63"
  shows "signed_drop_bit 32 (of_int x :: u64) = of_int (x div 2 ^ 32)"
proof -
  have "sint (of_int x :: u64) = x"
    using assms by (simp add: signed_of_int signed_take_bit_int_eq_self)
  then have "sint (signed_drop_bit 32 (of_int x :: u64)) = x div 2 ^ 32" by (simp only: sint_high32)
  then have "of_int (sint (signed_drop_bit 32 (of_int x :: u64))) = (of_int (x div 2 ^ 32) :: u64)" by (simp only:)
  then show ?thesis by (simp only: of_int_sint scast_id)
qed

text \<open>The digits of the operands.\<close>

lemma digits:
  fixes x :: u64
  shows digit_uhigh: "drop_bit 32 x = of_int (uint x div 2 ^ 32)"
    and digit_shigh: "signed_drop_bit 32 x = of_int (sint x div 2 ^ 32)"
    and digit_ulow: "x AND 0xFFFFFFFF = of_int (uint x mod 2 ^ 32)"
    and digit_slow: "x AND 0xFFFFFFFF = of_int (sint x mod 2 ^ 32)"
proof -
  show "drop_bit 32 x = of_int (uint x div 2 ^ 32)" by (simp only: uint_high32 [symmetric] of_int_uint ucast_id)
  show "signed_drop_bit 32 x = of_int (sint x div 2 ^ 32)" by (simp only: sint_high32 [symmetric] of_int_sint scast_id)
  show "x AND 0xFFFFFFFF = of_int (uint x mod 2 ^ 32)" by (simp only: uint_low32 [symmetric] of_int_uint ucast_id)
  then show "x AND 0xFFFFFFFF = of_int (sint x mod 2 ^ 32)" by (simp only: sint_low32)
qed

lemma sint64_bounds: "- (2 ^ 63) \<le> sint (x :: u64)" "sint x < 2 ^ 63"
  using sint_greater_eq [of x] sint_less [of x] by simp_all

lemma uint64_bounds: "0 \<le> uint (x :: u64)" "uint x < 2 ^ 64"
  using uint_range_size [of x] by (simp_all add: word_size)

lemma digit_bounds:
  fixes x :: u64
  shows "0 \<le> uint x div 2 ^ 32" "uint x div 2 ^ 32 \<le> 2 ^ 32 - 1"
    "- (2 ^ 31) \<le> sint x div 2 ^ 32" "sint x div 2 ^ 32 \<le> 2 ^ 31 - 1"
    "0 \<le> y mod 2 ^ 32" "y mod 2 ^ 32 \<le> (2 :: int) ^ 32 - 1"
  using uint64_bounds [of x] sint64_bounds [of x] by (auto simp: pos_imp_zdiv_nonneg_iff)

text \<open>The carry word of the schoolbook sum.\<close>

lemma carry_word:
  fixes ad bc bd :: int
  assumes "0 \<le> bd" "bd < 2 ^ 64"
  shows "drop_bit 32 (((of_int ad :: u64) AND 0xFFFFFFFF) + ((of_int bc) AND 0xFFFFFFFF) + drop_bit 32 (of_int bd)) =
    of_int ((ad mod 2 ^ 32 + bc mod 2 ^ 32 + bd div 2 ^ 32) div 2 ^ 32)"
proof -
  define q r s where "q = ad mod 2 ^ 32" and "r = bc mod 2 ^ 32" and "s = bd div 2 ^ 32"
  have "s < 2 ^ 32" "0 \<le> s" using assms by (simp_all add: s_def pos_imp_zdiv_nonneg_iff)
  moreover have "q < 2 ^ 32" "0 \<le> q" "r < 2 ^ 32" "0 \<le> r" by (simp_all add: q_def r_def)
  ultimately have "0 \<le> q + r + s" "q + r + s < 2 ^ 64" by simp_all
  from uhigh_of_int [OF this] show ?thesis
    by (simp only: and_low_of_int uhigh_of_int [OF assms] of_int_add q_def r_def s_def)
qed

text \<open>The product of two digits within the ranges of the code's \<open>int64_t\<close> and \<open>uint64_t\<close>.\<close>

lemma udigit_mult:
  fixes x y :: int
  assumes "0 \<le> x" "x \<le> 2 ^ 32 - 1" "0 \<le> y" "y \<le> 2 ^ 32 - 1"
  shows "0 \<le> x * y" "x * y < 2 ^ 64"
proof -
  show "0 \<le> x * y" using assms by simp
  have "x * y \<le> (2 ^ 32 - 1) * (2 ^ 32 - 1)" using assms by (intro mult_mono) simp_all
  then show "x * y < 2 ^ 64" by simp
qed

lemma sdigit_mult:
  fixes x y :: int
  assumes "- (2 ^ 31) \<le> x" "x \<le> 2 ^ 31 - 1" "0 \<le> y" "y \<le> 2 ^ 32 - 1"
  shows "- (2 ^ 63) \<le> x * y" "x * y < 2 ^ 63"
proof -
  have "x * y \<le> (2 ^ 31 - 1) * y" using assms by (intro mult_right_mono) simp_all
  moreover have "(2 ^ 31 - 1) * y \<le> (2 ^ 31 - 1) * (2 ^ 32 - 1)" using assms by simp
  ultimately show "x * y < 2 ^ 63" by simp
  have "(- (2 ^ 31)) * y \<le> x * y" using assms by (intro mult_right_mono) simp_all
  moreover have "(- (2 ^ 31)) * (2 ^ 32 - 1) \<le> (- (2 ^ 31)) * y" using assms by simp
  ultimately show "- (2 ^ 63) \<le> x * y" by simp
qed

text \<open>The schoolbook scheme, for any choice of signed or unsigned operands.\<close>

lemma schoolbook_word:
  fixes X Y :: int
  defines "A \<equiv> X div 2 ^ 32" and "B \<equiv> X mod 2 ^ 32" and "C \<equiv> Y div 2 ^ 32" and "D \<equiv> Y mod 2 ^ 32"
  shows "(of_int (A * C) :: u64) + of_int ((A * D) div 2 ^ 32) + of_int ((B * C) div 2 ^ 32) +
      drop_bit 32 (((of_int (A * D) :: u64) AND 0xFFFFFFFF) + ((of_int (B * C)) AND 0xFFFFFFFF) + drop_bit 32 (of_int (B * D))) =
    of_int ((X * Y) div 2 ^ 64)"
proof -
  have bd: "0 \<le> B * D" "B * D < 2 ^ 64"
    using udigit_mult [of B D] digit_bounds(5,6) unfolding B_def D_def by blast+
  have X: "X = A * 2 ^ 32 + B" and Y: "Y = C * 2 ^ 32 + D" by (simp_all add: A_def B_def C_def D_def)
  have "(B * D) = (B * D) div 2 ^ 32 * 2 ^ 32 + (B * D) mod 2 ^ 32" "0 \<le> (B * D) mod 2 ^ 32" "(B * D) mod 2 ^ 32 < 2 ^ 32"
    by simp_all
  from schoolbook_high [OF this, of A C]
  have "(X * Y) div 2 ^ 64 = A * C + (A * D) div 2 ^ 32 + (B * C) div 2 ^ 32 +
      ((A * D) mod 2 ^ 32 + (B * C) mod 2 ^ 32 + (B * D) div 2 ^ 32) div 2 ^ 32"
    by (simp only: X [symmetric] Y [symmetric])
  then show ?thesis by (simp only: carry_word [OF bd] of_int_add)
qed

lemma GetMulhu64_eq: "GetMulhu64 x y = of_int ((uint x * uint y) div 2 ^ 64)"
proof -
  note b = digit_bounds(1,2) digit_bounds(5,6)
  have ad: "drop_bit 32 (of_int (uint x div 2 ^ 32 * (uint y mod 2 ^ 32)) :: u64) = of_int (uint x div 2 ^ 32 * (uint y mod 2 ^ 32) div 2 ^ 32)"
    by (rule uhigh_of_int) (rule udigit_mult; rule b)+
  have bc: "drop_bit 32 (of_int (uint x mod 2 ^ 32 * (uint y div 2 ^ 32)) :: u64) = of_int (uint x mod 2 ^ 32 * (uint y div 2 ^ 32) div 2 ^ 32)"
    by (rule uhigh_of_int) (rule udigit_mult; rule b)+
  show ?thesis
    unfolding GetMulhu64_def Let_def digit_uhigh [of x] digit_uhigh [of y] digit_ulow [of x] digit_ulow [of y]
      of_int_mult [symmetric] ad bc by (rule schoolbook_word)
qed

lemma GetMulh64_eq: "GetMulh64 x y = of_int ((sint x * sint y) div 2 ^ 64)"
proof -
  note b = digit_bounds(3,4) digit_bounds(5,6)
  have ad: "signed_drop_bit 32 (of_int (sint x div 2 ^ 32 * (sint y mod 2 ^ 32)) :: u64) = of_int (sint x div 2 ^ 32 * (sint y mod 2 ^ 32) div 2 ^ 32)"
    by (rule shigh_of_int) (rule sdigit_mult; rule b)+
  have bc: "signed_drop_bit 32 (of_int (sint x mod 2 ^ 32 * (sint y div 2 ^ 32)) :: u64) = of_int (sint x mod 2 ^ 32 * (sint y div 2 ^ 32) div 2 ^ 32)"
    unfolding mult.commute [of "sint x mod 2 ^ 32"] by (rule shigh_of_int) (rule sdigit_mult; rule b)+
  show ?thesis
    unfolding GetMulh64_def Let_def digit_shigh [of x] digit_shigh [of y] digit_slow [of x] digit_slow [of y]
      of_int_mult [symmetric] ad bc by (rule schoolbook_word)
qed

lemma GetMulhsu64_eq: "GetMulhsu64 x y = of_int ((sint x * uint y) div 2 ^ 64)"
proof -
  note b = digit_bounds
  have ad: "signed_drop_bit 32 (of_int (sint x div 2 ^ 32 * (uint y mod 2 ^ 32)) :: u64) = of_int (sint x div 2 ^ 32 * (uint y mod 2 ^ 32) div 2 ^ 32)"
    by (rule shigh_of_int) (rule sdigit_mult; rule b)+
  have bc: "drop_bit 32 (of_int (sint x mod 2 ^ 32 * (uint y div 2 ^ 32)) :: u64) = of_int (sint x mod 2 ^ 32 * (uint y div 2 ^ 32) div 2 ^ 32)"
    by (rule uhigh_of_int) (rule udigit_mult; rule b)+
  show ?thesis
    unfolding GetMulhsu64_def Let_def digit_shigh [of x] digit_uhigh [of y] digit_slow [of x] digit_ulow [of y]
      of_int_mult [symmetric] ad bc by (rule schoolbook_word)
qed

end
