(* ===== verification/Cpu_Mult_Spec.thy ===== *)
theory Cpu_Mult_Spec
  imports Cpu_Alu_Spec
begin

text \<open>
  Multiplication and division against the mathematical product and quotient, for the three
  shapes of the instructions: 64-bit hart, 32-bit hart, and the \<open>W\<close> forms of a 64-bit hart.
\<close>

section \<open>Reference operations\<close>

definition mult_spec :: "code \<Rightarrow> 'a::len word \<Rightarrow> 'a word \<Rightarrow> 'a word" where
  "mult_spec op x y =
     (if op = INST_MUL then x * y
      else if op = INST_MULH then of_int ((sint x * sint y) div 2 ^ LENGTH('a))
      else if op = INST_MULHSU then of_int ((sint x * uint y) div 2 ^ LENGTH('a))
      else if op = INST_MULHU then of_int ((uint x * uint y) div 2 ^ LENGTH('a))
      else if op = INST_DIV then (if y = 0 then - 1 else of_int (sint x sdiv sint y))
      else if op = INST_DIVU then (if y = 0 then - 1 else x div y)
      else if op = INST_REM then (if y = 0 then x else of_int (sint x smod sint y))
      else (if y = 0 then x else x mod y))"

definition mult_ops :: "code set" where
  "mult_ops = {INST_MUL, INST_MULH, INST_MULHSU, INST_MULHU, INST_DIV, INST_DIVU, INST_REM, INST_REMU}"

section \<open>Division\<close>

lemma sint_eq_0 [simp]: "sint (y :: 'a::len word) = 0 \<longleftrightarrow> y = 0"
  by (metis of_int_sint of_int_0 scast_id signed_0)

lemma most_negative_64: "push_bit 63 1 = (of_int (- (2 ^ 63)) :: u64)" by simp

lemma sint_most_negative_64: "sint (a :: u64) = - (2 ^ 63) \<longleftrightarrow> a = push_bit 63 1"
proof
  assume "sint a = - (2 ^ 63)"
  then have "of_int (sint a) = (of_int (- (2 ^ 63)) :: u64)" by (simp only:)
  then show "a = push_bit 63 1" by (simp only: of_int_sint scast_id most_negative_64)
next
  assume a: "a = push_bit 63 1"
  show "sint a = - (2 ^ 63)"
    unfolding a most_negative_64 by (simp add: signed_of_int signed_take_bit_int_eq_self del: of_int_minus of_int_power of_int_numeral)
qed

lemma sdiv_minus_1: "(x :: int) sdiv - 1 = - x"
  by (simp add: signed_divide_int_def sgn_if)

lemma smod_minus_1: "(x :: int) smod - 1 = 0"
  by (simp add: signed_modulo_int_def sdiv_minus_1)

lemma smod_1: "(x :: int) smod 1 = 0"
  by (simp add: signed_modulo_int_def signed_divide_int_def sgn_if)

lemma mult_div_64:
  "div_value 64 INST_DIV x y = Inr (mult_spec INST_DIV x y)"
  "div_value 64 INST_DIVU x y = Inr (mult_spec INST_DIVU x y)"
  "rem_value 64 INST_REM x y = Inr (mult_spec INST_REM x y)"
  "rem_value 64 INST_REMU x y = Inr (mult_spec INST_REMU x y)"
proof -
  have m: "(of_int (- sint x) :: u64) = push_bit 63 1" if "x = push_bit 63 1"
    using sint_most_negative_64 [of x] that by simp
  show "div_value 64 INST_DIV x y = Inr (mult_spec INST_DIV x y)"
    unfolding div_value_def mult_spec_def sdiv64_def Let_def
    using sint_most_negative_64 [of x] m by (auto simp: sdiv_minus_1)
  show "rem_value 64 INST_REM x y = Inr (mult_spec INST_REM x y)"
    unfolding rem_value_def mult_spec_def smod64_def Let_def
    using sint_most_negative_64 [of x] by (auto simp: smod_minus_1 smod_1)
qed (simp_all add: div_value_def rem_value_def mult_spec_def udiv64_def umod64_def Let_def)

lemma mult64: "op \<in> mult_ops \<Longrightarrow> mult_value 64 op x y = Inr (mult_spec op x y)"
  unfolding mult_ops_def mult_value_def
  by (elim insertE emptyE)
    (simp_all add: mult_div_64, simp_all add: mul_value_def mult_spec_def GetMulh64_eq GetMulhsu64_eq GetMulhu64_eq)

section \<open>32-bit operands\<close>

lemma ucast32_of_int [simp]: "(ucast (of_int z :: u64) :: u32) = of_int z"
  by (transfer fixing: z) (simp add: take_bit_take_bit)

lemma scast_as_of_int: "(scast (x :: u32) :: u64) = of_int (sint x)"
  by (simp add: of_int_sint)

lemma ucast_as_of_int: "(ucast (x :: u32) :: u64) = of_int (uint x)"
  by (simp add: of_int_uint)

lemma low_scast: "(scast (x :: u32) :: u64) AND 0xFFFFFFFF = ucast x"
proof (rule bit_word_eqI)
  fix n
  show "n < LENGTH(64) \<Longrightarrow> bit ((scast x :: u64) AND 0xFFFFFFFF) n = bit (ucast x :: u64) n"
    unfolding and_literal_masks by (cases "n = 31") (auto simp: bit_simps min_def dest: bit_imp_le_length)
qed

lemma ucast32_high: "(ucast (drop_bit 32 (w :: u64)) :: u32) = ucast (signed_drop_bit 32 w)"
proof (rule bit_word_eqI)
  fix n
  show "n < LENGTH(32) \<Longrightarrow> bit (ucast (drop_bit 32 w) :: u32) n = bit (ucast (signed_drop_bit 32 w) :: u32) n"
    by (cases "n = 31") (auto simp: bit_sra bit_ucast_iff bit_drop_bit_eq min_def)
qed

lemma sint32_bounds: "- (2 ^ 31) \<le> sint (x :: u32)" "sint x \<le> 2 ^ 31 - 1"
  using sint_greater_eq [of x] sint_less [of x] by simp_all

lemma uint32_bounds: "0 \<le> uint (x :: u32)" "uint x \<le> 2 ^ 32 - 1"
  using uint_range_size [of x] by (simp_all add: word_size)

lemma ssdigit_mult:
  fixes x y :: u32
  shows "- (2 ^ 63) \<le> sint x * sint y" "sint x * sint y < 2 ^ 63"
proof -
  have "\<bar>sint x * sint y\<bar> \<le> 2 ^ 31 * 2 ^ 31"
    unfolding abs_mult using sint32_bounds [of x] sint32_bounds [of y] by (intro mult_mono) simp_all
  then show "- (2 ^ 63) \<le> sint x * sint y" "sint x * sint y < 2 ^ 63" by (simp_all add: abs_le_iff)
qed

lemma mul_32:
  "ucast (mul_value 32 INST_MUL (scast x) (scast y)) = mult_spec INST_MUL x (y :: u32)"
  "ucast (mul_value 32 INST_MULH (scast x) (scast y)) = mult_spec INST_MULH x (y :: u32)"
  "ucast (mul_value 32 INST_MULHSU (scast x) (scast y)) = mult_spec INST_MULHSU x (y :: u32)"
  "ucast (mul_value 32 INST_MULHU (scast x) (scast y)) = mult_spec INST_MULHU x (y :: u32)"
proof -
  have p: "(scast x :: u64) * scast y = of_int (sint x * sint y)" "(scast x :: u64) * ucast y = of_int (sint x * uint y)"
    "(ucast x :: u64) * ucast y = of_int (uint x * uint y)"
    by (simp_all only: scast_as_of_int ucast_as_of_int of_int_mult)
  note b = sint32_bounds uint32_bounds
  have h: "signed_drop_bit 32 (of_int (sint x * sint y) :: u64) = of_int (sint x * sint y div 2 ^ 32)"
    "signed_drop_bit 32 (of_int (sint x * uint y) :: u64) = of_int (sint x * uint y div 2 ^ 32)"
    "drop_bit 32 (of_int (uint x * uint y) :: u64) = of_int (uint x * uint y div 2 ^ 32)"
    by ((rule shigh_of_int; rule ssdigit_mult), (rule shigh_of_int; rule sdigit_mult; rule b),
        (rule uhigh_of_int; rule udigit_mult; rule b))
  show "ucast (mul_value 32 INST_MUL (scast x) (scast y)) = mult_spec INST_MUL x y"
  proof -
    have "ucast (mul_value 32 INST_MUL (scast x) (scast y)) = (of_int (sint x * sint y) :: u32)"
      by (simp add: mul_value_def p(1) del: of_int_mult)
    also have "\<dots> = x * y" by (simp only: of_int_mult of_int_sint scast_id)
    finally show ?thesis by (simp add: mult_spec_def)
  qed
  show "ucast (mul_value 32 INST_MULH (scast x) (scast y)) = mult_spec INST_MULH x y"
    by (simp add: mul_value_def p(1) h(1) mult_spec_def del: of_int_mult)
  show "ucast (mul_value 32 INST_MULHSU (scast x) (scast y)) = mult_spec INST_MULHSU x y"
    by (simp add: mul_value_def low_scast p(2) ucast32_high h(2) mult_spec_def del: of_int_mult)
  show "ucast (mul_value 32 INST_MULHU (scast x) (scast y)) = mult_spec INST_MULHU x y"
    by (simp add: mul_value_def low_scast p(3) h(3) mult_spec_def del: of_int_mult)
qed

lemma uint_ucast64: "uint (ucast (x :: u32) :: u64) = uint x"
  using uint32_bounds [of x] by (simp add: unsigned_ucast_eq take_bit_int_eq_self)

lemma ucast_ucast_id [simp]: "(ucast (ucast (x :: u32) :: u64) :: u32) = x"
  by (simp add: ucast_down_ucast)

lemma ucast32_minus_1 [simp]: "(ucast (- 1 :: u64) :: u32) = - 1"
  by (rule bit_word_eqI) (simp add: bit_ucast_iff)

lemma ucast_div32:
  fixes x y :: u32
  shows "ucast ((ucast x :: u64) div ucast y) = x div y" "ucast ((ucast x :: u64) mod ucast y) = x mod y"
proof -
  have "(ucast x :: u64) div ucast y = ucast (x div y)" "(ucast x :: u64) mod ucast y = ucast (x mod y)"
    by (rule word_uint_eqI; simp add: uint_div_distrib uint_mod_distrib uint_ucast64)+
  then show "ucast ((ucast x :: u64) div ucast y) = x div y" "ucast ((ucast x :: u64) mod ucast y) = x mod y"
    by simp_all
qed

lemma scast_eq_0 [simp]: "(scast (y :: u32) :: u64) = 0 \<longleftrightarrow> y = 0"
  by (metis scast_0 ucast_scast_id ucast_0)

lemma ucast64_eq_0 [simp]: "(ucast (y :: u32) :: u64) = 0 \<longleftrightarrow> y = 0"
  using uint_ucast64 [of y] by (metis uint_0_iff)

lemma scast_not_2_31: "(scast (x :: u32) :: u64) \<noteq> push_bit 31 1"
proof
  assume "(scast x :: u64) = push_bit 31 1"
  then have "sint (scast x :: u64) = sint (push_bit 31 1 :: u64)" by simp
  then show False using sint32_bounds [of x] by (simp add: sint_scast32)
qed

text \<open>Signed quotients of 32-bit values, computed in 64 bits.\<close>

lemma sdiv64_scast:
  fixes x y :: u32
  assumes "y \<noteq> 0"
  shows "sdiv64 (scast x) (scast y) = Inr (of_int (sint x sdiv sint y))"
    "smod64 (scast x) (scast y) = Inr (of_int (sint x smod sint y))"
  using assms sint32_bounds [of x] by (simp_all add: sdiv64_def smod64_def sint_scast32)

lemma udiv64_ucast:
  fixes x y :: u32
  assumes "y \<noteq> 0"
  shows "udiv64 (ucast x) (ucast y) = Inr (ucast x div ucast y)" "umod64 (ucast x) (ucast y) = Inr (ucast x mod ucast y)"
  using assms by (simp_all add: udiv64_def umod64_def)

definition low_result :: "u64 res \<Rightarrow> u32 res" where
  "low_result r = rbind r (\<lambda>v. Inr (ucast v))"

lemma low_resultD: "low_result r = Inr z \<Longrightarrow> rbind r (\<lambda>v. Inr (scast (ucast v :: u32) :: u64)) = Inr (scast z)"
  by (cases r) (simp_all add: low_result_def)

lemma low_result_Inr [simp]: "low_result (Inr v) = Inr (ucast v)"
  by (simp add: low_result_def)

lemma div_32:
  "low_result (div_value 32 INST_DIV (scast x) (scast y)) = Inr (mult_spec INST_DIV x y)"
  "low_result (div_value 32 INST_DIVU (scast x) (scast y)) = Inr (mult_spec INST_DIVU x y)"
  "low_result (rem_value 32 INST_REM (scast x) (scast y)) = Inr (mult_spec INST_REM x y)"
  "low_result (rem_value 32 INST_REMU (scast x) (scast y)) = Inr (mult_spec INST_REMU x y)"
proof -
  have f: "(sint (scast y :: u64) = - 1 \<and> scast x = (push_bit (32 - 1) 1 :: u64)) = False" using scast_not_2_31 [of x] by simp
  show "low_result (div_value 32 INST_DIV (scast x) (scast y)) = Inr (mult_spec INST_DIV x y)"
    unfolding div_value_def Let_def f by (cases "y = 0") (simp_all add: mult_spec_def sdiv64_scast)
  show "low_result (rem_value 32 INST_REM (scast x) (scast y)) = Inr (mult_spec INST_REM x y)"
    unfolding rem_value_def Let_def f by (cases "y = 0") (simp_all add: mult_spec_def sdiv64_scast)
qed (cases "y = 0"; simp add: div_value_def rem_value_def mult_spec_def low_scast udiv64_ucast ucast_div32)+

lemma mult32:
  assumes "op \<in> mult_ops"
  shows "mult_value 32 op (scast x) (scast y) = Inr (scast (mult_spec op x (y :: u32)))"
proof -
  show ?thesis
    using assms unfolding mult_ops_def mult_value_def
    by (elim insertE emptyE) (simp_all add: low_resultD [OF div_32(1)] low_resultD [OF div_32(2)] low_resultD [OF div_32(3)]
        low_resultD [OF div_32(4)] Sext32bit_eq mul_32)
qed

section \<open>The word forms\<close>

definition mult_word_ops :: "(code \<times> code) list" where
  "mult_word_ops = [(INST_MULW, INST_MUL), (INST_DIVW, INST_DIV), (INST_DIVUW, INST_DIVU), (INST_REMW, INST_REM),
     (INST_REMUW, INST_REMU)]"

lemma low_ucast: "(a :: u64) AND 0xFFFFFFFF = ucast (ucast a :: u32)"
  unfolding and_literal_masks by (rule bit_word_eqI) (auto simp: bit_simps)

lemma ucast32_mult: "(ucast (a * b :: u64) :: u32) = ucast a * ucast b"
proof -
  have "(ucast (a * b) :: u32) = ucast (of_int (uint a * uint b) :: u64)"
    by (simp only: of_int_mult of_int_uint ucast_id)
  also have "\<dots> = ucast a * ucast b" by (subst ucast32_of_int) (simp only: of_int_mult of_int_uint)
  finally show ?thesis .
qed

lemma sint_ucast_most_negative: "sint (ucast (push_bit 31 1 :: u64) :: u32) = - (2 ^ 31)" by simp

lemma sint_ucast_minus_1: "sint (b :: u64) = - 1 \<Longrightarrow> sint (ucast b :: u32) = - 1"
proof -
  assume "sint b = - 1"
  then have "b = - 1" by (metis of_int_sint scast_id of_int_minus of_int_1)
  then show ?thesis by simp
qed

lemma divW:
  assumes "b = 0 \<or> (ucast b :: u32) \<noteq> 0"
  shows "low_result (div_value xlen INST_DIVW a b) = Inr (mult_spec INST_DIV (ucast a) (ucast b))"
    "low_result (div_value xlen INST_DIVUW a b) = Inr (mult_spec INST_DIVU (ucast a) (ucast b))"
    "low_result (rem_value xlen INST_REMW a b) = Inr (mult_spec INST_REM (ucast a) (ucast b))"
    "low_result (rem_value xlen INST_REMUW a b) = Inr (mult_spec INST_REMU (ucast a) (ucast b))"
  using assms sint_ucast_minus_1 [of b]
  by (auto simp: low_result_def div_value_def rem_value_def mult_spec_def Let_def SignExtend32_eq sdiv64_scast
      low_ucast udiv64_ucast ucast_div32 sdiv_minus_1 smod_1 smod_minus_1)

lemma multW:
  assumes "(wop, op) \<in> set mult_word_ops" "b = 0 \<or> (ucast b :: u32) \<noteq> 0"
  shows "mult_value xlen wop a b = Inr (scast (mult_spec op (ucast a) (ucast b :: u32)))"
proof -
  show ?thesis
    using assms(1) unfolding mult_word_ops_def mult_value_def
    by (auto simp: divW [OF assms(2), THEN low_resultD] Sext32bit_eq mul_value_def mult_spec_def [of INST_MUL] ucast32_mult)
qed

text \<open>A divisor whose low half is zero but whose high half is not is not recognised as zero.\<close>

lemma divW_traps:
  assumes "op \<in> {INST_DIVW, INST_DIVUW, INST_REMW, INST_REMUW}" "b \<noteq> 0" "(ucast b :: u32) = 0"
  shows "mult_value xlen op a b = Inl Div_by_zero"
proof -
  have "sint b \<noteq> - 1" using sint_ucast_minus_1 [of b] assms(3) by auto
  then show ?thesis
    using assms by (auto simp: mult_value_def div_value_def rem_value_def Let_def SignExtend32_eq low_ucast
      sdiv64_def smod64_def udiv64_def umod64_def)
qed

section \<open>Immediate operands\<close>

definition imm_ops :: "(code \<times> code) list" where
  "imm_ops = [(INST_ADDI, INST_ADD), (INST_ANDI, INST_AND), (INST_ORI, INST_OR), (INST_XORI, INST_XOR)]"

definition shift_imm_ops :: "(code \<times> code) list" where
  "shift_imm_ops = [(INST_SLLI, INST_SLL), (INST_SRLI, INST_SRL), (INST_SRAI, INST_SRA)]"

definition shift_imm_word_ops :: "(code \<times> code) list" where
  "shift_imm_word_ops = [(INST_SLLIW, INST_SLL), (INST_SRLIW, INST_SRL), (INST_SRAIW, INST_SRA)]"

lemma immediate64: "(iop, op) \<in> set imm_ops \<Longrightarrow> immediate_value 64 iop a b = Inr (alu_spec op a b)"
  by (auto simp: imm_ops_def immediate_value_def alu_spec_def)

lemma immediate32:
  "(iop, op) \<in> set imm_ops \<Longrightarrow> immediate_value 32 iop (scast x) (scast y) = Inr (scast (alu_spec op x (y :: u32)))"
  by (auto simp: imm_ops_def immediate_value_def alu_spec_def Sext32bit_eq ucast32_ops)

lemma immediateW: "immediate_value xlen INST_ADDIW a b = Inr (scast (alu_spec INST_ADD (ucast a) (ucast b :: u32)))"
  by (simp add: immediate_value_def alu_spec_def Sext32bit_eq ucast32_ops)

lemma shift64:
  assumes "(iop, op) \<in> set shift_imm_ops" "unat n < 64"
  shows "shift_value 64 iop a (unat n) = Inr (alu_spec op a (n :: u64))"
  using assms by (auto simp: shift_imm_ops_def shift_value_def alu_spec_def)

lemma and_low_mask: "(a :: u64) AND NOT kUpper32bitMask = take_bit 32 a"
proof -
  have m: "kUpper32bitMask = NOT (mask 32)" by (simp add: kUpper32bitMask_def mask_eq_exp_minus_1)
  show ?thesis unfolding m by simp
qed

lemma sra_scast: "n < 32 \<Longrightarrow> signed_drop_bit n (scast (x :: u32) :: u64) = scast (signed_drop_bit n x)"
  by (rule bit_word_eqI) (auto simp: bit_sra bit_signed_iff min_def)

lemma shift32:
  assumes "(iop, op) \<in> set shift_imm_ops" "unat n < 32"
  shows "shift_value 32 iop (scast x) (unat n) = Inr (scast (alu_spec op x (n :: u32)))"
  using assms
  by (auto simp: shift_imm_ops_def shift_value_def alu_spec_def Sext32bit_eq ucast32_ops and_low_mask ucast32_srl sra_scast)

lemma shiftW:
  assumes "(iop, op) \<in> set shift_imm_word_ops" "unat n < 32"
  shows "shift_value xlen iop a (unat n) = Inr (scast (alu_spec op (ucast a) (n :: u32)))"
proof -
  have l: "(ucast (take_bit 32 x :: u64) :: u32) = ucast x" for x :: u64
    by (rule bit_word_eqI) (auto simp: bit_simps)
  show ?thesis
    using assms by (auto simp: shift_imm_word_ops_def shift_value_def alu_spec_def Sext32bit_eq l ucast32_ops and_literal_masks(6) ucast32_srl)
qed

lemma shift_imm_handled:
  assumes "(iop, op) \<in> set shift_imm_ops \<or> (iop, op) \<in> set shift_imm_word_ops"
  shows "ImmediateShiftInstruction c iop rd rs1 shamt =
    rbind (shift_value (cpu_xlen c) iop (cpu_reg c rs1) (unat shamt)) (\<lambda>v. Inr (set_reg rd v c))"
  using assms by (auto simp: ImmediateShiftInstruction_def shift_imm_ops_def shift_imm_word_ops_def)

section \<open>The instructions\<close>

text \<open>C9: On a 64-bit hart every register-to-register instruction of the base integer set other than the comparisons \<open>SLT\<close> and \<open>SLTU\<close>,
  and of the multiply and divide extension, returns normally and stores in \<open>rd\<close> what the reference operation on 64-bit words gives,
  changing nothing else; the division instructions give the architectural results for a zero divisor and for overflow.\<close>

theorem operations_rv64:
  assumes "cpu_xlen c = 64"
  shows "(op \<in> base_ops \<longrightarrow> OperationInstruction c op rd rs1 rs2 =
      Inr (set_reg rd (alu_spec op (cpu_reg c rs1) (cpu_reg c rs2)) c)) \<and>
    (op \<in> mult_ops \<longrightarrow> MultInstruction c op rd rs1 rs2 =
      Inr (set_reg rd (mult_spec op (cpu_reg c rs1) (cpu_reg c rs2)) c))"
  using assms by (simp add: OperationInstruction_def MultInstruction_def operation64 mult64)

theorem operations_rv64_witness:
  "MultInstruction (set_reg 1 (push_bit 63 1) (set_reg 2 (- 1) (blank_hart True))) INST_DIV 3 1 2 =
   Inr (set_reg 3 (mult_spec INST_DIV (push_bit 63 1) (- 1)) (set_reg 1 (push_bit 63 1) (set_reg 2 (- 1) (blank_hart True))))"
  using operations_rv64 [of "set_reg 1 (push_bit 63 1) (set_reg 2 (- 1) (blank_hart True))" INST_DIV 3 1 2]
  by (simp add: set_reg_def mult_ops_def)

text \<open>C27: On a 32-bit hart whose source registers are sign-extended 32-bit values, every register-to-register
  instruction other than \<open>SLT\<close> and \<open>SLTU\<close> returns normally and stores the sign extension of what the reference operation gives on
  32-bit words, changing nothing else; so the registers stay sign-extended.\<close>

theorem operations_rv32:
  assumes "cpu_xlen c = 32" "cpu_reg c rs1 = scast (x :: u32)" "cpu_reg c rs2 = scast y"
  shows "(op \<in> base_ops \<longrightarrow> OperationInstruction c op rd rs1 rs2 = Inr (set_reg rd (scast (alu_spec op x y)) c)) \<and>
    (op \<in> mult_ops \<longrightarrow> MultInstruction c op rd rs1 rs2 = Inr (set_reg rd (scast (mult_spec op x y)) c))"
  using assms by (simp add: OperationInstruction_def MultInstruction_def operation32 mult32)

theorem operations_rv32_witness:
  "MultInstruction (set_reg 1 (scast (7 :: u32)) (set_reg 2 (scast (- 2 :: u32)) (blank_hart False))) INST_MULHSU 3 1 2 =
   Inr (set_reg 3 (scast (mult_spec INST_MULHSU (7 :: u32) (- 2))) (set_reg 1 (scast (7 :: u32)) (set_reg 2 (scast (- 2 :: u32)) (blank_hart False))))"
  by (rule operations_rv32 [THEN conjunct2, rule_format]) (simp_all add: set_reg_def mult_ops_def)

text \<open>C28: The word forms of the instructions compute on the low halves of the operands and sign-extend the 32-bit result.
  Division does so only when the divisor is zero as a 64-bit value or its low half is not zero;
  for a divisor such as \<open>2^32\<close>, the zero test on the whole register misses the zero divisor and the
  emulator divides by zero.\<close>

theorem word_operations:
  "((wop, op) \<in> set word_ops \<longrightarrow> OperationInstruction c wop rd rs1 rs2 =
      Inr (set_reg rd (scast (alu_spec op (ucast (cpu_reg c rs1)) (ucast (cpu_reg c rs2) :: u32))) c)) \<and>
   ((wop, op) \<in> set mult_word_ops \<and> (cpu_reg c rs2 = 0 \<or> (ucast (cpu_reg c rs2) :: u32) \<noteq> 0) \<longrightarrow>
      MultInstruction c wop rd rs1 rs2 =
      Inr (set_reg rd (scast (mult_spec op (ucast (cpu_reg c rs1)) (ucast (cpu_reg c rs2) :: u32))) c)) \<and>
   (wop \<in> {INST_DIVW, INST_DIVUW, INST_REMW, INST_REMUW} \<and> cpu_reg c rs2 \<noteq> 0 \<and> (ucast (cpu_reg c rs2) :: u32) = 0 \<longrightarrow>
      MultInstruction c wop rd rs1 rs2 = Inl Div_by_zero)"
  by (intro conjI impI; (elim conjE)?; simp add: OperationInstruction_def MultInstruction_def operationW multW divW_traps)

theorem word_operations_witness:
  "MultInstruction (set_reg 2 0x100000000 (blank_hart True)) INST_DIVW 3 1 2 = Inl Div_by_zero"
  by (rule word_operations [THEN conjunct2, THEN conjunct2, rule_format]) (simp add: set_reg_def)

text \<open>C29: The immediate forms (those of the comparisons excepted) agree with the register forms on the sign-extended immediate, and the shifts by an immediate
  with the shifts by a register holding it, for shift amounts below the operand width, on 64-bit operands,
  on 32-bit harts and for the word forms.\<close>

theorem immediates:
  fixes imm :: u32
  shows "(cpu_xlen c = 64 \<and> (iop, op) \<in> set imm_ops \<longrightarrow>
      ImmediateInstruction c iop rd rs1 imm = Inr (set_reg rd (alu_spec op (cpu_reg c rs1) (scast imm)) c)) \<and>
    (cpu_xlen c = 32 \<and> (iop, op) \<in> set imm_ops \<and> cpu_reg c rs1 = scast x \<longrightarrow>
      ImmediateInstruction c iop rd rs1 imm = Inr (set_reg rd (scast (alu_spec op x imm)) c)) \<and>
    ImmediateInstruction c INST_ADDIW rd rs1 imm = Inr (set_reg rd (scast (ucast (cpu_reg c rs1) + imm)) c) \<and>
    (cpu_xlen c = 64 \<and> (iop, op) \<in> set shift_imm_ops \<and> unat imm < 64 \<longrightarrow>
      ImmediateShiftInstruction c iop rd rs1 imm = Inr (set_reg rd (alu_spec op (cpu_reg c rs1) (ucast imm)) c)) \<and>
    (cpu_xlen c = 32 \<and> (iop, op) \<in> set shift_imm_ops \<and> unat imm < 32 \<and> cpu_reg c rs1 = scast x \<longrightarrow>
      ImmediateShiftInstruction c iop rd rs1 imm = Inr (set_reg rd (scast (alu_spec op x imm)) c)) \<and>
    ((iop, op) \<in> set shift_imm_word_ops \<and> unat imm < 32 \<longrightarrow>
      ImmediateShiftInstruction c iop rd rs1 imm = Inr (set_reg rd (scast (alu_spec op (ucast (cpu_reg c rs1)) imm)) c))"
proof -
  have u: "unat (ucast imm :: u64) = unat imm" by (simp add: unat_ucast_up)
  show ?thesis
    using shift64 [of iop op "ucast imm"]
    by (intro conjI impI; (elim conjE)?; simp add: ImmediateInstruction_def shift_imm_handled [of iop op] u
        immediate64 immediate32 immediateW shift32 shiftW alu_spec_def [of INST_ADD])
qed

theorem immediates_witness:
  "ImmediateShiftInstruction (set_reg 1 (scast (- 8 :: u32)) (blank_hart False)) INST_SRAI 3 1 2 =
   Inr (set_reg 3 (scast (alu_spec INST_SRA (- 8 :: u32) 2)) (set_reg 1 (scast (- 8 :: u32)) (blank_hart False)))"
  by (rule immediates [THEN conjunct2, THEN conjunct2, THEN conjunct2, THEN conjunct2, THEN conjunct1, rule_format])
    (simp add: set_reg_def shift_imm_ops_def)

end
