(* ===== verification/Cpu_Mem_Spec.thy ===== *)
theory Cpu_Mem_Spec
  imports Cpu_Mem Cpu_Alu_Spec
begin

text \<open>
  Loads and stores against the byte-addressed memory: an access of any width at any address
  reads or writes the little-endian bytes from that address on, whether or not it is split at a
  64-bit boundary.
\<close>

section \<open>Physical accesses\<close>

lemma LoadWd_loop:
  assumes "mem_wf m" "n \<le> 8"
  shows "rfold (\<lambda>result offset. rbind (ReadByte m (pa + of_nat offset)) (\<lambda>b.
      Inr (result OR push_bit (offset * 8) (ucast b)))) 0 [0..<n] = Inr (le_word (read_bytes (mem_abs m) (ucast pa) n))"
  using assms(2)
proof (induction n)
  case (Suc n)
  have "ucast (pa + of_nat n) = (ucast pa + of_nat n :: u32)" by (simp add: ucast_down_add ucast_down_of_nat)
  with Suc show ?case
    by (simp only: rfold_upt_Suc) (simp add: ReadByte_abs [OF assms(1)] read_bytes_snoc le_word_snoc mult.commute)
qed simp

lemma LoadWd_abs:
  assumes "mem_wf m" "1 \<le> n" "n \<le> 8"
  shows "LoadWd m pa n = Inr (le_word (read_bytes (mem_abs m) (ucast pa) n))"
  using assms LoadWd_loop [OF assms(1,3), of pa]
  by (auto simp: LoadWd_def Read32_abs Read64_abs ucast_le_word4)

lemma ucast_and_FF: "(ucast ((x :: u64) AND 0xFF) :: u8) = ucast x"
  by (simp only: and_literal_masks) (rule bit_word_eqI, auto simp: bit_simps)

lemma StoreWd_abs:
  assumes "mem_wf m" "1 \<le> n" "n \<le> 8"
  shows "\<exists>m'. StoreWd m pa d n = Inr m' \<and> mem_wf m' \<and>
    mem_abs m' = write_bytes (mem_abs m) (ucast pa) (le_bytes d n)"
proof -
  have l: "map (\<lambda>k. ucast (drop_bit (k * 8) d AND 0xFF)) [0..<n] = le_bytes d n"
    by (rule nth_equalityI) (simp_all add: ucast_and_FF mult.commute)
  have "n \<le> 2 ^ 32" using assms(3) by simp
  from mw.wr_loop [OF assms(1) this, of pa "\<lambda>k. ucast (drop_bit (k * 8) d AND 0xFF)"]
  have b: "\<exists>m'. rfold (\<lambda>m k. WriteByte m (pa + of_nat k) (ucast (drop_bit (k * 8) d AND 0xFF))) m [0..<n] = Inr m' \<and> mem_wf m' \<and>
      mem_abs m' = write_bytes (mem_abs m) (ucast pa) (le_bytes d n)" by (simp only: l)
  show ?thesis
  proof (cases "n = 4 \<and> pa AND 0b11 = 0")
    case True
    have "le_bytes (ucast (ucast d :: u32)) 4 = le_bytes d 4" by (simp add: ucast_ucast_32 le_bytes_take_bit)
    obtain m' where "Write32 m pa (ucast d) = Inr m'" "mem_wf m'"
        "mem_abs m' = write_bytes (mem_abs m) (ucast pa) (le_bytes (ucast (ucast d :: u32)) 4)"
      using Write32_abs [OF assms(1), of pa "ucast d"] True by blast
    with True \<open>le_bytes _ _ = _\<close> show ?thesis by (simp add: StoreWd_def)
  next
    case False
    show ?thesis
    proof (cases "n = 8 \<and> pa AND 0b111 = 0")
      case True
      obtain m' where "Write64 m pa d = Inr m'" "mem_wf m'" "mem_abs m' = write_bytes (mem_abs m) (ucast pa) (le_bytes d 8)"
        using Write64_abs [OF assms(1), of pa d] True by blast
      with True show ?thesis by (simp add: StoreWd_def)
    next
      case F: False
      show ?thesis unfolding StoreWd_def if_not_P [OF False] if_not_P [OF F] using b assms(2,3) by simp
    qed
  qed
qed

lemmas StoreWdE = StoreWd_abs [THEN exE]

section \<open>Splitting\<close>

lemma access_sum:
  assumes "width \<in> {1, 2, 4, 8}"
  shows "drop_bit 3 ((address AND 0b111) + of_nat width - 1 :: u64) \<noteq> 0 \<longleftrightarrow> 8 < unat address mod 8 + width"
proof -
  define k where "k = unat address mod 8"
  have k: "k < 8" by (simp add: k_def)
  have u: "unat (address AND 0b111) = k"
    using unat_mod_take_bit [of address 3] and_mask_take_bit [of address 3] by (simp add: k_def mask_numeral)
  then have a: "address AND 0b111 = of_nat k" by (metis of_nat_unat ucast_id)
  have "(address AND 0b111) + of_nat width - 1 = (of_nat (k + (width - 1)) :: u64)"
    using assms by (auto simp: a)
  moreover have "k + (width - 1) < 2 ^ LENGTH(64)" using assms k by auto
  ultimately have "unat ((address AND 0b111) + of_nat width - 1) = k + (width - 1)"
    by (simp only: unat_of_nat_small)
  then have "unat (drop_bit 3 ((address AND 0b111) + of_nat width - 1 :: u64)) = (k + (width - 1)) div 8"
    by (simp only: unat_drop_bit_eq) (simp add: drop_bit_eq_div)
  then show ?thesis using assms by (auto simp: unat_eq_zero k_def div_eq_0_iff simp flip: unat_gt_0)
qed

lemma GetAccessWidth_eq:
  assumes "width \<in> {1, 2, 4, 8}"
  shows "GetAccessWidth width address = (if 8 < unat address mod 8 + width then 8 - unat address mod 8 else width)"
proof -
  define k where "k = unat address mod 8"
  have m: "unat (address AND mask n) = unat address mod 2 ^ n" for n
    by (simp only: and_mask_take_bit unat_mod_take_bit)
  have r: "unat (address AND 1) = k mod 2" "unat (address AND 3) = k mod 4" "unat (address AND 7) = k"
    using m [of 1] m [of 2] m [of 3] by (simp_all add: mask_numeral k_def mod_mod_cancel)
  have "k < 8" by (simp add: k_def)
  then have "k \<in> {0, 1, 2, 3, 4, 5, 6, 7}" by auto
  then show ?thesis
    using assms unfolding GetAccessWidth_def Let_def access_sum [OF assms] r k_def [symmetric]
    by (elim insertE emptyE) (simp_all add: r)
qed

section \<open>Untranslated addresses\<close>

text \<open>Machine mode without the privilege override: addresses are physical.\<close>

definition bare :: "'w cpu \<Rightarrow> bool" where
  "bare c \<longleftrightarrow> cpu_privilege c = MACHINE_MODE \<and> (ucast (bitcrop (cpu_csrs c MSTATUS) 1 17) :: u32) \<noteq> 1"

definition bare_mmu :: "'w cpu \<Rightarrow> mmu" where
  "bare_mmu c = \<lparr>mmu_mxl = cpu_mxl c, mmu_page_fault = False, mmu_faulting_address = 0, mmu_privilege = MACHINE_MODE\<rparr>"

lemma V2P_bare: "bare c \<Longrightarrow> VirtualToPhysical c va w = Inr (va, c\<lparr>cpu_mmu := bare_mmu c\<rparr>)"
  by (simp add: bare_def VirtualToPhysical_def Mmu_VirtualToPhysical_def SetPrivilege_def SetMxl_def bare_mmu_def Let_def)

lemma bare_upd [simp]:
  "bare (c\<lparr>cpu_mmu := u\<rparr>) = bare c" "bare (c\<lparr>cpu_memory := m\<rparr>) = bare c"
  "bare_mmu (c\<lparr>cpu_mmu := u\<rparr>) = bare_mmu c" "bare_mmu (c\<lparr>cpu_memory := m\<rparr>) = bare_mmu c"
  by (simp_all add: bare_def bare_mmu_def)

section \<open>Loads\<close>

lemma widths: "GetLoadWidth i = Inr n \<Longrightarrow> n \<in> {1, 2, 4, 8}" "GetStoreWidth i = Inr n \<Longrightarrow> n \<in> {1, 2, 4, 8}"
  by (auto simp: GetLoadWidth_def GetStoreWidth_def split: if_splits)

lemma ucast_add_of_nat: "(ucast (a + of_nat n :: u64) :: u32) = ucast a + of_nat n"
  by (simp add: ucast_down_add ucast_down_of_nat)

lemma load_parts_within:
  assumes "mem_wf (cpu_memory c)" "width \<in> {1, 2, 4, 8}" "unat a mod 8 + width \<le> 8"
  shows "load_parts c a width = Inr (Some (le_word (read_bytes (mem_abs (cpu_memory c)) (ucast a) width)), c)"
  using assms by (auto simp: load_parts_def GetAccessWidth_eq LoadWd_abs Let_def)

lemma load_parts_bare:
  assumes "bare c" "\<not> cpu_page_fault c" "mem_wf (cpu_memory c)" "width \<in> {1, 2, 4, 8}" "cpu_mmu c = bare_mmu c"
  shows "load_parts c a width = Inr (Some (le_word (read_bytes (mem_abs (cpu_memory c)) (ucast a) width)), c)"
proof (cases "unat a mod 8 + width \<le> 8")
  case True
  with assms show ?thesis by (simp add: load_parts_within)
next
  case False
  define n k where "n = 8 - unat a mod 8" and "k = width - n"
  have w: "width = n + k" "1 \<le> n" "1 \<le> k" "n + k \<le> 8" "n \<le> 8" "k \<le> 8" "GetAccessWidth width a = n"
    using False assms(4) GetAccessWidth_eq [OF assms(4), of a] mod_less_divisor [of 8 "unat a"] by (auto simp: n_def k_def)
  let ?m = "mem_abs (cpu_memory c)"
  have same: "c\<lparr>cpu_mmu := bare_mmu c\<rparr> = c" using assms(5) by (cases c) (simp add: bare_mmu_def)
  have v: "le_word (read_bytes ?m (ucast a) n) OR push_bit (n * 8) (le_word (read_bytes ?m (ucast a + of_nat n) k)) =
      le_word (read_bytes ?m (ucast a) width)"
    using w(3,4) unfolding w(1) read_bytes_append by (subst le_word_append) (simp_all add: mult.commute)
  have p: "LoadWd (cpu_memory c) a n = Inr (le_word (read_bytes ?m (ucast a) n))"
    "LoadWd (cpu_memory c) (a + of_nat n) k = Inr (le_word (read_bytes ?m (ucast a + of_nat n) k))"
    using w assms(3) LoadWd_abs [of _ n a] LoadWd_abs [of _ k "a + of_nat n"] by (simp_all add: ucast_add_of_nat)
  show ?thesis
    using w(3) assms(2) unfolding load_parts_def Let_def w(7) p rbind_Inr V2P_bare [OF assms(1)] same prod.case k_def [symmetric]
    by (simp add: p v)
qed

definition load_spec :: "code \<Rightarrow> u8 list \<Rightarrow> u64" where
  "load_spec i bs =
     (if i \<in> {INST_LB, INST_LH, INST_LW} then signed_take_bit (8 * length bs - 1) (le_word bs) else le_word bs)"

lemma load_extend_eq:
  assumes "GetLoadWidth i = Inr n" "length bs = n"
  shows "load_extend i n (le_word bs) = load_spec i bs"
proof -
  have "i = INST_LWU \<Longrightarrow> le_word bs AND 0xFFFFFFFF = le_word bs"
    using assms le_word_less [of bs] by (simp only: and_literal_masks) (simp add: GetLoadWidth_def)
  then show ?thesis
    using assms by (auto simp: load_extend_def load_spec_def GetLoadWidth_def SignExtend_eq split: if_splits)
qed

text \<open>The memory during a load: the timer register has been refreshed.\<close>

lemma MemoryMappedValueUpdate_abs:
  assumes "mem_wf m"
  obtains m' where "MemoryMappedValueUpdate p m = Inr m'" "mem_wf m'"
    "mem_abs m' = write_bytes (mem_abs m) (ucast kTimerMtime) (le_bytes (p_elapsed_cycles p) 8)"
  unfolding MemoryMappedValueUpdate_def by (rule Write64_abs [OF assms, of kTimerMtime]) (simp_all add: that)

lemma LoadInstruction_bare:
  assumes "bare c" "\<not> cpu_page_fault c" "mem_wf m'" "GetLoadWidth i = Inr n"
    "MemoryMappedValueUpdate (cpu_peripheral c) (cpu_memory c) = Inr m'"
  shows "LoadInstruction c i rd rs1 imm =
    Inr (set_reg rd (load_spec i (read_bytes (mem_abs m') (ucast (cpu_reg c rs1 + scast imm)) n))
      (c\<lparr>cpu_memory := m', cpu_mmu := bare_mmu c,
         cpu_peripheral := CheckDeviceRead (cpu_peripheral c) (cpu_reg c rs1 + scast imm) n\<rparr>))"
proof -
  let ?a = "cpu_reg c rs1 + scast imm" and ?c = "c\<lparr>cpu_memory := m', cpu_mmu := bare_mmu c\<rparr>"
  have "load_parts ?c ?a n = Inr (Some (le_word (read_bytes (mem_abs m') (ucast ?a) n)), ?c)"
    using load_parts_bare [of ?c n ?a] assms(1-3) widths(1) [OF assms(4)] by (simp add: bare_mmu_def)
  moreover have "load_extend i n (le_word (read_bytes (mem_abs m') (ucast ?a) n)) = load_spec i (read_bytes (mem_abs m') (ucast ?a) n)"
    using assms(4) by (simp add: load_extend_eq)
  ultimately show ?thesis
    using assms by (simp add: LoadInstruction_def V2P_bare Let_def)
qed

section \<open>Stores\<close>

lemma bit_access_mask: "bit (scast (GenerateBitMask k) :: u64) i \<longleftrightarrow> i < 64 \<and> min i 31 < k"
  by (auto simp: GenerateBitMask_eq bit_signed_iff bit_mask_iff min_def)

lemma le_bytes_masked: "n \<le> 8 \<Longrightarrow> le_bytes (d AND scast (GenerateBitMask (n * 8))) n = le_bytes d n"
proof (rule nth_equalityI)
  fix j
  assume "n \<le> 8" "j < length (le_bytes (d AND scast (GenerateBitMask (n * 8))) n)"
  then have "j < n" "n \<le> 8" by simp_all
  then show "le_bytes (d AND scast (GenerateBitMask (n * 8))) n ! j = le_bytes d n ! j"
    by (auto intro!: bit_word_eqI simp: bit_ucast_iff bit_drop_bit_eq bit_and_iff bit_access_mask)
qed simp

lemma store_parts_within:
  assumes "mem_wf (cpu_memory c)" "width \<in> {1, 2, 4, 8}" "unat va mod 8 + width \<le> 8"
  shows "\<exists>m'. store_parts c va pa d width = Inr (True, c\<lparr>cpu_memory := m'\<rparr>) \<and> mem_wf m' \<and>
    mem_abs m' = write_bytes (mem_abs (cpu_memory c)) (ucast pa) (le_bytes d width)"
proof -
  have w: "1 \<le> width" "width \<le> 8" "GetAccessWidth width va = width" using assms(2,3) by (auto simp: GetAccessWidth_eq)
  show ?thesis
    using StoreWd_abs [OF assms(1) w(1,2), of pa "d AND scast (GenerateBitMask (width * 8))"] w(2)
    unfolding store_parts_def Let_def w(3) by (auto simp: le_bytes_masked)
qed

lemma store_parts_bare:
  assumes "bare c" "\<not> cpu_page_fault c" "mem_wf (cpu_memory c)" "width \<in> {1, 2, 4, 8}" "cpu_mmu c = bare_mmu c"
  shows "\<exists>m'. store_parts c a a d width = Inr (True, c\<lparr>cpu_memory := m'\<rparr>) \<and> mem_wf m' \<and>
    mem_abs m' = write_bytes (mem_abs (cpu_memory c)) (ucast a) (le_bytes d width)"
proof (cases "unat a mod 8 + width \<le> 8")
  case True
  with assms show ?thesis by (simp add: store_parts_within)
next
  case False
  define n k where "n = 8 - unat a mod 8" and "k = width - n"
  have w: "width = n + k" "1 \<le> n" "1 \<le> k" "n + k \<le> 8" "n \<le> 8" "k \<le> 8" "GetAccessWidth width a = n"
    using False assms(4) GetAccessWidth_eq [OF assms(4), of a] mod_less_divisor [of 8 "unat a"] by (auto simp: n_def k_def)
  obtain m1 where m1: "StoreWd (cpu_memory c) a (d AND scast (GenerateBitMask (n * 8))) n = Inr m1" "mem_wf m1"
      "mem_abs m1 = write_bytes (mem_abs (cpu_memory c)) (ucast a) (le_bytes d n)"
    using StoreWd_abs [OF assms(3) w(2,5), of a "d AND scast (GenerateBitMask (n * 8))"] le_bytes_masked [OF w(5)] by auto
  obtain m2 where m2: "StoreWd m1 (a + of_nat n) (drop_bit (n * 8) d) k = Inr m2" "mem_wf m2"
      "mem_abs m2 = write_bytes (mem_abs m1) (ucast a + of_nat n) (le_bytes (drop_bit (n * 8) d) k)"
    using StoreWd_abs [OF m1(2) w(3,6), of "a + of_nat n" "drop_bit (n * 8) d"] by (auto simp: ucast_add_of_nat)
  have "mem_abs m2 = write_bytes (mem_abs (cpu_memory c)) (ucast a) (le_bytes d width)"
    using w(4) unfolding m2(3) m1(3) w(1) le_bytes_append by (simp add: write_bytes_append mult.commute)
  moreover have "store_parts c a a d width = Inr (True, c\<lparr>cpu_memory := m2\<rparr>)"
    using w(3) assms(2,5) m2(1) unfolding store_parts_def Let_def w(7) m1(1) rbind_Inr k_def [symmetric]
    by (simp add: V2P_bare assms(1))
  ultimately show ?thesis using m2(2) by blast
qed

lemma StoreInstruction_bare:
  assumes "bare c" "\<not> cpu_page_fault c" "mem_wf (cpu_memory c)" "GetStoreWidth i = Inr n"
  shows "\<exists>m'. StoreInstruction c i rs1 rs2 imm =
      Inr (c\<lparr>cpu_mmu := bare_mmu c, cpu_memory := m',
             cpu_peripheral := CheckDeviceWrite (cpu_peripheral c) (cpu_reg c rs1 + scast imm) n (cpu_reg c rs2)\<rparr>) \<and>
    mem_wf m' \<and> mem_abs m' = write_bytes (mem_abs (cpu_memory c)) (ucast (cpu_reg c rs1 + scast imm)) (le_bytes (cpu_reg c rs2) n)"
proof -
  let ?a = "cpu_reg c rs1 + scast imm" and ?c = "c\<lparr>cpu_mmu := bare_mmu c\<rparr>"
  obtain m' where "store_parts ?c ?a ?a (cpu_reg c rs2) n = Inr (True, ?c\<lparr>cpu_memory := m'\<rparr>)" "mem_wf m'"
      "mem_abs m' = write_bytes (mem_abs (cpu_memory c)) (ucast ?a) (le_bytes (cpu_reg c rs2) n)"
    using store_parts_bare [of ?c n ?a "cpu_reg c rs2"] assms(1-3) widths(2) [OF assms(4)] by auto
  with assms show ?thesis by (intro exI [of _ m']) (simp add: StoreInstruction_def V2P_bare Let_def)
qed

section \<open>Atomic memory operations\<close>

definition amo_spec :: "code \<Rightarrow> 'a::len word \<Rightarrow> 'a word \<Rightarrow> 'a word" where
  "amo_spec op x y =
     (if op = INST_AMOADDD then x + y
      else if op = INST_AMOANDD then x AND y
      else if op = INST_AMOORD then x OR y
      else if op = INST_AMOXORD then x XOR y
      else if op = INST_AMOMAXD then (if sint y < sint x then x else y)
      else if op = INST_AMOMIND then (if sint x < sint y then x else y)
      else if op = INST_AMOMAXUD then max x y
      else if op = INST_AMOMINUD then min x y
      else y)"

definition amo_words :: "(code \<times> code) list" where
  "amo_words = [(INST_AMOADDW, INST_AMOADDD), (INST_AMOANDW, INST_AMOANDD), (INST_AMOORW, INST_AMOORD),
     (INST_AMOXORW, INST_AMOXORD), (INST_AMOMAXW, INST_AMOMAXD), (INST_AMOMINW, INST_AMOMIND),
     (INST_AMOMAXUW, INST_AMOMAXUD), (INST_AMOMINUW, INST_AMOMINUD), (INST_AMOSWAPW, INST_AMOSWAPD)]"

lemma umax_eq: "umax a b = max a b" and umin_eq: "umin a b = min a b"
  by (auto simp: umax_def umin_def max_def min_def)

lemma amo_value_D: "(wop, op) \<in> set amo_words \<Longrightarrow> amo_value op t b = Inr (amo_spec op t b) \<and> amo_width op = 8"
  by (auto simp: amo_words_def amo_value_def amo_spec_def amo_width_def umax_eq umin_eq smax_def smin_def)

lemma amo_value_W:
  assumes "(wop, op) \<in> set amo_words"
  shows "\<exists>v. amo_value wop (scast t) b = Inr v \<and> ucast v = amo_spec op t (ucast b :: u32) \<and> amo_width wop = 4"
  using assms unfolding amo_words_def list.set
  by (elim insertE emptyE Pair_inject; hypsubst)
    (simp_all add: amo_value_def amo_spec_def amo_width_def umax_eq umin_eq smax_def smin_def SignExtend32_eq ucast32_ops ucast_down_ucast)

lemma AmoInstruction_D:
  fixes c :: "'w cpu" and rs1 :: u32
  assumes "bare c" "mem_wf (cpu_memory c)" "(wop, op) \<in> set amo_words"
  defines "t \<equiv> le_word (read_bytes (mem_abs (cpu_memory c)) (ucast (cpu_reg c rs1)) 8)"
  shows "\<exists>m'. AmoInstruction c op rd rs1 rs2 = Inr (set_reg rd t (c\<lparr>cpu_mmu := bare_mmu c, cpu_memory := m'\<rparr>)) \<and>
    mem_wf m' \<and> mem_abs m' = write_bytes (mem_abs (cpu_memory c)) (ucast (cpu_reg c rs1)) (le_bytes (amo_spec op t (cpu_reg c rs2)) 8)"
proof -
  obtain m' where "StoreWd (cpu_memory c) (cpu_reg c rs1) (amo_spec op t (cpu_reg c rs2)) 8 = Inr m'" "mem_wf m'"
      "mem_abs m' = write_bytes (mem_abs (cpu_memory c)) (ucast (cpu_reg c rs1)) (le_bytes (amo_spec op t (cpu_reg c rs2)) 8)"
    using StoreWd_abs [OF assms(2), of 8 "cpu_reg c rs1" "amo_spec op t (cpu_reg c rs2)"] by auto
  moreover have "LoadWd (cpu_memory c) (cpu_reg c rs1) 8 = Inr t"
    unfolding t_def using assms(2) by (simp add: LoadWd_abs)
  ultimately show ?thesis
    using assms(1) amo_value_D [OF assms(3)] by (intro exI [of _ m']) (simp add: AmoInstruction_def V2P_bare Let_def)
qed

lemma AmoInstruction_W:
  fixes c :: "'w cpu" and rs1 :: u32
  assumes "bare c" "mem_wf (cpu_memory c)" "(wop, op) \<in> set amo_words"
  defines "t \<equiv> (ucast (le_word (read_bytes (mem_abs (cpu_memory c)) (ucast (cpu_reg c rs1)) 4)) :: u32)"
  shows "\<exists>m'. AmoInstruction c wop rd rs1 rs2 = Inr (set_reg rd (scast t) (c\<lparr>cpu_mmu := bare_mmu c, cpu_memory := m'\<rparr>)) \<and>
    mem_wf m' \<and> mem_abs m' = write_bytes (mem_abs (cpu_memory c)) (ucast (cpu_reg c rs1))
      (le_bytes (ucast (amo_spec op t (ucast (cpu_reg c rs2)))) 4)"
proof -
  obtain v where v: "amo_value wop (scast t) (cpu_reg c rs2) = Inr v" "ucast v = amo_spec op t (ucast (cpu_reg c rs2))" "amo_width wop = 4"
    using amo_value_W [OF assms(3)] by blast
  have l: "le_bytes v 4 = le_bytes (ucast (amo_spec op t (ucast (cpu_reg c rs2)))) 4"
    by (simp add: v(2) [symmetric] ucast_ucast_32 le_bytes_take_bit)
  obtain m' where "StoreWd (cpu_memory c) (cpu_reg c rs1) v 4 = Inr m'" "mem_wf m'"
      "mem_abs m' = write_bytes (mem_abs (cpu_memory c)) (ucast (cpu_reg c rs1)) (le_bytes v 4)"
    using StoreWd_abs [OF assms(2), of 4 "cpu_reg c rs1" v] by auto
  moreover have "LoadWd (cpu_memory c) (cpu_reg c rs1) 4 = Inr (le_word (read_bytes (mem_abs (cpu_memory c)) (ucast (cpu_reg c rs1)) 4))"
    using assms(2) by (simp add: LoadWd_abs)
  moreover have "SignExtend (le_word (read_bytes (mem_abs (cpu_memory c)) (ucast (cpu_reg c rs1)) 4)) 32 = scast t"
    by (simp add: t_def SignExtend32_eq)
  ultimately show ?thesis
    using assms(1) v(1,3) by (intro exI [of _ m']) (simp add: AmoInstruction_def V2P_bare Let_def l)
qed

section \<open>Properties\<close>

text \<open>Storing a value of one to eight bytes at any address of a well-formed memory succeeds, replaces exactly those
  bytes in little-endian order, and loading them back gives the value truncated to the width.\<close>

theorem store_load_roundtrip:
  assumes "mem_wf m" "1 \<le> n" "n \<le> 8"
  shows "\<exists>m'. StoreWd m pa d n = Inr m' \<and> mem_wf m' \<and>
    mem_abs m' = write_bytes (mem_abs m) (ucast pa) (le_bytes d n) \<and> LoadWd m' pa n = Inr (take_bit (8 * n) d)"
proof -
  obtain m' where m': "StoreWd m pa d n = Inr m'" "mem_wf m'" "mem_abs m' = write_bytes (mem_abs m) (ucast pa) (le_bytes d n)"
    using StoreWd_abs [OF assms] by blast
  have "read_bytes (mem_abs m') (ucast pa) n = le_bytes d n"
    using read_write_bytes [of "le_bytes d n" "mem_abs m" "ucast pa"] assms(3) by (simp add: m'(3))
  then show ?thesis using m' assms by (simp add: LoadWd_abs le_word_le_bytes)
qed

theorem store_load_roundtrip_witness:
  "\<exists>m'. StoreWd MemoryWrapper 0x80000003 0x1122334455667788 3 = Inr m' \<and> mem_wf m' \<and>
    mem_abs m' = write_bytes (mem_abs MemoryWrapper) (ucast (0x80000003 :: u64)) (le_bytes 0x1122334455667788 3) \<and>
    LoadWd m' 0x80000003 3 = Inr (take_bit (8 * 3) 0x1122334455667788)"
  using store_load_roundtrip [OF mem_wf_MemoryWrapper, of 3 "0x80000003" "0x1122334455667788"] by simp

text \<open>C38: An access of one, two, four or eight bytes is cut so that its first part is not empty and does not cross a 64-bit
  boundary, and what remains, if anything, starts at the boundary.\<close>

theorem access_width_bounds:
  assumes "width \<in> {1, 2, 4, 8}"
  shows "1 \<le> GetAccessWidth width a \<and> GetAccessWidth width a \<le> width \<and> unat a mod 8 + GetAccessWidth width a \<le> 8 \<and>
    (GetAccessWidth width a < width \<longrightarrow> (unat a + GetAccessWidth width a) mod 8 = 0)"
proof -
  have "unat a mod 8 < 8" by simp
  moreover have "(unat a + (8 - unat a mod 8)) mod 8 = 0"
    by (metis calculation less_imp_le_nat mod_add_left_eq le_add_diff_inverse mod_self)
  ultimately show ?thesis unfolding GetAccessWidth_eq [OF assms] using assms by auto
qed

theorem access_width_bounds_witness: "1 \<le> GetAccessWidth 8 0x80000005 \<and> unat (0x80000005 :: u64) mod 8 + GetAccessWidth 8 0x80000005 \<le> 8"
  using access_width_bounds [of 8 "0x80000005"] by blast

text \<open>In machine mode without privilege override every load instruction returns normally: after the timer register has
  been refreshed in memory, \<open>rd\<close> receives the sign- or zero-extended little-endian value of the bytes at the effective
  address, aligned or not, and the other registers and the program counter are unchanged.\<close>

theorem machine_mode_load:
  assumes "bare c" "\<not> cpu_page_fault c" "mem_wf (cpu_memory c)" "GetLoadWidth i = Inr n"
  shows "\<exists>m'. mem_wf m' \<and>
    mem_abs m' = write_bytes (mem_abs (cpu_memory c)) (ucast kTimerMtime) (le_bytes (p_elapsed_cycles (cpu_peripheral c)) 8) \<and>
    LoadInstruction c i rd rs1 imm =
      Inr (set_reg rd (load_spec i (read_bytes (mem_abs m') (ucast (cpu_reg c rs1 + scast imm)) n))
        (c\<lparr>cpu_memory := m', cpu_mmu := bare_mmu c,
           cpu_peripheral := CheckDeviceRead (cpu_peripheral c) (cpu_reg c rs1 + scast imm) n\<rparr>))"
proof -
  obtain m' where m': "MemoryMappedValueUpdate (cpu_peripheral c) (cpu_memory c) = Inr m'" "mem_wf m'"
      "mem_abs m' = write_bytes (mem_abs (cpu_memory c)) (ucast kTimerMtime) (le_bytes (p_elapsed_cycles (cpu_peripheral c)) 8)"
    by (rule MemoryMappedValueUpdate_abs [OF assms(3)])
  then show ?thesis using LoadInstruction_bare [OF assms(1,2) m'(2) assms(4) m'(1)] by blast
qed

lemma bare_blank_hart: "bare (blank_hart b)" "\<not> cpu_page_fault (blank_hart b)" "mem_wf (cpu_memory (blank_hart b))"
  by (simp_all add: bare_def blank_hart_def blank_cpu_def RiscvCpu_defs Let_def bitcrop_numeral ustatus_mask_def sstatus_mask_def mem_wf_MemoryWrapper)

theorem machine_mode_load_witness:
  "\<exists>m'. mem_wf m' \<and>
    mem_abs m' = write_bytes (mem_abs (cpu_memory (blank_hart True))) (ucast kTimerMtime) (le_bytes (p_elapsed_cycles (cpu_peripheral (blank_hart True))) 8) \<and>
    LoadInstruction (blank_hart True) INST_LH 5 6 (- 3) =
      Inr (set_reg 5 (load_spec INST_LH (read_bytes (mem_abs m') (ucast (cpu_reg (blank_hart True) 6 + scast (- 3 :: u32))) 2))
        ((blank_hart True)\<lparr>cpu_memory := m', cpu_mmu := bare_mmu (blank_hart True),
           cpu_peripheral := CheckDeviceRead (cpu_peripheral (blank_hart True)) (cpu_reg (blank_hart True) 6 + scast (- 3 :: u32)) 2\<rparr>))"
  by (rule machine_mode_load [OF bare_blank_hart]) (simp add: GetLoadWidth_def)

text \<open>In machine mode without privilege override every store instruction returns normally and changes, in memory, exactly
  the bytes at the effective address, aligned or not, to the low bytes of \<open>rs2\<close>; the peripherals are told address, width and value.\<close>

theorem machine_mode_store:
  assumes "bare c" "\<not> cpu_page_fault c" "mem_wf (cpu_memory c)" "GetStoreWidth i = Inr n"
  shows "\<exists>m'. StoreInstruction c i rs1 rs2 imm =
      Inr (c\<lparr>cpu_mmu := bare_mmu c, cpu_memory := m',
             cpu_peripheral := CheckDeviceWrite (cpu_peripheral c) (cpu_reg c rs1 + scast imm) n (cpu_reg c rs2)\<rparr>) \<and>
    mem_wf m' \<and> mem_abs m' = write_bytes (mem_abs (cpu_memory c)) (ucast (cpu_reg c rs1 + scast imm)) (le_bytes (cpu_reg c rs2) n)"
  by (rule StoreInstruction_bare [OF assms])

theorem machine_mode_store_witness:
  "\<exists>m'. StoreInstruction (blank_hart True) INST_SD 6 7 5 =
      Inr ((blank_hart True)\<lparr>cpu_mmu := bare_mmu (blank_hart True), cpu_memory := m',
             cpu_peripheral := CheckDeviceWrite (cpu_peripheral (blank_hart True)) (cpu_reg (blank_hart True) 6 + scast (5 :: u32)) 8 (cpu_reg (blank_hart True) 7)\<rparr>) \<and>
    mem_wf m' \<and> mem_abs m' = write_bytes (mem_abs (cpu_memory (blank_hart True))) (ucast (cpu_reg (blank_hart True) 6 + scast (5 :: u32))) (le_bytes (cpu_reg (blank_hart True) 7) 8)"
  by (rule machine_mode_store [OF bare_blank_hart]) (simp add: GetStoreWidth_def)

text \<open>C24: In machine mode without privilege override every atomic memory operation returns normally, stores in \<open>rd\<close> the old
  memory value (sign-extended in the word form) and writes back the result of the operation on the old value and \<open>rs2\<close>, at its width.\<close>

theorem machine_mode_amo:
  assumes "bare c" "mem_wf (cpu_memory c)" "(wop, op) \<in> set amo_words"
  shows "(\<exists>m' t. t = le_word (read_bytes (mem_abs (cpu_memory c)) (ucast (cpu_reg c rs1)) 8) \<and>
      AmoInstruction c op rd rs1 rs2 = Inr (set_reg rd t (c\<lparr>cpu_mmu := bare_mmu c, cpu_memory := m'\<rparr>)) \<and>
      mem_wf m' \<and> mem_abs m' = write_bytes (mem_abs (cpu_memory c)) (ucast (cpu_reg c rs1)) (le_bytes (amo_spec op t (cpu_reg c rs2)) 8)) \<and>
    (\<exists>m' t. t = (ucast (le_word (read_bytes (mem_abs (cpu_memory c)) (ucast (cpu_reg c rs1)) 4)) :: u32) \<and>
      AmoInstruction c wop rd rs1 rs2 = Inr (set_reg rd (scast t) (c\<lparr>cpu_mmu := bare_mmu c, cpu_memory := m'\<rparr>)) \<and>
      mem_wf m' \<and> mem_abs m' = write_bytes (mem_abs (cpu_memory c)) (ucast (cpu_reg c rs1))
        (le_bytes (ucast (amo_spec op t (ucast (cpu_reg c rs2)))) 4))"
  using AmoInstruction_D [OF assms, of rd rs1 rs2] AmoInstruction_W [OF assms, of rd rs1 rs2] by simp

theorem machine_mode_amo_witness:
  "\<exists>m' t. t = le_word (read_bytes (mem_abs (cpu_memory (blank_hart True))) (ucast (cpu_reg (blank_hart True) 1)) 8) \<and>
      AmoInstruction (blank_hart True) INST_AMOADDD 3 1 2 = Inr (set_reg 3 t ((blank_hart True)\<lparr>cpu_mmu := bare_mmu (blank_hart True), cpu_memory := m'\<rparr>)) \<and>
      mem_wf m' \<and> mem_abs m' = write_bytes (mem_abs (cpu_memory (blank_hart True))) (ucast (cpu_reg (blank_hart True) 1)) (le_bytes (amo_spec INST_AMOADDD t (cpu_reg (blank_hart True) 2)) 8)"
  by (rule machine_mode_amo [OF bare_blank_hart(1,3), of INST_AMOADDW INST_AMOADDD, THEN conjunct1]) (simp add: amo_words_def)

end
