(* ===== verification/Isa_Spec.thy ===== *)
theory Isa_Spec
  imports Decode Cpu_Mult_Spec Cpu_Mem_Spec
begin

text \<open>
  The user-level instruction set RV64IMA as a specification: a state of program counter, registers and
  bytes, the effect of an instruction, and a run up to the return of the main program.  The state has no
  devices; the only trace of one is the timer register \<open>mtime\<close>, which is masked out of the memory.
\<close>

section \<open>Memory without the timer register\<close>

definition in_timer :: "u32 \<Rightarrow> bool" where
  "in_timer a \<longleftrightarrow> unat (a - ucast kTimerMtime) < 8"

definition touches_timer :: "u32 \<Rightarrow> nat \<Rightarrow> bool" where
  "touches_timer a n \<longleftrightarrow> list_ex (\<lambda>k. in_timer (a + of_nat k)) [0..<n]"

definition mem_view :: "bytes \<Rightarrow> bytes" where
  "mem_view f = (\<lambda>a. if in_timer a then 0 else f a)"

lemma read_bytes_view: "\<not> touches_timer a n \<Longrightarrow> read_bytes (mem_view f) a n = read_bytes f a n"
  by (auto simp: read_bytes_def mem_view_def touches_timer_def list_ex_iff)

lemma mem_view_timer: "length bs = 8 \<Longrightarrow> mem_view (write_bytes f (ucast kTimerMtime) bs) = mem_view f"
  by (auto simp: mem_view_def in_timer_def write_bytes_def)

lemma mem_view_write:
  assumes "\<not> touches_timer a (length bs)"
  shows "mem_view (write_bytes f a bs) = write_bytes (mem_view f) a bs"
proof
  fix x
  have "\<not> in_timer x" if "unat (x - a) < length bs"
  proof -
    have "x = a + of_nat (unat (x - a))" by simp
    then show ?thesis using assms that by (metis touches_timer_def list_ex_iff atLeastLessThan_iff set_upt zero_le)
  qed
  then show "mem_view (write_bytes f a bs) x = write_bytes (mem_view f) a bs x" by (auto simp: mem_view_def write_bytes_def)
qed

section \<open>The instructions\<close>

record isa =
  isa_pc :: u64
  isa_reg :: "u32 \<Rightarrow> u64"
  isa_mem :: bytes

text \<open>The result of an instruction that computes a register from the program counter, two registers and the immediate.
  The word divisions are specified only where the emulator does not divide by zero.\<close>

definition isa_value :: "code \<Rightarrow> u64 \<Rightarrow> u64 \<Rightarrow> u64 \<Rightarrow> u32 \<Rightarrow> u64 option" where
  "isa_value op pc x y imm =
     (if op \<in> base_ops then Some (alu_spec op x y)
      else if op \<in> mult_ops then Some (mult_spec op x y)
      else if op = INST_SLT then Some (of_bool (sint x < sint y))
      else if op = INST_SLTU then Some (of_bool (x < y))
      else if op = INST_SLTI then Some (of_bool (sint x < sint imm))
      else if op = INST_SLTIU then Some (of_bool (x < scast imm))
      else if op = INST_LUI then Some (scast imm)
      else if op = INST_AUIPC then Some (pc + scast imm)
      else if op = INST_ADDIW then Some (scast (ucast x + imm))
      else (case map_of word_ops op of
        Some b \<Rightarrow> Some (scast (alu_spec b (ucast x) (ucast y :: u32)))
      | None \<Rightarrow> (case map_of mult_word_ops op of
        Some b \<Rightarrow> if y = 0 \<or> (ucast y :: u32) \<noteq> 0 then Some (scast (mult_spec b (ucast x) (ucast y :: u32))) else None
      | None \<Rightarrow> (case map_of imm_ops op of
        Some b \<Rightarrow> Some (alu_spec b x (scast imm))
      | None \<Rightarrow> (case map_of shift_imm_ops op of
        Some b \<Rightarrow> if unat imm < 64 then Some (alu_spec b x (ucast imm)) else None
      | None \<Rightarrow> (case map_of shift_imm_word_ops op of
        Some b \<Rightarrow> if unat imm < 32 then Some (scast (alu_spec b (ucast x) imm)) else None
      | None \<Rightarrow> None))))))"

definition isa_taken :: "code \<Rightarrow> u64 \<Rightarrow> u64 \<Rightarrow> bool option" where
  "isa_taken op x y =
     (if op = INST_BEQ then Some (x = y)
      else if op = INST_BNE then Some (x \<noteq> y)
      else if op = INST_BLT then Some (sint x < sint y)
      else if op = INST_BGE then Some (\<not> sint x < sint y)
      else if op = INST_BLTU then Some (x < y)
      else if op = INST_BGEU then Some (\<not> x < y)
      else None)"

definition isa_loads :: "(code \<times> nat) list" where
  "isa_loads = [(INST_LB, 1), (INST_LBU, 1), (INST_LH, 2), (INST_LHU, 2), (INST_LW, 4), (INST_LWU, 4), (INST_LD, 8)]"

definition isa_stores :: "(code \<times> nat) list" where
  "isa_stores = [(INST_SB, 1), (INST_SH, 2), (INST_SW, 4), (INST_SD, 8)]"

definition isa_set :: "u32 \<Rightarrow> u64 \<Rightarrow> isa \<Rightarrow> isa" where
  "isa_set rd v s = s\<lparr>isa_reg := (isa_reg s)(rd := v, 0 := 0)\<rparr>"

definition isa_load :: "code \<Rightarrow> nat \<Rightarrow> u32 \<Rightarrow> u64 \<Rightarrow> isa \<Rightarrow> isa option" where
  "isa_load op n rd a s =
     (if touches_timer (ucast a) n then None
      else Some (isa_set rd (load_spec op (read_bytes (isa_mem s) (ucast a) n)) s))"

definition isa_store :: "nat \<Rightarrow> u64 \<Rightarrow> u64 \<Rightarrow> isa \<Rightarrow> isa option" where
  "isa_store n a v s =
     (if touches_timer (ucast a) n then None
      else Some (s\<lparr>isa_mem := write_bytes (isa_mem s) (ucast a) (le_bytes v n)\<rparr>))"

definition isa_amo :: "code \<Rightarrow> u32 \<Rightarrow> u64 \<Rightarrow> u64 \<Rightarrow> isa \<Rightarrow> isa option" where
  "isa_amo op rd a y s =
     (if touches_timer (ucast a) 8 then None
      else case map_of amo_words op of
        Some d \<Rightarrow> let t = (ucast (le_word (read_bytes (isa_mem s) (ucast a) 4)) :: u32)
          in Some (isa_set rd (scast t) (s\<lparr>isa_mem := write_bytes (isa_mem s) (ucast a) (le_bytes (ucast (amo_spec d t (ucast y))) 4)\<rparr>))
      | None \<Rightarrow> if op \<in> snd ` set amo_words then
          let t = le_word (read_bytes (isa_mem s) (ucast a) 8)
          in Some (isa_set rd t (s\<lparr>isa_mem := write_bytes (isa_mem s) (ucast a) (le_bytes (amo_spec op t y) 8)\<rparr>))
        else None)"

definition isa_exec :: "code \<Rightarrow> u32 \<Rightarrow> u32 \<Rightarrow> u32 \<Rightarrow> u32 \<Rightarrow> isa \<Rightarrow> isa option" where
  "isa_exec op rd rs1 rs2 imm s =
     (let pc = isa_pc s; x = isa_reg s rs1; y = isa_reg s rs2; t = s\<lparr>isa_pc := pc + 4\<rparr>
      in case isa_value op pc x y imm of
        Some v \<Rightarrow> Some (isa_set rd v t)
      | None \<Rightarrow> (case isa_taken op x y of
        Some b \<Rightarrow> Some (if b then s\<lparr>isa_pc := pc + scast imm\<rparr> else t)
      | None \<Rightarrow> (case map_of isa_loads op of
        Some n \<Rightarrow> isa_load op n rd (x + scast imm) t
      | None \<Rightarrow> (case map_of isa_stores op of
        Some n \<Rightarrow> isa_store n (x + scast imm) y t
      | None \<Rightarrow>
          if op = INST_JAL then Some (isa_set rd (pc + 4) (s\<lparr>isa_pc := pc + scast imm\<rparr>))
          else if op = INST_JALR then Some (isa_set rd (pc + 4) (s\<lparr>isa_pc := (x + scast imm) AND NOT 1\<rparr>))
          else if op = INST_FENCE \<or> op = INST_FENCEI then Some t
          else isa_amo op rd x y t))))"

section \<open>Decoding and running\<close>

definition isa_decode :: "u32 \<Rightarrow> code option" where
  "isa_decode w = map_option fst (find (\<lambda>(op, msk, mtch). w AND msk = mtch) isa_encodings)"

definition isa_word :: "isa \<Rightarrow> u32" where
  "isa_word s = ucast (le_word (read_bytes (isa_mem s) (ucast (isa_pc s)) 4))"

text \<open>One instruction: fetched from an aligned address, decoded and executed.\<close>

definition isa_step :: "isa \<Rightarrow> isa option" where
  "isa_step s =
     (if isa_pc s AND 3 \<noteq> 0 \<or> touches_timer (ucast (isa_pc s)) 4 then None
      else let w = isa_word s
        in case isa_decode w of
             None \<Rightarrow> None
           | Some op \<Rightarrow> isa_exec op (GetRd w) (GetRs1 w) (GetRs2 w) (GetImm w) s)"

text \<open>The main program returns: \<open>ret\<close> with \<open>ra\<close> zero.\<close>

definition isa_returns :: "isa \<Rightarrow> bool" where
  "isa_returns s \<longleftrightarrow>
     (let w = isa_word s
      in isa_decode w = Some INST_JALR \<and> GetRd w = 0 \<and> GetRs1 w = 1 \<and> GetImm w = 0 \<and> isa_reg s 1 = 0)"

text \<open>A run of at most \<open>n\<close> instructions: it ends in error at an instruction that jumps to itself, and normally at the return.\<close>

definition isa_next :: "isa \<Rightarrow> (isa \<times> bool option) option" where
  "isa_next s =
     map_option (\<lambda>t. (t, if isa_pc t = isa_pc s then Some True else if isa_returns s then Some False else None)) (isa_step s)"

end
