(* ===== verification/Result_Logic.thy ===== *)
theory Result_Logic
  imports Prelude
begin

text \<open>
  Pre- and postconditions for operations that can die: \<open>res_ok E P r\<close> says that \<open>r\<close> either dies with an
  error in \<open>E\<close> or returns a value in \<open>P\<close>.  The rules follow the shape of the operations.
\<close>

definition res_ok :: "(error \<Rightarrow> bool) \<Rightarrow> ('a \<Rightarrow> bool) \<Rightarrow> 'a res \<Rightarrow> bool" where
  "res_ok E P r = (case r of Inl e \<Rightarrow> E e | Inr x \<Rightarrow> P x)"

lemma res_ok_Inr [simp]: "res_ok E P (Inr x) = P x"
  by (simp add: res_ok_def)

lemma res_ok_Inl [simp]: "res_ok E P (Inl e) = E e"
  by (simp add: res_ok_def)

lemma res_ok_InrD: "res_ok E P r \<Longrightarrow> r = Inr x \<Longrightarrow> P x"
  by simp

lemma res_ok_InlD: "res_ok E P r \<Longrightarrow> r = Inl e \<Longrightarrow> E e"
  by simp

lemma res_ok_weaken: "res_ok E P r \<Longrightarrow> (\<And>e. E e \<Longrightarrow> E' e) \<Longrightarrow> (\<And>x. P x \<Longrightarrow> Q x) \<Longrightarrow> res_ok E' Q r"
  by (cases r) simp_all

lemma res_ok_self: "res_ok E P r \<Longrightarrow> res_ok E (\<lambda>x. P x \<and> r = Inr x) r"
  by (cases r) simp_all

lemma res_ok_bind: "res_ok E P r \<Longrightarrow> (\<And>x. P x \<Longrightarrow> res_ok E Q (f x)) \<Longrightarrow> res_ok E Q (rbind r f)"
  by (cases r) simp_all

lemma res_ok_bind2:
  "res_ok E (case_prod P) r \<Longrightarrow> (\<And>a b. P a b \<Longrightarrow> res_ok E Q (f a b)) \<Longrightarrow> res_ok E Q (rbind r (case_prod f))"
  by (cases r) auto

lemma res_ok_bind_iff: "res_ok E Q (rbind r f) = res_ok E (\<lambda>x. res_ok E Q (f x)) r"
  by (cases r) simp_all

lemma res_ok_if: "(b \<Longrightarrow> res_ok E P r) \<Longrightarrow> (\<not> b \<Longrightarrow> res_ok E P s) \<Longrightarrow> res_ok E P (if b then r else s)"
  by simp

lemma res_ok_assert: "(b \<Longrightarrow> P ()) \<Longrightarrow> (\<not> b \<Longrightarrow> E Assertion) \<Longrightarrow> res_ok E P (assert_that b)"
  by (cases b) simp_all

lemma res_ok_no_error: "res_ok (\<lambda>_. False) P r \<longleftrightarrow> (\<exists>x. r = Inr x \<and> P x)"
  by (cases r) simp_all

lemma res_ok_rfold:
  assumes "P acc" "\<And>a x. x \<in> set xs \<Longrightarrow> P a \<Longrightarrow> res_ok E P (f a x)"
  shows "res_ok E P (rfold f acc xs)"
  using assms
proof (induction xs arbitrary: acc)
  case (Cons x xs)
  then have "res_ok E P (f acc x)" by simp
  then show ?case by (auto simp: res_ok_bind_iff intro!: Cons elim!: res_ok_weaken)
qed simp

end
