(* ===== verification/Cpu_Inv.thy ===== *)
theory Cpu_Inv
  imports Cpu_State Result_Logic
begin

text \<open>
  The invariant of the control and status registers: the status and interrupt-enable registers of the
  three privilege levels are views of one word each, whatever instructions, traps and interrupts do.
  One lemma per operation.
\<close>

section \<open>The invariant\<close>

definition xlen_ok :: "'w cpu \<Rightarrow> bool" where
  "xlen_ok c \<longleftrightarrow> (cpu_xlen c = 32 \<and> cpu_mxl c = 1) \<or> (cpu_xlen c = 64 \<and> cpu_mxl c = 2)"

text \<open>On a 64-bit hart \<open>UXL\<close> and \<open>SXL\<close> stay 2.\<close>

definition uxl_ok :: "'w cpu \<Rightarrow> bool" where
  "uxl_ok c \<longleftrightarrow> (cpu_mxl c = 2 \<longrightarrow> bitcrop (cpu_mstatus c) 4 32 = 0b1010)"

definition status_mirror :: "'w cpu \<Rightarrow> bool" where
  "status_mirror c \<longleftrightarrow> cpu_csrs c MSTATUS = cpu_mstatus c \<and> cpu_csrs c SSTATUS = cpu_mstatus c AND sstatus_mask c \<and>
     cpu_csrs c USTATUS = cpu_mstatus c AND ustatus_mask c"

definition enable_mirror :: "'w cpu \<Rightarrow> bool" where
  "enable_mirror c \<longleftrightarrow> cpu_csrs c MIE = cpu_mie c \<and> cpu_csrs c SIE = cpu_mie c AND kSieMask \<and>
     cpu_csrs c UIE = cpu_mie c AND kUieMask"

definition core_inv :: "'w cpu \<Rightarrow> bool" where
  "core_inv c \<longleftrightarrow> xlen_ok c \<and> uxl_ok c \<and> enable_mirror c \<and> status_mirror c"

lemmas inv_defs = core_inv_def xlen_ok_def uxl_ok_def status_mirror_def enable_mirror_def sstatus_mask_def ustatus_mask_def

text \<open>The members that the invariant does not mention.\<close>

lemma core_inv_upd [simp]:
  "core_inv (c\<lparr>cpu_reg := reg\<rparr>) = core_inv c" "core_inv (c\<lparr>cpu_pc := pc\<rparr>) = core_inv c"
  "core_inv (c\<lparr>cpu_ir := ir\<rparr>) = core_inv c" "core_inv (c\<lparr>cpu_next_pc := pc\<rparr>) = core_inv c"
  "core_inv (c\<lparr>cpu_mip := x\<rparr>) = core_inv c" "core_inv (c\<lparr>cpu_privilege := pr\<rparr>) = core_inv c"
  "core_inv (c\<lparr>cpu_memory := m\<rparr>) = core_inv c" "core_inv (c\<lparr>cpu_ctype := b\<rparr>) = core_inv c"
  "core_inv (c\<lparr>cpu_page_fault := b\<rparr>) = core_inv c" "core_inv (c\<lparr>cpu_prev_page_fault := b\<rparr>) = core_inv c"
  "core_inv (c\<lparr>cpu_prev_faulting_address := x\<rparr>) = core_inv c" "core_inv (c\<lparr>cpu_error_flag := b\<rparr>) = core_inv c"
  "core_inv (c\<lparr>cpu_end_flag := b\<rparr>) = core_inv c" "core_inv (c\<lparr>cpu_faulting_address := x\<rparr>) = core_inv c"
  "core_inv (c\<lparr>cpu_mmu := u\<rparr>) = core_inv c" "core_inv (c\<lparr>cpu_peripheral := p\<rparr>) = core_inv c"
  "core_inv (c\<lparr>cpu_virtio_interrupt := b\<rparr>) = core_inv c" "core_inv (c\<lparr>cpu_uart_interrupt := b\<rparr>) = core_inv c"
  "core_inv (c\<lparr>cpu_brk := x\<rparr>) = core_inv c" "core_inv (c\<lparr>cpu_openHandles := n\<rparr>) = core_inv c"
  "core_inv (c\<lparr>cpu_world := w\<rparr>) = core_inv c"
  by (simp_all add: inv_defs)

lemma core_inv_set_reg [simp]: "core_inv (set_reg r v c) = core_inv c"
  by (simp add: set_reg_def)

definition mirrored :: "u32 set" where
  "mirrored = {MSTATUS, SSTATUS, USTATUS, MIE, SIE, UIE}"

lemma core_inv_set_csr: "i \<notin> mirrored \<Longrightarrow> core_inv (set_csr i v c) = core_inv c"
  by (simp add: inv_defs set_csr_def mirrored_def)

section \<open>Frames\<close>

lemma set_csr_sel [simp]:
  "cpu_xlen (set_csr i v c) = cpu_xlen c" "cpu_mxl (set_csr i v c) = cpu_mxl c" "cpu_reg (set_csr i v c) = cpu_reg c"
  "cpu_pc (set_csr i v c) = cpu_pc c" "cpu_next_pc (set_csr i v c) = cpu_next_pc c" "cpu_mstatus (set_csr i v c) = cpu_mstatus c"
  "cpu_mie (set_csr i v c) = cpu_mie c" "cpu_mip (set_csr i v c) = cpu_mip c" "cpu_privilege (set_csr i v c) = cpu_privilege c"
  "cpu_memory (set_csr i v c) = cpu_memory c" "cpu_csrs (set_csr i v c) = (cpu_csrs c)(i := v)"
  "cpu_ir (set_csr i v c) = cpu_ir c" "cpu_page_fault (set_csr i v c) = cpu_page_fault c"
  "cpu_error_flag (set_csr i v c) = cpu_error_flag c" "cpu_end_flag (set_csr i v c) = cpu_end_flag c"
  by (simp_all add: set_csr_def)

text \<open>Operations on the CSRs leave the registers, the memory and the mode bits alone.\<close>

definition same_data :: "'w cpu \<Rightarrow> 'w cpu \<Rightarrow> bool" where
  "same_data c c' \<longleftrightarrow> cpu_reg c' = cpu_reg c \<and> cpu_memory c' = cpu_memory c \<and> cpu_xlen c' = cpu_xlen c \<and>
     cpu_mxl c' = cpu_mxl c \<and> cpu_peripheral c' = cpu_peripheral c \<and> cpu_world c' = cpu_world c \<and>
     cpu_host_emulation c' = cpu_host_emulation c \<and> cpu_peripheral_emulation c' = cpu_peripheral_emulation c \<and>
     cpu_ecall_emulation c' = cpu_ecall_emulation c"

lemma same_data_refl [simp]: "same_data c c"
  by (simp add: same_data_def)

lemma same_data_trans [trans]: "same_data a b \<Longrightarrow> same_data b c \<Longrightarrow> same_data a c"
  by (simp add: same_data_def)

lemma same_data_set_csr [simp]: "same_data c (set_csr i v c)"
  by (simp add: same_data_def set_csr_def)

lemma same_data_Apply [simp]:
  "same_data c (ApplyMstatusToCsr c)" "same_data c (ApplyInterruptPending c)" "same_data c (ApplyInterruptEnable c)"
  by (simp_all add: same_data_def ApplyMstatusToCsr_def ApplyInterruptPending_def ApplyInterruptEnable_def set_csr_def)

section \<open>The mirrors\<close>

lemma status_mirror_Apply: "xlen_ok c \<Longrightarrow> uxl_ok c \<Longrightarrow> enable_mirror c \<Longrightarrow> core_inv (ApplyMstatusToCsr c)"
  by (simp add: inv_defs ApplyMstatusToCsr_def set_csr_def)

lemma enable_mirror_Apply: "xlen_ok c \<Longrightarrow> uxl_ok c \<Longrightarrow> status_mirror c \<Longrightarrow> core_inv (ApplyInterruptEnable c)"
  by (simp add: inv_defs ApplyInterruptEnable_def set_csr_def)

lemma core_inv_ApplyInterruptPending [simp]: "core_inv (ApplyInterruptPending c) = core_inv c"
  by (simp add: ApplyInterruptPending_def core_inv_set_csr mirrored_def)

lemma core_inv_ApplyInterruptEnable [simp]: "core_inv c \<Longrightarrow> core_inv (ApplyInterruptEnable c)"
  by (rule enable_mirror_Apply) (simp_all add: core_inv_def)

lemma core_inv_ApplyMstatusToCsr [simp]: "core_inv c \<Longrightarrow> core_inv (ApplyMstatusToCsr c)"
  by (rule status_mirror_Apply) (simp_all add: core_inv_def)

text \<open>Updates of single fields of \<open>mstatus\<close>, followed by the mirroring.\<close>

definition half_inv :: "'w cpu \<Rightarrow> bool" where
  "half_inv c \<longleftrightarrow> xlen_ok c \<and> uxl_ok c \<and> enable_mirror c"

lemma half_inv_core: "core_inv c \<Longrightarrow> half_inv c"
  by (simp add: core_inv_def half_inv_def)

lemma half_inv_Apply: "half_inv c \<Longrightarrow> core_inv (ApplyMstatusToCsr c)"
  by (simp add: status_mirror_Apply half_inv_def)

lemma half_inv_mstatus:
  "half_inv c \<Longrightarrow> bitcrop x 4 32 = bitcrop (cpu_mstatus c) 4 32 \<Longrightarrow> half_inv (c\<lparr>cpu_mstatus := x\<rparr>)"
  by (simp add: half_inv_def inv_defs)

lemma half_inv_upd [simp]:
  "half_inv (c\<lparr>cpu_next_pc := pc\<rparr>) = half_inv c" "half_inv (c\<lparr>cpu_privilege := pr\<rparr>) = half_inv c"
  "half_inv (set_csr SCAUSE v c) = half_inv c" "half_inv (set_csr SEPC v c) = half_inv c"
  "half_inv (set_csr STVAL v c) = half_inv c" "half_inv (set_csr MCAUSE v c) = half_inv c"
  "half_inv (set_csr MEPC v c) = half_inv c" "half_inv (set_csr MTVAL v c) = half_inv c"
  "half_inv (set_csr MSTATUS v c) = half_inv c"
  by (simp_all add: half_inv_def inv_defs set_csr_def)

section \<open>CSR instructions\<close>

lemma force_uxl: "bitcrop ((x AND NOT (push_bit 32 0b1111)) OR push_bit 32 0b1010 :: u64) 4 32 = 0b1010"
proof -
  have e: "(x AND NOT (push_bit 32 0b1111)) OR push_bit 32 0b1010 = bitset x 4 32 0b1010"
    by (subst bitset_eq) (simp_all add: mask_eq_exp_minus_1)
  show ?thesis unfolding e by (simp add: bitcrop_bitset_same)
qed

lemma UpdateMstatus_inv: "xlen_ok c \<Longrightarrow> enable_mirror c \<Longrightarrow> core_inv (UpdateMstatus c csr)"
  unfolding UpdateMstatus_def Let_def
  by (rule status_mirror_Apply)
    (auto simp: xlen_ok_def enable_mirror_def uxl_ok_def force_uxl [simplified])

lemma UpdateInterruptEnable_inv:
  "xlen_ok c \<Longrightarrow> uxl_ok c \<Longrightarrow> status_mirror c \<Longrightarrow> csr \<in> {MIE, SIE, UIE} \<Longrightarrow> core_inv (UpdateInterruptEnable c csr)"
  unfolding UpdateInterruptEnable_def
  by (auto intro!: enable_mirror_Apply simp: xlen_ok_def uxl_ok_def status_mirror_def sstatus_mask_def ustatus_mask_def)

lemma UpdateInterruptPending_inv [simp]: "core_inv (UpdateInterruptPending c csr) = core_inv c"
  by (simp add: UpdateInterruptPending_def)

lemma ucast_csr: "csr < 4096 \<Longrightarrow> k < 4096 \<Longrightarrow> (ucast (csr :: u32) :: u16) = ucast k \<longleftrightarrow> csr = k"
proof
  assume l: "csr < 4096" "k < 4096" and e: "(ucast csr :: u16) = ucast k"
  have "unat csr < 4096" "unat k < 4096" using l by (simp_all add: word_less_nat_alt)
  moreover have "unat csr mod 2 ^ 16 = unat k mod 2 ^ 16" using arg_cong [OF e, of unat] by (simp add: unsigned_ucast_eq take_bit_eq_mod)
  ultimately show "csr = k" by (simp add: word_unat_eq_iff)
qed simp

lemma CsrsInstruction_inv:
  assumes "core_inv c" "csr < 4096"
  shows "core_inv (CsrsInstruction c i csr rd rs1)"
proof -
  define v where "v = (if i = INST_CSRRC then cpu_csrs c csr AND NOT (cpu_reg c rs1)
     else if i = INST_CSRRCI then cpu_csrs c csr AND ucast (NOT rs1)
     else if i = INST_CSRRS then cpu_csrs c csr OR cpu_reg c rs1
     else if i = INST_CSRRSI then cpu_csrs c csr OR ucast rs1
     else if i = INST_CSRRW then cpu_reg c rs1 else if i = INST_CSRRWI then ucast rs1 else cpu_csrs c csr)"
  let ?c = "set_reg rd (cpu_csrs c csr) (set_csr csr v c)"
  have e: "CsrsInstruction c i csr rd rs1 = UpdateStatus ?c (ucast csr)"
    by (simp only: CsrsInstruction_def v_def Let_def)
  have x: "xlen_ok ?c" "uxl_ok ?c" using assms(1) by (simp_all add: inv_defs set_reg_def set_csr_def)
  have k: "(ucast csr :: u16) = USTATUS \<longleftrightarrow> csr = USTATUS" "(ucast csr :: u16) = SSTATUS \<longleftrightarrow> csr = SSTATUS"
    "(ucast csr :: u16) = MSTATUS \<longleftrightarrow> csr = MSTATUS" "(ucast csr :: u16) = UIE \<longleftrightarrow> csr = UIE"
    "(ucast csr :: u16) = SIE \<longleftrightarrow> csr = SIE" "(ucast csr :: u16) = MIE \<longleftrightarrow> csr = MIE"
    using ucast_csr [OF assms(2), of USTATUS] ucast_csr [OF assms(2), of SSTATUS] ucast_csr [OF assms(2), of MSTATUS]
      ucast_csr [OF assms(2), of UIE] ucast_csr [OF assms(2), of SIE] ucast_csr [OF assms(2), of MIE] by simp_all
  consider "csr \<in> {USTATUS, SSTATUS, MSTATUS}" | "csr \<in> {MIE, SIE, UIE}" | "csr \<notin> mirrored"
    by (auto simp: mirrored_def)
  then show ?thesis
  proof cases
    case 1
    then have "enable_mirror ?c" using assms(1) by (auto simp: inv_defs set_reg_def set_csr_def)
    with 1 x show ?thesis unfolding e UpdateStatus_def by (auto simp: UpdateMstatus_inv)
  next
    case 2
    then have m: "status_mirror ?c" using assms(1) by (auto simp: inv_defs set_reg_def set_csr_def)
    have "ucast csr \<in> {MIE, SIE, UIE :: u16}" using 2 by auto
    then show ?thesis
      unfolding e UpdateStatus_def using UpdateInterruptEnable_inv [OF x m, of "ucast csr"] by auto
  next
    case 3
    then have "core_inv ?c" using assms(1) by (simp add: core_inv_set_csr)
    with 3 k show ?thesis unfolding e UpdateStatus_def mirrored_def by simp
  qed
qed

section \<open>Traps and returns\<close>

lemma trap_page_fault_inv [simp]: "core_inv (trap_page_fault cause i c) = core_inv c"
  by (simp add: trap_page_fault_def Let_def)

lemma trap_to_supervisor_inv: "core_inv c \<Longrightarrow> core_inv (trap_to_supervisor cause i sie tval c)"
  unfolding trap_to_supervisor_def Let_def
  by (simp add: half_inv_Apply half_inv_mstatus bitcrop_bitset_other half_inv_core del: bitcrop_bit)

lemma trap_to_machine_inv: "core_inv c \<Longrightarrow> core_inv (trap_to_machine cause i mie tval c)"
  unfolding trap_to_machine_def Let_def
  by (simp add: half_inv_Apply half_inv_mstatus bitcrop_bitset_other half_inv_core del: bitcrop_bit)

lemma core_inv_ClearInterruptPending [simp]: "core_inv (ClearInterruptPending c cause) = core_inv c"
  by (simp add: ClearInterruptPending_def)

lemma core_inv_SetInterruptPending: "core_inv c \<Longrightarrow> core_inv (SetInterruptPending c cause)"
  by (simp add: SetInterruptPending_def)

lemma Trap_inv: "core_inv c \<Longrightarrow> Trap c cause i = Inr c' \<Longrightarrow> core_inv c'"
  unfolding Trap_def Let_def by (auto simp: trap_to_supervisor_inv trap_to_machine_inv)

lemma Mret_inv: "core_inv c \<Longrightarrow> Mret c = Inr c' \<Longrightarrow> core_inv c'"
  unfolding Mret_def Let_def by (auto simp: half_inv_Apply half_inv_mstatus bitcrop_bitset_other half_inv_core)

lemma Sret_inv: "core_inv c \<Longrightarrow> Sret c = Inr c' \<Longrightarrow> core_inv c'"
  unfolding Sret_def Let_def by (auto simp: half_inv_Apply half_inv_mstatus bitcrop_bitset_other half_inv_core)

text \<open>What traps and returns leave alone.\<close>

lemma same_data_trap_parts:
  "same_data c (trap_page_fault cause i c)" "same_data c (trap_to_supervisor cause i x tval c)"
  "same_data c (trap_to_machine cause i x tval c)" "same_data c (ClearInterruptPending c cause)"
  by (simp_all add: same_data_def trap_page_fault_def trap_to_supervisor_def trap_to_machine_def ClearInterruptPending_def
      ApplyMstatusToCsr_def ApplyInterruptPending_def set_csr_def Let_def)

lemma Trap_same: "Trap c cause i = Inr c' \<Longrightarrow> same_data c c'"
  unfolding Trap_def Let_def
  by (auto intro!: same_data_trans [OF _ same_data_Apply(1)] same_data_trans [OF _ same_data_trap_parts(4)]
      intro: same_data_trans [OF same_data_trap_parts(1) same_data_trap_parts(2)]
        same_data_trans [OF same_data_trap_parts(1) same_data_trap_parts(3)])

lemma Mret_same: "Mret c = Inr c' \<Longrightarrow> same_data c c'"
  unfolding Mret_def Let_def by (auto simp: same_data_def ApplyMstatusToCsr_def set_csr_def)

lemma Sret_same: "Sret c = Inr c' \<Longrightarrow> same_data c c'"
  unfolding Sret_def Let_def by (auto simp: same_data_def ApplyMstatusToCsr_def set_csr_def)

lemma SetInterruptPending_same: "same_data c (SetInterruptPending c cause)"
  by (simp add: same_data_def SetInterruptPending_def ApplyInterruptEnable_def set_csr_def)

text \<open>A trap dies only on an unsupported cause.\<close>

lemma Trap_returns: "trap_supported cause i \<Longrightarrow> \<exists>c'. Trap c cause i = Inr c'"
  by (simp add: Trap_def Let_def)

lemma Trap_triple:
  assumes "core_inv c" "trap_supported cause i"
  shows "res_ok E (\<lambda>c'. core_inv c' \<and> same_data c c') (Trap c cause i)"
  using Trap_returns [OF assms(2), of c] Trap_inv [OF assms(1)] Trap_same by fastforce

section \<open>Construction\<close>

lemma RiscvCpu_inv: "core_inv (RiscvCpu b raw s)"
  by (auto simp: inv_defs RiscvCpu_defs Let_def bitcrop_numeral)

end
