(* ===== verification/Device_Inv.thy ===== *)
theory Device_Inv
  imports Peripheral System_Call Result_Logic
begin

text \<open>
  Whatever the peripherals and the system calls write, guest memory stays well formed; and the only way
  in which an access of well-formed memory dies is the alignment assertion.
\<close>

section \<open>Memory accesses\<close>

lemma Read_triples:
  assumes "mem_wf m"
  shows "res_ok E (\<lambda>_. True) (ReadByte m i)"
    "(i AND 1 \<noteq> 0 \<Longrightarrow> E Assertion) \<Longrightarrow> res_ok E (\<lambda>_. True) (Read16 m i)"
    "(i AND 3 \<noteq> 0 \<Longrightarrow> E Assertion) \<Longrightarrow> res_ok E (\<lambda>_. True) (Read32 m i)"
    "(i AND 7 \<noteq> 0 \<Longrightarrow> E Assertion) \<Longrightarrow> res_ok E (\<lambda>_. True) (Read64 m i)"
proof -
  show "res_ok E (\<lambda>_. True) (ReadByte m i)" by (simp add: ReadByte_abs [OF assms])
  show "(i AND 1 \<noteq> 0 \<Longrightarrow> E Assertion) \<Longrightarrow> res_ok E (\<lambda>_. True) (Read16 m i)"
    by (cases "i AND 1 = 0") (simp add: Read16_abs [OF assms], simp add: Read16_def)
  show "(i AND 3 \<noteq> 0 \<Longrightarrow> E Assertion) \<Longrightarrow> res_ok E (\<lambda>_. True) (Read32 m i)"
    by (cases "i AND 3 = 0") (simp add: Read32_abs [OF assms], simp add: Read32_def)
  show "(i AND 7 \<noteq> 0 \<Longrightarrow> E Assertion) \<Longrightarrow> res_ok E (\<lambda>_. True) (Read64 m i)"
    by (cases "i AND 7 = 0") (simp add: Read64_abs [OF assms], simp add: Read64_def)
qed

lemma Write_triples:
  assumes "mem_wf m"
  shows "res_ok E mem_wf (WriteByte m i b)"
    "(i AND 1 \<noteq> 0 \<Longrightarrow> E Assertion) \<Longrightarrow> res_ok E mem_wf (Write16 m i s)"
    "(i AND 3 \<noteq> 0 \<Longrightarrow> E Assertion) \<Longrightarrow> res_ok E mem_wf (Write32 m i w)"
    "(i AND 7 \<noteq> 0 \<Longrightarrow> E Assertion) \<Longrightarrow> res_ok E mem_wf (Write64 m i d)"
proof -
  show "res_ok E mem_wf (WriteByte m i b)" by (rule WriteByte_abs [OF assms, of i b]) simp
  show "res_ok E mem_wf (Write16 m i s)" if "i AND 1 \<noteq> 0 \<Longrightarrow> E Assertion"
  proof (cases "i AND 1 = 0")
    case True
    show ?thesis by (rule Write16_abs [OF assms True, of s]) simp
  qed (use that in \<open>simp add: Write16_def\<close>)
  show "res_ok E mem_wf (Write32 m i w)" if "i AND 3 \<noteq> 0 \<Longrightarrow> E Assertion"
  proof (cases "i AND 3 = 0")
    case True
    show ?thesis by (rule Write32_abs [OF assms True, of w]) simp
  qed (use that in \<open>simp add: Write32_def\<close>)
  show "res_ok E mem_wf (Write64 m i d)" if "i AND 7 \<noteq> 0 \<Longrightarrow> E Assertion"
  proof (cases "i AND 7 = 0")
    case True
    show ?thesis by (rule Write64_abs [OF assms True, of d]) simp
  qed (use that in \<open>simp add: Write64_def\<close>)
qed

text \<open>A write that returns keeps the memory well formed.\<close>

lemma Write_keeps:
  "WriteByte m i b = Inr m' \<Longrightarrow> mem_wf m \<Longrightarrow> mem_wf m'"
  "Write16 m i s = Inr m' \<Longrightarrow> mem_wf m \<Longrightarrow> mem_wf m'"
  "Write32 m i w = Inr m' \<Longrightarrow> mem_wf m \<Longrightarrow> mem_wf m'"
  "Write64 m i d = Inr m' \<Longrightarrow> mem_wf m \<Longrightarrow> mem_wf m'"
  using Write_triples [where E = "\<lambda>_. True"] by (metis res_ok_Inr)+

lemma rfold_keeps:
  assumes "rfold f m xs = Inr m'" "mem_wf m" "\<And>m x m'. f m x = Inr m' \<Longrightarrow> mem_wf m \<Longrightarrow> mem_wf m'"
  shows "mem_wf m'"
  using assms(1,2) by (induction xs arbitrary: m) (auto dest: assms(3))

section \<open>Peripherals\<close>

lemma UartInit_mem: "UartInit p m k = Inr (p', m') \<Longrightarrow> mem_wf m \<Longrightarrow> mem_wf m'"
  unfolding UartInit_def by (auto intro: Write_keeps)

lemma VirtioInit_mem: "VirtioInit m = Inr m' \<Longrightarrow> mem_wf m \<Longrightarrow> mem_wf m'"
  unfolding VirtioInit_def by (elim rbind_InrE) (blast intro: Write_keeps)

lemma Initialize_mem: "Initialize p m k = Inr (p', m') \<Longrightarrow> mem_wf m \<Longrightarrow> mem_wf m'"
  unfolding Initialize_def by (auto intro: UartInit_mem VirtioInit_mem)

lemma SetUartBuffer_mem: "SetUartBuffer p m k = Inr (p', m') \<Longrightarrow> mem_wf m \<Longrightarrow> mem_wf m'"
  unfolding SetUartBuffer_def by (auto intro: Write_keeps)

lemma ClearUartBuffer_mem: "ClearUartBuffer p m = Inr (p', m') \<Longrightarrow> mem_wf m \<Longrightarrow> mem_wf m'"
  unfolding ClearUartBuffer_def by (auto intro: Write_keeps)

lemma UartInterrupt_mem: "UartInterrupt p m = Inr (p', m') \<Longrightarrow> mem_wf m \<Longrightarrow> mem_wf m'"
  unfolding UartInterrupt_def by (auto intro: Write_keeps)

lemma UartEmulation_mem: "UartEmulation h p m w = Inr (p', m', w') \<Longrightarrow> mem_wf m \<Longrightarrow> mem_wf m'"
  unfolding UartEmulation_def
  by (auto simp: Let_def split: if_splits option.splits prod.splits) (meson SetUartBuffer_mem ClearUartBuffer_mem UartInterrupt_mem)+

lemma disc_access_mem:
  assumes "disc_access disk m s b len wr = Inr (d', m')" "mem_wf m"
  shows "mem_wf m'"
proof (cases wr)
  case True
  with assms show ?thesis by (auto simp: disc_access_def Let_def)
next
  case False
  with assms(1) have "rfold (\<lambda>m k. rbind (disk_get disk (s * kSectorSize + of_nat k)) (\<lambda>x. WriteByte m (b + of_nat k) x)) m [0..<unat len] = Inr m'"
    by (auto simp: disc_access_def Let_def)
  then show ?thesis by (rule rfold_keeps [OF _ assms(2)]) (auto intro: Write_keeps)
qed

lemma process_disc_access_mem: "process_disc_access disk m da di = Inr (d', m') \<Longrightarrow> mem_wf m \<Longrightarrow> mem_wf m'"
  unfolding process_disc_access_def Let_def by (auto split: if_splits) (meson disc_access_mem Write_keeps(1))+

lemma process_used_buffer_mem: "process_used_buffer m a i = Inr m' \<Longrightarrow> mem_wf m \<Longrightarrow> mem_wf m'"
  unfolding process_used_buffer_def by (elim rbind_InrE) (blast intro: Write_keeps)

lemma VirtioDiskAccess_mem: "VirtioDiskAccess disk m q a = Inr (d', m') \<Longrightarrow> mem_wf m \<Longrightarrow> mem_wf m'"
  unfolding VirtioDiskAccess_def Let_def by (auto intro: process_disc_access_mem process_used_buffer_mem)

lemma virtio_queue_sel_mem: "virtio_queue_sel p m = Inr m' \<Longrightarrow> mem_wf m \<Longrightarrow> mem_wf m'"
  unfolding virtio_queue_sel_def by (auto split: if_splits intro: Write_keeps)

lemma VirtioEmulation_mem: "VirtioEmulation p m = Inr (p', m') \<Longrightarrow> mem_wf m \<Longrightarrow> mem_wf m'"
  unfolding VirtioEmulation_def Let_def
  by (auto split: if_splits) (meson virtio_queue_sel_mem VirtioDiskAccess_mem Write_keeps(3))+

lemma Emulation_mem: "Emulation h p m w = Inr (p', m', w') \<Longrightarrow> mem_wf m \<Longrightarrow> mem_wf m'"
  unfolding Emulation_def by (auto split: if_splits) (meson UartEmulation_mem VirtioEmulation_mem)+

section \<open>System calls\<close>

lemma store_bytes_mem: "store_bytes m a f n = Inr m' \<Longrightarrow> mem_wf m \<Longrightarrow> mem_wf m'"
  unfolding store_bytes_def by (erule rfold_keeps) (auto intro: Write_keeps)

lemma SystemCallEmulation_mem:
  assumes "SystemCallEmulation h s limit = Inr (flags, s')" "mem_wf (sy_mem s)"
  shows "mem_wf (sy_mem s')"
proof -
  have 1: "sys_write h s = Inr s' \<Longrightarrow> mem_wf (sy_mem s')" for s'
    using assms(2) by (auto simp: sys_write_def sys_reg_def split: prod.splits)
  have 2: "sys_read h s = Inr s' \<Longrightarrow> mem_wf (sy_mem s')" for s'
    using assms(2) by (auto simp: sys_read_def sys_reg_def Let_def split: prod.splits) (meson store_bytes_mem)
  have 3: "sys_fstat h s = Inr s' \<Longrightarrow> mem_wf (sy_mem s')" for s'
    using assms(2) by (auto simp: sys_fstat_def sys_reg_def Let_def split: prod.splits) (meson store_bytes_mem)
  have 4: "sys_open h s = Inr s' \<Longrightarrow> mem_wf (sy_mem s')" for s'
    using assms(2) by (auto simp: sys_open_def sys_reg_def Let_def split: prod.splits if_splits)
  have 5: "mem_wf (sy_mem (sys_brk s limit))" "mem_wf (sy_mem (sys_close h s))" "mem_wf (sy_mem (sys_lseek h s))"
    using assms(2) by (auto simp: sys_brk_def sys_close_def sys_lseek_def sys_reg_def Let_def split: prod.splits)
  show ?thesis
    using assms unfolding SystemCallEmulation_def Let_def
    by (auto split: if_splits intro: 1 2 3 4 intro: 5)
qed

section \<open>How the devices and the system calls die\<close>

text \<open>A system call dies only when the guest asks to read or write a negative number of bytes.\<close>

definition syscall_error :: "(u32 \<Rightarrow> u64) \<Rightarrow> error \<Rightarrow> bool" where
  "syscall_error reg e \<longleftrightarrow> e = Bad_alloc \<and> (reg A7 = 63 \<or> reg A7 = 64) \<and> sint (ucast (reg A2) :: u32) < 0"

lemma alloc_length_triple: "res_ok (\<lambda>e. e = Bad_alloc \<and> sint (ucast x :: u32) < 0) (\<lambda>_. True) (alloc_length x)"
  by (simp add: alloc_length_def Let_def)

lemma MemoryWrapperCopy_triple: "mem_wf m \<Longrightarrow> res_ok E (\<lambda>_. True) (MemoryWrapperCopy m a n)"
  unfolding MemoryWrapperCopy_def by (rule res_ok_rfold) (simp_all add: res_ok_bind_iff Read_triples(1))

lemma strlen_loop_triple: "mem_wf m \<Longrightarrow> res_ok E (\<lambda>_. True) (strlen_loop m a n k)"
  by (induction n arbitrary: a k) (simp_all add: res_ok_bind_iff ReadByte_abs)

lemma store_bytes_triple: "mem_wf m \<Longrightarrow> res_ok E mem_wf (store_bytes m a f n)"
  unfolding store_bytes_def by (rule res_ok_rfold) (simp_all add: Write_triples(1))

lemma SystemCallEmulation_triple:
  assumes "mem_wf (sy_mem s)"
  shows "res_ok (syscall_error (sy_reg s)) (\<lambda>_. True) (SystemCallEmulation h s limit)"
proof -
  let ?E = "\<lambda>e. e = Bad_alloc \<and> sint (ucast (sy_reg s A2) :: u32) < 0"
  have w: "res_ok ?E (\<lambda>_. True) (sys_write h s)"
    unfolding sys_write_def
    by (intro res_ok_bind [OF alloc_length_triple] res_ok_bind [OF MemoryWrapperCopy_triple [OF assms]]) (simp split: prod.split)
  have r: "res_ok ?E (\<lambda>_. True) (sys_read h s)"
    unfolding sys_read_def
    by (intro res_ok_bind [OF alloc_length_triple])
      (auto simp: Let_def sys_reg_def assms split: prod.split intro!: res_ok_bind [OF store_bytes_triple])
  have f: "res_ok E (\<lambda>_. True) (sys_fstat h s)" for E
    unfolding sys_fstat_def Let_def by (auto simp: assms split: prod.split intro!: res_ok_bind [OF store_bytes_triple])
  have o: "res_ok E (\<lambda>_. True) (sys_open h s)" for E
    unfolding sys_open_def Let_def MemoryWrapperStrlen_def
    by (intro res_ok_bind [OF strlen_loop_triple [OF assms]] res_ok_if res_ok_bind [OF MemoryWrapperCopy_triple [OF assms]])
      (simp_all split: prod.split)
  have c: "res_ok E (\<lambda>_. True) (rbind r (\<lambda>s. Inr ((False, False), s)))" if "res_ok E (\<lambda>_. True) r" for E and r :: "'a sys_state res"
    using that by (rule res_ok_bind) simp
  have "res_ok (syscall_error (sy_reg s)) (\<lambda>_. True) (sys_write h s)" if "sy_reg s A7 = 64"
    by (rule res_ok_weaken [OF w]) (simp_all add: syscall_error_def that)
  moreover have "res_ok (syscall_error (sy_reg s)) (\<lambda>_. True) (sys_read h s)" if "sy_reg s A7 = 63"
    by (rule res_ok_weaken [OF r]) (simp_all add: syscall_error_def that)
  ultimately show ?thesis
    unfolding SystemCallEmulation_def Let_def by (intro res_ok_if c f o) simp_all
qed

text \<open>
  A request of the virtio driver whose data lie beyond the disk image, or that finds no disk image: the header of
  the chain at descriptor \<open>i\<close> names the sector, its second descriptor the length.
\<close>

definition disk_overrun :: "u8 list option \<Rightarrow> memory \<Rightarrow> u64 \<Rightarrow> u16 \<Rightarrow> bool" where
  "disk_overrun disk m queue i \<longleftrightarrow>
     (\<exists>d hdr data k. read_desc m queue i = Inr d \<and> read_outhdr m (vd_addr d) = Inr hdr \<and>
        read_desc m queue (vd_next d) = Inr data \<and> k < unat (vd_len data) \<and>
        (case disk of None \<Rightarrow> True | Some bs \<Rightarrow> length bs \<le> unat (oh_sector hdr * 512 + of_nat k)))"

text \<open>
  The device dies only when its driver has written the notification register: on a request it rejects, on a queue
  of length zero, or on a request beyond the disk.
\<close>

definition virtio_notified :: "periph \<Rightarrow> bool" where
  "virtio_notified p \<longleftrightarrow> p_virtio_write p \<and> \<not> p_virtio_address p + p_virtio_width p \<le> kVirtioMmioQueueNotify \<and>
     \<not> kVirtioMmioQueueNotify + 4 \<le> p_virtio_address p"

definition virtio_error :: "periph \<Rightarrow> memory \<Rightarrow> error \<Rightarrow> bool" where
  "virtio_error p m e \<longleftrightarrow> virtio_notified p \<and>
     (e = Assertion \<or>
      (\<exists>m' qn pfn. virtio_queue_sel p m = Inr m' \<and> Read32 m' kVirtioMmioQueueNum = Inr qn \<and>
         Read32 m' kVirtioMmioQueuePfn = Inr pfn \<and>
         (e = Div_by_zero \<and> qn = 0 \<or>
          e = Undefined \<and> (\<exists>i. get_desc_index m' (sint qn) (ucast (pfn * 4096) + ucast (of_int (sint qn) * 16 :: u32)) = Inr i \<and>
            disk_overrun (p_disk_image p) m' (ucast (pfn * 4096)) i))))"

lemma read_desc_triple: "mem_wf m \<Longrightarrow> E Assertion \<Longrightarrow> res_ok E (\<lambda>d. read_desc m q i = Inr d) (read_desc m q i)"
proof -
  assume m: "mem_wf m" "E Assertion"
  have "res_ok E (\<lambda>_. True) (read_desc m q i)"
    unfolding read_desc_def Let_def
    by (intro res_ok_bind [OF Read_triples(4) [OF m(1)]] res_ok_bind [OF Read_triples(3) [OF m(1)]]
        res_ok_bind [OF Read_triples(2) [OF m(1)]]) (simp_all add: m)
  then show ?thesis by (cases "read_desc m q i") simp_all
qed

lemma read_outhdr_triple: "mem_wf m \<Longrightarrow> E Assertion \<Longrightarrow> res_ok E (\<lambda>d. read_outhdr m a = Inr d) (read_outhdr m a)"
proof -
  assume m: "mem_wf m" "E Assertion"
  have "res_ok E (\<lambda>_. True) (read_outhdr m a)"
    unfolding read_outhdr_def Let_def
    by (intro res_ok_bind [OF Read_triples(4) [OF m(1)]] res_ok_bind [OF Read_triples(3) [OF m(1)]]) (simp_all add: m)
  then show ?thesis by (cases "read_outhdr m a") simp_all
qed

text \<open>The transfer fails exactly at a byte outside the disk image.\<close>

definition outside_disk :: "u8 list option \<Rightarrow> u64 \<Rightarrow> bool" where
  "outside_disk disk i \<longleftrightarrow> (case disk of None \<Rightarrow> True | Some bs \<Rightarrow> length bs \<le> unat i)"

lemma outside_disk_set: "disk_set d i v = Inr d' \<Longrightarrow> outside_disk d' = outside_disk d"
  by (auto simp: fun_eq_iff outside_disk_def disk_set_def split: option.splits if_splits)

lemma disk_triples:
  "res_ok (\<lambda>e. e = Undefined \<and> outside_disk d i) (\<lambda>_. True) (disk_get d i)"
  "res_ok (\<lambda>e. e = Undefined \<and> outside_disk d i) (\<lambda>d'. outside_disk d' = outside_disk d) (disk_set d i v)"
  using outside_disk_set [of d i v] by (auto simp: res_ok_def disk_get_def outside_disk_def disk_set_def split: option.splits sum.splits)

lemma disc_access_triple:
  assumes "mem_wf m"
  shows "res_ok (\<lambda>e. e = Undefined \<and> (\<exists>k < unat len. outside_disk disk (sector * 512 + of_nat k)))
    (\<lambda>(d, m'). mem_wf m') (disc_access disk m sector b len wr)" (is "res_ok ?E _ _")
proof -
  have w: "res_ok ?E (\<lambda>d. outside_disk d = outside_disk disk)
      (rfold (\<lambda>d k. rbind (ReadByte m (b + of_nat k)) (\<lambda>x. disk_set d (sector * 512 + of_nat k) x)) disk [0..<unat len])"
  proof (rule res_ok_rfold, rule refl)
    fix d k
    assume k: "k \<in> set [0..<unat len]" and d: "outside_disk d = outside_disk disk"
    show "res_ok ?E (\<lambda>d. outside_disk d = outside_disk disk)
        (rbind (ReadByte m (b + of_nat k)) (\<lambda>x. disk_set d (sector * 512 + of_nat k) x))"
      by (intro res_ok_bind [OF Read_triples(1) [OF assms]] res_ok_weaken [OF disk_triples(2)]) (use k d in auto)
  qed
  have r: "res_ok ?E mem_wf
      (rfold (\<lambda>m k. rbind (disk_get disk (sector * 512 + of_nat k)) (\<lambda>x. WriteByte m (b + of_nat k) x)) m [0..<unat len])"
  proof (rule res_ok_rfold, rule assms)
    fix n k
    assume k: "k \<in> set [0..<unat len]" and n: "mem_wf n"
    have "res_ok ?E (\<lambda>_. True) (disk_get disk (sector * 512 + of_nat k))"
      by (rule res_ok_weaken [OF disk_triples(1)]) (use k in auto)
    then show "res_ok ?E mem_wf (rbind (disk_get disk (sector * 512 + of_nat k)) (\<lambda>x. WriteByte n (b + of_nat k) x))"
      by (rule res_ok_bind) (rule Write_triples(1) [OF n])
  qed
  show ?thesis
    unfolding disc_access_def Let_def
    by (intro res_ok_if res_ok_bind [OF w] res_ok_bind [OF r]) (simp_all add: assms)
qed

lemma process_disc_access_triple:
  assumes "mem_wf m"
  shows "res_ok (\<lambda>e. e = Assertion \<or> e = Undefined \<and> disk_overrun disk m q i) (\<lambda>(d, m'). mem_wf m') (process_disc_access disk m q i)"
    (is "res_ok ?E _ _")
proof -
  have rd: "res_ok ?E (\<lambda>d. read_desc n q j = Inr d) (read_desc n q j)" if "mem_wf n" for n j
    by (rule read_desc_triple [OF that]) simp
  have hd: "res_ok ?E (\<lambda>h. read_outhdr m a = Inr h) (read_outhdr m a)" for a
    by (rule read_outhdr_triple [OF assms]) simp
  have acc: "res_ok ?E (\<lambda>(d, m'). mem_wf m') (disc_access disk m (oh_sector hdr) (vd_addr data) (vd_len data) wr)"
    if "read_desc m q i = Inr d" "read_outhdr m (vd_addr d) = Inr hdr" "read_desc m q (vd_next d) = Inr data" for d hdr data wr
    by (rule res_ok_weaken [OF disc_access_triple [OF assms]]) (use that in \<open>auto simp: disk_overrun_def outside_disk_def\<close>)
  show ?thesis
    unfolding process_disc_access_def Let_def
    by (intro res_ok_bind [OF rd [OF assms]] res_ok_bind [OF hd] res_ok_if res_ok_bind2 [OF acc] res_ok_bind [OF rd]
        res_ok_bind [OF Write_triples(1)]) simp_all
qed

lemma get_desc_index_triple:
  assumes "mem_wf m"
  shows "res_ok (\<lambda>e. e = Assertion \<or> e = Div_by_zero \<and> n = 0) (\<lambda>i. get_desc_index m n a = Inr i) (get_desc_index m n a)"
    (is "res_ok ?E _ _")
proof -
  have r: "res_ok ?E (\<lambda>_. True) (Read16 m x)" for x by (rule Read_triples(2) [OF assms]) simp
  have a: "res_ok ?E (\<lambda>_. True) (assert_that b)" for b by (simp add: assert_that_def)
  have "res_ok ?E (\<lambda>_. True) (get_desc_index m n a)"
    unfolding get_desc_index_def Let_def by (intro res_ok_bind [OF r] res_ok_if res_ok_bind [OF a] r) simp
  then show ?thesis by (cases "get_desc_index m n a") simp_all
qed

lemma process_used_buffer_triple: "mem_wf m \<Longrightarrow> E Assertion \<Longrightarrow> res_ok E mem_wf (process_used_buffer m a i)"
  unfolding process_used_buffer_def
  by (intro res_ok_bind [OF Read_triples(2)] res_ok_bind [OF Write_triples(3)] Write_triples(2)) simp_all

lemma VirtioDiskAccess_triple:
  assumes "mem_wf m"
  shows "res_ok (\<lambda>e. e = Assertion \<or> e = Div_by_zero \<and> n = 0 \<or>
      e = Undefined \<and> (\<exists>i. get_desc_index m n (q + ucast (of_int n * 16 :: u32)) = Inr i \<and> disk_overrun disk m q i))
    (\<lambda>(d, m'). mem_wf m') (VirtioDiskAccess disk m n q)" (is "res_ok ?E _ _")
proof -
  have g: "res_ok ?E (\<lambda>i. get_desc_index m n (q + ucast (of_int n * 16 :: u32)) = Inr i) (get_desc_index m n (q + ucast (of_int n * 16 :: u32)))"
    by (rule res_ok_weaken [OF get_desc_index_triple [OF assms]]) auto
  have p: "res_ok ?E (\<lambda>(d, m'). mem_wf m') (process_disc_access disk m q i)"
    if "get_desc_index m n (q + ucast (of_int n * 16 :: u32)) = Inr i" for i
    by (rule res_ok_weaken [OF process_disc_access_triple [OF assms]]) (use that in auto)
  have u: "res_ok ?E mem_wf (process_used_buffer m' a i)" if "mem_wf m'" for m' a i
    by (rule process_used_buffer_triple [OF that]) simp
  show ?thesis
    unfolding VirtioDiskAccess_def Let_def
    by (intro res_ok_bind [OF g] res_ok_bind2 [OF p] res_ok_bind [OF u]) simp_all
qed

lemma virtio_queue_sel_triple: "mem_wf m \<Longrightarrow> res_ok E (\<lambda>m'. virtio_queue_sel p m = Inr m' \<and> mem_wf m') (virtio_queue_sel p m)"
proof -
  assume m: "mem_wf m"
  have "res_ok E mem_wf (virtio_queue_sel p m)"
    unfolding virtio_queue_sel_def
    by (intro res_ok_if res_ok_bind [OF Read_triples(3) [OF m]] Write_triples(3) [OF m]) (simp_all add: m)
  then show ?thesis by (cases "virtio_queue_sel p m") simp_all
qed

lemma Read32_triple: "mem_wf m \<Longrightarrow> a AND 3 = 0 \<Longrightarrow> res_ok E (\<lambda>x. Read32 m a = Inr x) (Read32 m a)"
  by (simp add: Read32_abs)

lemma VirtioEmulation_triple:
  assumes "mem_wf m"
  shows "res_ok (virtio_error p m) (\<lambda>(p', m'). mem_wf m') (VirtioEmulation p m)"
proof (cases "virtio_notified p")
  case False
  then show ?thesis
    unfolding VirtioEmulation_def Let_def virtio_notified_def
    by (intro res_ok_if res_ok_bind [OF virtio_queue_sel_triple [OF assms]]) (auto simp: assms)
next
  case True
  have d: "res_ok (virtio_error p m) (\<lambda>(d, m'). mem_wf m') (VirtioDiskAccess (p_disk_image p) m' (sint qn) (ucast (pfn * 4096)))"
    if "virtio_queue_sel p m = Inr m' \<and> mem_wf m'" "Read32 m' kVirtioMmioQueueNum = Inr qn" "Read32 m' kVirtioMmioQueuePfn = Inr pfn"
    for m' qn pfn
    by (rule res_ok_weaken [OF VirtioDiskAccess_triple]) (use that True in \<open>auto simp: virtio_error_def signed_eq_0_iff\<close>)
  have a: "res_ok (virtio_error p m) (\<lambda>_. b) (assert_that b)" for b using True by (simp add: virtio_error_def assert_that_def)
  have s: "virtio_queue_sel (p\<lparr>p_virtio_write := False\<rparr>) m = virtio_queue_sel p m" by (simp add: virtio_queue_sel_def)
  show ?thesis
    unfolding VirtioEmulation_def Let_def s
    by (intro res_ok_if res_ok_bind [OF virtio_queue_sel_triple [OF assms]])
     (auto simp: assms s intro!: res_ok_bind [OF Read32_triple] res_ok_bind [OF a] res_ok_bind2 [OF d]
        res_ok_bind [OF Write_triples(3)])
qed

lemma HostEmulation_triple: "mem_wf m \<Longrightarrow> \<exists>p'. HostEmulation p m = Inr p'"
  by (simp add: HostEmulation_def Let_def Read32_abs Read64_abs)

text \<open>The UART dies only when it was not initialised: every emulation of devices starts with \<open>Initialize\<close>, which creates the terminal.\<close>

lemma Uart_triples:
  assumes "mem_wf m"
  shows "res_ok E (\<lambda>(p', m'). mem_wf m' \<and> p_scr_emulation p' = p_scr_emulation p) (SetUartBuffer p m k)"
    "res_ok E (\<lambda>(p', m'). mem_wf m' \<and> p_scr_emulation p' = p_scr_emulation p) (ClearUartBuffer p m)"
    "res_ok E (\<lambda>(p', m'). mem_wf m') (UartInterrupt p m)"
  unfolding SetUartBuffer_def ClearUartBuffer_def UartInterrupt_def
  by (intro res_ok_bind [OF Read_triples(1)] res_ok_bind [OF Write_triples(1)] res_ok_bind [OF Write_triples(3)]; simp add: assms)+

lemma UartEmulation_triple:
  assumes "mem_wf m"
  shows "res_ok (\<lambda>e. e = Undefined \<and> p_scr_emulation p = None) (\<lambda>(p', m', w'). mem_wf m') (UartEmulation h p m w)"
    (is "res_ok ?E _ _")
proof -
  let ?scr = "p_scr_emulation p"
  have w: "res_ok ?E (\<lambda>(q, w). p_scr_emulation q = ?scr) (if p_uart_write p
      then case ?scr of None \<Rightarrow> Inl Undefined
        | Some _ \<Rightarrow> Inr (p\<lparr>p_uart_write := False\<rparr>, putchar h (ucast (p_uart_write_value p)) w) else Inr (p, w))"
    by (simp split: option.split)
  have r: "res_ok ?E (\<lambda>(q', m'). mem_wf m' \<and> p_scr_emulation q' = ?scr) (if p_uart_read q
      then rbind (ClearUartBuffer q m) (\<lambda>(q, m). Inr (q\<lparr>p_uart_read := False\<rparr>, m)) else Inr (q, m))"
    if "p_scr_emulation q = ?scr" for q
    using that assms by (auto intro!: res_ok_bind2 [OF Uart_triples(2)])
  have i: "res_ok E (\<lambda>(p', m', w'). mem_wf m') (rbind (SetUartBuffer q n k) (\<lambda>(p, mem).
      rbind (UartInterrupt p mem) (\<lambda>(p, mem). Inr (p, mem, v))))" if "mem_wf n" for E q n k v
    using that by (auto intro!: res_ok_bind2 [OF Uart_triples(1)] res_ok_bind2 [OF Uart_triples(3)])
  show ?thesis
    unfolding UartEmulation_def
    by (rule res_ok_bind2 [OF w], rule res_ok_bind2 [OF r])
      (auto simp: Let_def split: option.split prod.split intro!: i)
qed

text \<open>The ways in which the devices die, by the stage that does: the host interface never does.\<close>

definition device_error :: "'w host \<Rightarrow> periph \<Rightarrow> memory \<Rightarrow> 'w \<Rightarrow> error \<Rightarrow> bool" where
  "device_error h p m w e \<longleftrightarrow> p_device_emulation_enable p \<and>
     (\<exists>p1. (if p_host_emulation_enable p then HostEmulation p m else Inr p) = Inr p1 \<and>
        (e = Undefined \<and> p_scr_emulation p1 = None \<or>
         (\<exists>p2 m2 w2. UartEmulation h p1 m w = Inr (p2, m2, w2) \<and> virtio_error p2 m2 e)))"

lemma HostEmulation_enable: "HostEmulation p m = Inr p' \<Longrightarrow> p_device_emulation_enable p' = p_device_emulation_enable p"
  unfolding HostEmulation_def by (auto simp: Let_def split: if_splits)

lemma Emulation_triple:
  assumes "mem_wf m"
  shows "res_ok (device_error h p m w) (\<lambda>(p', m', w'). mem_wf m') (Emulation h p m w)"
proof -
  obtain p1 where p1: "(if p_host_emulation_enable p then HostEmulation p m else Inr p) = Inr p1"
    using HostEmulation_triple [OF assms] by (cases "p_host_emulation_enable p") auto
  then have en: "p_device_emulation_enable p1 = p_device_emulation_enable p" by (auto split: if_splits dest: HostEmulation_enable)
  show ?thesis
  proof (cases "UartEmulation h p1 m w")
    case (Inl e)
    with UartEmulation_triple [OF assms, of p1 h w] p1 en assms show ?thesis
      by (auto simp: Emulation_def device_error_def)
  next
    case (Inr q)
    obtain p2 m2 w2 where q: "q = (p2, m2, w2)" by (cases q)
    have "mem_wf m2" using UartEmulation_triple [OF assms, of p1 h w] Inr q by simp
    from res_ok_weaken [OF VirtioEmulation_triple [OF this, of p2]] Inr q p1 en assms show ?thesis
      by (auto simp: Emulation_def device_error_def intro!: res_ok_bind2 [where P = "\<lambda>p' m'. mem_wf m'"])
  qed
qed

end
