(* ===== verification/Run_Inv.thy ===== *)
theory Run_Inv
  imports Cpu_Run Cpu_Inv Device_Inv Cpu_Mem_Spec Cpu_Mult_Spec
begin

text \<open>
  The invariant of the execution loop: the control registers are consistent and memory is well formed
  (\<open>hart_ok\<close>), \<open>x0\<close> is zero and the configuration never changes, in every state that the loop reaches;
  and a complete account of the ways in which an instruction can kill the emulator.
\<close>

section \<open>Configuration\<close>

definition hart_ok :: "'w cpu \<Rightarrow> bool" where
  "hart_ok c \<longleftrightarrow> core_inv c \<and> mem_wf (cpu_memory c)"

definition same_cfg :: "'w cpu \<Rightarrow> 'w cpu \<Rightarrow> bool" where
  "same_cfg c c' \<longleftrightarrow> cpu_xlen c' = cpu_xlen c \<and> cpu_mxl c' = cpu_mxl c \<and> cpu_host_emulation c' = cpu_host_emulation c \<and>
     cpu_peripheral_emulation c' = cpu_peripheral_emulation c \<and> cpu_ecall_emulation c' = cpu_ecall_emulation c"

lemma same_cfg_refl [simp]: "same_cfg c c"
  by (simp add: same_cfg_def)

lemma same_cfg_trans: "same_cfg a b \<Longrightarrow> same_cfg b c \<Longrightarrow> same_cfg a c"
  by (simp add: same_cfg_def)

lemma same_data_cfg: "same_data c c' \<Longrightarrow> same_cfg c c'"
  by (simp add: same_data_def same_cfg_def)

text \<open>The postcondition of every handler.\<close>

definition good :: "'w cpu \<Rightarrow> 'w cpu \<Rightarrow> bool" where
  "good c c' \<longleftrightarrow> hart_ok c' \<and> same_cfg c c'"

lemma good_trans: "good a b \<Longrightarrow> good b c \<Longrightarrow> good a c"
  by (auto simp: good_def intro: same_cfg_trans)

lemma good_set_reg [simp]: "good c (set_reg r v c') = good c c'"
  by (simp add: good_def hart_ok_def same_cfg_def set_reg_def)

lemma good_upd [simp]:
  "good c (c'\<lparr>cpu_next_pc := x\<rparr>) = good c c'" "good c (c'\<lparr>cpu_pc := x\<rparr>) = good c c'"
  "good c (c'\<lparr>cpu_error_flag := b\<rparr>) = good c c'" "good c (c'\<lparr>cpu_end_flag := b\<rparr>) = good c c'"
  "good c (c'\<lparr>cpu_ir := i\<rparr>) = good c c'" "good c (c'\<lparr>cpu_ctype := b\<rparr>) = good c c'"
  "good c (c'\<lparr>cpu_peripheral := p\<rparr>) = good c c'" "good c (c'\<lparr>cpu_world := w\<rparr>) = good c c'"
  "good c (c'\<lparr>cpu_brk := x\<rparr>) = good c c'" "good c (c'\<lparr>cpu_openHandles := n\<rparr>) = good c c'"
  "good c (c'\<lparr>cpu_mmu := u\<rparr>) = good c c'" "good c (c'\<lparr>cpu_page_fault := b\<rparr>) = good c c'"
  "good c (c'\<lparr>cpu_faulting_address := x\<rparr>) = good c c'" "good c (c'\<lparr>cpu_virtio_interrupt := b\<rparr>) = good c c'"
  "good c (c'\<lparr>cpu_uart_interrupt := b\<rparr>) = good c c'" "good c (c'\<lparr>cpu_reg := f\<rparr>) = good c c'"
  by (simp_all add: good_def hart_ok_def same_cfg_def)

lemma good_refl: "hart_ok c \<Longrightarrow> good c c"
  by (simp add: good_def)

lemma good_memory: "good c c' \<Longrightarrow> mem_wf m \<Longrightarrow> good c (c'\<lparr>cpu_memory := m\<rparr>)"
  by (simp add: good_def hart_ok_def same_cfg_def)

lemma Trap_good:
  assumes "hart_ok c" "trap_supported cause i"
  shows "res_ok E (good c) (Trap c cause i)"
  using Trap_triple [of c cause i E] assms
  by (auto simp: hart_ok_def good_def same_data_cfg elim!: res_ok_weaken) (simp add: same_data_def)

section \<open>Translation\<close>

definition bad_mpp :: "'w cpu \<Rightarrow> bool" where
  "bad_mpp c \<longleftrightarrow> bitcrop (cpu_mstatus c) 2 11 = 2"

lemma mpp_cases: "bitcrop (x :: u64) 2 11 \<in> {0, 1, 2, 3}"
proof -
  have "unat (bitcrop x 2 11) < 4" using unat_take_bit_less [of 2 "drop_bit 11 x"] by (simp add: bitcrop_eq)
  then have "unat (bitcrop x 2 11) \<in> {0, 1, 2, 3}" by auto
  then show ?thesis by (auto simp: word_unat_eq_iff)
qed

lemma IntToPrivilegeMode_mpp:
  "res_ok (\<lambda>e. e = Out_of_range \<and> bad_mpp c) (\<lambda>_. True) (IntToPrivilegeMode (uint (bitcrop (cpu_mstatus c) 2 11)))"
  "res_ok (\<lambda>e. e = Out_of_range \<and> bad_mpp c) (\<lambda>_. True) (IntToPrivilegeMode (uint (ucast (bitcrop (cpu_mstatus c) 2 11) :: u32)))"
  using mpp_cases [of "cpu_mstatus c"] by (auto simp: IntToPrivilegeMode_def bad_mpp_def)

text \<open>The part of the state that a translation changes.\<close>

definition translated :: "'w cpu \<Rightarrow> 'w cpu \<Rightarrow> bool" where
  "translated c c' \<longleftrightarrow> (\<exists>u m b a. c' = c\<lparr>cpu_mmu := u, cpu_memory := m, cpu_page_fault := b, cpu_faulting_address := a\<rparr> \<and> mem_wf m)"

lemma translated_good: "hart_ok c \<Longrightarrow> translated c c' \<Longrightarrow> good c c'"
  by (auto simp: translated_def good_def hart_ok_def same_cfg_def)

lemma translated_trans: "translated a b \<Longrightarrow> translated b c \<Longrightarrow> translated a c"
  by (fastforce simp: translated_def)

lemma translated_bad_mpp: "translated c c' \<Longrightarrow> bad_mpp c' = bad_mpp c"
  by (auto simp: translated_def bad_mpp_def)

lemma VirtualToPhysical_triple:
  assumes "hart_ok c"
  shows "res_ok (\<lambda>e. e = Out_of_range \<and> bad_mpp c) (\<lambda>(pa, c'). translated c c') (VirtualToPhysical c va w)"
  unfolding VirtualToPhysical_def
proof (rule res_ok_bind)
  show "res_ok (\<lambda>e. e = Out_of_range \<and> bad_mpp c) (\<lambda>_. True)
      (if cpu_privilege c = MACHINE_MODE \<and> (ucast (bitcrop (cpu_csrs c MSTATUS) 1 17) :: u32) = 1
       then IntToPrivilegeMode (uint (ucast (bitcrop (cpu_csrs c MSTATUS) 2 11) :: u32)) else Inr (cpu_privilege c))"
    using assms IntToPrivilegeMode_mpp(2) [of c] by (simp add: hart_ok_def core_inv_def status_mirror_def)
  fix pr
  have "mem_wf (cpu_memory c)" using assms by (simp add: hart_ok_def)
  from Mmu_V2P_returns [OF this, of "SetPrivilege (SetMxl (cpu_mmu c) (cpu_mxl c)) pr" va "cpu_csrs c SATP" w]
  obtain pa u m where m: "Mmu_VirtualToPhysical (SetPrivilege (SetMxl (cpu_mmu c) (cpu_mxl c)) pr) (cpu_memory c) va (cpu_csrs c SATP) w = Inr (pa, u, m)"
    "mem_wf m" by blast
  have "translated c (c\<lparr>cpu_mmu := u, cpu_memory := m\<rparr>)"
    unfolding translated_def using m(2) by (intro exI [of _ u] exI [of _ m] exI [of _ "cpu_page_fault c"] exI [of _ "cpu_faulting_address c"]) simp
  then show "res_ok (\<lambda>e. e = Out_of_range \<and> bad_mpp c) (\<lambda>(pa, c'). translated c c')
      (rbind (Mmu_VirtualToPhysical (SetPrivilege (SetMxl (cpu_mmu c) (cpu_mxl c)) pr) (cpu_memory c) va (cpu_csrs c SATP) w) (\<lambda>(pa, u, mem).
         let c = c\<lparr>cpu_mmu := u, cpu_memory := mem\<rparr> in Inr (pa, if mmu_page_fault u then c\<lparr>cpu_page_fault := True, cpu_faulting_address := mmu_faulting_address u\<rparr> else c)))"
    using m by (auto simp: Let_def) (auto simp: translated_def)
qed

section \<open>Fetch, loads, stores\<close>

text \<open>The errors of an instruction that only accesses memory.\<close>

abbreviation mpp_error :: "'w cpu \<Rightarrow> error \<Rightarrow> bool" where
  "mpp_error c \<equiv> \<lambda>e. e = Out_of_range \<and> bad_mpp c"

lemma aligned_dram: "push_bit 2 (drop_bit 2 (a :: u64)) AND 3 = 0"
  using dram_address_aligned [of a] by (simp add: dram_address_def kWordBits_def)

lemma Read32_dram: "mem_wf m \<Longrightarrow> res_ok E (\<lambda>_. True) (Read32 m (push_bit 2 (drop_bit 2 a)))"
  using Read_triples(3) [of m "push_bit 2 (drop_bit 2 a)" E] aligned_dram [of a] by blast

lemma hart_ok_translated: "hart_ok c \<Longrightarrow> translated c c' \<Longrightarrow> hart_ok c'"
  using translated_good [of c c'] by (simp add: good_def)

lemma hart_ok_mem: "hart_ok c \<Longrightarrow> mem_wf (cpu_memory c)"
  by (simp add: hart_ok_def)

lemma V2P_again:
  assumes "hart_ok c" "translated c c1"
  shows "res_ok (mpp_error c) (\<lambda>(pa, c2). translated c c2) (VirtualToPhysical c1 va w)"
  using VirtualToPhysical_triple [OF hart_ok_translated [OF assms], of va w] translated_bad_mpp [OF assms(2)] translated_trans [OF assms(2)]
  by (auto elim: res_ok_weaken)

lemma LoadCmd_triple:
  assumes ok: "hart_ok c"
  shows "res_ok (mpp_error c) (\<lambda>(ir, c'). translated c c') (LoadCmd c pc)"
proof -
  have rd: "res_ok (mpp_error c) (\<lambda>_. True) (Read32 (cpu_memory c1) (push_bit 2 (drop_bit 2 pa)))" if "translated c c1" for c1 pa
    by (rule Read32_dram) (rule hart_ok_mem [OF hart_ok_translated [OF ok that]])
  show ?thesis
    unfolding LoadCmd_def Let_def
    by (rule res_ok_bind2 [OF VirtualToPhysical_triple [OF ok]], rule res_ok_bind [OF rd], assumption,
        rule res_ok_bind2 [where P = "\<lambda>_ c'. translated c c'"], rule res_ok_if,
        rule res_ok_bind2 [OF V2P_again [OF ok]], assumption, rule res_ok_bind [OF rd], assumption) simp_all
qed

lemma LoadWd_triple: "mem_wf m \<Longrightarrow> 1 \<le> n \<Longrightarrow> n \<le> 8 \<Longrightarrow> res_ok E (\<lambda>_. True) (LoadWd m a n)"
  by (simp add: LoadWd_abs)

lemma StoreWd_triple: "mem_wf m \<Longrightarrow> 1 \<le> n \<Longrightarrow> n \<le> 8 \<Longrightarrow> res_ok E mem_wf (StoreWd m a d n)"
  using StoreWd_abs [of m n a d] by auto

lemma MemoryMappedValueUpdate_triple: "mem_wf m \<Longrightarrow> res_ok E mem_wf (MemoryMappedValueUpdate p m)"
  by (rule MemoryMappedValueUpdate_abs [of m p]) simp_all

lemma access_parts:
  assumes "n \<in> {1, 2, 4, 8}"
  shows "1 \<le> GetAccessWidth n a" "GetAccessWidth n a \<le> 8" "n - GetAccessWidth n a \<le> 8"
proof -
  have "unat a mod 8 < 8" by simp
  then show "1 \<le> GetAccessWidth n a" "GetAccessWidth n a \<le> 8" "n - GetAccessWidth n a \<le> 8"
    using assms unfolding GetAccessWidth_eq [OF assms] by auto
qed

lemma page_fault_traps: "trap_supported LOAD_PAGE_FAULT False" "trap_supported STORE_PAGE_FAULT False" "trap_supported INSTRUCTION_PAGE_FAULT False"
  by (simp_all add: trap_supported_def)

lemma Trap_translated:
  assumes "hart_ok c" "translated c c1" "trap_supported cause False"
  shows "res_ok E (good c) (Trap c1 cause False)"
  by (rule res_ok_weaken [OF Trap_good [OF hart_ok_translated [OF assms(1,2)] assms(3), of E]])
    (auto intro: good_trans [OF translated_good [OF assms(1,2)]])

lemma load_parts_triple:
  assumes "hart_ok c" "translated c c1" "n \<in> {1, 2, 4, 8}"
  shows "res_ok (mpp_error c) (\<lambda>(d, c'). good c c') (load_parts c1 a n)"
proof -
  note p = access_parts [OF assms(3), of a]
  have m: "mem_wf (cpu_memory c2)" if "translated c c2" for c2 using hart_ok_mem [OF hart_ok_translated [OF assms(1) that]] .
  show ?thesis
    unfolding load_parts_def Let_def
    by (rule res_ok_bind [OF LoadWd_triple [OF m [OF assms(2)] p(1,2)]], rule res_ok_if,
        rule res_ok_bind2 [OF V2P_again [OF assms(1,2)]], rule res_ok_if,
        rule res_ok_bind [OF Trap_translated [OF assms(1) _ page_fault_traps(1)]], assumption, simp,
        rule res_ok_bind [OF LoadWd_triple], erule m)
      (use p in \<open>auto intro: translated_good [OF assms(1)] assms(2)\<close>)
qed

lemma translated_memory: "mem_wf m \<Longrightarrow> translated c (c\<lparr>cpu_memory := m\<rparr>)"
  unfolding translated_def
  by (intro exI [of _ "cpu_mmu c"] exI [of _ m] exI [of _ "cpu_page_fault c"] exI [of _ "cpu_faulting_address c"]) simp

lemma translated_update_memory: "translated c c1 \<Longrightarrow> mem_wf m \<Longrightarrow> translated c (c1\<lparr>cpu_memory := m\<rparr>)"
  by (rule translated_trans [OF _ translated_memory])

lemma load_width_ok: "is_load i \<Longrightarrow> \<exists>n. GetLoadWidth i = Inr n \<and> n \<in> {1, 2, 4, 8}"
  by (auto simp: is_load_def GetLoadWidth_def)

lemma store_width_ok: "is_store i \<Longrightarrow> \<exists>n. GetStoreWidth i = Inr n \<and> n \<in> {1, 2, 4, 8}"
  by (auto simp: is_store_def GetStoreWidth_def)

lemma LoadInstruction_triple:
  assumes "hart_ok c" "is_load i"
  shows "res_ok (mpp_error c) (good c) (LoadInstruction c i rd rs1 imm)"
proof -
  obtain n where n: "GetLoadWidth i = Inr n" "n \<in> {1, 2, 4, 8}" using load_width_ok [OF assms(2)] by blast
  show ?thesis
    unfolding LoadInstruction_def Let_def n(1) rbind_Inr
    by (rule res_ok_bind [OF MemoryMappedValueUpdate_triple [OF hart_ok_mem [OF assms(1)]]],
        rule res_ok_bind2 [OF V2P_again [OF assms(1) translated_memory]], assumption, rule res_ok_if,
        erule Trap_translated [OF assms(1) _ page_fault_traps(1)],
        rule res_ok_bind2 [OF load_parts_triple [OF assms(1) _ n(2)]], assumption)
      (simp split: option.split)
qed

lemma store_parts_triple:
  assumes "hart_ok c" "translated c c1" "n \<in> {1, 2, 4, 8}"
  shows "res_ok (mpp_error c) (\<lambda>(b, c'). good c c') (store_parts c1 va pa d n)"
proof -
  note p = access_parts [OF assms(3), of va]
  have m: "mem_wf (cpu_memory c2)" if "translated c c2" for c2 using hart_ok_mem [OF hart_ok_translated [OF assms(1) that]] .
  show ?thesis
    unfolding store_parts_def Let_def
    by (rule res_ok_bind [OF StoreWd_triple [OF m [OF assms(2)] p(1,2)]], rule res_ok_if,
        rule res_ok_bind2 [OF V2P_again [OF assms(1) translated_update_memory [OF assms(2)]]], assumption, rule res_ok_if,
        rule res_ok_bind [OF Trap_translated [OF assms(1) _ page_fault_traps(2)]], assumption, simp,
        rule res_ok_bind [OF StoreWd_triple], erule m)
      (use p in \<open>auto intro!: translated_good [OF assms(1)] translated_update_memory assms(2)\<close>)
qed

lemma StoreInstruction_triple:
  assumes "hart_ok c" "is_store i"
  shows "res_ok (mpp_error c) (good c) (StoreInstruction c i rs1 rs2 imm)"
proof -
  obtain n where n: "GetStoreWidth i = Inr n" "n \<in> {1, 2, 4, 8}" using store_width_ok [OF assms(2)] by blast
  show ?thesis
    unfolding StoreInstruction_def Let_def n(1) rbind_Inr
    by (rule res_ok_bind2 [OF VirtualToPhysical_triple [OF assms(1)]], rule res_ok_if,
        erule Trap_translated [OF assms(1) _ page_fault_traps(2)],
        rule res_ok_bind2 [OF store_parts_triple [OF assms(1) _ n(2)]], assumption)
      simp
qed

lemma amo_value_ok: "is_amo i \<Longrightarrow> res_ok E (\<lambda>_. True) (amo_value i t b)"
  unfolding is_amo_def by (elim insertE emptyE) (simp_all add: amo_value_def)

lemma amo_width_ok: "1 \<le> amo_width i" "amo_width i \<le> 8"
  by (simp_all add: amo_width_def)

lemma AmoInstruction_triple:
  assumes "hart_ok c" "is_amo i"
  shows "res_ok (mpp_error c) (good c) (AmoInstruction c i rd rs1 rs2)"
proof -
  have m: "mem_wf (cpu_memory c2)" if "translated c c2" for c2 using hart_ok_mem [OF hart_ok_translated [OF assms(1) that]] .
  show ?thesis
    unfolding AmoInstruction_def Let_def
    by (rule res_ok_bind2 [OF VirtualToPhysical_triple [OF assms(1)]],
        rule res_ok_bind [OF LoadWd_triple [OF m amo_width_ok]], assumption, rule res_ok_bind [OF amo_value_ok [OF assms(2)]],
        rule res_ok_bind2 [OF V2P_again [OF assms(1)]], assumption,
        rule res_ok_bind [OF StoreWd_triple [OF m amo_width_ok]], assumption)
      (simp add: translated_good [OF assms(1)] translated_update_memory)
qed

section \<open>System instructions\<close>

lemma SystemCall_keeps: "SystemCall h c = Inr (flags, c') \<Longrightarrow> hart_ok c \<Longrightarrow> good c c'"
  unfolding SystemCall_def
  by (auto simp: good_def hart_ok_def same_cfg_def dest!: SystemCallEmulation_mem)

text \<open>The errors of \<open>SYSTEM\<close> instructions: with system call emulation, those of the emulated call.\<close>

abbreviation system_error :: "'w cpu \<Rightarrow> u32 \<Rightarrow> error \<Rightarrow> bool" where
  "system_error c imm \<equiv> \<lambda>e. e = Out_of_range \<and> bad_mpp c \<or> imm = 0 \<and> cpu_ecall_emulation c \<and> syscall_error (cpu_reg c) e"

lemma SystemCall_triple:
  assumes "hart_ok c"
  shows "res_ok (syscall_error (cpu_reg c)) (\<lambda>((a, b), c'). good c c') (SystemCall h c)"
proof (cases "SystemCall h c")
  case (Inl e)
  let ?s = "\<lparr>sy_reg = cpu_reg c, sy_mem = cpu_memory c, sy_brk = cpu_brk c, sy_openHandles = cpu_openHandles c, sy_world = cpu_world c\<rparr>"
  have "SystemCallEmulation h ?s (cpu_top c) = Inl e" using Inl by (auto simp: SystemCall_def rbind_eq_Inl_iff)
  with SystemCallEmulation_triple [of ?s h "cpu_top c"] assms Inl show ?thesis by (simp add: hart_ok_def)
qed (use SystemCall_keeps [OF _ assms] in auto)

lemma Ecall_triple: "hart_ok c \<Longrightarrow> res_ok E (good c) (Ecall c)"
  unfolding Ecall_def by (rule Trap_good) (simp_all add: trap_supported_def split: PrivilegeMode.split)

lemma Mret_triple: "hart_ok c \<Longrightarrow> res_ok (mpp_error c) (good c) (Mret c)"
proof (cases "Mret c")
  case (Inl e)
  then have "IntToPrivilegeMode (uint (bitcrop (cpu_mstatus c) 2 11)) = Inl e"
    by (auto simp: Mret_def Let_def rbind_eq_Inl_iff)
  with Inl show ?thesis using res_ok_InlD [OF IntToPrivilegeMode_mpp(1)] by simp
next
  case (Inr c')
  assume "hart_ok c"
  with Mret_inv [OF _ Inr] Mret_same [OF Inr] Inr show ?thesis by (simp add: good_def hart_ok_def same_data_cfg) (simp add: same_data_def)
qed

lemma Sret_triple: "hart_ok c \<Longrightarrow> res_ok E (good c) (Sret c)"
proof (cases "Sret c")
  case (Inl e)
  then have "IntToPrivilegeMode (uint (bitcrop (cpu_mstatus c) 1 8)) = Inl e"
    by (auto simp: Sret_def Let_def rbind_eq_Inl_iff)
  then show ?thesis by (cases "bit (cpu_mstatus c) 8") (simp_all add: IntToPrivilegeMode_def)
next
  case (Inr c')
  assume "hart_ok c"
  with Sret_inv [OF _ Inr] Sret_same [OF Inr] Inr show ?thesis by (simp add: good_def hart_ok_def same_data_cfg) (simp add: same_data_def)
qed

lemma SystemInstruction_triple:
  assumes "hart_ok c"
  shows "res_ok (system_error c imm) (good c) (SystemInstruction h c rd imm)"
proof -
  have sc: "res_ok (system_error c imm) (good c) (rbind (SystemCall h c) (\<lambda>((error_flag, end_flag), c).
      Inr (c\<lparr>cpu_error_flag := error_flag, cpu_end_flag := end_flag\<rparr>)))" if "imm = 0" "cpu_ecall_emulation c"
    by (rule res_ok_bind [OF res_ok_weaken [OF SystemCall_triple [OF assms]]]) (use that in auto)
  have mr: "res_ok (system_error c imm) (good c) (Mret c)" by (rule res_ok_weaken [OF Mret_triple [OF assms]]) auto
  show ?thesis
    unfolding SystemInstruction_def
    by (intro res_ok_if sc Ecall_triple [OF assms] mr Sret_triple [OF assms]) (simp_all add: good_refl [OF assms])
qed

section \<open>Execution of an instruction\<close>

text \<open>
  Every way in which one instruction can kill the emulator: a memory access or \<open>MRET\<close> while \<open>mstatus.MPP\<close>
  holds the reserved value 2; a 32-bit division by a register whose low half is zero and whose high half is not;
  a 32-bit signed division of \<open>-2^63\<close> by \<open>-1\<close>, on a 32-bit hart whose registers are not sign-extended 32-bit values;
  \<open>SRAIW\<close> by 32 or more; and, with system call emulation, an \<open>ECALL\<close> that asks to read or write a negative number of bytes.
\<close>

definition division_error :: "nat \<Rightarrow> code \<Rightarrow> u64 \<Rightarrow> u64 \<Rightarrow> bool" where
  "division_error xlen i a b \<longleftrightarrow>
     ((i \<in> {INST_DIVW, INST_DIVUW, INST_REMW, INST_REMUW} \<or> (xlen = 32 \<and> i \<in> {INST_DIVU, INST_REMU})) \<and>
        b \<noteq> 0 \<and> (ucast b :: u32) = 0) \<or>
     (xlen = 32 \<and> i \<in> {INST_DIV, INST_REM} \<and> sint a = - (2 ^ 63) \<and> sint b = - 1)"

definition instruction_error :: "'w cpu \<Rightarrow> code \<Rightarrow> u32 \<Rightarrow> u32 \<Rightarrow> u32 \<Rightarrow> error \<Rightarrow> bool" where
  "instruction_error c i rs1 rs2 imm e \<longleftrightarrow>
     (e = Out_of_range \<and> bad_mpp c) \<or>
     (e = Div_by_zero \<and> division_error (cpu_xlen c) i (cpu_reg c rs1) (cpu_reg c rs2)) \<or>
     (e = Undefined \<and> i = INST_SRAIW \<and> 32 \<le> unat imm) \<or>
     (i = INST_SYSTEM \<and> imm = 0 \<and> cpu_ecall_emulation c \<and> syscall_error (cpu_reg c) e)"

lemma operation_ok: "is_operation i \<Longrightarrow> res_ok E (\<lambda>_. True) (operation_value xlen i a b)"
  unfolding is_operation_def by (elim insertE emptyE) (simp_all add: operation_value_def Let_def)

lemma immediate_ok: "is_immediate i \<Longrightarrow> res_ok E (\<lambda>_. True) (immediate_value xlen i a b)"
  unfolding is_immediate_def by (elim insertE emptyE) (simp_all add: immediate_value_def)

lemma shift_ok: "res_ok (\<lambda>e. e = Undefined \<and> i = INST_SRAIW \<and> 32 \<le> n) (\<lambda>_. True) (shift_value xlen i a n)"
  if "is_shift_immediate i"
  using that unfolding is_shift_immediate_def by (elim insertE emptyE) (simp_all add: shift_value_def)

lemma is_mult_cases: "is_mult i \<Longrightarrow> i \<in> mult_ops \<or> (\<exists>op. (i, op) \<in> set mult_word_ops)"
  unfolding is_mult_def by (elim insertE emptyE) (simp_all add: mult_ops_def mult_word_ops_def)

lemma mult_word_opsD: "(i, op) \<in> set mult_word_ops \<Longrightarrow> i \<in> {INST_MULW, INST_DIVW, INST_DIVUW, INST_REMW, INST_REMUW}"
  by (auto simp: mult_word_ops_def)

lemma mult_32_ok:
  "i \<in> mult_ops \<Longrightarrow> res_ok (\<lambda>e. e = Div_by_zero \<and> division_error 32 i a b) (\<lambda>_. True) (mult_value 32 i a b)"
  unfolding mult_ops_def
  by (elim insertE emptyE)
    (simp_all add: mult_value_def div_value_def rem_value_def division_error_def sdiv64_def smod64_def udiv64_def umod64_def low_ucast Let_def)

lemma mult_ok:
  assumes "is_mult i" "xlen_ok c"
  shows "res_ok (\<lambda>e. e = Div_by_zero \<and> division_error (cpu_xlen c) i a b) (\<lambda>_. True) (mult_value (cpu_xlen c) i a b)"
  using is_mult_cases [OF assms(1)]
proof
  assume "i \<in> mult_ops"
  then show ?thesis using assms(2) mult_32_ok [of i a b] by (auto simp: xlen_ok_def mult64)
next
  assume "\<exists>op. (i, op) \<in> set mult_word_ops"
  then obtain op where i: "(i, op) \<in> set mult_word_ops" by blast
  show ?thesis
  proof (cases "b = 0 \<or> (ucast b :: u32) \<noteq> 0")
    case True
    then show ?thesis by (simp add: multW [OF i])
  next
    case False
    then show ?thesis
      using mult_word_opsD [OF i] divW_traps [of i b "cpu_xlen c" a]
      by (cases "i = INST_MULW") (auto simp: mult_value_def division_error_def)
  qed
qed

lemma GetCsr_less: "GetCsr ir < 4096"
  using unat_take_bit_less [of 12 "drop_bit 20 ir"] by (simp add: GetCsr_def bitcrop_eq word_less_nat_alt)

lemma good_CsrsInstruction:
  assumes "hart_ok c" "csr < 4096"
  shows "good c (CsrsInstruction c i csr rd rs1)"
proof -
  have "cpu_memory (CsrsInstruction c i csr rd rs1) = cpu_memory c" "same_cfg c (CsrsInstruction c i csr rd rs1)"
    by (simp_all add: same_cfg_def CsrsInstruction_def UpdateStatus_def UpdateMstatus_def UpdateInterruptPending_def UpdateInterruptEnable_def
        ApplyMstatusToCsr_def ApplyInterruptPending_def ApplyInterruptEnable_def set_csr_def set_reg_def Let_def)
  then show ?thesis using assms CsrsInstruction_inv [of c csr i rd rs1] by (simp add: good_def hart_ok_def)
qed

lemma execute_triple:
  assumes ok: "hart_ok c" and csr: "csr < 4096"
  shows "res_ok (instruction_error c i rs1 rs2 imm) (good c) (execute h c i rd rs1 rs2 imm csr)"
proof -
  have x: "xlen_ok c" using ok by (simp add: hart_ok_def core_inv_def)
  have mpp: "res_ok (instruction_error c i rs1 rs2 imm) (good c) r" if "res_ok (mpp_error c) (good c) r" for r
    by (rule res_ok_weaken [OF that]) (auto simp: instruction_error_def)
  have op: "res_ok (instruction_error c i rs1 rs2 imm) (good c) (OperationInstruction c i rd rs1 rs2)" if "is_operation i"
    unfolding OperationInstruction_def by (rule res_ok_bind [OF operation_ok [OF that]]) (simp add: good_refl [OF ok])
  have im: "res_ok (instruction_error c i rs1 rs2 imm) (good c) (ImmediateInstruction c i rd rs1 imm)" if "is_immediate i"
    unfolding ImmediateInstruction_def by (rule res_ok_bind [OF immediate_ok [OF that]]) (simp add: good_refl [OF ok])
  have sh: "res_ok (instruction_error c i rs1 rs2 imm) (good c) (ImmediateShiftInstruction c i rd rs1 imm)" if "is_shift_immediate i"
  proof -
    have "res_ok (instruction_error c i rs1 rs2 imm) (\<lambda>_. True) (shift_value (cpu_xlen c) i (cpu_reg c rs1) (unat imm))"
      by (rule res_ok_weaken [OF shift_ok [OF that]]) (auto simp: instruction_error_def)
    then show ?thesis
      unfolding ImmediateShiftInstruction_def by (intro res_ok_if res_ok_bind) (simp_all add: good_refl [OF ok])
  qed
  have mu: "res_ok (instruction_error c i rs1 rs2 imm) (good c) (MultInstruction c i rd rs1 rs2)" if "is_mult i"
  proof -
    have "res_ok (instruction_error c i rs1 rs2 imm) (\<lambda>_. True) (mult_value (cpu_xlen c) i (cpu_reg c rs1) (cpu_reg c rs2))"
      by (rule res_ok_weaken [OF mult_ok [OF that x]]) (auto simp: instruction_error_def)
    then show ?thesis unfolding MultInstruction_def by (rule res_ok_bind) (simp add: good_refl [OF ok])
  qed
  have sy: "res_ok (instruction_error c i rs1 rs2 imm) (good c) (SystemInstruction h c rd imm)" if "i = INST_SYSTEM"
    by (rule res_ok_weaken [OF SystemInstruction_triple [OF ok]]) (use that in \<open>auto simp: instruction_error_def\<close>)
  have j: "good c (JalInstruction c rd imm)" "good c (JalrInstruction c rd rs1 imm)"
    by (simp_all add: JalInstruction_def JalrInstruction_def Let_def good_refl [OF ok])
  show ?thesis
    unfolding execute_def
    by (intro res_ok_if op im sh mpp [OF LoadInstruction_triple [OF ok]] mpp [OF StoreInstruction_triple [OF ok]] sy mu
        mpp [OF AmoInstruction_triple [OF ok]])
      (simp_all add: good_refl [OF ok] j good_CsrsInstruction [OF ok csr])
qed

end
