(* ===== verification/Trap_Spec.thy ===== *)
theory Trap_Spec
  imports Cpu_Inv
begin

text \<open>
  What a trap and the return from it do: the saved program counter, cause and privilege, the handler
  entered, and that \<open>MRET\<close> and \<open>SRET\<close> undo the trap.
\<close>

section \<open>Components of a trap\<close>

lemma Apply_sel [simp]:
  "cpu_privilege (ApplyMstatusToCsr c) = cpu_privilege c" "cpu_mstatus (ApplyMstatusToCsr c) = cpu_mstatus c"
  "cpu_next_pc (ApplyMstatusToCsr c) = cpu_next_pc c" "cpu_pc (ApplyMstatusToCsr c) = cpu_pc c"
  "k \<notin> {MSTATUS, SSTATUS, USTATUS} \<Longrightarrow> cpu_csrs (ApplyMstatusToCsr c) k = cpu_csrs c k"
  by (simp_all add: ApplyMstatusToCsr_def)

lemma Clear_sel [simp]:
  "cpu_privilege (ClearInterruptPending c cause) = cpu_privilege c" "cpu_mstatus (ClearInterruptPending c cause) = cpu_mstatus c"
  "cpu_next_pc (ClearInterruptPending c cause) = cpu_next_pc c" "cpu_pc (ClearInterruptPending c cause) = cpu_pc c"
  "k \<notin> {MIP, SIP, UIP} \<Longrightarrow> cpu_csrs (ClearInterruptPending c cause) k = cpu_csrs c k"
  by (simp_all add: ClearInterruptPending_def ApplyInterruptPending_def)

lemma trap_page_fault_sel [simp]:
  "cpu_privilege (trap_page_fault cause i c) = cpu_privilege c" "cpu_mstatus (trap_page_fault cause i c) = cpu_mstatus c"
  "cpu_pc (trap_page_fault cause i c) = cpu_pc c" "cpu_csrs (trap_page_fault cause i c) = cpu_csrs c"
  "cpu_xlen (trap_page_fault cause i c) = cpu_xlen c" "cpu_faulting_address (trap_page_fault cause i c) = cpu_faulting_address c"
  "cpu_ir (trap_page_fault cause i c) = cpu_ir c"
  "cpu_disable_machine_interrupt_delegation (trap_page_fault cause i c) = cpu_disable_machine_interrupt_delegation c"
  by (simp_all add: trap_page_fault_def Let_def)

lemma trap_parts_page_fault [simp]:
  "sv_delegation cause i (trap_page_fault cause i c) = sv_delegation cause i c"
  "trap_tval cause i (trap_page_fault cause i c) = trap_tval cause i c"
  "trap_cause cause i (trap_page_fault cause i c) = trap_cause cause i c"
  "trap_vector t s i (trap_page_fault cause i c) = trap_vector t s i c"
  by (simp_all add: sv_delegation_def trap_tval_def trap_cause_def trap_vector_def)

lemma trap_vector_set_csr [simp]: "trap_vector t s i (set_csr k v c) = trap_vector t s i c"
  by (simp add: trap_vector_def)

lemma trap_to_machine_sel:
  "cpu_privilege (trap_to_machine cause i mie tval c) = MACHINE_MODE"
  "cpu_csrs (trap_to_machine cause i mie tval c) MEPC = cpu_pc c"
  "cpu_csrs (trap_to_machine cause i mie tval c) MCAUSE = trap_cause cause i c"
  "cpu_csrs (trap_to_machine cause i mie tval c) MTVAL = tval"
  "cpu_next_pc (trap_to_machine cause i mie tval c) = trap_vector (cpu_csrs c MTVEC) (trap_cause cause i c) i c"
  "cpu_mstatus (trap_to_machine cause i mie tval c) =
     bitset (bitset (bitset (cpu_mstatus c) 1 7 mie) 1 3 0) 2 11 (of_int (PriviledgeToInt (cpu_privilege c)))"
  by (simp_all add: trap_to_machine_def Let_def)

lemma trap_to_supervisor_sel:
  "cpu_privilege (trap_to_supervisor cause i sie tval c) = SUPERVISOR_MODE"
  "cpu_csrs (trap_to_supervisor cause i sie tval c) SEPC = cpu_pc c"
  "cpu_csrs (trap_to_supervisor cause i sie tval c) SCAUSE = trap_cause cause i c"
  "cpu_csrs (trap_to_supervisor cause i sie tval c) STVAL = tval"
  "cpu_next_pc (trap_to_supervisor cause i sie tval c) = trap_vector (cpu_csrs c STVEC) (trap_cause cause i c) i c"
  "cpu_mstatus (trap_to_supervisor cause i sie tval c) =
     bitset (bitset (bitset (cpu_mstatus c) 1 5 sie) 1 1 0) 1 8 (of_int (PriviledgeToInt (cpu_privilege c)))"
  by (simp_all add: trap_to_supervisor_def Let_def)

section \<open>Entering the handler\<close>

text \<open>What a trap to machine mode, and one to supervisor mode, leaves in the state.\<close>

definition in_machine_handler :: "nat \<Rightarrow> bool \<Rightarrow> 'w cpu \<Rightarrow> 'w cpu \<Rightarrow> bool" where
  "in_machine_handler cause i c c' \<longleftrightarrow>
     cpu_privilege c' = MACHINE_MODE \<and> cpu_csrs c' MEPC = cpu_pc c \<and> cpu_csrs c' MCAUSE = trap_cause cause i c \<and>
     cpu_csrs c' MTVAL = trap_tval cause i c \<and>
     cpu_next_pc c' = trap_vector (cpu_csrs c MTVEC) (trap_cause cause i c) i c \<and>
     cpu_mstatus c' = bitset (bitset (bitset (cpu_mstatus c) 1 7 (of_bool (global_mie c))) 1 3 0) 2 11
       (of_int (PriviledgeToInt (cpu_privilege c)))"

definition in_supervisor_handler :: "nat \<Rightarrow> bool \<Rightarrow> 'w cpu \<Rightarrow> 'w cpu \<Rightarrow> bool" where
  "in_supervisor_handler cause i c c' \<longleftrightarrow>
     cpu_privilege c' = SUPERVISOR_MODE \<and> cpu_csrs c' SEPC = cpu_pc c \<and> cpu_csrs c' SCAUSE = trap_cause cause i c \<and>
     cpu_csrs c' STVAL = trap_tval cause i c \<and>
     cpu_next_pc c' = trap_vector (cpu_csrs c STVEC) (trap_cause cause i c) i c \<and>
     cpu_mstatus c' = bitset (bitset (bitset (cpu_mstatus c) 1 5 (of_bool (global_sie c))) 1 1 0) 1 8
       (of_int (PriviledgeToInt (cpu_privilege c)))"

lemma Trap_enters:
  assumes "trap_supported cause i"
  shows "\<exists>c'. Trap c cause i = Inr c' \<and> same_data c c' \<and>
    (if sv_delegation cause i c then in_supervisor_handler cause i c c' else in_machine_handler cause i c c')"
proof -
  obtain c' where t: "Trap c cause i = Inr c'" using Trap_returns [OF assms] by blast
  have "if sv_delegation cause i c then in_supervisor_handler cause i c c' else in_machine_handler cause i c c'"
    using t assms unfolding Trap_def Let_def
    by (auto simp: in_supervisor_handler_def in_machine_handler_def trap_to_machine_sel trap_to_supervisor_sel)
  with t Trap_same [OF t] show ?thesis by blast
qed

section \<open>Returning\<close>

lemma IntToPrivilegeMode_PriviledgeToInt: "IntToPrivilegeMode (PriviledgeToInt p) = Inr p"
  by (cases p) (simp_all add: IntToPrivilegeMode_def)

lemma mpp_crop: "uint (take_bit 2 (of_int (PriviledgeToInt p) :: u64)) = PriviledgeToInt p"
  by (cases p) simp_all

lemma spp_crop: "p \<noteq> MACHINE_MODE \<Longrightarrow> uint (take_bit 1 (of_int (PriviledgeToInt p) :: u64)) = PriviledgeToInt p"
  by (cases p) simp_all

lemma Mret_sel:
  assumes "IntToPrivilegeMode (uint (bitcrop (cpu_mstatus c) 2 11)) = Inr p"
  shows "\<exists>c2. Mret c = Inr c2 \<and> cpu_privilege c2 = p \<and> cpu_next_pc c2 = cpu_csrs c MEPC \<and>
    cpu_mstatus c2 = bitset (bitset (bitset (cpu_mstatus c) 1 3 (bitcrop (cpu_mstatus c) 1 7)) 1 7 1) 2 11 0"
  using assms by (simp add: Mret_def Let_def del: bitcrop_bit)

lemma Sret_sel:
  assumes "IntToPrivilegeMode (uint (bitcrop (cpu_mstatus c) 1 8)) = Inr p"
  shows "\<exists>c2. Sret c = Inr c2 \<and> cpu_privilege c2 = p \<and> cpu_next_pc c2 = cpu_csrs c SEPC \<and>
    cpu_mstatus c2 = bitset (bitset (bitset (cpu_mstatus c) 1 1 (bitcrop (cpu_mstatus c) 1 5)) 1 5 1) 2 8 0"
  using assms by (simp add: Sret_def Let_def del: bitcrop_bit)

lemma Mret_after_machine:
  assumes "in_machine_handler cause i c c1"
  shows "\<exists>c2. Mret c1 = Inr c2 \<and> cpu_privilege c2 = cpu_privilege c \<and> cpu_next_pc c2 = cpu_pc c \<and>
    bitcrop (cpu_mstatus c2) 1 3 = of_bool (global_mie c) \<and> same_data c1 c2"
proof -
  have s: "cpu_mstatus c1 = bitset (bitset (bitset (cpu_mstatus c) 1 7 (of_bool (global_mie c))) 1 3 0) 2 11
       (of_int (PriviledgeToInt (cpu_privilege c)))" and e: "cpu_csrs c1 MEPC = cpu_pc c"
    using assms by (simp_all only: in_machine_handler_def)
  have m: "bitcrop (cpu_mstatus c1) 2 11 = take_bit 2 (of_int (PriviledgeToInt (cpu_privilege c)))"
    unfolding s by (simp add: bitcrop_bitset_same)
  have "IntToPrivilegeMode (uint (bitcrop (cpu_mstatus c1) 2 11)) = Inr (cpu_privilege c)"
    unfolding m mpp_crop by (rule IntToPrivilegeMode_PriviledgeToInt)
  from Mret_sel [OF this] obtain c2 where c2: "Mret c1 = Inr c2" "cpu_privilege c2 = cpu_privilege c" "cpu_next_pc c2 = cpu_csrs c1 MEPC"
    "cpu_mstatus c2 = bitset (bitset (bitset (cpu_mstatus c1) 1 3 (bitcrop (cpu_mstatus c1) 1 7)) 1 7 1) 2 11 0" by blast
  have "bitcrop (cpu_mstatus c2) 1 3 = of_bool (global_mie c)"
    unfolding c2(4) s by (simp add: bit_bitset)
  with c2 e Mret_same [OF c2(1)] show ?thesis by auto
qed

lemma Sret_after_supervisor:
  assumes "in_supervisor_handler cause i c c1" "cpu_privilege c \<noteq> MACHINE_MODE"
  shows "\<exists>c2. Sret c1 = Inr c2 \<and> cpu_privilege c2 = cpu_privilege c \<and> cpu_next_pc c2 = cpu_pc c \<and>
    bitcrop (cpu_mstatus c2) 1 1 = of_bool (global_sie c) \<and> same_data c1 c2"
proof -
  have s: "cpu_mstatus c1 = bitset (bitset (bitset (cpu_mstatus c) 1 5 (of_bool (global_sie c))) 1 1 0) 1 8
       (of_int (PriviledgeToInt (cpu_privilege c)))" and e: "cpu_csrs c1 SEPC = cpu_pc c"
    using assms by (simp_all only: in_supervisor_handler_def)
  have m: "bitcrop (cpu_mstatus c1) 1 8 = take_bit 1 (of_int (PriviledgeToInt (cpu_privilege c)))"
    unfolding s by (rule bitcrop_bitset_same) simp_all
  have "IntToPrivilegeMode (uint (bitcrop (cpu_mstatus c1) 1 8)) = Inr (cpu_privilege c)"
    unfolding m spp_crop [OF assms(2)] by (rule IntToPrivilegeMode_PriviledgeToInt)
  from Sret_sel [OF this] obtain c2 where c2: "Sret c1 = Inr c2" "cpu_privilege c2 = cpu_privilege c" "cpu_next_pc c2 = cpu_csrs c1 SEPC"
    "cpu_mstatus c2 = bitset (bitset (bitset (cpu_mstatus c1) 1 1 (bitcrop (cpu_mstatus c1) 1 5)) 1 5 1) 2 8 0" by blast
  have "bitcrop (cpu_mstatus c2) 1 1 = of_bool (global_sie c)"
    unfolding c2(4) s by (simp add: bit_bitset)
  with c2 e Sret_same [OF c2(1)] show ?thesis by auto
qed

section \<open>Pending interrupts\<close>

lemma pending_trap_unsupported:
  "pending_trap c = Some cause \<Longrightarrow> \<not> trap_supported cause True \<longleftrightarrow> cause \<in> {3, 5, 11}"
  unfolding pending_trap_def Let_def trap_supported_def by (simp split: if_splits; hypsubst?; simp)

lemma pending_trap_enabled:
  assumes "pending_trap c = Some cause"
  shows "bit (cpu_mip c) cause \<and> bit (cpu_mie c) cause \<and>
    (cpu_privilege c = MACHINE_MODE \<longrightarrow> bit (cpu_mstatus c) 3 \<and> cause \<in> {3, 7, 11}) \<and>
    (cpu_privilege c = SUPERVISOR_MODE \<and> cause \<in> {1, 5, 9} \<longrightarrow> bit (cpu_mstatus c) 1)"
  using assms unfolding pending_trap_def Let_def
  by (simp split: if_splits; hypsubst?; auto simp: bit_and_iff)

section \<open>Supervisor writes\<close>

text \<open>The bits of \<open>mstatus\<close> that belong to machine mode: \<open>MIE\<close>, \<open>MPIE\<close>, \<open>MPP\<close>, \<open>MPRV\<close>, \<open>TVM\<close>, \<open>TW\<close>, \<open>TSR\<close>.\<close>

definition machine_bits :: "nat set" where "machine_bits = {3, 7, 11, 12, 17, 20, 21, 22}"

lemma UpdateMstatus_machine_bits:
  assumes "xlen_ok c" "k \<in> machine_bits" "csr \<in> {SSTATUS, USTATUS}"
  shows "bit (cpu_mstatus (UpdateMstatus c csr)) k = bit (cpu_mstatus c) k"
  using assms unfolding UpdateMstatus_def Let_def machine_bits_def xlen_ok_def
  by (elim insertE emptyE disjE conjE; hypsubst?; simp add: ustatus_mask_def sstatus_mask_def kSstatusMask_32_def kUstatusMask_32_def
      kSstatusMask_64_def kUstatusMask_64_def bit_and_iff bit_or_iff bit_not_iff bit_push_bit_iff)

section \<open>The entry of a trap\<close>

text \<open>
  The architecture's account of a trap with cause number \<open>cause\<close>, interrupt or exception, written with numbers
  and single bits and without the functions of the model.  A trap taken below machine mode goes to supervisor mode when its bit
  of \<open>mideleg\<close> or \<open>medeleg\<close> is set; while the delegation of machine interrupts is disabled, the machine timer interrupt does not.
\<close>

definition delegated :: "nat \<Rightarrow> bool \<Rightarrow> 'w cpu \<Rightarrow> bool" where
  "delegated cause i c \<longleftrightarrow> cpu_privilege c \<noteq> MACHINE_MODE \<and> bit (cpu_csrs c (if i then MIDELEG else MEDELEG)) cause \<and>
     \<not> (i \<and> cause = 7 \<and> cpu_disable_machine_interrupt_delegation c)"

text \<open>
  The handler's mode \<open>s\<close> (supervisor or machine) selects the registers and the bits of \<open>mstatus\<close>.  The interrupt flag is the highest bit
  of the cause register; only page faults have a trap value.  In one point this follows the code against the architecture: the vectored mode of \<open>xtvec\<close>
  applies to exceptions and not to interrupts.
\<close>

definition trap_entry :: "bool \<Rightarrow> nat \<Rightarrow> bool \<Rightarrow> 'w cpu \<Rightarrow> 'w cpu \<Rightarrow> bool" where
  "trap_entry s cause i c c' \<longleftrightarrow>
     cpu_privilege c' = (if s then SUPERVISOR_MODE else MACHINE_MODE) \<and>
     cpu_csrs c' (if s then SEPC else MEPC) = cpu_pc c \<and>
     unat (cpu_csrs c' (if s then SCAUSE else MCAUSE)) = cause + (if i then 2 ^ (cpu_xlen c - 1) else 0) \<and>
     cpu_csrs c' (if s then STVAL else MTVAL) = (if \<not> i \<and> cause \<in> {12, 13, 15} then cpu_faulting_address c else 0) \<and>
     (let tvec = cpu_csrs c (if s then STVEC else MTVEC)
      in cpu_next_pc c' = tvec div 4 * 4 + (if \<not> i \<and> tvec mod 4 \<noteq> 0 then 4 * of_nat cause else 0)) \<and>
     (\<forall>k < 64. bit (cpu_mstatus c') k \<longleftrightarrow>
        (if k = (if s then 1 else 3) then False
         else if k = (if s then 5 else 7) then
           (if s then cpu_privilege c = USER_MODE \<or> bit (cpu_mstatus c) 1 else cpu_privilege c \<noteq> MACHINE_MODE \<or> bit (cpu_mstatus c) 3)
         else if s \<and> k = 8 \<or> \<not> s \<and> k = 11 then cpu_privilege c \<noteq> USER_MODE
         else if \<not> s \<and> k = 12 then cpu_privilege c = MACHINE_MODE
         else bit (cpu_mstatus c) k))"

lemma delegated_iff: "trap_supported cause i \<Longrightarrow> sv_delegation cause i c = delegated cause i c"
  by (cases "cpu_privilege c")
    (auto simp: trap_supported_def sv_delegation_def delegated_def Let_def bit_and_iff)

lemma trap_cause_unat:
  assumes "trap_supported cause i" "xlen_ok c"
  shows "unat (trap_cause cause i c) = cause + (if i then 2 ^ (cpu_xlen c - 1) else 0)"
  using assms unfolding trap_supported_def xlen_ok_def by (elim disjE conjE) (simp_all add: trap_cause_def)

lemma trap_tval_eq: "trap_supported cause i \<Longrightarrow> trap_tval cause i c = (if \<not> i \<and> cause \<in> {12, 13, 15} then cpu_faulting_address c else 0)"
  by (auto simp: trap_supported_def trap_tval_def is_page_fault_def)

lemma tvec_base: "(t :: u64) div 4 * 4 = t AND NOT 3" "t mod 4 = t AND 3"
proof -
  have m: "(3 :: u64) = mask 2" by (simp add: mask_eq_exp_minus_1)
  have "t div 4 * 4 = push_bit 2 (drop_bit 2 t)" by (simp add: push_bit_eq_mult drop_bit_eq_div)
  also have "\<dots> = t AND NOT (mask 2)"
  proof (rule bit_eqI)
    fix n
    have "2 \<le> n \<Longrightarrow> Suc (Suc (n - 2)) = n" by arith
    then show "bit (push_bit 2 (drop_bit 2 t)) n = bit (t AND NOT (mask 2)) n" by (auto simp: bit_simps)
  qed
  finally show "t div 4 * 4 = t AND NOT 3" by (simp only: m)
  have "t mod 4 = take_bit 2 t" by (simp add: take_bit_eq_mod)
  then show "t mod 4 = t AND 3" by (simp only: m take_bit_eq_mask)
qed

lemma trap_cause_low:
  assumes "trap_supported cause False" "xlen_ok c"
  shows "trap_cause cause False c AND GenMask (cpu_xlen c - 1) 0 = of_nat cause"
proof -
  have "cause < 2 ^ (cpu_xlen c - 1)" "cause < 2 ^ 64" using assms by (auto simp: trap_supported_def xlen_ok_def)
  then have "take_bit (cpu_xlen c - 1) (of_nat cause :: u64) = of_nat cause"
    by (metis take_bit_nat_eq_self take_bit_of_nat)
  then show ?thesis by (simp add: trap_cause_def GenMask_eq take_bit_eq_mask [symmetric])
qed

lemma trap_vector_eq:
  assumes "trap_supported cause i" "xlen_ok c"
  shows "trap_vector t (trap_cause cause i c) i c = t div 4 * 4 + (if \<not> i \<and> t mod 4 \<noteq> 0 then 4 * of_nat cause else 0)"
  unfolding tvec_base trap_vector_def using trap_cause_low [of cause c] assms by (cases i) auto

lemma machine_handler_entry:
  assumes "in_machine_handler cause i c c'" "trap_supported cause i" "xlen_ok c"
  shows "trap_entry False cause i c c'"
  using assms(1) unfolding in_machine_handler_def trap_entry_def trap_cause_unat [OF assms(2,3), symmetric]
    trap_tval_eq [OF assms(2), symmetric] trap_vector_eq [OF assms(2,3), symmetric] Let_def
  by (cases "cpu_privilege c") (auto simp: bit_bitset global_mie_def)

lemma supervisor_handler_entry:
  assumes "in_supervisor_handler cause i c c'" "trap_supported cause i" "xlen_ok c" "cpu_privilege c \<noteq> MACHINE_MODE"
  shows "trap_entry True cause i c c'"
  using assms(1,4) unfolding in_supervisor_handler_def trap_entry_def trap_cause_unat [OF assms(2,3), symmetric]
    trap_tval_eq [OF assms(2), symmetric] trap_vector_eq [OF assms(2,3), symmetric] Let_def
  by (cases "cpu_privilege c") (auto simp: bit_bitset global_sie_def)

section \<open>Properties\<close>

text \<open>C16: A trap with a supported cause returns normally and enters the handler of supervisor mode, when it is taken below
  machine mode and delegated, or of machine mode.  The program counter is saved; the cause register holds the cause number, with the highest bit
  of the register width for an interrupt; the trap value is the faulting address for the three page faults and zero otherwise;
  execution continues at the trap vector (plus four times the cause in vectored mode, for exceptions, where the architecture has it for interrupts); in \<open>mstatus\<close> the enable bit
  of the mode is cleared, its effective previous value and the previous privilege are saved, and every other bit is
  kept.  The privilege is never lowered, and registers and memory are unchanged.\<close>

theorem trap_enters_handler:
  assumes "trap_supported cause i" "xlen_ok c"
  shows "\<exists>c'. Trap c cause i = Inr c' \<and> same_data c c' \<and> PriviledgeToInt (cpu_privilege c) \<le> PriviledgeToInt (cpu_privilege c') \<and>
    trap_entry (delegated cause i c) cause i c c'"
proof -
  obtain c' where c': "Trap c cause i = Inr c'" "same_data c c'"
      "if delegated cause i c then in_supervisor_handler cause i c c' else in_machine_handler cause i c c'"
    using Trap_enters [OF assms(1)] delegated_iff [OF assms(1)] by metis
  have d: "delegated cause i c \<Longrightarrow> cpu_privilege c \<noteq> MACHINE_MODE" by (simp add: delegated_def)
  have e: "trap_entry (delegated cause i c) cause i c c'"
    using c'(3) d machine_handler_entry [OF _ assms] supervisor_handler_entry [OF _ assms] by (cases "delegated cause i c") simp_all
  then have "cpu_privilege c' = (if delegated cause i c then SUPERVISOR_MODE else MACHINE_MODE)" by (simp add: trap_entry_def)
  then have "PriviledgeToInt (cpu_privilege c) \<le> PriviledgeToInt (cpu_privilege c')"
    using d by (cases "cpu_privilege c") auto
  with c' e show ?thesis by blast
qed

text \<open>A delegated load page fault of a user program at address 42, with a vectored \<open>stvec\<close>.\<close>

definition faulting_hart :: "unit cpu" where
  "faulting_hart = (set_csr MEDELEG 0x2000 (set_csr STVEC 0x80000101 (blank_hart True)))\<lparr>cpu_privilege := USER_MODE, cpu_faulting_address := 42\<rparr>"

theorem trap_enters_handler_witness:
  "\<exists>c'. Trap faulting_hart 13 False = Inr c' \<and> cpu_privilege c' = SUPERVISOR_MODE \<and> cpu_csrs c' SCAUSE = 13 \<and> cpu_csrs c' STVAL = 42 \<and>
     cpu_next_pc c' = 0x80000134"
proof -
  have s: "trap_supported 13 False" by (simp add: trap_supported_def)
  have x: "xlen_ok faulting_hart" by (simp add: xlen_ok_def faulting_hart_def set_csr_def)
  have d: "delegated 13 False faulting_hart" by (simp add: delegated_def faulting_hart_def set_csr_def)
  obtain c' where "Trap faulting_hart 13 False = Inr c'" "trap_entry True 13 False faulting_hart c'"
    using trap_enters_handler [OF s x] d by auto
  then have "Trap faulting_hart 13 False = Inr c' \<and> cpu_privilege c' = SUPERVISOR_MODE \<and> cpu_csrs c' SCAUSE = 13 \<and>
      cpu_csrs c' STVAL = 42 \<and> cpu_next_pc c' = 0x80000134"
    by (simp add: trap_entry_def faulting_hart_def set_csr_def word_unat_eq_iff)
  then show ?thesis by blast
qed

text \<open>C17: The return instruction of the mode that handled a trap undoes it: after \<open>MRET\<close> (or \<open>SRET\<close> for a delegated trap) the hart
  runs at the privilege and the program counter at which the trap was taken, with registers and memory as they were.  The interrupt enable bit is restored to what it
  was effectively: one if the trap came from a lower privilege.\<close>

theorem trap_return_roundtrip:
  assumes "trap_supported cause i"
  shows "\<exists>c1 c2. Trap c cause i = Inr c1 \<and> (if sv_delegation cause i c then Sret c1 else Mret c1) = Inr c2 \<and>
    cpu_privilege c2 = cpu_privilege c \<and> cpu_next_pc c2 = cpu_pc c \<and> same_data c c2 \<and>
    (if sv_delegation cause i c then bitcrop (cpu_mstatus c2) 1 1 = of_bool (global_sie c)
     else bitcrop (cpu_mstatus c2) 1 3 = of_bool (global_mie c))"
proof -
  obtain c1 where c1: "Trap c cause i = Inr c1" "same_data c c1"
      "if sv_delegation cause i c then in_supervisor_handler cause i c c1 else in_machine_handler cause i c c1"
    using Trap_enters [OF assms] by blast
  show ?thesis
  proof (cases "sv_delegation cause i c")
    case True
    then have "cpu_privilege c \<noteq> MACHINE_MODE" by (auto simp: sv_delegation_def)
    with Sret_after_supervisor [of cause i c c1] c1 True show ?thesis by (auto intro: same_data_trans)
  next
    case False
    with Mret_after_machine [of cause i c c1] c1 show ?thesis by (auto intro: same_data_trans)
  qed
qed

theorem trap_return_roundtrip_witness:
  "\<exists>c1 c2. Trap (blank_hart False) MACHINE_TIMER_INTERRUPT True = Inr c1 \<and>
    (if sv_delegation MACHINE_TIMER_INTERRUPT True (blank_hart False) then Sret c1 else Mret c1) = Inr c2 \<and>
    cpu_privilege c2 = cpu_privilege (blank_hart False) \<and> cpu_next_pc c2 = cpu_pc (blank_hart False) \<and> same_data (blank_hart False) c2 \<and>
    (if sv_delegation MACHINE_TIMER_INTERRUPT True (blank_hart False) then bitcrop (cpu_mstatus c2) 1 1 = of_bool (global_sie (blank_hart False))
     else bitcrop (cpu_mstatus c2) 1 3 = of_bool (global_mie (blank_hart False)))"
  by (rule trap_return_roundtrip) (simp add: trap_supported_def)

text \<open>C31: An interrupt is selected only if it is both pending and enabled; in machine mode only a machine-level interrupt, and only with
  \<open>mstatus.MIE\<close> set; in supervisor mode a supervisor-level one only with \<open>mstatus.SIE\<close> set.\<close>

theorem interrupts_masked:
  assumes "pending_trap c = Some cause"
  shows "bit (cpu_mip c) cause \<and> bit (cpu_mie c) cause \<and>
    (cpu_privilege c = MACHINE_MODE \<longrightarrow> bit (cpu_mstatus c) 3 \<and> cause \<in> {3, 7, 11}) \<and>
    (cpu_privilege c = SUPERVISOR_MODE \<and> cause \<in> {1, 5, 9} \<longrightarrow> bit (cpu_mstatus c) 1)"
  by (rule pending_trap_enabled [OF assms])

theorem interrupts_masked_witness:
  "bit (cpu_mip ((blank_hart True)\<lparr>cpu_privilege := USER_MODE, cpu_mip := 0x202, cpu_mie := 0x200\<rparr>)) 9"
proof -
  have "pending_trap ((blank_hart True)\<lparr>cpu_privilege := USER_MODE, cpu_mip := 0x202, cpu_mie := 0x200\<rparr>) = Some 9"
    by (simp add: pending_trap_def Let_def)
  from interrupts_masked [OF this] show ?thesis by blast
qed

text \<open>C32: Checking for interrupts aborts the emulator, by the assertion in \<open>Trap\<close>, exactly when the selected interrupt is a machine software,
  supervisor timer or machine external interrupt; a guest reaches this by setting the bits in \<open>mie\<close> and \<open>mip\<close>.\<close>

theorem unsupported_interrupts_abort:
  "CheckPendingInterrupt c = Inl e \<longleftrightarrow> e = Assertion \<and> pending_trap c \<in> {Some 3, Some 5, Some 11}"
proof (cases "pending_trap c")
  case None
  then show ?thesis by (simp add: CheckPendingInterrupt_def)
next
  case (Some cause)
  have "Trap c cause True = Inl e \<longleftrightarrow> e = Assertion \<and> cause \<in> {3, 5, 11}"
    using pending_trap_unsupported [OF Some] by (cases "trap_supported cause True") (auto simp: Trap_def Let_def)
  with Some show ?thesis by (auto simp: CheckPendingInterrupt_def rbind_eq_Inl_iff)
qed

text \<open>C34: Writing \<open>sstatus\<close> or \<open>ustatus\<close> never changes the bits of \<open>mstatus\<close> that belong to machine mode: \<open>MIE\<close>, \<open>MPIE\<close>, \<open>MPP\<close>,
  \<open>MPRV\<close>, \<open>TVM\<close>, \<open>TW\<close> and \<open>TSR\<close>.\<close>

theorem supervisor_write_protects_machine_bits:
  assumes "xlen_ok c" "k \<in> machine_bits" "csr \<in> {SSTATUS, USTATUS}"
  shows "bit (cpu_mstatus (CsrsInstruction c i csr rd rs1)) k = bit (cpu_mstatus c) k"
proof -
  have "\<exists>v. CsrsInstruction c i csr rd rs1 = UpdateMstatus (set_reg rd (cpu_csrs c csr) (set_csr csr v c)) (ucast csr)"
    using assms(3) by (auto simp: CsrsInstruction_def UpdateStatus_def Let_def)
  then obtain v where v: "CsrsInstruction c i csr rd rs1 = UpdateMstatus (set_reg rd (cpu_csrs c csr) (set_csr csr v c)) (ucast csr)" by blast
  have "xlen_ok (set_reg rd (cpu_csrs c csr) (set_csr csr v c))" using assms(1) by (simp add: xlen_ok_def set_reg_def)
  moreover have "ucast csr \<in> {SSTATUS, USTATUS :: u16}" using assms(3) by auto
  ultimately show ?thesis unfolding v using assms(2) by (simp add: UpdateMstatus_machine_bits) (simp add: set_reg_def)
qed

theorem supervisor_write_protects_machine_bits_witness:
  "bit (cpu_mstatus (CsrsInstruction (set_reg 1 (- 1) (blank_hart True)) INST_CSRRW SSTATUS 0 1)) 3 =
   bit (cpu_mstatus (set_reg 1 (- 1) (blank_hart True))) 3"
  by (rule supervisor_write_protects_machine_bits) (simp_all add: xlen_ok_def machine_bits_def set_reg_def)

end
