(* ===== verification/Transition.thy ===== *)
theory Transition
  imports Result_Logic
begin

text \<open>
  Machines that repeat a step that can die while a condition holds: the states they reach, and the
  interface through which an invariant of the step becomes an invariant of every reached state.
\<close>

inductive reach :: "('s \<Rightarrow> 's res) \<Rightarrow> ('s \<Rightarrow> bool) \<Rightarrow> 's \<Rightarrow> 's \<Rightarrow> bool" for next_state go s where
  reach_start: "reach next_state go s s"
| reach_step: "reach next_state go s t \<Longrightarrow> go t \<Longrightarrow> next_state t = Inr u \<Longrightarrow> reach next_state go s u"

inductive_cases reachE: "reach next_state go s t"

lemma reach_trans:
  assumes "reach n g s t" "reach n g t u"
  shows "reach n g s u"
  using assms(2,1) by (induction rule: reach.induct) (auto intro: reach.intros)

lemma reach_first: "go s \<Longrightarrow> next_state s = Inr t \<Longrightarrow> reach next_state go s t"
  by (rule reach_step [OF reach_start])

text \<open>
  The contract: a step from a state of the invariant either returns to the invariant, in relation
  \<open>frame\<close> to where it started, or dies with an error that \<open>fails\<close> lists.
\<close>

locale machine =
  fixes next_state :: "'s \<Rightarrow> 's res"
    and go :: "'s \<Rightarrow> bool"
    and inv :: "'s \<Rightarrow> bool"
    and frame :: "'s \<Rightarrow> 's \<Rightarrow> bool"
    and fails :: "'s \<Rightarrow> error \<Rightarrow> bool"
  assumes step_ok: "inv s \<Longrightarrow> res_ok (fails s) (\<lambda>t. inv t \<and> frame s t) (next_state s)"
    and frame_refl: "frame s s"
    and frame_trans: "frame s t \<Longrightarrow> frame t u \<Longrightarrow> frame s u"
begin

lemma reach_inv:
  assumes "reach next_state go s t" "inv s"
  shows "inv t \<and> frame s t"
  using assms(1)
proof (induction rule: reach.induct)
  case reach_start
  then show ?case using assms(2) frame_refl by blast
next
  case (reach_step t u)
  then show ?case using res_ok_InrD [OF step_ok] frame_trans by blast
qed

lemma reach_fails:
  assumes "reach next_state go s t" "inv s" "next_state t = Inl e"
  shows "fails t e"
  using reach_inv [OF assms(1,2)] res_ok_InlD [OF step_ok assms(3)] by blast

lemma progress:
  assumes "inv s" "\<And>e. \<not> fails s e"
  shows "\<exists>t. next_state s = Inr t \<and> inv t \<and> frame s t"
  using step_ok [OF assms(1)] assms(2) by (cases "next_state s") auto

end

text \<open>
  A specification of such a machine: a partial step that may end with a result, and its run of a
  bounded number of steps.
\<close>

fun spec_run :: "('a \<Rightarrow> ('a \<times> 'r option) option) \<Rightarrow> nat \<Rightarrow> 'a \<Rightarrow> ('a \<times> 'r) option" where
  "spec_run f 0 a = None"
| "spec_run f (Suc n) a =
     (case f a of
        None \<Rightarrow> None
      | Some (b, Some r) \<Rightarrow> Some (b, r)
      | Some (b, None) \<Rightarrow> spec_run f n b)"

text \<open>
  The contract: wherever the specification is defined, the machine makes the same step, and goes on
  exactly when the specification does.  Then it also makes the same runs.
\<close>

locale simulation =
  fixes next_state :: "'s \<Rightarrow> 's res"
    and go :: "'s \<Rightarrow> bool"
    and inv :: "'s \<Rightarrow> bool"
    and view :: "'s \<Rightarrow> 'a"
    and spec :: "'a \<Rightarrow> ('a \<times> 'r option) option"
    and result :: "'s \<Rightarrow> 'r"
  assumes sim_step: "inv s \<Longrightarrow> go s \<Longrightarrow> spec (view s) = Some (a, out) \<Longrightarrow>
    \<exists>t. next_state s = Inr t \<and> inv t \<and> view t = a \<and>
      (case out of None \<Rightarrow> go t | Some r \<Rightarrow> \<not> go t \<and> result t = r)"
begin

lemma sim_run:
  assumes "spec_run spec n (view s) = Some (a, r)" "inv s" "go s"
  shows "\<exists>t. reach next_state go s t \<and> \<not> go t \<and> inv t \<and> view t = a \<and> result t = r"
  using assms
proof (induction n arbitrary: s)
  case (Suc n)
  then obtain b out where out: "spec (view s) = Some (b, out)" by (auto split: option.splits)
  with sim_step [OF Suc(3,4)] obtain t where t: "next_state s = Inr t" "inv t" "view t = b"
    "case out of None \<Rightarrow> go t | Some r \<Rightarrow> \<not> go t \<and> result t = r" by blast
  have f: "reach next_state go s t" using Suc(4) t(1) by (rule reach_first)
  show ?case
  proof (cases out)
    case None
    with Suc(2) out t have "spec_run spec n (view t) = Some (a, r)" "go t" by simp_all
    with Suc(1) t(2) f reach_trans show ?thesis by metis
  next
    case (Some x)
    with Suc(2) out t f show ?thesis by auto
  qed
qed simp

end

end
