(* ===== verification/Run_Spec.thy ===== *)
theory Run_Spec
  imports Run_Inv Trap_Spec Transition
begin

text \<open>
  One iteration of the execution loop and the states it reaches.
\<close>

section \<open>Interrupt sources\<close>

text \<open>What happens before the fetch changes neither the registers nor the status and enable words,
  and sets at most the pending bits 7 and 9.\<close>

definition ticked :: "'w cpu \<Rightarrow> 'w cpu \<Rightarrow> bool" where
  "ticked c c' \<longleftrightarrow> good c c' \<and> cpu_reg c' = cpu_reg c \<and> cpu_mstatus c' = cpu_mstatus c \<and> cpu_mie c' = cpu_mie c \<and>
     (\<forall>k. k \<noteq> 7 \<longrightarrow> k \<noteq> 9 \<longrightarrow> bit (cpu_mip c') k = bit (cpu_mip c) k)"

lemma ticked_trans: "ticked a b \<Longrightarrow> ticked b c \<Longrightarrow> ticked a c"
  by (auto simp: ticked_def intro: good_trans)

lemma ticked_hart_ok: "ticked c c' \<Longrightarrow> hart_ok c'"
  by (simp add: ticked_def good_def)

lemma SetInterruptPending_ticked:
  assumes "hart_ok c" "cause = 7 \<or> cause = 9"
  shows "ticked c (SetInterruptPending c cause)"
proof -
  have "good c (SetInterruptPending c cause)"
    using assms(1) core_inv_SetInterruptPending [of c cause] SetInterruptPending_same [of c cause]
    by (simp add: good_def hart_ok_def same_data_cfg) (simp add: same_data_def)
  then show ?thesis
    using assms(2) by (auto simp: ticked_def SetInterruptPending_def ApplyInterruptEnable_def bit_bitset)
qed

lemma ticked_upd:
  "hart_ok c \<Longrightarrow> ticked c (c\<lparr>cpu_peripheral := p\<rparr>)" "hart_ok c \<Longrightarrow> ticked c (c\<lparr>cpu_pc := x\<rparr>)"
  "hart_ok c \<Longrightarrow> ticked c (c\<lparr>cpu_virtio_interrupt := b\<rparr>)" "hart_ok c \<Longrightarrow> ticked c (c\<lparr>cpu_uart_interrupt := b\<rparr>)"
  by (simp_all add: ticked_def good_refl)

lemma periph_TimerTick_ok: "mem_wf m \<Longrightarrow> res_ok E (\<lambda>_. True) (periph_TimerTick p m)"
  unfolding periph_TimerTick_def Let_def
  by (rule res_ok_bind [where P = "\<lambda>_. True"]) (auto intro!: res_ok_bind [OF Read_triples(4)])

lemma TimerTick_triple:
  assumes "hart_ok c"
  shows "res_ok E (ticked c) (TimerTick c)"
  unfolding TimerTick_def Let_def
proof (rule res_ok_bind [OF periph_TimerTick_ok [OF hart_ok_mem [OF assms]]])
  fix p
  have t: "ticked c (c\<lparr>cpu_peripheral := q\<rparr>)" for q by (rule ticked_upd [OF assms])
  then show "res_ok E (ticked c) (Inr (if \<not> p_timer_interrupt p then c\<lparr>cpu_peripheral := p\<rparr>
      else SetInterruptPending (c\<lparr>cpu_peripheral := p, cpu_peripheral := ClearTimerInterrupt p\<rparr>) 7))"
    using ticked_trans [OF t [of "ClearTimerInterrupt p"] SetInterruptPending_ticked [OF ticked_hart_ok [OF t]]] by simp
qed

lemma InterruptCheck_ticked:
  assumes "hart_ok c"
  shows "ticked c (InterruptCheck c)"
proof -
  have d: "ticked c (DiskInterruptCheck c)" if "hart_ok c" for c :: "'a cpu"
    using ticked_trans [OF ticked_upd(3) SetInterruptPending_ticked [OF ticked_hart_ok [OF ticked_upd(3)]]] that
    by (auto simp: DiskInterruptCheck_def ticked_def good_refl)
  have u: "ticked c (UartInterruptCheck c)" if "hart_ok c" for c :: "'a cpu"
    using ticked_trans [OF ticked_upd(4) SetInterruptPending_ticked [OF ticked_hart_ok [OF ticked_upd(4)]]] that
    by (auto simp: UartInterruptCheck_def ticked_def good_refl)
  show ?thesis
    unfolding InterruptCheck_def using ticked_trans [OF d [OF assms] u] ticked_hart_ok [OF d [OF assms]] by blast
qed

lemma CheckPendingInterrupt_triple:
  assumes "hart_ok c"
  shows "res_ok (\<lambda>e. e = Assertion \<and> (\<exists>k \<in> {3, 5, 11}. bit (cpu_mip c) k \<and> bit (cpu_mie c) k))
    (\<lambda>(b, c'). good c c' \<and> cpu_reg c' = cpu_reg c \<and> (\<not> b \<longrightarrow> c' = c)) (CheckPendingInterrupt c)"
proof (cases "pending_trap c")
  case None
  then show ?thesis by (simp add: CheckPendingInterrupt_def good_refl [OF assms])
next
  case (Some cause)
  show ?thesis
  proof (cases "trap_supported cause True")
    case True
    then obtain c' where c': "Trap c cause True = Inr c'" using Trap_returns by blast
    with res_ok_InrD [OF Trap_good [OF assms True]] Trap_same [OF c'] Some show ?thesis
      by (simp add: CheckPendingInterrupt_def same_data_def)
  next
    case False
    with pending_trap_unsupported [OF Some] pending_trap_enabled [OF Some] Some show ?thesis
      by (auto simp: CheckPendingInterrupt_def Trap_def)
  qed
qed

section \<open>One iteration\<close>

text \<open>The instruction of a fetched word and the operands that decide whether it dies.\<close>

definition decoded :: "int \<Rightarrow> u32 \<Rightarrow> code \<times> u32 \<times> u32 \<times> u32" where
  "decoded mxl ir =
     (if ir AND 3 = 3 then (GetCode32 ir, GetRs1 ir, GetRs2 ir, GetImm ir)
      else let d = GetCode16 ir mxl in (d_instruction d, d_rs1 d, d_rs2 d, d_imm d))"

definition word_error :: "'w cpu \<Rightarrow> u32 \<Rightarrow> error \<Rightarrow> bool" where
  "word_error c ir e \<longleftrightarrow> (case decoded (cpu_mxl c) ir of (i, rs1, rs2, imm) \<Rightarrow> instruction_error c i rs1 rs2 imm e)"

lemma word_error_same:
  assumes "cpu_reg d = cpu_reg c" "bad_mpp d = bad_mpp c" "same_cfg c d"
  shows "word_error d = word_error c"
  using assms by (intro ext) (simp add: word_error_def instruction_error_def same_cfg_def)

lemma decode_execute_triple:
  assumes "hart_ok c"
  shows "res_ok (word_error c (cpu_ir c)) (good c) (decode_execute h c)"
proof -
  have e: "res_ok (instruction_error c i rs1 rs2 imm) (good c) (execute h (c\<lparr>cpu_ctype := b, cpu_next_pc := x\<rparr>) i rd rs1 rs2 imm (GetCsr ir))"
    for b x i rd rs1 rs2 imm ir
  proof -
    let ?c = "c\<lparr>cpu_ctype := b, cpu_next_pc := x\<rparr>"
    have g: "good c ?c" by (simp add: good_refl [OF assms])
    then have "hart_ok ?c" by (simp add: good_def)
    from execute_triple [OF this GetCsr_less] show ?thesis
      by (rule res_ok_weaken) (auto simp: instruction_error_def bad_mpp_def intro: good_trans [OF g])
  qed
  show ?thesis
  proof (cases "cpu_ir c AND 3 = 3")
    case True
    then have "word_error c (cpu_ir c) = instruction_error c (GetCode32 (cpu_ir c)) (GetRs1 (cpu_ir c)) (GetRs2 (cpu_ir c)) (GetImm (cpu_ir c))"
      by (intro ext) (simp add: word_error_def decoded_def)
    with True show ?thesis by (simp add: decode_execute_def Let_def e)
  next
    case False
    let ?d = "GetCode16 (cpu_ir c) (cpu_mxl c)"
    have "word_error c (cpu_ir c) = instruction_error c (d_instruction ?d) (d_rs1 ?d) (d_rs2 ?d) (d_imm ?d)"
      using False by (intro ext) (simp add: word_error_def decoded_def Let_def)
    with False show ?thesis by (simp add: decode_execute_def Let_def e)
  qed
qed

lemma PeripheralEmulations_keeps:
  assumes "PeripheralEmulations h c = Inr c'" "hart_ok c"
  shows "good c c' \<and> cpu_reg c' 0 = cpu_reg c 0"
proof -
  obtain p m w where e: "Emulation h (cpu_peripheral c) (cpu_memory c) (cpu_world c) = Inr (p, m, w)"
    using assms(1) by (cases "Emulation h (cpu_peripheral c) (cpu_memory c) (cpu_world c)") (auto simp: PeripheralEmulations_def)
  define K where "K x \<longleftrightarrow> good c x \<and> cpu_reg x 0 = cpu_reg c 0" for x
  define c1 where "c1 = c\<lparr>cpu_peripheral := p, cpu_memory := m, cpu_world := w\<rparr>"
  define c2 where "c2 = (if p_end_flag p then (set_reg A0 (p_host_value p) c1)
      \<lparr>cpu_error_flag := cpu_error_flag c1 \<or> p_error_flag p, cpu_end_flag := True\<rparr> else c1)"
  define c3 where "c3 = (if p_virtio_interrupt p
      then c2\<lparr>cpu_peripheral := ClearInterruptStatus (cpu_peripheral c2), cpu_virtio_interrupt := True\<rparr> else c2)"
  define c4 where "c4 = (if p_uart_interrupt p
      then c3\<lparr>cpu_peripheral := ClearUartInterruptStatus (cpu_peripheral c3), cpu_uart_interrupt := True\<rparr> else c3)"
  have c': "c' = (if p_uart_break p then c4\<lparr>cpu_end_flag := True\<rparr> else c4)"
    using assms(1) unfolding PeripheralEmulations_def e rbind_Inr prod.case Let_def c4_def c3_def c2_def c1_def by simp
  have "mem_wf m" using Emulation_mem [OF e] assms(2) by (simp add: hart_ok_def)
  then have "K c1" using good_memory [OF good_refl [OF assms(2)], of m] by (simp add: K_def c1_def good_def hart_ok_def same_cfg_def)
  then have "K c2" by (simp add: K_def c2_def) (simp add: set_reg_def)
  then have "K c3" by (simp add: K_def c3_def)
  then have "K c4" by (simp add: K_def c4_def)
  then show ?thesis by (simp add: K_def c')
qed

definition emulation_error :: "'w host \<Rightarrow> 'w cpu \<Rightarrow> error \<Rightarrow> bool" where
  "emulation_error h c e \<longleftrightarrow> (cpu_host_emulation c \<or> cpu_peripheral_emulation c) \<and>
     device_error h (cpu_peripheral c) (cpu_memory c) (cpu_world c) e"

lemma PeripheralEmulations_fails:
  assumes "PeripheralEmulations h c = Inl e" "hart_ok c"
  shows "device_error h (cpu_peripheral c) (cpu_memory c) (cpu_world c) e"
proof -
  have "Emulation h (cpu_peripheral c) (cpu_memory c) (cpu_world c) = Inl e"
    using assms(1) unfolding PeripheralEmulations_def Let_def by (auto simp: rbind_eq_Inl_iff)
  then show ?thesis by (rule res_ok_InlD [OF Emulation_triple [OF hart_ok_mem [OF assms(2)]]])
qed

lemma finish_step_triple:
  assumes "hart_ok c"
  shows "res_ok (emulation_error h c) (\<lambda>c'. good c c' \<and> cpu_reg c' 0 = 0) (finish_step h c)"
proof -
  define c1 where "c1 = set_reg ZERO 0 (if cpu_pc c = cpu_next_pc c then c\<lparr>cpu_error_flag := True\<rparr> else c)"
  have g: "good c c1" "cpu_reg c1 0 = 0" by (simp_all add: c1_def good_refl [OF assms]) (simp add: set_reg_def)
  have f: "cpu_host_emulation c1 = cpu_host_emulation c" "cpu_peripheral_emulation c1 = cpu_peripheral_emulation c" "hart_ok c1"
    using g by (simp_all add: good_def same_cfg_def)
  have d: "cpu_peripheral c1 = cpu_peripheral c" "cpu_memory c1 = cpu_memory c" "cpu_world c1 = cpu_world c"
    by (simp_all add: c1_def set_reg_def)
  have "good c c' \<and> cpu_reg c' 0 = 0" if "PeripheralEmulations h c1 = Inr c'" for c'
    using PeripheralEmulations_keeps [OF that f(3)] g good_trans by metis
  then show ?thesis
    using g f PeripheralEmulations_fails [OF _ f(3), of h] unfolding finish_step_def Let_def c1_def [symmetric] d emulation_error_def
    by (cases "PeripheralEmulations h c1") auto
qed

text \<open>
  The errors of an iteration that starts in state \<open>c\<close>: an unsupported interrupt; the reserved privilege; the word that
  this iteration fetches, by its operands; and the devices, in the state in which the instruction leaves them.
\<close>

definition fetched :: "'w cpu \<Rightarrow> u32 \<Rightarrow> 'w cpu \<Rightarrow> bool" where
  "fetched c ir d \<longleftrightarrow> (\<exists>t c1. TimerTick (c\<lparr>cpu_pc := cpu_next_pc c\<rparr>) = Inr t \<and>
     CheckPendingInterrupt (InterruptCheck t) = Inr (False, c1) \<and>
     LoadCmd c1 (cpu_pc c1) = Inr (ir, d) \<and> \<not> cpu_page_fault d)"

definition step_error :: "'w host \<Rightarrow> 'w cpu \<Rightarrow> error \<Rightarrow> bool" where
  "step_error h c e \<longleftrightarrow>
     (e = Assertion \<and> (\<exists>k \<in> {3, 5, 11}. bit (cpu_mip c) k \<and> bit (cpu_mie c) k)) \<or>
     (e = Out_of_range \<and> bad_mpp c) \<or>
     (\<exists>ir d. fetched c ir d \<and>
        (word_error c ir e \<or> (\<exists>d'. decode_execute h (d\<lparr>cpu_ir := ir\<rparr>) = Inr d' \<and> emulation_error h d' e)))"

lemma fetch_execute_triple:
  assumes "hart_ok c"
  shows "res_ok (\<lambda>e. e = Out_of_range \<and> bad_mpp c \<or> (\<exists>ir d. LoadCmd c (cpu_pc c) = Inr (ir, d) \<and> \<not> cpu_page_fault d \<and>
        (word_error c ir e \<or> (\<exists>d'. decode_execute h (d\<lparr>cpu_ir := ir\<rparr>) = Inr d' \<and> emulation_error h d' e))))
    (\<lambda>c'. good c c' \<and> (cpu_reg c 0 = 0 \<longrightarrow> cpu_reg c' 0 = 0)) (fetch_execute h c)"
    (is "res_ok ?E ?P _")
proof -
  have l: "res_ok ?E (\<lambda>(ir, c'). translated c c' \<and> LoadCmd c (cpu_pc c) = Inr (ir, c')) (LoadCmd c (cpu_pc c))"
    by (rule res_ok_weaken [OF res_ok_self [OF LoadCmd_triple [OF assms]]]) auto
  show ?thesis
    unfolding fetch_execute_def Let_def
  proof (rule res_ok_bind2 [OF l])
    fix ir c1
    assume t: "translated c c1 \<and> LoadCmd c (cpu_pc c) = Inr (ir, c1)"
    let ?c = "c1\<lparr>cpu_ir := ir\<rparr>"
    have g: "good c ?c" using translated_good [OF assms] t by simp
    then have ok: "hart_ok ?c" by (simp add: good_def)
    have cfg: "cpu_reg ?c = cpu_reg c" "bad_mpp ?c = bad_mpp c" "same_cfg c ?c"
      using t g by (auto simp: translated_def bad_mpp_def good_def)
    have trap: "res_ok ?E ?P (Trap ?c INSTRUCTION_PAGE_FAULT False)"
    proof -
      obtain c2 where c2: "Trap ?c INSTRUCTION_PAGE_FAULT False = Inr c2" using Trap_returns [OF page_fault_traps(3)] by blast
      have "good ?c c2" using res_ok_InrD [OF Trap_good [OF ok page_fault_traps(3)] c2] .
      with good_trans [OF g] Trap_same [OF c2] c2 cfg(1) show ?thesis by (simp add: same_data_def)
    qed
    have ex: "res_ok ?E ?P (rbind (decode_execute h ?c) (finish_step h))" if "\<not> cpu_page_fault ?c"
    proof (rule res_ok_bind)
      show "res_ok ?E (\<lambda>c2. good ?c c2 \<and> decode_execute h ?c = Inr c2) (decode_execute h ?c)"
        by (rule res_ok_weaken [OF res_ok_self [OF decode_execute_triple [OF ok]]])
          (use that t word_error_same [OF cfg] in \<open>auto\<close>)
      fix c2
      assume g2: "good ?c c2 \<and> decode_execute h ?c = Inr c2"
      then have "hart_ok c2" by (simp add: good_def)
      from finish_step_triple [OF this, of h] show "res_ok ?E ?P (finish_step h c2)"
        by (rule res_ok_weaken) (use g2 that t good_trans [OF good_trans [OF g, of c2]] in auto)
    qed
    show "res_ok ?E ?P (if cpu_page_fault ?c then Trap ?c INSTRUCTION_PAGE_FAULT False else rbind (decode_execute h ?c) (finish_step h))"
      using trap ex by (rule res_ok_if)
  qed
qed

lemma step_triple:
  assumes "hart_ok c"
  shows "res_ok (step_error h c) (\<lambda>c'. good c c' \<and> (cpu_reg c 0 = 0 \<longrightarrow> cpu_reg c' 0 = 0)) (step h c)"
    (is "res_ok _ ?P _")
proof -
  let ?c0 = "c\<lparr>cpu_pc := cpu_next_pc c\<rparr>"
  have ok0: "hart_ok ?c0" using assms by (simp add: hart_ok_def)
  show ?thesis
    unfolding step_def
  proof (rule res_ok_bind [OF res_ok_self [OF TimerTick_triple [OF ok0]]])
    fix c1
    assume c1: "ticked ?c0 c1 \<and> TimerTick ?c0 = Inr c1"
    then have t: "ticked c (InterruptCheck c1)"
      using ticked_trans [OF ticked_upd(2) [OF assms]] ticked_trans InterruptCheck_ticked ticked_hart_ok by metis
    let ?c = "InterruptCheck c1"
    have ok: "hart_ok ?c" by (rule ticked_hart_ok [OF t])
    have sim: "cpu_reg ?c = cpu_reg c" "bad_mpp ?c = bad_mpp c" "same_cfg c ?c" "cpu_mie ?c = cpu_mie c"
      using t by (simp_all add: ticked_def good_def bad_mpp_def)
    have pend: "bit (cpu_mip ?c) k = bit (cpu_mip c) k" if "k \<noteq> 7" "k \<noteq> 9" for k using t that by (simp add: ticked_def)
    show "res_ok (step_error h c) ?P (rbind (CheckPendingInterrupt ?c) (\<lambda>(trapped, c). if trapped then Inr c else fetch_execute h c))"
    proof (rule res_ok_bind2)
      show "res_ok (step_error h c) (\<lambda>(b, c'). good ?c c' \<and> cpu_reg c' = cpu_reg ?c \<and> (\<not> b \<longrightarrow> c' = ?c) \<and>
          CheckPendingInterrupt ?c = Inr (b, c')) (CheckPendingInterrupt ?c)"
        by (rule res_ok_weaken [OF res_ok_self [OF CheckPendingInterrupt_triple [OF ok]]]) (auto simp: step_error_def pend sim)
      fix b c'
      assume c': "good ?c c' \<and> cpu_reg c' = cpu_reg ?c \<and> (\<not> b \<longrightarrow> c' = ?c) \<and> CheckPendingInterrupt ?c = Inr (b, c')"
      have g: "good c ?c" using t by (simp add: ticked_def)
      have "res_ok (step_error h c) ?P (fetch_execute h ?c)" if "\<not> b"
        by (rule res_ok_weaken [OF fetch_execute_triple [OF ok]])
          (use sim(1,2) c1 c' that word_error_same [OF sim(1-3)] good_trans [OF g] in \<open>auto simp: step_error_def fetched_def\<close>)
      then show "res_ok (step_error h c) ?P (if b then Inr c' else fetch_execute h c')"
        using c' good_trans [OF g] sim(1) by auto
    qed
  qed
qed

section \<open>Reached states\<close>

definition loop_inv :: "'w cpu \<Rightarrow> bool" where
  "loop_inv c \<longleftrightarrow> hart_ok c \<and> cpu_reg c 0 = 0"

interpretation loop: machine "step h" running loop_inv same_cfg "step_error h" for h
proof
  show "res_ok (step_error h c) (\<lambda>t. loop_inv t \<and> same_cfg c t) (step h c)" if "loop_inv c" for c
    by (rule res_ok_weaken [OF step_triple]) (use that in \<open>auto simp: loop_inv_def good_def\<close>)
qed (auto intro: same_cfg_trans)

lemma run_fuel_reach: "run_fuel h n c = Some (Inr c') \<Longrightarrow> running c \<Longrightarrow> reach (step h) running c c'"
proof (induction h n c rule: run_fuel.induct)
  case (2 h n c)
  then obtain c1 where c1: "step h c = Inr c1" by (auto split: sum.splits)
  have r: "reach (step h) running c c1" using 2(3) c1 by (rule reach_first)
  with 2 c1 show ?case by (auto split: if_splits intro: reach_trans)
qed simp

lemma run_fuel_stops: "run_fuel h n c = Some (Inr c') \<Longrightarrow> \<not> running c'"
  by (induction h n c rule: run_fuel.induct) (auto split: sum.splits if_splits)

lemma reach_run_fuel:
  assumes "reach (step h) running c d" "running c" "run_fuel h n d = Some r" "running d"
  shows "\<exists>n. run_fuel h n c = Some r"
  using assms(1,3,4)
proof (induction arbitrary: n rule: reach.induct)
  case (reach_step t u)
  from reach_step(2,3,5,6) have "run_fuel h (Suc n) t = Some r" by simp
  with reach_step show ?case by blast
qed blast

lemma reach_run:
  assumes "reach (step h) running c d" "running c" "\<not> running d"
  shows "\<exists>n. run_fuel h n c = Some (Inr d)"
proof -
  from assms obtain t where t: "reach (step h) running c t" "running t" "step h t = Inr d" by (auto elim: reachE)
  then have "run_fuel h (Suc 0) t = Some (Inr d)" using assms(3) by simp
  from reach_run_fuel [OF t(1) assms(2) this t(2)] show ?thesis .
qed

lemma run_fuel_error:
  assumes "run_fuel h n c = Some (Inl e)" "running c"
  shows "\<exists>c'. reach (step h) running c c' \<and> running c' \<and> step h c' = Inl e"
  using assms
proof (induction h n c rule: run_fuel.induct)
  case (2 h n c)
  show ?case
  proof (cases "step h c")
    case (Inl d)
    with 2 show ?thesis by (auto intro: reach_start)
  next
    case (Inr c1)
    with 2 have r: "running c1" "run_fuel h n c1 = Some (Inl e)" by (auto split: if_splits)
    from 2(1) [OF Inr r(1,2,1)] obtain c' where c': "reach (step h) running c1 c'" "running c'" "step h c' = Inl e" by blast
    have "reach (step h) running c c1" using 2(3) Inr by (rule reach_first)
    with c' reach_trans show ?thesis by metis
  qed
qed simp

lemma RunCpu_Inr_iff:
  "RunCpu h c pc = Some (Inr (err, c')) \<longleftrightarrow> (\<exists>n. run_fuel h n (start_cpu c pc) = Some (Inr c')) \<and> err = cpu_error_flag c'"
proof -
  have "RunCpu h c pc = Some (Inr (err, c')) \<longleftrightarrow> run_loop h (start_cpu c pc) = Some (Inr c') \<and> err = cpu_error_flag c'"
    by (cases "run_loop h (start_cpu c pc)") (auto simp: RunCpu_def rbind_eq_Inr_iff)
  then show ?thesis by (simp add: run_loop_iff)
qed

lemma RunCpu_Inl_iff: "RunCpu h c pc = Some (Inl e) \<longleftrightarrow> (\<exists>n. run_fuel h n (start_cpu c pc) = Some (Inl e))"
proof -
  have "RunCpu h c pc = Some (Inl e) \<longleftrightarrow> run_loop h (start_cpu c pc) = Some (Inl e)"
    by (cases "run_loop h (start_cpu c pc)") (auto simp: RunCpu_def rbind_eq_Inl_iff)
  then show ?thesis by (simp add: run_loop_iff)
qed

lemma loop_inv_start: "loop_inv c \<Longrightarrow> loop_inv (start_cpu c pc)" "running (start_cpu c pc)" "same_cfg c (start_cpu c pc)"
  by (simp_all add: loop_inv_def start_cpu_def hart_ok_def running_def same_cfg_def)

lemma loop_inv_construct: "mem_wf m \<Longrightarrow> loop_inv (SetMemory (RiscvCpu b raw s) m)"
  using RiscvCpu_inv [of b raw s] by (simp add: loop_inv_def hart_ok_def SetMemory_def) (simp add: RiscvCpu_defs Let_def)

section \<open>An undisturbed iteration\<close>

text \<open>With every interrupt disabled, an iteration is the fetch and execution of one instruction.\<close>

lemma SetInterruptPending_sel [simp]:
  "cpu_privilege (SetInterruptPending d i) = cpu_privilege d" "cpu_pc (SetInterruptPending d i) = cpu_pc d"
  "cpu_page_fault (SetInterruptPending d i) = cpu_page_fault d" "cpu_memory (SetInterruptPending d i) = cpu_memory d"
  "cpu_error_flag (SetInterruptPending d i) = cpu_error_flag d" "cpu_end_flag (SetInterruptPending d i) = cpu_end_flag d"
  by (simp_all add: SetInterruptPending_def ApplyInterruptEnable_def)

lemma tick_frame:
  assumes "hart_ok c" "cpu_mie c = 0"
  shows "\<exists>c1. TimerTick c = Inr c1 \<and> cpu_mie (InterruptCheck c1) = 0 \<and> cpu_privilege (InterruptCheck c1) = cpu_privilege c \<and>
    cpu_pc (InterruptCheck c1) = cpu_pc c \<and> cpu_page_fault (InterruptCheck c1) = cpu_page_fault c \<and>
    cpu_memory (InterruptCheck c1) = cpu_memory c \<and> cpu_error_flag (InterruptCheck c1) = cpu_error_flag c \<and>
    cpu_reg (InterruptCheck c1) = cpu_reg c \<and> cpu_csrs (InterruptCheck c1) MSTATUS = cpu_csrs c MSTATUS \<and>
    ticked c (InterruptCheck c1) \<and> cpu_end_flag (InterruptCheck c1) = cpu_end_flag c"
proof -
  obtain p where p: "periph_TimerTick (cpu_peripheral c) (cpu_memory c) = Inr p"
    using periph_TimerTick_ok [OF hart_ok_mem [OF assms(1)], of "\<lambda>_. False" "cpu_peripheral c"] by (cases "periph_TimerTick (cpu_peripheral c) (cpu_memory c)") auto
  define c1 where "c1 = (if \<not> p_timer_interrupt p then c\<lparr>cpu_peripheral := p\<rparr>
      else SetInterruptPending (c\<lparr>cpu_peripheral := ClearTimerInterrupt p\<rparr>) 7)"
  have t: "TimerTick c = Inr c1" using p by (simp add: TimerTick_def c1_def Let_def)
  have k: "ticked c (InterruptCheck c1)"
    using res_ok_InrD [OF TimerTick_triple [OF assms(1)] t] InterruptCheck_ticked ticked_hart_ok ticked_trans by metis
  have m: "cpu_mie (InterruptCheck c1) = 0" "cpu_reg (InterruptCheck c1) = cpu_reg c" using k assms(2) by (simp_all add: ticked_def)
  have "core_inv (InterruptCheck c1)" "cpu_mstatus (InterruptCheck c1) = cpu_mstatus c"
    using k by (simp_all add: ticked_def good_def hart_ok_def)
  then have "cpu_csrs (InterruptCheck c1) MSTATUS = cpu_csrs c MSTATUS"
    using assms(1) by (simp add: hart_ok_def core_inv_def status_mirror_def)
  with t k m show ?thesis
    by (intro exI [of _ c1] conjI) (simp_all add: InterruptCheck_def DiskInterruptCheck_def UartInterruptCheck_def c1_def)
qed

lemma step_undisturbed:
  assumes "hart_ok c" "cpu_mie c = 0"
  shows "\<exists>d. step h c = fetch_execute h d \<and> cpu_privilege d = cpu_privilege c \<and> cpu_pc d = cpu_next_pc c \<and>
    cpu_page_fault d = cpu_page_fault c \<and> cpu_memory d = cpu_memory c \<and> cpu_error_flag d = cpu_error_flag c \<and>
    cpu_reg d = cpu_reg c \<and> cpu_csrs d MSTATUS = cpu_csrs c MSTATUS \<and> same_cfg c d \<and>
    cpu_end_flag d = cpu_end_flag c \<and> hart_ok d \<and> cpu_mie d = 0"
proof -
  let ?c = "c\<lparr>cpu_pc := cpu_next_pc c\<rparr>"
  have "hart_ok ?c" "cpu_mie ?c = 0" using assms by (simp_all add: hart_ok_def)
  from tick_frame [OF this] obtain c1 where c1: "TimerTick ?c = Inr c1" "cpu_mie (InterruptCheck c1) = 0"
    "cpu_privilege (InterruptCheck c1) = cpu_privilege c" "cpu_pc (InterruptCheck c1) = cpu_next_pc c"
    "cpu_page_fault (InterruptCheck c1) = cpu_page_fault c" "cpu_memory (InterruptCheck c1) = cpu_memory c"
    "cpu_error_flag (InterruptCheck c1) = cpu_error_flag c" "cpu_reg (InterruptCheck c1) = cpu_reg c"
    "cpu_csrs (InterruptCheck c1) MSTATUS = cpu_csrs c MSTATUS" "ticked ?c (InterruptCheck c1)"
    "cpu_end_flag (InterruptCheck c1) = cpu_end_flag c" by auto
  have "pending_trap (InterruptCheck c1) = None" by (simp add: pending_trap_def c1(2) Let_def)
  then have "step h c = fetch_execute h (InterruptCheck c1)" by (simp add: step_def c1(1) CheckPendingInterrupt_def)
  moreover have "same_cfg c (InterruptCheck c1)" using c1(10) by (simp add: ticked_def good_def same_cfg_def)
  ultimately show ?thesis using c1 ticked_hart_ok [OF c1(10)] by blast
qed

text \<open>Fetching a 32-bit instruction from an aligned address in machine mode.\<close>

lemma LoadCmd_bare:
  assumes "bare c" "mem_wf (cpu_memory c)" "pc AND 3 = 0"
    "read_bytes (mem_abs (cpu_memory c)) (ucast pc) 4 = le_bytes (ucast w) 4" "w AND 3 = 3"
  shows "LoadCmd c pc = Inr (w, c\<lparr>cpu_mmu := bare_mmu c\<rparr>)"
proof -
  have a: "push_bit 2 (drop_bit 2 pc) = pc" using dram_address_id [OF assms(3)] by (simp add: dram_address_def kWordBits_def)
  have b: "pc AND 2 \<noteq> 2"
  proof
    assume "pc AND 2 = 2"
    then have "bit (pc AND 2) 1" by simp
    then have "bit (pc AND 3) 1" by (simp add: bit_and_iff)
    then show False using assms(3) by simp
  qed
  have "Read32 (cpu_memory c) pc = Inr w"
    using assms(4) Read32_abs [OF assms(2,3)] by (simp add: le_word_le_bytes ucast_ucast_32 flip: ucast_ucast_32)
  then show ?thesis
    using assms(5) b by (simp add: LoadCmd_def V2P_bare [OF assms(1)] a Let_def)
qed

text \<open>One instruction, in machine mode with interrupts disabled and nothing emulated.\<close>

definition quiet :: "'w cpu \<Rightarrow> bool" where
  "quiet c \<longleftrightarrow> loop_inv c \<and> bare c \<and> \<not> cpu_page_fault c \<and> cpu_mie c = 0 \<and> \<not> cpu_ecall_emulation c \<and>
     \<not> cpu_host_emulation c \<and> \<not> cpu_peripheral_emulation c"

text \<open>A quiet hart dies only of the word that it fetches.\<close>

lemma fetched_good:
  assumes "fetched c ir d" "hart_ok c"
  shows "good c d"
proof -
  obtain t c1 where t: "TimerTick (c\<lparr>cpu_pc := cpu_next_pc c\<rparr>) = Inr t" "CheckPendingInterrupt (InterruptCheck t) = Inr (False, c1)"
    "LoadCmd c1 (cpu_pc c1) = Inr (ir, d)" using assms(1) by (auto simp: fetched_def)
  have "ticked (c\<lparr>cpu_pc := cpu_next_pc c\<rparr>) t"
    using res_ok_InrD [OF TimerTick_triple t(1)] assms(2) by (simp add: hart_ok_def)
  then have "ticked c (InterruptCheck t)"
    using ticked_trans [OF ticked_upd(2) [OF assms(2)]] ticked_trans InterruptCheck_ticked ticked_hart_ok by metis
  then have g: "good c (InterruptCheck t)" by (simp add: ticked_def)
  then have ok: "hart_ok (InterruptCheck t)" by (simp add: good_def)
  have c1: "c1 = InterruptCheck t" using res_ok_InrD [OF CheckPendingInterrupt_triple [OF ok] t(2)] by simp
  have "translated c1 d" using res_ok_InrD [OF LoadCmd_triple t(3)] ok c1 by simp
  then show ?thesis using translated_good [OF ok] good_trans [OF g] c1 by simp
qed

lemma quiet_step_error:
  assumes "quiet c" "step_error h c e"
  shows "e = Out_of_range \<and> bad_mpp c \<or> (\<exists>ir d. fetched c ir d \<and> word_error c ir e)"
proof -
  have ok: "hart_ok c" using assms(1) by (simp add: quiet_def loop_inv_def)
  have "\<not> emulation_error h d' e" if "fetched c ir d" "decode_execute h (d\<lparr>cpu_ir := ir\<rparr>) = Inr d'" for ir d d'
  proof -
    have d: "good c (d\<lparr>cpu_ir := ir\<rparr>)" using fetched_good [OF that(1) ok] by simp
    then have "hart_ok (d\<lparr>cpu_ir := ir\<rparr>)" by (simp add: good_def)
    from good_trans [OF d res_ok_InrD [OF decode_execute_triple [OF this] that(2)]] have "same_cfg c d'" by (simp add: good_def)
    then show ?thesis using assms(1) by (simp add: emulation_error_def quiet_def same_cfg_def)
  qed
  with assms show ?thesis by (auto simp: step_error_def quiet_def)
qed

definition holds_word :: "'w cpu \<Rightarrow> u64 \<Rightarrow> u32 \<Rightarrow> bool" where
  "holds_word c a w \<longleftrightarrow> a AND 3 = 0 \<and> read_bytes (mem_abs (cpu_memory c)) (ucast a) 4 = le_bytes (ucast w) 4"

lemma step_executes:
  assumes "quiet c" "holds_word c (cpu_next_pc c) w" "w AND 3 = 3"
  shows "\<exists>d. step h c = rbind (execute h d (GetCode32 w) (GetRd w) (GetRs1 w) (GetRs2 w) (GetImm w) (GetCsr w)) (finish_step h) \<and>
    cpu_pc d = cpu_next_pc c \<and> cpu_next_pc d = cpu_next_pc c + 4 \<and> cpu_reg d = cpu_reg c \<and> cpu_memory d = cpu_memory c \<and>
    cpu_error_flag d = cpu_error_flag c \<and> cpu_end_flag d = cpu_end_flag c \<and> same_cfg c d \<and> quiet d"
proof -
  have q: "hart_ok c" "cpu_mie c = 0" "bare c" "\<not> cpu_page_fault c" using assms(1) by (simp_all add: quiet_def loop_inv_def)
  obtain e where e: "step h c = fetch_execute h e" "cpu_privilege e = cpu_privilege c" "cpu_pc e = cpu_next_pc c"
    "cpu_page_fault e = cpu_page_fault c" "cpu_memory e = cpu_memory c" "cpu_error_flag e = cpu_error_flag c" "cpu_reg e = cpu_reg c"
    "cpu_csrs e MSTATUS = cpu_csrs c MSTATUS" "same_cfg c e" "cpu_end_flag e = cpu_end_flag c" "hart_ok e" "cpu_mie e = 0"
    using step_undisturbed [OF q(1,2)] by metis
  have b: "bare e" "mem_wf (cpu_memory e)" using q e hart_ok_mem by (simp_all add: bare_def)
  have l: "LoadCmd e (cpu_pc e) = Inr (w, e\<lparr>cpu_mmu := bare_mmu e\<rparr>)"
    using LoadCmd_bare [OF b, of "cpu_next_pc c" w] assms(2,3) e by (simp add: holds_word_def)
  let ?d = "e\<lparr>cpu_mmu := bare_mmu e, cpu_ir := w, cpu_ctype := False, cpu_next_pc := cpu_pc e + 4\<rparr>"
  have "step h c = rbind (execute h ?d (GetCode32 w) (GetRd w) (GetRs1 w) (GetRs2 w) (GetImm w) (GetCsr w)) (finish_step h)"
    using q(4) e(4) assms(3) unfolding e(1) fetch_execute_def l rbind_Inr prod.case Let_def
    by (simp add: decode_execute_def Let_def)
  moreover have "quiet ?d"
    using e(2-12) assms(1) by (simp add: quiet_def loop_inv_def hart_ok_def bare_def same_cfg_def)
  ultimately show ?thesis using e by (intro exI [of _ ?d]) (simp add: same_cfg_def)
qed

lemma finish_step_quiet:
  assumes "\<not> cpu_host_emulation c" "\<not> cpu_peripheral_emulation c" "cpu_pc c \<noteq> cpu_next_pc c"
  shows "finish_step h c = Inr (set_reg ZERO 0 c)"
  using assms by (simp add: finish_step_def Let_def) (simp add: set_reg_def)

section \<open>From memory to registers\<close>

definition rtype_spec :: "code \<Rightarrow> u64 \<Rightarrow> u64 \<Rightarrow> u64" where
  "rtype_spec op x y = (if op \<in> base_ops then alu_spec op x y else mult_spec op x y)"

lemma isa_R_code: "(op, m) \<in> set isa_R \<Longrightarrow> w AND 0xFE00707F = m \<Longrightarrow> GetCode32 w = op"
  using isa_R_ok by (auto simp: list_all_iff)

lemma isa_R_32bit:
  assumes "(op, m) \<in> set isa_R" "w AND 0xFE00707F = m"
  shows "w AND 3 = 3"
proof -
  have "m AND 3 = 3" using assms(1) by (auto simp: isa_R_def)
  moreover have "m AND 3 = w AND (0xFE00707F AND 3)" using assms(2) by (simp only: and.assoc flip: assms(2))
  ultimately show ?thesis by simp
qed

lemma rtype_groups: "op \<in> base_ops \<Longrightarrow> is_operation op"
  "op \<in> mult_ops \<Longrightarrow> is_mult op \<and> op \<notin> base_ops \<and> \<not> is_operation op \<and> \<not> is_immediate op \<and> \<not> is_shift_immediate op \<and> \<not> is_branch op \<and>
     \<not> is_load op \<and> \<not> is_store op \<and> \<not> is_csr op \<and>
     op \<notin> {INST_SLT, INST_SLTU, INST_SLTI, INST_SLTIU, INST_JAL, INST_JALR, INST_LUI, INST_AUIPC, INST_SYSTEM, INST_FENCE, INST_FENCEI}"
  unfolding base_ops_def mult_ops_def is_operation_def is_mult_def is_immediate_def is_shift_immediate_def is_branch_def is_load_def
    is_store_def is_csr_def
  by auto

lemma execute_rtype:
  assumes "cpu_xlen d = 64" "op \<in> base_ops \<union> mult_ops"
  shows "execute h d op rd rs1 rs2 imm csr = Inr (set_reg rd (rtype_spec op (cpu_reg d rs1) (cpu_reg d rs2)) d)"
proof (cases "op \<in> base_ops")
  case True
  then show ?thesis using assms(1) rtype_groups(1) by (simp add: execute_def OperationInstruction_def operation64 rtype_spec_def)
next
  case False
  with assms(2) have m: "op \<in> mult_ops" by blast
  show ?thesis
    using rtype_groups(2) [OF m] assms(1) mult64 [OF m] by (simp add: execute_def MultInstruction_def rtype_spec_def)
qed

lemma pc_advances: "(x :: u64) \<noteq> x + 4"
  by (simp add: eq_commute)

lemma step_rtype:
  assumes "quiet c" "cpu_xlen c = 64" "holds_word c (cpu_next_pc c) w" "(op, m) \<in> set isa_R" "op \<in> base_ops \<union> mult_ops" "w AND 0xFE00707F = m"
  shows "\<exists>c'. step h c = Inr c' \<and> cpu_next_pc c' = cpu_next_pc c + 4 \<and> cpu_memory c' = cpu_memory c \<and>
    cpu_error_flag c' = cpu_error_flag c \<and>
    cpu_reg c' = (cpu_reg c)(GetRd w := rtype_spec op (cpu_reg c (GetRs1 w)) (cpu_reg c (GetRs2 w)), 0 := 0)"
proof -
  obtain d where d: "step h c = rbind (execute h d (GetCode32 w) (GetRd w) (GetRs1 w) (GetRs2 w) (GetImm w) (GetCsr w)) (finish_step h)"
    "cpu_pc d = cpu_next_pc c" "cpu_next_pc d = cpu_next_pc c + 4" "cpu_reg d = cpu_reg c" "cpu_memory d = cpu_memory c"
    "cpu_error_flag d = cpu_error_flag c" "same_cfg c d"
    using step_executes [OF assms(1,3) isa_R_32bit [OF assms(4,6)]] by metis
  let ?d = "set_reg (GetRd w) (rtype_spec op (cpu_reg c (GetRs1 w)) (cpu_reg c (GetRs2 w))) d"
  have "cpu_xlen d = 64" using d(7) assms(2) by (simp add: same_cfg_def)
  from execute_rtype [OF this assms(5)] have x: "step h c = finish_step h ?d"
    using d(1,4) isa_R_code [OF assms(4,6)] by simp
  have "finish_step h ?d = Inr (set_reg ZERO 0 ?d)"
    using assms(1) d(2,3,7) pc_advances [of "cpu_next_pc c"]
    by (intro finish_step_quiet) (simp_all add: set_reg_def quiet_def same_cfg_def)
  with x d show ?thesis by (intro exI [of _ "set_reg ZERO 0 ?d"]) (simp add: set_reg_def)
qed

text \<open>The return of the main program: \<open>ret\<close> with \<open>ra\<close> zero.\<close>

lemma ret_fields:
  "GetCode32 0x8067 = INST_JALR" "GetRd 0x8067 = 0" "GetRs1 0x8067 = 1" "GetImm 0x8067 = 0"
proof -
  show "GetCode32 0x8067 = INST_JALR" using isa_I_ok by (auto simp: list_all_iff isa_I_def)
qed (simp_all add: GetRd_def GetRs1_def GetImm_def GetImm12_def SignExtend_eq bitcrop_numeral Let_def)

lemma execute_ret:
  "cpu_reg d 1 = 0 \<Longrightarrow> execute h d INST_JALR 0 1 rs2 0 csr = Inr ((set_reg 0 (cpu_next_pc d) (d\<lparr>cpu_next_pc := 0\<rparr>))\<lparr>cpu_end_flag := True\<rparr>)"
  by (simp add: execute_def is_operation_def is_immediate_def is_shift_immediate_def is_branch_def JalrInstruction_def set_reg_def Let_def)

lemma step_ret:
  assumes "quiet c" "holds_word c (cpu_next_pc c) 0x8067" "cpu_reg c RA = 0" "cpu_next_pc c \<noteq> 0"
  shows "\<exists>c'. step h c = Inr c' \<and> cpu_end_flag c' \<and> cpu_error_flag c' = cpu_error_flag c \<and> cpu_reg c' = (cpu_reg c)(0 := 0) \<and>
    cpu_memory c' = cpu_memory c"
proof -
  obtain d where d: "step h c = rbind (execute h d (GetCode32 0x8067) (GetRd 0x8067) (GetRs1 0x8067) (GetRs2 0x8067) (GetImm 0x8067) (GetCsr 0x8067)) (finish_step h)"
    "cpu_pc d = cpu_next_pc c" "cpu_reg d = cpu_reg c" "cpu_memory d = cpu_memory c" "cpu_error_flag d = cpu_error_flag c" "same_cfg c d"
    using step_executes [OF assms(1,2)] by auto
  let ?d = "(set_reg 0 (cpu_next_pc d) (d\<lparr>cpu_next_pc := 0\<rparr>))\<lparr>cpu_end_flag := True\<rparr>"
  have "cpu_reg d 1 = 0" using d(3) assms(3) by simp
  then have x: "step h c = finish_step h ?d" using d(1) by (simp add: ret_fields execute_ret)
  have "finish_step h ?d = Inr (set_reg ZERO 0 ?d)"
    using assms(1,4) d(2,6) by (intro finish_step_quiet) (simp_all add: set_reg_def quiet_def same_cfg_def)
  with x d show ?thesis by (intro exI [of _ "set_reg ZERO 0 ?d"]) (simp add: set_reg_def)
qed

lemma quiet_start: "quiet c \<Longrightarrow> quiet (start_cpu c pc)"
  using loop_inv_start(1) [of c pc] by (simp add: quiet_def bare_def) (simp add: start_cpu_def)

lemma RunCpu_ret:
  assumes "quiet c" "holds_word c pc 0x8067" "cpu_reg c RA = 0" "pc \<noteq> 0"
  shows "\<exists>c'. RunCpu h c pc = Some (Inr (False, c')) \<and> cpu_reg c' = cpu_reg c \<and> cpu_memory c' = cpu_memory c"
proof -
  let ?c = "start_cpu c pc"
  have "holds_word ?c (cpu_next_pc ?c) 0x8067" "cpu_reg ?c RA = 0" "cpu_next_pc ?c \<noteq> 0" "cpu_error_flag ?c = False"
    "cpu_reg ?c = cpu_reg c" "cpu_memory ?c = cpu_memory c" using assms by (simp_all add: start_cpu_def holds_word_def)
  with step_ret [OF quiet_start [OF assms(1)], of pc h] obtain c' where c': "step h ?c = Inr c'" "cpu_end_flag c'" "\<not> cpu_error_flag c'"
    "cpu_reg c' = (cpu_reg c)(0 := 0)" "cpu_memory c' = cpu_memory c" by auto
  have "\<exists>n. run_fuel h n ?c = Some (Inr c')" by (rule exI [of _ "Suc 0"]) (use c'(1,2) in \<open>simp add: running_def\<close>)
  moreover have "(cpu_reg c)(0 := 0) = cpu_reg c" using assms(1) by (auto simp: quiet_def loop_inv_def)
  ultimately show ?thesis using c' unfolding RunCpu_Inr_iff by (intro exI [of _ c']) simp
qed

text \<open>The shift \<open>sraiw x1, x0, 32\<close>, which the decoder accepts.\<close>

lemma sraiw_fields: "GetCode32 0x4200509B = INST_SRAIW" "GetRs1 0x4200509B = 0" "GetImm 0x4200509B = 32"
proof -
  show "GetCode32 0x4200509B = INST_SRAIW"
    by (simp add: GetCode32_opcode bitcrop_numeral code_ARITHLOG_I64_def)
qed (simp_all add: GetRs1_def GetImm_def GetImm12_def SignExtend_eq bitcrop_numeral Let_def)

lemma execute_sraiw: "execute h d INST_SRAIW rd rs1 rs2 32 csr = Inl Undefined"
  by (simp add: execute_def is_operation_def is_immediate_def is_shift_immediate_def ImmediateShiftInstruction_def shift_value_def)

lemma step_sraiw: "quiet c \<Longrightarrow> holds_word c (cpu_next_pc c) 0x4200509B \<Longrightarrow> step h c = Inl Undefined"
  using step_executes [of c "0x4200509B" h] by (auto simp: sraiw_fields execute_sraiw)

section \<open>A concrete hart\<close>

text \<open>A 64-bit hart about to execute the word \<open>w\<close> at the start of memory, for evaluating the theorems below.\<close>

definition demo_memory :: "u32 \<Rightarrow> memory" where
  "demo_memory w = (case Write32 MemoryWrapper 0x80000000 w of Inr m \<Rightarrow> m | Inl _ \<Rightarrow> MemoryWrapper)"

definition demo_hart :: "u32 \<Rightarrow> unit cpu" where
  "demo_hart w = start_cpu (SetMemory (blank_hart True) (demo_memory w)) 0x80000000"

lemma demo_memory_abs:
  "mem_wf (demo_memory w)" "mem_abs (demo_memory w) = write_bytes (mem_abs MemoryWrapper) 0x80000000 (le_bytes (ucast w) 4)"
proof -
  obtain m where "Write32 MemoryWrapper 0x80000000 w = Inr m" "mem_wf m"
    "mem_abs m = write_bytes (mem_abs MemoryWrapper) (ucast (0x80000000 :: u64)) (le_bytes (ucast w) 4)"
    by (rule Write32_abs [OF mem_wf_MemoryWrapper, of "0x80000000" w]) simp_all
  then show "mem_wf (demo_memory w)" "mem_abs (demo_memory w) = write_bytes (mem_abs MemoryWrapper) 0x80000000 (le_bytes (ucast w) 4)"
    by (simp_all add: demo_memory_def)
qed

lemma demo_hart_sel [simp]:
  "cpu_xlen (demo_hart w) = 64" "cpu_reg (demo_hart w) r = 0" "cpu_next_pc (demo_hart w) = 0x80000000"
  "cpu_error_flag (demo_hart w) = False" "cpu_memory (demo_hart w) = demo_memory w" "cpu_privilege (demo_hart w) = MACHINE_MODE"
  by (simp_all add: demo_hart_def start_cpu_def SetMemory_def)

lemma demo_hart_loop_inv: "loop_inv (demo_hart w)"
  unfolding demo_hart_def blank_hart_def by (intro loop_inv_start loop_inv_construct demo_memory_abs)

lemma demo_hart_quiet: "quiet (demo_hart w)"
proof -
  have "bare (demo_hart w)" "\<not> cpu_page_fault (demo_hart w)"
    using bare_blank_hart(1,2) [of True] by (simp_all add: demo_hart_def start_cpu_def SetMemory_def bare_def)
  moreover have "cpu_mie (demo_hart w) = 0" "\<not> cpu_ecall_emulation (demo_hart w)" "\<not> cpu_host_emulation (demo_hart w)"
    "\<not> cpu_peripheral_emulation (demo_hart w)"
    by (simp_all add: demo_hart_def start_cpu_def SetMemory_def blank_hart_def blank_cpu_def RiscvCpu_defs Let_def)
  ultimately show ?thesis by (simp add: quiet_def demo_hart_loop_inv)
qed

lemma demo_hart_word: "holds_word (demo_hart w) (cpu_next_pc (demo_hart w)) w"
  using read_write_bytes [of "le_bytes (ucast w) 4" "mem_abs MemoryWrapper" "0x80000000"]
  by (simp add: holds_word_def demo_memory_abs)

end
