(* ===== verification/Isa_Sim.thy ===== *)
theory Isa_Sim
  imports Isa_Spec Run_Spec
begin

text \<open>
  The execution loop implements the instruction set: in machine mode, with interrupts disabled and no
  emulation of devices and system calls, every step of the specification is an iteration of the loop.
\<close>

section \<open>Computation\<close>

lemma op_classes:
  "map_of word_ops op = Some b \<Longrightarrow> is_operation op \<and> (op, b) \<in> set word_ops"
  "map_of imm_ops op = Some b \<Longrightarrow> is_immediate op \<and> \<not> is_operation op \<and> (op, b) \<in> set imm_ops"
  "map_of shift_imm_ops op = Some b \<Longrightarrow> is_shift_immediate op \<and> \<not> is_operation op \<and> \<not> is_immediate op \<and> (op, b) \<in> set shift_imm_ops"
  "map_of shift_imm_word_ops op = Some b \<Longrightarrow>
     is_shift_immediate op \<and> \<not> is_operation op \<and> \<not> is_immediate op \<and> (op, b) \<in> set shift_imm_word_ops"
  unfolding word_ops_def imm_ops_def shift_imm_ops_def shift_imm_word_ops_def is_operation_def is_immediate_def is_shift_immediate_def
  by (auto split: if_splits)

lemma mult_word_class:
  "map_of mult_word_ops op = Some b \<Longrightarrow> is_mult op \<and> (op, b) \<in> set mult_word_ops \<and> \<not> is_operation op \<and> \<not> is_immediate op \<and>
     \<not> is_shift_immediate op \<and> \<not> is_branch op \<and> \<not> is_load op \<and> \<not> is_store op \<and> \<not> is_csr op \<and>
     op \<notin> {INST_SLT, INST_SLTU, INST_SLTI, INST_SLTIU, INST_JAL, INST_JALR, INST_LUI, INST_AUIPC, INST_SYSTEM, INST_FENCE, INST_FENCEI}"
  unfolding mult_word_ops_def is_mult_def is_operation_def is_immediate_def is_shift_immediate_def is_branch_def is_load_def
    is_store_def is_csr_def
  by (auto split: if_splits)

lemmas exec_classes = is_operation_def is_immediate_def is_shift_immediate_def is_branch_def is_load_def is_store_def is_csr_def

lemma execute_compare:
  "execute h d INST_SLT rd rs1 rs2 imm csr = Inr (set_reg rd (of_bool (sint (cpu_reg d rs1) < sint (cpu_reg d rs2))) d)"
  "execute h d INST_SLTU rd rs1 rs2 imm csr = Inr (set_reg rd (of_bool (cpu_reg d rs1 < cpu_reg d rs2)) d)"
  "execute h d INST_SLTI rd rs1 rs2 imm csr = Inr (set_reg rd (of_bool (sint (cpu_reg d rs1) < sint imm)) d)"
  "execute h d INST_SLTIU rd rs1 rs2 imm csr = Inr (set_reg rd (of_bool (cpu_reg d rs1 < scast imm)) d)"
  by (simp_all add: execute_def exec_classes compare_value_def sint_scast32)

lemma execute_upper:
  assumes "cpu_xlen d = 64"
  shows "execute h d INST_LUI rd rs1 rs2 imm csr = Inr (set_reg rd (scast imm) d)"
    "execute h d INST_AUIPC rd rs1 rs2 imm csr = Inr (set_reg rd (cpu_pc d + scast imm) d)"
  using assms by (simp_all add: execute_def exec_classes upper_value_def)

lemma execute_immediate:
  assumes "cpu_xlen d = 64"
  shows "map_of imm_ops op = Some b \<Longrightarrow>
      execute h d op rd rs1 rs2 imm csr = Inr (set_reg rd (alu_spec b (cpu_reg d rs1) (scast imm)) d)"
    "map_of shift_imm_ops op = Some b \<Longrightarrow> unat imm < 64 \<Longrightarrow>
      execute h d op rd rs1 rs2 imm csr = Inr (set_reg rd (alu_spec b (cpu_reg d rs1) (ucast imm)) d)"
    "map_of shift_imm_word_ops op = Some b \<Longrightarrow> unat imm < 32 \<Longrightarrow>
      execute h d op rd rs1 rs2 imm csr = Inr (set_reg rd (scast (alu_spec b (ucast (cpu_reg d rs1)) imm)) d)"
proof -
  show "map_of imm_ops op = Some b \<Longrightarrow>
      execute h d op rd rs1 rs2 imm csr = Inr (set_reg rd (alu_spec b (cpu_reg d rs1) (scast imm)) d)"
    using assms op_classes(2) [of op b] immediate64 [of op b] by (simp add: execute_def ImmediateInstruction_def)
  show "map_of shift_imm_ops op = Some b \<Longrightarrow> unat imm < 64 \<Longrightarrow>
      execute h d op rd rs1 rs2 imm csr = Inr (set_reg rd (alu_spec b (cpu_reg d rs1) (ucast imm)) d)"
    using assms op_classes(3) [of op b] shift64 [of op b "ucast imm" "cpu_reg d rs1"] shift_imm_handled [of op b d rd rs1 imm]
    by (simp add: execute_def unat_ucast_up)
  show "map_of shift_imm_word_ops op = Some b \<Longrightarrow> unat imm < 32 \<Longrightarrow>
      execute h d op rd rs1 rs2 imm csr = Inr (set_reg rd (scast (alu_spec b (ucast (cpu_reg d rs1)) imm)) d)"
    using assms op_classes(4) [of op b] shiftW [of op b imm 64 "cpu_reg d rs1"] shift_imm_handled [of op b d rd rs1 imm]
    by (simp add: execute_def)
qed

lemma execute_ADDIW: "execute h d INST_ADDIW rd rs1 rs2 imm csr = Inr (set_reg rd (scast (ucast (cpu_reg d rs1) + imm)) d)"
  by (simp add: execute_def is_operation_def is_immediate_def ImmediateInstruction_def immediateW alu_spec_def)

lemma execute_word:
  assumes "cpu_xlen d = 64"
  shows "map_of word_ops op = Some b \<Longrightarrow>
      execute h d op rd rs1 rs2 imm csr = Inr (set_reg rd (scast (alu_spec b (ucast (cpu_reg d rs1)) (ucast (cpu_reg d rs2) :: u32))) d)"
    "map_of mult_word_ops op = Some b \<Longrightarrow> cpu_reg d rs2 = 0 \<or> (ucast (cpu_reg d rs2) :: u32) \<noteq> 0 \<Longrightarrow>
      execute h d op rd rs1 rs2 imm csr = Inr (set_reg rd (scast (mult_spec b (ucast (cpu_reg d rs1)) (ucast (cpu_reg d rs2) :: u32))) d)"
  using assms op_classes(1) [of op b] mult_word_class [of op b] operationW [of op b] multW [of op b]
  by (simp_all add: execute_def OperationInstruction_def MultInstruction_def)

lemma execute_value:
  assumes "cpu_xlen d = 64" "isa_value op (cpu_pc d) (cpu_reg d rs1) (cpu_reg d rs2) imm = Some v"
  shows "execute h d op rd rs1 rs2 imm csr = Inr (set_reg rd v d)"
  using assms(2) unfolding isa_value_def
  by (auto split: if_splits option.splits simp: execute_rtype [OF assms(1)] rtype_spec_def execute_compare execute_upper [OF assms(1)]
      execute_immediate [OF assms(1)] execute_ADDIW execute_word [OF assms(1)] base_ops_def)

section \<open>The two states\<close>

text \<open>What the specification sees of a hart between two instructions, and of a hart that has fetched one.\<close>

definition hart_view :: "'w cpu \<Rightarrow> isa" where
  "hart_view c = \<lparr>isa_pc = cpu_next_pc c, isa_reg = cpu_reg c, isa_mem = mem_view (mem_abs (cpu_memory c))\<rparr>"

definition fetched_view :: "'w cpu \<Rightarrow> isa" where
  "fetched_view d = \<lparr>isa_pc = cpu_pc d, isa_reg = cpu_reg d, isa_mem = mem_view (mem_abs (cpu_memory d))\<rparr>"

lemmas view_defs = hart_view_def fetched_view_def

text \<open>Quietness without the condition on \<open>x0\<close>, which the end of an iteration restores.\<close>

definition idle :: "'w cpu \<Rightarrow> bool" where
  "idle c \<longleftrightarrow> hart_ok c \<and> bare c \<and> \<not> cpu_page_fault c \<and> cpu_mie c = 0 \<and> \<not> cpu_ecall_emulation c \<and>
     \<not> cpu_host_emulation c \<and> \<not> cpu_peripheral_emulation c"

lemma quiet_idle: "quiet c \<longleftrightarrow> idle c \<and> cpu_reg c 0 = 0"
  by (auto simp: quiet_def idle_def loop_inv_def)

lemma idle_upd [simp]:
  "idle (set_reg r v c) = idle c" "idle (c\<lparr>cpu_next_pc := x\<rparr>) = idle c" "idle (c\<lparr>cpu_end_flag := b\<rparr>) = idle c"
  "idle (c\<lparr>cpu_error_flag := b\<rparr>) = idle c" "idle (c\<lparr>cpu_mmu := u\<rparr>) = idle c" "idle (c\<lparr>cpu_peripheral := p\<rparr>) = idle c"
  by (simp_all add: idle_def hart_ok_def bare_def set_reg_def)

lemma idle_memory: "idle c \<Longrightarrow> mem_wf m \<Longrightarrow> idle (c\<lparr>cpu_memory := m\<rparr>)"
  by (simp add: idle_def hart_ok_def)

text \<open>An instruction executed as specified, up to \<open>x0\<close>: the error flag only for a jump to itself, the end flag only for the return.\<close>

definition executed :: "bool \<Rightarrow> 'w cpu \<Rightarrow> isa \<Rightarrow> 'w cpu \<Rightarrow> bool" where
  "executed returns d t d' \<longleftrightarrow> cpu_pc d' = cpu_pc d \<and> hart_view (set_reg 0 0 d') = t \<and> idle d' \<and> cpu_xlen d' = cpu_xlen d \<and>
     (cpu_error_flag d' \<longrightarrow> isa_pc t = cpu_pc d) \<and> cpu_end_flag d' = returns"

definition fresh :: "'w cpu \<Rightarrow> bool" where
  "fresh d \<longleftrightarrow> idle d \<and> cpu_reg d 0 = 0 \<and> cpu_xlen d = 64 \<and> running d \<and> cpu_next_pc d = cpu_pc d + 4"

lemmas executed_simps = executed_def view_defs set_reg_def isa_set_def fresh_def running_def

lemma executed_value:
  assumes "fresh d"
  shows "executed False d (isa_set rd v ((fetched_view d)\<lparr>isa_pc := isa_pc (fetched_view d) + 4\<rparr>)) (set_reg rd v d)"
  using assms by (simp add: executed_def fresh_def) (simp add: view_defs isa_set_def set_reg_def running_def)

section \<open>Control transfer\<close>

lemma branch_class: "isa_taken op x y = Some b \<Longrightarrow> is_branch op \<and> branch_condition op x y = b \<and> \<not> is_operation op \<and> \<not> is_immediate op \<and>
    \<not> is_shift_immediate op \<and> op \<notin> {INST_SLT, INST_SLTU, INST_SLTI, INST_SLTIU}"
  by (auto simp: isa_taken_def exec_classes branch_condition_def not_less split: if_splits)

lemma executed_branch:
  assumes "fresh d" "isa_taken op (cpu_reg d rs1) (cpu_reg d rs2) = Some b"
  shows "\<exists>d'. execute h d op rd rs1 rs2 imm csr = Inr d' \<and>
    executed False d (if b then (fetched_view d)\<lparr>isa_pc := cpu_pc d + scast imm\<rparr> else (fetched_view d)\<lparr>isa_pc := cpu_pc d + 4\<rparr>) d'"
proof -
  let ?d = "d\<lparr>cpu_next_pc := if b then cpu_pc d + scast imm else cpu_pc d + 4\<rparr>"
  have "execute h d op rd rs1 rs2 imm csr = Inr ?d"
    using branch_class [OF assms(2)] assms(1) by (simp add: execute_def BranchInstruction_def fresh_def)
  moreover have "(cpu_reg d)(0 := 0) = cpu_reg d" using assms(1) by (auto simp: fresh_def)
  then have "executed False d (if b then (fetched_view d)\<lparr>isa_pc := cpu_pc d + scast imm\<rparr> else (fetched_view d)\<lparr>isa_pc := cpu_pc d + 4\<rparr>) ?d"
    using assms(1) by (simp add: executed_def fresh_def) (simp add: view_defs set_reg_def running_def)
  ultimately show ?thesis by blast
qed

lemma executed_jal:
  assumes "fresh d"
  shows "\<exists>d'. execute h d INST_JAL rd rs1 rs2 imm csr = Inr d' \<and>
    executed False d (isa_set rd (cpu_pc d + 4) ((fetched_view d)\<lparr>isa_pc := cpu_pc d + scast imm\<rparr>)) d'"
proof -
  have "execute h d INST_JAL rd rs1 rs2 imm csr = Inr (JalInstruction d rd imm)" by (simp add: execute_def exec_classes)
  moreover have "executed False d (isa_set rd (cpu_pc d + 4) ((fetched_view d)\<lparr>isa_pc := cpu_pc d + scast imm\<rparr>)) (JalInstruction d rd imm)"
    using assms by (simp add: executed_def fresh_def JalInstruction_def Let_def) (simp add: view_defs isa_set_def set_reg_def running_def)
  ultimately show ?thesis by blast
qed

lemma executed_jalr:
  assumes "fresh d"
  shows "\<exists>d'. execute h d INST_JALR rd rs1 rs2 imm csr = Inr d' \<and>
    executed (rd = 0 \<and> rs1 = 1 \<and> imm = 0 \<and> cpu_reg d 1 = 0) d
      (isa_set rd (cpu_pc d + 4) ((fetched_view d)\<lparr>isa_pc := (cpu_reg d rs1 + scast imm) AND NOT 1\<rparr>)) d'"
proof -
  have "execute h d INST_JALR rd rs1 rs2 imm csr = Inr (JalrInstruction d rd rs1 imm)" by (simp add: execute_def exec_classes)
  moreover have "executed (rd = 0 \<and> rs1 = 1 \<and> imm = 0 \<and> cpu_reg d 1 = 0) d
      (isa_set rd (cpu_pc d + 4) ((fetched_view d)\<lparr>isa_pc := (cpu_reg d rs1 + scast imm) AND NOT 1\<rparr>)) (JalrInstruction d rd rs1 imm)"
    using assms by (simp add: executed_def fresh_def JalrInstruction_def Let_def) (auto simp add: view_defs isa_set_def set_reg_def running_def)
  ultimately show ?thesis by blast
qed

section \<open>Memory\<close>

lemma load_class: "map_of isa_loads op = Some n \<Longrightarrow> is_load op \<and> GetLoadWidth op = Inr n \<and> \<not> is_operation op \<and> \<not> is_immediate op \<and>
    \<not> is_shift_immediate op \<and> \<not> is_branch op \<and> op \<notin> {INST_SLT, INST_SLTU, INST_SLTI, INST_SLTIU, INST_JAL, INST_JALR}"
  by (auto simp: isa_loads_def exec_classes GetLoadWidth_def split: if_splits)

lemma store_class: "map_of isa_stores op = Some n \<Longrightarrow> is_store op \<and> GetStoreWidth op = Inr n \<and> \<not> is_operation op \<and> \<not> is_immediate op \<and>
    \<not> is_shift_immediate op \<and> \<not> is_branch op \<and> \<not> is_load op \<and> op \<notin> {INST_SLT, INST_SLTU, INST_SLTI, INST_SLTIU, INST_JAL, INST_JALR}"
  by (auto simp: isa_stores_def exec_classes GetStoreWidth_def split: if_splits)

lemma idle_bare: "idle d \<Longrightarrow> bare d \<and> \<not> cpu_page_fault d \<and> mem_wf (cpu_memory d)"
  by (simp add: idle_def hart_ok_def)

lemma executed_load:
  assumes "fresh d" "map_of isa_loads op = Some n"
    "isa_load op n rd (cpu_reg d rs1 + scast imm) ((fetched_view d)\<lparr>isa_pc := cpu_pc d + 4\<rparr>) = Some t"
  shows "\<exists>d'. execute h d op rd rs1 rs2 imm csr = Inr d' \<and> executed False d t d'"
proof -
  let ?a = "cpu_reg d rs1 + scast imm"
  have ok: "idle d" "bare d" "\<not> cpu_page_fault d" "mem_wf (cpu_memory d)" using assms(1) idle_bare by (auto simp: fresh_def)
  obtain m where m: "MemoryMappedValueUpdate (cpu_peripheral d) (cpu_memory d) = Inr m" "mem_wf m"
      "mem_abs m = write_bytes (mem_abs (cpu_memory d)) (ucast kTimerMtime) (le_bytes (p_elapsed_cycles (cpu_peripheral d)) 8)"
    by (rule MemoryMappedValueUpdate_abs [OF ok(4)])
  let ?v = "load_spec op (read_bytes (mem_abs m) (ucast ?a) n)"
  let ?e = "d\<lparr>cpu_memory := m, cpu_mmu := bare_mmu d, cpu_peripheral := CheckDeviceRead (cpu_peripheral d) ?a n\<rparr>"
  have x: "execute h d op rd rs1 rs2 imm csr = Inr (set_reg rd ?v ?e)"
    using load_class [OF assms(2)] LoadInstruction_bare [OF ok(2,3) m(2) _ m(1), of op n rd rs1 imm] by (simp add: execute_def)
  have view: "mem_view (mem_abs m) = mem_view (mem_abs (cpu_memory d))" unfolding m(3) by (rule mem_view_timer) simp
  have free: "\<not> touches_timer (ucast ?a) n" "t = isa_set rd ?v ((fetched_view d)\<lparr>isa_pc := cpu_pc d + 4\<rparr>)"
    using assms(3) view read_bytes_view [of "ucast ?a" n "mem_abs m"] by (auto simp: isa_load_def fetched_view_def split: if_splits)
  have "idle ?e" using idle_memory [OF ok(1) m(2)] by simp
  then have "executed False d t (set_reg rd ?v ?e)"
    using assms(1) view unfolding free(2)
    by (simp add: executed_def fresh_def) (simp add: view_defs isa_set_def set_reg_def running_def)
  with x show ?thesis by blast
qed

lemma executed_store:
  assumes "fresh d" "map_of isa_stores op = Some n"
    "isa_store n (cpu_reg d rs1 + scast imm) (cpu_reg d rs2) ((fetched_view d)\<lparr>isa_pc := cpu_pc d + 4\<rparr>) = Some t"
  shows "\<exists>d'. execute h d op rd rs1 rs2 imm csr = Inr d' \<and> executed False d t d'"
proof -
  let ?a = "cpu_reg d rs1 + scast imm"
  have ok: "idle d" "bare d" "\<not> cpu_page_fault d" "mem_wf (cpu_memory d)" using assms(1) idle_bare by (auto simp: fresh_def)
  have c: "GetStoreWidth op = Inr n" using store_class [OF assms(2)] by blast
  from StoreInstruction_bare [OF ok(2-4) c] obtain m where m: "StoreInstruction d op rs1 rs2 imm =
      Inr (d\<lparr>cpu_mmu := bare_mmu d, cpu_memory := m, cpu_peripheral := CheckDeviceWrite (cpu_peripheral d) ?a n (cpu_reg d rs2)\<rparr>)"
      "mem_wf m" "mem_abs m = write_bytes (mem_abs (cpu_memory d)) (ucast ?a) (le_bytes (cpu_reg d rs2) n)" by blast
  let ?e = "d\<lparr>cpu_mmu := bare_mmu d, cpu_memory := m, cpu_peripheral := CheckDeviceWrite (cpu_peripheral d) ?a n (cpu_reg d rs2)\<rparr>"
  have x: "execute h d op rd rs1 rs2 imm csr = Inr ?e" using store_class [OF assms(2)] m(1) by (simp add: execute_def)
  have free: "\<not> touches_timer (ucast ?a) n" "t = (fetched_view d)\<lparr>isa_pc := cpu_pc d + 4, isa_mem := mem_view (mem_abs m)\<rparr>"
    using assms(3) mem_view_write [of "ucast ?a" "le_bytes (cpu_reg d rs2) n"]
    by (auto simp: isa_store_def fetched_view_def m(3) split: if_splits)
  have "idle ?e" using idle_memory [of "d\<lparr>cpu_mmu := bare_mmu d\<rparr>" m] ok(1) m(2) by simp
  moreover have "(cpu_reg d)(0 := 0) = cpu_reg d" using assms(1) by (auto simp: fresh_def)
  ultimately have "executed False d t ?e"
    using assms(1) unfolding free(2) by (simp add: executed_def fresh_def) (simp add: view_defs set_reg_def running_def)
  with x show ?thesis by blast
qed

lemma amo_class:
  assumes "map_of amo_words op = Some b \<or> op \<in> snd ` set amo_words"
  shows "execute h d op rd rs1 rs2 imm csr = AmoInstruction d op rd rs1 rs2"
  using assms unfolding amo_words_def by (auto simp: execute_def exec_classes is_mult_def is_amo_def split: if_splits)

lemma executed_amo:
  assumes "fresh d" "isa_amo op rd (cpu_reg d rs1) (cpu_reg d rs2) ((fetched_view d)\<lparr>isa_pc := cpu_pc d + 4\<rparr>) = Some t"
  shows "\<exists>d'. execute h d op rd rs1 rs2 imm csr = Inr d' \<and> executed False d t d'"
proof -
  let ?a = "ucast (cpu_reg d rs1) :: u32" and ?s = "(fetched_view d)\<lparr>isa_pc := cpu_pc d + 4\<rparr>"
  have ok: "idle d" "bare d" "mem_wf (cpu_memory d)" using assms(1) idle_bare by (auto simp: fresh_def)
  have free: "\<not> touches_timer ?a 8" using assms(2) by (auto simp: isa_amo_def split: if_splits)
  then have free4: "\<not> touches_timer ?a 4" by (simp add: touches_timer_def list_ex_iff)
  have fin: "executed False d t (set_reg rd v (d\<lparr>cpu_mmu := bare_mmu d, cpu_memory := m\<rparr>))"
    if "mem_wf m" "t = isa_set rd v (?s\<lparr>isa_mem := mem_view (mem_abs m)\<rparr>)" for v m
    using assms(1) idle_memory [of "d\<lparr>cpu_mmu := bare_mmu d\<rparr>" m] ok(1) that(1) unfolding that(2)
    by (simp add: executed_def fresh_def) (simp add: view_defs isa_set_def set_reg_def running_def)
  show ?thesis
  proof (cases "map_of amo_words op")
    case (Some b)
    then have "(op, b) \<in> set amo_words" by (rule map_of_SomeD)
    from AmoInstruction_W [OF ok(2,3) this, of rd rs1 rs2] obtain m r where m: "r = (ucast (le_word (read_bytes (mem_abs (cpu_memory d)) ?a 4)) :: u32)"
        "AmoInstruction d op rd rs1 rs2 = Inr (set_reg rd (scast r) (d\<lparr>cpu_mmu := bare_mmu d, cpu_memory := m\<rparr>))" "mem_wf m"
        "mem_abs m = write_bytes (mem_abs (cpu_memory d)) ?a (le_bytes (ucast (amo_spec b r (ucast (cpu_reg d rs2)))) 4)" by blast
    have "t = isa_set rd (scast r) (?s\<lparr>isa_mem := mem_view (mem_abs m)\<rparr>)"
      using assms(2) Some free read_bytes_view [OF free4] mem_view_write [of ?a "le_bytes (ucast (amo_spec b r (ucast (cpu_reg d rs2)))) 4"] free4
      unfolding m(4) by (simp add: isa_amo_def Let_def fetched_view_def m(1))
    from fin [OF m(3) this] m(2) Some show ?thesis by (simp add: amo_class [of op b])
  next
    case None
    then obtain w where w: "(w, op) \<in> set amo_words" using assms(2) free by (auto simp: isa_amo_def split: if_splits)
    from AmoInstruction_D [OF ok(2,3) w, of rd rs1 rs2] obtain m r where m: "r = le_word (read_bytes (mem_abs (cpu_memory d)) ?a 8)"
        "AmoInstruction d op rd rs1 rs2 = Inr (set_reg rd r (d\<lparr>cpu_mmu := bare_mmu d, cpu_memory := m\<rparr>))" "mem_wf m"
        "mem_abs m = write_bytes (mem_abs (cpu_memory d)) ?a (le_bytes (amo_spec op r (cpu_reg d rs2)) 8)" by blast
    have o: "op \<in> snd ` set amo_words" using w by force
    have "t = isa_set rd r (?s\<lparr>isa_mem := mem_view (mem_abs m)\<rparr>)"
      using assms(2) None free o read_bytes_view [OF free] mem_view_write [of ?a "le_bytes (amo_spec op r (cpu_reg d rs2)) 8"]
      unfolding m(4) by (simp add: isa_amo_def Let_def fetched_view_def m(1))
    from fin [OF m(3) this] m(2) o show ?thesis by (simp add: amo_class)
  qed
qed

section \<open>One instruction\<close>

lemma executed_fence:
  assumes "fresh d" "op = INST_FENCE \<or> op = INST_FENCEI"
  shows "execute h d op rd rs1 rs2 imm csr = Inr d \<and> executed False d ((fetched_view d)\<lparr>isa_pc := cpu_pc d + 4\<rparr>) d"
proof -
  have "(cpu_reg d)(0 := 0) = cpu_reg d" using assms(1) by (auto simp: fresh_def)
  then have "executed False d ((fetched_view d)\<lparr>isa_pc := cpu_pc d + 4\<rparr>) d"
    using assms(1) by (simp add: executed_def fresh_def) (simp add: view_defs set_reg_def running_def)
  moreover have "execute h d op rd rs1 rs2 imm csr = Inr d" using assms(2) by (elim disjE; hypsubst) (simp_all add: execute_def exec_classes)
  ultimately show ?thesis by blast
qed

definition op_returns :: "code \<Rightarrow> u32 \<Rightarrow> u32 \<Rightarrow> u32 \<Rightarrow> isa \<Rightarrow> bool" where
  "op_returns op rd rs1 imm s \<longleftrightarrow> op = INST_JALR \<and> rd = 0 \<and> rs1 = 1 \<and> imm = 0 \<and> isa_reg s 1 = 0"

lemma jalr_classes:
  "isa_value INST_JALR pc x y imm = None" "isa_taken INST_JALR x y = None" "map_of isa_loads INST_JALR = None" "map_of isa_stores INST_JALR = None"
  by (simp_all add: isa_value_def base_ops_def mult_ops_def word_ops_def mult_word_ops_def imm_ops_def shift_imm_ops_def shift_imm_word_ops_def
      isa_taken_def isa_loads_def isa_stores_def)

lemma not_jalr:
  "isa_value op pc x y imm = Some v \<Longrightarrow> op \<noteq> INST_JALR" "isa_taken op x y = Some b \<Longrightarrow> op \<noteq> INST_JALR"
  "map_of isa_loads op = Some n \<Longrightarrow> op \<noteq> INST_JALR" "map_of isa_stores op = Some n \<Longrightarrow> op \<noteq> INST_JALR"
  using jalr_classes by auto

lemma execute_sim:
  assumes "fresh d" "isa_exec op rd rs1 rs2 imm (fetched_view d) = Some t"
  shows "\<exists>d'. execute h d op rd rs1 rs2 imm csr = Inr d' \<and> executed (op_returns op rd rs1 imm (fetched_view d)) d t d'"
proof -
  let ?s = "fetched_view d" and ?v = "isa_value op (cpu_pc d) (cpu_reg d rs1) (cpu_reg d rs2) imm" and ?b = "isa_taken op (cpu_reg d rs1) (cpu_reg d rs2)"
  have f: "isa_pc ?s = cpu_pc d" "isa_reg ?s = cpu_reg d" "cpu_xlen d = 64" using assms(1) by (simp_all add: fetched_view_def fresh_def)
  note ex = assms(2) [unfolded isa_exec_def Let_def f(1,2)]
  consider (val) v where "?v = Some v" | (branch) b where "?v = None" "?b = Some b"
    | (load) n where "?v = None" "?b = None" "map_of isa_loads op = Some n"
    | (store) n where "?v = None" "?b = None" "map_of isa_loads op = None" "map_of isa_stores op = Some n"
    | (other) "?v = None" "?b = None" "map_of isa_loads op = None" "map_of isa_stores op = None"
    by (meson not_None_eq)
  then show ?thesis
  proof cases
    case val
    with ex have "t = isa_set rd v (?s\<lparr>isa_pc := cpu_pc d + 4\<rparr>)" by simp
    with executed_value [OF assms(1), of rd v] execute_value [OF f(3) val] not_jalr(1) [OF val] f(1) show ?thesis
      by (auto simp: op_returns_def)
  next
    case branch
    with executed_branch [OF assms(1) branch(2)] not_jalr(2) [OF branch(2)] ex show ?thesis by (auto simp: op_returns_def)
  next
    case load
    with executed_load [OF assms(1) load(3)] not_jalr(3) [OF load(3)] ex show ?thesis by (auto simp: op_returns_def)
  next
    case store
    with executed_store [OF assms(1) store(4)] not_jalr(4) [OF store(4)] ex show ?thesis by (auto simp: op_returns_def)
  next
    case other
    note ex' = ex [unfolded other option.case]
    consider "op = INST_JAL" | "op = INST_JALR" | "op = INST_FENCE \<or> op = INST_FENCEI"
      | "op \<notin> {INST_JAL, INST_JALR, INST_FENCE, INST_FENCEI}" by blast
    then show ?thesis
      by cases (use ex' f(2) executed_jal [OF assms(1)] executed_jalr [OF assms(1), of h rd rs1] executed_fence [OF assms(1), of op]
          executed_amo [OF assms(1)] in \<open>auto simp: op_returns_def\<close>)
  qed
qed

section \<open>One iteration\<close>

lemma isa_decodeE:
  assumes "isa_decode w = Some op"
  obtains msk mtch where "(op, msk, mtch) \<in> set isa_encodings" "w AND msk = mtch"
  using assms by (auto simp: isa_decode_def find_Some_iff) (metis nth_mem)

lemma isa_decode_code: "isa_decode w = Some op \<Longrightarrow> GetCode32 w = op"
  by (erule isa_decodeE) (rule isa_encodings_ok)

lemma isa_encodings_32bit: "list_all (\<lambda>(c, msk, mtch). msk AND 3 = 3 \<and> mtch AND 3 = 3) isa_encodings"
  by (simp add: isa_encodings_def isa_R_def isa_I_def isa_SH_def isa_AMO_def isa_U_def)

lemma isa_decode_32bit:
  assumes "isa_decode w = Some op"
  shows "w AND 3 = 3"
proof -
  from assms obtain msk mtch where m: "(op, msk, mtch) \<in> set isa_encodings" "w AND msk = mtch" by (rule isa_decodeE)
  have k: "msk AND 3 = 3" "mtch AND 3 = 3" using isa_encodings_32bit m(1) by (auto simp: list_all_iff)
  have "mtch AND 3 = w AND (msk AND 3)" using m(2) by (simp only: and.assoc flip: m(2))
  with k show ?thesis by simp
qed

lemma isa_word_holds:
  assumes "isa_pc (hart_view c) AND 3 = 0" "\<not> touches_timer (ucast (isa_pc (hart_view c))) 4"
  shows "holds_word c (cpu_next_pc c) (isa_word (hart_view c))"
proof -
  let ?bs = "read_bytes (mem_abs (cpu_memory c)) (ucast (cpu_next_pc c)) 4"
  have "isa_word (hart_view c) = ucast (le_word ?bs)"
    using assms(2) by (simp add: isa_word_def hart_view_def read_bytes_view)
  moreover have "le_bytes (le_word ?bs) 4 = ?bs" using le_bytes_le_word [of ?bs] by simp
  ultimately show ?thesis
    using assms(1) by (simp add: holds_word_def hart_view_def ucast_ucast_32 le_bytes_take_bit)
qed

lemma finish_step_idle:
  assumes "idle d"
  shows "finish_step h d = Inr (set_reg 0 0 (if cpu_pc d = cpu_next_pc d then d\<lparr>cpu_error_flag := True\<rparr> else d))"
  using assms by (simp add: finish_step_def idle_def Let_def) (simp add: set_reg_def)

definition quiet64 :: "'w cpu \<Rightarrow> bool" where
  "quiet64 c \<longleftrightarrow> quiet c \<and> cpu_xlen c = 64"

lemma step_sim:
  assumes "quiet64 c" "running c" "isa_step (hart_view c) = Some t"
  shows "\<exists>c'. step h c = Inr c' \<and> quiet64 c' \<and> hart_view c' = t \<and>
    cpu_error_flag c' = (isa_pc t = isa_pc (hart_view c)) \<and> cpu_end_flag c' = isa_returns (hart_view c)"
proof -
  let ?s = "hart_view c"
  define w where "w = isa_word ?s"
  obtain op where op: "isa_pc ?s AND 3 = 0" "\<not> touches_timer (ucast (isa_pc ?s)) 4" "isa_decode w = Some op"
      "isa_exec op (GetRd w) (GetRs1 w) (GetRs2 w) (GetImm w) ?s = Some t"
    using assms(3) by (auto simp: isa_step_def w_def Let_def split: if_splits option.splits)
  have q: "quiet c" "cpu_xlen c = 64" using assms(1) by (simp_all add: quiet64_def)
  from step_executes [OF q(1) isa_word_holds [OF op(1,2)], folded w_def, OF isa_decode_32bit [OF op(3)], of h]
  obtain d where d: "step h c = rbind (execute h d (GetCode32 w) (GetRd w) (GetRs1 w) (GetRs2 w) (GetImm w) (GetCsr w)) (finish_step h)"
      "cpu_pc d = cpu_next_pc c" "cpu_next_pc d = cpu_next_pc c + 4" "cpu_reg d = cpu_reg c" "cpu_memory d = cpu_memory c"
      "cpu_error_flag d = cpu_error_flag c" "cpu_end_flag d = cpu_end_flag c" "same_cfg c d" "quiet d" by blast
  have f: "fresh d" "fetched_view d = ?s"
    using d assms(2) q(2) by (simp_all add: fresh_def quiet_idle running_def same_cfg_def view_defs)
  obtain d' where d': "execute h d op (GetRd w) (GetRs1 w) (GetRs2 w) (GetImm w) (GetCsr w) = Inr d'"
      "executed (op_returns op (GetRd w) (GetRs1 w) (GetImm w) ?s) d t d'"
    using execute_sim [OF f(1), unfolded f(2), OF op(4)] by blast
  let ?c = "set_reg 0 0 (if cpu_pc d' = cpu_next_pc d' then d'\<lparr>cpu_error_flag := True\<rparr> else d')"
  have "idle d'" using d'(2) by (simp add: executed_def)
  then have s: "step h c = Inr ?c" using d(1) d'(1) isa_decode_code [OF op(3)] by (simp add: finish_step_idle)
  have r: "isa_returns ?s = op_returns op (GetRd w) (GetRs1 w) (GetImm w) ?s"
    using op(3) by (auto simp: isa_returns_def op_returns_def Let_def simp flip: w_def)
  have e: "isa_pc t = cpu_next_pc d'" "isa_pc ?s = cpu_pc d'" "cpu_error_flag d' \<longrightarrow> cpu_next_pc d' = cpu_pc d'"
      "hart_view (set_reg 0 0 d') = t" "cpu_end_flag d' = isa_returns ?s" "cpu_xlen d' = 64"
    using d'(2) d(2) f(1) unfolding r by (auto simp: executed_def hart_view_def set_reg_def fresh_def)
  have "hart_view ?c = t" using e(4) by (auto simp: hart_view_def set_reg_def)
  moreover have "quiet64 ?c" using \<open>idle d'\<close> e(6) by (simp add: quiet64_def quiet_idle) (simp add: set_reg_def)
  moreover have "cpu_error_flag ?c = (isa_pc t = isa_pc ?s)" "cpu_end_flag ?c = isa_returns ?s"
    using e(1,2,3,5) by (auto simp: set_reg_def)
  ultimately show ?thesis using s by blast
qed

interpretation rv64: simulation "step h" running quiet64 hart_view isa_next cpu_error_flag for h
proof
  fix s :: "'a cpu" and a out
  assume "quiet64 s" "running s" "isa_next (hart_view s) = Some (a, out)"
  then obtain t where "step h s = Inr t" "quiet64 t" "hart_view t = a" "cpu_error_flag t = (isa_pc a = isa_pc (hart_view s))"
      "cpu_end_flag t = isa_returns (hart_view s)"
      "out = (if isa_pc a = isa_pc (hart_view s) then Some True else if isa_returns (hart_view s) then Some False else None)"
    using step_sim [of s _ h] by (auto simp: isa_next_def)
  then show "\<exists>t. step h s = Inr t \<and> quiet64 t \<and> hart_view t = a \<and>
      (case out of None \<Rightarrow> running t | Some r \<Rightarrow> \<not> running t \<and> cpu_error_flag t = r)"
    by (auto simp: running_def)
qed

lemma program_run:
  assumes "quiet64 c" "spec_run isa_next n ((hart_view c)\<lparr>isa_pc := pc\<rparr>) = Some (t, err)"
  shows "\<exists>c'. RunCpu h c pc = Some (Inr (err, c')) \<and> hart_view c' = t \<and> quiet64 c'"
proof -
  let ?c = "start_cpu c pc"
  have "hart_view ?c = (hart_view c)\<lparr>isa_pc := pc\<rparr>" "running ?c" "quiet64 ?c"
    using assms(1) quiet_start [of c pc] loop_inv_start(2) [of c pc] by (simp_all add: quiet64_def) (simp_all add: hart_view_def start_cpu_def)
  with rv64.sim_run [of n ?c t err h] assms(2) obtain c' where c': "reach (step h) running ?c c'" "\<not> running c'" "quiet64 c'" "hart_view c' = t"
      "cpu_error_flag c' = err" by auto
  from reach_run [OF c'(1) \<open>running ?c\<close> c'(2)] c' show ?thesis unfolding RunCpu_Inr_iff by blast
qed

end
