(* ===== verification/Isa_Example.thy ===== *)
theory Isa_Example
  imports Isa_Sim
begin

text \<open>
  Programs in memory, and a concrete one run by the specification, for evaluating the theorems about runs.
\<close>

section \<open>Programs in memory\<close>

definition program_bytes :: "u32 list \<Rightarrow> u8 list" where
  "program_bytes ws = concat (map (\<lambda>w. le_bytes (ucast w) 4) ws)"

fun load_program :: "u64 \<Rightarrow> u32 list \<Rightarrow> memory \<Rightarrow> memory res" where
  "load_program a [] m = Inr m"
| "load_program a (w # ws) m = rbind (Write32 m a w) (load_program (a + 4) ws)"

lemma program_bytes_simps [simp]:
  "program_bytes [] = []" "program_bytes (w # ws) = le_bytes (ucast w) 4 @ program_bytes ws"
  by (simp_all add: program_bytes_def)

lemma length_program_bytes [simp]: "length (program_bytes ws) = 4 * length ws"
  by (induction ws) simp_all

lemma load_program_abs:
  assumes "mem_wf m" "a AND 3 = 0" "4 * length ws \<le> 2 ^ 32"
  shows "\<exists>m'. load_program a ws m = Inr m' \<and> mem_wf m' \<and> mem_abs m' = write_bytes (mem_abs m) (ucast a) (program_bytes ws)"
  using assms
proof (induction ws arbitrary: a m)
  case Nil
  then show ?case by simp
next
  case (Cons w ws)
  obtain m1 where m1: "Write32 m a w = Inr m1" "mem_wf m1" "mem_abs m1 = write_bytes (mem_abs m) (ucast a) (le_bytes (ucast w) 4)"
    by (rule Write32_abs [OF Cons(2,3), of w]) 
  have "(a + 4) AND 3 = 0" using aligned4_add [OF Cons(3)] by simp
  with Cons(1) [OF m1(2), of "a + 4"] Cons(4) obtain m2 where m2: "load_program (a + 4) ws m1 = Inr m2" "mem_wf m2"
    "mem_abs m2 = write_bytes (mem_abs m1) (ucast (a + 4)) (program_bytes ws)" by auto
  have "write_bytes (mem_abs m) (ucast a) (program_bytes (w # ws)) = mem_abs m2"
    using write_bytes_append [of "le_bytes (ucast w) 4" "program_bytes ws" "mem_abs m" "ucast a"] Cons(4)
      ucast_add_of_nat [of a 4] unfolding m2(3) m1(3) by simp
  with m1(1) m2 show ?case by simp
qed

lemma nth_program_bytes: "k < length ws \<Longrightarrow> j < 4 \<Longrightarrow> program_bytes ws ! (4 * k + j) = le_bytes (ucast (ws ! k)) 4 ! j"
  by (induction ws arbitrary: k) (auto simp: nth_append nth_Cons split: nat.splits)

lemma read_program:
  assumes "4 * length ws \<le> 2 ^ 32" "k < length ws"
  shows "read_bytes (write_bytes f a (program_bytes ws)) (a + of_nat (4 * k)) 4 = le_bytes (ucast (ws ! k)) 4"
proof (rule nth_equalityI)
  fix j
  assume "j < length (read_bytes (write_bytes f a (program_bytes ws)) (a + of_nat (4 * k)) 4)"
  then have j: "j < 4" by simp
  have e: "a + of_nat (4 * k) + of_nat j - a = (of_nat (4 * k + j) :: u32)" by simp
  have u: "unat (of_nat (4 * k + j) :: u32) = 4 * k + j" by (rule unat_of_nat_small) (use assms j in simp)
  show "read_bytes (write_bytes f a (program_bytes ws)) (a + of_nat (4 * k)) 4 ! j = le_bytes (ucast (ws ! k)) 4 ! j"
    using assms j nth_program_bytes [OF assms(2) j] unfolding nth_read_bytes [OF j] write_bytes_def e u by simp
qed simp

definition holds_program :: "u32 list \<Rightarrow> u32 \<Rightarrow> bytes \<Rightarrow> bool" where
  "holds_program ws a f \<longleftrightarrow> (\<forall>k \<in> set [0..<length ws]. read_bytes f (a + of_nat (4 * k)) 4 = le_bytes (ucast (ws ! k)) 4)"

lemma holds_written: "4 * length ws \<le> 2 ^ 32 \<Longrightarrow> holds_program ws a (write_bytes f a (program_bytes ws))"
  using read_program [of ws _ f a] by (simp add: holds_program_def)

lemma isa_word_program:
  assumes "holds_program ws a f" "isa_mem s = mem_view f" "ucast (isa_pc s) = a + of_nat (4 * k)" "k < length ws"
    "\<not> touches_timer (ucast (isa_pc s)) 4"
  shows "isa_word s = ws ! k"
proof -
  have "read_bytes f (ucast (isa_pc s)) 4 = le_bytes (ucast (ws ! k)) 4" using assms(1,3,4) by (simp add: holds_program_def)
  then show ?thesis
    using read_bytes_view [OF assms(5)] assms(2) by (simp add: isa_word_def le_word_le_bytes ucast_ucast_32 flip: ucast_ucast_32)
qed

section \<open>A concrete program\<close>

text \<open>\<open>addi a0, zero, 6; addi a1, zero, 7; mul a0, a0, a1; ret\<close>\<close>

definition demo_program :: "u32 list" where
  "demo_program = [0x00600513, 0x00700593, 0x02B50533, 0x00008067]"

definition demo_program_memory :: memory where
  "demo_program_memory = (case load_program 0x80000000 demo_program MemoryWrapper of Inr m \<Rightarrow> m | Inl _ \<Rightarrow> MemoryWrapper)"

lemma demo_program_memory_abs:
  "mem_wf demo_program_memory" "mem_abs demo_program_memory = write_bytes (mem_abs MemoryWrapper) 0x80000000 (program_bytes demo_program)"
proof -
  have "4 * length demo_program \<le> 2 ^ 32" by (simp add: demo_program_def)
  then obtain m where "load_program 0x80000000 demo_program MemoryWrapper = Inr m" "mem_wf m"
      "mem_abs m = write_bytes (mem_abs MemoryWrapper) 0x80000000 (program_bytes demo_program)"
    using load_program_abs [OF mem_wf_MemoryWrapper, of "0x80000000" demo_program] by auto
  then show "mem_wf demo_program_memory"
      "mem_abs demo_program_memory = write_bytes (mem_abs MemoryWrapper) 0x80000000 (program_bytes demo_program)"
    by (simp_all add: demo_program_memory_def)
qed

definition demo_program_state :: "bytes \<Rightarrow> u64 \<Rightarrow> (u32 \<Rightarrow> u64) \<Rightarrow> isa" where
  "demo_program_state f pc r = \<lparr>isa_pc = pc, isa_reg = r, isa_mem = mem_view f\<rparr>"

abbreviation demo_loaded :: "bytes \<Rightarrow> bool" where
  "demo_loaded \<equiv> holds_program demo_program 0x80000000"

lemma demo_program_word:
  assumes "demo_loaded f" "(ucast pc :: u32) = 0x80000000 + of_nat (4 * k)" "k < 4" "\<not> touches_timer (ucast pc) 4"
  shows "isa_word (demo_program_state f pc r) = demo_program ! k"
  using isa_word_program [of demo_program "0x80000000" f "demo_program_state f pc r" k] assms
  by (simp add: demo_program_state_def) (simp add: demo_program_def)

lemma demo_program_words:
  assumes "demo_loaded f"
  shows "isa_word (demo_program_state f 0x80000000 r) = 0x00600513" "isa_word (demo_program_state f 0x80000004 r) = 0x00700593"
  "isa_word (demo_program_state f 0x80000008 r) = 0x02B50533" "isa_word (demo_program_state f 0x8000000C r) = 0x00008067"
  using demo_program_word [OF assms, of "0x80000000" 0 r] demo_program_word [OF assms, of "0x80000004" 1 r] demo_program_word [OF assms, of "0x80000008" 2 r]
    demo_program_word [OF assms, of "0x8000000C" 3 r]
  by (simp_all add: demo_program_def touches_timer_def in_timer_def upt_rec)

lemma demo_decode:
  "isa_decode 0x00600513 = Some INST_ADDI" "isa_decode 0x00700593 = Some INST_ADDI" "isa_decode 0x02B50533 = Some INST_MUL"
  "isa_decode 0x00008067 = Some INST_JALR"
  by (simp_all add: isa_decode_def isa_encodings_def isa_R_def isa_I_def)

lemma demo_program_state_simps [simp]:
  "isa_pc (demo_program_state f pc r) = pc" "isa_reg (demo_program_state f pc r) = r"
  "(demo_program_state f pc r)\<lparr>isa_pc := pc'\<rparr> = demo_program_state f pc' r"
  "isa_set rd v (demo_program_state f pc r) = demo_program_state f pc (r(rd := v, 0 := 0))"
  by (simp_all add: demo_program_state_def isa_set_def)

lemma demo_values:
  "isa_value INST_ADDI pc x y imm = Some (x + scast imm)" "isa_value INST_MUL pc x y imm = Some (x * y)"
  by (simp_all add: isa_value_def base_ops_def mult_ops_def word_ops_def mult_word_ops_def imm_ops_def alu_spec_def mult_spec_def)

lemma demo_fields:
  "GetRd 0x00600513 = 10" "GetRs1 0x00600513 = 0" "GetImm 0x00600513 = 6" "GetRd 0x00700593 = 11" "GetRs1 0x00700593 = 0"
  "GetImm 0x00700593 = 7" "GetRd 0x02B50533 = 10" "GetRs1 0x02B50533 = 10" "GetRs2 0x02B50533 = 11"
  by (simp_all add: GetRd_def GetRs1_def GetRs2_def GetImm_def GetImm12_def SignExtend_eq bitcrop_numeral Let_def)

lemma demo_steps:
  assumes "demo_loaded f"
  shows "isa_next (demo_program_state f 0x80000000 r) = Some (demo_program_state f 0x80000004 (r(10 := r 0 + 6, 0 := 0)), None)"
    "isa_next (demo_program_state f 0x80000004 r) = Some (demo_program_state f 0x80000008 (r(11 := r 0 + 7, 0 := 0)), None)"
    "isa_next (demo_program_state f 0x80000008 r) = Some (demo_program_state f 0x8000000C (r(10 := r 10 * r 11, 0 := 0)), None)"
    "r 1 = 0 \<Longrightarrow> isa_next (demo_program_state f 0x8000000C r) = Some (demo_program_state f 0 (r(0 := 0)), Some False)"
  by (simp_all add: isa_next_def isa_step_def demo_program_words [OF assms] demo_decode isa_exec_def isa_returns_def demo_fields ret_fields
      demo_values jalr_classes touches_timer_def in_timer_def upt_rec)

lemma demo_run:
  assumes "demo_loaded f" "r 0 = 0" "r 1 = 0"
  shows "\<exists>r'. spec_run isa_next (Suc (Suc (Suc (Suc 0)))) (demo_program_state f 0x80000000 r) = Some (demo_program_state f 0 r', False) \<and> r' A0 = 42"
  by (rule exI [of _ "r(11 := 7, 10 := 42, 0 := 0)"]) (use assms in \<open>simp add: demo_steps [OF assms(1)] fun_upd_twist\<close>)

lemma demo_program_memory_loaded: "demo_loaded (mem_abs demo_program_memory)"
  unfolding demo_program_memory_abs(2) by (rule holds_written) (simp add: demo_program_def)

definition demo_program_hart :: "unit cpu" where
  "demo_program_hart = SetMemory (blank_hart True) demo_program_memory"

lemma demo_program_hart_quiet: "quiet64 demo_program_hart"
proof -
  have "loop_inv demo_program_hart"
    unfolding demo_program_hart_def blank_hart_def by (intro loop_inv_construct demo_program_memory_abs)
  moreover have "bare demo_program_hart" "\<not> cpu_page_fault demo_program_hart"
    using bare_blank_hart(1,2) [of True] by (simp_all add: demo_program_hart_def SetMemory_def)
  moreover have "cpu_mie demo_program_hart = 0" "\<not> cpu_ecall_emulation demo_program_hart" "\<not> cpu_host_emulation demo_program_hart"
    "\<not> cpu_peripheral_emulation demo_program_hart" "cpu_xlen demo_program_hart = 64"
    by (simp_all add: demo_program_hart_def SetMemory_def blank_hart_def blank_cpu_def RiscvCpu_defs Let_def)
  ultimately show ?thesis by (simp add: quiet64_def quiet_def)
qed

lemma demo_program_hart_view: "(hart_view demo_program_hart)\<lparr>isa_pc := pc\<rparr> = demo_program_state (mem_abs demo_program_memory) pc (\<lambda>_. 0)"
  by (simp add: hart_view_def demo_program_hart_def SetMemory_def demo_program_state_def) (simp add: fun_eq_iff)

end
