(* ===== verification/Front_Spec.thy ===== *)
theory Front_Spec
  imports Page_Tables Elf_Spec Isa_Example
begin

text \<open>
  The main program as a whole: the command line read back from its options, the state in which the emulator starts, and
  the exit status of a complete run, from the file to the result of the program in the instruction set specification.
\<close>

section \<open>Command lines\<close>

datatype switch = Verbose | Address64 | Paging | Ecall | Host_Emulation | Device | No_Delegation | Disk string

fun switch_args :: "switch \<Rightarrow> string list" where
  "switch_args Verbose = [''-v'']"
| "switch_args Address64 = [''-64'']"
| "switch_args Paging = [''-p'']"
| "switch_args Ecall = [''-e'']"
| "switch_args Host_Emulation = [''-h'']"
| "switch_args Device = [''-d'']"
| "switch_args No_Delegation = [''-m'']"
| "switch_args (Disk name) = [''-s'', name]"

fun set_switch :: "switch \<Rightarrow> options \<Rightarrow> options" where
  "set_switch Verbose opts = opts\<lparr>opt_verbose := True\<rparr>"
| "set_switch Address64 opts = opts\<lparr>opt_address64bit := True\<rparr>"
| "set_switch Paging opts = opts\<lparr>opt_paging := True\<rparr>"
| "set_switch Ecall opts = opts\<lparr>opt_ecall_emulation := True\<rparr>"
| "set_switch Host_Emulation opts = opts\<lparr>opt_host_emulation := True\<rparr>"
| "set_switch Device opts = opts\<lparr>opt_device_enable := True\<rparr>"
| "set_switch No_Delegation opts = opts\<lparr>opt_disable_machine_interrupt_delegation := True\<rparr>"
| "set_switch (Disk name) opts = opts\<lparr>opt_diskimage_file := name\<rparr>"

definition args :: "switch list \<Rightarrow> string list" where
  "args xs = concat (map switch_args xs)"

definition file_name :: "string \<Rightarrow> bool" where
  "file_name s \<longleftrightarrow> s \<noteq> [] \<and> hd s \<noteq> CHR ''-''"

lemma set_switch_sel [simp]: "opt_error (set_switch x opts) = opt_error opts" "opt_filename (set_switch x opts) = opt_filename opts"
  by (cases x; simp)+

lemma set_switches_sel [simp]:
  "opt_error (fold set_switch xs opts) = opt_error opts" "opt_filename (fold set_switch xs opts) = opt_filename opts"
  by (induction xs arbitrary: opts) simp_all

lemma parse_switch: "\<not> opt_error opts \<Longrightarrow> parse_args (switch_args x @ as) opts = parse_args as (set_switch x opts)"
  by (cases x) (simp_all add: arg_char_def)

lemma parse_switches: "\<not> opt_error opts \<Longrightarrow> parse_args (args xs @ as) opts = parse_args as (fold set_switch xs opts)"
proof (induction xs arbitrary: opts)
  case (Cons x xs)
  then show ?case using parse_switch [of opts x "args xs @ as"] by (simp add: args_def)
qed (simp add: args_def)

lemma parse_file: "file_name f \<Longrightarrow> \<not> opt_error opts \<Longrightarrow>
    parse_args (f # as) opts = (if opt_filename opts = [] then parse_args as (opts\<lparr>opt_filename := f\<rparr>) else opts\<lparr>opt_error := True\<rparr>)"
proof -
  assume "file_name f" "\<not> opt_error opts"
  moreover from this(1) have "arg_char f 0 \<noteq> CHR ''-''" by (cases f) (simp_all add: file_name_def arg_char_def)
  ultimately show ?thesis by simp
qed

lemma set_switch_file: "fold set_switch xs (opts\<lparr>opt_filename := f\<rparr>) = (fold set_switch xs opts)\<lparr>opt_filename := f\<rparr>"
proof (induction xs arbitrary: opts)
  case (Cons x xs)
  have "set_switch x (opts\<lparr>opt_filename := f\<rparr>) = (set_switch x opts)\<lparr>opt_filename := f\<rparr>" by (cases x) simp_all
  with Cons show ?case by simp
qed simp

lemma no_options_sel [simp]: "\<not> opt_error no_options" "opt_filename no_options = []"
  by (simp_all add: no_options_def)

lemma ParseCmd_switches:
  assumes "file_name f"
  shows "ParseCmd (prog # args xs @ f # args ys) = (fold set_switch (xs @ ys) no_options)\<lparr>opt_filename := f\<rparr>"
proof -
  have "ParseCmd (prog # args xs @ f # args ys) = parse_args (args ys) ((fold set_switch xs no_options)\<lparr>opt_filename := f\<rparr>)"
    by (simp add: ParseCmd_def parse_switches parse_file [OF assms] del: parse_args.simps)
  also have "\<dots> = fold set_switch ys ((fold set_switch xs no_options)\<lparr>opt_filename := f\<rparr>)"
    using parse_switches [of "(fold set_switch xs no_options)\<lparr>opt_filename := f\<rparr>" ys "[]"] by simp
  finally show ?thesis by (simp add: set_switch_file)
qed

text \<open>
  The command lines that the program accepts, as a grammar: options without argument, the option \<open>-s\<close> with an argument, and file names, of which at most one
  is not empty and only the last one.  Of an option only the first letter counts (the first two digits for \<open>-64\<close>).  The flag tells whether a file name has been given.
\<close>

definition is_flag :: "string \<Rightarrow> bool" where
  "is_flag s \<longleftrightarrow> take 2 s \<in> {''-v'', ''-p'', ''-e'', ''-h'', ''-d'', ''-m''} \<or> take 3 s = ''-64''"

inductive command_line :: "bool \<Rightarrow> string list \<Rightarrow> bool" where
  cl_end: "command_line named []"
| cl_flag: "is_flag s \<Longrightarrow> command_line named as \<Longrightarrow> command_line named (s # as)"
| cl_image: "take 2 s = ''-s'' \<Longrightarrow> command_line named as \<Longrightarrow> command_line named (s # t # as)"
| cl_name: "take 1 f \<noteq> ''-'' \<Longrightarrow> command_line (f \<noteq> []) as \<Longrightarrow> command_line False (f # as)"

inductive_simps command_line_simps [simp]:
  "command_line named []"
  "command_line named (s # as)"

lemma arg_char_take:
  "arg_char s 0 = CHR ''-'' \<longleftrightarrow> take 1 s = ''-''"
  "k \<noteq> CHR 0x00 \<Longrightarrow> arg_char s 0 = CHR ''-'' \<and> arg_char s 1 = k \<longleftrightarrow> take 2 s = [CHR ''-'', k]"
  "arg_char s 0 = CHR ''-'' \<and> arg_char s 1 = CHR ''6'' \<and> arg_char s 2 = CHR ''4'' \<longleftrightarrow> take 3 s = ''-64''"
proof -
  show "arg_char s 0 = CHR ''-'' \<longleftrightarrow> take 1 s = ''-''" by (cases s) (simp_all add: arg_char_def)
  show "arg_char s 0 = CHR ''-'' \<and> arg_char s 1 = k \<longleftrightarrow> take 2 s = [CHR ''-'', k]" if "k \<noteq> CHR 0x00"
    using that by (cases s; cases "tl s") (auto simp: arg_char_def numeral_2_eq_2)
  show "arg_char s 0 = CHR ''-'' \<and> arg_char s 1 = CHR ''6'' \<and> arg_char s 2 = CHR ''4'' \<longleftrightarrow> take 3 s = ''-64''"
    by (cases s; cases "tl s"; cases "tl (tl s)") (auto simp: arg_char_def numeral_3_eq_3 numeral_2_eq_2)
qed

text \<open>The shape of the first argument decides what the parser does with it.\<close>

lemma is_flag_chars:
  "is_flag s \<longleftrightarrow> arg_char s 0 = CHR ''-'' \<and>
     (arg_char s 1 \<in> set ''vpehdm'' \<or> arg_char s 1 = CHR ''6'' \<and> arg_char s 2 = CHR ''4'')"
  using arg_char_take(2) [of _ s] arg_char_take(3) [of s] unfolding is_flag_def by auto

lemma is_image_chars: "take 2 s = ''-s'' \<longleftrightarrow> arg_char s 0 = CHR ''-'' \<and> arg_char s 1 = CHR ''s''"
  using arg_char_take(2) [of "CHR ''s''" s] by simp

lemma parse_flag:
  assumes "is_flag a" "\<not> opt_error opts"
  shows "\<exists>opts'. parse_args (a # as) opts = parse_args as opts' \<and> \<not> opt_error opts' \<and> opt_filename opts' = opt_filename opts"
  using assms unfolding is_flag_chars by auto

lemma parse_other:
  assumes "arg_char a 0 = CHR ''-''" "\<not> is_flag a" "take 2 a \<noteq> ''-s''" "\<not> opt_error opts"
  shows "parse_args (a # as) opts = opts\<lparr>opt_error := True\<rparr>"
  using assms unfolding is_flag_chars is_image_chars by auto

lemma parse_args_grammar:
  "\<not> opt_error opts \<Longrightarrow> opt_error (parse_args as opts) \<longleftrightarrow> \<not> command_line (opt_filename opts \<noteq> []) as"
proof (induction as arbitrary: opts rule: length_induct)
  case (1 as)
  show ?case
  proof (cases as)
    case Nil
    with 1(2) show ?thesis by simp
  next
    case (Cons a bs)
    have IH: "opt_error (parse_args cs o') \<longleftrightarrow> \<not> command_line (opt_filename o' \<noteq> []) cs" if "length cs < length as" "\<not> opt_error o'" for cs o'
      using 1(1) that by blast
    consider (flag) "is_flag a" "take 2 a \<noteq> ''-s''" "take 1 a = ''-''" | (image) "\<not> is_flag a" "take 2 a = ''-s''" "take 1 a = ''-''"
      | (name) "\<not> is_flag a" "take 2 a \<noteq> ''-s''" "take 1 a \<noteq> ''-''" | (other) "\<not> is_flag a" "take 2 a \<noteq> ''-s''" "take 1 a = ''-''"
      unfolding is_flag_chars is_image_chars arg_char_take(1) [symmetric] by force
    then show ?thesis
    proof cases
      case flag
      with parse_flag [of a opts bs] 1(2) obtain o' where "parse_args as opts = parse_args bs o'" "\<not> opt_error o'" "opt_filename o' = opt_filename opts"
        by (auto simp: Cons)
      with IH [of bs o'] flag show ?thesis by (simp add: Cons)
    next
      case image
      then have "arg_char a 0 = CHR ''-''" "arg_char a 1 = CHR ''s''" by (simp_all add: is_image_chars)
      with IH [of "tl bs" "opts\<lparr>opt_diskimage_file := hd bs\<rparr>"] image 1(2) show ?thesis by (cases bs) (simp_all add: Cons)
    next
      case name
      then have "arg_char a 0 \<noteq> CHR ''-''" by (simp add: arg_char_take(1))
      with IH [of bs "opts\<lparr>opt_filename := a\<rparr>"] name 1(2) show ?thesis by (simp add: Cons)
    next
      case other
      with parse_other [of a opts bs] 1(2) show ?thesis by (simp add: Cons arg_char_take(1))
    qed
  qed
qed

section \<open>The state in which the emulator starts\<close>

definition start_regs :: "(u32 \<Rightarrow> u64) \<Rightarrow> u64 \<Rightarrow> u32 \<Rightarrow> u64" where
  "start_regs raw gp r = (if r = GP then gp else if r = SP then 0x80000000 else if r < 32 then 0 else raw r)"

lemma res_ok_ex: "res_ok (\<lambda>_. False) P r \<Longrightarrow> \<exists>x. r = Inr x \<and> P x"
  by (cases r) simp_all

lemma Initialize_returns:
  assumes "mem_wf m"
  shows "\<exists>p' m'. Initialize p m key = Inr (p', m') \<and> mem_wf m'"
proof -
  have w: "\<exists>m'. Write32 m1 i v = Inr m' \<and> mem_wf m'" if "mem_wf m1" "i AND 3 = 0" for m1 i v
    using Write32_abs [OF that] by blast
  obtain m1 where m1: "WriteByte m (kUartBase + 5) (mem_abs m (ucast (kUartBase + 5)) OR push_bit 5 1) = Inr m1" "mem_wf m1"
    using WriteByte_abs [OF assms] by blast
  obtain m2 where m2: "Write32 m1 kVirtioBase 0x74726976 = Inr m2" "mem_wf m2" using w [OF m1(2), of kVirtioBase] by auto
  obtain m3 where m3: "Write32 m2 (kVirtioBase + 4) 1 = Inr m3" "mem_wf m3" using w [OF m2(2), of "kVirtioBase + 4"] by auto
  obtain m4 where m4: "Write32 m3 (kVirtioBase + 8) 2 = Inr m4" "mem_wf m4" using w [OF m3(2), of "kVirtioBase + 8"] by auto
  obtain m5 where m5: "Write32 m4 (kVirtioBase + 0xc) 0x554d4551 = Inr m5" "mem_wf m5" using w [OF m4(2), of "kVirtioBase + 0xc"] by auto
  obtain m6 where m6: "Write32 m5 (kVirtioBase + 0x34) 8 = Inr m6" "mem_wf m6" using w [OF m5(2), of "kVirtioBase + 0x34"] by auto
  show ?thesis
    using ReadByte_abs [OF assms, of "kUartBase + 5"] m1 m2 m3 m4 m5 m6 by (simp add: Initialize_def UartInit_def VirtioInit_def)
qed

text \<open>The CPU before the devices are initialised.\<close>

definition plain_cpu :: "options \<Rightarrow> 'w cpu \<Rightarrow> u32 \<Rightarrow> memory \<Rightarrow> u64 \<Rightarrow> 'w cpu" where
  "plain_cpu opts raw misa_shift memory gp =
     (let cpu = SetEcallEmulationEnable (RiscvCpu (opt_address64bit opts) raw misa_shift) (opt_ecall_emulation opts);
          cpu = set_reg GP gp (set_reg SP 0x80000000 cpu);
          cpu = set_csr SATP (default_satp (opt_paging opts) (opt_address64bit opts)) cpu;
          cpu = SetWorkMemory (SetMemory cpu memory) 0x80000000 0x40000000
      in DisableMachineInterruptDelegation (SetDeviceEmulationEnable (SetHostEmulationEnable cpu (opt_host_emulation opts)) (opt_device_enable opts))
           (opt_disable_machine_interrupt_delegation opts))"

lemma plain_cpu_sel [simp]:
  "cpu_memory (plain_cpu opts raw s m gp) = m" "cpu_reg (plain_cpu opts raw s m gp) = start_regs (cpu_reg raw) gp"
  "cpu_xlen (plain_cpu opts raw s m gp) = (if opt_address64bit opts then 64 else 32)"
  "cpu_mxl (plain_cpu opts raw s m gp) = (if opt_address64bit opts then 2 else 1)"
  "cpu_privilege (plain_cpu opts raw s m gp) = MACHINE_MODE" "cpu_mie (plain_cpu opts raw s m gp) = 0"
  "cpu_csrs (plain_cpu opts raw s m gp) SATP = default_satp (opt_paging opts) (opt_address64bit opts)"
  "cpu_ecall_emulation (plain_cpu opts raw s m gp) = opt_ecall_emulation opts"
  "cpu_host_emulation (plain_cpu opts raw s m gp) = opt_host_emulation opts"
  "cpu_peripheral_emulation (plain_cpu opts raw s m gp) = opt_device_enable opts"
  "\<not> cpu_page_fault (plain_cpu opts raw s m gp)"
  by (simp_all add: plain_cpu_def SetEcallEmulationEnable_def SetWorkMemory_def SetMemory_def DisableMachineInterruptDelegation_def
      SetDeviceEmulationEnable_def SetHostEmulationEnable_def set_reg_def RiscvCpu_defs Let_def
      start_regs_def fun_eq_iff)

lemma plain_cpu_inv:
  assumes "mem_wf m"
  shows "loop_inv (plain_cpu opts raw s m gp)" "bare (plain_cpu opts raw s m gp)"
proof -
  have c: "core_inv (set_csr SATP v (RiscvCpu b raw s))" for v b
    using RiscvCpu_inv [of b raw s] by (subst core_inv_set_csr) (simp_all add: mirrored_def)
  have "core_inv (plain_cpu opts raw s m gp)"
    using c [of "default_satp (opt_paging opts) (opt_address64bit opts)" "opt_address64bit opts"]
    by (simp add: plain_cpu_def SetEcallEmulationEnable_def SetWorkMemory_def SetMemory_def DisableMachineInterruptDelegation_def
      SetDeviceEmulationEnable_def SetHostEmulationEnable_def set_reg_def set_csr_def Let_def inv_defs)
  then show "loop_inv (plain_cpu opts raw s m gp)" using assms by (simp add: loop_inv_def hart_ok_def start_regs_def)
  show "bare (plain_cpu opts raw s m gp)"
    by (simp add: bare_def) (simp add: plain_cpu_def SetEcallEmulationEnable_def SetWorkMemory_def SetMemory_def DisableMachineInterruptDelegation_def
      SetDeviceEmulationEnable_def SetHostEmulationEnable_def set_reg_def RiscvCpu_defs Let_def bitcrop_numeral ustatus_mask_def sstatus_mask_def)
qed

lemma setup_cpu_state:
  assumes "mem_wf m"
  shows "\<exists>m' c. SetDefaultMmuTable (opt_address64bit opts) m = Inr m' \<and> mem_wf m' \<and> default_tables (opt_address64bit opts) (mem_abs m') \<and>
    setup_cpu opts raw s key m disk gp = Inr c \<and> loop_inv c \<and>
    (\<exists>p m2. c = (plain_cpu opts raw s m' gp)\<lparr>cpu_peripheral := p, cpu_memory := m2\<rparr> \<and> (\<not> opt_device_enable opts \<longrightarrow> m2 = m'))"
proof -
  obtain m' where m': "SetDefaultMmuTable (opt_address64bit opts) m = Inr m'" "mem_wf m'" "default_tables (opt_address64bit opts) (mem_abs m')"
    using SetDefaultMmuTable_tables [OF assms] by blast
  let ?c = "plain_cpu opts raw s m' gp"
  have i: "setup_cpu opts raw s key m disk gp = rbind (DeviceInitialization ?c key) (\<lambda>cpu. Inr (cpu_SetDiskImage cpu disk))"
    by (simp add: setup_cpu_def m'(1) SetRegister_def SetCsr_def plain_cpu_def Let_def)
  have L: "loop_inv (?c\<lparr>cpu_peripheral := p, cpu_memory := m2\<rparr>)" if "mem_wf m2" for p m2
    using plain_cpu_inv(1) [OF m'(2), of opts raw s gp] that by (simp add: loop_inv_def hart_ok_def)
  show ?thesis
  proof (cases "opt_device_enable opts")
    case False
    then have "setup_cpu opts raw s key m disk gp = Inr (?c\<lparr>cpu_peripheral := SetDiskImage (cpu_peripheral ?c) disk, cpu_memory := m'\<rparr>)"
      by (simp add: i DeviceInitialization_def cpu_SetDiskImage_def)
    with m' L [OF m'(2)] show ?thesis by blast
  next
    case True
    obtain p2 m2 where "Initialize (cpu_peripheral ?c) m' key = Inr (p2, m2)" "mem_wf m2" using Initialize_returns [OF m'(2)] by blast
    then have "setup_cpu opts raw s key m disk gp = Inr (?c\<lparr>cpu_peripheral := SetDiskImage p2 disk, cpu_memory := m2\<rparr>)"
      using True by (simp add: i DeviceInitialization_def cpu_SetDiskImage_def)
    with m' L [OF \<open>mem_wf m2\<close>] True show ?thesis by blast
  qed
qed

section \<open>A complete run\<close>

text \<open>The loader reads a global pointer of 32 bits, so the value \<open>-1\<close> that stands for a missing symbol is never seen.\<close>

lemma program_pointers_iff:
  "program_pointers flag_64bit program = Inr (e, g) \<longleftrightarrow>
     GetGlobalPointer flag_64bit program = Inr g \<and> (\<exists>x. GetEntryPoint flag_64bit program = Inr x \<and> e = ucast (ucast x :: u32))"
proof -
  have "g \<noteq> - 1" if "GetGlobalPointer flag_64bit program = Inr g" for g
  proof
    assume "g = - 1"
    then have "unat g = 2 ^ 64 - 1" by (simp add: unsigned_minus_1_eq_mask mask_eq_exp_minus_1)
    with GetGlobalPointer_u32 [OF that] show False by simp
  qed
  then show ?thesis by (auto simp: program_pointers_def rbind_eq_Inr_iff Let_def)
qed

lemma run_starts:
  assumes "\<not> opt_error (ParseCmd argv)" "ReadFile file (opt_filename (ParseCmd argv)) = Some program"
    "LoadElfFile program MemoryWrapper = Some (Inr (flag, m))" "mem_wf m"
    "program_pointers flag program = Inr (entry, gp)" "read_disk_image file (ParseCmd argv) = Some disk"
  shows "\<exists>c. setup_cpu (ParseCmd argv) raw s key m disk gp = Inr c \<and> loop_inv c \<and>
    run file h raw s key argv =
      map_option (\<lambda>r. rbind r (\<lambda>(err, c). Inr (sint (ucast (cpu_reg c A0) :: u32)))) (RunCpu h c entry)"
proof -
  obtain c where c: "setup_cpu (ParseCmd argv) raw s key m disk gp = Inr c" "loop_inv c"
    using setup_cpu_state [OF assms(4), of "ParseCmd argv" raw s key disk gp] by blast
  have "(\<lambda>r :: (bool \<times> 'a cpu) res. rbind r (\<lambda>(err, c). rbind (ReadRegister c A0) (\<lambda>v. Inr (sint (ucast v :: u32))))) =
      (\<lambda>r. rbind r (\<lambda>(err, c). Inr (sint (ucast (cpu_reg c A0) :: u32))))"
    by (simp add: ReadRegister_def)
  with c assms show ?thesis by (simp add: run_def run_loaded_def Let_def)
qed

text \<open>On a 64-bit hart without emulation, the exit status is the result of the program in the instruction set.\<close>

lemma run_program:
  assumes "\<not> opt_error (ParseCmd argv)" "ReadFile file (opt_filename (ParseCmd argv)) = Some program"
    "LoadElfFile program MemoryWrapper = Some (Inr (flag, m))" "mem_wf m" "SetDefaultMmuTable True m = Inr m'"
    "program_pointers flag program = Inr (entry, gp)" "read_disk_image file (ParseCmd argv) = Some disk"
    "opt_address64bit (ParseCmd argv)" "\<not> opt_ecall_emulation (ParseCmd argv)" "\<not> opt_host_emulation (ParseCmd argv)"
    "\<not> opt_device_enable (ParseCmd argv)"
    "spec_run isa_next n \<lparr>isa_pc = entry, isa_reg = start_regs (cpu_reg raw) gp, isa_mem = mem_view (mem_abs m')\<rparr> = Some (t, err)"
  shows "run file h raw s key argv = Some (Inr (sint (ucast (isa_reg t A0) :: u32)))"
proof -
  obtain c where c: "setup_cpu (ParseCmd argv) raw s key m disk gp = Inr c" "loop_inv c"
      "run file h raw s key argv = map_option (\<lambda>r. rbind r (\<lambda>(err, c). Inr (sint (ucast (cpu_reg c A0) :: u32)))) (RunCpu h c entry)"
    using run_starts [OF assms(1-4,6,7), of raw s key h] by blast
  let ?p = "plain_cpu (ParseCmd argv) raw s m' gp"
  obtain p where p: "c = ?p\<lparr>cpu_peripheral := p, cpu_memory := m'\<rparr>"
    using setup_cpu_state [OF assms(4), of "ParseCmd argv" raw s key disk gp] assms(5,8,11) c(1) by auto
  have "mem_wf m'" using c(2) by (simp add: p loop_inv_def hart_ok_def)
  then have "bare c" using plain_cpu_inv(2) [of m' "ParseCmd argv" raw s gp] by (simp add: p bare_def)
  with c(2) assms(8-11) have q: "quiet64 c" by (simp add: p quiet64_def quiet_def)
  have "(hart_view c)\<lparr>isa_pc := entry\<rparr> = \<lparr>isa_pc = entry, isa_reg = start_regs (cpu_reg raw) gp, isa_mem = mem_view (mem_abs m')\<rparr>"
    by (simp add: hart_view_def p)
  from program_run [OF q, of n entry t err h, unfolded this, OF assms(12)]
  obtain c' where c': "RunCpu h c entry = Some (Inr (err, c'))" "hart_view c' = t" by blast
  then have "cpu_reg c' = isa_reg t" by (auto simp: hart_view_def)
  with c(3) c'(1) show ?thesis by simp
qed

text \<open>The start in terms of the file: entry point, registers and the loaded image under the page tables.\<close>

definition start_memory :: "u8 list \<Rightarrow> bytes" where
  "start_memory program =
     (let k = file_class program in tables64 (clear_range (bss_range k program) (image k program (\<lambda>_. 0))))"

definition start_state :: "(u32 \<Rightarrow> u64) \<Rightarrow> u64 \<Rightarrow> u8 list \<Rightarrow> isa" where
  "start_state raw gp program =
     \<lparr>isa_pc = of_nat (fld program 24 (f_addr (elf_format (file_class program))) mod 2 ^ 32), isa_reg = start_regs raw gp,
      isa_mem = mem_view (start_memory program)\<rparr>"

lemma run_file:
  assumes "\<not> opt_error (ParseCmd argv)" "ReadFile file (opt_filename (ParseCmd argv)) = Some program"
    "elf_ok (file_class program) program" "GetGlobalPointer (file_class program = ELF64) program = Inr gp"
    "read_disk_image file (ParseCmd argv) = Some disk" "opt_address64bit (ParseCmd argv)" "\<not> opt_ecall_emulation (ParseCmd argv)"
    "\<not> opt_host_emulation (ParseCmd argv)" "\<not> opt_device_enable (ParseCmd argv)"
    "spec_run isa_next n (start_state (cpu_reg raw) gp program) = Some (t, err)"
  shows "run file h raw s key argv = Some (Inr (sint (ucast (isa_reg t A0) :: u32)))"
proof -
  let ?k = "file_class program"
  obtain m where m: "LoadElfFile program MemoryWrapper = Some (Inr (?k = ELF64, m))" "mem_wf m"
      "mem_abs m = clear_range (bss_range ?k program) (image ?k program (\<lambda>_. 0))"
    using LoadElfFile_abs [OF mem_wf_MemoryWrapper assms(3)] unfolding mem_abs_MemoryWrapper by blast
  obtain m' where m': "SetDefaultMmuTable True m = Inr m'" "mem_abs m' = start_memory program"
    using SetDefaultMmuTable64_abs [OF m(2)] m(3) by (auto simp: SetDefaultMmuTable_def start_memory_def Let_def)
  let ?x = "fld program 24 (f_addr (elf_format ?k)) mod 2 ^ 32"
  have "f_ehsize (elf_format ?k) \<le> length program" using assms(3) by (simp add: elf_ok_def segments_ok_def)
  from GetEntryPoint_at [OF this] have "GetEntryPoint (?k = ELF64) program = Inr (of_nat ?x)" .
  moreover have "ucast (ucast (of_nat ?x :: u64) :: u32) = (of_nat ?x :: u64)" using u64_low [of ?x] by (simp add: ucast_down_of_nat)
  ultimately have p: "program_pointers (?k = ELF64) program = Inr (of_nat ?x, gp)" using assms(4) by (auto simp: program_pointers_iff)
  from assms(10) have "spec_run isa_next n \<lparr>isa_pc = of_nat ?x, isa_reg = start_regs (cpu_reg raw) gp, isa_mem = mem_view (mem_abs m')\<rparr> = Some (t, err)"
    by (simp add: start_state_def m'(2))
  from run_program [OF assms(1,2) m(1,2) m'(1) p assms(5-9) this] show ?thesis .
qed

section \<open>A file with a program\<close>

text \<open>A 64-bit file that loads the example program at \<open>0x80000000\<close>.\<close>

definition demo_elf :: "u8 list" where
  "demo_elf =
    [0x7F, 0x45, 0x4C, 0x46, 2, 1, 1, 0, 0, 0, 0, 0, 0, 0, 0, 0, 2, 0, 0xF3, 0, 1, 0, 0, 0, 0, 0, 0, 0x80, 0, 0, 0,
     0, 0x40, 0, 0, 0, 0, 0, 0, 0, 0x90, 0, 0, 0, 0, 0, 0, 0, 0, 0, 0, 0, 0x40, 0, 0x38, 0, 1, 0, 0x40, 0, 1, 0, 0,
     0, 1, 0, 0, 0, 5, 0, 0, 0, 0x78, 0, 0, 0, 0, 0, 0, 0, 0, 0, 0, 0x80, 0, 0, 0, 0, 0, 0, 0, 0x80, 0, 0, 0, 0,
     0x10, 0, 0, 0, 0, 0, 0, 0, 0x10, 0, 0, 0, 0, 0, 0, 0, 4, 0, 0, 0, 0, 0, 0, 0, 0x13, 5, 0x60, 0, 0x93, 5, 0x70,
     0, 0x33, 5, 0xB5, 2, 0x67, 0x80, 0, 0, 0, 0x2E, 0x78, 0, 0, 0, 0, 0, 1, 0, 0, 0, 3, 0, 0, 0, 0, 0, 0, 0, 0, 0,
     0, 0, 0, 0, 0, 0, 0, 0, 0, 0, 0x88, 0, 0, 0, 0, 0, 0, 0, 4, 0, 0, 0, 0, 0, 0, 0, 0, 0, 0, 0, 0, 0, 0, 0, 1, 0,
     0, 0, 0, 0, 0, 0, 0, 0, 0, 0, 0, 0, 0, 0]"

lemma demo_elf_fields:
  "fld demo_elf 24 8 = 2147483648"
  "fld demo_elf 32 8 = 64"
  "fld demo_elf 40 8 = 144"
  "fld demo_elf 54 2 = 56"
  "fld demo_elf 56 2 = 1"
  "fld demo_elf 58 2 = 64"
  "fld demo_elf 60 2 = 1"
  "fld demo_elf 62 2 = 0"
  "fld demo_elf 64 4 = 1"
  "fld demo_elf 72 8 = 120"
  "fld demo_elf 80 8 = 2147483648"
  "fld demo_elf 96 8 = 16"
  "fld demo_elf 144 4 = 1"
  "fld demo_elf 160 8 = 0"
  "fld demo_elf 168 8 = 136"
  "fld demo_elf 176 8 = 4"
  by (simp_all add: fld_def demo_elf_def)

lemma demo_elf_simps:
  "length demo_elf = 208" "phnum ELF64 demo_elf = 1" "shnum ELF64 demo_elf = 1" "shstrndx ELF64 demo_elf = 0"
  "phdr_at ELF64 demo_elf 0 = 64" "shdr_at ELF64 demo_elf 0 = 144" "name_at ELF64 demo_elf 144 = 137"
  by (simp_all add: phnum_def shnum_def shstrndx_def phdr_at_def shdr_at_def name_at_def elf_format_def demo_elf_fields)
     (simp add: demo_elf_def)

lemma demo_elf_name: "cstring demo_elf 137 = map of_char ''.x''" "0 \<in> set (drop 137 demo_elf)"
  by (simp_all add: cstring_def demo_elf_def)

lemma demo_elf_bss: "bss_range ELF64 demo_elf = None"
  by (simp add: bss_range_def find_section_def demo_elf_simps demo_elf_name)

lemma demo_elf_ok: "file_class demo_elf = ELF64" "elf_ok ELF64 demo_elf"
  by (simp_all add: file_class_def elf_ok_def segments_ok_def sections_ok_def segment_ok_def demo_elf_simps demo_elf_name demo_elf_bss elf_format_def
      demo_elf_fields) (simp add: demo_elf_def)

lemma demo_elf_image: "image ELF64 demo_elf f = write_bytes f 0x80000000 (program_bytes demo_program)"
proof -
  have "program_bytes demo_program = take 16 (drop 120 demo_elf)"
    by (simp add: demo_elf_def demo_program_def le_bytes_def upt_rec)
  then show ?thesis by (simp add: image_def demo_elf_simps segment_def elf_format_def demo_elf_fields store_segment_def)
qed

lemma demo_elf_loaded: "demo_loaded (start_memory demo_elf)"
proof -
  let ?f = "write_bytes (\<lambda>_. 0) 0x80000000 (program_bytes demo_program)"
  have f: "demo_loaded ?f" by (rule holds_written) (simp add: demo_program_def)
  have "start_memory demo_elf = tables64 ?f"
    by (simp add: start_memory_def demo_elf_ok demo_elf_bss clear_range_def demo_elf_image)
  moreover have "read_bytes (tables64 ?f) (0x80000000 + of_nat (4 * k)) 4 = read_bytes ?f (0x80000000 + of_nat (4 * k)) 4" if "k < 4" for k
    using tables64_below [of "0x80000000 + 4 * k" 4 ?f] that by simp
  ultimately show ?thesis using f by (simp add: holds_program_def) (simp add: demo_program_def)
qed

text \<open>The file has no symbols, and none is found in the tables of the other class.\<close>

lemma demo_elf_pointer: "GetGlobalPointer True demo_elf = Inr 0xFFFFFFFF"
proof -
  have "member (Ehdr ELF32) ''e_shnum'' demo_elf 0 = Inr 0"
    by (simp add: member_def Ehdr_def Elf32_Ehdr_def data_word_def) (simp add: demo_elf_def)
  then show ?thesis
    by (simp add: GetGlobalPointer_def GetElfGlobalPointer_def FindElfSymbol_def SearchElfShdrType_def)
       (simp add: word_unat_eq_iff unat_ucast_u64 unsigned_minus_1_eq_mask mask_eq_exp_minus_1)
qed

lemma demo_argv: "ParseCmd [''emulator'', ''-64'', ''demo''] = no_options\<lparr>opt_address64bit := True, opt_filename := ''demo''\<rparr>"
  using ParseCmd_switches [of "''demo''" "''emulator''" "[Address64]" "[]"] by (simp add: args_def file_name_def)

lemma demo_argv_sel [simp]:
  "opt_filename (ParseCmd [''emulator'', ''-64'', ''demo'']) = ''demo''" "opt_address64bit (ParseCmd [''emulator'', ''-64'', ''demo''])"
  "\<not> opt_error (ParseCmd [''emulator'', ''-64'', ''demo''])" "\<not> opt_ecall_emulation (ParseCmd [''emulator'', ''-64'', ''demo''])"
  "\<not> opt_host_emulation (ParseCmd [''emulator'', ''-64'', ''demo''])" "\<not> opt_device_enable (ParseCmd [''emulator'', ''-64'', ''demo''])"
  "opt_diskimage_file (ParseCmd [''emulator'', ''-64'', ''demo'']) = []"
  by (simp_all add: demo_argv no_options_def)

section \<open>Properties\<close>

text \<open>C2: The emulator as a program: run on a well-formed ELF file with the option \<open>-64\<close> and without emulation of system calls, host
  or devices, it ends with exit status \<open>a0\<close> (as a 32-bit number), if the instruction set takes the loaded program in any number of steps to its
  end with that value, from the entry point of the file, with the stack pointer at \<open>0x80000000\<close> and the memory image of the file
  under the default page tables.\<close>

theorem exit_status:
  assumes "\<not> opt_error (ParseCmd argv)" "ReadFile file (opt_filename (ParseCmd argv)) = Some program"
    "elf_ok (file_class program) program" "GetGlobalPointer (file_class program = ELF64) program = Inr gp"
    "read_disk_image file (ParseCmd argv) = Some disk" "opt_address64bit (ParseCmd argv)" "\<not> opt_ecall_emulation (ParseCmd argv)"
    "\<not> opt_host_emulation (ParseCmd argv)" "\<not> opt_device_enable (ParseCmd argv)"
    "spec_run isa_next n (start_state (cpu_reg raw) gp program) = Some (t, err)"
  shows "run file h raw s key argv = Some (Inr (sint (ucast (isa_reg t A0) :: u32)))"
  by (rule run_file [OF assms])

theorem exit_status_witness: "\<forall>h. run (\<lambda>_. demo_elf) h blank_cpu 0 0 [''emulator'', ''-64'', ''demo''] = Some (Inr 42)"
proof
  fix h :: "unit host"
  let ?r = "start_regs (cpu_reg blank_cpu) 0xFFFFFFFF"
  have s: "start_state (cpu_reg blank_cpu) 0xFFFFFFFF demo_elf = demo_program_state (start_memory demo_elf) 0x80000000 ?r"
    by (simp add: start_state_def demo_program_state_def demo_elf_ok elf_format_def demo_elf_fields)
  obtain r' where r': "spec_run isa_next (Suc (Suc (Suc (Suc 0)))) (start_state (cpu_reg blank_cpu) 0xFFFFFFFF demo_elf) =
      Some (demo_program_state (start_memory demo_elf) 0 r', False)" "r' A0 = 42"
    using demo_run [OF demo_elf_loaded, of ?r] unfolding s by (auto simp: start_regs_def)
  have f: "ReadFile (\<lambda>_. demo_elf) (opt_filename (ParseCmd [''emulator'', ''-64'', ''demo''])) = Some demo_elf"
    by (simp add: ReadFile_def demo_elf_simps kMaxBinarySize_def)
  have d: "read_disk_image (\<lambda>_. demo_elf) (ParseCmd [''emulator'', ''-64'', ''demo'']) = Some None" by (simp add: read_disk_image_def)
  have g: "GetGlobalPointer (file_class demo_elf = ELF64) demo_elf = Inr 0xFFFFFFFF" by (simp add: demo_elf_ok demo_elf_pointer)
  show "run (\<lambda>_. demo_elf) h blank_cpu 0 0 [''emulator'', ''-64'', ''demo''] = Some (Inr 42)"
    using exit_status [OF _ f _ g d _ _ _ _ r'(1), of h 0 0] r'(2) demo_elf_ok by simp
qed

text \<open>C15: Set-up never fails on a well-formed memory, and the state in which \<open>RunCpu\<close> is called satisfies the invariant of the execution loop: machine mode,
  the chosen register width, the stack and global pointers with all other registers zero, the chosen emulations, \<open>satp\<close>
  as the option \<open>-p\<close> asks, and page tables that map every 32-bit address to itself.\<close>

theorem startup_state:
  assumes "mem_wf m"
  shows "\<exists>m' c. SetDefaultMmuTable (opt_address64bit opts) m = Inr m' \<and> default_tables (opt_address64bit opts) (mem_abs m') \<and>
    setup_cpu opts raw s key m disk gp = Inr c \<and> loop_inv c \<and> cpu_privilege c = MACHINE_MODE \<and>
    cpu_xlen c = (if opt_address64bit opts then 64 else 32) \<and> cpu_reg c = start_regs (cpu_reg raw) gp \<and>
    cpu_csrs c SATP = default_satp (opt_paging opts) (opt_address64bit opts) \<and>
    cpu_ecall_emulation c = opt_ecall_emulation opts \<and> cpu_host_emulation c = opt_host_emulation opts \<and>
    cpu_peripheral_emulation c = opt_device_enable opts \<and> (\<not> opt_device_enable opts \<longrightarrow> cpu_memory c = m')"
proof -
  obtain m' c p m2 where "SetDefaultMmuTable (opt_address64bit opts) m = Inr m'" "default_tables (opt_address64bit opts) (mem_abs m')"
    "setup_cpu opts raw s key m disk gp = Inr c" "loop_inv c" and
    c: "c = (plain_cpu opts raw s m' gp)\<lparr>cpu_peripheral := p, cpu_memory := m2\<rparr>" "\<not> opt_device_enable opts \<longrightarrow> m2 = m'"
    using setup_cpu_state [OF assms, of opts raw s key disk gp] by blast
  moreover from c have "cpu_privilege c = MACHINE_MODE \<and> cpu_xlen c = (if opt_address64bit opts then 64 else 32) \<and>
      cpu_reg c = start_regs (cpu_reg raw) gp \<and> cpu_csrs c SATP = default_satp (opt_paging opts) (opt_address64bit opts) \<and>
      cpu_ecall_emulation c = opt_ecall_emulation opts \<and> cpu_host_emulation c = opt_host_emulation opts \<and>
      cpu_peripheral_emulation c = opt_device_enable opts \<and> (\<not> opt_device_enable opts \<longrightarrow> cpu_memory c = m')" by simp
  ultimately show ?thesis by blast
qed

theorem startup_state_witness:
  "\<exists>c. setup_cpu (no_options\<lparr>opt_device_enable := True\<rparr>) blank_cpu 0 0 MemoryWrapper None 7 = Inr c \<and> loop_inv c \<and> cpu_reg c GP = 7"
proof -
  obtain c where "setup_cpu (no_options\<lparr>opt_device_enable := True\<rparr>) blank_cpu 0 0 MemoryWrapper None 7 = Inr c" "loop_inv c"
      "cpu_reg c = start_regs (cpu_reg blank_cpu) 7"
    using startup_state [OF mem_wf_MemoryWrapper, of "no_options\<lparr>opt_device_enable := True\<rparr>" blank_cpu 0 0 None 7] by blast
  then show ?thesis by (auto simp: start_regs_def)
qed

text \<open>C36: The command line reads back: any sequence of options before and after the file name sets exactly these options (a later disk
  image replaces an earlier one) and the file name.\<close>

theorem command_line_roundtrip:
  assumes "file_name f"
  shows "ParseCmd (prog # args xs @ f # args ys) = (fold set_switch (xs @ ys) no_options)\<lparr>opt_filename := f\<rparr>"
  by (rule ParseCmd_switches [OF assms])

theorem command_line_roundtrip_witness:
  "ParseCmd [''emulator'', ''-p'', ''a.out'', ''-s'', ''disk.img''] =
     no_options\<lparr>opt_paging := True, opt_diskimage_file := ''disk.img'', opt_filename := ''a.out''\<rparr>"
  using command_line_roundtrip [of "''a.out''" "''emulator''" "[Paging]" "[Disk ''disk.img'']"] by (simp add: args_def file_name_def)

text \<open>C37: The command line is reported as an error exactly when it has no argument or is not one of the grammar: an unknown option, \<open>-s\<close> without a disk
  image, or a second file name, anywhere on the line.  The program ends with status \<open>-1\<close>, before anything is loaded, for such a line and for a file that is
  missing, empty or larger than a gigabyte.  (A line of options without a file name is in the grammar; it ends with \<open>-1\<close> when the file with the empty name
  cannot be opened.)\<close>

theorem command_line_errors:
  "(opt_error (ParseCmd argv) \<longleftrightarrow> length argv < 2 \<or> \<not> command_line False (tl argv)) \<and>
   (opt_error (ParseCmd argv) \<or> file (opt_filename (ParseCmd argv)) = [] \<or> 2 ^ 30 < length (file (opt_filename (ParseCmd argv))) \<longrightarrow>
      run file h raw s key argv = Some (Inr (- 1)))"
proof
  show "opt_error (ParseCmd argv) \<longleftrightarrow> length argv < 2 \<or> \<not> command_line False (tl argv)"
    using parse_args_grammar [of no_options "tl argv"] by (simp add: ParseCmd_def)
qed (auto simp: run_def Let_def ReadFile_def kMaxBinarySize_def)

theorem command_line_errors_witness: "\<forall>h. run (\<lambda>_. demo_elf) h blank_cpu 0 0 [''emulator'', ''demo'', ''-x''] = Some (Inr (- 1))"
proof
  fix h :: "unit host"
  have "\<not> command_line False [''demo'', ''-x'']" by (simp add: is_flag_def)
  with command_line_errors [of "[''emulator'', ''demo'', ''-x'']" "\<lambda>_. demo_elf" h blank_cpu 0 0]
  show "run (\<lambda>_. demo_elf) h blank_cpu 0 0 [''emulator'', ''demo'', ''-x''] = Some (Inr (- 1))" by simp
qed

text \<open>The fallback for a file without a global pointer is dead: \<open>GetGlobalPointer\<close> returns a 32-bit number also for a missing symbol, so the comparison
  with \<open>-1\<close> never holds and the pointer is used as it is; the entry point is its low half.\<close>

theorem global_pointer_fallback_dead:
  "program_pointers flag_64bit program = Inr (e, g) \<longleftrightarrow>
     GetGlobalPointer flag_64bit program = Inr g \<and> (\<exists>x. GetEntryPoint flag_64bit program = Inr x \<and> e = ucast (ucast x :: u32))"
  by (rule program_pointers_iff)

end
