(* ===== verification/Paging_Spec.thy ===== *)
theory Paging_Spec
  imports Run_Spec
begin

text \<open>
  Memory accesses of a hart with address translation: instruction fetch, loads, stores and atomic operations of \<open>RISCV_cpu.cc\<close> in every
  privilege mode, composed from the page walks of \<open>Mmu\<close>, the byte view of memory and the traps.  Page faults enter the handler with the
  faulting address; accesses that are split at a 64-bit boundary are translated in two parts.
\<close>

section \<open>Translation as the hart makes it\<close>

text \<open>The mode that an access is made in: \<open>mstatus.MPRV\<close> lends machine mode the mode in \<open>mstatus.MPP\<close>.\<close>

definition access_mode :: "'w cpu \<Rightarrow> PrivilegeMode res" where
  "access_mode c =
     (if cpu_privilege c = MACHINE_MODE \<and> bit (cpu_csrs c MSTATUS) 17
      then IntToPrivilegeMode (uint (bitcrop (cpu_csrs c MSTATUS) 2 11)) else Inr (cpu_privilege c))"

definition translate :: "'w cpu \<Rightarrow> PrivilegeMode \<Rightarrow> bytes \<Rightarrow> u64 \<Rightarrow> bool \<Rightarrow> (u64 \<times> bytes) option" where
  "translate c mode f va write =
     (let satp = cpu_csrs c SATP
      in if mode = MACHINE_MODE then Some (va, f)
         else if cpu_mxl c = 1 then
           if bit satp 31
           then map_option (\<lambda>(pa, f). (take_bit 32 (of_nat pa), f)) (pt_translate sv32 f (unat satp mod 2 ^ 22) va write)
           else Some (va, f)
         else if bitcrop satp 4 60 = 8
         then map_option (\<lambda>(pa, f). (of_nat pa, f)) (pt_translate sv39 f (unat satp mod 2 ^ 44) va write)
         else if bitcrop satp 4 60 = 0 then Some (va, f) else None)"

definition used_mmu :: "'w cpu \<Rightarrow> PrivilegeMode \<Rightarrow> mmu" where
  "used_mmu c mode = \<lparr>mmu_mxl = cpu_mxl c, mmu_page_fault = False, mmu_faulting_address = 0, mmu_privilege = mode\<rparr>"

definition faulted :: "'w cpu \<Rightarrow> PrivilegeMode \<Rightarrow> u64 \<Rightarrow> 'w cpu" where
  "faulted c mode va = c\<lparr>cpu_mmu := mmu_fault (used_mmu c mode) va, cpu_page_fault := True, cpu_faulting_address := va\<rparr>"

lemma mode64_u8_iff: "(ucast (bitcrop (satp :: u64) 4 60) :: u8) = ucast k \<longleftrightarrow> bitcrop satp 4 60 = k" if "k = 0 \<or> k = 8" for k :: u64
  using mode64_u8 [of satp] ucast_slice_via [where 'b = 8, of 4 "drop_bit 60 satp"] that by (auto simp: bitcrop_eq)

lemma Mmu_translate:
  assumes "mem_wf m"
  shows "case translate c mode (mem_abs m) va write of
      None \<Rightarrow> Mmu_VirtualToPhysical (SetPrivilege (SetMxl u (cpu_mxl c)) mode) m va (cpu_csrs c SATP) write =
        Inr (va, mmu_fault (used_mmu c mode) va, m)
    | Some (pa, f) \<Rightarrow> \<exists>m'. Mmu_VirtualToPhysical (SetPrivilege (SetMxl u (cpu_mxl c)) mode) m va (cpu_csrs c SATP) write =
        Inr (pa, used_mmu c mode, m') \<and> mem_wf m' \<and> mem_abs m' = f"
proof -
  let ?s = "cpu_csrs c SATP"
  have u: "(SetPrivilege (SetMxl u (cpu_mxl c)) mode)\<lparr>mmu_page_fault := False, mmu_faulting_address := 0\<rparr> = used_mmu c mode"
    by (simp add: SetPrivilege_def SetMxl_def used_mmu_def)
  have m: "mmu_privilege (used_mmu c mode) = mode" "mmu_mxl (used_mmu c mode) = cpu_mxl c" by (simp_all add: used_mmu_def)
  have b31: "(ucast (bitcrop ?s 1 31) :: u8) = 0 \<longleftrightarrow> \<not> bit ?s 31" by simp
  note eq = Mmu_VirtualToPhysical_def Let_def u m translate_def
  consider (machine) "mode = MACHINE_MODE" | (sv32) "mode \<noteq> MACHINE_MODE" "cpu_mxl c = 1" "bit ?s 31"
    | (bare32) "mode \<noteq> MACHINE_MODE" "cpu_mxl c = 1" "\<not> bit ?s 31" | (sv39) "mode \<noteq> MACHINE_MODE" "cpu_mxl c \<noteq> 1" "bitcrop ?s 4 60 = 8"
    | (bare64) "mode \<noteq> MACHINE_MODE" "cpu_mxl c \<noteq> 1" "bitcrop ?s 4 60 \<noteq> 8" by blast
  then show ?thesis
  proof cases
    case machine
    with assms show ?thesis unfolding eq by simp
  next
    case sv32
    with V2P32_sv32 [OF assms sv32(3), of "used_mmu c mode" va "write"] show ?thesis unfolding eq by (auto split: option.splits)
  next
    case bare32
    with assms b31 show ?thesis unfolding eq by (simp add: VirtualToPhysical32_def Let_def)
  next
    case sv39
    with V2P64_sv39 [OF assms sv39(3), of "used_mmu c mode" va "write"] show ?thesis unfolding eq by (auto split: option.splits)
  next
    case bare64
    with assms mode64_u8_iff [of 0 ?s] mode64_u8_iff [of 8 ?s] show ?thesis unfolding eq by (simp add: VirtualToPhysical64_def Let_def)
  qed
qed

lemma V2P_translate:
  assumes "mem_wf (cpu_memory c)" "access_mode c = Inr mode"
  shows "case translate c mode (mem_abs (cpu_memory c)) va write of
      None \<Rightarrow> VirtualToPhysical c va write = Inr (va, faulted c mode va)
    | Some (pa, f) \<Rightarrow> \<exists>m'. VirtualToPhysical c va write = Inr (pa, c\<lparr>cpu_mmu := used_mmu c mode, cpu_memory := m'\<rparr>) \<and>
        mem_wf m' \<and> mem_abs m' = f"
proof -
  have e: "(ucast (bitcrop (cpu_csrs c MSTATUS) 1 17) :: u32) = 1 \<longleftrightarrow> bit (cpu_csrs c MSTATUS) 17" by simp
  have u: "uint (ucast (bitcrop (cpu_csrs c MSTATUS) 2 11) :: u32) = uint (bitcrop (cpu_csrs c MSTATUS) 2 11)"
    using mpp_cases [of "cpu_csrs c MSTATUS"] by auto
  have "VirtualToPhysical c va write =
      rbind (Mmu_VirtualToPhysical (SetPrivilege (SetMxl (cpu_mmu c) (cpu_mxl c)) mode) (cpu_memory c) va (cpu_csrs c SATP) write)
        (\<lambda>(physical_address, u, mem). let c = c\<lparr>cpu_mmu := u, cpu_memory := mem\<rparr>
           in Inr (physical_address, if mmu_page_fault u
                then c\<lparr>cpu_page_fault := True, cpu_faulting_address := mmu_faulting_address u\<rparr> else c))"
    using assms(2) unfolding VirtualToPhysical_def access_mode_def e u by simp
  then show ?thesis
    using Mmu_translate [OF assms(1), of "cpu_mmu c" c mode va "write"]
    by (auto simp: Let_def faulted_def mmu_fault_def used_mmu_def split: option.splits)
qed

text \<open>Elimination rules: a translation that faults, and one that succeeds.\<close>

lemma V2P_fault:
  "mem_wf (cpu_memory c) \<Longrightarrow> access_mode c = Inr mode \<Longrightarrow> translate c mode (mem_abs (cpu_memory c)) va write = None \<Longrightarrow>
    VirtualToPhysical c va write = Inr (va, faulted c mode va)"
  using V2P_translate [of c mode va "write"] by simp

lemma V2P_success:
  assumes "mem_wf (cpu_memory c)" "access_mode c = Inr mode" "translate c mode (mem_abs (cpu_memory c)) va write = Some (pa, f)"
  obtains m' where "VirtualToPhysical c va write = Inr (pa, c\<lparr>cpu_mmu := used_mmu c mode, cpu_memory := m'\<rparr>)" "mem_wf m'" "mem_abs m' = f"
  using V2P_translate [OF assms(1,2), of va "write"] assms(3) by auto

text \<open>Translation looks at the register width, \<open>satp\<close> and the mode only.\<close>

lemma access_mode_upd [simp]:
  "access_mode (c\<lparr>cpu_mmu := u\<rparr>) = access_mode c" "access_mode (c\<lparr>cpu_memory := m\<rparr>) = access_mode c"
  "access_mode (c\<lparr>cpu_ir := ir\<rparr>) = access_mode c" "access_mode (c\<lparr>cpu_peripheral := p\<rparr>) = access_mode c"
  by (simp_all add: access_mode_def)

lemma translate_upd [simp]:
  "translate (c\<lparr>cpu_mmu := u\<rparr>) = translate c" "translate (c\<lparr>cpu_memory := m\<rparr>) = translate c"
  "used_mmu (c\<lparr>cpu_mmu := u\<rparr>) = used_mmu c" "used_mmu (c\<lparr>cpu_memory := m\<rparr>) = used_mmu c"
  by (simp_all add: translate_def used_mmu_def fun_eq_iff Let_def)

text \<open>The offset within a page is not translated.\<close>

lemma pt_translate_offset: "pt_translate sc f root va write = Some (pa, g) \<Longrightarrow> pa mod 2 ^ 12 = unat va mod 2 ^ 12"
  by (auto simp: pt_translate_def power_add mod_mult2_eq mod_add_eq split: option.splits if_splits)

lemma take_bit_of_nat_mod: "m mod 2 ^ k = unat (va :: u64) mod 2 ^ k \<Longrightarrow> k \<le> 64 \<Longrightarrow> take_bit k (of_nat m :: u64) = take_bit k va"
  by (metis of_nat_unat take_bit_of_nat take_bit_eq_mod ucast_id)

lemma translate_offset: "translate c mode f va write = Some (pa, g) \<Longrightarrow> take_bit 12 pa = take_bit 12 va"
  by (auto simp: translate_def Let_def dest!: pt_translate_offset take_bit_of_nat_mod [of _ 12] split: if_splits)

section \<open>Page faults\<close>

text \<open>
  What a page fault leaves: the registers as they were, the handler of the delegated mode entered with the program counter,
  the cause and the faulting address, and the error flag raised when the previous page fault was at the same address.
\<close>

definition page_fault_entered :: "nat \<Rightarrow> u64 \<Rightarrow> 'w cpu \<Rightarrow> 'w cpu \<Rightarrow> bool" where
  "page_fault_entered cause va c c' \<longleftrightarrow>
     (let s = (cpu_privilege c \<noteq> MACHINE_MODE \<and> bit (cpu_csrs c MEDELEG) cause)
      in cpu_reg c' = cpu_reg c \<and> \<not> cpu_page_fault c' \<and>
         cpu_privilege c' = (if s then SUPERVISOR_MODE else MACHINE_MODE) \<and>
         cpu_csrs c' (if s then SEPC else MEPC) = cpu_pc c \<and>
         cpu_csrs c' (if s then SCAUSE else MCAUSE) = of_nat cause \<and>
         cpu_csrs c' (if s then STVAL else MTVAL) = va \<and>
         cpu_next_pc c' = trap_vector (cpu_csrs c (if s then STVEC else MTVEC)) (of_nat cause) False c \<and>
         cpu_error_flag c' = (cpu_error_flag c \<or> cpu_prev_page_fault c \<and> cpu_prev_faulting_address c = va))"

lemma page_fault_entered_upd [simp]:
  "page_fault_entered cause va (c\<lparr>cpu_mmu := u\<rparr>) = page_fault_entered cause va c"
  "page_fault_entered cause va (c\<lparr>cpu_memory := m\<rparr>) = page_fault_entered cause va c"
  "page_fault_entered cause va (c\<lparr>cpu_ir := ir\<rparr>) = page_fault_entered cause va c"
  "page_fault_entered cause va (c\<lparr>cpu_page_fault := b\<rparr>) = page_fault_entered cause va c"
  "page_fault_entered cause va (c\<lparr>cpu_faulting_address := x\<rparr>) = page_fault_entered cause va c"
  by (simp_all add: page_fault_entered_def trap_vector_def fun_eq_iff Let_def)

lemma trap_flags:
  "cpu_page_fault (ApplyMstatusToCsr c) = cpu_page_fault c" "cpu_error_flag (ApplyMstatusToCsr c) = cpu_error_flag c"
  "cpu_page_fault (trap_to_supervisor cause i e v c) = cpu_page_fault c" "cpu_error_flag (trap_to_supervisor cause i e v c) = cpu_error_flag c"
  "cpu_page_fault (trap_to_machine cause i e v c) = cpu_page_fault c" "cpu_error_flag (trap_to_machine cause i e v c) = cpu_error_flag c"
  by (simp_all add: ApplyMstatusToCsr_def trap_to_supervisor_def trap_to_machine_def Let_def)

lemma trap_page_fault_flags:
  assumes "is_page_fault cause"
  shows "\<not> cpu_page_fault (trap_page_fault cause False c)"
    "cpu_error_flag (trap_page_fault cause False c) =
       (cpu_error_flag c \<or> cpu_prev_page_fault c \<and> cpu_prev_faulting_address c = cpu_faulting_address c)"
  using assms by (auto simp: trap_page_fault_def Let_def)

lemma Trap_page_fault:
  assumes "is_page_fault cause" "cpu_faulting_address c = va"
  shows "\<exists>c'. Trap c cause False = Inr c' \<and> cpu_memory c' = cpu_memory c \<and> page_fault_entered cause va c c'"
proof -
  have s: "trap_supported cause False" using assms(1) by (auto simp: is_page_fault_def trap_supported_def)
  obtain c' where c': "Trap c cause False = Inr c'" "same_data c c'"
      "if sv_delegation cause False c then in_supervisor_handler cause False c c' else in_machine_handler cause False c c'"
    using Trap_enters [OF s] by blast
  have d: "sv_delegation cause False c \<longleftrightarrow> cpu_privilege c \<noteq> MACHINE_MODE \<and> bit (cpu_csrs c MEDELEG) cause"
    by (cases "cpu_privilege c") (simp_all add: sv_delegation_def)
  have "\<not> cpu_page_fault c' \<and> cpu_error_flag c' = (cpu_error_flag c \<or> cpu_prev_page_fault c \<and> cpu_prev_faulting_address c = va)"
    using c'(1) assms(2) s trap_page_fault_flags [OF assms(1), of c]
    by (cases "sv_delegation cause False c") (clarsimp simp: Trap_def Let_def trap_flags)+
  moreover have "trap_cause cause False c = of_nat cause" "trap_tval cause False c = va" using assms by (simp_all add: trap_cause_def trap_tval_def)
  ultimately show ?thesis
    using c' by (cases "sv_delegation cause False c")
      (simp_all add: page_fault_entered_def Let_def same_data_def in_supervisor_handler_def in_machine_handler_def flip: d)
qed

lemma is_page_fault_codes [simp]: "is_page_fault INSTRUCTION_PAGE_FAULT" "is_page_fault LOAD_PAGE_FAULT" "is_page_fault STORE_PAGE_FAULT"
  by (simp_all add: is_page_fault_def)

lemma faulted_sel [simp]:
  "cpu_page_fault (faulted c mode va)" "cpu_faulting_address (faulted c mode va) = va" "cpu_memory (faulted c mode va) = cpu_memory c"
  "page_fault_entered cause x (faulted c mode va) = page_fault_entered cause x c"
  by (simp_all add: faulted_def)

section \<open>Loads\<close>

text \<open>
  A load of \<open>n\<close> bytes: the memory afterwards and either the faulting address or the physical address and the bytes.  When the access
  crosses a 64-bit boundary, the second translation is of the \<^emph>\<open>physical\<close> address of the first part, advanced to the boundary.
\<close>

definition loaded_bytes :: "'w cpu \<Rightarrow> PrivilegeMode \<Rightarrow> bytes \<Rightarrow> u64 \<Rightarrow> nat \<Rightarrow> bytes \<times> (u64 + u64 \<times> u8 list)" where
  "loaded_bytes c mode f va n =
     (case translate c mode f va False of
        None \<Rightarrow> (f, Inl va)
      | Some (pa, f1) \<Rightarrow>
          let k = min n (8 - unat pa mod 8)
          in if k = n then (f1, Inr (pa, read_bytes f1 (ucast pa) n))
             else case translate c mode f1 (pa + of_nat k) False of
                    None \<Rightarrow> (f1, Inl (pa + of_nat k))
                  | Some (pa2, f2) \<Rightarrow> (f2, Inr (pa, read_bytes f1 (ucast pa) k @ read_bytes f2 (ucast pa2) (n - k))))"

lemma GetAccessWidth_min: "n \<in> {1, 2, 4, 8} \<Longrightarrow> GetAccessWidth n a = min n (8 - unat a mod 8)"
  by (auto simp: GetAccessWidth_eq min_def)

lemma part_bounds:
  assumes "n \<in> {1, 2, 4, 8 :: nat}" "k = min n (8 - unat (a :: u64) mod 8)"
  shows "1 \<le> k" "k \<le> n" "k \<le> 8" "n - k \<le> 8" "n \<le> 8"
  using assms mod_less_divisor [of 8 "unat a"] by auto

text \<open>The part after the first translation, which put the hart into the state \<open>c\<close>.\<close>

lemma load_parts_translate:
  assumes "mem_wf (cpu_memory c)" "\<not> cpu_page_fault c" "access_mode c = Inr mode" "n \<in> {1, 2, 4, 8}" "k = min n (8 - unat pa mod 8)"
    "cpu_mmu c = used_mmu c mode"
  shows "if k = n then load_parts c pa n = Inr (Some (le_word (read_bytes (mem_abs (cpu_memory c)) (ucast pa) n)), c)
    else case translate c mode (mem_abs (cpu_memory c)) (pa + of_nat k) False of
        None \<Rightarrow> \<exists>c'. load_parts c pa n = Inr (None, c') \<and> cpu_memory c' = cpu_memory c \<and>
          page_fault_entered LOAD_PAGE_FAULT (pa + of_nat k) c c'
      | Some (pa2, f2) \<Rightarrow> \<exists>m'. load_parts c pa n =
          Inr (Some (le_word (read_bytes (mem_abs (cpu_memory c)) (ucast pa) k @ read_bytes f2 (ucast pa2) (n - k))), c\<lparr>cpu_memory := m'\<rparr>) \<and>
          mem_wf m' \<and> mem_abs m' = f2"
proof -
  note b = part_bounds [OF assms(4,5)]
  have l: "LoadWd (cpu_memory c) pa k = Inr (le_word (read_bytes (mem_abs (cpu_memory c)) (ucast pa) k))"
    using LoadWd_abs [OF assms(1) b(1,3)] .
  have same: "c\<lparr>cpu_mmu := used_mmu c mode, cpu_memory := m'\<rparr> = c\<lparr>cpu_memory := m'\<rparr>" for m' by (simp add: assms(6) [symmetric])
  note p = load_parts_def [of c pa n, unfolded GetAccessWidth_min [OF assms(4)] assms(5) [symmetric] Let_def l rbind_Inr]
  show ?thesis
  proof (cases "k = n")
    case True
    then show ?thesis unfolding p by simp
  next
    case False
    then have k: "0 < n - k" "1 \<le> n - k" "k < 8" using b by auto
    show ?thesis
    proof (cases "translate c mode (mem_abs (cpu_memory c)) (pa + of_nat k) False")
      case None
      obtain c' where "Trap (faulted c mode (pa + of_nat k)) LOAD_PAGE_FAULT False = Inr c'" "cpu_memory c' = cpu_memory c"
          "page_fault_entered LOAD_PAGE_FAULT (pa + of_nat k) c c'"
        using Trap_page_fault [of LOAD_PAGE_FAULT "faulted c mode (pa + of_nat k)"] by auto
      with False k None V2P_fault [OF assms(1,3) None] show ?thesis unfolding p by simp
    next
      case (Some r)
      obtain pa2 f2 where r: "r = (pa2, f2)" by (cases r)
      obtain m' where m': "VirtualToPhysical c (pa + of_nat k) False = Inr (pa2, c\<lparr>cpu_memory := m'\<rparr>)" "mem_wf m'" "mem_abs m' = f2"
        using V2P_success [OF assms(1,3) Some [unfolded r]] unfolding same .
      have "LoadWd m' pa2 (n - k) = Inr (le_word (read_bytes f2 (ucast pa2) (n - k)))" using LoadWd_abs [OF m'(2) k(2) b(4)] m'(3) by simp
      then have "load_parts c pa n =
          Inr (Some (le_word (read_bytes (mem_abs (cpu_memory c)) (ucast pa) k @ read_bytes f2 (ucast pa2) (n - k))), c\<lparr>cpu_memory := m'\<rparr>)"
        using k m'(1) assms(2) unfolding p by (simp add: le_word_append mult.commute)
      with False Some r m'(2,3) show ?thesis by auto
    qed
  qed
qed

lemma LoadInstruction_translate:
  assumes "mem_wf (cpu_memory c)" "\<not> cpu_page_fault c" "access_mode c = Inr mode" "GetLoadWidth i = Inr n"
    "MemoryMappedValueUpdate (cpu_peripheral c) (cpu_memory c) = Inr m0" "mem_wf m0"
  shows "case loaded_bytes c mode (mem_abs m0) (cpu_reg c rs1 + scast imm) n of
      (f, Inl va) \<Rightarrow> \<exists>c'. LoadInstruction c i rd rs1 imm = Inr c' \<and> mem_abs (cpu_memory c') = f \<and> page_fault_entered LOAD_PAGE_FAULT va c c'
    | (f, Inr (pa, bs)) \<Rightarrow> \<exists>m'. mem_wf m' \<and> mem_abs m' = f \<and> LoadInstruction c i rd rs1 imm =
        Inr (set_reg rd (load_spec i bs) (c\<lparr>cpu_mmu := used_mmu c mode, cpu_memory := m',
          cpu_peripheral := CheckDeviceRead (cpu_peripheral c) pa n\<rparr>))"
proof (cases "translate c mode (mem_abs m0) (cpu_reg c rs1 + scast imm) False")
  case None
  let ?c = "c\<lparr>cpu_memory := m0\<rparr>" and ?a = "cpu_reg c rs1 + scast imm"
  obtain c' where "Trap (faulted ?c mode ?a) LOAD_PAGE_FAULT False = Inr c'" "cpu_memory c' = m0" "page_fault_entered LOAD_PAGE_FAULT ?a c c'"
    using Trap_page_fault [of LOAD_PAGE_FAULT "faulted ?c mode ?a"] by auto
  with assms None V2P_fault [of ?c mode ?a False] show ?thesis by (simp add: loaded_bytes_def LoadInstruction_def)
next
  case (Some r)
  let ?c = "c\<lparr>cpu_memory := m0\<rparr>" and ?a = "cpu_reg c rs1 + scast imm"
  obtain pa f1 where r: "r = (pa, f1)" by (cases r)
  obtain m1 where m1: "VirtualToPhysical ?c ?a False = Inr (pa, c\<lparr>cpu_mmu := used_mmu c mode, cpu_memory := m1\<rparr>)" "mem_wf m1" "mem_abs m1 = f1"
    using V2P_success [of ?c mode ?a False pa f1] assms Some r by auto
  define d k where "d = c\<lparr>cpu_mmu := used_mmu c mode, cpu_memory := m1\<rparr>" and "k = min n (8 - unat pa mod 8)"
  have d: "mem_wf (cpu_memory d)" "\<not> cpu_page_fault d" "access_mode d = Inr mode" "cpu_mmu d = used_mmu d mode" "mem_abs (cpu_memory d) = f1"
      "translate d = translate c" "page_fault_entered cause va d = page_fault_entered cause va c" for cause va
    using assms m1(2,3) by (simp_all add: d_def)
  have e: "LoadInstruction c i rd rs1 imm = rbind (load_parts d pa n) (\<lambda>(load_data, c). case load_data of None \<Rightarrow> Inr c
      | Some load_data \<Rightarrow> Inr (set_reg rd (load_extend i n load_data) (c\<lparr>cpu_peripheral := CheckDeviceRead (cpu_peripheral c) pa n\<rparr>)))"
    using assms m1(1) by (simp add: LoadInstruction_def d_def)
  have x: "length bs = n \<Longrightarrow> load_extend i n (le_word bs) = load_spec i bs" for bs using load_extend_eq [OF assms(4)] .
  have k: "k \<le> n" by (simp add: k_def)
  note p = load_parts_translate [OF d(1-3) widths(1) [OF assms(4)] k_def d(4), unfolded d(5-7)]
  have c: "cpu_peripheral d = cpu_peripheral c" "d\<lparr>cpu_memory := m'\<rparr> = c\<lparr>cpu_mmu := used_mmu c mode, cpu_memory := m'\<rparr>" for m' by (simp_all add: d_def)
  show ?thesis
  proof (cases "k = n")
    case True
    with p have "load_parts d pa n = Inr (Some (le_word (read_bytes f1 (ucast pa) n)), d)" by simp
    with True m1(2,3) Some show ?thesis by (auto simp: loaded_bytes_def r Let_def e x d_def k_def [symmetric])
  next
    case False
    with p m1(2,3) Some k show ?thesis
      by (auto simp: loaded_bytes_def r Let_def e x c d(5) k_def [symmetric] split: option.splits)
  qed
qed

section \<open>Stores\<close>

text \<open>
  A store of the low \<open>n\<close> bytes of \<open>v\<close>: the memory afterwards and either the faulting address or the physical address.  A store that
  crosses a 64-bit boundary has written its first part when the second one faults.
\<close>

definition stored_bytes :: "'w cpu \<Rightarrow> PrivilegeMode \<Rightarrow> bytes \<Rightarrow> u64 \<Rightarrow> u64 \<Rightarrow> nat \<Rightarrow> bytes \<times> (u64 + u64)" where
  "stored_bytes c mode f va v n =
     (case translate c mode f va True of
        None \<Rightarrow> (f, Inl va)
      | Some (pa, f1) \<Rightarrow>
          let k = min n (8 - unat va mod 8); f1 = write_bytes f1 (ucast pa) (le_bytes v k)
          in if k = n then (f1, Inr pa)
             else case translate c mode f1 (va + of_nat k) True of
                    None \<Rightarrow> (f1, Inl (va + of_nat k))
                  | Some (pa2, f2) \<Rightarrow> (write_bytes f2 (ucast pa2) (le_bytes (drop_bit (8 * k) v) (n - k)), Inr pa))"

lemma store_parts_translate:
  assumes "mem_wf (cpu_memory c)" "\<not> cpu_page_fault c" "access_mode c = Inr mode" "n \<in> {1, 2, 4, 8}" "k = min n (8 - unat va mod 8)"
    "cpu_mmu c = used_mmu c mode" "f = write_bytes (mem_abs (cpu_memory c)) (ucast pa) (le_bytes v k)"
  shows "if k = n then \<exists>m'. store_parts c va pa v n = Inr (True, c\<lparr>cpu_memory := m'\<rparr>) \<and> mem_wf m' \<and> mem_abs m' = f
    else case translate c mode f (va + of_nat k) True of
        None \<Rightarrow> \<exists>c'. store_parts c va pa v n = Inr (False, c') \<and> mem_abs (cpu_memory c') = f \<and>
          page_fault_entered STORE_PAGE_FAULT (va + of_nat k) c c'
      | Some (pa2, f2) \<Rightarrow> \<exists>m'. store_parts c va pa v n = Inr (True, c\<lparr>cpu_memory := m'\<rparr>) \<and> mem_wf m' \<and>
          mem_abs m' = write_bytes f2 (ucast pa2) (le_bytes (drop_bit (8 * k) v) (n - k))"
proof -
  note b = part_bounds [OF assms(4,5)]
  obtain m1 where m1: "StoreWd (cpu_memory c) pa (v AND scast (GenerateBitMask (k * 8))) k = Inr m1" "mem_wf m1" "mem_abs m1 = f"
    using StoreWd_abs [OF assms(1) b(1,3), of pa "v AND scast (GenerateBitMask (k * 8))"] le_bytes_masked [OF b(3)] assms(7) by auto
  let ?c = "c\<lparr>cpu_memory := m1\<rparr>"
  have same: "?c\<lparr>cpu_mmu := used_mmu ?c mode, cpu_memory := m'\<rparr> = c\<lparr>cpu_memory := m'\<rparr>" for m' by (simp add: assms(6) [symmetric])
  note p = store_parts_def [of c va pa v n, unfolded GetAccessWidth_min [OF assms(4)] assms(5) [symmetric] Let_def m1(1) rbind_Inr]
  have am: "access_mode ?c = Inr mode" "mem_wf (cpu_memory ?c)" using assms(3) m1(2) by simp_all
  show ?thesis
  proof (cases "k = n")
    case True
    then show ?thesis unfolding p using m1 by auto
  next
    case False
    then have k: "0 < n - k" "1 \<le> n - k" using b by auto
    show ?thesis
    proof (cases "translate c mode f (va + of_nat k) True")
      case None
      obtain c' where "Trap (faulted ?c mode (va + of_nat k)) STORE_PAGE_FAULT False = Inr c'" "cpu_memory c' = m1"
          "page_fault_entered STORE_PAGE_FAULT (va + of_nat k) c c'"
        using Trap_page_fault [of STORE_PAGE_FAULT "faulted ?c mode (va + of_nat k)"] by auto
      with False k None V2P_fault [OF am(2,1), of "va + of_nat k" True] m1(3) show ?thesis unfolding p by simp
    next
      case (Some r)
      obtain pa2 f2 where r: "r = (pa2, f2)" by (cases r)
      obtain m2 where m2: "VirtualToPhysical ?c (va + of_nat k) True = Inr (pa2, c\<lparr>cpu_memory := m2\<rparr>)" "mem_wf m2" "mem_abs m2 = f2"
        using V2P_success [OF am(2,1), of "va + of_nat k" True pa2 f2] Some r m1(3) unfolding same by auto
      obtain m3 where "StoreWd m2 pa2 (drop_bit (k * 8) v) (n - k) = Inr m3" "mem_wf m3"
          "mem_abs m3 = write_bytes f2 (ucast pa2) (le_bytes (drop_bit (k * 8) v) (n - k))"
        using StoreWd_abs [OF m2(2) k(2) b(4), of pa2 "drop_bit (k * 8) v"] m2(3) by blast
      with False k Some r m2(1) assms(2) show ?thesis unfolding p by (auto simp: mult.commute)
    qed
  qed
qed

lemma StoreInstruction_translate:
  assumes "mem_wf (cpu_memory c)" "\<not> cpu_page_fault c" "access_mode c = Inr mode" "GetStoreWidth i = Inr n"
  shows "case stored_bytes c mode (mem_abs (cpu_memory c)) (cpu_reg c rs1 + scast imm) (cpu_reg c rs2) n of
      (f, Inl va) \<Rightarrow> \<exists>c'. StoreInstruction c i rs1 rs2 imm = Inr c' \<and> mem_abs (cpu_memory c') = f \<and> page_fault_entered STORE_PAGE_FAULT va c c'
    | (f, Inr pa) \<Rightarrow> \<exists>m'. mem_wf m' \<and> mem_abs m' = f \<and> StoreInstruction c i rs1 rs2 imm =
        Inr (c\<lparr>cpu_mmu := used_mmu c mode, cpu_memory := m',
          cpu_peripheral := CheckDeviceWrite (cpu_peripheral c) pa n (cpu_reg c rs2)\<rparr>)"
proof (cases "translate c mode (mem_abs (cpu_memory c)) (cpu_reg c rs1 + scast imm) True")
  case None
  let ?a = "cpu_reg c rs1 + scast imm"
  obtain c' where "Trap (faulted c mode ?a) STORE_PAGE_FAULT False = Inr c'" "cpu_memory c' = cpu_memory c" "page_fault_entered STORE_PAGE_FAULT ?a c c'"
    using Trap_page_fault [of STORE_PAGE_FAULT "faulted c mode ?a"] by auto
  with None V2P_fault [OF assms(1,3) None] show ?thesis by (simp add: stored_bytes_def StoreInstruction_def)
next
  case (Some r)
  let ?a = "cpu_reg c rs1 + scast imm"
  obtain pa f1 where r: "r = (pa, f1)" by (cases r)
  obtain m1 where m1: "VirtualToPhysical c ?a True = Inr (pa, c\<lparr>cpu_mmu := used_mmu c mode, cpu_memory := m1\<rparr>)" "mem_wf m1" "mem_abs m1 = f1"
    using V2P_success [OF assms(1,3) Some [unfolded r]] .
  define d k where "d = c\<lparr>cpu_mmu := used_mmu c mode, cpu_memory := m1\<rparr>" and "k = min n (8 - unat ?a mod 8)"
  have d: "mem_wf (cpu_memory d)" "\<not> cpu_page_fault d" "access_mode d = Inr mode" "cpu_mmu d = used_mmu d mode" "mem_abs (cpu_memory d) = f1"
      "translate d = translate c" "page_fault_entered cause va d = page_fault_entered cause va c" for cause va
    using assms m1(2,3) by (simp_all add: d_def)
  have e: "StoreInstruction c i rs1 rs2 imm = rbind (store_parts d ?a pa (cpu_reg c rs2) n) (\<lambda>(stored, c).
      if stored then Inr (c\<lparr>cpu_peripheral := CheckDeviceWrite (cpu_peripheral c) pa n (cpu_reg c rs2)\<rparr>) else Inr c)"
    using assms m1(1) by (simp add: StoreInstruction_def Let_def d_def)
  note p = store_parts_translate [OF d(1-3) widths(2) [OF assms(4)] k_def d(4) refl, unfolded d(5-7)]
  have c: "cpu_peripheral d = cpu_peripheral c" "d\<lparr>cpu_memory := m'\<rparr> = c\<lparr>cpu_mmu := used_mmu c mode, cpu_memory := m'\<rparr>" for m' by (simp_all add: d_def)
  show ?thesis
  proof (cases "k = n")
    case True
    with p [of pa "cpu_reg c rs2"] Some show ?thesis by (auto simp: stored_bytes_def r Let_def e c k_def [symmetric])
  next
    case False
    with p [of pa "cpu_reg c rs2"] Some show ?thesis
      by (auto simp: stored_bytes_def r Let_def e c k_def [symmetric] split: option.splits)
  qed
qed

section \<open>Atomic memory operations\<close>

text \<open>On an address that does not translate, an atomic operation is performed at the \<^emph>\<open>untranslated\<close> address, and no trap is taken: only the
  flag of the page fault stays set.\<close>

lemma faulted_again: "faulted (faulted c mode va) mode va = faulted c mode va"
  by (simp add: faulted_def used_mmu_def)

lemma faulted_upd [simp]:
  "access_mode (faulted c mode va) = access_mode c" "translate (faulted c mode va) = translate c" "cpu_reg (faulted c mode va) = cpu_reg c"
  by (simp_all add: faulted_def access_mode_def translate_def fun_eq_iff Let_def)

lemma pt_translate_None: "pt_translate sc f root va False = None \<longleftrightarrow> pt_translate sc f root va True = None"
  by (auto simp: pt_translate_def split: option.splits)

lemma translate_None: "translate c mode f va False = None \<Longrightarrow> translate c mode f va True = None"
  by (auto simp: translate_def Let_def pt_translate_None split: if_splits)

lemma AmoInstruction_fault:
  assumes "mem_wf (cpu_memory c)" "access_mode c = Inr mode" "translate c mode (mem_abs (cpu_memory c)) (cpu_reg c rs1) False = None"
    "(wop, op) \<in> set amo_words"
  shows "\<exists>m' t. t = le_word (read_bytes (mem_abs (cpu_memory c)) (ucast (cpu_reg c rs1)) 8) \<and>
    AmoInstruction c op rd rs1 rs2 = Inr (set_reg rd t ((faulted c mode (cpu_reg c rs1))\<lparr>cpu_memory := m'\<rparr>)) \<and> mem_wf m' \<and>
    mem_abs m' = write_bytes (mem_abs (cpu_memory c)) (ucast (cpu_reg c rs1)) (le_bytes (amo_spec op t (cpu_reg c rs2)) 8)"
proof -
  let ?a = "cpu_reg c rs1" and ?d = "faulted c mode (cpu_reg c rs1)" and ?t = "le_word (read_bytes (mem_abs (cpu_memory c)) (ucast (cpu_reg c rs1)) 8)"
  have v: "VirtualToPhysical c ?a False = Inr (?a, ?d)" "VirtualToPhysical ?d ?a True = Inr (?a, ?d)"
    using V2P_fault [OF assms(1-3)] V2P_fault [of ?d mode ?a True] assms(1,2) translate_None [OF assms(3)] by (simp_all add: faulted_again)
  obtain m' where "StoreWd (cpu_memory c) ?a (amo_spec op ?t (cpu_reg c rs2)) 8 = Inr m'" "mem_wf m'"
      "mem_abs m' = write_bytes (mem_abs (cpu_memory c)) (ucast ?a) (le_bytes (amo_spec op ?t (cpu_reg c rs2)) 8)"
    using StoreWd_abs [OF assms(1), of 8] by auto
  with v amo_value_D [OF assms(4)] LoadWd_abs [OF assms(1), of 8 ?a] show ?thesis by (auto simp: AmoInstruction_def Let_def)
qed

section \<open>Instruction fetch\<close>

text \<open>
  The instruction at an even program counter: its first halfword and, unless it is a compressed instruction, its second one.  A second halfword in
  the next 32-bit word is translated on its own, so that an instruction may lie across two pages.
\<close>

definition half :: "bytes \<Rightarrow> u32 \<Rightarrow> u32" where
  "half f a = ucast (le_word (read_bytes f a 2))"

definition fetch_word :: "'w cpu \<Rightarrow> PrivilegeMode \<Rightarrow> bytes \<Rightarrow> u64 \<Rightarrow> bytes \<times> (u64 + u32)" where
  "fetch_word c mode f pc =
     (case translate c mode f pc False of
        None \<Rightarrow> (f, Inl pc)
      | Some (pa, f1) \<Rightarrow>
          let lo = half f1 (ucast pa)
          in if lo AND 3 \<noteq> 3 then (f1, Inr lo)
             else if \<not> bit pc 1 then (f1, Inr (lo OR push_bit 16 (half f1 (ucast pa + 2))))
             else case translate c mode f1 (pc + 2) False of
                    None \<Rightarrow> (f1, Inl (pc + 2))
                  | Some (pa2, f2) \<Rightarrow> (f2, Inr (lo OR push_bit 16 (half f2 (ucast pa2)))))"

definition aligned_word :: "bytes \<Rightarrow> u64 \<Rightarrow> u32" where
  "aligned_word f a = ucast (le_word (read_bytes f (ucast (push_bit 2 (drop_bit 2 a))) 4))"

lemma Read32_aligned_word: "mem_wf m \<Longrightarrow> Read32 m (push_bit 2 (drop_bit 2 a)) = Inr (aligned_word (mem_abs m) a)"
proof -
  have "take_bit 2 (push_bit 2 (drop_bit 2 a)) = (0 :: u64)" by (rule bit_word_eqI) (simp add: bit_simps)
  then have "push_bit 2 (drop_bit 2 a) AND (3 :: u64) = 0" by (simp only: and_literal_masks)
  then show "mem_wf m \<Longrightarrow> Read32 m (push_bit 2 (drop_bit 2 a)) = Inr (aligned_word (mem_abs m) a)" by (simp add: Read32_abs aligned_word_def)
qed

lemma bit_half: "bit (half f a) n \<Longrightarrow> n < 16"
  by (auto simp: half_def bit_ucast_iff bit_le_word div_less_iff_less_mult)

lemma word_halves:
  "ucast (le_word (read_bytes f a 4)) = half f a OR push_bit 16 (half f (a + 2))"
proof -
  have "read_bytes f a 4 = read_bytes f a 2 @ read_bytes f (a + 2) 2" using read_bytes_append [of f a 2 2] by simp
  then have "le_word (read_bytes f a 4) = le_word (read_bytes f a 2) OR push_bit 16 (le_word (read_bytes f (a + 2) 2))" by (simp add: le_word_append)
  then show ?thesis by (auto intro!: bit_word_eqI simp: half_def bit_simps)
qed

lemma half_mask:
  "half f a AND 0xFFFF = half f a" "(half f a OR push_bit 16 x) AND 0xFFFF = half f a"
  "(half f a OR push_bit 16 x) AND 3 = half f a AND 3" "drop_bit 16 (half f a OR push_bit 16 (half f b)) AND 0xFFFF = half f b"
  by (auto intro!: bit_word_eqI simp: and_literal_masks bit_simps dest: bit_half)

text \<open>The aligned word that the code reads, for both alignments of the halfword.\<close>

lemma aligned_word_halves:
  "take_bit 2 a = 0 \<Longrightarrow> aligned_word f a = half f (ucast a) OR push_bit 16 (half f (ucast a + 2))"
  "take_bit 2 a = 2 \<Longrightarrow> drop_bit 16 (aligned_word f a) AND 0xFFFF = half f (ucast a)"
proof -
  let ?b = "push_bit 2 (drop_bit 2 a)"
  have a: "?b + take_bit 2 a = a" by (rule bits_ident)
  show "take_bit 2 a = 0 \<Longrightarrow> aligned_word f a = half f (ucast a) OR push_bit 16 (half f (ucast a + 2))"
    using a by (simp add: aligned_word_def word_halves)
  assume "take_bit 2 a = 2"
  then have "(ucast ?b :: u32) + 2 = ucast a" using a ucast_down_add [of ?b 2, where 'b = 32] by simp
  then show "drop_bit 16 (aligned_word f a) AND 0xFFFF = half f (ucast a)" by (simp only: aligned_word_def word_halves half_mask)
qed

lemma take_bit_2_cases:
  fixes pc :: u64
  assumes "\<not> bit pc 0"
  shows "take_bit 2 pc = (if bit pc 1 then 2 else 0)"
  using assms by (auto intro!: bit_word_eqI simp: bit_take_bit_iff bit_2_iff less_2_cases_iff)

lemma and_2_iff: "(pc :: u64) AND 2 = 2 \<longleftrightarrow> bit pc 1"
proof -
  have "pc AND 2 = (if bit pc 1 then 2 else 0)" by (auto intro!: bit_word_eqI simp: bit_and_iff bit_2_iff)
  then show ?thesis by simp
qed

lemma translate_take_bit_2:
  assumes "translate c mode f va w = Some (pa, g)"
  shows "take_bit 2 pa = take_bit 2 va"
proof -
  have "take_bit 2 (take_bit 12 pa) = take_bit 2 (take_bit 12 va)" by (simp only: translate_offset [OF assms])
  then show ?thesis by (simp add: take_bit_take_bit)
qed

lemma LoadCmd_fault:
  assumes "mem_wf (cpu_memory c)" "access_mode c = Inr mode" "translate c mode (mem_abs (cpu_memory c)) pc False = None"
  shows "\<exists>ir. LoadCmd c pc = Inr (ir, faulted c mode pc)"
  using V2P_fault [OF assms] Read32_aligned_word [OF assms(1), of pc] by (auto simp: LoadCmd_def Let_def)

text \<open>The first word has been read, in the state \<open>d\<close> after the first translation.\<close>

lemma LoadCmd_first:
  assumes "VirtualToPhysical c pc False = Inr (pa, d)" "mem_wf (cpu_memory d)" "\<not> cpu_page_fault d" "\<not> bit pc 0" "take_bit 2 pa = take_bit 2 pc"
    "lo = half (mem_abs (cpu_memory d)) (ucast pa)"
  shows "LoadCmd c pc =
    (if lo AND 3 \<noteq> 3 then Inr (lo, d)
     else if \<not> bit pc 1 then Inr (lo OR push_bit 16 (half (mem_abs (cpu_memory d)) (ucast pa + 2)), d)
     else rbind (VirtualToPhysical d (pc + 2) False) (\<lambda>(pa2, d).
       rbind (Read32 (cpu_memory d) (push_bit 2 (drop_bit 2 pa2))) (\<lambda>w. Inr (lo OR push_bit 16 (w AND 0xFFFF), d))))"
proof -
  let ?f = "mem_abs (cpu_memory d)"
  have lo: "lo AND 0xFFFF = lo" "(lo OR push_bit 16 x) AND 3 = lo AND 3" "(lo OR push_bit 16 x) AND 0xFFFF = lo" for x
    unfolding assms(6) by (rule half_mask)+
  show ?thesis
  proof (cases "bit pc 1")
    case True
    then have "take_bit 2 pa = 2" using take_bit_2_cases [OF assms(4)] assms(5) by simp
    then have w: "drop_bit 16 (aligned_word ?f pa) AND 0xFFFF = lo" using aligned_word_halves(2) assms(6) by simp
    have x: "(case r of (pa2, d) \<Rightarrow> rbind (Read32 (cpu_memory d) (push_bit 2 (drop_bit 2 pa2))) (\<lambda>w. Inr (lo OR push_bit 16 (w AND 0xFFFF), d))) =
        rbind (case r of (pa2, d) \<Rightarrow> rbind (Read32 (cpu_memory d) (push_bit 2 (drop_bit 2 pa2))) (\<lambda>w. Inr (lo OR push_bit 16 (w AND 0xFFFF), d)))
          (\<lambda>(cmd, d). Inr (if cmd AND 3 = 3 then cmd else cmd AND 0xFFFF, d))" if "lo AND 3 = 3" for r
      using that by (cases r; cases "Read32 (cpu_memory (snd r)) (push_bit 2 (drop_bit 2 (fst r)))") (auto simp: lo simp del: push_bit_and)
    show ?thesis
      unfolding LoadCmd_def assms(1) rbind_Inr prod.case Read32_aligned_word [OF assms(2)] Let_def and_2_iff if_P [OF True] w
      using assms(3) True lo(1)
      by (cases "lo AND 3 = 3"; cases "VirtualToPhysical d (pc + 2) False") (simp_all add: lo x [symmetric] del: push_bit_and)
  next
    case False
    then have "take_bit 2 pa = 0" using take_bit_2_cases [OF assms(4)] assms(5) by simp
    then have w: "aligned_word ?f pa = lo OR push_bit 16 (half ?f (ucast pa + 2))" using aligned_word_halves(1) assms(6) by simp
    show ?thesis
      unfolding LoadCmd_def assms(1) rbind_Inr prod.case Read32_aligned_word [OF assms(2)] Let_def and_2_iff w
      using False by (simp add: lo)
  qed
qed

lemma LoadCmd_translate:
  assumes "mem_wf (cpu_memory c)" "\<not> cpu_page_fault c" "access_mode c = Inr mode" "\<not> bit pc 0"
  shows "case fetch_word c mode (mem_abs (cpu_memory c)) pc of
      (f, Inl va) \<Rightarrow> \<exists>ir m'. LoadCmd c pc = Inr (ir, (faulted c mode va)\<lparr>cpu_memory := m'\<rparr>) \<and> mem_abs m' = f
    | (f, Inr ir) \<Rightarrow> \<exists>m'. LoadCmd c pc = Inr (ir, c\<lparr>cpu_mmu := used_mmu c mode, cpu_memory := m'\<rparr>) \<and> mem_wf m' \<and> mem_abs m' = f"
proof (cases "translate c mode (mem_abs (cpu_memory c)) pc False")
  case None
  have "(faulted c mode pc)\<lparr>cpu_memory := cpu_memory c\<rparr> = faulted c mode pc" by (cases c) (simp add: faulted_def)
  with None LoadCmd_fault [OF assms(1,3) None] show ?thesis by (auto simp: fetch_word_def intro!: exI [of _ "cpu_memory c"])
next
  case (Some r)
  obtain pa f1 where r: "r = (pa, f1)" by (cases r)
  obtain m1 where m1: "VirtualToPhysical c pc False = Inr (pa, c\<lparr>cpu_mmu := used_mmu c mode, cpu_memory := m1\<rparr>)" "mem_wf m1" "mem_abs m1 = f1"
    using V2P_success [OF assms(1,3) Some [unfolded r]] .
  define d lo where "d = c\<lparr>cpu_mmu := used_mmu c mode, cpu_memory := m1\<rparr>" and "lo = half f1 (ucast pa)"
  have d: "mem_wf (cpu_memory d)" "\<not> cpu_page_fault d" "access_mode d = Inr mode" "mem_abs (cpu_memory d) = f1" "translate d = translate c"
      "d\<lparr>cpu_mmu := used_mmu d mode, cpu_memory := m'\<rparr> = c\<lparr>cpu_mmu := used_mmu c mode, cpu_memory := m'\<rparr>" for m'
    using assms m1(2,3) by (simp_all add: d_def)
  note l = LoadCmd_first [OF m1(1) [folded d_def] d(1,2) assms(4) translate_take_bit_2 [OF Some [unfolded r]], unfolded d(4), OF lo_def]
  have spec: "fetch_word c mode (mem_abs (cpu_memory c)) pc =
      (if lo AND 3 \<noteq> 3 then (f1, Inr lo) else if \<not> bit pc 1 then (f1, Inr (lo OR push_bit 16 (half f1 (ucast pa + 2))))
       else case translate c mode f1 (pc + 2) False of None \<Rightarrow> (f1, Inl (pc + 2))
         | Some (pa2, f2) \<Rightarrow> (f2, Inr (lo OR push_bit 16 (half f2 (ucast pa2)))))"
    unfolding fetch_word_def Some r option.case prod.case Let_def lo_def ..
  show ?thesis
  proof (cases "lo AND 3 = 3 \<and> bit pc 1")
    case False
    then show ?thesis unfolding spec l using m1(2,3) by (auto simp: d_def)
  next
    case True
    show ?thesis
    proof (cases "translate c mode f1 (pc + 2) False")
      case None
      have "LoadCmd c pc = Inr (lo OR push_bit 16 (aligned_word f1 (pc + 2) AND 0xFFFF), faulted d mode (pc + 2))"
        using True V2P_fault [OF d(1,3), of "pc + 2" False] None Read32_aligned_word [OF d(1)] d(4,5) unfolding l by simp
      moreover have "faulted d mode (pc + 2) = (faulted c mode (pc + 2))\<lparr>cpu_memory := m1\<rparr>" by (simp add: d_def faulted_def)
      ultimately show ?thesis using True None m1(3) unfolding spec by auto
    next
      case (Some r2)
      obtain pa2 f2 where r2: "r2 = (pa2, f2)" by (cases r2)
      obtain m2 where m2: "VirtualToPhysical d (pc + 2) False = Inr (pa2, c\<lparr>cpu_mmu := used_mmu c mode, cpu_memory := m2\<rparr>)" "mem_wf m2" "mem_abs m2 = f2"
        using V2P_success [OF d(1,3), of "pc + 2" False pa2 f2] Some r2 d(4,5) unfolding d(6) by auto
      have "pc + 2 = (drop_bit 2 pc + 1) * 2 ^ 2"
        using bits_ident [of 2 pc] take_bit_2_cases [OF assms(4)] True by (simp add: push_bit_eq_mult algebra_simps)
      then have "take_bit 2 pa2 = 0" using translate_take_bit_2 [OF Some [unfolded r2]] by (simp only: take_bit_multiple)
      then have "aligned_word f2 pa2 AND 0xFFFF = half f2 (ucast pa2)" by (simp only: aligned_word_halves(1) half_mask)
      with True m2(1) m2(2) m2(3) Read32_aligned_word [OF m2(2), of pa2]
      have "LoadCmd c pc = Inr (lo OR push_bit 16 (half f2 (ucast pa2)), c\<lparr>cpu_mmu := used_mmu c mode, cpu_memory := m2\<rparr>)" unfolding l by (simp del: push_bit_and)
      with True Some r2 m2(2,3) show ?thesis unfolding spec by auto
    qed
  qed
qed

lemma LoadCmd_stale:
  assumes "mem_wf (cpu_memory c)" "cpu_page_fault c" "access_mode c = Inr mode" "translate c mode (mem_abs (cpu_memory c)) pc False \<noteq> None"
  shows "\<exists>ir m'. LoadCmd c pc = Inr (ir, c\<lparr>cpu_mmu := used_mmu c mode, cpu_memory := m'\<rparr>)"
proof -
  obtain pa f where "translate c mode (mem_abs (cpu_memory c)) pc False = Some (pa, f)" using assms(4) by (cases "translate c mode (mem_abs (cpu_memory c)) pc False") auto
  then obtain m' where "VirtualToPhysical c pc False = Inr (pa, c\<lparr>cpu_mmu := used_mmu c mode, cpu_memory := m'\<rparr>)" "mem_wf m'"
    using V2P_success [OF assms(1,3)] by blast
  with assms(2) Read32_aligned_word [of m' pa] show ?thesis by (auto simp: LoadCmd_def Let_def)
qed

lemma fetch_stale:
  assumes "mem_wf (cpu_memory c)" "cpu_page_fault c" "access_mode c = Inr mode" "translate c mode (mem_abs (cpu_memory c)) (cpu_pc c) False \<noteq> None"
  shows "\<exists>c'. fetch_execute h c = Inr c' \<and> page_fault_entered INSTRUCTION_PAGE_FAULT (cpu_faulting_address c) c c'"
proof -
  obtain ir m' where l: "LoadCmd c (cpu_pc c) = Inr (ir, c\<lparr>cpu_mmu := used_mmu c mode, cpu_memory := m'\<rparr>)" using LoadCmd_stale [OF assms] by blast
  let ?d = "c\<lparr>cpu_mmu := used_mmu c mode, cpu_memory := m', cpu_ir := ir\<rparr>"
  obtain c' where "Trap ?d INSTRUCTION_PAGE_FAULT False = Inr c'" "page_fault_entered INSTRUCTION_PAGE_FAULT (cpu_faulting_address c) ?d c'"
    using Trap_page_fault [of INSTRUCTION_PAGE_FAULT ?d "cpu_faulting_address c"] by auto
  with l assms(2) show ?thesis by (simp add: fetch_execute_def)
qed

section \<open>A hart with a gigapage\<close>

text \<open>Supervisor mode, the root table at \<open>0x1000\<close> with one leaf that maps the first gigabyte to \<open>0x40000000\<close>.\<close>

definition giga_memory :: memory where
  "giga_memory = (case Write64 MemoryWrapper 0x1000 0x100000CF of Inr m \<Rightarrow> m | Inl _ \<Rightarrow> MemoryWrapper)"

definition giga_bytes :: bytes where
  "giga_bytes = write_bytes (\<lambda>_. 0) 0x1000 (le_bytes 0x100000CF 8)"

definition giga_hart :: "PrivilegeMode \<Rightarrow> (u32 \<Rightarrow> u64) \<Rightarrow> unit cpu" where
  "giga_hart mode reg =
     set_csr SATP 0x8000000000000001 ((blank_hart True)\<lparr>cpu_privilege := mode, cpu_memory := giga_memory, cpu_reg := reg\<rparr>)"

lemma giga_memory_abs: "mem_wf giga_memory" "mem_abs giga_memory = giga_bytes"
proof -
  obtain m where "Write64 MemoryWrapper 0x1000 0x100000CF = Inr m" "mem_wf m"
      "mem_abs m = write_bytes (mem_abs MemoryWrapper) 0x1000 (le_bytes 0x100000CF 8)"
    using Write64_abs [OF mem_wf_MemoryWrapper, of "0x1000" "0x100000CF"] by auto
  then show "mem_wf giga_memory" "mem_abs giga_memory = giga_bytes" by (simp_all add: giga_memory_def giga_bytes_def mem_abs_MemoryWrapper)
qed

lemma giga_hart_sel [simp]:
  "cpu_memory (giga_hart mode reg) = giga_memory" "cpu_reg (giga_hart mode reg) = reg" "cpu_privilege (giga_hart mode reg) = mode"
  "cpu_csrs (giga_hart mode reg) SATP = 0x8000000000000001" "cpu_mxl (giga_hart mode reg) = 2" "\<not> cpu_page_fault (giga_hart mode reg)"
  "cpu_pc (giga_hart mode reg) = 0" "cpu_next_pc (giga_hart mode reg) = 0"
  by (simp_all add: giga_hart_def bare_blank_hart) (simp_all add: blank_hart_def blank_cpu_def RiscvCpu_defs Let_def)

lemma giga_access: "mode \<noteq> MACHINE_MODE \<Longrightarrow> access_mode (giga_hart mode reg) = Inr mode"
  by (simp add: access_mode_def)

lemma giga_pte: "read_pte sv39 (write_bytes f 0x1000 (le_bytes 0x100000CF 8)) 0x1000 = 0x100000CF"
  using read_write_bytes [of "le_bytes 0x100000CF 8" f "0x1000"] by (simp add: read_pte_def gigapage_pte)

lemma giga_walk:
  "unat va < 2 ^ 30 \<Longrightarrow> pt_walk sv39 (write_bytes f 0x1000 (le_bytes 0x100000CF 8)) va 2 1 = Some (2, 0x100000CF, 0x1000)"
  by (simp add: pt_walk.simps [of sv39 _ va 2] Let_def va_index_def giga_pte)

lemma giga_marked: "write_bytes (write_bytes f a bs) a bs = write_bytes f a bs"
  by (simp add: write_bytes_def fun_eq_iff)

text \<open>Its second entry is empty, also when the timer register has been refreshed.\<close>

lemma giga_hole:
  "read_pte sv39 giga_bytes 0x1008 = 0" "read_pte sv39 (write_bytes giga_bytes (ucast kTimerMtime) (le_bytes t 8)) 0x1008 = 0"
proof -
  have "[0..<8] = [0, 1, 2, 3, 4, 5, 6, 7]" by (simp add: upt_rec)
  then show "read_pte sv39 giga_bytes 0x1008 = 0" "read_pte sv39 (write_bytes giga_bytes (ucast kTimerMtime) (le_bytes t 8)) 0x1008 = 0"
    by (simp_all add: read_pte_def read_bytes_def giga_bytes_def write_bytes_def)
qed

lemma giga_fault:
  assumes "read_pte sv39 g 0x1008 = 0" "mode \<noteq> MACHINE_MODE"
  shows "translate (giga_hart mode reg) mode g 0x40000000 w = None"
  using assms by (simp add: translate_def bitcrop_eq pt_translate_def pt_walk.simps [of sv39 _ _ 2] va_index_def Let_def)

lemma giga_translate:
  assumes "unat va < 2 ^ 30" "mode \<noteq> MACHINE_MODE" "g = write_bytes f 0x1000 (le_bytes 0x100000CF 8)"
  shows "translate (giga_hart mode reg) mode g va w = Some (of_nat (0x40000000 + unat va), g)"
proof -
  have "set_bit 6 (0x100000CF :: u64) = 0x100000CF" "set_bit 7 (0x100000CF :: u64) = 0x100000CF" by simp_all
  then have "pte_mark w 0x100000CF = 0x100000CF" by (simp add: pte_mark_def)
  with assms giga_walk [OF assms(1), of f] show ?thesis
    by (simp add: translate_def bitcrop_eq pt_translate_def pte_ppn_def giga_marked)
qed

section \<open>Properties\<close>

text \<open>C5: A load in any mode, with or without translation, returns.  If its address translates, \<open>rd\<close> receives the extended little-endian value of the
  bytes at the physical address, and memory changes only in the accessed bit of the leaf and in the refreshed timer register.  If not, the load page fault
  handler is entered with the faulting address, and no register changes.  A load that crosses a 64-bit boundary continues at the translation of the
  physical, not the virtual, address of the boundary.\<close>

theorem paged_load:
  assumes "mem_wf (cpu_memory c)" "\<not> cpu_page_fault c" "access_mode c = Inr mode" "GetLoadWidth i = Inr n"
  shows "case loaded_bytes c mode (write_bytes (mem_abs (cpu_memory c)) (ucast kTimerMtime) (le_bytes (p_elapsed_cycles (cpu_peripheral c)) 8))
        (cpu_reg c rs1 + scast imm) n of
      (f, Inl va) \<Rightarrow> \<exists>c'. LoadInstruction c i rd rs1 imm = Inr c' \<and> mem_abs (cpu_memory c') = f \<and> page_fault_entered LOAD_PAGE_FAULT va c c'
    | (f, Inr (pa, bs)) \<Rightarrow> \<exists>m'. mem_wf m' \<and> mem_abs m' = f \<and> LoadInstruction c i rd rs1 imm =
        Inr (set_reg rd (load_spec i bs) (c\<lparr>cpu_mmu := used_mmu c mode, cpu_memory := m',
          cpu_peripheral := CheckDeviceRead (cpu_peripheral c) pa n\<rparr>))"
proof -
  obtain m0 where m0: "MemoryMappedValueUpdate (cpu_peripheral c) (cpu_memory c) = Inr m0" "mem_wf m0"
      "mem_abs m0 = write_bytes (mem_abs (cpu_memory c)) (ucast kTimerMtime) (le_bytes (p_elapsed_cycles (cpu_peripheral c)) 8)"
    by (rule MemoryMappedValueUpdate_abs [OF assms(1)])
  show ?thesis using LoadInstruction_translate [OF assms m0(1,2), of rd rs1 imm] unfolding m0(3) .
qed

theorem paged_load_witness:
  "\<exists>c'. LoadInstruction (giga_hart USER_MODE (\<lambda>_. 0x40000000)) INST_LD 5 6 0 = Inr c' \<and>
     page_fault_entered LOAD_PAGE_FAULT 0x40000000 (giga_hart USER_MODE (\<lambda>_. 0x40000000)) c'"
proof -
  let ?c = "giga_hart USER_MODE (\<lambda>_. 0x40000000)"
  let ?f = "write_bytes giga_bytes (ucast kTimerMtime) (le_bytes (p_elapsed_cycles (cpu_peripheral ?c)) 8)"
  have "translate ?c USER_MODE ?f 0x40000000 False = None" by (rule giga_fault [OF giga_hole(2)]) simp
  then have "loaded_bytes ?c USER_MODE ?f 0x40000000 8 = (?f, Inl 0x40000000)" by (simp add: loaded_bytes_def)
  then show ?thesis
    using paged_load [of ?c USER_MODE INST_LD 8 5 6 0] giga_memory_abs by (auto simp: giga_access GetLoadWidth_def)
qed

text \<open>C6: A store in any mode returns.  If its address translates, exactly the low bytes of \<open>rs2\<close> are written at the physical address, besides the
  accessed and dirty bits of the leaf.  If not, the store page fault handler is entered with the faulting address, and no register changes.  A store that crosses a
  64-bit boundary translates both parts, also into different pages; when the second part faults, the first one has been written.\<close>

theorem paged_store:
  assumes "mem_wf (cpu_memory c)" "\<not> cpu_page_fault c" "access_mode c = Inr mode" "GetStoreWidth i = Inr n"
  shows "case stored_bytes c mode (mem_abs (cpu_memory c)) (cpu_reg c rs1 + scast imm) (cpu_reg c rs2) n of
      (f, Inl va) \<Rightarrow> \<exists>c'. StoreInstruction c i rs1 rs2 imm = Inr c' \<and> mem_abs (cpu_memory c') = f \<and> page_fault_entered STORE_PAGE_FAULT va c c'
    | (f, Inr pa) \<Rightarrow> \<exists>m'. mem_wf m' \<and> mem_abs m' = f \<and> StoreInstruction c i rs1 rs2 imm =
        Inr (c\<lparr>cpu_mmu := used_mmu c mode, cpu_memory := m',
          cpu_peripheral := CheckDeviceWrite (cpu_peripheral c) pa n (cpu_reg c rs2)\<rparr>)"
  by (rule StoreInstruction_translate [OF assms])

theorem paged_store_witness:
  "\<exists>m'. mem_abs m' = write_bytes giga_bytes 0x40002000 (le_bytes 0x2000 8) \<and>
     StoreInstruction (giga_hart SUPERVISOR_MODE (\<lambda>_. 0x2000)) INST_SD 6 7 0 =
       Inr ((giga_hart SUPERVISOR_MODE (\<lambda>_. 0x2000))\<lparr>cpu_mmu := used_mmu (giga_hart SUPERVISOR_MODE (\<lambda>_. 0x2000)) SUPERVISOR_MODE, cpu_memory := m',
         cpu_peripheral := CheckDeviceWrite (cpu_peripheral (giga_hart SUPERVISOR_MODE (\<lambda>_. 0x2000))) 0x40002000 8 0x2000\<rparr>)"
proof -
  let ?c = "giga_hart SUPERVISOR_MODE (\<lambda>_. 0x2000)"
  have "translate ?c SUPERVISOR_MODE giga_bytes 0x2000 True = Some (0x40002000, giga_bytes)"
    using giga_translate [of "0x2000" SUPERVISOR_MODE giga_bytes "\<lambda>_. 0"] by (simp add: giga_bytes_def)
  then have "stored_bytes ?c SUPERVISOR_MODE giga_bytes 0x2000 0x2000 8 = (write_bytes giga_bytes 0x40002000 (le_bytes 0x2000 8), Inr 0x40002000)"
    by (simp add: stored_bytes_def Let_def)
  then show ?thesis
    using paged_store [of ?c SUPERVISOR_MODE INST_SD 8 6 7 0] giga_memory_abs by (auto simp: giga_access GetStoreWidth_def)
qed

text \<open>C7: Fetching at an even program counter, in any mode.  If the addresses of the instruction translate, the two or four bytes there are decoded
  and executed, also when they lie in different pages.  If one of them does not, the instruction page fault handler is entered with the address of the
  halfword that faulted, and nothing is executed.\<close>

theorem paged_fetch:
  assumes "mem_wf (cpu_memory c)" "\<not> cpu_page_fault c" "access_mode c = Inr mode" "\<not> bit (cpu_pc c) 0"
  shows "case fetch_word c mode (mem_abs (cpu_memory c)) (cpu_pc c) of
      (f, Inl va) \<Rightarrow> \<exists>c'. fetch_execute h c = Inr c' \<and> mem_abs (cpu_memory c') = f \<and> page_fault_entered INSTRUCTION_PAGE_FAULT va c c'
    | (f, Inr ir) \<Rightarrow> \<exists>m'. mem_wf m' \<and> mem_abs m' = f \<and> fetch_execute h c =
        rbind (decode_execute h (c\<lparr>cpu_mmu := used_mmu c mode, cpu_memory := m', cpu_ir := ir\<rparr>)) (finish_step h)"
proof (cases "fetch_word c mode (mem_abs (cpu_memory c)) (cpu_pc c)")
  case (Pair f r)
  note l = LoadCmd_translate [OF assms, unfolded Pair prod.case]
  show ?thesis
  proof (cases r)
    case (Inl va)
    with l obtain ir m' where m': "LoadCmd c (cpu_pc c) = Inr (ir, (faulted c mode va)\<lparr>cpu_memory := m'\<rparr>)" "mem_abs m' = f" by auto
    let ?d = "(faulted c mode va)\<lparr>cpu_memory := m', cpu_ir := ir\<rparr>"
    obtain c' where "Trap ?d INSTRUCTION_PAGE_FAULT False = Inr c'" "cpu_memory c' = m'" "page_fault_entered INSTRUCTION_PAGE_FAULT va c c'"
      using Trap_page_fault [of INSTRUCTION_PAGE_FAULT ?d va] by auto
    with m' Pair Inl show ?thesis by (simp add: fetch_execute_def)
  next
    case (Inr ir)
    with l assms(2) Pair show ?thesis by (auto simp: fetch_execute_def)
  qed
qed

theorem paged_fetch_witness:
  "\<forall>h. \<exists>c'. fetch_execute h ((giga_hart SUPERVISOR_MODE (\<lambda>_. 0))\<lparr>cpu_pc := 0x40000000\<rparr>) = Inr c' \<and>
     page_fault_entered INSTRUCTION_PAGE_FAULT 0x40000000 ((giga_hart SUPERVISOR_MODE (\<lambda>_. 0))\<lparr>cpu_pc := 0x40000000\<rparr>) c'"
proof
  fix h :: "unit host"
  let ?c = "(giga_hart SUPERVISOR_MODE (\<lambda>_. 0))\<lparr>cpu_pc := 0x40000000\<rparr>"
  have "translate ?c SUPERVISOR_MODE giga_bytes 0x40000000 False = None"
    using giga_fault [OF giga_hole(1), of SUPERVISOR_MODE "\<lambda>_. 0" False] by (simp add: translate_def)
  then have "fetch_word ?c SUPERVISOR_MODE giga_bytes 0x40000000 = (giga_bytes, Inl 0x40000000)" by (simp add: fetch_word_def)
  moreover have "access_mode ?c = Inr SUPERVISOR_MODE" by (simp add: access_mode_def)
  ultimately show "\<exists>c'. fetch_execute h ?c = Inr c' \<and> page_fault_entered INSTRUCTION_PAGE_FAULT 0x40000000 ?c c'"
    using paged_fetch [of ?c SUPERVISOR_MODE h] giga_memory_abs by (auto simp: bit_simps)
qed

text \<open>C33: An atomic doubleword operation on an address that does not translate takes no trap: it reads and overwrites the eight bytes at the same
  \<^emph>\<open>physical\<close> address and writes \<open>rd\<close>.  The fault is reported when the next instruction is fetched, as an instruction page fault, with the address
  of the data.\<close>

theorem amo_page_fault:
  assumes "mem_wf (cpu_memory c)" "access_mode c = Inr mode" "translate c mode (mem_abs (cpu_memory c)) (cpu_reg c rs1) False = None"
    "(wop, op) \<in> set amo_words"
  shows "\<exists>c' t. t = le_word (read_bytes (mem_abs (cpu_memory c)) (ucast (cpu_reg c rs1)) 8) \<and> AmoInstruction c op rd rs1 rs2 = Inr c' \<and>
    mem_abs (cpu_memory c') = write_bytes (mem_abs (cpu_memory c)) (ucast (cpu_reg c rs1)) (le_bytes (amo_spec op t (cpu_reg c rs2)) 8) \<and>
    cpu_reg c' = (cpu_reg c)(rd := t) \<and> cpu_privilege c' = cpu_privilege c \<and> cpu_next_pc c' = cpu_next_pc c \<and>
    (translate c mode (mem_abs (cpu_memory c')) (cpu_next_pc c) False \<noteq> None \<longrightarrow>
      (\<exists>c2. fetch_execute h (c'\<lparr>cpu_pc := cpu_next_pc c'\<rparr>) = Inr c2 \<and>
        page_fault_entered INSTRUCTION_PAGE_FAULT (cpu_reg c rs1) (c'\<lparr>cpu_pc := cpu_next_pc c'\<rparr>) c2))"
proof -
  let ?t = "le_word (read_bytes (mem_abs (cpu_memory c)) (ucast (cpu_reg c rs1)) 8)"
  obtain m' where m': "AmoInstruction c op rd rs1 rs2 = Inr (set_reg rd ?t ((faulted c mode (cpu_reg c rs1))\<lparr>cpu_memory := m'\<rparr>))" "mem_wf m'"
      "mem_abs m' = write_bytes (mem_abs (cpu_memory c)) (ucast (cpu_reg c rs1)) (le_bytes (amo_spec op ?t (cpu_reg c rs2)) 8)"
    using AmoInstruction_fault [OF assms] by blast
  define e d where "e = set_reg rd ?t ((faulted c mode (cpu_reg c rs1))\<lparr>cpu_memory := m'\<rparr>)" and "d = e\<lparr>cpu_pc := cpu_next_pc c\<rparr>"
  have e: "cpu_memory e = m'" "cpu_reg e = (cpu_reg c)(rd := ?t)" "cpu_privilege e = cpu_privilege c" "cpu_next_pc e = cpu_next_pc c"
    by (simp_all add: e_def faulted_def set_reg_def)
  have d: "mem_wf (cpu_memory d)" "cpu_page_fault d" "cpu_faulting_address d = cpu_reg c rs1" "access_mode d = Inr mode" "cpu_pc d = cpu_next_pc c"
      "translate d = translate c" "cpu_memory d = m'"
    using m'(2) assms(2) by (auto simp: d_def e_def faulted_def set_reg_def access_mode_def translate_def fun_eq_iff Let_def split: if_splits)
  have "\<exists>c2. fetch_execute h d = Inr c2 \<and> page_fault_entered INSTRUCTION_PAGE_FAULT (cpu_reg c rs1) d c2"
    if "translate c mode (mem_abs m') (cpu_next_pc c) False \<noteq> None"
    using fetch_stale [OF d(1,2,4), of h] that unfolding d(3,5-7) by blast
  with m'(1,3) e d_def show ?thesis unfolding e_def [symmetric] by auto
qed

theorem amo_page_fault_witness:
  "\<exists>c'. AmoInstruction (giga_hart USER_MODE (\<lambda>_. 0x40000000)) INST_AMOSWAPD 5 6 7 = Inr c' \<and>
     mem_abs (cpu_memory c') = write_bytes giga_bytes 0x40000000 (le_bytes 0x40000000 8) \<and> cpu_next_pc c' = 0"
proof -
  have "(INST_AMOSWAPW, INST_AMOSWAPD) \<in> set amo_words" by (simp add: amo_words_def)
  from amo_page_fault [OF _ _ _ this, of "giga_hart USER_MODE (\<lambda>_. 0x40000000)" USER_MODE 6 5 7]
  show ?thesis using giga_memory_abs giga_fault [OF giga_hole(1)] by (auto simp: giga_access amo_spec_def dest!: meta_spec [of _ undefined])
qed

text \<open>The permission bits are not checked: a user-mode store to a page whose leaf lacks the bit \<open>U\<close>, where the architecture faults, is translated.\<close>

theorem permissions_ignored:
  "pt_walk sv39 giga_bytes 0x2000 2 1 = Some (2, 0x100000CF, 0x1000) \<and> \<not> bit (0x100000CF :: u64) 4 \<and>
   (\<exists>m'. Mmu_VirtualToPhysical (mmu_init\<lparr>mmu_mxl := 2, mmu_privilege := USER_MODE\<rparr>) giga_memory 0x2000 0x8000000000000001 True =
     Inr (0x40002000, mmu_init\<lparr>mmu_mxl := 2, mmu_privilege := USER_MODE\<rparr>, m'))"
proof (intro conjI)
  have "translate (giga_hart USER_MODE (\<lambda>_. 0)) USER_MODE giga_bytes 0x2000 True = Some (0x40002000, giga_bytes)"
    using giga_translate [of "0x2000" USER_MODE giga_bytes "\<lambda>_. 0"] by (simp add: giga_bytes_def)
  then have "\<exists>m'. Mmu_VirtualToPhysical (SetPrivilege (SetMxl mmu_init 2) USER_MODE) giga_memory 0x2000 0x8000000000000001 True =
      Inr (0x40002000, used_mmu (giga_hart USER_MODE (\<lambda>_. 0)) USER_MODE, m')"
    using Mmu_translate [OF giga_memory_abs(1), of mmu_init "giga_hart USER_MODE (\<lambda>_. 0)" USER_MODE "0x2000" True] giga_memory_abs(2) by auto
  then show "\<exists>m'. Mmu_VirtualToPhysical (mmu_init\<lparr>mmu_mxl := 2, mmu_privilege := USER_MODE\<rparr>) giga_memory 0x2000 0x8000000000000001 True =
      Inr (0x40002000, mmu_init\<lparr>mmu_mxl := 2, mmu_privilege := USER_MODE\<rparr>, m')"
    by (simp add: SetPrivilege_def SetMxl_def used_mmu_def mmu_init_def)
  show "pt_walk sv39 giga_bytes 0x2000 2 1 = Some (2, 0x100000CF, 0x1000)"
    by (simp add: giga_bytes_def giga_walk del: One_nat_def)
qed simp

text \<open>The second part of a split load is translated twice: with the first gigabyte mapped, a load at \<open>0x2005\<close> page-faults at the physical address of its second part.\<close>

theorem split_load_faults:
  "translate (giga_hart SUPERVISOR_MODE (\<lambda>_. 0x2005)) SUPERVISOR_MODE giga_bytes 0x2005 False \<noteq> None \<and>
   translate (giga_hart SUPERVISOR_MODE (\<lambda>_. 0x2005)) SUPERVISOR_MODE giga_bytes 0x2008 False \<noteq> None \<and>
   (\<exists>c'. LoadInstruction (giga_hart SUPERVISOR_MODE (\<lambda>_. 0x2005)) INST_LD 5 6 0 = Inr c' \<and>
     page_fault_entered LOAD_PAGE_FAULT 0x40002008 (giga_hart SUPERVISOR_MODE (\<lambda>_. 0x2005)) c')"
proof (intro conjI)
  let ?c = "giga_hart SUPERVISOR_MODE (\<lambda>_. 0x2005)"
  obtain m0 where m0: "MemoryMappedValueUpdate (cpu_peripheral ?c) (cpu_memory ?c) = Inr m0" "mem_wf m0"
      "mem_abs m0 = write_bytes (mem_abs (cpu_memory ?c)) (ucast kTimerMtime) (le_bytes (p_elapsed_cycles (cpu_peripheral ?c)) 8)"
    by (rule MemoryMappedValueUpdate_abs [of "cpu_memory ?c" "cpu_peripheral ?c"]) (simp_all add: giga_memory_abs)
  let ?t = "write_bytes (\<lambda>_. 0) (ucast kTimerMtime) (le_bytes (p_elapsed_cycles (cpu_peripheral ?c)) 8)"
  have f: "mem_abs m0 = write_bytes ?t 0x1000 (le_bytes 0x100000CF 8)"
    unfolding m0(3) giga_hart_sel giga_memory_abs giga_bytes_def
    by (rule ext) (auto simp: write_bytes_def word_less_nat_alt unat_sub_if' split: if_splits)
  have "translate ?c SUPERVISOR_MODE (mem_abs m0) 0x2005 False = Some (0x40002005, mem_abs m0)"
    using giga_translate [of "0x2005" SUPERVISOR_MODE _ ?t] f by simp
  moreover have "translate ?c SUPERVISOR_MODE (mem_abs m0) 0x40002008 False = None"
    using giga_hole(2) [of "p_elapsed_cycles (cpu_peripheral ?c)"] m0(3)
    by (simp add: giga_memory_abs translate_def bitcrop_eq pt_translate_def pt_walk.simps [of sv39 _ _ 2] va_index_def Let_def)
  ultimately have "loaded_bytes ?c SUPERVISOR_MODE (mem_abs m0) 0x2005 8 = (mem_abs m0, Inl 0x40002008)" by (simp add: loaded_bytes_def Let_def)
  then show "\<exists>c'. LoadInstruction ?c INST_LD 5 6 0 = Inr c' \<and> page_fault_entered LOAD_PAGE_FAULT 0x40002008 ?c c'"
    using LoadInstruction_translate [of ?c SUPERVISOR_MODE INST_LD 8 m0 5 6 0] m0(1,2) giga_memory_abs(1) by (auto simp: giga_access GetLoadWidth_def)
qed (use giga_translate [of _ SUPERVISOR_MODE giga_bytes "\<lambda>_. 0"] in \<open>simp_all add: giga_bytes_def translate_def\<close>)

end
