(* ===== verification/Device_Spec.thy ===== *)
theory Device_Spec
  imports Device_Inv
begin

text \<open>
  What the devices and the system calls transfer: the disk copies sectors between its image and guest memory, and the calls
  that read, write and open files pass exactly the guest's bytes to the host and back.
\<close>

section \<open>Disk\<close>

text \<open>\<open>bs\<close> with the bytes from \<open>off\<close> on replaced by \<open>xs\<close>.\<close>

definition overwrite :: "u8 list \<Rightarrow> nat \<Rightarrow> u8 list \<Rightarrow> u8 list" where
  "overwrite bs off xs = take off bs @ xs @ drop (off + length xs) bs"

lemma length_overwrite [simp]: "off + length xs \<le> length bs \<Longrightarrow> length (overwrite bs off xs) = length bs"
  by (simp add: overwrite_def)

lemma overwrite_snoc:
  assumes "off + length xs < length bs"
  shows "overwrite bs off (xs @ [x]) = (overwrite bs off xs)[off + length xs := x]"
proof -
  have "drop (off + length xs) bs = bs ! (off + length xs) # drop (Suc (off + length xs)) bs"
    using assms by (simp add: Cons_nth_drop_Suc)
  then show ?thesis using assms by (simp add: overwrite_def list_update_append)
qed

lemma take_drop_overwrite: "off + length xs \<le> length bs \<Longrightarrow> take (length xs) (drop off (overwrite bs off xs)) = xs"
  by (simp add: overwrite_def)

lemma disk_index: "off + k < 2 ^ 64 \<Longrightarrow> unat (of_nat off + of_nat k :: u64) = off + k"
  using unat_of_nat_small [where 'a = 64, of "off + k"] by simp

lemma disc_read:
  assumes "mem_wf m" "unat sector * 512 + unat len \<le> length bs" "length bs < 2 ^ 64"
  shows "\<exists>m'. disc_access (Some bs) m sector buf len False = Inr (Some bs, m') \<and> mem_wf m' \<and>
    mem_abs m' = write_bytes (mem_abs m) (ucast buf) (take (unat len) (drop (unat sector * 512) bs))"
proof -
  let ?off = "unat sector * 512"
  have s: "sector * kSectorSize = of_nat ?off" by simp
  have "unat len < 2 ^ 32" using unsigned_less [of len] by simp
  then have l: "unat len \<le> 2 ^ 32" by simp
  have "rfold (\<lambda>m k. rbind (disk_get (Some bs) (of_nat ?off + of_nat k)) (\<lambda>b. WriteByte m (buf + of_nat k) b)) m [0..<unat len] =
      rfold (\<lambda>m k. WriteByte m (buf + of_nat k) (bs ! (?off + k))) m [0..<unat len]"
  proof (rule rfold_cong_set)
    fix m1 k
    assume "k \<in> set [0..<unat len]"
    then have k: "?off + k < length bs" using assms(2) by simp
    then have "unat (of_nat ?off + of_nat k :: u64) = ?off + k" using assms(3) by (intro disk_index) simp
    with k show "rbind (disk_get (Some bs) (of_nat ?off + of_nat k)) (\<lambda>b. WriteByte m1 (buf + of_nat k) b) =
        WriteByte m1 (buf + of_nat k) (bs ! (?off + k))" by (simp add: disk_get_def)
  qed
  moreover have "map (\<lambda>k. bs ! (?off + k)) [0..<unat len] = take (unat len) (drop ?off bs)"
    using assms(2) by (intro nth_equalityI) simp_all
  ultimately show ?thesis
    using mw.wr_loop [OF assms(1) l, of buf "\<lambda>k. bs ! (?off + k)"] unfolding disc_access_def Let_def s by auto
qed

lemma disc_write:
  assumes "mem_wf m" "unat sector * 512 + unat len \<le> length bs" "length bs < 2 ^ 64"
  shows "disc_access (Some bs) m sector buf len True =
    Inr (Some (overwrite bs (unat sector * 512) (read_bytes (mem_abs m) (ucast buf) (unat len))), m)"
proof -
  let ?off = "unat sector * 512"
  have s: "sector * kSectorSize = of_nat ?off" by simp
  have "rfold (\<lambda>d k. rbind (ReadByte m (buf + of_nat k)) (\<lambda>b. disk_set d (of_nat ?off + of_nat k) b)) (Some bs) [0..<n] =
      Inr (Some (overwrite bs ?off (read_bytes (mem_abs m) (ucast buf) n)))" if "n \<le> unat len" for n
    using that
  proof (induction n)
    case 0
    then show ?case by (simp add: overwrite_def)
  next
    case (Suc n)
    then have n: "?off + n < length bs" using assms(2) by simp
    then have i: "unat (of_nat ?off + of_nat n :: u64) = ?off + n" using assms(3) by (intro disk_index) simp
    have b: "ReadByte m (buf + of_nat n) = Inr (mem_abs m (ucast buf + of_nat n))"
      by (simp add: ReadByte_abs [OF assms(1)] ucast_down_add ucast_down_of_nat)
    have "overwrite bs ?off (read_bytes (mem_abs m) (ucast buf) (Suc n)) =
        (overwrite bs ?off (read_bytes (mem_abs m) (ucast buf) n))[?off + n := mem_abs m (ucast buf + of_nat n)]"
      using overwrite_snoc [of ?off "read_bytes (mem_abs m) (ucast buf) n" bs] n by (simp add: read_bytes_snoc)
    with Suc n i b show ?case by (simp only: rfold_upt_Suc) (simp add: disk_set_def)
  qed
  then show ?thesis unfolding disc_access_def Let_def s by simp
qed

section \<open>System calls\<close>


lemma store_bytes_bytes:
  "mem_wf m \<Longrightarrow> n \<le> 2 ^ 32 \<Longrightarrow> \<exists>m'. store_bytes m a f n = Inr m' \<and> mem_wf m' \<and> mem_abs m' = write_bytes (mem_abs m) (ucast a) (map f [0..<n])"
  unfolding store_bytes_def by (rule mw.wr_loop)





lemma alloc_length_ok: "sint (ucast x :: u32) = int n \<Longrightarrow> alloc_length x = Inr n"
  by (simp add: alloc_length_def)


lemma sys_read_eq:
  assumes "mem_wf (sy_mem s)" "sint (ucast (sy_reg s A2) :: u32) = int n"
    and "h_read h (ucast (sy_reg s A0)) n (sy_world s) = ((rv, buffer), w)"
  shows "\<exists>m'. sys_read h s = Inr ((sys_reg (s\<lparr>sy_world := w\<rparr>) A0 (ucast (ucast rv :: u32)))\<lparr>sy_mem := m'\<rparr>) \<and> mem_wf m' \<and>
    mem_abs m' = write_bytes (mem_abs (sy_mem s)) (ucast (sy_reg s A1)) (map buffer [0..<n])"
proof -
  have "int n < 2 ^ 31" using sint_less [of "ucast (sy_reg s A2) :: u32"] assms(2) by simp
  then have "n \<le> 2 ^ 32" by simp
  with store_bytes_bytes [OF assms(1), of n "sy_reg s A1" buffer] show ?thesis
    by (auto simp: sys_read_def alloc_length_ok [OF assms(2)] assms(3) sys_reg_def Let_def)
qed


section \<open>Properties\<close>

text \<open>The disk: for a request inside the image, a read returns and stores the bytes of the image from the sector on at the buffer, and
  leaves the image alone; a write returns and replaces exactly these bytes of the image by the guest's buffer, and leaves memory alone.  Reading after a write
  gives the bytes that were written.\<close>

theorem disk_transfers:
  assumes "mem_wf m" "unat sector * 512 + unat len \<le> length bs" "length bs < 2 ^ 64"
  shows "(\<exists>m'. disc_access (Some bs) m sector buf len False = Inr (Some bs, m') \<and> mem_wf m' \<and>
      mem_abs m' = write_bytes (mem_abs m) (ucast buf) (take (unat len) (drop (unat sector * 512) bs))) \<and>
    disc_access (Some bs) m sector buf len True =
      Inr (Some (overwrite bs (unat sector * 512) (read_bytes (mem_abs m) (ucast buf) (unat len))), m) \<and>
    (\<exists>bs' m'. disc_access (Some bs) m sector buf len True = Inr (Some bs', m) \<and>
      disc_access (Some bs') m sector buf2 len False = Inr (Some bs', m') \<and>
      mem_abs m' = write_bytes (mem_abs m) (ucast buf2) (read_bytes (mem_abs m) (ucast buf) (unat len)))"
proof -
  let ?b = "overwrite bs (unat sector * 512) (read_bytes (mem_abs m) (ucast buf) (unat len))"
  have "take (unat len) (drop (unat sector * 512) ?b) = read_bytes (mem_abs m) (ucast buf) (unat len)"
    using take_drop_overwrite [of "unat sector * 512" "read_bytes (mem_abs m) (ucast buf) (unat len)" bs] assms(2) by simp
  moreover have "unat sector * 512 + unat len \<le> length ?b" "length ?b < 2 ^ 64" using assms(2,3) by simp_all
  ultimately have "\<exists>m'. disc_access (Some ?b) m sector buf2 len False = Inr (Some ?b, m') \<and>
      mem_abs m' = write_bytes (mem_abs m) (ucast buf2) (read_bytes (mem_abs m) (ucast buf) (unat len))"
    using disc_read [OF assms(1), of sector len ?b buf2] by auto
  with disc_read [OF assms, of buf] disc_write [OF assms, of buf] show ?thesis by blast
qed

theorem disk_transfers_witness:
  "\<exists>m'. disc_access (Some (replicate 1024 7)) MemoryWrapper 1 0x1000 4 False = Inr (Some (replicate 1024 7), m') \<and>
     mem_abs m' = write_bytes (mem_abs MemoryWrapper) 0x1000 [7, 7, 7, 7]"
proof -
  have "replicate 4 (7 :: u8) = [7, 7, 7, 7]" by (simp add: numeral_eq_Suc)
  then show ?thesis using disk_transfers [OF mem_wf_MemoryWrapper, of 1 4 "replicate 1024 7" "0x1000"] by auto
qed


text \<open>A failing host read: the guest sees \<open>0xFFFFFFFF\<close>, which a 64-bit guest takes for a large positive count.\<close>

theorem read_failure_code:
  assumes "mem_wf (sy_mem s)" "sint (ucast (sy_reg s A2) :: u32) = int n" "h_read h (ucast (sy_reg s A0)) n (sy_world s) = ((- 1, buffer), w)"
  shows "\<exists>s'. sys_read h s = Inr s' \<and> sy_reg s' A0 = 0xFFFFFFFF"
proof -
  have "ucast (ucast (- 1 :: u64) :: u32) = (0xFFFFFFFF :: u64)"
    by (simp add: unsigned_minus_1_eq_mask mask_eq_exp_minus_1)
  with sys_read_eq [OF assms(1,2), of h] assms(3) show ?thesis by (auto simp: sys_reg_def)
qed



end
