(* ===== verification/Virtio_Spec.thy ===== *)
theory Virtio_Spec
  imports Device_Spec Mmu
begin

text \<open>
  A request to the virtio block device, from the notification to the interrupt: the descriptor chain and the rings in guest memory, as
  \<open>VirtioEmulation\<close>, \<open>VirtioDiskAccess\<close>, \<open>process_disc_access\<close> and \<open>process_used_buffer\<close> of \<open>PeripheralEmulator.cpp\<close> go through them.
\<close>

section \<open>Structures in guest memory\<close>

definition reg16 :: "bytes \<Rightarrow> u32 \<Rightarrow> u16" where
  "reg16 f a = ucast (le_word (read_bytes f a 2))"

definition reg32 :: "bytes \<Rightarrow> u32 \<Rightarrow> u32" where
  "reg32 f a = ucast (le_word (read_bytes f a 4))"

definition desc_at :: "bytes \<Rightarrow> u32 \<Rightarrow> u16 \<Rightarrow> VRingDesc" where
  "desc_at f table i =
     (let a = table + ucast i * 16
      in \<lparr>vd_addr = le_word (read_bytes f a 8), vd_len = reg32 f (a + 8), vd_flags = reg16 f (a + 12), vd_next = reg16 f (a + 14)\<rparr>)"

definition outhdr_at :: "bytes \<Rightarrow> u32 \<Rightarrow> virtio_blk_outhdr" where
  "outhdr_at f a = \<lparr>oh_type = reg32 f a, oh_reserved = reg32 f (a + 4), oh_sector = le_word (read_bytes f (a + 8) 8)\<rparr>"

lemma aligned_offset:
  fixes a :: u64
  assumes "take_bit 3 a = 0" "take_bit k b = 0" "k \<le> 3"
  shows "take_bit k (a + b) = 0"
proof -
  have "2 ^ k dvd a" using assms(1,3) power_le_dvd [of 2 3 a k] by (simp add: take_bit_eq_0_iff)
  moreover have "2 ^ k dvd b" using assms(2) by (simp add: take_bit_eq_0_iff)
  ultimately show ?thesis by (simp add: take_bit_eq_0_iff dvd_add)
qed

lemma aligned_reads:
  fixes a :: u64
  assumes "mem_wf m" "take_bit 3 a = 0"
  shows "take_bit 3 b = 0 \<Longrightarrow> Read64 m (a + b) = Inr (le_word (read_bytes (mem_abs m) (ucast a + ucast b) 8))"
    and "take_bit 2 b = 0 \<Longrightarrow> Read32 m (a + b) = Inr (reg32 (mem_abs m) (ucast a + ucast b))"
    and "take_bit 1 b = 0 \<Longrightarrow> Read16 m (a + b) = Inr (reg16 (mem_abs m) (ucast a + ucast b))"
  using aligned_offset [OF assms(2), of 3 b] aligned_offset [OF assms(2), of 2 b] aligned_offset [OF assms(2), of 1 b]
  by (simp_all add: Read64_abs Read32_abs Read16_abs assms(1) reg32_def reg16_def and_literal_masks ucast_down_add)

lemma read_desc_abs:
  assumes "mem_wf m" "take_bit 3 table = 0"
  shows "read_desc m table i = Inr (desc_at (mem_abs m) (ucast table) i)"
proof -
  let ?a = "table + ucast i * 16"
  have "take_bit 3 (ucast i * 16 :: u64) = 0" using take_bit_multiple [of 3 "ucast i * 2 :: u64"] by (simp add: mult.commute)
  with assms(2) have a: "take_bit 3 ?a = 0" by (rule aligned_offset) simp
  have u: "(ucast ?a :: u32) = ucast table + ucast i * 16" by (simp add: ucast_down_add ucast_down_mult ucast_up_ucast ucast_down_ucast)
  show ?thesis
    using aligned_reads(1) [OF assms(1) a, of 0] aligned_reads(2) [OF assms(1) a, of 8] aligned_reads(3) [OF assms(1) a, of 12]
      aligned_reads(3) [OF assms(1) a, of 14]
    by (simp add: read_desc_def desc_at_def Let_def u)
qed

lemma read_outhdr_abs:
  assumes "mem_wf m" "take_bit 3 a = 0"
  shows "read_outhdr m a = Inr (outhdr_at (mem_abs m) (ucast a))"
  using aligned_reads(2) [OF assms, of 0] aligned_reads(2) [OF assms, of 4] aligned_reads(1) [OF assms, of 8]
  by (simp add: read_outhdr_def outhdr_at_def)

section \<open>The descriptor chain\<close>

text \<open>
  The transfer that the first two descriptors ask for, on disk image and memory, and the conditions under which the device carries it out: an aligned header,
  flags that match the direction, a sector range inside the image and, after the transfer, a status descriptor of one byte.
\<close>

definition transfer :: "virtio_blk_outhdr \<Rightarrow> VRingDesc \<Rightarrow> u8 list \<Rightarrow> bytes \<Rightarrow> u8 list \<times> bytes" where
  "transfer hdr data bs f =
     (let off = unat (oh_sector hdr) * 512; len = unat (vd_len data); buf = ucast (vd_addr data)
      in if oh_type hdr = 1 then (overwrite bs off (read_bytes f buf len), f)
         else (bs, write_bytes f buf (take len (drop off bs))))"

definition chain_ok :: "bytes \<Rightarrow> u8 list \<Rightarrow> u32 \<Rightarrow> u16 \<Rightarrow> bool" where
  "chain_ok f bs table head \<longleftrightarrow>
     (let first = desc_at f table head; hdr = outhdr_at f (ucast (vd_addr first)); data = desc_at f table (vd_next first);
          status = desc_at (snd (transfer hdr data bs f)) table (vd_next data)
      in take_bit 3 (vd_addr first) = 0 \<and> vd_flags first AND 1 = 1 \<and> (vd_flags data AND 2 = 0) = (oh_type hdr = 1) \<and>
         unat (oh_sector hdr) * 512 + unat (vd_len data) \<le> length bs \<and> vd_len status = 1 \<and> vd_flags status AND 3 = 2)"

definition chain_result :: "bytes \<Rightarrow> u8 list \<Rightarrow> u32 \<Rightarrow> u16 \<Rightarrow> u8 list \<times> bytes" where
  "chain_result f bs table head =
     (let first = desc_at f table head; hdr = outhdr_at f (ucast (vd_addr first)); data = desc_at f table (vd_next first);
          (bs', f') = transfer hdr data bs f; status = desc_at f' table (vd_next data)
      in (bs', f'(ucast (vd_addr status) := 0)))"

lemma disc_access_transfer:
  assumes "mem_wf m" "unat (oh_sector hdr) * 512 + unat (vd_len data) \<le> length bs" "length bs < 2 ^ 64" "transfer hdr data bs (mem_abs m) = (bs', f')"
  shows "\<exists>m'. disc_access (Some bs) m (oh_sector hdr) (vd_addr data) (vd_len data) (oh_type hdr = 1) = Inr (Some bs', m') \<and> mem_wf m' \<and> mem_abs m' = f'"
proof (cases "oh_type hdr = 1")
  case True
  with disc_write [OF assms(1-3), of "vd_addr data"] assms(1,4) show ?thesis by (auto simp: transfer_def Let_def)
next
  case False
  with disc_read [OF assms(1-3), of "vd_addr data"] assms(4) show ?thesis by (auto simp: transfer_def Let_def)
qed

lemma process_disc_access_chain:
  assumes "mem_wf m" "take_bit 3 table = 0" "chain_ok (mem_abs m) bs (ucast table) head" "length bs < 2 ^ 64"
    "chain_result (mem_abs m) bs (ucast table) head = (bs', f')"
  shows "\<exists>m'. process_disc_access (Some bs) m table head = Inr (Some bs', m') \<and> mem_wf m' \<and> mem_abs m' = f'"
proof -
  define first where "first = desc_at (mem_abs m) (ucast table) head"
  define hdr where "hdr = outhdr_at (mem_abs m) (ucast (vd_addr first))"
  define data where "data = desc_at (mem_abs m) (ucast table) (vd_next first)"
  obtain b1 f1 where t: "transfer hdr data bs (mem_abs m) = (b1, f1)" by fastforce
  define status where "status = desc_at f1 (ucast table) (vd_next data)"
  note defs = first_def [symmetric] hdr_def [symmetric] data_def [symmetric] t snd_conv status_def [symmetric]
  have ok: "take_bit 3 (vd_addr first) = 0" "vd_flags first AND 1 = 1" "(vd_flags data AND 2 = 0) = (oh_type hdr = 1)"
      "unat (oh_sector hdr) * 512 + unat (vd_len data) \<le> length bs" "vd_len status = 1" "vd_flags status AND 3 = 2"
    using assms(3) unfolding chain_ok_def Let_def defs by simp_all
  have r: "b1 = bs'" "f' = f1(ucast (vd_addr status) := 0)" using assms(5) unfolding chain_result_def Let_def defs by (auto simp: status_def)
  obtain m1 where m1: "disc_access (Some bs) m (oh_sector hdr) (vd_addr data) (vd_len data) (oh_type hdr = 1) = Inr (Some b1, m1)" "mem_wf m1" "mem_abs m1 = f1"
    using disc_access_transfer [OF assms(1) ok(4) assms(4) t] by blast
  obtain m2 where m2: "WriteByte m1 (vd_addr status) 0 = Inr m2" "mem_wf m2" "mem_abs m2 = f1(ucast (vd_addr status) := 0)"
    using WriteByte_abs [OF m1(2)] m1(3) by metis
  have "process_disc_access (Some bs) m table head = Inr (Some b1, m2)"
    unfolding process_disc_access_def read_desc_abs [OF assms(1,2)] rbind_Inr Let_def first_def [symmetric] read_outhdr_abs [OF assms(1) ok(1)]
      hdr_def [symmetric] data_def [symmetric]
    using ok(2,3,5,6) m1(1) m2(1) read_desc_abs [OF m1(2) assms(2), of "vd_next data"] by (simp add: m1(3) status_def [symmetric])
  with m2 r show ?thesis by auto
qed

section \<open>The used ring\<close>

text \<open>The device stores the entry at its index, which it does not reduce modulo the length of the ring.\<close>

definition used_slot :: "bytes \<Rightarrow> u32 \<Rightarrow> u16 \<Rightarrow> bytes" where
  "used_slot f used head =
     (let i = reg16 f (used + 2)
      in write_bytes (write_bytes f (used + 4 + ucast i * 8) (le_bytes (ucast head) 4 @ le_bytes 3 4)) (used + 2) (le_bytes (ucast (i + 1)) 2))"

lemma process_used_buffer_abs:
  assumes "mem_wf m" "take_bit 3 used = 0"
  shows "\<exists>m'. process_used_buffer m used head = Inr m' \<and> mem_wf m' \<and> mem_abs m' = used_slot (mem_abs m) (ucast used) head"
proof -
  let ?i = "reg16 (mem_abs m) (ucast used + 2)"
  let ?e = "used + 4 + ucast ?i * 8"
  have i8: "take_bit 3 (ucast ?i * 8 :: u64) = 0" using take_bit_multiple [of 3 "ucast ?i :: u64"] by simp
  have e: "?e AND 3 = 0" "(?e + 4) AND 3 = 0" "(used + 2) AND 1 = 0"
  proof -
    have "take_bit 3 (used + ucast ?i * 8) = 0" by (rule aligned_offset [OF assms(2) i8]) simp
    from aligned_offset [OF this, of 2 4] aligned_offset [OF this, of 2 8] aligned_offset [OF assms(2), of 1 2]
    show "?e AND 3 = 0" "(?e + 4) AND 3 = 0" "(used + 2) AND 1 = 0" by (simp_all add: and_literal_masks algebra_simps)
  qed
  have u: "(ucast ?e :: u32) = ucast used + 4 + ucast ?i * 8" "(ucast (?e + 4) :: u32) = ucast used + 4 + ucast ?i * 8 + 4"
      "(ucast (used + 2) :: u32) = ucast used + 2"
    by (simp_all add: ucast_down_add ucast_down_mult ucast_down_ucast)
  obtain m1 where m1: "Write32 m ?e (ucast head) = Inr m1" "mem_wf m1" "mem_abs m1 = write_bytes (mem_abs m) (ucast ?e) (le_bytes (ucast (ucast head :: u32)) 4)"
    by (rule Write32_abs [OF assms(1) e(1)])
  obtain m2 where m2: "Write32 m1 (?e + 4) 3 = Inr m2" "mem_wf m2" "mem_abs m2 = write_bytes (mem_abs m1) (ucast (?e + 4)) (le_bytes (ucast (3 :: u32)) 4)"
    by (rule Write32_abs [OF m1(2) e(2)])
  obtain m3 where m3: "Write16 m2 (used + 2) (?i + 1) = Inr m3" "mem_wf m3" "mem_abs m3 = write_bytes (mem_abs m2) (ucast (used + 2)) (le_bytes (ucast (?i + 1)) 2)"
    by (rule Write16_abs [OF m2(2) e(3)])
  have "Read16 m (used + 2) = Inr ?i" using aligned_reads(3) [OF assms, of 2] by simp
  with m1(1) m2(1) m3(1) have "process_used_buffer m used head = Inr m3" by (simp add: process_used_buffer_def add.assoc)
  moreover have "mem_abs m3 = used_slot (mem_abs m) (ucast used) head"
    unfolding used_slot_def Let_def m3(3) m2(3) m1(3) u by (simp add: write_bytes_append ucast_up_ucast)
  ultimately show ?thesis using m3(2) by blast
qed

section \<open>The queue\<close>

text \<open>
  The queue of \<open>n\<close> descriptors at a page boundary: the available ring follows the descriptors, the used ring starts on the next page.  The device takes the
  head of the chain from the slot that the index of the available ring points to, which is the slot that the driver fills next.
\<close>

definition slot_head :: "bytes \<Rightarrow> u32 \<Rightarrow> nat \<Rightarrow> u16" where
  "slot_head f queue n =
     (let avail = queue + of_nat (16 * n); i = unat (reg16 f (avail + 2)) mod n in reg16 f (avail + 4 + of_nat (2 * i)))"

lemma used_page:
  assumes "queue = of_nat (4096 * k)" "k < 2 ^ 20" "0 < n" "n \<le> 8"
  shows "((queue + of_nat (16 * n) + of_nat (2 * (2 + n)) + 4096 - 1) div 4096) * 4096 = (queue + 4096 :: u64)"
proof -
  let ?x = "4096 * k + 16 * n + 2 * (2 + n) + 4095"
  have "queue + of_nat (16 * n) + of_nat (2 * (2 + n)) + 4096 - 1 = (of_nat ?x :: u64)" by (simp add: assms(1))
  moreover have "?x < 2 ^ LENGTH(64)" using assms(2,4) by simp
  ultimately have u: "unat (queue + of_nat (16 * n) + of_nat (2 * (2 + n)) + 4096 - 1) = ?x" by (simp only: unat_of_nat_small)
  have "16 * n + 2 * (2 + n) + 4095 = 4096 + (18 * n + 3)" by simp
  then have "?x div 4096 = k + 1" using assms(3,4) by simp
  then have "unat ((queue + of_nat (16 * n) + of_nat (2 * (2 + n)) + 4096 - 1) div 4096) = k + 1" unfolding unat_div u by simp
  then have "(queue + of_nat (16 * n) + of_nat (2 * (2 + n)) + 4096 - 1) div 4096 = of_nat (k + 1)" by (metis of_nat_unat ucast_id)
  then show ?thesis by (simp add: assms(1) algebra_simps)
qed

lemma smod_of_nat: "0 < n \<Longrightarrow> int y smod int n = int (y mod n)"
  by (cases "y = 0") (simp_all add: smod_int_alt_def zmod_int)

lemma get_desc_index_abs:
  assumes "mem_wf m" "take_bit 3 queue = 0" "0 < n" "n \<le> 8"
  shows "get_desc_index m (int n) (queue + of_nat (16 * n)) = Inr (slot_head (mem_abs m) (ucast queue) n)"
proof -
  define v where "v = queue + of_nat (16 * n)"
  have "take_bit 3 (of_nat (16 * n) :: u64) = 0" using take_bit_multiple [of 3 "of_nat (2 * n) :: u64"] by (simp add: mult.commute)
  then have v: "take_bit 3 v = 0" using aligned_offset [OF assms(2)] by (simp add: v_def)
  have u: "ucast queue + of_nat (16 * n) = (ucast v :: u32)" by (simp add: v_def ucast_down_add ucast_down_of_nat del: of_nat_mult)
  define i where "i = unat (reg16 (mem_abs m) (ucast v + 2)) mod n"
  have i: "i < n" using assms(3) by (simp add: i_def)
  then have "i < 2 ^ LENGTH(16)" using assms(4) by simp
  then have ui: "unat (of_nat i :: u16) = i" by (rule unat_of_nat_small)
  have "uint (reg16 (mem_abs m) (ucast v + 2)) smod int n = int i" unfolding i_def uint_nat by (rule smod_of_nat [OF assms(3)])
  then have w: "of_int (uint (reg16 (mem_abs m) (ucast v + 2)) smod int n) = (of_nat i :: u16)" by simp
  have ui2: "uint (of_nat i :: u16) = int i" unfolding uint_nat ui ..
  have c: "ucast (of_nat i :: u16) = (of_nat i :: u64)" using of_nat_unat_ucast [of "of_nat i :: u16", where 'b = 64] unfolding ui by simp
  have "take_bit 1 (4 + of_nat i * 2 :: u64) = 0" using take_bit_multiple [of 1 "2 + of_nat i :: u64"] by (simp add: algebra_simps)
  from aligned_reads(3) [OF assms(1) v this]
  have r: "Read16 m (v + 4 + of_nat i * 2) = Inr (reg16 (mem_abs m) (ucast v + 4 + of_nat (2 * i)))"
    by (simp add: add.assoc ucast_down_add ucast_down_mult ucast_down_of_nat mult.commute)
  have "Read16 m (v + 2) = Inr (reg16 (mem_abs m) (ucast v + 2))" using aligned_reads(3) [OF assms(1) v, of 2] by simp
  with assms(3) i r show ?thesis
    unfolding get_desc_index_def slot_head_def Let_def u v_def [symmetric] i_def [symmetric] by (simp add: w ui2 c)
qed

lemma VirtioDiskAccess_abs:
  assumes "mem_wf m" "queue = of_nat (4096 * k)" "k < 2 ^ 20" "0 < n" "n \<le> 8" "head = slot_head (mem_abs m) (ucast queue) n"
    "chain_ok (mem_abs m) bs (ucast queue) head" "length bs < 2 ^ 64" "chain_result (mem_abs m) bs (ucast queue) head = (bs', f')"
  shows "\<exists>m'. VirtioDiskAccess (Some bs) m (int n) queue = Inr (Some bs', m') \<and> mem_wf m' \<and> mem_abs m' = used_slot f' (ucast queue + 4096) head"
proof -
  have q: "take_bit 3 queue = 0" using take_bit_multiple [of 3 "of_nat (512 * k) :: u64"] by (simp add: assms(2) mult.commute)
  have q2: "take_bit 3 (queue + 4096) = 0" using aligned_offset [OF q, of 3 4096] by simp
  have "unat (of_int (int n) * 16 :: u32) = 16 * n"
    using unat_of_nat_small [where 'a = 32, of "16 * n"] assms(5) by (simp add: mult.commute)
  then have a: "ucast (of_int (int n) * 16 :: u32) = (of_nat (16 * n) :: u64)"
    using of_nat_unat_ucast [of "of_int (int n) * 16 :: u32", where 'b = 64] by simp
  have d: "of_int (2 * (2 + int n)) = (of_nat (2 * (2 + n)) :: u64)" by simp
  obtain m1 where m1: "process_disc_access (Some bs) m queue head = Inr (Some bs', m1)" "mem_wf m1" "mem_abs m1 = f'"
    using process_disc_access_chain [OF assms(1) q assms(7-9)] by blast
  obtain m2 where "process_used_buffer m1 (queue + 4096) head = Inr m2" "mem_wf m2" "mem_abs m2 = used_slot f' (ucast (queue + 4096)) head"
    using process_used_buffer_abs [OF m1(2) q2, of head] m1(3) by blast
  moreover have "(ucast (queue + 4096) :: u32) = ucast queue + 4096" by (simp add: ucast_down_add)
  ultimately show ?thesis
    using m1(1) get_desc_index_abs [OF assms(1) q assms(4,5)] assms(6)
    unfolding VirtioDiskAccess_def Let_def a d used_page [OF assms(2-5)] by simp
qed

section \<open>The registers of the device\<close>

lemma Read32_reg: "mem_wf m \<Longrightarrow> a AND 3 = 0 \<Longrightarrow> Read32 m a = Inr (reg32 (mem_abs m) (ucast a))"
  by (simp add: Read32_abs reg32_def)

lemma VirtioEmulation_request:
  assumes "mem_wf m" "p_virtio_write p" "p_virtio_address p = kVirtioMmioQueueNotify" "p_virtio_width p = 4"
    "reg32 (mem_abs m) 0x10001050 = 0" "reg32 (mem_abs m) 0x10001038 = of_nat n" "0 < n" "n \<le> 8" "reg32 (mem_abs m) 0x10001028 = 4096"
    "queue = reg32 (mem_abs m) 0x10001040 * 4096" "head = slot_head (mem_abs m) queue n" "p_disk_image p = Some bs"
    "chain_ok (mem_abs m) bs queue head" "length bs < 2 ^ 64" "chain_result (mem_abs m) bs queue head = (bs', f')"
  shows "\<exists>m'. VirtioEmulation p m = Inr (p\<lparr>p_virtio_write := False, p_queue_num := int n, p_disk_image := Some bs', p_virtio_interrupt := True\<rparr>, m') \<and>
    mem_wf m' \<and> mem_abs m' = write_bytes (used_slot f' (queue + 4096) head) 0x0c201004 (le_bytes 1 4)"
proof -
  have s: "virtio_queue_sel (p\<lparr>p_virtio_write := False\<rparr>) m = Inr m" using assms(3,4) by (simp add: virtio_queue_sel_def)
  let ?q = "reg32 (mem_abs m) 0x10001040 * 4096"
  have "queue = push_bit 12 (reg32 (mem_abs m) 0x10001040)" by (simp add: assms(10) push_bit_eq_mult)
  then have "take_bit 12 queue = 0" by (simp add: take_bit_push_bit)
  then have "unat queue mod 4096 = 0" using unat_mod_take_bit [of queue 12] by simp
  then obtain k where k: "unat queue = 4096 * k" by (auto simp: mod_eq_0_iff_dvd elim: dvdE)
  have "unat queue < 2 ^ 32" using unsigned_less [of queue] by simp
  then have k20: "k < 2 ^ 20" using k by simp
  have q: "(ucast queue :: u64) = of_nat (4096 * k)" using of_nat_unat_ucast [of queue, where 'b = 64] by (simp only: k)
  have uq: "ucast (ucast queue :: u64) = queue" by (simp add: ucast_down_ucast)
  obtain m1 where m1: "VirtioDiskAccess (Some bs) m (int n) (ucast queue) = Inr (Some bs', m1)" "mem_wf m1" "mem_abs m1 = used_slot f' (queue + 4096) head"
    using VirtioDiskAccess_abs [OF assms(1) q k20 assms(7,8), unfolded uq, OF assms(11,13-15)] by blast
  obtain m2 where m2: "Write32 m1 kPlicClaimAddress 1 = Inr m2" "mem_wf m2"
      "mem_abs m2 = write_bytes (mem_abs m1) (ucast kPlicClaimAddress) (le_bytes (ucast (1 :: u32)) 4)"
    by (rule Write32_abs [OF m1(2), of kPlicClaimAddress]) simp
  have sn: "sint (of_nat n :: u32) = int n"
  proof -
    have "n \<in> {1, 2, 3, 4, 5, 6, 7, 8}" using assms(7,8) by auto
    then show ?thesis by auto
  qed
  have "VirtioEmulation p m = Inr (p\<lparr>p_virtio_write := False, p_queue_num := int n, p_disk_image := Some bs', p_virtio_interrupt := True\<rparr>, m2)"
    using assms(2-9,12) m1(1) m2(1) unfolding VirtioEmulation_def Let_def s rbind_Inr assms(10)
    by (simp add: Read32_reg [OF assms(1)] sn)
  with m2(2,3) m1(3) show ?thesis by simp
qed

section \<open>The rings of the protocol\<close>

text \<open>
  The rings as the virtio protocol has them.  The available index counts the published entries, so the last published one is at the index before it; an
  entry of the used ring is stored at the used index modulo the length.  The device agrees with the protocol when the slot it reads holds the same head,
  and as long as the used index is below the length of the ring.
\<close>

definition avail_head :: "bytes \<Rightarrow> u32 \<Rightarrow> nat \<Rightarrow> u16" where
  "avail_head f queue n =
     (let avail = queue + of_nat (16 * n); i = unat (reg16 f (avail + 2) - 1) mod n in reg16 f (avail + 4 + of_nat (2 * i)))"

definition used_entry :: "bytes \<Rightarrow> u32 \<Rightarrow> nat \<Rightarrow> u16 \<Rightarrow> bytes" where
  "used_entry f used n head =
     (let i = reg16 f (used + 2)
      in write_bytes (write_bytes f (used + 4 + of_nat (unat i mod n * 8)) (le_bytes (ucast head) 4 @ le_bytes 3 4))
           (used + 2) (le_bytes (ucast (i + 1)) 2))"

lemma used_slot_entry: "unat (reg16 f (used + 2)) < n \<Longrightarrow> used_slot f used head = used_entry f used n head"
  by (simp add: used_slot_def used_entry_def Let_def of_nat_unat_ucast)

section \<open>A request\<close>

text \<open>A queue of eight descriptors at \<open>0x2000\<close> whose available ring has one entry, the head 0, with a request for the first four bytes of sector 0, to \<open>0x6000\<close>.\<close>

definition demo_queue :: "u8 list" where
  "demo_queue =
     [0, 0x50, 0, 0, 0, 0, 0, 0, 16, 0, 0, 0, 1, 0, 1, 0,
      0, 0x60, 0, 0, 0, 0, 0, 0, 4, 0, 0, 0, 2, 0, 2, 0,
      0, 0x70, 0, 0, 0, 0, 0, 0, 1, 0, 0, 0, 2, 0, 0, 0]"

definition demo_registers :: "u8 list" where
  "demo_registers = [0, 16, 0, 0, 0, 0, 0, 0, 0, 0, 0, 0, 0, 0, 0, 0, 8, 0, 0, 0, 0, 0, 0, 0, 2, 0, 0, 0]"

definition demo_request :: bytes where
  "demo_request = write_bytes (write_bytes (write_bytes (\<lambda>_. 0) 0x2000 demo_queue) 0x2082 [1, 0]) 0x10001028 demo_registers"

lemma memory_with:
  assumes "mem_wf m" "length bs \<le> 2 ^ 32"
  shows "\<exists>m'. mem_wf m' \<and> mem_abs m' = write_bytes (mem_abs m) a bs"
  using mw.wr_loop [OF assms, of "ucast a" "\<lambda>k. bs ! k"] by (auto simp: map_nth ucast_down_ucast)

lemma demo_request_memory: "\<exists>m. mem_wf m \<and> mem_abs m = demo_request"
proof -
  obtain m1 where m1: "mem_wf m1" "mem_abs m1 = write_bytes (\<lambda>_. 0) 0x2000 demo_queue"
    using memory_with [OF mem_wf_MemoryWrapper, of demo_queue "0x2000"] by (auto simp: demo_queue_def mem_abs_MemoryWrapper)
  obtain m2 where m2: "mem_wf m2" "mem_abs m2 = write_bytes (mem_abs m1) 0x2082 [1, 0]" using memory_with [OF m1(1), of "[1, 0]"] by auto
  then show ?thesis using memory_with [OF m2(1), of demo_registers "0x10001028"] m1(2) by (simp add: demo_request_def demo_registers_def)
qed

lemma small_upts: "[0..<2] = [0, 1]" "[0..<4] = [0, 1, 2, 3]" "[0..<8] = [0, 1, 2, 3, 4, 5, 6, 7]"
  by (simp_all add: upt_rec)

lemmas demo_eval = reg16_def reg32_def read_bytes_def small_upts write_bytes_def demo_request_def demo_queue_def demo_registers_def

lemma demo_request_registers:
  "reg32 demo_request 0x10001050 = 0" "reg32 demo_request 0x10001038 = 8" "reg32 demo_request 0x10001028 = 4096" "reg32 demo_request 0x10001040 = 2"
  "slot_head demo_request 0x2000 8 = 0" "avail_head demo_request 0x2000 8 = 0"
  "reg16 ((write_bytes demo_request 0x6000 (replicate 4 7))(0x7000 := 0)) 0x3002 = 0"
  by (simp_all add: slot_head_def avail_head_def Let_def demo_eval)

lemma demo_request_descs:
  "desc_at demo_request 0x2000 0 = \<lparr>vd_addr = 0x5000, vd_len = 16, vd_flags = 1, vd_next = 1\<rparr>"
  "desc_at demo_request 0x2000 1 = \<lparr>vd_addr = 0x6000, vd_len = 4, vd_flags = 2, vd_next = 2\<rparr>"
  "desc_at (write_bytes demo_request 0x6000 (replicate 4 7)) 0x2000 2 = \<lparr>vd_addr = 0x7000, vd_len = 1, vd_flags = 2, vd_next = 0\<rparr>"
  "outhdr_at demo_request 0x5000 = \<lparr>oh_type = 0, oh_reserved = 0, oh_sector = 0\<rparr>"
  by (simp_all add: desc_at_def outhdr_at_def Let_def demo_eval)

section \<open>Properties\<close>

text \<open>C25: A request to the disk: the driver has notified the device of a queue of at most eight descriptors, and the chain of the last published entry of the
  available ring asks for a transfer inside the image.  Suppose that the slot after that entry, which the device reads instead of it, holds the same head, and that
  the used index, which the device does not reduce modulo the length, is below the length.  Then the device returns, has moved exactly the bytes of the
  request between image and memory, has stored status 0, has put the head of the chain into the used ring and counted it, and raises its interrupt with
  source 1 at the interrupt controller.\<close>

theorem virtio_request:
  assumes "mem_wf m" "p_virtio_write p" "p_virtio_address p = kVirtioMmioQueueNotify" "p_virtio_width p = 4"
    "reg32 (mem_abs m) 0x10001050 = 0" "reg32 (mem_abs m) 0x10001038 = of_nat n" "0 < n" "n \<le> 8" "reg32 (mem_abs m) 0x10001028 = 4096"
    "queue = reg32 (mem_abs m) 0x10001040 * 4096" "head = avail_head (mem_abs m) queue n" "p_disk_image p = Some bs"
    "chain_ok (mem_abs m) bs queue head" "length bs < 2 ^ 64" "chain_result (mem_abs m) bs queue head = (bs', f')"
    and slot: "slot_head (mem_abs m) queue n = head"
    and used: "unat (reg16 f' (queue + 4098)) < n"
  shows "\<exists>m'. VirtioEmulation p m =
      Inr (p\<lparr>p_virtio_write := False, p_queue_num := int n, p_disk_image := Some bs', p_virtio_interrupt := True\<rparr>, m') \<and>
    mem_wf m' \<and> mem_abs m' = write_bytes (used_entry f' (queue + 4096) n head) 0x0c201004 (le_bytes 1 4)"
proof -
  have "queue + 4096 + 2 = queue + 4098" by simp
  with used have "used_slot f' (queue + 4096) head = used_entry f' (queue + 4096) n head" by (intro used_slot_entry) metis
  with VirtioEmulation_request [OF assms(1-10) slot [symmetric] assms(12-15)] show ?thesis by simp
qed

theorem virtio_request_witness:
  "\<exists>m m'. mem_abs m = demo_request \<and>
     VirtioEmulation ((PeripheralEmulator 2)\<lparr>p_virtio_write := True, p_virtio_address := 0x10001050, p_virtio_width := 4, p_disk_image := Some (replicate 512 7)\<rparr>) m =
       Inr ((PeripheralEmulator 2)\<lparr>p_virtio_write := False, p_virtio_address := 0x10001050, p_virtio_width := 4, p_queue_num := 8,
          p_disk_image := Some (replicate 512 7), p_virtio_interrupt := True\<rparr>, m') \<and>
     mem_abs m' = write_bytes (used_entry ((write_bytes demo_request 0x6000 [7, 7, 7, 7])(0x7000 := 0)) 0x3000 8 0) 0x0c201004 (le_bytes 1 4)"
proof -
  let ?p = "(PeripheralEmulator 2)\<lparr>p_virtio_write := True, p_virtio_address := 0x10001050, p_virtio_width := 4, p_disk_image := Some (replicate 512 7)\<rparr>"
  obtain m where m: "mem_wf m" "mem_abs m = demo_request" using demo_request_memory by blast
  have r: "replicate 4 (7 :: u8) = [7, 7, 7, 7]" by (simp add: numeral_eq_Suc)
  have t: "transfer \<lparr>oh_type = 0, oh_reserved = 0, oh_sector = 0\<rparr> \<lparr>vd_addr = 0x6000, vd_len = 4, vd_flags = 2, vd_next = 2\<rparr> (replicate 512 7) demo_request =
      (replicate 512 7, write_bytes demo_request 0x6000 (replicate 4 7))"
    by (simp add: transfer_def)
  have "chain_ok demo_request (replicate 512 7) 0x2000 0" by (simp add: chain_ok_def demo_request_descs t)
  moreover have "chain_result demo_request (replicate 512 7) 0x2000 0 = (replicate 512 7, (write_bytes demo_request 0x6000 (replicate 4 7))(0x7000 := 0))"
    by (simp add: chain_result_def demo_request_descs t)
  ultimately have "\<exists>m'. VirtioEmulation ?p m = Inr (?p\<lparr>p_virtio_write := False, p_queue_num := 8, p_disk_image := Some (replicate 512 7), p_virtio_interrupt := True\<rparr>, m') \<and>
      mem_abs m' = write_bytes (used_entry ((write_bytes demo_request 0x6000 (replicate 4 7))(0x7000 := 0)) 0x3000 8 0) 0x0c201004 (le_bytes 1 4)"
    using virtio_request [of m ?p 8 "0x2000" 0 "replicate 512 7" "replicate 512 7" "(write_bytes demo_request 0x6000 (replicate 4 7))(0x7000 := 0)"]
      m demo_request_registers by auto
  with m(2) show ?thesis unfolding r by auto
qed

end
