(* ===== verification/Compressed_Layout.thy ===== *)
theory Compressed_Layout
  imports Decode
begin

text \<open>
  The operands that \<open>GetCode16\<close> computes, against the immediate layouts of the compressed
  instruction set, and the range of the register numbers.
\<close>

section \<open>Compressed operands\<close>

text \<open>
  The ISA manual gives a compressed immediate as a list of positions: bit \<open>k\<close> of the immediate is bit
  \<open>ps ! k\<close> of the instruction, or zero.
\<close>

definition imm_layout :: "u32 \<Rightarrow> nat option list \<Rightarrow> u32" where
  "imm_layout ir ps = horner_sum of_bool 2 (map (\<lambda>p. case p of None \<Rightarrow> False | Some k \<Rightarrow> bit ir k) ps)"

lemma bit_imm_layout:
  "bit (imm_layout ir ps) n \<longleftrightarrow>
     n < 32 \<and> n < length ps \<and> (case ps ! n of None \<Rightarrow> False | Some k \<Rightarrow> bit ir k)"
  by (auto simp: imm_layout_def bit_horner_sum_bit_iff)

lemma word32_eqI: "(\<And>n. n < 32 \<Longrightarrow> bit a n = bit b n) \<Longrightarrow> a = (b :: u32)"
  by (rule bit_word_eqI) simp

lemma bit_Suc_Suc_0: "bit (w :: u32) (Suc (Suc 0)) = bit w 2"
  by (simp add: numeral_2_eq_2)

lemmas c_imm_bits = bit_or_iff bit_push_bit_iff bit_bitcrop bit_times2 bit_imm_layout SignExtend_eq bit_sext bit_Suc_Suc_0

lemma c_jump_imm_layout:
  "c_jump_imm ir = signed_take_bit 11 (imm_layout ir
     [None, Some 3, Some 4, Some 5, Some 11, Some 2, Some 7, Some 6, Some 9, Some 10, Some 8, Some 12])"
  by (rule word32_eqI, drule less_32_cases, elim disjE) (simp_all add: c_jump_imm_def c_imm_bits)

lemma c_addi4spn_layout:
  "bitcrop ir 8 5 \<noteq> 0 \<Longrightarrow> d_imm (c_addi4spn ir) = imm_layout ir
     [None, None, Some 6, Some 5, Some 11, Some 12, Some 7, Some 8, Some 9, Some 10]"
  by (rule word32_eqI, drule less_32_cases, elim disjE) (simp_all add: c_addi4spn_def c_init_def c_imm_bits)

lemma c_addi_imm_layout:
  "SignExtend (push_bit 5 (bitcrop ir 1 12) OR bitcrop ir 5 2) 6 =
     signed_take_bit 5 (imm_layout ir [Some 2, Some 3, Some 4, Some 5, Some 6, Some 12])"
  by (rule word32_eqI, drule less_32_cases, elim disjE) (simp_all add: c_imm_bits)

lemma c_shamt_layout:
  "push_bit 5 (bitcrop ir 1 12) OR bitcrop ir 5 2 =
     imm_layout ir [Some 2, Some 3, Some 4, Some 5, Some 6, Some 12]"
  by (rule word32_eqI, drule less_32_cases, elim disjE) (simp_all add: c_imm_bits)

lemma c_lw_layout:
  "d_imm (c_lw ir) =
     imm_layout ir [None, None, Some 6, Some 10, Some 11, Some 12, Some 5]"
  by (rule word32_eqI, drule less_32_cases, elim disjE) (simp_all add: c_lw_def c_init_def c_imm_bits)

lemma c_sw_layout:
  "d_imm (c_sw ir) =
     imm_layout ir [None, None, Some 6, Some 10, Some 11, Some 12, Some 5]"
  by (rule word32_eqI, drule less_32_cases, elim disjE) (simp_all add: c_sw_def c_init_def c_imm_bits)

lemma c_ld_layout:
  "d_imm (c_ld ir) =
     imm_layout ir [None, None, None, Some 10, Some 11, Some 12, Some 5, Some 6]"
  by (rule word32_eqI, drule less_32_cases, elim disjE) (simp_all add: c_ld_def c_init_def c_imm_bits)

lemma c_sd_layout:
  "d_imm (c_sd ir) =
     imm_layout ir [None, None, None, Some 10, Some 11, Some 12, Some 5, Some 6]"
  by (rule word32_eqI, drule less_32_cases, elim disjE) (simp_all add: c_sd_def c_init_def c_imm_bits)

lemma c_lwsp_layout:
  "d_imm (c_lwsp ir) =
     imm_layout ir [None, None, Some 4, Some 5, Some 6, Some 12, Some 2, Some 3]"
  by (rule word32_eqI, drule less_32_cases, elim disjE) (simp_all add: c_lwsp_def c_init_def c_imm_bits)

lemma c_ldsp_layout:
  "d_imm (c_ldsp ir) =
     imm_layout ir [None, None, None, Some 5, Some 6, Some 12, Some 2, Some 3, Some 4]"
  by (rule word32_eqI, drule less_32_cases, elim disjE) (simp_all add: c_ldsp_def c_init_def c_imm_bits)

lemma c_swsp_layout:
  "d_imm (c_swsp ir) =
     imm_layout ir [None, None, Some 9, Some 10, Some 11, Some 12, Some 7, Some 8]"
  by (rule word32_eqI, drule less_32_cases, elim disjE) (simp_all add: c_swsp_def c_init_def c_imm_bits)

lemma c_sdsp_layout:
  "d_imm (c_sdsp ir) =
     imm_layout ir [None, None, None, Some 10, Some 11, Some 12, Some 7, Some 8, Some 9]"
  by (rule word32_eqI, drule less_32_cases, elim disjE) (simp_all add: c_sdsp_def c_init_def c_imm_bits)

lemma c_branch_layout:
  "d_imm (c_branch opcode ir) =
     signed_take_bit 8 (imm_layout ir [None, Some 3, Some 4, Some 10, Some 11, Some 2, Some 5, Some 6, Some 12])"
  by (rule word32_eqI, drule less_32_cases, elim disjE) (simp_all add: c_branch_def c_init_def c_imm_bits)

lemma c_lui_layout:
  "SignExtend (push_bit 17 (bitcrop ir 1 12) OR push_bit 12 (bitcrop ir 5 2)) 18 =
     signed_take_bit 17 (imm_layout ir [None, None, None, None, None, None, None, None, None, None, None, None, Some 2, Some 3, Some 4, Some 5, Some 6, Some 12])"
  by (rule word32_eqI, drule less_32_cases, elim disjE) (simp_all add: c_imm_bits)

lemma c_addi16sp_layout:
  "SignExtend (push_bit 9 (bitcrop ir 1 12) OR push_bit 4 (bitcrop ir 1 6) OR push_bit 6 (bitcrop ir 1 5) OR push_bit 7 (bitcrop ir 2 3) OR push_bit 5 (bitcrop ir 1 2)) 10 =
     signed_take_bit 9 (imm_layout ir [None, None, None, None, Some 6, Some 2, Some 5, Some 3, Some 4, Some 12])"
  by (rule word32_eqI, drule less_32_cases, elim disjE) (simp_all add: c_imm_bits)

section \<open>Register numbers\<close>

lemma c_reg_less: "bitcrop (ir :: u32) 3 s + 8 < 32"
proof -
  have "unat (bitcrop ir 3 s) < 8"
    using unat_take_bit_less [of 3 "drop_bit s ir"] by (simp add: bitcrop_eq)
  then show ?thesis by (simp add: word_less_nat_alt unat_word_ariths)
qed

definition regs_ok :: "decoded \<Rightarrow> bool" where
  "regs_ok d \<longleftrightarrow> d_rd d < 32 \<and> d_rs1 d < 32 \<and> d_rs2 d < 32"

lemma regs_ok_upd [simp]:
  "regs_ok c_init" "regs_ok (d\<lparr>d_instruction := c\<rparr>) = regs_ok d" "regs_ok (d\<lparr>d_imm := k\<rparr>) = regs_ok d"
  "r < 32 \<Longrightarrow> regs_ok d \<Longrightarrow> regs_ok (d\<lparr>d_rd := r\<rparr>)" "r < 32 \<Longrightarrow> regs_ok d \<Longrightarrow> regs_ok (d\<lparr>d_rs1 := r\<rparr>)"
  "r < 32 \<Longrightarrow> regs_ok d \<Longrightarrow> regs_ok (d\<lparr>d_rs2 := r\<rparr>)"
  by (auto simp: regs_ok_def c_init_def)

lemma regs_ok_cases [simp]:
  "regs_ok (c_addi4spn ir)"
  "regs_ok (c_slli ir)"
  "regs_ok (c_lw ir)"
  "regs_ok (c_li ir)"
  "regs_ok (c_lwsp ir)"
  "regs_ok (c_ld ir)"
  "regs_ok (c_ldsp ir)"
  "regs_ok (c_lui_addi16sp ir)"
  "regs_ok (c_add_jalr ir)"
  "regs_ok (c_arith ir)"
  "regs_ok (c_j ir)"
  "regs_ok (c_sw ir)"
  "regs_ok (c_sd ir)"
  "regs_ok (c_swsp ir)"
  "regs_ok (c_sdsp ir)"
  "regs_ok (c_addi_jal opcode ir mxl)" "regs_ok (c_branch opcode ir)" "regs_ok (c_reg_op c ir)"
  unfolding c_addi4spn_def c_addi_jal_def c_slli_def c_lw_def c_li_def c_lwsp_def c_ld_def c_ldsp_def
    c_lui_addi16sp_def c_add_jalr_def c_reg_op_def c_arith_def c_j_def c_sw_def c_sd_def c_branch_def c_swsp_def c_sdsp_def Let_def
  by (simp_all add: c_reg_less reg_index_less)

lemma GetCode16_regs: "regs_ok (GetCode16 ir mxl)"
  unfolding GetCode16_def Let_def by simp

section \<open>Properties\<close>

text \<open>The register numbers of a decoded compressed instruction are below 32, for every 32-bit word and both
  register widths, so no instruction indexes outside the register file.\<close>

theorem GetCode16_registers:
  "d_rd (GetCode16 ir mxl) < 32 \<and> d_rs1 (GetCode16 ir mxl) < 32 \<and> d_rs2 (GetCode16 ir mxl) < 32"
  using GetCode16_regs [of ir mxl] by (simp add: regs_ok_def)

text \<open>C40: The immediates of compressed loads, stores, branches, jumps and stack-pointer adjustments are
  assembled from the instruction bits at the positions that the compressed instruction set prescribes.  (The six-bit immediates of \<open>C.ADDI\<close>, \<open>C.LI\<close>, \<open>C.ANDI\<close>
  and the shifts, and \<open>C.JAL\<close>, are not among them.)\<close>

theorem compressed_immediates:
  "d_imm (c_lw ir) = imm_layout ir [None, None, Some 6, Some 10, Some 11, Some 12, Some 5] \<and>
   d_imm (c_sw ir) = imm_layout ir [None, None, Some 6, Some 10, Some 11, Some 12, Some 5] \<and>
   d_imm (c_ld ir) = imm_layout ir [None, None, None, Some 10, Some 11, Some 12, Some 5, Some 6] \<and>
   d_imm (c_sd ir) = imm_layout ir [None, None, None, Some 10, Some 11, Some 12, Some 5, Some 6] \<and>
   d_imm (c_lwsp ir) = imm_layout ir [None, None, Some 4, Some 5, Some 6, Some 12, Some 2, Some 3] \<and>
   d_imm (c_ldsp ir) = imm_layout ir [None, None, None, Some 5, Some 6, Some 12, Some 2, Some 3, Some 4] \<and>
   d_imm (c_swsp ir) = imm_layout ir [None, None, Some 9, Some 10, Some 11, Some 12, Some 7, Some 8] \<and>
   d_imm (c_sdsp ir) = imm_layout ir [None, None, None, Some 10, Some 11, Some 12, Some 7, Some 8, Some 9] \<and>
   d_imm (c_branch opcode ir) = signed_take_bit 8 (imm_layout ir
     [None, Some 3, Some 4, Some 10, Some 11, Some 2, Some 5, Some 6, Some 12]) \<and>
   d_imm (c_j ir) = signed_take_bit 11 (imm_layout ir
     [None, Some 3, Some 4, Some 5, Some 11, Some 2, Some 7, Some 6, Some 9, Some 10, Some 8, Some 12]) \<and>
   (bitcrop ir 8 5 \<noteq> 0 \<longrightarrow> d_imm (c_addi4spn ir) = imm_layout ir
     [None, None, Some 6, Some 5, Some 11, Some 12, Some 7, Some 8, Some 9, Some 10]) \<and>
   d_imm (c_lui_addi16sp ir) =
     (if bitcrop ir 5 7 = X2
      then signed_take_bit 9 (imm_layout ir [None, None, None, None, Some 6, Some 2, Some 5, Some 3, Some 4, Some 12])
      else signed_take_bit 17 (imm_layout ir [None, None, None, None, None, None, None, None, None, None, None, None,
             Some 2, Some 3, Some 4, Some 5, Some 6, Some 12]))"
proof -
  have "d_imm (c_j ir) = c_jump_imm ir" by (simp add: c_j_def)
  moreover have "d_imm (c_lui_addi16sp ir) =
     (if bitcrop ir 5 7 = X2
      then signed_take_bit 9 (imm_layout ir [None, None, None, None, Some 6, Some 2, Some 5, Some 3, Some 4, Some 12])
      else signed_take_bit 17 (imm_layout ir [None, None, None, None, None, None, None, None, None, None, None, None,
             Some 2, Some 3, Some 4, Some 5, Some 6, Some 12]))"
    unfolding c_lui_addi16sp_def Let_def c_lui_layout c_addi16sp_layout by simp
  ultimately show ?thesis
    using c_lw_layout c_sw_layout c_ld_layout c_sd_layout c_lwsp_layout c_ldsp_layout c_swsp_layout c_sdsp_layout
      c_branch_layout c_jump_imm_layout c_addi4spn_layout
    by simp
qed

theorem compressed_immediates_witness:
  "d_imm (c_addi4spn 0x1020) = imm_layout 0x1020
     [None, None, Some 6, Some 5, Some 11, Some 12, Some 7, Some 8, Some 9, Some 10]"
proof -
  have "bitcrop (0x1020 :: u32) 8 5 \<noteq> 0" by (simp add: bitcrop_numeral)
  with compressed_immediates [of "0x1020"] show ?thesis by simp
qed

end
