(* ===== verification/Disassembler.thy ===== *)
theory Disassembler
  imports Compressed_Layout
begin

text \<open>
  The disassembler of \<open>Disassembler.cpp\<close>, which the verbose mode prints with.  Text is built by concatenating literals,
  register names and hexadecimal numbers; a register number beyond the table of names is undefined behaviour.
\<close>

section \<open>Pieces of text\<close>

definition kRegNames :: "string list" where
  "kRegNames =
     [''ZERO'', ''RA'', ''SP'', ''GP'', ''TP'', ''T0'', ''T1'', ''T2'', ''FP'', ''S1'', ''A0'', ''A1'', ''A2'', ''A3'', ''A4'', ''A5'',
      ''A6'', ''A7'', ''S2'', ''S3'', ''S4'', ''S5'', ''S6'', ''S7'', ''S8'', ''S9'', ''S10'', ''S11'', ''T3'', ''T4'', ''T5'', ''T6'']"

definition GetRegName :: "u32 \<Rightarrow> string res" where
  "GetRegName reg = (if unat reg < length kRegNames then Inr (kRegNames ! unat reg) else Inl Undefined)"

definition hex_char :: "nat \<Rightarrow> char" where
  "hex_char d = ''0123456789abcdef'' ! d"

fun hex_digits :: "nat \<Rightarrow> string" where
  "hex_digits n = (if n < 16 then [hex_char n] else hex_digits (n div 16) @ [hex_char (n mod 16)])"

declare hex_digits.simps [simp del]

definition NumberToHex :: "u32 \<Rightarrow> string" where
  "NumberToHex num = ''0x'' @ hex_digits (unat num)"

abbreviation lit :: "string \<Rightarrow> string res" where "lit \<equiv> Inr"

abbreviation hex :: "u32 \<Rightarrow> string res" where "hex n \<equiv> Inr (NumberToHex n)"

fun cat :: "string res list \<Rightarrow> string res" where
  "cat [] = Inr []"
| "cat (p # ps) = rbind p (\<lambda>s. rbind (cat ps) (\<lambda>t. Inr (s @ t)))"

text \<open>A value stored in an \<open>int16_t\<close> and read back as \<open>uint32_t\<close>.\<close>

definition int16 :: "u32 \<Rightarrow> u32" where
  "int16 x = scast (ucast x :: u16)"

section \<open>Compressed instructions\<close>

definition dis_c_add :: "u32 \<Rightarrow> decoded \<Rightarrow> string res" where
  "dis_c_add ir d =
     (if bitcrop ir 1 12 = 1 then
        if bitcrop ir 5 2 = 0 \<and> bitcrop ir 5 7 = 0 then lit ''C.EBREAK''
        else if bitcrop ir 5 2 = 0 then cat [lit ''C.JALR '', GetRegName (d_rs1 d)]
        else if bitcrop ir 5 7 \<noteq> 0 then cat [lit ''C.ADD '', GetRegName (d_rd d), lit '', '', GetRegName (d_rs2 d)]
        else lit ''Unsupported C Instruction''
      else if bitcrop ir 5 2 = 0 then cat [lit ''C.JR '', GetRegName (d_rs1 d)]
      else cat [lit ''C.MV '', GetRegName (d_rd d), lit '', '', GetRegName (d_rs2 d)])"

definition dis_c_arith :: "u32 \<Rightarrow> decoded \<Rightarrow> string res" where
  "dis_c_arith ir d =
     (let two = (\<lambda>m. cat [lit m, GetRegName (d_rd d), lit '', '', GetRegName (d_rs2 d)])
      in if bitcrop ir 3 10 = 0b011 \<and> bitcrop ir 2 5 = 0b11 then two ''C.AND ''
      else if bitcrop ir 3 10 = 0b011 \<and> bitcrop ir 2 5 = 0b01 then two ''C.XOR ''
      else if bitcrop ir 3 10 = 0b011 \<and> bitcrop ir 2 5 = 0 then two ''C.SUB ''
      else if bitcrop ir 3 10 = 0b011 \<and> bitcrop ir 2 5 = 0b10 then two ''C.OR ''
      else if bitcrop ir 3 10 = 0b111 \<and> bitcrop ir 2 5 = 0b01 then two ''C.ADDW ''
      else if bitcrop ir 3 10 = 0b111 \<and> bitcrop ir 2 5 = 0 then two ''C.SUBW ''
      else if bitcrop ir 2 10 = 0b01 then cat [lit ''C.SRAI '', GetRegName (d_rd d), lit '', '', hex (d_imm d)]
      else if bitcrop ir 2 10 = 0 then cat [lit ''C.SRLI '', GetRegName (d_rd d), lit '', '', hex (d_imm d)]
      else if bitcrop ir 2 10 = 0b10 then
        cat [lit ''C.ANDI '', GetRegName (d_rd d), lit '', '', hex (SignExtend (d_imm d) 6)]
      else lit ''Unsupported C Instruction'')"

text \<open>The case \<open>0b11000\<close> has no \<open>break\<close>: its text is replaced by that of the next case (its register names are still evaluated).\<close>

definition Disassemble16 :: "u32 \<Rightarrow> int \<Rightarrow> string res" where
  "Disassemble16 ir mxl =
     (let d = GetCode16 ir mxl;
          opcode = (ucast (push_bit 2 (bitcrop ir 3 13) OR bitcrop ir 2 0) :: u16);
          rd = GetRegName (d_rd d); rs1 = GetRegName (d_rs1 d); rs2 = GetRegName (d_rs2 d); imm = hex (d_imm d);
          beqz = cat [lit ''C.BEQZ '', rs1, lit '', '', hex (SignExtend (d_imm d) 9)]
      in if opcode = 0 then cat [lit ''C.ADDI4SPN '', rd, lit '', SP, '', imm]
      else if opcode = 0b00001 then cat [lit ''C.ADDI '', rd, lit '', '', imm]
      else if opcode = 0b00010 then cat [lit ''C.SLLI '', rd, lit '', '', imm]
      else if opcode = 0b00101 then
        if mxl = 1 then cat [lit ''C.JAL '', hex (SignExtend (d_imm d) 12)]
        else cat [lit ''C.ADDIW '', rd, lit '', '', imm]
      else if opcode = 0b01000 then cat [lit ''C.LW '', rd, lit '', '', imm, lit ''('', rs1, lit '')'']
      else if opcode = 0b01001 then cat [lit ''C.LI '', rd, lit '', '', imm]
      else if opcode = 0b01010 then cat [lit ''C.LWSP '', rd, lit '', '', imm, lit ''(SP)'']
      else if opcode = 0b01100 then cat [lit ''C.LD '', rd, lit '', '', imm, lit ''('', rs1, lit '')'']
      else if opcode = 0b01101 then
        if bitcrop ir 5 7 = 0b00010 then cat [lit ''C.ADDI16SP SP, SP, '', imm]
        else cat [lit ''C.LUI '', rd, lit '', '', imm]
      else if opcode = 0b01110 then cat [lit ''C.LDSP '', rd, lit '', '', imm, lit ''(SP)'']
      else if opcode = 0b10010 then dis_c_add ir d
      else if opcode = 0b10001 then dis_c_arith ir d
      else if opcode = 0b10101 then cat [lit ''C.J '', hex (SignExtend (d_imm d) 12)]
      else if opcode = 0b11000 then
        rbind (cat [lit ''C.SW '', rs2, lit '', '', imm, lit ''('', rs1, lit '')'']) (\<lambda>_. beqz)
      else if opcode = 0b11001 then beqz
      else if opcode = 0b11010 then cat [lit ''C.SWSP '', rs2, lit '', '', imm, lit ''(SP)'']
      else if opcode = 0b11100 then cat [lit ''C.SD '', rs2, lit '', '', imm, lit ''('', rs1, lit '')'']
      else if opcode = 0b11101 then cat [lit ''C.BNEZ '', rs1, lit '', '', hex (SignExtend (d_imm d) 9)]
      else if opcode = 0b11110 then cat [lit ''C.SDSP '', rs2, lit '', '', imm, lit ''(SP)'']
      else lit ''Unsupported C Instruction'')"

section \<open>32-bit instructions\<close>

definition dis_ARITHLOG :: "u8 \<Rightarrow> u8 \<Rightarrow> string" where
  "dis_ARITHLOG funct3 funct7 =
     (if funct7 = FUNC_NORM \<or> funct7 = FUNC_ALT then
        if funct3 = FUNC3_ADDSUB then (if funct7 = FUNC_NORM then ''ADD'' else ''SUB'')
        else if funct3 = FUNC3_AND then ''AND''
        else if funct3 = FUNC3_OR then ''OR''
        else if funct3 = FUNC3_XOR then ''XOR''
        else if funct3 = FUNC3_SR then
          (if funct7 = FUNC_NORM then ''SRL'' else if funct7 = FUNC_ALT then ''SRA'' else ''UNDEF'')
        else if funct3 = FUNC3_SL then ''SLL''
        else if funct3 = FUNC3_SLT then ''SLT''
        else if funct3 = FUNC3_SLTU then ''SLTU''
        else ''UNDEF''
      else if funct7 = FUNC_MULT then
        if funct3 = FUNC3_MUL then ''MUL''
        else if funct3 = FUNC3_MULH then ''MULH''
        else if funct3 = FUNC3_MULHSU then ''MULHSU''
        else if funct3 = FUNC3_MULHU then ''MULHU''
        else if funct3 = FUNC3_DIV then ''DIV''
        else if funct3 = FUNC3_DIVU then ''DIVU''
        else if funct3 = FUNC3_REM then ''REM''
        else if funct3 = FUNC3_REMU then ''REMU''
        else ''UNDEF''
      else ''UNDEF'')"

definition dis_ARITHLOG_64 :: "u8 \<Rightarrow> u8 \<Rightarrow> string" where
  "dis_ARITHLOG_64 funct3 funct7 =
     (if funct7 = FUNC_NORM \<or> funct7 = FUNC_ALT then
        if funct3 = FUNC3_ADDSUB then (if funct7 = FUNC_NORM then ''ADDW'' else ''SUBW'')
        else if funct3 = FUNC3_SL then ''SLLW''
        else if funct3 = FUNC3_SR then
          (if funct7 = FUNC_NORM then ''SRLW'' else if funct7 = FUNC_ALT then ''SRAW'' else ''UNDEF'')
        else ''UNDEF''
      else if funct7 = FUNC_MULT then
        if funct3 = FUNC3_MUL then ''MULW''
        else if funct3 = FUNC3_DIVU then ''DIVUW''
        else if funct3 = FUNC3_DIV then ''DIVW''
        else if funct3 = FUNC3_REMU then ''REMUW''
        else if funct3 = FUNC3_REM then ''REMW''
        else ''UNDEF''
      else ''UNDEF'')"

definition dis_ARITHLOG_I :: "u8 \<Rightarrow> u8 \<Rightarrow> string" where
  "dis_ARITHLOG_I funct3 funct7 =
     (if funct3 = FUNC3_ADDSUB then ''ADDI''
      else if funct3 = FUNC3_AND then ''ANDI''
      else if funct3 = FUNC3_OR then ''ORI''
      else if funct3 = FUNC3_XOR then ''XORI''
      else if funct3 = FUNC3_SL then ''SLLI''
      else if funct3 = FUNC3_SR then
        (if drop_bit 1 funct7 = 0 then ''SRLI'' else if drop_bit 1 funct7 = 0b010000 then ''SRAI'' else ''UNDEF'')
      else if funct3 = FUNC3_SLT then ''SLTI''
      else if funct3 = FUNC3_SLTU then ''SLTIU''
      else ''UNDEF'')"

definition dis_ARITHLOG_I64 :: "u8 \<Rightarrow> u8 \<Rightarrow> string" where
  "dis_ARITHLOG_I64 funct3 funct7 =
     (if funct3 = FUNC3_ADDSUB then ''ADDIW''
      else if funct3 = FUNC3_SL then ''SLLIW''
      else if funct3 = FUNC3_SR then
        (if drop_bit 1 funct7 = 0 then ''SRLIW'' else if drop_bit 1 funct7 = 0b010000 then ''SRAIW'' else ''UNDEF'')
      else ''UNDEF'')"

definition dis_B :: "u8 \<Rightarrow> string" where
  "dis_B funct3 =
     (if funct3 = FUNC3_BEQ then ''BEQ''
      else if funct3 = FUNC3_BLT then ''BLT''
      else if funct3 = FUNC3_BLTU then ''BLTU''
      else if funct3 = FUNC3_BGE then ''BGE''
      else if funct3 = FUNC3_BGEU then ''BGEU''
      else if funct3 = FUNC3_BNE then ''BNE''
      else ''UNDEF'')"

definition dis_LD :: "u8 \<Rightarrow> string" where
  "dis_LD funct3 =
     (if funct3 = FUNC3_LSB then ''LB''
      else if funct3 = FUNC3_LSBU then ''LBU''
      else if funct3 = FUNC3_LSH then ''LH''
      else if funct3 = FUNC3_LSHU then ''LHU''
      else if funct3 = FUNC3_LSW then ''LW''
      else if funct3 = FUNC3_LSWU then ''LWU''
      else if funct3 = FUNC3_LSD then ''LD''
      else ''UNDEF'')"

definition dis_S :: "u8 \<Rightarrow> string" where
  "dis_S funct3 =
     (if funct3 = FUNC3_LSB then ''SB''
      else if funct3 = FUNC3_LSH then ''SH''
      else if funct3 = FUNC3_LSW then ''SW''
      else if funct3 = FUNC3_LSD then ''SD''
      else ''UNDEF'')"

definition dis_CSR :: "u8 \<Rightarrow> string" where
  "dis_CSR funct3 =
     (if funct3 = FUNC3_CSRRC then ''CSRRC''
      else if funct3 = FUNC3_CSRRCI then ''CSRRCI''
      else if funct3 = FUNC3_CSRRS then ''CSRRS''
      else if funct3 = FUNC3_CSRRSI then ''CSRRSI''
      else if funct3 = FUNC3_CSRRW then ''CSRRW''
      else if funct3 = FUNC3_CSRRWI then ''CSRRWI''
      else ''UNDEF'')"

text \<open>\<open>imm12\<close> is signed.\<close>

definition dis_SYSTEM :: "u32 \<Rightarrow> u32 \<Rightarrow> string" where
  "dis_SYSTEM imm12 rd =
     (if imm12 = 0 then ''ECALL''
      else if imm12 = 1 then ''EBREAK''
      else if imm12 = 0b001100000010 then ''MRET''
      else if imm12 = 0b000100000010 then ''SRET''
      else if signed_drop_bit 5 imm12 = 0b0001001 \<and> rd = 0 then ''sfence.vma''
      else ''Undefined System Instruction'')"

definition dis_FENCE :: "u8 \<Rightarrow> string" where
  "dis_FENCE funct3 =
     (if funct3 = FUNC3_FENCEI then ''FENCEI''
      else if funct3 = FUNC3_FENCE then ''FENCE''
      else ''UNDEF'')"

definition dis_AMO :: "u8 \<Rightarrow> u8 \<Rightarrow> string" where
  "dis_AMO funct3 funct5 =
     (let d = (funct3 = FUNC3_AMOD)
      in if funct5 = FUNC5_AMOADD then (if d then ''AMOADD.D'' else ''AMOADD.W'')
      else if funct5 = FUNC5_AMOAND then (if d then ''AMOAND.D'' else ''AMOAND.W'')
      else if funct5 = FUNC5_AMOMAX then (if d then ''AMOMAX.D'' else ''AMOMAX.W'')
      else if funct5 = FUNC5_AMOMAXU then (if d then ''AMOMAXU.D'' else ''AMOMAXU.W'')
      else if funct5 = FUNC5_AMOMIN then (if d then ''AMOMIN.D'' else ''AMOMIN.W'')
      else if funct5 = FUNC5_AMOMINU then (if d then ''AMOMINU.D'' else ''AMOMAIN.W'')
      else if funct5 = FUNC5_AMOOR then (if d then ''AMOOR.D'' else ''AMOOR.W'')
      else if funct5 = FUNC5_AMOXOR then (if d then ''AMOXOR.D'' else ''AMOXOR.W'')
      else if funct5 = FUNC5_AMOSWAP then (if d then ''AMOSWAP.D'' else ''AMOSWAP.W'')
      else ''UNDEF'')"

text \<open>
  The label \<open>OPCODE_ARITHLOG_64\<close> stands inside the branch of \<open>OPCODE_ARITHLOG\<close> for \<open>FUNC_MULT\<close>, after its \<open>break\<close>; both
  cases end with the same operands.
\<close>

definition Disassemble :: "u32 \<Rightarrow> int \<Rightarrow> string res" where
  "Disassemble ir mxl =
     (let opcode = (ucast (bitcrop ir 7 0) :: u16)
      in if opcode AND 0b11 \<noteq> 0b11 then Disassemble16 ir mxl
      else
       let funct3 = (ucast (bitcrop ir 3 12) :: u8);
           funct7 = (ucast (bitcrop ir 7 25) :: u8);
           funct5 = drop_bit 2 funct7;
           rd = GetRegName (GetRd ir); rs1 = GetRegName (GetRs1 ir); rs2 = GetRegName (GetRs2 ir);
           imm12 = int16 (GetImm12 ir); csr = int16 (GetCsr ir); imm13 = int16 (GetImm13 ir); imm21 = GetImm21 ir;
           imm12_stype = int16 (GetStypeImm12 ir); imm20 = GetImm20 ir
       in if opcode = OPCODE_ARITHLOG then
          cat [lit (dis_ARITHLOG funct3 funct7), lit '' '', rd, lit '', '', rs1, lit '', '', rs2]
       else if opcode = OPCODE_ARITHLOG_64 then
          cat [lit (dis_ARITHLOG_64 funct3 funct7), lit '' '', rd, lit '', '', rs1, lit '', '', rs2]
       else if opcode = OPCODE_ARITHLOG_I then
          cat [lit (dis_ARITHLOG_I funct3 funct7), lit '' '', rd, lit '', '', rs1, lit '', '', hex imm12]
       else if opcode = OPCODE_ARITHLOG_I64 then
          cat [lit (dis_ARITHLOG_I64 funct3 funct7), lit '' '', rd, lit '', '', rs1, lit '', '', hex imm12]
       else if opcode = OPCODE_B then
          cat [lit (dis_B funct3), lit '' '', rs1, lit '', '', rs2, lit '', '', hex imm13]
       else if opcode = OPCODE_J then cat [lit ''JAL '', rd, lit '', '', hex imm21]
       else if opcode = OPCODE_JALR then
         (if funct3 = FUNC3_JALR then cat [lit ''JALR '', rd, lit '', '', hex imm12, lit ''('', rs1, lit '')'']
          else lit ''UNDEF'')
       else if opcode = OPCODE_LD then
          cat [lit (dis_LD funct3), lit '' '', rd, lit '', '', hex imm12, lit ''('', rs1, lit '')'']
       else if opcode = OPCODE_S then
          cat [lit (dis_S funct3), lit '' '', rs2, lit '', '', hex imm12_stype, lit ''('', rs1, lit '')'']
       else if opcode = OPCODE_LUI then cat [lit ''LUI'', lit '' '', rd, lit '', '', hex imm20, lit '' << 12'']
       else if opcode = OPCODE_AUIPC then cat [lit ''AUIPC'', lit '' '', rd, lit '', '', hex imm20, lit '' << 12'']
       else if opcode = OPCODE_SYSTEM then
         (if funct3 = FUNC3_SYSTEM then lit (dis_SYSTEM imm12 (GetRd ir))
          else cat [lit (dis_CSR funct3), lit '' '', rd, lit '', '', hex csr, lit '', '', rs1])
       else if opcode = OPCODE_FENCE then lit (dis_FENCE funct3)
       else if opcode = OPCODE_AMO then
          cat [lit (dis_AMO funct3 funct5), lit '' '', rd, lit '', '', rs2, lit '', ('', rs1, lit '')'']
       else lit ''Undefined instruction'')"

section \<open>Hexadecimal numbers\<close>

definition hex_value :: "char \<Rightarrow> nat" where
  "hex_value c = (if c \<in> set ''0123456789'' then of_char c - 48 else of_char c - 87)"

definition read_hex :: "string \<Rightarrow> nat" where
  "read_hex s = foldl (\<lambda>n c. 16 * n + hex_value c) 0 s"

lemma hex_value_char: "d < 16 \<Longrightarrow> hex_value (hex_char d) = d"
proof -
  have "\<forall>d \<in> set [0..<16]. hex_value (hex_char d) = d" by code_simp
  then show "d < 16 \<Longrightarrow> hex_value (hex_char d) = d" by simp
qed

lemma read_hex_digits: "read_hex (hex_digits n) = n"
proof (induction n rule: hex_digits.induct)
  case (1 n)
  show ?case
  proof (cases "n < 16")
    case True
    then show ?thesis by (simp add: hex_digits.simps [of n] read_hex_def hex_value_char)
  next
    case False
    with 1 have "read_hex (hex_digits (n div 16)) = n div 16" by simp
    with False show ?thesis by (simp add: hex_digits.simps [of n] read_hex_def hex_value_char)
  qed
qed

lemma length_hex_digits: "0 < k \<Longrightarrow> n < 16 ^ k \<Longrightarrow> 0 < length (hex_digits n) \<and> length (hex_digits n) \<le> k"
proof (induction k arbitrary: n)
  case (Suc k)
  show ?case
  proof (cases "n < 16")
    case True
    then show ?thesis by (simp add: hex_digits.simps [of n])
  next
    case False
    with Suc(3) have "0 < k" by (cases k) simp_all
    moreover have "n div 16 < 16 ^ k" using Suc(3) by (simp add: less_mult_imp_div_less mult.commute)
    ultimately show ?thesis using Suc(1) [of "n div 16"] False by (simp add: hex_digits.simps [of n])
  qed
qed simp

section \<open>The assembly text of a decoded instruction\<close>

text \<open>The mnemonic and the operand format of every instruction code but \<open>INST_SYSTEM\<close>.\<close>

datatype asm_format = Fmt_R | Fmt_I | Fmt_B | Fmt_J | Fmt_Load | Fmt_S | Fmt_U | Fmt_Csr | Fmt_None | Fmt_Amo

definition asm_table :: "(code \<times> asm_format \<times> string) list" where
  "asm_table =
    [(INST_ADD, Fmt_R, ''ADD''), (INST_SUB, Fmt_R, ''SUB''), (INST_AND, Fmt_R, ''AND''), (INST_OR, Fmt_R, ''OR''),
     (INST_XOR, Fmt_R, ''XOR''), (INST_SRL, Fmt_R, ''SRL''), (INST_SRA, Fmt_R, ''SRA''), (INST_SLL, Fmt_R, ''SLL''),
     (INST_SLT, Fmt_R, ''SLT''), (INST_SLTU, Fmt_R, ''SLTU''), (INST_MUL, Fmt_R, ''MUL''),
     (INST_MULH, Fmt_R, ''MULH''), (INST_MULHSU, Fmt_R, ''MULHSU''), (INST_MULHU, Fmt_R, ''MULHU''),
     (INST_DIV, Fmt_R, ''DIV''), (INST_DIVU, Fmt_R, ''DIVU''), (INST_REM, Fmt_R, ''REM''),
     (INST_REMU, Fmt_R, ''REMU''), (INST_ADDW, Fmt_R, ''ADDW''), (INST_SUBW, Fmt_R, ''SUBW''),
     (INST_SLLW, Fmt_R, ''SLLW''), (INST_SRLW, Fmt_R, ''SRLW''), (INST_SRAW, Fmt_R, ''SRAW''),
     (INST_MULW, Fmt_R, ''MULW''), (INST_DIVUW, Fmt_R, ''DIVUW''), (INST_DIVW, Fmt_R, ''DIVW''),
     (INST_REMUW, Fmt_R, ''REMUW''), (INST_REMW, Fmt_R, ''REMW''), (INST_ADDI, Fmt_I, ''ADDI''),
     (INST_ANDI, Fmt_I, ''ANDI''), (INST_ORI, Fmt_I, ''ORI''), (INST_XORI, Fmt_I, ''XORI''),
     (INST_SLLI, Fmt_I, ''SLLI''), (INST_SRLI, Fmt_I, ''SRLI''), (INST_SRAI, Fmt_I, ''SRAI''),
     (INST_SLTI, Fmt_I, ''SLTI''), (INST_SLTIU, Fmt_I, ''SLTIU''), (INST_ADDIW, Fmt_I, ''ADDIW''),
     (INST_SLLIW, Fmt_I, ''SLLIW''), (INST_SRLIW, Fmt_I, ''SRLIW''), (INST_SRAIW, Fmt_I, ''SRAIW''),
     (INST_BEQ, Fmt_B, ''BEQ''), (INST_BLT, Fmt_B, ''BLT''), (INST_BLTU, Fmt_B, ''BLTU''), (INST_BGE, Fmt_B, ''BGE''),
     (INST_BGEU, Fmt_B, ''BGEU''), (INST_BNE, Fmt_B, ''BNE''), (INST_JAL, Fmt_J, ''JAL''),
     (INST_JALR, Fmt_Load, ''JALR''), (INST_LB, Fmt_Load, ''LB''), (INST_LBU, Fmt_Load, ''LBU''),
     (INST_LH, Fmt_Load, ''LH''), (INST_LHU, Fmt_Load, ''LHU''), (INST_LW, Fmt_Load, ''LW''),
     (INST_LWU, Fmt_Load, ''LWU''), (INST_LD, Fmt_Load, ''LD''), (INST_SB, Fmt_S, ''SB''), (INST_SH, Fmt_S, ''SH''),
     (INST_SW, Fmt_S, ''SW''), (INST_SD, Fmt_S, ''SD''), (INST_LUI, Fmt_U, ''LUI''), (INST_AUIPC, Fmt_U, ''AUIPC''),
     (INST_CSRRC, Fmt_Csr, ''CSRRC''), (INST_CSRRCI, Fmt_Csr, ''CSRRCI''), (INST_CSRRS, Fmt_Csr, ''CSRRS''),
     (INST_CSRRSI, Fmt_Csr, ''CSRRSI''), (INST_CSRRW, Fmt_Csr, ''CSRRW''), (INST_CSRRWI, Fmt_Csr, ''CSRRWI''),
     (INST_FENCE, Fmt_None, ''FENCE''), (INST_FENCEI, Fmt_None, ''FENCEI''), (INST_AMOADDW, Fmt_Amo, ''AMOADD.W''),
     (INST_AMOADDD, Fmt_Amo, ''AMOADD.D''), (INST_AMOANDW, Fmt_Amo, ''AMOAND.W''),
     (INST_AMOANDD, Fmt_Amo, ''AMOAND.D''), (INST_AMOMAXW, Fmt_Amo, ''AMOMAX.W''),
     (INST_AMOMAXD, Fmt_Amo, ''AMOMAX.D''), (INST_AMOMAXUW, Fmt_Amo, ''AMOMAXU.W''),
     (INST_AMOMAXUD, Fmt_Amo, ''AMOMAXU.D''), (INST_AMOMINW, Fmt_Amo, ''AMOMIN.W''),
     (INST_AMOMIND, Fmt_Amo, ''AMOMIN.D''), (INST_AMOMINUW, Fmt_Amo, ''AMOMINU.W''),
     (INST_AMOMINUD, Fmt_Amo, ''AMOMINU.D''), (INST_AMOORW, Fmt_Amo, ''AMOOR.W''), (INST_AMOORD, Fmt_Amo, ''AMOOR.D''),
     (INST_AMOXORW, Fmt_Amo, ''AMOXOR.W''), (INST_AMOXORD, Fmt_Amo, ''AMOXOR.D''),
     (INST_AMOSWAPW, Fmt_Amo, ''AMOSWAP.W''), (INST_AMOSWAPD, Fmt_Amo, ''AMOSWAP.D'')]"

definition reg_name :: "u32 \<Rightarrow> string" where
  "reg_name r = kRegNames ! unat r"

text \<open>The operands as the disassembler prints them, from the fields of the word.\<close>

definition operands :: "asm_format \<Rightarrow> u32 \<Rightarrow> string" where
  "operands fmt ir =
     (let rd = reg_name (GetRd ir); rs1 = reg_name (GetRs1 ir); rs2 = reg_name (GetRs2 ir)
      in case fmt of
           Fmt_R \<Rightarrow> '' '' @ rd @ '', '' @ rs1 @ '', '' @ rs2
         | Fmt_I \<Rightarrow> '' '' @ rd @ '', '' @ rs1 @ '', '' @ NumberToHex (GetImm12 ir)
         | Fmt_B \<Rightarrow> '' '' @ rs1 @ '', '' @ rs2 @ '', '' @ NumberToHex (GetImm13 ir)
         | Fmt_J \<Rightarrow> '' '' @ rd @ '', '' @ NumberToHex (GetImm21 ir)
         | Fmt_Load \<Rightarrow> '' '' @ rd @ '', '' @ NumberToHex (GetImm12 ir) @ ''('' @ rs1 @ '')''
         | Fmt_S \<Rightarrow> '' '' @ rs2 @ '', '' @ NumberToHex (GetStypeImm12 ir) @ ''('' @ rs1 @ '')''
         | Fmt_U \<Rightarrow> '' '' @ rd @ '', '' @ NumberToHex (GetImm20 ir) @ '' << 12''
         | Fmt_Csr \<Rightarrow> '' '' @ rd @ '', '' @ NumberToHex (GetCsr ir) @ '', '' @ rs1
         | Fmt_None \<Rightarrow> []
         | Fmt_Amo \<Rightarrow> '' '' @ rd @ '', '' @ rs2 @ '', ('' @ rs1 @ '')'')"

lemma GetRegName_field: "GetRegName (bitcrop ir 5 s) = Inr (reg_name (bitcrop (ir :: u32) 5 s))"
proof -
  have "bitcrop ir 5 s < 32" by (rule reg_index_less)
  then show ?thesis by (simp add: GetRegName_def reg_name_def kRegNames_def word_less_nat_alt)
qed

lemma int16_sext: "k < 16 \<Longrightarrow> int16 (signed_take_bit k x) = signed_take_bit k x"
  by (rule bit_word_eqI) (auto simp: int16_def bit_signed_iff bit_ucast_iff bit_sext min_def)

lemma int16_fields:
  "int16 (GetImm12 ir) = GetImm12 ir" "int16 (GetImm13 ir) = GetImm13 ir" "int16 (GetStypeImm12 ir) = GetStypeImm12 ir"
  "int16 (GetCsr ir) = GetCsr ir"
proof -
  obtain x y where "GetImm13 ir = signed_take_bit 12 x" "GetStypeImm12 ir = signed_take_bit 11 y"
    using GetImm_sext(2,4) by blast
  then show "int16 (GetImm12 ir) = GetImm12 ir" "int16 (GetImm13 ir) = GetImm13 ir" "int16 (GetStypeImm12 ir) = GetStypeImm12 ir"
    by (simp_all add: GetImm_sext(1) int16_sext)
  show "int16 (GetCsr ir) = GetCsr ir"
    by (rule bit_word_eqI) (auto simp: int16_def GetCsr_def bit_signed_iff bit_ucast_iff bit_bitcrop min_def)
qed

text \<open>Looking the instructions of the table up in it, one equation for each.\<close>

lemma map_of_entries: "distinct (map fst xs) \<Longrightarrow> ys = xs \<Longrightarrow> list_all (\<lambda>(k, v). map_of xs k = Some v) ys"
  by (auto simp: list_all_iff)

lemma asm_table_distinct: "distinct (map fst asm_table)"
  by (simp add: asm_table_def)

lemmas asm_lookup = map_of_entries [OF asm_table_distinct asm_table_def [symmetric], simplified list.pred_inject prod.case simp_thms]

text \<open>Opcode by opcode, the text is that of the decoded instruction.\<close>

lemma dis_tables:
  "code_ARITHLOG f3 f7 \<noteq> INST_ERROR \<Longrightarrow> map_of asm_table (code_ARITHLOG f3 f7) = Some (Fmt_R, dis_ARITHLOG f3 f7)"
  "code_ARITHLOG_64 f3 f7 \<noteq> INST_ERROR \<Longrightarrow> map_of asm_table (code_ARITHLOG_64 f3 f7) = Some (Fmt_R, dis_ARITHLOG_64 f3 f7)"
  "code_ARITHLOG_I f3 f7 \<noteq> INST_ERROR \<Longrightarrow> map_of asm_table (code_ARITHLOG_I f3 f7) = Some (Fmt_I, dis_ARITHLOG_I f3 f7)"
  "code_ARITHLOG_I64 f3 f7 \<noteq> INST_ERROR \<Longrightarrow> map_of asm_table (code_ARITHLOG_I64 f3 f7) = Some (Fmt_I, dis_ARITHLOG_I64 f3 f7)"
  "code_B f3 \<noteq> INST_ERROR \<Longrightarrow> map_of asm_table (code_B f3) = Some (Fmt_B, dis_B f3)"
  "code_LD f3 \<noteq> INST_ERROR \<Longrightarrow> map_of asm_table (code_LD f3) = Some (Fmt_Load, dis_LD f3)"
  "code_S f3 \<noteq> INST_ERROR \<Longrightarrow> map_of asm_table (code_S f3) = Some (Fmt_S, dis_S f3)"
  "code_FENCE f3 \<noteq> INST_ERROR \<Longrightarrow> map_of asm_table (code_FENCE f3) = Some (Fmt_None, dis_FENCE f3)"
  "code_AMO f3 f5 \<notin> {INST_ERROR, INST_AMOMINUW} \<Longrightarrow> map_of asm_table (code_AMO f3 f5) = Some (Fmt_Amo, dis_AMO f3 f5)"
  "code_SYSTEM f3 \<notin> {INST_ERROR, INST_SYSTEM} \<Longrightarrow> f3 \<noteq> FUNC3_SYSTEM \<and> map_of asm_table (code_SYSTEM f3) = Some (Fmt_Csr, dis_CSR f3)"
  by (simp_all add: code_defs dis_ARITHLOG_def dis_ARITHLOG_64_def dis_ARITHLOG_I_def dis_ARITHLOG_I64_def dis_B_def dis_LD_def
      dis_S_def dis_FENCE_def dis_AMO_def dis_CSR_def asm_lookup Let_def split: if_splits) auto

lemma opcode_u16: "n < 128 \<Longrightarrow> ucast (bitcrop (ir :: u32) 7 0) = (of_nat n :: u16) \<longleftrightarrow> bitcrop ir 7 0 = of_nat n"
proof -
  assume n: "n < 128"
  have "unat (bitcrop ir 7 0) < 2 ^ 7" using unat_take_bit_less [of 7 ir] by (simp add: bitcrop_eq)
  then have "unat (ucast (bitcrop ir 7 0) :: u16) = unat (bitcrop ir 7 0)" by (simp add: unsigned_ucast_eq take_bit_nat_eq_self)
  with n show ?thesis by (simp add: word_unat_eq_iff unat_of_nat)
qed

lemma low_bits_u16: "(ucast (bitcrop (ir :: u32) 7 0) :: u16) AND 3 = ucast (ir AND 3)"
  by (rule bit_word_eqI) (auto simp: and_literal_masks bit_take_bit_iff bit_ucast_iff bit_bitcrop)

definition supported_opcodes :: "u32 set" where
  "supported_opcodes = {OPCODE_ARITHLOG, OPCODE_ARITHLOG_64, OPCODE_ARITHLOG_I, OPCODE_ARITHLOG_I64, OPCODE_B, OPCODE_J, OPCODE_JALR,
    OPCODE_LD, OPCODE_S, OPCODE_LUI, OPCODE_AUIPC, OPCODE_SYSTEM, OPCODE_FENCE, OPCODE_AMO}"

lemma decoded_opcode:
  assumes "GetCode32 ir \<noteq> INST_ERROR"
  shows "bitcrop ir 7 0 \<in> supported_opcodes"
proof -
  have "ucast (bitcrop ir 7 0) \<in> {OPCODE_ARITHLOG, OPCODE_ARITHLOG_64, OPCODE_ARITHLOG_I, OPCODE_ARITHLOG_I64, OPCODE_B, OPCODE_J, OPCODE_JALR,
    OPCODE_LD, OPCODE_S, OPCODE_LUI, OPCODE_AUIPC, OPCODE_SYSTEM, OPCODE_FENCE, OPCODE_AMO :: u16}"
    using assms by (rule contrapos_np) (simp add: GetCode32_def)
  then show ?thesis
    unfolding supported_opcodes_def
    using opcode_u16 [of "0x33" ir] opcode_u16 [of "0x3b" ir] opcode_u16 [of "0x13" ir] opcode_u16 [of "0x1b" ir] opcode_u16 [of "0x63" ir]
      opcode_u16 [of "0x6f" ir] opcode_u16 [of "0x67" ir] opcode_u16 [of 3 ir] opcode_u16 [of "0x23" ir] opcode_u16 [of "0x37" ir]
      opcode_u16 [of "0x17" ir] opcode_u16 [of "0x73" ir] opcode_u16 [of "0xf" ir] opcode_u16 [of "0x2f" ir] by simp
qed

lemma Disassemble32: "ir AND 3 = 3 \<Longrightarrow> Disassemble ir mxl =
     (let opcode = (ucast (bitcrop ir 7 0) :: u16);
           funct3 = (ucast (bitcrop ir 3 12) :: u8);
           funct7 = (ucast (bitcrop ir 7 25) :: u8)
       in if opcode = OPCODE_ARITHLOG then Inr (dis_ARITHLOG funct3 funct7 @ operands Fmt_R ir)
       else if opcode = OPCODE_ARITHLOG_64 then Inr (dis_ARITHLOG_64 funct3 funct7 @ operands Fmt_R ir)
       else if opcode = OPCODE_ARITHLOG_I then Inr (dis_ARITHLOG_I funct3 funct7 @ operands Fmt_I ir)
       else if opcode = OPCODE_ARITHLOG_I64 then Inr (dis_ARITHLOG_I64 funct3 funct7 @ operands Fmt_I ir)
       else if opcode = OPCODE_B then Inr (dis_B funct3 @ operands Fmt_B ir)
       else if opcode = OPCODE_J then Inr (''JAL'' @ operands Fmt_J ir)
       else if opcode = OPCODE_JALR then (if funct3 = FUNC3_JALR then Inr (''JALR'' @ operands Fmt_Load ir) else Inr ''UNDEF'')
       else if opcode = OPCODE_LD then Inr (dis_LD funct3 @ operands Fmt_Load ir)
       else if opcode = OPCODE_S then Inr (dis_S funct3 @ operands Fmt_S ir)
       else if opcode = OPCODE_LUI then Inr (''LUI'' @ operands Fmt_U ir)
       else if opcode = OPCODE_AUIPC then Inr (''AUIPC'' @ operands Fmt_U ir)
       else if opcode = OPCODE_SYSTEM then
         (if funct3 = FUNC3_SYSTEM then Inr (dis_SYSTEM (GetImm12 ir) (GetRd ir)) else Inr (dis_CSR funct3 @ operands Fmt_Csr ir))
       else if opcode = OPCODE_FENCE then Inr (dis_FENCE funct3 @ operands Fmt_None ir)
       else if opcode = OPCODE_AMO then Inr (dis_AMO funct3 (ucast (bitcrop ir 5 27)) @ operands Fmt_Amo ir)
       else Inr ''Undefined instruction'')"
  by (simp add: Disassemble_def Let_def low_bits_u16 int16_fields GetRd_def GetRs1_def GetRs2_def GetRegName_field operands_def
      drop_funct7)

text \<open>
  The operands as the decoder has them: every immediate is the value that \<open>GetImm\<close> hands to the execution of the instruction (the upper
  immediate before its shift).  The text shows the whole 12-bit field of a shift immediate instead; the two differ when the upper six bits of the word are not
  zero, as in every \<open>SRAI\<close> and \<open>SRAIW\<close>.
\<close>

definition asm_operands :: "asm_format \<Rightarrow> u32 \<Rightarrow> string" where
  "asm_operands fmt ir =
     (let rd = reg_name (GetRd ir); rs1 = reg_name (GetRs1 ir); rs2 = reg_name (GetRs2 ir); imm = NumberToHex (GetImm ir)
      in case fmt of
           Fmt_R \<Rightarrow> '' '' @ rd @ '', '' @ rs1 @ '', '' @ rs2
         | Fmt_I \<Rightarrow> '' '' @ rd @ '', '' @ rs1 @ '', '' @ imm
         | Fmt_B \<Rightarrow> '' '' @ rs1 @ '', '' @ rs2 @ '', '' @ imm
         | Fmt_J \<Rightarrow> '' '' @ rd @ '', '' @ imm
         | Fmt_Load \<Rightarrow> '' '' @ rd @ '', '' @ imm @ ''('' @ rs1 @ '')''
         | Fmt_S \<Rightarrow> '' '' @ rs2 @ '', '' @ imm @ ''('' @ rs1 @ '')''
         | Fmt_U \<Rightarrow> '' '' @ rd @ '', '' @ NumberToHex (signed_drop_bit 12 (GetImm ir)) @ '' << 12''
         | Fmt_Csr \<Rightarrow> '' '' @ rd @ '', '' @ NumberToHex (GetCsr ir) @ '', '' @ rs1
         | Fmt_None \<Rightarrow> []
         | Fmt_Amo \<Rightarrow> '' '' @ rd @ '', '' @ rs2 @ '', ('' @ rs1 @ '')'')"

definition wide_shift :: "u32 \<Rightarrow> bool" where
  "wide_shift ir \<longleftrightarrow> GetCode32 ir \<in> {INST_SLLI, INST_SRLI, INST_SRAI, INST_SLLIW, INST_SRLIW, INST_SRAIW} \<and> bitcrop ir 6 26 \<noteq> 0"

lemma shift_imm:
  "GetImm12 ir AND 0x3F = GetImm12 ir \<longleftrightarrow> bitcrop ir 6 26 = 0"
proof -
  have m: "(0x3F :: u32) = mask 6" by (simp add: mask_eq_exp_minus_1)
  have b: "bit (GetImm12 ir) n \<longleftrightarrow> n < 32 \<and> bit ir (min n 11 + 20)" for n
    by (auto simp: GetImm_sext(1) bit_sext bit_bitcrop min_def add.commute)
  have "GetImm12 ir AND 0x3F = GetImm12 ir \<longleftrightarrow> (\<forall>n. 6 \<le> n \<and> n < 32 \<longrightarrow> \<not> bit ir (min n 11 + 20))"
    unfolding m bit_eq_iff bit_and_iff bit_mask_iff b by (auto simp: not_less)
  also have "\<dots> \<longleftrightarrow> (\<forall>k < 6. \<not> bit ir (k + 26))"
  proof
    assume h: "\<forall>n. 6 \<le> n \<and> n < 32 \<longrightarrow> \<not> bit ir (min n 11 + 20)"
    show "\<forall>k < 6. \<not> bit ir (k + 26)"
    proof (intro allI impI)
      fix k :: nat
      assume "k < 6"
      then show "\<not> bit ir (k + 26)" using h [rule_format, of "k + 6"] by (simp add: add.commute)
    qed
  next
    assume h: "\<forall>k < 6. \<not> bit ir (k + 26)"
    show "\<forall>n. 6 \<le> n \<and> n < 32 \<longrightarrow> \<not> bit ir (min n 11 + 20)"
    proof (intro allI impI)
      fix n :: nat
      assume "6 \<le> n \<and> n < 32"
      then have "min n 11 - 6 < 6" "min n 11 - 6 + 26 = min n 11 + 20" by auto
      then show "\<not> bit ir (min n 11 + 20)" using h by metis
    qed
  qed
  also have "\<dots> \<longleftrightarrow> bitcrop ir 6 26 = 0" by (auto simp: bit_eq_iff bit_bitcrop add.commute)
  finally show ?thesis .
qed

lemma upper_imm: "signed_drop_bit 12 (push_bit 12 (GetImm20 ir)) = GetImm20 ir"
  by (rule bit_word_eqI) (auto simp: GetImm20_def SignExtend_eq bit_signed_drop_bit_iff bit_push_bit_iff bit_sext bit_bitcrop min_def)

lemma operands_decoded:
  "operands Fmt_R ir = asm_operands Fmt_R ir" "operands Fmt_Csr ir = asm_operands Fmt_Csr ir"
  "operands Fmt_None ir = asm_operands Fmt_None ir" "operands Fmt_Amo ir = asm_operands Fmt_Amo ir"
  "bitcrop ir 7 0 = OPCODE_B \<Longrightarrow> operands Fmt_B ir = asm_operands Fmt_B ir"
  "bitcrop ir 7 0 = OPCODE_J \<Longrightarrow> operands Fmt_J ir = asm_operands Fmt_J ir"
  "bitcrop ir 7 0 \<in> {OPCODE_LD, OPCODE_JALR} \<Longrightarrow> operands Fmt_Load ir = asm_operands Fmt_Load ir"
  "bitcrop ir 7 0 = OPCODE_S \<Longrightarrow> operands Fmt_S ir = asm_operands Fmt_S ir"
  "bitcrop ir 7 0 \<in> {OPCODE_LUI, OPCODE_AUIPC} \<Longrightarrow> operands Fmt_U ir = asm_operands Fmt_U ir"
  by (auto simp: operands_def asm_operands_def GetImm_def Let_def upper_imm)

lemma operands_immediate:
  assumes "bitcrop ir 7 0 \<in> {OPCODE_ARITHLOG_I, OPCODE_ARITHLOG_I64}" "GetCode32 ir \<noteq> INST_ERROR" "\<not> wide_shift ir"
  shows "operands Fmt_I ir = asm_operands Fmt_I ir"
proof -
  have "GetImm ir = GetImm12 ir"
    using assms shift_imm [of ir]
    by (auto simp: GetImm_def Let_def wide_shift_def GetCode32_opcode code_ARITHLOG_I_def code_ARITHLOG_I64_def split: if_splits)
  then show ?thesis by (simp add: operands_def asm_operands_def Let_def)
qed

lemma disassemble_text:
  assumes "ir AND 3 = 3" "GetCode32 ir \<notin> {INST_ERROR, INST_SYSTEM, INST_AMOMINUW}"
  shows "\<exists>fmt m. map_of asm_table (GetCode32 ir) = Some (fmt, m) \<and> Disassemble ir mxl = Inr (m @ operands fmt ir) \<and>
    (\<not> wide_shift ir \<longrightarrow> operands fmt ir = asm_operands fmt ir)"
proof -
  have "bitcrop ir 7 0 \<in> supported_opcodes" using assms(2) by (intro decoded_opcode) simp
  then show ?thesis
    using assms operands_immediate [of ir] unfolding supported_opcodes_def by (elim insertE)
      (simp_all add: Disassemble32 Let_def GetCode32_opcode dis_tables asm_lookup operands_decoded split: if_splits)
qed

lemma disassemble_wide:
  assumes "ir AND 3 = 3" "wide_shift ir"
  shows "\<exists>m. (GetCode32 ir, Fmt_I, m) \<in> set asm_table \<and> GetImm12 ir \<noteq> GetImm ir \<and>
    Disassemble ir mxl = Inr (m @ '' '' @ reg_name (GetRd ir) @ '', '' @ reg_name (GetRs1 ir) @ '', '' @ NumberToHex (GetImm12 ir))"
proof -
  have c: "GetCode32 ir \<in> {INST_SLLI, INST_SRLI, INST_SRAI, INST_SLLIW, INST_SRLIW, INST_SRAIW}" using assms(2) by (simp add: wide_shift_def)
  then have n: "GetCode32 ir \<notin> {INST_ERROR, INST_SYSTEM, INST_AMOMINUW}" by auto
  have "bitcrop ir 7 0 \<in> supported_opcodes" using n by (intro decoded_opcode) simp
  then have "GetImm ir = GetImm12 ir AND 0x3F"
    using c unfolding supported_opcodes_def by (elim insertE)
      (auto simp: GetImm_def Let_def GetCode32_opcode code_defs split: if_splits)
  then have "GetImm12 ir \<noteq> GetImm ir" using shift_imm [of ir] assms(2) by (auto simp: wide_shift_def)
  moreover obtain fmt m where t: "map_of asm_table (GetCode32 ir) = Some (fmt, m)" "Disassemble ir mxl = Inr (m @ operands fmt ir)"
    using disassemble_text [OF assms(1) n] by blast
  moreover have "fmt = Fmt_I" using c t(1) by (auto simp: asm_lookup)
  ultimately show ?thesis by (auto simp: operands_def Let_def dest!: map_of_SomeD)
qed

text \<open>The names of the system instructions, by the twelve bits at the top of the word.\<close>

definition system_table :: "(u32 \<times> string) list" where
  "system_table = [(0x000, ''ECALL''), (0x001, ''EBREAK''), (0x302, ''MRET''), (0x102, ''SRET'')]"

definition system_name :: "u32 \<Rightarrow> string" where
  "system_name ir =
     (case map_of system_table (drop_bit 20 ir) of Some name \<Rightarrow> name
      | None \<Rightarrow> if drop_bit 25 ir = 9 \<and> GetRd ir = 0 then ''sfence.vma'' else ''Undefined System Instruction'')"

lemma sext_inject:
  fixes x y :: u32
  assumes "take_bit (Suc k) x = x" "take_bit (Suc k) y = y" "k < 31"
  shows "signed_take_bit k x = signed_take_bit k y \<longleftrightarrow> x = y"
proof
  assume "signed_take_bit k x = signed_take_bit k y"
  then have "take_bit (Suc k) (signed_take_bit k x) = take_bit (Suc k) (signed_take_bit k y)" by simp
  with assms show "x = y" by (simp add: take_bit_signed_take_bit)
qed simp

lemma system_fields:
  "k < 2 ^ 11 \<Longrightarrow> GetImm12 ir = of_nat k \<longleftrightarrow> drop_bit 20 ir = of_nat k"
  "signed_drop_bit 5 (GetImm12 ir) = 9 \<longleftrightarrow> drop_bit 25 ir = 9"
proof -
  have t: "take_bit 12 (drop_bit 20 ir) = drop_bit 20 ir" "take_bit 7 (drop_bit 25 ir) = drop_bit 25 ir"
    by (rule bit_word_eqI; auto simp: bit_simps dest: bit_imp_le_length)+
  have g: "GetImm12 ir = signed_take_bit 11 (drop_bit 20 ir)" by (simp add: GetImm_sext(1) bitcrop_eq t)
  show "GetImm12 ir = of_nat k \<longleftrightarrow> drop_bit 20 ir = of_nat k" if k: "k < 2 ^ 11"
  proof -
    have "take_bit 12 (of_nat k :: u32) = of_nat k" using k by (simp add: take_bit_of_nat take_bit_nat_eq_self)
    moreover have "signed_take_bit 11 (of_nat k :: u32) = of_nat k"
    proof -
      have "take_bit 11 k = k" using k by (rule take_bit_nat_eq_self)
      moreover from this have "\<not> bit k 11" by (metis bit_take_bit_iff less_irrefl)
      ultimately show ?thesis by (simp add: signed_take_bit_eq_if_positive bit_of_nat_iff take_bit_of_nat)
    qed
    ultimately show ?thesis unfolding g using sext_inject [of 11 "drop_bit 20 ir" "of_nat k"] t(1) by simp
  qed
  have "signed_drop_bit 5 (GetImm12 ir) = signed_take_bit 6 (drop_bit 25 ir)"
    unfolding g by (rule bit_word_eqI) (auto simp: bit_signed_drop_bit_iff bit_sext bit_drop_bit_eq min_def)
  moreover have "signed_take_bit 6 (9 :: u32) = 9" by simp
  ultimately show "signed_drop_bit 5 (GetImm12 ir) = 9 \<longleftrightarrow> drop_bit 25 ir = 9"
    using sext_inject [of 6 "drop_bit 25 ir" 9] t(2) by simp
qed

lemma dis_SYSTEM_name: "dis_SYSTEM (GetImm12 ir) (GetRd ir) = system_name ir"
  using system_fields(1) [of 0 ir] system_fields(1) [of 1 ir] system_fields(1) [of "0x302" ir] system_fields(1) [of "0x102" ir]
  by (auto simp: dis_SYSTEM_def system_name_def system_table_def system_fields(2))

lemma disassemble_system:
  assumes "ir AND 3 = 3" "GetCode32 ir = INST_SYSTEM"
  shows "Disassemble ir mxl = Inr (system_name ir)"
proof -
  have "bitcrop ir 7 0 \<in> supported_opcodes" using assms(2) by (intro decoded_opcode) simp
  then show ?thesis
    using assms unfolding supported_opcodes_def by (elim insertE)
      (simp_all add: Disassemble32 Let_def GetCode32_opcode code_defs dis_SYSTEM_name split: if_splits)
qed

lemma disassemble_minu:
  assumes "ir AND 3 = 3" "GetCode32 ir = INST_AMOMINUW"
  shows "Disassemble ir mxl = Inr (''AMOMAIN.W'' @ operands Fmt_Amo ir)"
proof -
  have "bitcrop ir 7 0 \<in> supported_opcodes" using assms(2) by (intro decoded_opcode) simp
  then show ?thesis
    using assms unfolding supported_opcodes_def by (elim insertE)
      (simp_all add: Disassemble32 Let_def GetCode32_opcode code_defs dis_AMO_def split: if_splits)
qed

text \<open>Compressed instructions: the operands are registers, so there is always a text.\<close>

lemma GetRegName_less: "r < 32 \<Longrightarrow> GetRegName r = Inr (reg_name r)"
  by (simp add: GetRegName_def reg_name_def kRegNames_def word_less_nat_alt)

lemma Disassemble16_returns: "\<exists>t. Disassemble16 ir mxl = Inr t"
  using GetCode16_regs [of ir mxl]
  by (simp add: regs_ok_def GetRegName_less Disassemble16_def dis_c_add_def dis_c_arith_def Let_def)

lemma Disassemble_returns: "\<exists>t. Disassemble ir mxl = Inr t"
proof (cases "ir AND 3 = 3")
  case True
  then show ?thesis by (simp add: Disassemble32 Let_def)
next
  case False
  have "(ucast (ir AND 3) :: u16) \<noteq> 3"
  proof
    assume "(ucast (ir AND 3) :: u16) = 3"
    moreover have "ucast (ucast (ir AND 3) :: u16) = ir AND 3" by (rule bit_word_eqI) (auto simp: and_literal_masks bit_simps)
    ultimately have "ir AND 3 = ucast (3 :: u16)" by simp
    with False show False by simp
  qed
  then show ?thesis using Disassemble16_returns [of ir mxl] by (simp add: Disassemble_def Let_def low_bits_u16)
qed

lemma c_sw_text:
  assumes "ir AND 0xE003 = 0xC000"
  shows "Disassemble16 ir mxl = Inr (''C.BEQZ '' @ reg_name (bitcrop ir 3 7 + 8) @ '', '' @ NumberToHex (SignExtend (d_imm (c_sw ir)) 9))"
proof -
  have f: "bitcrop ir 3 13 = 6" "bitcrop ir 2 0 = 0"
    using bitcrop_masked [OF assms, of 3 13] bitcrop_masked [OF assms, of 2 0] by (simp_all add: bitcrop_eq mask_eq_exp_minus_1)
  have "drop_bit 13 ir AND 7 = 6" "ir AND 3 = 0" using f by (simp_all add: bitcrop_eq and_literal_masks)
  then have g: "GetCode16 ir mxl = c_sw ir" by (simp add: GetCode16_def)
  show ?thesis
    using GetCode16_regs [of ir mxl] by (simp add: Disassemble16_def Let_def f g regs_ok_def GetRegName_less) (simp add: c_sw_def)
qed

section \<open>Properties\<close>

text \<open>C39: The disassembler agrees with the decoder: the text of a 32-bit word that decodes to an instruction is the instruction's mnemonic followed by the
  operands of its format, with the decoded register names and the decoded immediate; a system instruction is named by its upper twelve bits.  Excepted are
  \<open>AMOMINU.W\<close>, which is misprinted, and the shift immediates whose upper six bits are not zero (every \<open>SRAI\<close> and \<open>SRAIW\<close> among them): they are printed under their
  name, but with the whole 12-bit field in place of the shift amount.\<close>

theorem disassembler_agrees:
  assumes "ir AND 3 = 3"
  shows "(GetCode32 ir \<notin> {INST_ERROR, INST_SYSTEM, INST_AMOMINUW} \<and> \<not> wide_shift ir \<longrightarrow>
      (\<exists>fmt m. (GetCode32 ir, fmt, m) \<in> set asm_table \<and> Disassemble ir mxl = Inr (m @ asm_operands fmt ir))) \<and>
    (GetCode32 ir = INST_SYSTEM \<longrightarrow> Disassemble ir mxl = Inr (system_name ir))"
  using disassemble_text [OF assms, of mxl] disassemble_system [OF assms, of mxl] by (metis map_of_SomeD)

theorem disassembler_agrees_witness: "Disassemble 0x40B50533 1 = Inr ''SUB A0, A0, A1'' \<and> Disassemble 0x30200073 1 = Inr ''MRET''"
proof -
  have a: "(0x40B50533 :: u32) AND 3 = 3" by simp
  have "(INST_SUB, 0xFE00707F, 0x40000033) \<in> set isa_encodings" by (simp add: isa_encodings_def isa_R_def)
  from isa_encodings_ok [OF this] have c: "GetCode32 0x40B50533 = INST_SUB" by simp
  then obtain fmt m where t: "(INST_SUB, fmt, m) \<in> set asm_table" "Disassemble 0x40B50533 1 = Inr (m @ asm_operands fmt 0x40B50533)"
    using disassembler_agrees [OF a, of 1] by (auto simp: wide_shift_def)
  from t(1) have "fmt = Fmt_R" "m = ''SUB''" by (simp_all add: asm_table_def)
  moreover have "asm_operands Fmt_R 0x40B50533 = '' A0, A0, A1''"
    by (simp add: asm_operands_def reg_name_def GetRd_def GetRs1_def GetRs2_def bitcrop_eq kRegNames_def)
  moreover have "Disassemble 0x30200073 1 = Inr ''MRET''"
  proof -
    have "(INST_SYSTEM, 0x707F, 0x73) \<in> set isa_encodings" by (simp add: isa_encodings_def isa_I_def)
    from isa_encodings_ok [OF this] have "GetCode32 0x30200073 = INST_SYSTEM" by simp
    then show ?thesis using disassembler_agrees [of "0x30200073" 1] by (simp add: system_name_def system_table_def)
  qed
  ultimately show ?thesis using t(2) by simp
qed

text \<open>Disassembly is total: for every word and both register widths it returns a text, so no register name is read outside its
  table, also for compressed words that do not decode.\<close>

theorem disassembler_total: "\<exists>t. Disassemble ir mxl = Inr t"
  by (rule Disassemble_returns)

text \<open>Hexadecimal numbers read back: \<open>NumberToHex\<close> prints \<open>0x\<close> and one to eight digits whose value is the number.\<close>

theorem NumberToHex_roundtrip:
  "\<exists>ds. NumberToHex num = ''0x'' @ ds \<and> read_hex ds = unat num \<and> 1 \<le> length ds \<and> length ds \<le> 8"
proof -
  have "unat num < 16 ^ 8" using unsigned_less [of num] by simp
  then show ?thesis using length_hex_digits [of 8 "unat num"] by (simp add: NumberToHex_def read_hex_digits Suc_le_eq)
qed

text \<open>What is printed wrong: \<open>AMOMINU.W\<close> as \<open>AMOMAIN.W\<close>; every \<open>C.SW\<close>, whose case falls through, as
  the branch \<open>C.BEQZ\<close>; and a shift immediate with bits above the shift amount, in particular every \<open>SRAI\<close> and \<open>SRAIW\<close>, with these bits.\<close>

theorem disassembler_misprints:
  "(ir AND 3 = 3 \<and> GetCode32 ir = INST_AMOMINUW \<longrightarrow> Disassemble ir mxl = Inr (''AMOMAIN.W'' @ operands Fmt_Amo ir)) \<and>
   (ir AND 0xE003 = 0xC000 \<longrightarrow> d_instruction (GetCode16 ir mxl) = INST_SW \<and>
      Disassemble16 ir mxl = Inr (''C.BEQZ '' @ reg_name (bitcrop ir 3 7 + 8) @ '', '' @ NumberToHex (SignExtend (d_imm (c_sw ir)) 9))) \<and>
   (ir AND 3 = 3 \<and> wide_shift ir \<longrightarrow> (\<exists>m. (GetCode32 ir, Fmt_I, m) \<in> set asm_table \<and> GetImm12 ir \<noteq> GetImm ir \<and>
      Disassemble ir mxl = Inr (m @ '' '' @ reg_name (GetRd ir) @ '', '' @ reg_name (GetRs1 ir) @ '', '' @ NumberToHex (GetImm12 ir))))"
proof -
  have "d_instruction (GetCode16 ir mxl) = INST_SW" if "ir AND 0xE003 = 0xC000"
  proof -
    have "bitcrop ir 3 13 = 6" "bitcrop ir 2 0 = 0"
      using bitcrop_masked [OF that, of 3 13] bitcrop_masked [OF that, of 2 0] by (simp_all add: bitcrop_eq mask_eq_exp_minus_1)
    then have "drop_bit 13 ir AND 7 = 6" "ir AND 3 = 0" by (simp_all add: bitcrop_eq and_literal_masks)
    then show ?thesis by (simp add: GetCode16_def c_sw_def)
  qed
  with disassemble_minu [of ir mxl] c_sw_text [of ir mxl] disassemble_wide [of ir mxl] show ?thesis by blast
qed

theorem disassembler_misprints_witness: "Disassemble16 0xC188 2 = Inr ''C.BEQZ A1, 0x0''"
proof -
  have "Disassemble16 0xC188 2 = Inr (''C.BEQZ '' @ reg_name (bitcrop 0xC188 3 7 + 8) @ '', '' @ NumberToHex (SignExtend (d_imm (c_sw 0xC188)) 9))"
    using disassembler_misprints [of "0xC188" 2] by simp
  moreover have "reg_name (bitcrop 0xC188 3 7 + 8) = ''A1''" by (simp add: reg_name_def bitcrop_eq kRegNames_def)
  moreover have "SignExtend (d_imm (c_sw 0xC188)) 9 = 0" by (simp add: c_sw_def c_init_def bitcrop_eq SignExtend_eq)
  moreover have "NumberToHex 0 = ''0x0''" by (simp add: NumberToHex_def hex_digits.simps hex_char_def)
  ultimately show ?thesis by simp
qed

end
