(* ===== verification/Assembler.thy ===== *)
theory Assembler
  imports Decode Memory_Wrapper
begin

text \<open>
  The assembler of the test programs: \<open>tests/assembler.cc\<close>, one function per instruction on the format classes of \<open>Instruction_Encdec\<close>, and the
  functions of \<open>tests/load_assembler.cc\<close> that place instructions in memory.  Enumerators are words; an \<open>int32_t\<close> is the \<open>u32\<close> of its two's
  complement bits, shifted to the right arithmetically.  The fields of a format object that the code leaves uninitialised are not read by \<open>GetValue\<close> and are 0 here.
\<close>

section \<open>R type\<close>

definition AsmRType :: "u16 \<Rightarrow> u8 \<Rightarrow> u8 \<Rightarrow> u32 \<Rightarrow> u32 \<Rightarrow> u32 \<Rightarrow> u32" where
  "AsmRType opcode funct funct3 rd rs1 rs2 =
     RType_GetValue \<lparr>bf_opcode = ucast opcode, bf_rd = ucast rd, bf_rs2 = ucast rs2, bf_rs1 = ucast rs1, bf_funct3 = ucast funct3,
       r_funct7 = ucast funct\<rparr>"

definition AsmAdd :: "u32 \<Rightarrow> u32 \<Rightarrow> u32 \<Rightarrow> u32" where
  "AsmAdd rd rs1 rs2 = AsmRType OPCODE_ARITHLOG FUNC_NORM FUNC3_ADDSUB rd rs1 rs2"

definition AsmAddw :: "u32 \<Rightarrow> u32 \<Rightarrow> u32 \<Rightarrow> u32" where
  "AsmAddw rd rs1 rs2 = AsmRType OPCODE_ARITHLOG_64 FUNC_NORM FUNC3_ADDSUB rd rs1 rs2"

definition AsmSub :: "u32 \<Rightarrow> u32 \<Rightarrow> u32 \<Rightarrow> u32" where
  "AsmSub rd rs1 rs2 = AsmRType OPCODE_ARITHLOG FUNC_ALT FUNC3_ADDSUB rd rs1 rs2"

definition AsmSubw :: "u32 \<Rightarrow> u32 \<Rightarrow> u32 \<Rightarrow> u32" where
  "AsmSubw rd rs1 rs2 = AsmRType OPCODE_ARITHLOG_64 FUNC_ALT FUNC3_ADDSUB rd rs1 rs2"

definition AsmAnd :: "u32 \<Rightarrow> u32 \<Rightarrow> u32 \<Rightarrow> u32" where
  "AsmAnd rd rs1 rs2 = AsmRType OPCODE_ARITHLOG FUNC_NORM FUNC3_AND rd rs1 rs2"

definition AsmOr :: "u32 \<Rightarrow> u32 \<Rightarrow> u32 \<Rightarrow> u32" where
  "AsmOr rd rs1 rs2 = AsmRType OPCODE_ARITHLOG FUNC_NORM FUNC3_OR rd rs1 rs2"

definition AsmXor :: "u32 \<Rightarrow> u32 \<Rightarrow> u32 \<Rightarrow> u32" where
  "AsmXor rd rs1 rs2 = AsmRType OPCODE_ARITHLOG FUNC_NORM FUNC3_XOR rd rs1 rs2"

definition AsmSll :: "u32 \<Rightarrow> u32 \<Rightarrow> u32 \<Rightarrow> u32" where
  "AsmSll rd rs1 rs2 = AsmRType OPCODE_ARITHLOG FUNC_NORM FUNC3_SL rd rs1 rs2"

definition AsmSllw :: "u32 \<Rightarrow> u32 \<Rightarrow> u32 \<Rightarrow> u32" where
  "AsmSllw rd rs1 rs2 = AsmRType OPCODE_ARITHLOG_64 FUNC_NORM FUNC3_SL rd rs1 rs2"

definition AsmSrl :: "u32 \<Rightarrow> u32 \<Rightarrow> u32 \<Rightarrow> u32" where
  "AsmSrl rd rs1 rs2 = AsmRType OPCODE_ARITHLOG FUNC_NORM FUNC3_SR rd rs1 rs2"

definition AsmSrlw :: "u32 \<Rightarrow> u32 \<Rightarrow> u32 \<Rightarrow> u32" where
  "AsmSrlw rd rs1 rs2 = AsmRType OPCODE_ARITHLOG_64 FUNC_NORM FUNC3_SR rd rs1 rs2"

definition AsmSra :: "u32 \<Rightarrow> u32 \<Rightarrow> u32 \<Rightarrow> u32" where
  "AsmSra rd rs1 rs2 = AsmRType OPCODE_ARITHLOG FUNC_ALT FUNC3_SR rd rs1 rs2"

definition AsmSraw :: "u32 \<Rightarrow> u32 \<Rightarrow> u32 \<Rightarrow> u32" where
  "AsmSraw rd rs1 rs2 = AsmRType OPCODE_ARITHLOG_64 FUNC_ALT FUNC3_SR rd rs1 rs2"

definition AsmSlt :: "u32 \<Rightarrow> u32 \<Rightarrow> u32 \<Rightarrow> u32" where
  "AsmSlt rd rs1 rs2 = AsmRType OPCODE_ARITHLOG FUNC_NORM FUNC3_SLT rd rs1 rs2"

definition AsmSltu :: "u32 \<Rightarrow> u32 \<Rightarrow> u32 \<Rightarrow> u32" where
  "AsmSltu rd rs1 rs2 = AsmRType OPCODE_ARITHLOG FUNC_NORM FUNC3_SLTU rd rs1 rs2"

definition AsmMret :: "u32" where
  "AsmMret = (let rs2 = 0b00010 in AsmRType OPCODE_SYSTEM FUNC_MRET FUNC3_SYSTEM 0 0 rs2)"

section \<open>Atomic operations, a variation of the R type\<close>

definition AsmAType :: "u16 \<Rightarrow> u8 \<Rightarrow> u8 \<Rightarrow> u32 \<Rightarrow> u32 \<Rightarrow> u32 \<Rightarrow> u32 \<Rightarrow> u32 \<Rightarrow> u32" where
  "AsmAType opcode funct5 funct3 rd rs1 rs2 aq rl =
     (let funct7 = push_bit 2 (ucast funct5) OR push_bit 1 (aq AND 0b1) OR (rl AND 0b1)
      in RType_GetValue \<lparr>bf_opcode = ucast opcode, bf_rd = ucast rd, bf_rs2 = ucast rs2, bf_rs1 = ucast rs1, bf_funct3 = ucast funct3,
           r_funct7 = ucast (funct7 :: u32)\<rparr>)"

definition AsmAmoAddd :: "u32 \<Rightarrow> u32 \<Rightarrow> u32 \<Rightarrow> u32 \<Rightarrow> u32 \<Rightarrow> u32" where
  "AsmAmoAddd rd rs1 rs2 aq rl = AsmAType OPCODE_AMO FUNC5_AMOADD FUNC3_AMOD rd rs1 rs2 aq rl"

definition AsmAmoAddw :: "u32 \<Rightarrow> u32 \<Rightarrow> u32 \<Rightarrow> u32 \<Rightarrow> u32 \<Rightarrow> u32" where
  "AsmAmoAddw rd rs1 rs2 aq rl = AsmAType OPCODE_AMO FUNC5_AMOADD FUNC3_AMOW rd rs1 rs2 aq rl"

definition AsmAmoAndd :: "u32 \<Rightarrow> u32 \<Rightarrow> u32 \<Rightarrow> u32 \<Rightarrow> u32 \<Rightarrow> u32" where
  "AsmAmoAndd rd rs1 rs2 aq rl = AsmAType OPCODE_AMO FUNC5_AMOAND FUNC3_AMOD rd rs1 rs2 aq rl"

definition AsmAmoAndw :: "u32 \<Rightarrow> u32 \<Rightarrow> u32 \<Rightarrow> u32 \<Rightarrow> u32 \<Rightarrow> u32" where
  "AsmAmoAndw rd rs1 rs2 aq rl = AsmAType OPCODE_AMO FUNC5_AMOAND FUNC3_AMOW rd rs1 rs2 aq rl"

definition AsmAmoMaxd :: "u32 \<Rightarrow> u32 \<Rightarrow> u32 \<Rightarrow> u32 \<Rightarrow> u32 \<Rightarrow> u32" where
  "AsmAmoMaxd rd rs1 rs2 aq rl = AsmAType OPCODE_AMO FUNC5_AMOMAX FUNC3_AMOD rd rs1 rs2 aq rl"

definition AsmAmoMaxw :: "u32 \<Rightarrow> u32 \<Rightarrow> u32 \<Rightarrow> u32 \<Rightarrow> u32 \<Rightarrow> u32" where
  "AsmAmoMaxw rd rs1 rs2 aq rl = AsmAType OPCODE_AMO FUNC5_AMOMAX FUNC3_AMOW rd rs1 rs2 aq rl"

definition AsmAmoMaxud :: "u32 \<Rightarrow> u32 \<Rightarrow> u32 \<Rightarrow> u32 \<Rightarrow> u32 \<Rightarrow> u32" where
  "AsmAmoMaxud rd rs1 rs2 aq rl = AsmAType OPCODE_AMO FUNC5_AMOMAXU FUNC3_AMOD rd rs1 rs2 aq rl"

definition AsmAmoMaxuw :: "u32 \<Rightarrow> u32 \<Rightarrow> u32 \<Rightarrow> u32 \<Rightarrow> u32 \<Rightarrow> u32" where
  "AsmAmoMaxuw rd rs1 rs2 aq rl = AsmAType OPCODE_AMO FUNC5_AMOMAXU FUNC3_AMOW rd rs1 rs2 aq rl"

definition AsmAmoMind :: "u32 \<Rightarrow> u32 \<Rightarrow> u32 \<Rightarrow> u32 \<Rightarrow> u32 \<Rightarrow> u32" where
  "AsmAmoMind rd rs1 rs2 aq rl = AsmAType OPCODE_AMO FUNC5_AMOMIN FUNC3_AMOD rd rs1 rs2 aq rl"

definition AsmAmoMinw :: "u32 \<Rightarrow> u32 \<Rightarrow> u32 \<Rightarrow> u32 \<Rightarrow> u32 \<Rightarrow> u32" where
  "AsmAmoMinw rd rs1 rs2 aq rl = AsmAType OPCODE_AMO FUNC5_AMOMIN FUNC3_AMOW rd rs1 rs2 aq rl"

definition AsmAmoMinud :: "u32 \<Rightarrow> u32 \<Rightarrow> u32 \<Rightarrow> u32 \<Rightarrow> u32 \<Rightarrow> u32" where
  "AsmAmoMinud rd rs1 rs2 aq rl = AsmAType OPCODE_AMO FUNC5_AMOMINU FUNC3_AMOD rd rs1 rs2 aq rl"

definition AsmAmoMinuw :: "u32 \<Rightarrow> u32 \<Rightarrow> u32 \<Rightarrow> u32 \<Rightarrow> u32 \<Rightarrow> u32" where
  "AsmAmoMinuw rd rs1 rs2 aq rl = AsmAType OPCODE_AMO FUNC5_AMOMINU FUNC3_AMOW rd rs1 rs2 aq rl"

definition AsmAmoOrd :: "u32 \<Rightarrow> u32 \<Rightarrow> u32 \<Rightarrow> u32 \<Rightarrow> u32 \<Rightarrow> u32" where
  "AsmAmoOrd rd rs1 rs2 aq rl = AsmAType OPCODE_AMO FUNC5_AMOOR FUNC3_AMOD rd rs1 rs2 aq rl"

definition AsmAmoOrw :: "u32 \<Rightarrow> u32 \<Rightarrow> u32 \<Rightarrow> u32 \<Rightarrow> u32 \<Rightarrow> u32" where
  "AsmAmoOrw rd rs1 rs2 aq rl = AsmAType OPCODE_AMO FUNC5_AMOOR FUNC3_AMOW rd rs1 rs2 aq rl"

definition AsmAmoSwapd :: "u32 \<Rightarrow> u32 \<Rightarrow> u32 \<Rightarrow> u32 \<Rightarrow> u32 \<Rightarrow> u32" where
  "AsmAmoSwapd rd rs1 rs2 aq rl = AsmAType OPCODE_AMO FUNC5_AMOSWAP FUNC3_AMOD rd rs1 rs2 aq rl"

definition AsmAmoSwapw :: "u32 \<Rightarrow> u32 \<Rightarrow> u32 \<Rightarrow> u32 \<Rightarrow> u32 \<Rightarrow> u32" where
  "AsmAmoSwapw rd rs1 rs2 aq rl = AsmAType OPCODE_AMO FUNC5_AMOSWAP FUNC3_AMOW rd rs1 rs2 aq rl"

definition AsmAmoXord :: "u32 \<Rightarrow> u32 \<Rightarrow> u32 \<Rightarrow> u32 \<Rightarrow> u32 \<Rightarrow> u32" where
  "AsmAmoXord rd rs1 rs2 aq rl = AsmAType OPCODE_AMO FUNC5_AMOXOR FUNC3_AMOD rd rs1 rs2 aq rl"

definition AsmAmoXorw :: "u32 \<Rightarrow> u32 \<Rightarrow> u32 \<Rightarrow> u32 \<Rightarrow> u32 \<Rightarrow> u32" where
  "AsmAmoXorw rd rs1 rs2 aq rl = AsmAType OPCODE_AMO FUNC5_AMOXOR FUNC3_AMOW rd rs1 rs2 aq rl"

section \<open>I type\<close>

definition AsmIType :: "u16 \<Rightarrow> u8 \<Rightarrow> u32 \<Rightarrow> u32 \<Rightarrow> u32 \<Rightarrow> u32" where
  "AsmIType opcode funct3 rd rs1 imm12 =
     IType_GetValue \<lparr>bf_opcode = ucast opcode, bf_rd = ucast rd, bf_rs2 = 0, bf_rs1 = ucast rs1, bf_funct3 = ucast funct3,
       i_imm12 = ucast (imm12 AND 0xFFF)\<rparr>"

definition AsmAddi :: "u32 \<Rightarrow> u32 \<Rightarrow> u32 \<Rightarrow> u32" where
  "AsmAddi rd rs1 imm12 = AsmIType OPCODE_ARITHLOG_I FUNC3_ADDSUB rd rs1 imm12"

definition AsmAddiw :: "u32 \<Rightarrow> u32 \<Rightarrow> u32 \<Rightarrow> u32" where
  "AsmAddiw rd rs1 imm12 = AsmIType OPCODE_ARITHLOG_I64 FUNC3_ADDSUB rd rs1 imm12"

definition AsmAndi :: "u32 \<Rightarrow> u32 \<Rightarrow> u32 \<Rightarrow> u32" where
  "AsmAndi rd rs1 imm12 = AsmIType OPCODE_ARITHLOG_I FUNC3_AND rd rs1 imm12"

definition AsmOri :: "u32 \<Rightarrow> u32 \<Rightarrow> u32 \<Rightarrow> u32" where
  "AsmOri rd rs1 imm12 = AsmIType OPCODE_ARITHLOG_I FUNC3_OR rd rs1 imm12"

definition AsmXori :: "u32 \<Rightarrow> u32 \<Rightarrow> u32 \<Rightarrow> u32" where
  "AsmXori rd rs1 imm12 = AsmIType OPCODE_ARITHLOG_I FUNC3_XOR rd rs1 imm12"

definition AsmSlli :: "u32 \<Rightarrow> u32 \<Rightarrow> u32 \<Rightarrow> u32" where
  "AsmSlli rd rs1 imm12 = (let imm12 = imm12 AND 0b0111111 in AsmIType OPCODE_ARITHLOG_I FUNC3_SL rd rs1 imm12)"

definition AsmSlliw :: "u32 \<Rightarrow> u32 \<Rightarrow> u32 \<Rightarrow> u32" where
  "AsmSlliw rd rs1 imm12 = (let imm12 = imm12 AND 0b0111111 in AsmIType OPCODE_ARITHLOG_I64 FUNC3_SL rd rs1 imm12)"

definition AsmSrli :: "u32 \<Rightarrow> u32 \<Rightarrow> u32 \<Rightarrow> u32" where
  "AsmSrli rd rs1 imm12 = (let imm12 = imm12 AND 0b0111111 in AsmIType OPCODE_ARITHLOG_I FUNC3_SR rd rs1 imm12)"

definition AsmSrliw :: "u32 \<Rightarrow> u32 \<Rightarrow> u32 \<Rightarrow> u32" where
  "AsmSrliw rd rs1 imm12 = (let imm12 = imm12 AND 0b0111111 in AsmIType OPCODE_ARITHLOG_I64 FUNC3_SR rd rs1 imm12)"

definition AsmSrai :: "u32 \<Rightarrow> u32 \<Rightarrow> u32 \<Rightarrow> u32" where
  "AsmSrai rd rs1 imm12 =
     (let imm12 = imm12 AND 0b0111111;
          imm12 = imm12 OR push_bit 6 (drop_bit 1 FUNC_ALT)
      in AsmIType OPCODE_ARITHLOG_I FUNC3_SR rd rs1 imm12)"

definition AsmSraiw :: "u32 \<Rightarrow> u32 \<Rightarrow> u32 \<Rightarrow> u32" where
  "AsmSraiw rd rs1 imm12 =
     (let imm12 = imm12 AND 0b0111111;
          imm12 = imm12 OR push_bit 6 (drop_bit 1 FUNC_ALT)
      in AsmIType OPCODE_ARITHLOG_I64 FUNC3_SR rd rs1 imm12)"

definition AsmSlti :: "u32 \<Rightarrow> u32 \<Rightarrow> u32 \<Rightarrow> u32" where
  "AsmSlti rd rs1 imm12 = AsmIType OPCODE_ARITHLOG_I FUNC3_SLT rd rs1 imm12"

definition AsmSltiu :: "u32 \<Rightarrow> u32 \<Rightarrow> u32 \<Rightarrow> u32" where
  "AsmSltiu rd rs1 imm12 = AsmIType OPCODE_ARITHLOG_I FUNC3_SLTU rd rs1 imm12"

definition AsmJalr :: "u32 \<Rightarrow> u32 \<Rightarrow> u32 \<Rightarrow> u32" where
  "AsmJalr rd rs1 offset12 = AsmIType OPCODE_JALR FUNC3_JALR rd rs1 offset12"

definition AsmEbreak :: "u32" where
  "AsmEbreak = AsmIType OPCODE_SYSTEM FUNC3_SYSTEM 0 0 1"

definition AsmEcall :: "u32" where
  "AsmEcall = AsmIType OPCODE_SYSTEM FUNC3_SYSTEM 0 0 0"

definition AsmCsrrc :: "u32 \<Rightarrow> u32 \<Rightarrow> u32 \<Rightarrow> u32" where
  "AsmCsrrc rd rs1 offset12 = AsmIType OPCODE_SYSTEM FUNC3_CSRRC rd rs1 offset12"

definition AsmCsrrci :: "u32 \<Rightarrow> u32 \<Rightarrow> u32 \<Rightarrow> u32" where
  "AsmCsrrci rd zimm offset12 = AsmIType OPCODE_SYSTEM FUNC3_CSRRCI rd zimm offset12"

definition AsmCsrrs :: "u32 \<Rightarrow> u32 \<Rightarrow> u32 \<Rightarrow> u32" where
  "AsmCsrrs rd rs1 offset12 = AsmIType OPCODE_SYSTEM FUNC3_CSRRS rd rs1 offset12"

definition AsmCsrrsi :: "u32 \<Rightarrow> u32 \<Rightarrow> u32 \<Rightarrow> u32" where
  "AsmCsrrsi rd zimm offset12 = AsmIType OPCODE_SYSTEM FUNC3_CSRRSI rd zimm offset12"

definition AsmCsrrw :: "u32 \<Rightarrow> u32 \<Rightarrow> u32 \<Rightarrow> u32" where
  "AsmCsrrw rd rs1 offset12 = AsmIType OPCODE_SYSTEM FUNC3_CSRRW rd rs1 offset12"

definition AsmCsrrwi :: "u32 \<Rightarrow> u32 \<Rightarrow> u32 \<Rightarrow> u32" where
  "AsmCsrrwi rd zimm offset12 = AsmIType OPCODE_SYSTEM FUNC3_CSRRWI rd zimm offset12"

definition AsmFence :: "u32 \<Rightarrow> u32 \<Rightarrow> u32 res" where
  "AsmFence pred succ =
     rbind (assert_that (pred AND NOT 0xF = 0)) (\<lambda>_.
     rbind (assert_that (succ AND NOT 0xF = 0)) (\<lambda>_.
       let imm12 = push_bit 4 pred OR succ in Inr (AsmIType OPCODE_FENCE FUNC3_FENCE 0 0 imm12)))"

definition AsmFencei :: "u32" where
  "AsmFencei = AsmIType OPCODE_FENCE FUNC3_FENCEI 0 0 0"

definition AsmLb :: "u32 \<Rightarrow> u32 \<Rightarrow> u32 \<Rightarrow> u32" where
  "AsmLb rd rs1 offset12 = AsmIType OPCODE_LD FUNC3_LSB rd rs1 offset12"

definition AsmLbu :: "u32 \<Rightarrow> u32 \<Rightarrow> u32 \<Rightarrow> u32" where
  "AsmLbu rd rs1 offset12 = AsmIType OPCODE_LD FUNC3_LSBU rd rs1 offset12"

definition AsmLh :: "u32 \<Rightarrow> u32 \<Rightarrow> u32 \<Rightarrow> u32" where
  "AsmLh rd rs1 offset12 = AsmIType OPCODE_LD FUNC3_LSH rd rs1 offset12"

definition AsmLhu :: "u32 \<Rightarrow> u32 \<Rightarrow> u32 \<Rightarrow> u32" where
  "AsmLhu rd rs1 offset12 = AsmIType OPCODE_LD FUNC3_LSHU rd rs1 offset12"

definition AsmLw :: "u32 \<Rightarrow> u32 \<Rightarrow> u32 \<Rightarrow> u32" where
  "AsmLw rd rs1 offset12 = AsmIType OPCODE_LD FUNC3_LSW rd rs1 offset12"

definition AsmLd :: "u32 \<Rightarrow> u32 \<Rightarrow> u32 \<Rightarrow> u32" where
  "AsmLd rd rs1 offset12 = AsmIType OPCODE_LD FUNC3_LSD rd rs1 offset12"

definition AsmLwu :: "u32 \<Rightarrow> u32 \<Rightarrow> u32 \<Rightarrow> u32" where
  "AsmLwu rd rs1 offset12 = AsmIType OPCODE_LD FUNC3_LSWU rd rs1 offset12"

section \<open>B type\<close>

definition AsmBType :: "u16 \<Rightarrow> u8 \<Rightarrow> u32 \<Rightarrow> u32 \<Rightarrow> u32 \<Rightarrow> u32" where
  "AsmBType opcode funct3 rs1 rs2 offset13 =
     BType_GetValue \<lparr>bf_opcode = ucast opcode, bf_rd = 0, bf_rs2 = ucast rs2, bf_rs1 = ucast rs1, bf_funct3 = ucast funct3,
       b_imm13 = ucast offset13\<rparr>"

definition AsmBeq :: "u32 \<Rightarrow> u32 \<Rightarrow> u32 \<Rightarrow> u32" where
  "AsmBeq rs1 rs2 offset13 = AsmBType OPCODE_B FUNC3_BEQ rs1 rs2 offset13"

definition AsmBge :: "u32 \<Rightarrow> u32 \<Rightarrow> u32 \<Rightarrow> u32" where
  "AsmBge rs1 rs2 offset13 = AsmBType OPCODE_B FUNC3_BGE rs1 rs2 offset13"

definition AsmBgeu :: "u32 \<Rightarrow> u32 \<Rightarrow> u32 \<Rightarrow> u32" where
  "AsmBgeu rs1 rs2 offset13 = AsmBType OPCODE_B FUNC3_BGEU rs1 rs2 offset13"

definition AsmBlt :: "u32 \<Rightarrow> u32 \<Rightarrow> u32 \<Rightarrow> u32" where
  "AsmBlt rs1 rs2 offset13 = AsmBType OPCODE_B FUNC3_BLT rs1 rs2 offset13"

definition AsmBltu :: "u32 \<Rightarrow> u32 \<Rightarrow> u32 \<Rightarrow> u32" where
  "AsmBltu rs1 rs2 offset13 = AsmBType OPCODE_B FUNC3_BLTU rs1 rs2 offset13"

definition AsmBne :: "u32 \<Rightarrow> u32 \<Rightarrow> u32 \<Rightarrow> u32" where
  "AsmBne rs1 rs2 offset13 = AsmBType OPCODE_B FUNC3_BNE rs1 rs2 offset13"

section \<open>J type\<close>

definition AsmJType :: "u16 \<Rightarrow> u32 \<Rightarrow> u32 \<Rightarrow> u32" where
  "AsmJType opcode rd offset21 =
     JType_GetValue \<lparr>bf_opcode = ucast opcode, bf_rd = ucast rd, bf_rs2 = 0, bf_rs1 = 0, bf_funct3 = 0, j_imm21 = ucast offset21\<rparr>"

definition AsmJal :: "u32 \<Rightarrow> u32 \<Rightarrow> u32" where
  "AsmJal rd offset21 = AsmJType OPCODE_J rd offset21"

section \<open>S type\<close>

definition AsmSType :: "u16 \<Rightarrow> u8 \<Rightarrow> u32 \<Rightarrow> u32 \<Rightarrow> u32 \<Rightarrow> u32" where
  "AsmSType opcode funct3 rs1 rs2 offset12 =
     SType_GetValue \<lparr>bf_opcode = ucast opcode, bf_rd = 0, bf_rs2 = ucast rs2, bf_rs1 = ucast rs1, bf_funct3 = ucast funct3,
       s_imm12 = ucast offset12\<rparr>"

definition AsmSw :: "u32 \<Rightarrow> u32 \<Rightarrow> u32 \<Rightarrow> u32" where
  "AsmSw rs1 rs2 offset12 = AsmSType OPCODE_S FUNC3_LSW rs1 rs2 offset12"

definition AsmSh :: "u32 \<Rightarrow> u32 \<Rightarrow> u32 \<Rightarrow> u32" where
  "AsmSh rs1 rs2 offset12 = AsmSType OPCODE_S FUNC3_LSH rs1 rs2 offset12"

definition AsmSb :: "u32 \<Rightarrow> u32 \<Rightarrow> u32 \<Rightarrow> u32" where
  "AsmSb rs1 rs2 offset12 = AsmSType OPCODE_S FUNC3_LSB rs1 rs2 offset12"

definition AsmSd :: "u32 \<Rightarrow> u32 \<Rightarrow> u32 \<Rightarrow> u32" where
  "AsmSd rs1 rs2 offset12 = AsmSType OPCODE_S FUNC3_LSD rs1 rs2 offset12"

section \<open>U type\<close>

definition AsmUType :: "u16 \<Rightarrow> u32 \<Rightarrow> u32 \<Rightarrow> u32" where
  "AsmUType opcode rd imm20 =
     UType_GetValue \<lparr>bf_opcode = ucast opcode, bf_rd = ucast rd, bf_rs2 = 0, bf_rs1 = 0, bf_funct3 = 0, u_imm20 = ucast imm20\<rparr>"

definition AsmLui :: "u32 \<Rightarrow> u32 \<Rightarrow> u32" where
  "AsmLui rd imm20 = AsmUType OPCODE_LUI rd imm20"

definition AsmAuipc :: "u32 \<Rightarrow> u32 \<Rightarrow> u32" where
  "AsmAuipc rd imm20 = AsmUType OPCODE_AUIPC rd imm20"

section \<open>Multiplication and division (R type)\<close>

definition AsmMul :: "u32 \<Rightarrow> u32 \<Rightarrow> u32 \<Rightarrow> u32" where
  "AsmMul rd rs1 rs2 = AsmRType OPCODE_ARITHLOG FUNC_MULT FUNC3_MUL rd rs1 rs2"

definition AsmMulh :: "u32 \<Rightarrow> u32 \<Rightarrow> u32 \<Rightarrow> u32" where
  "AsmMulh rd rs1 rs2 = AsmRType OPCODE_ARITHLOG FUNC_MULT FUNC3_MULH rd rs1 rs2"

definition AsmMulhsu :: "u32 \<Rightarrow> u32 \<Rightarrow> u32 \<Rightarrow> u32" where
  "AsmMulhsu rd rs1 rs2 = AsmRType OPCODE_ARITHLOG FUNC_MULT FUNC3_MULHSU rd rs1 rs2"

definition AsmMulhu :: "u32 \<Rightarrow> u32 \<Rightarrow> u32 \<Rightarrow> u32" where
  "AsmMulhu rd rs1 rs2 = AsmRType OPCODE_ARITHLOG FUNC_MULT FUNC3_MULHU rd rs1 rs2"

definition AsmMulw :: "u32 \<Rightarrow> u32 \<Rightarrow> u32 \<Rightarrow> u32" where
  "AsmMulw rd rs1 rs2 = AsmRType OPCODE_ARITHLOG_64 FUNC_MULT FUNC3_MUL rd rs1 rs2"

definition AsmDiv :: "u32 \<Rightarrow> u32 \<Rightarrow> u32 \<Rightarrow> u32" where
  "AsmDiv rd rs1 rs2 = AsmRType OPCODE_ARITHLOG FUNC_MULT FUNC3_DIV rd rs1 rs2"

definition AsmDivu :: "u32 \<Rightarrow> u32 \<Rightarrow> u32 \<Rightarrow> u32" where
  "AsmDivu rd rs1 rs2 = AsmRType OPCODE_ARITHLOG FUNC_MULT FUNC3_DIVU rd rs1 rs2"

definition AsmDivuw :: "u32 \<Rightarrow> u32 \<Rightarrow> u32 \<Rightarrow> u32" where
  "AsmDivuw rd rs1 rs2 = AsmRType OPCODE_ARITHLOG_64 FUNC_MULT FUNC3_DIVU rd rs1 rs2"

definition AsmDivw :: "u32 \<Rightarrow> u32 \<Rightarrow> u32 \<Rightarrow> u32" where
  "AsmDivw rd rs1 rs2 = AsmRType OPCODE_ARITHLOG_64 FUNC_MULT FUNC3_DIV rd rs1 rs2"

definition AsmRem :: "u32 \<Rightarrow> u32 \<Rightarrow> u32 \<Rightarrow> u32" where
  "AsmRem rd rs1 rs2 = AsmRType OPCODE_ARITHLOG FUNC_MULT FUNC3_REM rd rs1 rs2"

definition AsmRemu :: "u32 \<Rightarrow> u32 \<Rightarrow> u32 \<Rightarrow> u32" where
  "AsmRemu rd rs1 rs2 = AsmRType OPCODE_ARITHLOG FUNC_MULT FUNC3_REMU rd rs1 rs2"

definition AsmRemw :: "u32 \<Rightarrow> u32 \<Rightarrow> u32 \<Rightarrow> u32" where
  "AsmRemw rd rs1 rs2 = AsmRType OPCODE_ARITHLOG_64 FUNC_MULT FUNC3_REM rd rs1 rs2"

definition AsmRemuw :: "u32 \<Rightarrow> u32 \<Rightarrow> u32 \<Rightarrow> u32" where
  "AsmRemuw rd rs1 rs2 = AsmRType OPCODE_ARITHLOG_64 FUNC_MULT FUNC3_REMU rd rs1 rs2"

section \<open>Compressed instructions of the third quadrant\<close>

definition AsmCAddType :: "u16 \<Rightarrow> u32 \<Rightarrow> u32 \<Rightarrow> u16" where
  "AsmCAddType cmd rd rs2 = cmd OR ucast (push_bit 7 (rd AND 0x1F) OR push_bit 2 (rs2 AND 0x1F))"

definition AsmCAdd :: "u32 \<Rightarrow> u32 \<Rightarrow> u16" where
  "AsmCAdd rd rs2 = AsmCAddType 0b1001000000000010 rd rs2"

definition AsmCEbreak :: "u16" where
  "AsmCEbreak = 0b1001000000000010"

definition AsmCFldsp :: "u32 \<Rightarrow> u32 \<Rightarrow> u16" where
  "AsmCFldsp rd uimm =
     (let cmd = 0b0010000000000010;
          cmd = cmd OR ucast (push_bit 7 (rd AND 0x1F));
          cmd = cmd OR ucast (push_bit 12 (drop_bit 5 uimm AND 1));
          cmd = cmd OR ucast (push_bit 5 (drop_bit 3 uimm AND 0b11));
          cmd = cmd OR ucast (push_bit 2 (drop_bit 6 uimm AND 0b111))
      in cmd)"

definition AsmCFlwsp :: "u32 \<Rightarrow> u32 \<Rightarrow> u16" where
  "AsmCFlwsp rd uimm =
     (let cmd = 0b0110000000000010;
          cmd = cmd OR ucast (push_bit 7 (rd AND 0x1F));
          cmd = cmd OR ucast (push_bit 12 (drop_bit 5 uimm AND 1));
          cmd = cmd OR ucast (push_bit 4 (drop_bit 2 uimm AND 0b111));
          cmd = cmd OR ucast (push_bit 2 (drop_bit 6 uimm AND 0b11))
      in cmd)"

definition AsmCFsdsp :: "u32 \<Rightarrow> u32 \<Rightarrow> u16" where
  "AsmCFsdsp rs2 uimm =
     (let cmd = 0b1010000000000010;
          cmd = cmd OR ucast (push_bit 2 (rs2 AND 0x1F));
          cmd = cmd OR ucast (push_bit 10 (drop_bit 3 uimm AND 0b111));
          cmd = cmd OR ucast (push_bit 7 (drop_bit 6 uimm AND 0b111))
      in cmd)"

definition AsmCFswsp :: "u32 \<Rightarrow> u32 \<Rightarrow> u16" where
  "AsmCFswsp rs2 uimm =
     (let cmd = 0b1110000000000010;
          cmd = cmd OR ucast (push_bit 2 (rs2 AND 0x1F));
          cmd = cmd OR ucast (push_bit 9 (drop_bit 2 uimm AND 0b1111));
          cmd = cmd OR ucast (push_bit 7 (drop_bit 6 uimm AND 0b11))
      in cmd)"

definition AsmCJalr :: "u32 \<Rightarrow> u16" where
  "AsmCJalr rs1 =
     (let cmd = 0b1001000000000010;
          cmd = cmd OR ucast (push_bit 7 (rs1 AND 0b011111))
      in cmd)"

definition AsmCJr :: "u32 \<Rightarrow> u16" where
  "AsmCJr rs1 =
     (let cmd = 0b1000000000000010;
          cmd = cmd OR ucast (push_bit 7 (rs1 AND 0b011111))
      in cmd)"

definition AsmCLdsp :: "u32 \<Rightarrow> u32 \<Rightarrow> u16" where
  "AsmCLdsp rd uimm =
     (let cmd = 0b0110000000000010;
          cmd = cmd OR ucast (push_bit 7 (rd AND 0x1F));
          cmd = cmd OR ucast (push_bit 12 (drop_bit 5 uimm AND 1));
          cmd = cmd OR ucast (push_bit 5 (drop_bit 3 uimm AND 0b11));
          cmd = cmd OR ucast (push_bit 2 (drop_bit 6 uimm AND 0b111))
      in cmd)"

definition AsmCLwsp :: "u32 \<Rightarrow> u32 \<Rightarrow> u16" where
  "AsmCLwsp rd uimm =
     (let cmd = 0b0100000000000010;
          cmd = cmd OR ucast (push_bit 7 (rd AND 0x1F));
          cmd = cmd OR ucast (push_bit 12 (drop_bit 5 uimm AND 1));
          cmd = cmd OR ucast (push_bit 4 (drop_bit 2 uimm AND 0b111));
          cmd = cmd OR ucast (push_bit 2 (drop_bit 6 uimm AND 0b11))
      in cmd)"

definition AsmCMv :: "u32 \<Rightarrow> u32 \<Rightarrow> u16" where
  "AsmCMv rd rs2 = AsmCAddType 0b01000000000000010 rd rs2"

definition AsmCSdsp :: "u32 \<Rightarrow> u32 \<Rightarrow> u16" where
  "AsmCSdsp rs2 uimm =
     (let cmd = 0b1110000000000010;
          cmd = cmd OR ucast (push_bit 2 (rs2 AND 0x1F));
          cmd = cmd OR ucast (push_bit 10 (drop_bit 3 uimm AND 0b111));
          cmd = cmd OR ucast (push_bit 7 (drop_bit 6 uimm AND 0b111))
      in cmd)"

definition AsmCSlli :: "u32 \<Rightarrow> u32 \<Rightarrow> u16" where
  "AsmCSlli rd uimm =
     (let cmd = 0b0000000000000010;
          cmd = cmd OR ucast (push_bit 7 (rd AND 0x1F));
          cmd = cmd OR ucast (push_bit 12 (drop_bit 5 uimm AND 1));
          cmd = cmd OR ucast (push_bit 2 (uimm AND 0b11111))
      in cmd)"

definition AsmCSwsp :: "u32 \<Rightarrow> u32 \<Rightarrow> u16" where
  "AsmCSwsp rs2 uimm =
     (let cmd = 0b1100000000000010;
          cmd = cmd OR ucast (push_bit 2 (rs2 AND 0x1F));
          cmd = cmd OR ucast (push_bit 9 (drop_bit 2 uimm AND 0b1111));
          cmd = cmd OR ucast (push_bit 7 (drop_bit 6 uimm AND 0b11))
      in cmd)"

section \<open>Compressed instructions of the second quadrant\<close>

definition AsmCAddiType :: "u16 \<Rightarrow> u32 \<Rightarrow> u32 \<Rightarrow> u16" where
  "AsmCAddiType cmd rd imm =
     (let cmd = cmd OR ucast (push_bit 7 (rd AND 0x1F));
          cmd = cmd OR ucast (push_bit 12 (signed_drop_bit 5 imm AND 1));
          cmd = cmd OR ucast (push_bit 2 (imm AND 0b11111))
      in cmd)"

definition AsmCAddi :: "u32 \<Rightarrow> u32 \<Rightarrow> u16" where
  "AsmCAddi rd imm = AsmCAddiType 0b0000000000000001 rd imm"

definition AsmCLi :: "u32 \<Rightarrow> u32 \<Rightarrow> u16" where
  "AsmCLi rd imm = AsmCAddiType 0b0100000000000001 rd imm"

definition AsmCAddi16sp :: "u32 \<Rightarrow> u16" where
  "AsmCAddi16sp imm =
     (let cmd = 0b0110000100000001;
          cmd = cmd OR ucast (push_bit 12 (signed_drop_bit 9 imm AND 1));
          cmd = cmd OR ucast (push_bit 2 (signed_drop_bit 5 imm AND 1));
          cmd = cmd OR ucast (push_bit 3 (signed_drop_bit 7 imm AND 0b11));
          cmd = cmd OR ucast (push_bit 5 (signed_drop_bit 6 imm AND 1));
          cmd = cmd OR ucast (push_bit 6 (signed_drop_bit 4 imm AND 1))
      in cmd)"

definition AsmCAddiw :: "u32 \<Rightarrow> u32 \<Rightarrow> u16" where
  "AsmCAddiw rd imm =
     (let cmd = 0b0010000000000001;
          cmd = cmd OR ucast (push_bit 7 (rd AND 0x1F));
          cmd = cmd OR ucast (push_bit 12 (signed_drop_bit 5 imm AND 1));
          cmd = cmd OR ucast (push_bit 2 (imm AND 0b11111))
      in cmd)"

definition AsmCAndType :: "u16 \<Rightarrow> u32 \<Rightarrow> u32 \<Rightarrow> u16" where
  "AsmCAndType cmd rd rs2 =
     (let cmd = cmd OR ucast (push_bit 7 (rd AND 0b111));
          cmd = cmd OR ucast (push_bit 2 (rs2 AND 0b111))
      in cmd)"

definition AsmCAnd :: "u32 \<Rightarrow> u32 \<Rightarrow> u16" where
  "AsmCAnd rd rs2 = AsmCAndType 0b1000110001100001 rd rs2"

definition AsmCAddw :: "u32 \<Rightarrow> u32 \<Rightarrow> u16" where
  "AsmCAddw rd rs2 = AsmCAndType 0b1001110000100001 rd rs2"

definition AsmCOr :: "u32 \<Rightarrow> u32 \<Rightarrow> u16" where
  "AsmCOr rd rs2 = AsmCAndType 0b1000110001000001 rd rs2"

definition AsmCSub :: "u32 \<Rightarrow> u32 \<Rightarrow> u16" where
  "AsmCSub rd rs2 = AsmCAndType 0b1000110000000001 rd rs2"

definition AsmCSubw :: "u32 \<Rightarrow> u32 \<Rightarrow> u16" where
  "AsmCSubw rd rs2 = AsmCAndType 0b1001110000000001 rd rs2"

definition AsmCXor :: "u32 \<Rightarrow> u32 \<Rightarrow> u16" where
  "AsmCXor rd rs2 = AsmCAndType 0b1000110000100001 rd rs2"

definition AsmCAndiType :: "u16 \<Rightarrow> u32 \<Rightarrow> u32 \<Rightarrow> u16" where
  "AsmCAndiType cmd rd imm =
     (let cmd = cmd OR ucast (push_bit 7 (rd AND 0b111));
          cmd = cmd OR ucast (push_bit 12 (signed_drop_bit 5 imm AND 1));
          cmd = cmd OR ucast (push_bit 2 (imm AND 0b11111))
      in cmd)"

definition AsmCAndi :: "u32 \<Rightarrow> u32 \<Rightarrow> u16" where
  "AsmCAndi rd imm = AsmCAndiType 0b1000100000000001 rd imm"

definition AsmCSrai :: "u32 \<Rightarrow> u32 \<Rightarrow> u16" where
  "AsmCSrai rd imm = AsmCAndiType 0b1000010000000001 rd imm"

definition AsmCSrli :: "u32 \<Rightarrow> u32 \<Rightarrow> u16" where
  "AsmCSrli rd imm = AsmCAndiType 0b1000000000000001 rd imm"

definition AsmCBType :: "u16 \<Rightarrow> u32 \<Rightarrow> u32 \<Rightarrow> u16" where
  "AsmCBType cmd rs1 offset =
     (let cmd = cmd OR ucast (push_bit 7 (rs1 AND 0b111));
          cmd = cmd OR ucast (push_bit 12 (signed_drop_bit 8 offset AND 1));
          cmd = cmd OR ucast (push_bit 10 (signed_drop_bit 3 offset AND 0b11));
          cmd = cmd OR ucast (push_bit 5 (signed_drop_bit 6 offset AND 0b11));
          cmd = cmd OR ucast (push_bit 3 (signed_drop_bit 1 offset AND 0b11));
          cmd = cmd OR ucast (push_bit 2 (signed_drop_bit 5 offset AND 1))
      in cmd)"

definition AsmCBeqz :: "u32 \<Rightarrow> u32 \<Rightarrow> u16" where
  "AsmCBeqz rs1 offset = AsmCBType 0b1100000000000001 rs1 offset"

definition AsmCBnez :: "u32 \<Rightarrow> u32 \<Rightarrow> u16" where
  "AsmCBnez rs1 offset = AsmCBType 0b1110000000000001 rs1 offset"

definition AsmCJType :: "u16 \<Rightarrow> u32 \<Rightarrow> u16" where
  "AsmCJType cmd offset =
     (let cmd = cmd OR ucast (push_bit 12 (signed_drop_bit 11 offset AND 1));
          cmd = cmd OR ucast (push_bit 11 (signed_drop_bit 4 offset AND 1));
          cmd = cmd OR ucast (push_bit 9 (signed_drop_bit 8 offset AND 0b11));
          cmd = cmd OR ucast (push_bit 8 (signed_drop_bit 10 offset AND 1));
          cmd = cmd OR ucast (push_bit 7 (signed_drop_bit 6 offset AND 1));
          cmd = cmd OR ucast (push_bit 6 (signed_drop_bit 7 offset AND 1));
          cmd = cmd OR ucast (push_bit 3 (signed_drop_bit 1 offset AND 0b111));
          cmd = cmd OR ucast (push_bit 2 (signed_drop_bit 5 offset AND 1))
      in cmd)"

definition AsmCJ :: "u32 \<Rightarrow> u16" where
  "AsmCJ offset = AsmCJType 0b1010000000000001 offset"

definition AsmCJal :: "u32 \<Rightarrow> u16" where
  "AsmCJal offset = AsmCJType 0b0010000000000001 offset"

definition AsmCLui :: "u32 \<Rightarrow> u32 \<Rightarrow> u16" where
  "AsmCLui rd imm =
     (let cmd = 0b0110000000000001;
          cmd = cmd OR ucast (push_bit 12 (signed_drop_bit 17 imm AND 1));
          cmd = cmd OR ucast (push_bit 2 (signed_drop_bit 12 imm AND 0b11111))
      in cmd)"

section \<open>Compressed instructions of the first quadrant\<close>

definition AsmCAddi4spn :: "u32 \<Rightarrow> u32 \<Rightarrow> u16" where
  "AsmCAddi4spn rd uimm =
     (let cmd = 0b0000000000000000;
          cmd = cmd OR ucast (push_bit 2 (rd AND 0b111));
          cmd = cmd OR ucast (push_bit 11 (drop_bit 4 uimm AND 0b11));
          cmd = cmd OR ucast (push_bit 7 (drop_bit 6 uimm AND 0b1111));
          cmd = cmd OR ucast (push_bit 6 (drop_bit 2 uimm AND 0b1));
          cmd = cmd OR ucast (push_bit 5 (drop_bit 3 uimm AND 0b1))
      in cmd)"

definition AsmCLdType :: "u16 \<Rightarrow> u32 \<Rightarrow> u32 \<Rightarrow> u32 \<Rightarrow> u16" where
  "AsmCLdType cmd r4to2 r9to7 uimm =
     (let cmd = cmd OR ucast (push_bit 2 (r4to2 AND 0b111));
          cmd = cmd OR ucast (push_bit 7 (r9to7 AND 0b111));
          cmd = cmd OR ucast (push_bit 10 (drop_bit 3 uimm AND 0b111));
          cmd = cmd OR ucast (push_bit 5 (drop_bit 6 uimm AND 0b11))
      in cmd)"

definition AsmCLwType :: "u16 \<Rightarrow> u32 \<Rightarrow> u32 \<Rightarrow> u32 \<Rightarrow> u16" where
  "AsmCLwType cmd r4to2 r9to7 uimm =
     (let cmd = cmd OR ucast (push_bit 2 (r4to2 AND 0b111));
          cmd = cmd OR ucast (push_bit 7 (r9to7 AND 0b111));
          cmd = cmd OR ucast (push_bit 10 (drop_bit 3 uimm AND 0b111));
          cmd = cmd OR ucast (push_bit 6 (drop_bit 2 uimm AND 0b1));
          cmd = cmd OR ucast (push_bit 5 (drop_bit 6 uimm AND 0b1))
      in cmd)"

definition AsmCFld :: "u32 \<Rightarrow> u32 \<Rightarrow> u32 \<Rightarrow> u16" where
  "AsmCFld rd rs1 uimm = AsmCLdType 0b0010000000000000 rd rs1 uimm"

definition AsmCFlw :: "u32 \<Rightarrow> u32 \<Rightarrow> u32 \<Rightarrow> u16" where
  "AsmCFlw rd rs1 uimm = AsmCLwType 0b0110000000000000 rd rs1 uimm"

definition AsmCFsd :: "u32 \<Rightarrow> u32 \<Rightarrow> u32 \<Rightarrow> u16" where
  "AsmCFsd rs1 rs2 uimm = AsmCLdType 0b01010000000000000 rs2 rs1 uimm"

definition AsmCFsw :: "u32 \<Rightarrow> u32 \<Rightarrow> u32 \<Rightarrow> u16" where
  "AsmCFsw rs1 rs2 uimm = AsmCLwType 0b1110000000000000 rs2 rs1 uimm"

definition AsmCLd :: "u32 \<Rightarrow> u32 \<Rightarrow> u32 \<Rightarrow> u16" where
  "AsmCLd rd rs1 uimm = AsmCLdType 0b0110000000000000 rd rs1 uimm"

definition AsmCLw :: "u32 \<Rightarrow> u32 \<Rightarrow> u32 \<Rightarrow> u16" where
  "AsmCLw rd rs1 uimm = AsmCLwType 0b0100000000000000 rd rs1 uimm"

definition AsmCSd :: "u32 \<Rightarrow> u32 \<Rightarrow> u32 \<Rightarrow> u16" where
  "AsmCSd rs1 rs2 uimm = AsmCLdType 0b01110000000000000 rs2 rs1 uimm"

definition AsmCsw :: "u32 \<Rightarrow> u32 \<Rightarrow> u32 \<Rightarrow> u16" where
  "AsmCsw rs1 rs2 uimm = AsmCLwType 0b1100000000000000 rs2 rs1 uimm"

section \<open>Placing instructions in memory\<close>

definition AddCmd :: "memory \<Rightarrow> u64 \<Rightarrow> u32 \<Rightarrow> (u64 \<times> memory) res" where
  "AddCmd mem address cmd =
     rbind (WriteByte mem address (ucast (cmd AND 0xFF))) (\<lambda>mem.
     rbind (WriteByte mem (address + 1) (ucast (drop_bit 8 cmd AND 0xFF))) (\<lambda>mem.
     rbind (WriteByte mem (address + 2) (ucast (drop_bit 16 cmd AND 0xFF))) (\<lambda>mem.
     rbind (WriteByte mem (address + 3) (ucast (drop_bit 24 cmd AND 0xFF))) (\<lambda>mem.
     Inr (address + 4, mem)))))"

definition AddCmdCType :: "memory \<Rightarrow> u64 \<Rightarrow> u16 \<Rightarrow> (u64 \<times> memory) res" where
  "AddCmdCType mem address cmd =
     rbind (WriteByte mem address (ucast (cmd AND 0xFF))) (\<lambda>mem.
     rbind (WriteByte mem (address + 1) (ucast (drop_bit 8 cmd AND 0xFF))) (\<lambda>mem.
     Inr (address + 2, mem)))"

definition LoadAssemblerSum :: "memory \<Rightarrow> u64 \<Rightarrow> (u64 \<times> memory) res" where
  "LoadAssemblerSum mem address =
     rbind (AddCmd mem address (AsmAddi T0 ZERO 0)) (\<lambda>(address, mem).
     rbind (AddCmd mem address (AsmAddi T1 ZERO 0)) (\<lambda>(address, mem).
     rbind (AddCmd mem address (AsmAddi T2 ZERO 10)) (\<lambda>(address, mem).
     rbind (AddCmd mem address (AsmAddi T0 T0 1)) (\<lambda>(address, mem).
     rbind (AddCmd mem address (AsmAdd T1 T1 T0)) (\<lambda>(address, mem).
     rbind (AddCmd mem address (AsmBeq T0 T2 8)) (\<lambda>(address, mem).
     rbind (AddCmd mem address (AsmJal ZERO (- 16))) (\<lambda>(address, mem).
     rbind (AddCmd mem address (AsmAdd A0 T1 ZERO)) (\<lambda>(address, mem).
     rbind (AddCmd mem address (AsmXor RA RA RA)) (\<lambda>(address, mem).
     rbind (AddCmd mem address (AsmJalr ZERO RA 0)) (\<lambda>(address, mem).
     Inr (address, mem)))))))))))"

definition LoadAssemblerSort :: "memory \<Rightarrow> u64 \<Rightarrow> (u64 \<times> memory) res" where
  "LoadAssemblerSort mem address =
     rbind (AddCmd mem address (AsmAddi A3 A0 4)) (\<lambda>(address, mem).
     rbind (AddCmd mem address (AsmAddi A4 X0 1)) (\<lambda>(address, mem).
     rbind (AddCmd mem address (AsmBltu A4 A1 8)) (\<lambda>(address, mem).
     rbind (AddCmd mem address (AsmJalr X0 X1 0)) (\<lambda>(address, mem).
     rbind (AddCmd mem address (AsmLw A6 A3 0)) (\<lambda>(address, mem).
     rbind (AddCmd mem address (AsmAddi A2 A3 0)) (\<lambda>(address, mem).
     rbind (AddCmd mem address (AsmAddi A5 A4 0)) (\<lambda>(address, mem).
     rbind (AddCmd mem address (AsmLw A7 A2 (- 4))) (\<lambda>(address, mem).
     rbind (AddCmd mem address (AsmBge A6 A7 20)) (\<lambda>(address, mem).
     rbind (AddCmd mem address (AsmSw A2 A7 0)) (\<lambda>(address, mem).
     rbind (AddCmd mem address (AsmAddi A5 A5 (- 1))) (\<lambda>(address, mem).
     rbind (AddCmd mem address (AsmAddi A2 A2 (- 4))) (\<lambda>(address, mem).
     rbind (AddCmd mem address (AsmBne A5 X0 (- 20))) (\<lambda>(address, mem).
     rbind (AddCmd mem address (AsmSlli A5 A5 2)) (\<lambda>(address, mem).
     rbind (AddCmd mem address (AsmAdd A5 A0 A5)) (\<lambda>(address, mem).
     rbind (AddCmd mem address (AsmSw A5 A6 0)) (\<lambda>(address, mem).
     rbind (AddCmd mem address (AsmAddi A4 A4 1)) (\<lambda>(address, mem).
     rbind (AddCmd mem address (AsmAddi A3 A3 4)) (\<lambda>(address, mem).
     rbind (AddCmd mem address (AsmJal X0 (- 64))) (\<lambda>(address, mem).
     Inr (address, mem))))))))))))))))))))"

end
