(* ===== verification/Assembler_Spec.thy ===== *)
theory Assembler_Spec
  imports Assembler Compressed_Layout
begin

text \<open>
  The assembler and the decoder are inverse: what \<open>tests/assembler.cc\<close> encodes is decoded as the same instruction, with its operands reduced to the width
  of their fields.
\<close>

section \<open>Fields of the assembled formats\<close>

lemma AsmRType_fields:
  "bitcrop (AsmRType opcode funct funct3 rd rs1 rs2) 7 0 = take_bit 7 (ucast opcode)"
  "bitcrop (AsmRType opcode funct funct3 rd rs1 rs2) 3 12 = take_bit 3 (ucast funct3)"
  "bitcrop (AsmRType opcode funct funct3 rd rs1 rs2) 7 25 = take_bit 7 (ucast funct)"
  "bitcrop (AsmRType opcode funct funct3 rd rs1 rs2) 5 27 = take_bit 5 (drop_bit 2 (ucast funct))"
  "GetRd (AsmRType opcode funct funct3 rd rs1 rs2) = take_bit 5 rd"
  "GetRs1 (AsmRType opcode funct funct3 rd rs1 rs2) = take_bit 5 rs1"
  "GetRs2 (AsmRType opcode funct funct3 rd rs1 rs2) = take_bit 5 rs2"
  by (auto intro!: bit_word_eqI simp: AsmRType_def RType_GetValue_def GetRd_def GetRs1_def GetRs2_def format_bits bit_take_bit_iff bit_drop_bit_eq)

lemma AsmIType_fields:
  "bitcrop (AsmIType opcode funct3 rd rs1 imm12) 7 0 = take_bit 7 (ucast opcode)"
  "bitcrop (AsmIType opcode funct3 rd rs1 imm12) 3 12 = take_bit 3 (ucast funct3)"
  "bitcrop (AsmIType opcode funct3 rd rs1 imm12) 12 20 = take_bit 12 imm12"
  "GetRd (AsmIType opcode funct3 rd rs1 imm12) = take_bit 5 rd"
  "GetRs1 (AsmIType opcode funct3 rd rs1 imm12) = take_bit 5 rs1"
proof -
  have m: "min 11 n = n" if "n < 12" for n :: nat using that by simp
  show "bitcrop (AsmIType opcode funct3 rd rs1 imm12) 7 0 = take_bit 7 (ucast opcode)"
    "bitcrop (AsmIType opcode funct3 rd rs1 imm12) 3 12 = take_bit 3 (ucast funct3)"
    "bitcrop (AsmIType opcode funct3 rd rs1 imm12) 12 20 = take_bit 12 imm12"
    "GetRd (AsmIType opcode funct3 rd rs1 imm12) = take_bit 5 rd" "GetRs1 (AsmIType opcode funct3 rd rs1 imm12) = take_bit 5 rs1"
    using and_mask_take_bit [of imm12 12]
    by (auto intro!: bit_word_eqI simp: AsmIType_def IType_GetValue_def GetRd_def GetRs1_def format_bits bit_take_bit_iff bit_signed_iff mask_numeral m
        simp del: and_mask_take_bit)
qed

lemma AsmSType_fields:
  "bitcrop (AsmSType opcode funct3 rs1 rs2 offset12) 7 0 = take_bit 7 (ucast opcode)"
  "bitcrop (AsmSType opcode funct3 rs1 rs2 offset12) 3 12 = take_bit 3 (ucast funct3)"
  "GetRs1 (AsmSType opcode funct3 rs1 rs2 offset12) = take_bit 5 rs1"
  "GetRs2 (AsmSType opcode funct3 rs1 rs2 offset12) = take_bit 5 rs2"
  by (auto intro!: bit_word_eqI simp: AsmSType_def SType_GetValue_def Let_def GetRs1_def GetRs2_def format_bits bit_take_bit_iff)

lemma AsmBType_fields:
  "bitcrop (AsmBType opcode funct3 rs1 rs2 offset13) 7 0 = take_bit 7 (ucast opcode)"
  "bitcrop (AsmBType opcode funct3 rs1 rs2 offset13) 3 12 = take_bit 3 (ucast funct3)"
  "GetRs1 (AsmBType opcode funct3 rs1 rs2 offset13) = take_bit 5 rs1"
  "GetRs2 (AsmBType opcode funct3 rs1 rs2 offset13) = take_bit 5 rs2"
  by (auto intro!: bit_word_eqI simp: AsmBType_def BType_GetValue_def Let_def GetRs1_def GetRs2_def format_bits bit_take_bit_iff)

lemma AsmJType_fields:
  "bitcrop (AsmJType opcode rd offset21) 7 0 = take_bit 7 (ucast opcode)"
  "GetRd (AsmJType opcode rd offset21) = take_bit 5 rd"
  by (auto intro!: bit_word_eqI simp: AsmJType_def JType_GetValue_def Let_def GetRd_def format_bits bit_imm_slice [where 'b = 32, simplified] bit_take_bit_iff)

lemma AsmUType_fields:
  "bitcrop (AsmUType opcode rd imm20) 7 0 = take_bit 7 (ucast opcode)"
  "GetRd (AsmUType opcode rd imm20) = take_bit 5 rd"
  "bitcrop (AsmUType opcode rd imm20) 20 12 = take_bit 20 imm20"
  by (auto intro!: bit_word_eqI simp: AsmUType_def UType_GetValue_def GetRd_def and_mask20 format_bits bit_take_bit_iff)

text \<open>The immediates, sign-extended from the width of their field.  The offset of a branch or jump is even.\<close>

lemma GetImm12_AsmIType: "GetImm12 (AsmIType opcode funct3 rd rs1 imm12) = signed_take_bit 11 imm12"
  by (simp add: GetImm12_def AsmIType_fields SignExtend_eq signed_take_bit_take_bit)

lemma GetImm20_AsmUType: "GetImm20 (AsmUType opcode rd imm20) = signed_take_bit 19 imm20"
  by (simp add: GetImm20_def AsmUType_fields SignExtend_eq signed_take_bit_take_bit)

lemma GetStypeImm12_AsmSType: "GetStypeImm12 (AsmSType opcode funct3 rs1 rs2 offset12) = signed_take_bit 11 offset12"
proof (rule bit_word_eqI)
  fix n assume "n < LENGTH(32)"
  then consider "n < 5" | "5 \<le> n \<and> n < 11" | "11 \<le> n \<and> n < 32" by force
  then show "bit (GetStypeImm12 (AsmSType opcode funct3 rs1 rs2 offset12)) n = bit (signed_take_bit 11 offset12) n"
    by cases (auto simp: bit_GetStypeImm12 bit_sext AsmSType_def SType_GetValue_def Let_def format_bits)
qed

lemma GetImm13_AsmBType: "GetImm13 (AsmBType opcode funct3 rs1 rs2 offset13) = signed_take_bit 12 offset13 AND NOT 1"
proof (rule bit_word_eqI)
  fix n assume "n < LENGTH(32)"
  then consider "n = 0" | "1 \<le> n \<and> n < 5" | "5 \<le> n \<and> n < 11" | "n = 11" | "12 \<le> n \<and> n < 32" by force
  then show "bit (GetImm13 (AsmBType opcode funct3 rs1 rs2 offset13)) n = bit (signed_take_bit 12 offset13 AND NOT 1) n"
    by cases (auto simp: bit_GetImm13 bit_sext bit_and_iff bit_not_iff bit_1_iff AsmBType_def BType_GetValue_def Let_def format_bits)
qed

lemma GetImm21_AsmJType: "GetImm21 (AsmJType opcode rd offset21) = signed_take_bit 20 offset21 AND NOT 1"
proof (rule bit_word_eqI)
  fix n assume "n < LENGTH(32)"
  then consider "n = 0" | "1 \<le> n \<and> n < 11" | "n = 11" | "12 \<le> n \<and> n < 20" | "20 \<le> n \<and> n < 32" by force
  then show "bit (GetImm21 (AsmJType opcode rd offset21)) n = bit (signed_take_bit 20 offset21 AND NOT 1) n"
    by cases (auto simp: bit_GetImm21 bit_sext bit_and_iff bit_not_iff bit_1_iff AsmJType_def JType_GetValue_def Let_def format_bits
        bit_imm_slice [where 'b = 32, simplified])
qed

section \<open>Decoding what the assembler encodes\<close>

text \<open>The assembler functions of each operand list, with the instruction that each is named after.\<close>

definition asm_R :: "(code \<times> (u32 \<Rightarrow> u32 \<Rightarrow> u32 \<Rightarrow> u32)) list" where
  "asm_R =
    [(INST_ADD, AsmAdd), (INST_ADDW, AsmAddw), (INST_SUB, AsmSub), (INST_SUBW, AsmSubw), (INST_AND, AsmAnd), (INST_OR, AsmOr),
     (INST_XOR, AsmXor), (INST_SLL, AsmSll), (INST_SLLW, AsmSllw), (INST_SRL, AsmSrl), (INST_SRLW, AsmSrlw), (INST_SRA, AsmSra),
     (INST_SRAW, AsmSraw), (INST_SLT, AsmSlt), (INST_SLTU, AsmSltu), (INST_MUL, AsmMul), (INST_MULH, AsmMulh),
     (INST_MULHSU, AsmMulhsu), (INST_MULHU, AsmMulhu), (INST_MULW, AsmMulw), (INST_DIV, AsmDiv), (INST_DIVU, AsmDivu),
     (INST_DIVUW, AsmDivuw), (INST_DIVW, AsmDivw), (INST_REM, AsmRem), (INST_REMU, AsmRemu), (INST_REMW, AsmRemw),
     (INST_REMUW, AsmRemuw)]"

definition asm_AMO :: "(code \<times> (u32 \<Rightarrow> u32 \<Rightarrow> u32 \<Rightarrow> u32 \<Rightarrow> u32 \<Rightarrow> u32)) list" where
  "asm_AMO =
    [(INST_AMOADDD, AsmAmoAddd), (INST_AMOADDW, AsmAmoAddw), (INST_AMOANDD, AsmAmoAndd), (INST_AMOANDW, AsmAmoAndw),
     (INST_AMOMAXD, AsmAmoMaxd), (INST_AMOMAXW, AsmAmoMaxw), (INST_AMOMAXUD, AsmAmoMaxud), (INST_AMOMAXUW, AsmAmoMaxuw),
     (INST_AMOMIND, AsmAmoMind), (INST_AMOMINW, AsmAmoMinw), (INST_AMOMINUD, AsmAmoMinud), (INST_AMOMINUW, AsmAmoMinuw),
     (INST_AMOORD, AsmAmoOrd), (INST_AMOORW, AsmAmoOrw), (INST_AMOSWAPD, AsmAmoSwapd), (INST_AMOSWAPW, AsmAmoSwapw),
     (INST_AMOXORD, AsmAmoXord), (INST_AMOXORW, AsmAmoXorw)]"

definition asm_I :: "(code \<times> (u32 \<Rightarrow> u32 \<Rightarrow> u32 \<Rightarrow> u32)) list" where
  "asm_I =
    [(INST_ADDI, AsmAddi), (INST_ADDIW, AsmAddiw), (INST_ANDI, AsmAndi), (INST_ORI, AsmOri), (INST_XORI, AsmXori),
     (INST_SLTI, AsmSlti), (INST_SLTIU, AsmSltiu), (INST_JALR, AsmJalr), (INST_LB, AsmLb), (INST_LBU, AsmLbu), (INST_LH, AsmLh),
     (INST_LHU, AsmLhu), (INST_LW, AsmLw), (INST_LD, AsmLd), (INST_LWU, AsmLwu)]"

definition asm_SH :: "(code \<times> (u32 \<Rightarrow> u32 \<Rightarrow> u32 \<Rightarrow> u32)) list" where
  "asm_SH =
    [(INST_SLLI, AsmSlli), (INST_SLLIW, AsmSlliw), (INST_SRLI, AsmSrli), (INST_SRLIW, AsmSrliw), (INST_SRAI, AsmSrai),
     (INST_SRAIW, AsmSraiw)]"

definition asm_CSR :: "(code \<times> (u32 \<Rightarrow> u32 \<Rightarrow> u32 \<Rightarrow> u32)) list" where
  "asm_CSR =
    [(INST_CSRRC, AsmCsrrc), (INST_CSRRCI, AsmCsrrci), (INST_CSRRS, AsmCsrrs), (INST_CSRRSI, AsmCsrrsi), (INST_CSRRW, AsmCsrrw),
     (INST_CSRRWI, AsmCsrrwi)]"

definition asm_B :: "(code \<times> (u32 \<Rightarrow> u32 \<Rightarrow> u32 \<Rightarrow> u32)) list" where
  "asm_B =
    [(INST_BEQ, AsmBeq), (INST_BGE, AsmBge), (INST_BGEU, AsmBgeu), (INST_BLT, AsmBlt), (INST_BLTU, AsmBltu), (INST_BNE, AsmBne)]"

definition asm_S :: "(code \<times> (u32 \<Rightarrow> u32 \<Rightarrow> u32 \<Rightarrow> u32)) list" where
  "asm_S =
    [(INST_SW, AsmSw), (INST_SH, AsmSh), (INST_SB, AsmSb), (INST_SD, AsmSd)]"

definition asm_U :: "(code \<times> (u32 \<Rightarrow> u32 \<Rightarrow> u32)) list" where
  "asm_U =
    [(INST_LUI, AsmLui), (INST_AUIPC, AsmAuipc)]"

lemma AsmIType_funct7: "bitcrop (AsmIType opcode funct3 rd rs1 imm12) 7 25 = take_bit 7 (drop_bit 5 imm12)"
proof -
  have "bitcrop w 7 25 = drop_bit 5 (bitcrop w 12 20)" for w :: u32 by (auto intro!: bit_word_eqI simp: bit_bitcrop bit_drop_bit_eq add.commute)
  then show ?thesis by (auto intro!: bit_word_eqI simp: AsmIType_fields bit_simps)
qed

lemma AsmAType_fields:
  "bitcrop (AsmAType opcode funct5 funct3 rd rs1 rs2 aq rl) 7 0 = take_bit 7 (ucast opcode)"
  "bitcrop (AsmAType opcode funct5 funct3 rd rs1 rs2 aq rl) 3 12 = take_bit 3 (ucast funct3)"
  "bitcrop (AsmAType opcode funct5 funct3 rd rs1 rs2 aq rl) 5 27 = take_bit 5 (ucast funct5)"
  "GetRd (AsmAType opcode funct5 funct3 rd rs1 rs2 aq rl) = take_bit 5 rd"
  "GetRs1 (AsmAType opcode funct5 funct3 rd rs1 rs2 aq rl) = take_bit 5 rs1"
  "GetRs2 (AsmAType opcode funct5 funct3 rd rs1 rs2 aq rl) = take_bit 5 rs2"
  by (auto intro!: bit_word_eqI simp: AsmAType_def RType_GetValue_def GetRd_def GetRs1_def GetRs2_def format_bits bit_take_bit_iff bit_times2 bit_and_iff bit_1_iff)

lemmas asm_R_defs = AsmAdd_def AsmAddw_def AsmSub_def AsmSubw_def AsmAnd_def AsmOr_def AsmXor_def AsmSll_def AsmSllw_def AsmSrl_def AsmSrlw_def AsmSra_def
  AsmSraw_def AsmSlt_def AsmSltu_def AsmMul_def AsmMulh_def AsmMulhsu_def AsmMulhu_def AsmMulw_def AsmDiv_def AsmDivu_def AsmDivuw_def AsmDivw_def
  AsmRem_def AsmRemu_def AsmRemw_def AsmRemuw_def

lemma asm_R_ok: "list_all (\<lambda>(i, f). \<forall>rd rs1 rs2. GetCode32 (f rd rs1 rs2) = i \<and>
    GetRd (f rd rs1 rs2) = take_bit 5 rd \<and> GetRs1 (f rd rs1 rs2) = take_bit 5 rs1 \<and> GetRs2 (f rd rs1 rs2) = take_bit 5 rs2) asm_R"
  unfolding asm_R_def list.pred_inject(2) prod.case asm_R_defs
  by (intro conjI list.pred_inject(1) allI; simp add: GetCode32_opcode AsmRType_fields code_ARITHLOG_def code_ARITHLOG_64_def)

lemma asm_AMO_ok: "list_all (\<lambda>(i, f). \<forall>rd rs1 rs2 aq rl. GetCode32 (f rd rs1 rs2 aq rl) = i \<and> GetRd (f rd rs1 rs2 aq rl) = take_bit 5 rd \<and> GetRs1 (f rd rs1 rs2 aq rl) = take_bit 5 rs1 \<and> GetRs2 (f rd rs1 rs2 aq rl) = take_bit 5 rs2) asm_AMO"
  unfolding asm_AMO_def list.pred_inject(2) prod.case AsmAmoAddd_def AsmAmoAddw_def AsmAmoAndd_def AsmAmoAndw_def AsmAmoMaxd_def AsmAmoMaxw_def AsmAmoMaxud_def AsmAmoMaxuw_def AsmAmoMind_def AsmAmoMinw_def AsmAmoMinud_def AsmAmoMinuw_def AsmAmoOrd_def AsmAmoOrw_def AsmAmoSwapd_def AsmAmoSwapw_def AsmAmoXord_def AsmAmoXorw_def
  by (intro conjI list.pred_inject(1) allI; simp add: GetCode32_opcode AsmAType_fields code_AMO_def Let_def)

lemma asm_I_ok: "list_all (\<lambda>(i, f). \<forall>rd rs1 imm. GetCode32 (f rd rs1 imm) = i \<and> GetRd (f rd rs1 imm) = take_bit 5 rd \<and> GetRs1 (f rd rs1 imm) = take_bit 5 rs1 \<and> GetImm (f rd rs1 imm) = signed_take_bit 11 imm) asm_I"
  unfolding asm_I_def list.pred_inject(2) prod.case AsmAddi_def AsmAddiw_def AsmAndi_def AsmOri_def AsmXori_def AsmSlti_def AsmSltiu_def AsmJalr_def AsmLb_def AsmLbu_def AsmLh_def AsmLhu_def AsmLw_def AsmLd_def AsmLwu_def
  by (intro conjI list.pred_inject(1) allI; simp add: GetCode32_opcode AsmIType_fields code_ARITHLOG_I_def code_ARITHLOG_I64_def code_LD_def GetImm_def Let_def GetImm12_AsmIType)

lemma shamt_bits:
  "signed_take_bit 11 (imm AND 63) AND 63 = take_bit 6 (imm :: u32)" "signed_take_bit 11 (imm AND 63 OR 1024) AND 63 = take_bit 6 (imm :: u32)"
  "drop_bit (Suc 0) (ucast ((x :: u32) AND 1) :: u8) = 0" "drop_bit (Suc 0) (ucast ((x :: u32) AND 1 OR 32) :: u8) = 16"
proof -
  have m: "y AND 63 = take_bit 6 y" for y :: u32 using and_mask_take_bit [of y 6] by (simp add: mask_numeral)
  show "signed_take_bit 11 (imm AND 63) AND 63 = take_bit 6 (imm :: u32)" "signed_take_bit 11 (imm AND 63 OR 1024) AND 63 = take_bit 6 (imm :: u32)"
    by (simp_all add: m take_bit_signed_take_bit)
  have "(x :: u32) AND 1 \<in> {0, 1}" by (cases "bit x 0") (auto simp: and_one_eq mod_2_eq_odd bit_0)
  then show "drop_bit (Suc 0) (ucast ((x :: u32) AND 1) :: u8) = 0" "drop_bit (Suc 0) (ucast ((x :: u32) AND 1 OR 32) :: u8) = 16"
    by (auto simp: drop_bit_Suc)
qed

lemma asm_SH_ok: "list_all (\<lambda>(i, f). \<forall>rd rs1 imm. GetCode32 (f rd rs1 imm) = i \<and> GetRd (f rd rs1 imm) = take_bit 5 rd \<and> GetRs1 (f rd rs1 imm) = take_bit 5 rs1 \<and> GetImm (f rd rs1 imm) = take_bit 6 imm) asm_SH"
  unfolding asm_SH_def list.pred_inject(2) prod.case AsmSlli_def AsmSlliw_def AsmSrli_def AsmSrliw_def AsmSrai_def AsmSraiw_def
  by (intro conjI list.pred_inject(1) allI; simp add: GetCode32_opcode AsmIType_fields AsmIType_funct7 code_ARITHLOG_I_def code_ARITHLOG_I64_def GetImm_def Let_def GetImm12_AsmIType shamt_bits)

lemma asm_CSR_ok: "list_all (\<lambda>(i, f). \<forall>rd rs1 csr. GetCode32 (f rd rs1 csr) = i \<and> GetRd (f rd rs1 csr) = take_bit 5 rd \<and> GetRs1 (f rd rs1 csr) = take_bit 5 rs1 \<and> GetCsr (f rd rs1 csr) = take_bit 12 csr) asm_CSR"
  unfolding asm_CSR_def list.pred_inject(2) prod.case AsmCsrrc_def AsmCsrrci_def AsmCsrrs_def AsmCsrrsi_def AsmCsrrw_def AsmCsrrwi_def
  by (intro conjI list.pred_inject(1) allI; simp add: GetCode32_opcode AsmIType_fields code_SYSTEM_def GetCsr_def)

lemma asm_B_ok: "list_all (\<lambda>(i, f). \<forall>rs1 rs2 imm. GetCode32 (f rs1 rs2 imm) = i \<and> GetRs1 (f rs1 rs2 imm) = take_bit 5 rs1 \<and> GetRs2 (f rs1 rs2 imm) = take_bit 5 rs2 \<and> GetImm (f rs1 rs2 imm) = signed_take_bit 12 imm AND NOT 1) asm_B"
  unfolding asm_B_def list.pred_inject(2) prod.case AsmBeq_def AsmBge_def AsmBgeu_def AsmBlt_def AsmBltu_def AsmBne_def
  by (intro conjI list.pred_inject(1) allI; simp add: GetCode32_opcode AsmBType_fields code_B_def GetImm_def Let_def GetImm13_AsmBType)

lemma asm_S_ok: "list_all (\<lambda>(i, f). \<forall>rs1 rs2 imm. GetCode32 (f rs1 rs2 imm) = i \<and> GetRs1 (f rs1 rs2 imm) = take_bit 5 rs1 \<and> GetRs2 (f rs1 rs2 imm) = take_bit 5 rs2 \<and> GetImm (f rs1 rs2 imm) = signed_take_bit 11 imm) asm_S"
  unfolding asm_S_def list.pred_inject(2) prod.case AsmSw_def AsmSh_def AsmSb_def AsmSd_def
  by (intro conjI list.pred_inject(1) allI; simp add: GetCode32_opcode AsmSType_fields code_S_def GetImm_def Let_def GetStypeImm12_AsmSType)

lemma push_sext: "push_bit 12 (signed_take_bit 19 imm) = push_bit 12 (imm :: u32)"
  by (rule bit_word_eqI) (auto simp: bit_push_bit_iff bit_sext)

lemma asm_U_ok: "list_all (\<lambda>(i, f). \<forall>rd imm. GetCode32 (f rd imm) = i \<and> GetRd (f rd imm) = take_bit 5 rd \<and> GetImm (f rd imm) = push_bit 12 imm) asm_U"
  unfolding asm_U_def list.pred_inject(2) prod.case AsmLui_def AsmAuipc_def
  by (intro conjI list.pred_inject(1) allI; simp add: GetCode32_opcode AsmUType_fields GetImm_def Let_def GetImm20_AsmUType push_sext)

section \<open>Compressed instructions\<close>

text \<open>A compressed word is a constant and a number of pieces that are shifted in; a field of it is read off the pieces that lie in the field.\<close>

definition part :: "nat \<Rightarrow> nat \<Rightarrow> u32 \<Rightarrow> u32" where
  "part j i y = take_bit j (drop_bit i y)"

definition piece :: "nat \<Rightarrow> nat \<Rightarrow> nat \<Rightarrow> u32 \<Rightarrow> u16" where
  "piece k j i y = ucast (push_bit k (part j i y))"

lemma bit_part: "bit (part j i y) n \<longleftrightarrow> n < j \<and> bit y (i + n)"
  by (simp add: part_def bit_simps)

lemma and_parts: "x AND 1 = part 1 0 (x :: u32)" "x AND 0b11 = part 2 0 x" "x AND 0b111 = part 3 0 x" "x AND 0b1111 = part 4 0 x" "x AND 0b11111 = part 5 0 x"
  using and_mask_take_bit [of x 2] and_mask_take_bit [of x 3] and_mask_take_bit [of x 4] and_mask_take_bit [of x 5]
  by (simp_all add: part_def mask_numeral and_one_eq)

lemma part_drop: "part j 0 (drop_bit i x) = part j i x" "j \<le> 5 \<Longrightarrow> i \<le> 27 \<Longrightarrow> part j 0 (signed_drop_bit i x) = part j i x"
  by (auto intro!: bit_word_eqI simp: bit_part bit_simps bit_signed_drop_bit_iff split: if_splits)

lemmas pieces = and_parts part_drop piece_def [symmetric] rel_simps

lemma ucast_or: "(ucast ((x :: u32) OR y) :: u16) = ucast x OR ucast y"
  by (rule bit_word_eqI) (auto simp: bit_simps)

lemma field_or: "w \<le> 64 \<Longrightarrow> bitcrop (ucast ((u :: u16) OR v) :: u32) w s = bitcrop (ucast u) w s OR bitcrop (ucast v) w s"
  by (rule bit_word_eqI) (auto simp: bitcrop_eq bit_simps)

lemma field_piece:
  "w \<le> 64 \<Longrightarrow> k + j \<le> s \<Longrightarrow> bitcrop (ucast (piece k j i y) :: u32) w s = 0"
  "w \<le> 64 \<Longrightarrow> s + w \<le> k \<Longrightarrow> bitcrop (ucast (piece k j i y) :: u32) w s = 0"
  "w \<le> 64 \<Longrightarrow> s \<le> k \<Longrightarrow> k + j \<le> s + w \<Longrightarrow> k + j \<le> 16 \<Longrightarrow> bitcrop (ucast (piece k j i y) :: u32) w s = push_bit (k - s) (part j i y)"
  "w \<le> 64 \<Longrightarrow> k \<le> s \<Longrightarrow> s + w \<le> k + j \<Longrightarrow> k + j \<le> 16 \<Longrightarrow> bitcrop (ucast (piece k j i y) :: u32) w s = part w (i + s - k) y"
  by (auto intro!: bit_word_eqI simp: bitcrop_eq piece_def bit_part bit_simps add.commute add.left_commute Suc_le_eq)

lemma c_opcode: "push_bit 2 (drop_bit 13 (ir :: u32) AND 0b111) OR (ir AND 0b11) = push_bit 2 (bitcrop ir 3 13) OR bitcrop ir 2 0"
  unfolding and_parts by (simp add: part_def bitcrop_eq)

lemma bitcrop_one: "0 < w \<Longrightarrow> w \<le> 64 \<Longrightarrow> bitcrop 1 w 0 = 1" "w \<le> 64 \<Longrightarrow> bitcrop 1 w (numeral s) = 0"
  by (simp_all add: bitcrop_eq)

lemmas bitfield_simps = field_or field_piece bitcrop_numeral bitcrop_one

lemma GetCode16_dispatch:
  "bitcrop ir 3 13 = 0 \<Longrightarrow> bitcrop ir 2 0 = 0 \<Longrightarrow> GetCode16 ir mxl = c_addi4spn ir"
  "bitcrop ir 3 13 = 0 \<Longrightarrow> bitcrop ir 2 0 = 1 \<Longrightarrow> GetCode16 ir mxl = c_addi_jal 1 ir mxl"
  "bitcrop ir 3 13 = 1 \<Longrightarrow> bitcrop ir 2 0 = 1 \<Longrightarrow> GetCode16 ir mxl = c_addi_jal 5 ir mxl"
  "bitcrop ir 3 13 = 0 \<Longrightarrow> bitcrop ir 2 0 = 2 \<Longrightarrow> GetCode16 ir mxl = c_slli ir"
  "bitcrop ir 3 13 = 2 \<Longrightarrow> bitcrop ir 2 0 = 0 \<Longrightarrow> GetCode16 ir mxl = c_lw ir"
  "bitcrop ir 3 13 = 2 \<Longrightarrow> bitcrop ir 2 0 = 1 \<Longrightarrow> GetCode16 ir mxl = c_li ir"
  "bitcrop ir 3 13 = 2 \<Longrightarrow> bitcrop ir 2 0 = 2 \<Longrightarrow> GetCode16 ir mxl = c_lwsp ir"
  "bitcrop ir 3 13 = 3 \<Longrightarrow> bitcrop ir 2 0 = 0 \<Longrightarrow> GetCode16 ir mxl = c_ld ir"
  "bitcrop ir 3 13 = 3 \<Longrightarrow> bitcrop ir 2 0 = 1 \<Longrightarrow> GetCode16 ir mxl = c_lui_addi16sp ir"
  "bitcrop ir 3 13 = 3 \<Longrightarrow> bitcrop ir 2 0 = 2 \<Longrightarrow> GetCode16 ir mxl = c_ldsp ir"
  "bitcrop ir 3 13 = 4 \<Longrightarrow> bitcrop ir 2 0 = 1 \<Longrightarrow> GetCode16 ir mxl = c_arith ir"
  "bitcrop ir 3 13 = 4 \<Longrightarrow> bitcrop ir 2 0 = 2 \<Longrightarrow> GetCode16 ir mxl = c_add_jalr ir"
  "bitcrop ir 3 13 = 5 \<Longrightarrow> bitcrop ir 2 0 = 1 \<Longrightarrow> GetCode16 ir mxl = c_j ir"
  "bitcrop ir 3 13 = 6 \<Longrightarrow> bitcrop ir 2 0 = 0 \<Longrightarrow> GetCode16 ir mxl = c_sw ir"
  "bitcrop ir 3 13 = 6 \<Longrightarrow> bitcrop ir 2 0 = 1 \<Longrightarrow> GetCode16 ir mxl = c_branch 25 ir"
  "bitcrop ir 3 13 = 6 \<Longrightarrow> bitcrop ir 2 0 = 2 \<Longrightarrow> GetCode16 ir mxl = c_swsp ir"
  "bitcrop ir 3 13 = 7 \<Longrightarrow> bitcrop ir 2 0 = 0 \<Longrightarrow> GetCode16 ir mxl = c_sd ir"
  "bitcrop ir 3 13 = 7 \<Longrightarrow> bitcrop ir 2 0 = 1 \<Longrightarrow> GetCode16 ir mxl = c_branch 29 ir"
  "bitcrop ir 3 13 = 7 \<Longrightarrow> bitcrop ir 2 0 = 2 \<Longrightarrow> GetCode16 ir mxl = c_sdsp ir"
  unfolding GetCode16_def c_opcode Let_def by simp_all

text \<open>The immediates, put together again from their pieces.\<close>

lemmas part_bits = bit_or_iff bit_push_bit_iff bit_part bit_and_iff bit_not_iff bit_take_bit_iff SignExtend_eq bit_sext bit_times2 bit_Suc_Suc_0 numeral_3_eq_3 [symmetric]

lemma part_low: "part j 0 x = take_bit j x"
  by (simp add: part_def)

lemma part_immediates:
  "push_bit 5 (part (Suc 0) 5 x) OR take_bit 5 x = take_bit 6 x"
  "push_bit 5 (part (Suc 0) 5 x) OR push_bit 2 (part 3 2 x) OR push_bit 6 (part 2 6 x) = x AND 0xFC"
  "push_bit 5 (part (Suc 0) 5 x) OR push_bit 3 (part 2 3 x) OR push_bit 6 (part 3 6 x) = x AND 0x1F8"
  "push_bit 2 (part 4 2 x) OR push_bit 6 (part 2 6 x) = x AND 0xFC"
  "push_bit 3 (part 3 3 x) OR push_bit 6 (part 3 6 x) = x AND 0x1F8"
  "push_bit 3 (part 3 3 x) OR push_bit 2 (part (Suc 0) 2 x) OR push_bit 6 (part (Suc 0) 6 x) = x AND 0x7C"
  "push_bit 3 (part 3 3 x) OR push_bit 6 (part 2 6 x) = x AND 0xF8"
  "push_bit 4 (part 2 4 x) OR push_bit 6 (part 4 6 x) OR push_bit 2 (part (Suc 0) 2 x) OR push_bit 3 (part (Suc 0) 3 x) = x AND 0x3FC"
  "SignExtend (push_bit 9 (part (Suc 0) 9 x) OR push_bit 4 (part (Suc 0) 4 x) OR push_bit 6 (part (Suc 0) 6 x) OR push_bit 7 (part 2 7 x) OR push_bit 5 (part (Suc 0) 5 x)) 10 = signed_take_bit 9 x AND NOT 0xF"
  "SignExtend (push_bit 8 (part (Suc 0) 8 x) OR push_bit 3 (part 2 3 x) OR push_bit 6 (part 2 6 x) OR part 2 (Suc 0) x * 2 OR push_bit 5 (part (Suc 0) 5 x)) 9 = signed_take_bit 8 x AND NOT 1"
  "SignExtend (push_bit 11 (part (Suc 0) 11 x) OR push_bit 4 (part (Suc 0) 4 x) OR push_bit 8 (part 2 8 x) OR push_bit 10 (part (Suc 0) 10 x) OR push_bit 6 (part (Suc 0) 6 x) OR push_bit 7 (part (Suc 0) 7 x) OR part 3 (Suc 0) x * 2 OR push_bit 5 (part (Suc 0) 5 x)) 12 = signed_take_bit 11 x AND NOT 1"
  "SignExtend (push_bit 17 (part (Suc 0) 17 x) OR push_bit 12 (part 5 12 x)) 18 = signed_take_bit 17 x AND NOT 0xFFF"
  by ((rule word32_eqI, drule less_32_cases, elim disjE; simp add: part_bits)+)

text \<open>The words of the compressed formats as constants and pieces.\<close>

lemma compressed_types:
  "AsmCAddType cmd rd rs2 = cmd OR (piece 7 5 0 rd OR piece 2 5 0 rs2)"
  "AsmCAddiType cmd rd imm = ((cmd OR piece 7 5 0 rd) OR piece 12 1 5 imm) OR piece 2 5 0 imm"
  "AsmCAndType cmd rd rs2 = (cmd OR piece 7 3 0 rd) OR piece 2 3 0 rs2"
  "AsmCAndiType cmd rd imm = ((cmd OR piece 7 3 0 rd) OR piece 12 1 5 imm) OR piece 2 5 0 imm"
  "AsmCBType cmd rs1 offset = (((((cmd OR piece 7 3 0 rs1) OR piece 12 1 8 offset) OR piece 10 2 3 offset) OR piece 5 2 6 offset) OR piece 3 2 1 offset) OR piece 2 1 5 offset"
  "AsmCJType cmd offset = (((((((cmd OR piece 12 1 11 offset) OR piece 11 1 4 offset) OR piece 9 2 8 offset) OR piece 8 1 10 offset) OR piece 7 1 6 offset) OR
     piece 6 1 7 offset) OR piece 3 3 1 offset) OR piece 2 1 5 offset"
  "AsmCLdType cmd r4to2 r9to7 uimm = (((cmd OR piece 2 3 0 r4to2) OR piece 7 3 0 r9to7) OR piece 10 3 3 uimm) OR piece 5 2 6 uimm"
  "AsmCLwType cmd r4to2 r9to7 uimm = ((((cmd OR piece 2 3 0 r4to2) OR piece 7 3 0 r9to7) OR piece 10 3 3 uimm) OR piece 6 1 2 uimm) OR piece 5 1 6 uimm"
  by (simp_all only: ucast_or AsmCAddType_def AsmCAddiType_def AsmCAndType_def AsmCAndiType_def AsmCBType_def AsmCJType_def AsmCLdType_def AsmCLwType_def Let_def pieces)

lemma part_five:
  "SignExtend (take_bit 6 x) 6 = signed_take_bit 5 (x :: u32)" "push_bit 5 (part (Suc 0) 5 x) + take_bit 5 x = take_bit 6 x"
proof -
  show "SignExtend (take_bit 6 x) 6 = signed_take_bit 5 (x :: u32)" by (simp add: SignExtend_eq signed_take_bit_take_bit)
  have "push_bit 5 (part (Suc 0) 5 x) + take_bit 5 x = push_bit 5 (part (Suc 0) 5 x) OR take_bit 5 x"
    by (rule disjunctive_add) (auto simp: part_bits)
  then show "push_bit 5 (part (Suc 0) 5 x) + take_bit 5 x = take_bit 6 x" by (simp add: part_immediates)
qed

lemma part_one: "part (Suc 0) i x = of_bool (bit x i)"
  by (rule bit_word_eqI) (auto simp: bit_part bit_simps)

text \<open>The bits 10 to 12 of an arithmetic instruction with an immediate do not select a register form.\<close>

lemma part_function:
  "2 OR push_bit 2 (part (Suc 0) i x) \<noteq> 7" "2 OR push_bit 2 (part (Suc 0) i x) \<noteq> 3" "1 OR push_bit 2 (part (Suc 0) i x) \<noteq> 7"
  "1 OR push_bit 2 (part (Suc 0) i x) \<noteq> 3" "push_bit 2 (part (Suc 0) i x) \<noteq> 7" "push_bit 2 (part (Suc 0) i x) \<noteq> 3"
  by (cases "bit x i"; simp add: part_one)+

lemmas c_defs = c_addi_jal_def c_li_def c_arith_def c_reg_op_def c_add_jalr_def c_slli_def c_lw_def c_lwsp_def c_ld_def c_ldsp_def c_sw_def c_swsp_def c_sd_def
  c_sdsp_def c_branch_def c_j_def c_jump_imm_def c_lui_addi16sp_def c_addi4spn_def

lemmas compressed_simps = compressed_types GetCode16_dispatch bitfield_simps c_defs part_immediates part_five part_function part_low c_init_def

lemma immediate_words:
  "GetCode16 (ucast (AsmCAddi rd imm)) mxl = c_init\<lparr>d_instruction := INST_ADDI, d_rd := take_bit 5 rd, d_rs1 := take_bit 5 rd, d_imm := signed_take_bit 5 imm\<rparr>"
  "GetCode16 (ucast (AsmCLi rd imm)) mxl = c_init\<lparr>d_instruction := INST_ADDI, d_rd := take_bit 5 rd, d_imm := signed_take_bit 5 imm\<rparr>"
  "GetCode16 (ucast (AsmCAndi rd imm)) mxl = c_init\<lparr>d_instruction := INST_ANDI, d_rd := take_bit 3 rd + 8, d_rs1 := take_bit 3 rd + 8, d_imm := signed_take_bit 5 imm\<rparr>"
  "GetCode16 (ucast (AsmCSrli rd imm)) mxl = c_init\<lparr>d_instruction := INST_SRLI, d_rd := take_bit 3 rd + 8, d_rs1 := take_bit 3 rd + 8, d_imm := take_bit 6 imm\<rparr>"
  "GetCode16 (ucast (AsmCSrai rd imm)) mxl = c_init\<lparr>d_instruction := INST_SRAI, d_rd := take_bit 3 rd + 8, d_rs1 := take_bit 3 rd + 8, d_imm := take_bit 6 imm\<rparr>"
  by (simp_all add: AsmCAddi_def AsmCLi_def AsmCAndi_def AsmCSrli_def AsmCSrai_def compressed_simps del: bitcrop_bit)

lemma register_words:
  "GetCode16 (ucast (AsmCAnd rd rs2)) mxl = c_init\<lparr>d_instruction := INST_AND, d_rd := take_bit 3 rd + 8, d_rs1 := take_bit 3 rd + 8, d_rs2 := take_bit 3 rs2 + 8\<rparr>"
  "GetCode16 (ucast (AsmCAddw rd rs2)) mxl = c_init\<lparr>d_instruction := INST_ADDW, d_rd := take_bit 3 rd + 8, d_rs1 := take_bit 3 rd + 8, d_rs2 := take_bit 3 rs2 + 8\<rparr>"
  "GetCode16 (ucast (AsmCOr rd rs2)) mxl = c_init\<lparr>d_instruction := INST_OR, d_rd := take_bit 3 rd + 8, d_rs1 := take_bit 3 rd + 8, d_rs2 := take_bit 3 rs2 + 8\<rparr>"
  "GetCode16 (ucast (AsmCSub rd rs2)) mxl = c_init\<lparr>d_instruction := INST_SUB, d_rd := take_bit 3 rd + 8, d_rs1 := take_bit 3 rd + 8, d_rs2 := take_bit 3 rs2 + 8\<rparr>"
  "GetCode16 (ucast (AsmCSubw rd rs2)) mxl = c_init\<lparr>d_instruction := INST_SUBW, d_rd := take_bit 3 rd + 8, d_rs1 := take_bit 3 rd + 8, d_rs2 := take_bit 3 rs2 + 8\<rparr>"
  "GetCode16 (ucast (AsmCXor rd rs2)) mxl = c_init\<lparr>d_instruction := INST_XOR, d_rd := take_bit 3 rd + 8, d_rs1 := take_bit 3 rd + 8, d_rs2 := take_bit 3 rs2 + 8\<rparr>"
  by (simp_all add: AsmCAnd_def AsmCAddw_def AsmCOr_def AsmCSub_def AsmCSubw_def AsmCXor_def compressed_simps del: bitcrop_bit)

lemma jump_words:
  "GetCode16 (ucast (AsmCBeqz rs1 offset)) mxl = c_init\<lparr>d_instruction := INST_BEQ, d_rs1 := take_bit 3 rs1 + 8, d_imm := signed_take_bit 8 offset AND NOT 1\<rparr>"
  "GetCode16 (ucast (AsmCBnez rs1 offset)) mxl = c_init\<lparr>d_instruction := INST_BNE, d_rs1 := take_bit 3 rs1 + 8, d_imm := signed_take_bit 8 offset AND NOT 1\<rparr>"
  "GetCode16 (ucast (AsmCJ offset)) mxl = c_init\<lparr>d_instruction := INST_JAL, d_imm := signed_take_bit 11 offset AND NOT 1\<rparr>"
  "GetCode16 (ucast (AsmCJal offset)) 1 = c_init\<lparr>d_instruction := INST_JAL, d_rd := 1, d_imm := signed_take_bit 11 offset AND NOT 1\<rparr>"
  by (simp_all add: AsmCBeqz_def AsmCBnez_def AsmCJ_def AsmCJal_def compressed_simps del: bitcrop_bit)

lemma memory_words:
  "GetCode16 (ucast (AsmCLd rd rs1 uimm)) mxl = c_init\<lparr>d_instruction := INST_LD, d_rd := take_bit 3 rd + 8, d_rs1 := take_bit 3 rs1 + 8, d_imm := uimm AND 0xF8\<rparr>"
  "GetCode16 (ucast (AsmCLw rd rs1 uimm)) mxl = c_init\<lparr>d_instruction := INST_LW, d_rd := take_bit 3 rd + 8, d_rs1 := take_bit 3 rs1 + 8, d_imm := uimm AND 0x7C\<rparr>"
  "GetCode16 (ucast (AsmCSd rs1 rs2 uimm)) mxl = c_init\<lparr>d_instruction := INST_SD, d_rs1 := take_bit 3 rs1 + 8, d_rs2 := take_bit 3 rs2 + 8, d_imm := uimm AND 0xF8\<rparr>"
  "GetCode16 (ucast (AsmCsw rs1 rs2 uimm)) mxl = c_init\<lparr>d_instruction := INST_SW, d_rs1 := take_bit 3 rs1 + 8, d_rs2 := take_bit 3 rs2 + 8, d_imm := uimm AND 0x7C\<rparr>"
  by (simp_all add: AsmCLd_def AsmCLw_def AsmCSd_def AsmCsw_def compressed_simps del: bitcrop_bit)

lemma compressed_words:
  "AsmCJalr rs1 = 0b1001000000000010 OR piece 7 5 0 rs1"
  "AsmCJr rs1 = 0b1000000000000010 OR piece 7 5 0 rs1"
  "AsmCLdsp rd uimm = (((0b0110000000000010 OR piece 7 5 0 rd) OR piece 12 1 5 uimm) OR piece 5 2 3 uimm) OR piece 2 3 6 uimm"
  "AsmCLwsp rd uimm = (((0b0100000000000010 OR piece 7 5 0 rd) OR piece 12 1 5 uimm) OR piece 4 3 2 uimm) OR piece 2 2 6 uimm"
  "AsmCSdsp rs2 uimm = ((0b1110000000000010 OR piece 2 5 0 rs2) OR piece 10 3 3 uimm) OR piece 7 3 6 uimm"
  "AsmCSlli rd uimm = ((0b0000000000000010 OR piece 7 5 0 rd) OR piece 12 1 5 uimm) OR piece 2 5 0 uimm"
  "AsmCSwsp rs2 uimm = ((0b1100000000000010 OR piece 2 5 0 rs2) OR piece 9 4 2 uimm) OR piece 7 2 6 uimm"
  "AsmCAddi16sp imm = ((((0b0110000100000001 OR piece 12 1 9 imm) OR piece 2 1 5 imm) OR piece 3 2 7 imm) OR piece 5 1 6 imm) OR piece 6 1 4 imm"
  "AsmCAddiw rd imm = ((0b0010000000000001 OR piece 7 5 0 rd) OR piece 12 1 5 imm) OR piece 2 5 0 imm"
  "AsmCLui rd imm = (0b0110000000000001 OR piece 12 1 17 imm) OR piece 2 5 12 imm"
  "AsmCAddi4spn rd uimm = ((((0b0000000000000000 OR piece 2 3 0 rd) OR piece 11 2 4 uimm) OR piece 7 4 6 uimm) OR piece 6 1 2 uimm) OR piece 5 1 3 uimm"
  by (simp_all only: AsmCJalr_def AsmCJr_def AsmCLdsp_def AsmCLwsp_def AsmCSdsp_def AsmCSlli_def AsmCSwsp_def AsmCAddi16sp_def AsmCAddiw_def AsmCLui_def
      AsmCAddi4spn_def Let_def pieces)

lemma stack_words:
  "GetCode16 (ucast (AsmCLdsp rd uimm)) mxl = c_init\<lparr>d_instruction := INST_LD, d_rd := take_bit 5 rd, d_rs1 := 2, d_imm := uimm AND 0x1F8\<rparr>"
  "GetCode16 (ucast (AsmCLwsp rd uimm)) mxl = c_init\<lparr>d_instruction := INST_LW, d_rd := take_bit 5 rd, d_rs1 := 2, d_imm := uimm AND 0xFC\<rparr>"
  "GetCode16 (ucast (AsmCSdsp rs2 uimm)) mxl = c_init\<lparr>d_instruction := INST_SD, d_rs1 := 2, d_rs2 := take_bit 5 rs2, d_imm := uimm AND 0x1F8\<rparr>"
  "GetCode16 (ucast (AsmCSwsp rs2 uimm)) mxl = c_init\<lparr>d_instruction := INST_SW, d_rs1 := 2, d_rs2 := take_bit 5 rs2, d_imm := uimm AND 0xFC\<rparr>"
  "GetCode16 (ucast (AsmCSlli rd uimm)) mxl = c_init\<lparr>d_instruction := INST_SLLI, d_rd := take_bit 5 rd, d_rs1 := take_bit 5 rd, d_imm := take_bit 6 uimm\<rparr>"
  by (simp_all add: compressed_words compressed_simps del: bitcrop_bit)

lemma checked_words:
  "mxl \<noteq> 1 \<Longrightarrow> GetCode16 (ucast (AsmCAddiw rd imm)) mxl =
     c_init\<lparr>d_instruction := INST_ADDIW, d_rd := take_bit 5 rd, d_rs1 := take_bit 5 rd, d_imm := signed_take_bit 5 imm\<rparr>"
  "take_bit 5 rs2 \<noteq> 0 \<Longrightarrow> take_bit 5 rd \<noteq> 0 \<Longrightarrow> GetCode16 (ucast (AsmCAdd rd rs2)) mxl =
     c_init\<lparr>d_instruction := INST_ADD, d_rd := take_bit 5 rd, d_rs1 := take_bit 5 rd, d_rs2 := take_bit 5 rs2\<rparr>"
  "take_bit 5 rs2 \<noteq> 0 \<Longrightarrow> GetCode16 (ucast (AsmCMv rd rs2)) mxl = c_init\<lparr>d_instruction := INST_ADD, d_rd := take_bit 5 rd, d_rs2 := take_bit 5 rs2\<rparr>"
  "take_bit 5 rs1 \<noteq> 0 \<Longrightarrow> GetCode16 (ucast (AsmCJalr rs1)) mxl = c_init\<lparr>d_instruction := INST_JALR, d_rd := 1, d_rs1 := take_bit 5 rs1\<rparr>"
  "GetCode16 (ucast (AsmCJr rs1)) mxl = c_init\<lparr>d_instruction := INST_JALR, d_rs1 := take_bit 5 rs1\<rparr>"
  "GetCode16 (ucast AsmCEbreak) mxl = c_init\<lparr>d_instruction := INST_SYSTEM, d_imm := 1\<rparr>"
  "signed_take_bit 9 imm AND NOT 0xF \<noteq> 0 \<Longrightarrow> GetCode16 (ucast (AsmCAddi16sp imm)) mxl =
     c_init\<lparr>d_instruction := INST_ADDI, d_rd := 2, d_rs1 := 2, d_imm := signed_take_bit 9 imm AND NOT 0xF\<rparr>"
  "signed_take_bit 17 imm AND NOT 0xFFF \<noteq> 0 \<Longrightarrow> GetCode16 (ucast (AsmCLui rd imm)) mxl =
     c_init\<lparr>d_instruction := INST_LUI, d_imm := signed_take_bit 17 imm AND NOT 0xFFF\<rparr>"
  by (simp_all add: AsmCAdd_def AsmCMv_def AsmCEbreak_def compressed_words compressed_simps del: bitcrop_bit)

lemma addi4spn_words:
  assumes "uimm AND 0x3FC \<noteq> 0"
  shows "GetCode16 (ucast (AsmCAddi4spn rd uimm)) mxl = c_init\<lparr>d_instruction := INST_ADDI, d_rd := take_bit 3 rd + 8, d_rs1 := 2, d_imm := uimm AND 0x3FC\<rparr>"
proof -
  let ?x = "bitcrop (ucast (AsmCAddi4spn rd uimm) :: u32) 8 5"
  have x: "?x = ((push_bit 6 (part 2 4 uimm) OR push_bit 2 (part 4 6 uimm)) OR push_bit 1 (part 1 2 uimm)) OR part 1 3 uimm"
    by (simp add: compressed_words bitfield_simps del: bitcrop_bit)
  have "uimm AND 0x3FC = 0" if "?x = 0"
  proof (rule word32_eqI)
    have b: "\<not> bit ?x k" for k using that by simp
    fix n :: nat
    assume "n < 32"
    from less_32_cases [OF this] b [of 0] b [of 1] b [of 2] b [of 3] b [of 4] b [of 5] b [of 6] b [of 7] show "bit (uimm AND 0x3FC) n = bit 0 n"
      unfolding x by (elim disjE) (simp_all add: part_bits)
  qed
  with assms have "?x \<noteq> 0" by blast
  then show ?thesis by (simp add: compressed_simps compressed_words del: bitcrop_bit)
qed

section \<open>Instructions without operand list\<close>

lemma AsmJal_ok:
  "GetCode32 (AsmJal rd imm) = INST_JAL \<and> GetRd (AsmJal rd imm) = take_bit 5 rd \<and> GetImm (AsmJal rd imm) = signed_take_bit 20 imm AND NOT 1"
  by (simp add: AsmJal_def GetCode32_opcode AsmJType_fields GetImm_def Let_def GetImm21_AsmJType)

lemma asm_constants: "AsmMret = 0x30200073" "AsmEcall = 0x00000073" "AsmEbreak = 0x00100073" "AsmFencei = 0x0000100F"
  by (simp_all add: AsmMret_def AsmEcall_def AsmEbreak_def AsmFencei_def AsmRType_def AsmIType_def RType_GetValue_def IType_GetValue_def)

lemma AsmFence_ok:
  "AsmFence pred succ = (if pred AND NOT 0xF = 0 \<and> succ AND NOT 0xF = 0 then Inr (AsmIType OPCODE_FENCE FUNC3_FENCE 0 0 (push_bit 4 pred OR succ)) else Inl Assertion)"
  "GetCode32 (AsmIType OPCODE_FENCE FUNC3_FENCE 0 0 imm) = INST_FENCE"
  by (simp_all add: AsmFence_def assert_that_def GetCode32_opcode AsmIType_fields code_FENCE_def)

section \<open>Properties\<close>

text \<open>C22: The decoder inverts the assembler: what the assembler encodes under the name of an instruction, the decoder finds to be that instruction, with the
  registers and immediates that were given, reduced to the width of their fields: five bits for a register, six for a shift amount, twelve signed for an immediate and
  a store offset, and signed even offsets of thirteen and twenty-one bits for branches and jumps.  (The functions without operands to give back, \<open>MRET\<close>, \<open>ECALL\<close>,
  \<open>EBREAK\<close> and \<open>FENCE\<close>, are not in the tables.)\<close>

theorem assembler_roundtrip:
  "(\<forall>(i, f)\<in>set asm_R. \<forall>rd rs1 rs2. GetCode32 (f rd rs1 rs2) = i \<and>
      GetRd (f rd rs1 rs2) = take_bit 5 rd \<and> GetRs1 (f rd rs1 rs2) = take_bit 5 rs1 \<and> GetRs2 (f rd rs1 rs2) = take_bit 5 rs2) \<and>
   (\<forall>(i, f)\<in>set asm_AMO. \<forall>rd rs1 rs2 aq rl. GetCode32 (f rd rs1 rs2 aq rl) = i \<and>
      GetRd (f rd rs1 rs2 aq rl) = take_bit 5 rd \<and> GetRs1 (f rd rs1 rs2 aq rl) = take_bit 5 rs1 \<and> GetRs2 (f rd rs1 rs2 aq rl) = take_bit 5 rs2) \<and>
   (\<forall>(i, f)\<in>set asm_I. \<forall>rd rs1 imm. GetCode32 (f rd rs1 imm) = i \<and>
      GetRd (f rd rs1 imm) = take_bit 5 rd \<and> GetRs1 (f rd rs1 imm) = take_bit 5 rs1 \<and> GetImm (f rd rs1 imm) = signed_take_bit 11 imm) \<and>
   (\<forall>(i, f)\<in>set asm_SH. \<forall>rd rs1 imm. GetCode32 (f rd rs1 imm) = i \<and>
      GetRd (f rd rs1 imm) = take_bit 5 rd \<and> GetRs1 (f rd rs1 imm) = take_bit 5 rs1 \<and> GetImm (f rd rs1 imm) = take_bit 6 imm) \<and>
   (\<forall>(i, f)\<in>set asm_CSR. \<forall>rd rs1 csr. GetCode32 (f rd rs1 csr) = i \<and>
      GetRd (f rd rs1 csr) = take_bit 5 rd \<and> GetRs1 (f rd rs1 csr) = take_bit 5 rs1 \<and> GetCsr (f rd rs1 csr) = take_bit 12 csr) \<and>
   (\<forall>(i, f)\<in>set asm_B. \<forall>rs1 rs2 imm. GetCode32 (f rs1 rs2 imm) = i \<and>
      GetRs1 (f rs1 rs2 imm) = take_bit 5 rs1 \<and> GetRs2 (f rs1 rs2 imm) = take_bit 5 rs2 \<and> GetImm (f rs1 rs2 imm) = signed_take_bit 12 imm AND NOT 1) \<and>
   (\<forall>(i, f)\<in>set asm_S. \<forall>rs1 rs2 imm. GetCode32 (f rs1 rs2 imm) = i \<and>
      GetRs1 (f rs1 rs2 imm) = take_bit 5 rs1 \<and> GetRs2 (f rs1 rs2 imm) = take_bit 5 rs2 \<and> GetImm (f rs1 rs2 imm) = signed_take_bit 11 imm) \<and>
   (\<forall>(i, f)\<in>set asm_U. \<forall>rd imm. GetCode32 (f rd imm) = i \<and> GetRd (f rd imm) = take_bit 5 rd \<and> GetImm (f rd imm) = push_bit 12 imm) \<and>
   (\<forall>rd imm. GetCode32 (AsmJal rd imm) = INST_JAL \<and> GetRd (AsmJal rd imm) = take_bit 5 rd \<and> GetImm (AsmJal rd imm) = signed_take_bit 20 imm AND NOT 1)"
  using asm_R_ok asm_AMO_ok asm_I_ok asm_SH_ok asm_CSR_ok asm_B_ok asm_S_ok asm_U_ok AsmJal_ok unfolding list_all_iff by (intro conjI allI) simp_all

theorem assembler_roundtrip_witness:
  "GetCode32 (AsmBne 5 6 0xFFFFFFF0) = INST_BNE \<and> GetRs1 (AsmBne 5 6 0xFFFFFFF0) = 5 \<and> GetRs2 (AsmBne 5 6 0xFFFFFFF0) = 6 \<and> GetImm (AsmBne 5 6 0xFFFFFFF0) = 0xFFFFFFF0"
proof -
  have "(INST_BNE, AsmBne) \<in> set asm_B" by (simp add: asm_B_def)
  then have "\<forall>rs1 rs2 imm. GetCode32 (AsmBne rs1 rs2 imm) = INST_BNE \<and> GetRs1 (AsmBne rs1 rs2 imm) = take_bit 5 rs1 \<and> GetRs2 (AsmBne rs1 rs2 imm) = take_bit 5 rs2 \<and>
      GetImm (AsmBne rs1 rs2 imm) = signed_take_bit 12 imm AND NOT 1"
    using assembler_roundtrip by blast
  then show ?thesis by simp
qed

text \<open>C23: The decoder of compressed instructions inverts their assembler: it expands each word to the instruction that the function is named after, with
  its registers (the eight registers from \<open>x8\<close> on for the three-bit fields, the stack pointer where the format implies it) and with its immediate, reduced to the bits that the format
  holds.  The words for which the architecture demands a nonzero operand are decoded so when the operand is not zero.  \<open>AsmCLui\<close> does not encode its register: the
  result goes to \<open>x0\<close>.\<close>

theorem compressed_assembler_roundtrip:
  "(GetCode16 (ucast (AsmCAddi rd imm)) mxl = c_init\<lparr>d_instruction := INST_ADDI, d_rd := take_bit 5 rd, d_rs1 := take_bit 5 rd, d_imm := signed_take_bit 5 imm\<rparr>) \<and>
   (GetCode16 (ucast (AsmCLi rd imm)) mxl = c_init\<lparr>d_instruction := INST_ADDI, d_rd := take_bit 5 rd, d_imm := signed_take_bit 5 imm\<rparr>) \<and>
   (GetCode16 (ucast (AsmCAndi rd imm)) mxl = c_init\<lparr>d_instruction := INST_ANDI, d_rd := take_bit 3 rd + 8, d_rs1 := take_bit 3 rd + 8, d_imm := signed_take_bit 5 imm\<rparr>) \<and>
   (GetCode16 (ucast (AsmCSrli rd imm)) mxl = c_init\<lparr>d_instruction := INST_SRLI, d_rd := take_bit 3 rd + 8, d_rs1 := take_bit 3 rd + 8, d_imm := take_bit 6 imm\<rparr>) \<and>
   (GetCode16 (ucast (AsmCSrai rd imm)) mxl = c_init\<lparr>d_instruction := INST_SRAI, d_rd := take_bit 3 rd + 8, d_rs1 := take_bit 3 rd + 8, d_imm := take_bit 6 imm\<rparr>) \<and>
   (GetCode16 (ucast (AsmCAnd rd rs2)) mxl = c_init\<lparr>d_instruction := INST_AND, d_rd := take_bit 3 rd + 8, d_rs1 := take_bit 3 rd + 8, d_rs2 := take_bit 3 rs2 + 8\<rparr>) \<and>
   (GetCode16 (ucast (AsmCAddw rd rs2)) mxl = c_init\<lparr>d_instruction := INST_ADDW, d_rd := take_bit 3 rd + 8, d_rs1 := take_bit 3 rd + 8, d_rs2 := take_bit 3 rs2 + 8\<rparr>) \<and>
   (GetCode16 (ucast (AsmCOr rd rs2)) mxl = c_init\<lparr>d_instruction := INST_OR, d_rd := take_bit 3 rd + 8, d_rs1 := take_bit 3 rd + 8, d_rs2 := take_bit 3 rs2 + 8\<rparr>) \<and>
   (GetCode16 (ucast (AsmCSub rd rs2)) mxl = c_init\<lparr>d_instruction := INST_SUB, d_rd := take_bit 3 rd + 8, d_rs1 := take_bit 3 rd + 8, d_rs2 := take_bit 3 rs2 + 8\<rparr>) \<and>
   (GetCode16 (ucast (AsmCSubw rd rs2)) mxl = c_init\<lparr>d_instruction := INST_SUBW, d_rd := take_bit 3 rd + 8, d_rs1 := take_bit 3 rd + 8, d_rs2 := take_bit 3 rs2 + 8\<rparr>) \<and>
   (GetCode16 (ucast (AsmCXor rd rs2)) mxl = c_init\<lparr>d_instruction := INST_XOR, d_rd := take_bit 3 rd + 8, d_rs1 := take_bit 3 rd + 8, d_rs2 := take_bit 3 rs2 + 8\<rparr>) \<and>
   (GetCode16 (ucast (AsmCBeqz rs1 offset)) mxl = c_init\<lparr>d_instruction := INST_BEQ, d_rs1 := take_bit 3 rs1 + 8, d_imm := signed_take_bit 8 offset AND NOT 1\<rparr>) \<and>
   (GetCode16 (ucast (AsmCBnez rs1 offset)) mxl = c_init\<lparr>d_instruction := INST_BNE, d_rs1 := take_bit 3 rs1 + 8, d_imm := signed_take_bit 8 offset AND NOT 1\<rparr>) \<and>
   (GetCode16 (ucast (AsmCJ offset)) mxl = c_init\<lparr>d_instruction := INST_JAL, d_imm := signed_take_bit 11 offset AND NOT 1\<rparr>) \<and>
   (GetCode16 (ucast (AsmCJal offset)) 1 = c_init\<lparr>d_instruction := INST_JAL, d_rd := 1, d_imm := signed_take_bit 11 offset AND NOT 1\<rparr>) \<and>
   (GetCode16 (ucast (AsmCLd rd rs1 uimm)) mxl = c_init\<lparr>d_instruction := INST_LD, d_rd := take_bit 3 rd + 8, d_rs1 := take_bit 3 rs1 + 8, d_imm := uimm AND 0xF8\<rparr>) \<and>
   (GetCode16 (ucast (AsmCLw rd rs1 uimm)) mxl = c_init\<lparr>d_instruction := INST_LW, d_rd := take_bit 3 rd + 8, d_rs1 := take_bit 3 rs1 + 8, d_imm := uimm AND 0x7C\<rparr>) \<and>
   (GetCode16 (ucast (AsmCSd rs1 rs2 uimm)) mxl = c_init\<lparr>d_instruction := INST_SD, d_rs1 := take_bit 3 rs1 + 8, d_rs2 := take_bit 3 rs2 + 8, d_imm := uimm AND 0xF8\<rparr>) \<and>
   (GetCode16 (ucast (AsmCsw rs1 rs2 uimm)) mxl = c_init\<lparr>d_instruction := INST_SW, d_rs1 := take_bit 3 rs1 + 8, d_rs2 := take_bit 3 rs2 + 8, d_imm := uimm AND 0x7C\<rparr>) \<and>
   (GetCode16 (ucast (AsmCLdsp rd uimm)) mxl = c_init\<lparr>d_instruction := INST_LD, d_rd := take_bit 5 rd, d_rs1 := 2, d_imm := uimm AND 0x1F8\<rparr>) \<and>
   (GetCode16 (ucast (AsmCLwsp rd uimm)) mxl = c_init\<lparr>d_instruction := INST_LW, d_rd := take_bit 5 rd, d_rs1 := 2, d_imm := uimm AND 0xFC\<rparr>) \<and>
   (GetCode16 (ucast (AsmCSdsp rs2 uimm)) mxl = c_init\<lparr>d_instruction := INST_SD, d_rs1 := 2, d_rs2 := take_bit 5 rs2, d_imm := uimm AND 0x1F8\<rparr>) \<and>
   (GetCode16 (ucast (AsmCSwsp rs2 uimm)) mxl = c_init\<lparr>d_instruction := INST_SW, d_rs1 := 2, d_rs2 := take_bit 5 rs2, d_imm := uimm AND 0xFC\<rparr>) \<and>
   (GetCode16 (ucast (AsmCSlli rd uimm)) mxl = c_init\<lparr>d_instruction := INST_SLLI, d_rd := take_bit 5 rd, d_rs1 := take_bit 5 rd, d_imm := take_bit 6 uimm\<rparr>) \<and>
   (mxl \<noteq> 1 \<longrightarrow> GetCode16 (ucast (AsmCAddiw rd imm)) mxl =
     c_init\<lparr>d_instruction := INST_ADDIW, d_rd := take_bit 5 rd, d_rs1 := take_bit 5 rd, d_imm := signed_take_bit 5 imm\<rparr>) \<and>
   (take_bit 5 rs2 \<noteq> 0 \<and> take_bit 5 rd \<noteq> 0 \<longrightarrow> GetCode16 (ucast (AsmCAdd rd rs2)) mxl =
     c_init\<lparr>d_instruction := INST_ADD, d_rd := take_bit 5 rd, d_rs1 := take_bit 5 rd, d_rs2 := take_bit 5 rs2\<rparr>) \<and>
   (take_bit 5 rs2 \<noteq> 0 \<longrightarrow> GetCode16 (ucast (AsmCMv rd rs2)) mxl = c_init\<lparr>d_instruction := INST_ADD, d_rd := take_bit 5 rd, d_rs2 := take_bit 5 rs2\<rparr>) \<and>
   (take_bit 5 rs1 \<noteq> 0 \<longrightarrow> GetCode16 (ucast (AsmCJalr rs1)) mxl = c_init\<lparr>d_instruction := INST_JALR, d_rd := 1, d_rs1 := take_bit 5 rs1\<rparr>) \<and>
   (GetCode16 (ucast (AsmCJr rs1)) mxl = c_init\<lparr>d_instruction := INST_JALR, d_rs1 := take_bit 5 rs1\<rparr>) \<and>
   (GetCode16 (ucast AsmCEbreak) mxl = c_init\<lparr>d_instruction := INST_SYSTEM, d_imm := 1\<rparr>) \<and>
   (signed_take_bit 9 imm AND NOT 0xF \<noteq> 0 \<longrightarrow> GetCode16 (ucast (AsmCAddi16sp imm)) mxl =
     c_init\<lparr>d_instruction := INST_ADDI, d_rd := 2, d_rs1 := 2, d_imm := signed_take_bit 9 imm AND NOT 0xF\<rparr>) \<and>
   (signed_take_bit 17 imm AND NOT 0xFFF \<noteq> 0 \<longrightarrow> GetCode16 (ucast (AsmCLui rd imm)) mxl =
     c_init\<lparr>d_instruction := INST_LUI, d_imm := signed_take_bit 17 imm AND NOT 0xFFF\<rparr>) \<and>
   (uimm AND 0x3FC \<noteq> 0 \<longrightarrow> GetCode16 (ucast (AsmCAddi4spn rd uimm)) mxl =
     c_init\<lparr>d_instruction := INST_ADDI, d_rd := take_bit 3 rd + 8, d_rs1 := 2, d_imm := uimm AND 0x3FC\<rparr>)"
  by (intro conjI impI; (rule immediate_words register_words jump_words memory_words stack_words checked_words addi4spn_words; simp)?)

theorem compressed_assembler_roundtrip_witness:
  "GetCode16 (ucast (AsmCAdd 10 11)) 2 = c_init\<lparr>d_instruction := INST_ADD, d_rd := 10, d_rs1 := 10, d_rs2 := 11\<rparr>"
  using compressed_assembler_roundtrip [of 10 0 2 11] by simp

end
