(* ===== verification/Test_Programs.thy ===== *)
theory Test_Programs
  imports Isa_Example Assembler "HOL-Library.Multiset"
begin

text \<open>
  The programs of \<open>tests/load_assembler.cc\<close>, from the assembler to the end of their run on the emulator: the assembled words are placed in memory,
  and the specification of the instruction set is followed through the loops of the program, which \<open>Isa_Sim\<close> carries over to \<open>RunCpu\<close>.
\<close>

section \<open>Loading a sequence of instructions\<close>

lemma AddCmd_abs:
  assumes "mem_wf m"
  shows "\<exists>m'. AddCmd m a w = Inr (a + 4, m') \<and> mem_wf m' \<and> mem_abs m' = write_bytes (mem_abs m) (ucast a) (le_bytes (ucast w) 4)"
proof -
  obtain m1 where m1: "WriteByte m a (ucast (w AND 0xFF)) = Inr m1" "mem_wf m1" "mem_abs m1 = (mem_abs m)(ucast a := ucast (w AND 0xFF))"
    by (rule WriteByte_abs [OF assms])
  obtain m2 where m2: "WriteByte m1 (a + 1) (ucast (drop_bit 8 w AND 0xFF)) = Inr m2" "mem_wf m2"
      "mem_abs m2 = (mem_abs m1)(ucast (a + 1) := ucast (drop_bit 8 w AND 0xFF))"
    by (rule WriteByte_abs [OF m1(2)])
  obtain m3 where m3: "WriteByte m2 (a + 2) (ucast (drop_bit 16 w AND 0xFF)) = Inr m3" "mem_wf m3"
      "mem_abs m3 = (mem_abs m2)(ucast (a + 2) := ucast (drop_bit 16 w AND 0xFF))"
    by (rule WriteByte_abs [OF m2(2)])
  obtain m4 where m4: "WriteByte m3 (a + 3) (ucast (drop_bit 24 w AND 0xFF)) = Inr m4" "mem_wf m4"
      "mem_abs m4 = (mem_abs m3)(ucast (a + 3) := ucast (drop_bit 24 w AND 0xFF))"
    by (rule WriteByte_abs [OF m3(2)])
  have b: "ucast (x AND 0xFF) = (ucast x :: u8)" for x :: u32
    using and_mask_take_bit [of x 8] by (auto intro!: bit_word_eqI simp: mask_numeral bit_simps simp del: and_mask_take_bit)
  have le: "le_bytes (ucast w) 4 = [ucast w, ucast (drop_bit 8 w), ucast (drop_bit 16 w), ucast (drop_bit 24 w)]"
    by (rule nth_equalityI) (auto intro!: bit_word_eqI simp: less_Suc_eq numeral_eq_Suc bit_simps)
  have four: "write_bytes f p [x, y, z, t] = f(p := x, p + 1 := y, p + 2 := z, p + 3 := t)" for f p x y z t
    using write_bytes_snoc [of "[x, y, z]" f p t] write_bytes_snoc [of "[x, y]" f p z] write_bytes_snoc [of "[x]" f p y] by (simp add: write_bytes_single)
  have "mem_abs m4 = write_bytes (mem_abs m) (ucast a) (le_bytes (ucast w) 4)"
    unfolding le four m4 m3 m2 m1 b using ucast_add_of_nat [of a 1] ucast_add_of_nat [of a 2] ucast_add_of_nat [of a 3] by simp
  with m1 m2 m3 m4 show ?thesis by (simp add: AddCmd_def)
qed


text \<open>The two programs as lists of words.\<close>

fun add_cmds :: "memory \<Rightarrow> u64 \<Rightarrow> u32 list \<Rightarrow> (u64 \<times> memory) res" where
  "add_cmds m a [] = Inr (a, m)"
| "add_cmds m a (w # ws) = rbind (AddCmd m a w) (\<lambda>(a, m). add_cmds m a ws)"

definition sum_program :: "u32 list" where
  "sum_program = [AsmAddi T0 ZERO 0, AsmAddi T1 ZERO 0, AsmAddi T2 ZERO 10, AsmAddi T0 T0 1, AsmAdd T1 T1 T0, AsmBeq T0 T2 8, AsmJal ZERO (- 16),
     AsmAdd A0 T1 ZERO, AsmXor RA RA RA, AsmJalr ZERO RA 0]"

definition sort_program :: "u32 list" where
  "sort_program = [AsmAddi A3 A0 4, AsmAddi A4 X0 1, AsmBltu A4 A1 8, AsmJalr X0 X1 0, AsmLw A6 A3 0, AsmAddi A2 A3 0, AsmAddi A5 A4 0, AsmLw A7 A2 (- 4),
     AsmBge A6 A7 20, AsmSw A2 A7 0, AsmAddi A5 A5 (- 1), AsmAddi A2 A2 (- 4), AsmBne A5 X0 (- 20), AsmSlli A5 A5 2, AsmAdd A5 A0 A5, AsmSw A5 A6 0,
     AsmAddi A4 A4 1, AsmAddi A3 A3 4, AsmJal X0 (- 64)]"

lemma LoadAssemblerSum_cmds: "LoadAssemblerSum m a = add_cmds m a sum_program"
  by (simp add: LoadAssemblerSum_def sum_program_def)

lemma LoadAssemblerSort_cmds: "LoadAssemblerSort m a = add_cmds m a sort_program"
  by (simp add: LoadAssemblerSort_def sort_program_def)

lemma add_cmds_abs:
  assumes "mem_wf m" "4 * length ws \<le> 2 ^ 32"
  shows "\<exists>m'. add_cmds m a ws = Inr (a + of_nat (4 * length ws), m') \<and> mem_wf m' \<and> mem_abs m' = write_bytes (mem_abs m) (ucast a) (program_bytes ws)"
  using assms
proof (induction ws arbitrary: a m)
  case (Cons w ws)
  obtain m1 where m1: "AddCmd m a w = Inr (a + 4, m1)" "mem_wf m1" "mem_abs m1 = write_bytes (mem_abs m) (ucast a) (le_bytes (ucast w) 4)"
    using AddCmd_abs [OF Cons(2)] by blast
  with Cons(1) [OF m1(2), of "a + 4"] Cons(3) obtain m2 where m2: "add_cmds m1 (a + 4) ws = Inr (a + 4 + of_nat (4 * length ws), m2)" "mem_wf m2"
    "mem_abs m2 = write_bytes (mem_abs m1) (ucast (a + 4)) (program_bytes ws)" by auto
  have "write_bytes (mem_abs m) (ucast a) (program_bytes (w # ws)) = mem_abs m2"
    using write_bytes_append [of "le_bytes (ucast w) 4" "program_bytes ws" "mem_abs m" "ucast a"] Cons(3)
      ucast_add_of_nat [of a 4] unfolding m2(3) m1(3) by simp
  with m1(1) m2 show ?case by simp
qed simp


section \<open>Running a loaded program\<close>

definition code_at :: "u32 list \<Rightarrow> u64 \<Rightarrow> bytes \<Rightarrow> bool" where
  "code_at ws a f \<longleftrightarrow> a AND 3 = 0 \<and> \<not> touches_timer (ucast a) (4 * length ws) \<and> holds_program ws (ucast a) f"

definition isa_at :: "u64 \<Rightarrow> nat \<Rightarrow> (u32 \<Rightarrow> u64) \<Rightarrow> bytes \<Rightarrow> isa" where
  "isa_at a k r f = \<lparr>isa_pc = a + of_nat (4 * k), isa_reg = r, isa_mem = f\<rparr>"

lemma isa_at_sel [simp]: "isa_pc (isa_at a k r f) = a + of_nat (4 * k)" "isa_reg (isa_at a k r f) = r" "isa_mem (isa_at a k r f) = f"
  by (simp_all add: isa_at_def)

lemma touches_timer_part:
  assumes "\<not> touches_timer a n" "k + j \<le> n"
  shows "\<not> touches_timer (a + of_nat k) j"
proof -
  have "in_timer (a + of_nat (k + i))" if "in_timer (a + of_nat k + of_nat i)" for i using that by (simp add: add.assoc)
  with assms show ?thesis unfolding touches_timer_def list_ex_iff by (metis add_less_cancel_left atLeastLessThan_iff le_trans less_le_trans set_upt zero_le)
qed

lemma aligned_at: "a AND 3 = 0 \<Longrightarrow> (a + of_nat (4 * k)) AND (3 :: u64) = 0"
  by (induction k) (simp_all add: aligned4_add add.assoc [symmetric] add.commute [of 4])

lemma isa_next_at:
  assumes "code_at ws a f" "k < length ws" "ws ! k = w" "isa_decode w = Some op"
  shows "isa_next (isa_at a k r f) = map_option (\<lambda>t. (t, if isa_pc t = a + of_nat (4 * k) then Some True
      else if op = INST_JALR \<and> GetRd w = 0 \<and> GetRs1 w = 1 \<and> GetImm w = 0 \<and> r 1 = 0 then Some False else None))
    (isa_exec op (GetRd w) (GetRs1 w) (GetRs2 w) (GetImm w) (isa_at a k r f))"
proof -
  have c: "(ucast (a + of_nat (4 * k)) :: u32) = ucast a + of_nat (4 * k)" by (rule ucast_add_of_nat)
  have "read_bytes f (ucast a + of_nat (4 * k)) 4 = le_bytes (ucast w) 4"
    using assms(1-3) by (auto simp: code_at_def holds_program_def simp del: of_nat_mult)
  then have "isa_word (isa_at a k r f) = w" unfolding isa_word_def isa_at_sel c by (simp add: le_word_le_bytes ucast_ucast_32 flip: ucast_ucast_32)
  moreover have "\<not> touches_timer (ucast a + of_nat (4 * k)) 4"
    using assms(1,2) by (intro touches_timer_part [of _ "4 * length ws"]) (auto simp: code_at_def)
  moreover have "(a + of_nat (4 * k)) AND 3 = 0" using assms(1) by (intro aligned_at) (simp add: code_at_def)
  ultimately show ?thesis
    using assms(4) unfolding isa_next_def isa_step_def isa_returns_def isa_at_sel c by (simp add: Let_def) blast
qed


text \<open>Runs of any number of instructions.\<close>

definition leads :: "isa \<Rightarrow> isa \<Rightarrow> bool" where
  "leads s t \<longleftrightarrow> (\<exists>n. \<forall>m. spec_run isa_next (n + m) s = spec_run isa_next m t)"

lemma leads_refl [intro!]: "leads s s"
  unfolding leads_def by (rule exI [of _ 0]) simp

lemma leads_same: "(\<And>x. r x = r' x) \<Longrightarrow> leads (isa_at a k r f) (isa_at a k r' f)"
proof -
  assume "\<And>x. r x = r' x"
  then have "r = r'" by (rule ext)
  then show ?thesis by auto
qed

lemma leads_at: "k = k' \<Longrightarrow> (\<And>x. r x = r' x) \<Longrightarrow> leads (isa_at a k r f) (isa_at a k' r' f)"
  using leads_same by blast

lemma leads_step:
  assumes "isa_next s = Some (t, None)" "leads t u"
  shows "leads s u"
proof -
  obtain n where "\<forall>m. spec_run isa_next (n + m) t = spec_run isa_next m u" using assms(2) by (auto simp: leads_def)
  with assms(1) have "\<forall>m. spec_run isa_next (Suc n + m) s = spec_run isa_next m u" by simp
  then show ?thesis unfolding leads_def by blast
qed

lemma leads_trans:
  assumes "leads s t" "leads t u"
  shows "leads s u"
proof -
  from assms obtain n k where "\<forall>m. spec_run isa_next (n + m) s = spec_run isa_next m t" "\<forall>m. spec_run isa_next (k + m) t = spec_run isa_next m u"
    by (auto simp: leads_def)
  then have "spec_run isa_next (n + k + m) s = spec_run isa_next m u" for m by (simp add: add.assoc)
  then show ?thesis unfolding leads_def by blast
qed

lemma leads_end:
  assumes "leads s t" "isa_next t = Some (u, Some e)"
  shows "\<exists>n. spec_run isa_next n s = Some (u, e)"
proof -
  obtain n where "\<forall>m. spec_run isa_next (n + m) s = spec_run isa_next m t" using assms(1) by (auto simp: leads_def)
  with assms(2) have "spec_run isa_next (n + Suc 0) s = Some (u, e)" by (simp del: add_Suc_right)
  then show ?thesis by blast
qed


section \<open>The sum of the numbers up to ten\<close>

lemmas asm_words = AsmAddi_def AsmAdd_def AsmXor_def AsmBeq_def AsmBltu_def AsmBge_def AsmBne_def AsmJal_def AsmJalr_def AsmLw_def AsmSw_def AsmSlli_def
  AsmRType_def AsmIType_def AsmBType_def AsmJType_def AsmSType_def RType_GetValue_def IType_GetValue_def BType_GetValue_def JType_GetValue_def
  SType_GetValue_def Let_def

lemma sum_words: "sum_program = [0x00000293, 0x00000313, 0x00A00393, 0x00128293, 0x00530333, 0x00728463, 0xFF1FF06F, 0x00030533, 0x0010C0B3, 0x00008067]"
  by (simp add: sum_program_def asm_words bitcrop_signed_eq bitcrop_eq)


lemmas field_defs = GetRd_def GetRs1_def GetRs2_def GetImm_def GetImm12_def GetImm13_def GetImm21_def GetStypeImm12_def BitShift_eq SignExtend_eq bitcrop_numeral Let_def

lemmas table_defs = isa_encodings_def isa_R_def isa_I_def isa_SH_def isa_AMO_def isa_U_def

lemma sum_decode:
  "isa_decode 0x00000293 = Some INST_ADDI" "isa_decode 0x00000313 = Some INST_ADDI" "isa_decode 0x00A00393 = Some INST_ADDI" "isa_decode 0x00128293 = Some INST_ADDI"
  "isa_decode 0x00530333 = Some INST_ADD" "isa_decode 0x00728463 = Some INST_BEQ" "isa_decode 0xFF1FF06F = Some INST_JAL" "isa_decode 0x00030533 = Some INST_ADD"
  "isa_decode 0x0010C0B3 = Some INST_XOR" "isa_decode 0x00008067 = Some INST_JALR"
  by (simp_all add: isa_decode_def table_defs)

lemma sum_imm: "GetImm 0x00000293 = 0" "GetImm 0x00000313 = 0" "GetImm 0x00A00393 = 10" "GetImm 0x00128293 = 1" "GetImm 0x00728463 = 8" "GetImm 0xFF1FF06F = 0xFFFFFFF0"
  by (simp_all add: field_defs)

lemma sum_regs:
  "GetRd 0x00000293 = 5" "GetRd 0x00000313 = 6" "GetRd 0x00A00393 = 7" "GetRd 0x00128293 = 5" "GetRd 0x00530333 = 6" "GetRd 0xFF1FF06F = 0" "GetRd 0x00030533 = 10"
  "GetRd 0x0010C0B3 = 1" "GetRs1 0x00000293 = 0" "GetRs1 0x00000313 = 0" "GetRs1 0x00A00393 = 0" "GetRs1 0x00128293 = 5" "GetRs1 0x00530333 = 6"
  "GetRs2 0x00530333 = 5" "GetRs1 0x00728463 = 5" "GetRs2 0x00728463 = 7" "GetRs1 0x00030533 = 6" "GetRs2 0x00030533 = 0" "GetRs1 0x0010C0B3 = 1" "GetRs2 0x0010C0B3 = 1"
  by (simp_all add: field_defs)

lemma isa_exec_at:
  "isa_exec INST_ADDI rd rs1 rs2 imm (isa_at a k r f) = Some (isa_at a (Suc k) (r(rd := r rs1 + scast imm, 0 := 0)) f)"
  "isa_exec INST_ADD rd rs1 rs2 imm (isa_at a k r f) = Some (isa_at a (Suc k) (r(rd := r rs1 + r rs2, 0 := 0)) f)"
  "isa_exec INST_XOR rd rs1 rs2 imm (isa_at a k r f) = Some (isa_at a (Suc k) (r(rd := r rs1 XOR r rs2, 0 := 0)) f)"
  "isa_exec INST_SLLI rd rs1 rs2 2 (isa_at a k r f) = Some (isa_at a (Suc k) (r(rd := push_bit 2 (r rs1), 0 := 0)) f)"
  by (simp_all add: isa_exec_def isa_value_def base_ops_def mult_ops_def word_ops_def mult_word_ops_def imm_ops_def shift_imm_ops_def shift_imm_word_ops_def alu_spec_def isa_set_def isa_at_def)


definition jump :: "u64 \<Rightarrow> nat \<Rightarrow> u32 \<Rightarrow> (u32 \<Rightarrow> u64) \<Rightarrow> bytes \<Rightarrow> isa" where
  "jump a k imm r f = \<lparr>isa_pc = a + of_nat (4 * k) + scast imm, isa_reg = r, isa_mem = f\<rparr>"

lemma jump_to: "of_nat (4 * k) + scast imm = (of_nat (4 * j) :: u64) \<Longrightarrow> jump a k imm r f = isa_at a j r f"
  by (simp add: jump_def isa_at_def add.assoc)

lemma isa_exec_jumps:
  "isa_exec INST_BEQ rd rs1 rs2 imm (isa_at a k r f) = Some (if r rs1 = r rs2 then jump a k imm r f else isa_at a (Suc k) r f)"
  "isa_exec INST_BNE rd rs1 rs2 imm (isa_at a k r f) = Some (if r rs1 \<noteq> r rs2 then jump a k imm r f else isa_at a (Suc k) r f)"
  "isa_exec INST_BGE rd rs1 rs2 imm (isa_at a k r f) = Some (if sint (r rs2) \<le> sint (r rs1) then jump a k imm r f else isa_at a (Suc k) r f)"
  "isa_exec INST_BLTU rd rs1 rs2 imm (isa_at a k r f) = Some (if r rs1 < r rs2 then jump a k imm r f else isa_at a (Suc k) r f)"
  "isa_exec INST_JAL rd rs1 rs2 imm (isa_at a k r f) = Some (jump a k imm (r(rd := a + of_nat (4 * k) + 4, 0 := 0)) f)"
  "isa_exec INST_JALR rd rs1 rs2 0 (isa_at a k r f) = Some \<lparr>isa_pc = r rs1 AND NOT 1, isa_reg = r(rd := a + of_nat (4 * k) + 4, 0 := 0), isa_mem = f\<rparr>"
  by (simp_all add: isa_exec_def isa_value_def base_ops_def mult_ops_def word_ops_def mult_word_ops_def imm_ops_def shift_imm_ops_def shift_imm_word_ops_def
      isa_taken_def isa_loads_def isa_stores_def isa_set_def isa_at_def jump_def Let_def add.assoc flip: not_less)

lemma sum_steps:
  assumes "code_at sum_program a f"
  shows "isa_next (isa_at a 0 r f) = Some (isa_at a 1 (r(5 := r 0, 0 := 0)) f, None)"
    "isa_next (isa_at a 1 r f) = Some (isa_at a 2 (r(6 := r 0, 0 := 0)) f, None)"
    "isa_next (isa_at a 2 r f) = Some (isa_at a 3 (r(7 := r 0 + 10, 0 := 0)) f, None)"
    "isa_next (isa_at a 3 r f) = Some (isa_at a 4 (r(5 := r 5 + 1, 0 := 0)) f, None)"
    "isa_next (isa_at a 4 r f) = Some (isa_at a 5 (r(6 := r 6 + r 5, 0 := 0)) f, None)"
    "isa_next (isa_at a 5 r f) = Some (isa_at a (if r 5 = r 7 then 7 else 6) r f, None)"
    "isa_next (isa_at a 6 r f) = Some (isa_at a 2 (r(0 := 0)) f, None)"
    "isa_next (isa_at a 7 r f) = Some (isa_at a 8 (r(10 := r 6 + r 0, 0 := 0)) f, None)"
    "isa_next (isa_at a 8 r f) = Some (isa_at a 9 (r(1 := 0, 0 := 0)) f, None)"
    "r 1 = 0 \<Longrightarrow> a + 36 \<noteq> 0 \<Longrightarrow> isa_next (isa_at a 9 r f) = Some (\<lparr>isa_pc = 0, isa_reg = r(0 := 0), isa_mem = f\<rparr>, Some False)"
  by (simp_all add: isa_next_at [OF assms _ refl] sum_words sum_decode sum_regs sum_imm ret_fields isa_exec_at isa_exec_jumps jump_to [of 5 8 7] jump_to [of 6 "0xFFFFFFF0" 2])


text \<open>The loop, from its head at the third instruction, with \<open>i\<close> numbers added.\<close>

lemma sum_loop:
  assumes "code_at sum_program a f" "i + j = 10" "0 < j" "r 0 = 0" "r 5 = of_nat i" "r 6 = of_nat (i * Suc i div 2)"
  shows "\<exists>r'. leads (isa_at a 2 r f) (isa_at a 7 r' f) \<and> r' 6 = 55 \<and> r' 0 = 0"
  using assms(2-)
proof (induction j arbitrary: i r)
  case (Suc j)
  define v where "v = Suc i * Suc (Suc i) div 2"
  let ?r = "r(7 := 10, 5 := of_nat (Suc i), 6 := of_nat v, 0 := 0)"
  have "v = i * Suc i div 2 + Suc i" unfolding v_def using div_mult_self1 [of 2 "i * Suc i" "Suc i"] by (simp add: algebra_simps)
  then have e: "r 6 + of_nat (Suc i) = of_nat v" "r 5 + 1 = of_nat (Suc i)" using Suc.prems by simp_all
  have m: "leads (isa_at a 2 r f) (isa_at a 5 ?r f)"
    by (rule leads_step [OF sum_steps(3) [OF assms(1)]], rule leads_step [OF sum_steps(4) [OF assms(1)]], rule leads_step [OF sum_steps(5) [OF assms(1)]])
      (rule leads_same, simp add: e Suc.prems(3) del: of_nat_Suc)
  show ?case
  proof (cases "j = 0")
    case True
    with Suc.prems have i: "i = 9" by simp
    have "leads (isa_at a 5 ?r f) (isa_at a 7 ?r f)"
      by (rule leads_step [OF sum_steps(6) [OF assms(1)]]) (simp add: i leads_refl)
    with m leads_trans have "leads (isa_at a 2 r f) (isa_at a 7 ?r f)" by blast
    moreover have "?r 6 = 55" "?r 0 = 0" by (simp_all add: v_def i)
    ultimately show ?thesis by blast
  next
    case False
    have "of_nat (Suc i) \<noteq> (10 :: u64)" using Suc.prems False of_nat_inverse [of "Suc i" "10 :: u64"] by auto
    then have "leads (isa_at a 5 ?r f) (isa_at a 2 ?r f)"
      by (intro leads_step [OF sum_steps(6) [OF assms(1)]]) (simp, rule leads_step [OF sum_steps(7) [OF assms(1)]], rule leads_same, simp)
    with m leads_trans have "leads (isa_at a 2 r f) (isa_at a 2 ?r f)" by blast
    moreover have "\<exists>r'. leads (isa_at a 2 ?r f) (isa_at a 7 r' f) \<and> r' 6 = 55 \<and> r' 0 = 0"
      by (rule Suc.IH [of "Suc i"]) (use Suc.prems False in \<open>auto simp: v_def\<close>)
    ultimately show ?thesis using leads_trans by blast
  qed
qed simp

lemma sum_run:
  assumes "code_at sum_program a f" "a + 36 \<noteq> 0" "r 0 = 0"
  shows "\<exists>n r'. spec_run isa_next n (isa_at a 0 r f) = Some (\<lparr>isa_pc = 0, isa_reg = r', isa_mem = f\<rparr>, False) \<and> r' A0 = 55"
proof -
  let ?r = "r(5 := 0, 6 := 0)"
  obtain r' where r': "leads (isa_at a 2 ?r f) (isa_at a 7 r' f)" "r' 6 = 55" "r' 0 = 0"
    using sum_loop [OF assms(1), of 0 10 ?r] assms(3) by auto
  have "leads (isa_at a 0 r f) (isa_at a 2 ?r f)"
    by (rule leads_step [OF sum_steps(1) [OF assms(1)]], rule leads_step [OF sum_steps(2) [OF assms(1)]]) (rule leads_same, use assms(3) in simp)
  moreover have "leads (isa_at a 7 r' f) (isa_at a 9 (r'(10 := 55, 1 := 0)) f)"
    by (rule leads_step [OF sum_steps(8) [OF assms(1)]], rule leads_step [OF sum_steps(9) [OF assms(1)]]) (rule leads_same, use r' in simp)
  ultimately have "leads (isa_at a 0 r f) (isa_at a 9 (r'(10 := 55, 1 := 0)) f)" using r'(1) leads_trans by blast
  from leads_end [OF this sum_steps(10) [OF assms(1) _ assms(2)]] show ?thesis by fastforce
qed


section \<open>From the loaded program to the end of the run\<close>

lemma quiet64_SetMemory: "quiet64 c \<Longrightarrow> mem_wf m \<Longrightarrow> quiet64 (SetMemory c m)"
  by (auto simp: quiet64_def quiet_def loop_inv_def hart_ok_def bare_def SetMemory_def)

lemma code_at_loaded:
  assumes "a AND 3 = 0" "\<not> touches_timer (ucast a) (4 * length ws)" "holds_program ws (ucast a) f"
  shows "code_at ws a (mem_view f)"
proof -
  have "read_bytes (mem_view f) (ucast a + of_nat (4 * k)) 4 = read_bytes f (ucast a + of_nat (4 * k)) 4" if "k < length ws" for k
    by (rule read_bytes_view [OF touches_timer_part [OF assms(2)]]) (use that in simp)
  with assms show ?thesis by (simp add: code_at_def holds_program_def)
qed

lemma run_at:
  assumes "quiet64 c" "spec_run isa_next n (isa_at a 0 (cpu_reg c) (mem_view (mem_abs (cpu_memory c)))) = Some (t, err)"
  shows "\<exists>c'. RunCpu h c a = Some (Inr (err, c')) \<and> cpu_reg c' = isa_reg t \<and> mem_view (mem_abs (cpu_memory c')) = isa_mem t"
proof -
  have "(hart_view c)\<lparr>isa_pc := a\<rparr> = isa_at a 0 (cpu_reg c) (mem_view (mem_abs (cpu_memory c)))" by (simp add: hart_view_def isa_at_def)
  with program_run [OF assms(1), of n a t err h] assms(2) obtain c' where "RunCpu h c a = Some (Inr (err, c'))" "hart_view c' = t" by auto
  then show ?thesis by (auto simp: hart_view_def)
qed


section \<open>Insertion sort: the array\<close>

text \<open>The array in which element \<open>i\<close> has been taken out, the elements from \<open>j\<close> on have moved up, and \<open>v\<close> is in place \<open>j\<close>.\<close>

definition hole :: "'a list \<Rightarrow> nat \<Rightarrow> nat \<Rightarrow> 'a \<Rightarrow> 'a list" where
  "hole zs i j v = take j zs @ v # drop j (take i zs) @ drop (Suc i) zs"

lemma hole_full: "i < length zs \<Longrightarrow> hole zs i i (zs ! i) = zs"
  by (simp add: hole_def Cons_nth_drop_Suc)

lemma length_hole [simp]: "j \<le> i \<Longrightarrow> i < length zs \<Longrightarrow> length (hole zs i j v) = length zs"
  by (simp add: hole_def)

lemma hole_update: "j \<le> i \<Longrightarrow> i < length zs \<Longrightarrow> (hole zs i j v)[j := x] = hole zs i j x"
  by (simp add: hole_def list_update_append)

lemma hole_nth: "k < j \<Longrightarrow> j \<le> i \<Longrightarrow> i < length zs \<Longrightarrow> hole zs i j v ! k = zs ! k"
  by (simp add: hole_def nth_append)

lemma hole_shift:
  assumes "Suc j \<le> i" "i < length zs"
  shows "(hole zs i (Suc j) v)[Suc j := zs ! j] = hole zs i j (zs ! j)"
proof -
  have "drop j (take i zs) = zs ! j # drop (Suc j) (take i zs)" using assms Cons_nth_drop_Suc [of j "take i zs"] by simp
  moreover have "take (Suc j) zs = take j zs @ [zs ! j]" using assms by (simp add: take_Suc_conv_app_nth)
  ultimately show ?thesis unfolding hole_update [OF assms] by (simp add: hole_def)
qed

lemma mset_hole: "j \<le> i \<Longrightarrow> i < length zs \<Longrightarrow> mset (hole zs i j (zs ! i)) = mset zs"
proof -
  assume ji: "j \<le> i" "i < length zs"
  have "mset zs = mset (take i zs @ zs ! i # drop (Suc i) zs)" using ji by (simp add: id_take_nth_drop [symmetric])
  moreover have "take i zs = take j zs @ drop j (take i zs)" using ji by (metis append_take_drop_id min.absorb1 take_take)
  ultimately show ?thesis by (metis hole_def mset_append mset.simps(2) union_mset_add_mset_left union_mset_add_mset_right union_assoc)
qed

lemma sorted_hole:
  assumes "sorted (map key (take i zs))" "j \<le> i" "i < length zs" "\<forall>y\<in>set (drop j (take i zs)). key x < key y" "j = 0 \<or> key (zs ! (j - 1)) \<le> key x"
  shows "sorted (map key (take (Suc i) (hole zs i j x)))"
proof -
  have t: "take i zs = take j zs @ drop j (take i zs)" using assms(2) by (metis append_take_drop_id min.absorb1 take_take)
  have s: "sorted (map key (take j zs))" "sorted (map key (drop j (take i zs)))"
    using assms(1) t by (metis map_append sorted_append)+
  have "key y \<le> key x" if "y \<in> set (take j zs)" for y
  proof -
    from that assms(2,3) obtain k where k: "k < j" "y = zs ! k" by (auto simp: in_set_conv_nth)
    with s(1) assms(2,3) have "key y \<le> key (zs ! (j - 1))" by (auto simp: sorted_iff_nth_mono)
    with assms(5) k(1) show ?thesis by auto
  qed
  moreover have "take (Suc i) (hole zs i j x) = take j zs @ x # drop j (take i zs)" using assms(2,3) by (simp add: hole_def Suc_diff_le)
  ultimately show ?thesis using s assms(4) by (fastforce simp: sorted_append)
qed


text \<open>The array in memory.\<close>

definition array_mem :: "bytes \<Rightarrow> u64 \<Rightarrow> u32 list \<Rightarrow> bytes" where
  "array_mem g p xs = write_bytes g (ucast p) (program_bytes xs)"

lemma array_read:
  "4 * length xs \<le> 2 ^ 32 \<Longrightarrow> k < length xs \<Longrightarrow> read_bytes (array_mem g p xs) (ucast (p + of_nat (4 * k))) 4 = le_bytes (ucast (xs ! k)) 4"
  unfolding array_mem_def ucast_add_of_nat by (rule read_program)

lemma le_bytes_low: "le_bytes v 4 = le_bytes (ucast (ucast v :: u32)) 4"
  by (rule nth_equalityI) (auto intro!: bit_word_eqI simp: bit_simps)

lemma program_bytes_update:
  "k < length xs \<Longrightarrow> j < 4 * length xs \<Longrightarrow> program_bytes (xs[k := v]) ! j = (if j div 4 = k then le_bytes (ucast v) 4 ! (j mod 4) else program_bytes xs ! j)"
  using nth_program_bytes [of "j div 4" "xs[k := v]" "j mod 4"] nth_program_bytes [of "j div 4" xs "j mod 4"]
  by (auto simp: mult.commute [of 4] div_less_iff_less_mult)

lemma array_write:
  assumes "4 * length xs \<le> 2 ^ 32" "k < length xs"
  shows "write_bytes (array_mem g p xs) (ucast (p + of_nat (4 * k))) (le_bytes v 4) = array_mem g p (xs[k := ucast v])"
proof
  fix x :: u32
  define d where "d = x - ucast p"
  have u: "unat (of_nat (4 * k) :: u32) = 4 * k" by (rule unat_of_nat_small) (use assms in simp)
  have e: "x - (ucast p + of_nat (4 * k)) = d - of_nat (4 * k)" by (simp add: d_def)
  have s: "unat (d - of_nat (4 * k)) = unat d - 4 * k" if "4 * k \<le> unat d"
    using that by (subst unat_sub) (simp_all add: word_le_nat_alt u del: of_nat_mult)
  have q: "unat (d - of_nat (4 * k)) < 4 \<longleftrightarrow> unat d div 4 = k"
  proof (cases "4 * k \<le> unat d")
    case True
    with s show ?thesis by auto
  next
    case False
    have "unat (d - of_nat (4 * k)) = unat d + 2 ^ 32 - 4 * k" using False u by (simp add: unat_sub_if' word_le_nat_alt del: of_nat_mult)
    with False assms show ?thesis by auto
  qed
  have j: "unat (d - of_nat (4 * k)) = unat d mod 4" if "unat d div 4 = k"
    using that s minus_mult_div_eq_mod [of "unat d" 4] by auto
  show "write_bytes (array_mem g p xs) (ucast (p + of_nat (4 * k))) (le_bytes v 4) x = array_mem g p (xs[k := ucast v]) x"
  proof (cases "unat d < 4 * length xs")
    case True
    then show ?thesis
      using program_bytes_update [OF assms(2) True, of "ucast v"] q j le_bytes_low [of v] unfolding ucast_add_of_nat array_mem_def write_bytes_def e
      by (auto simp: d_def [symmetric])
  next
    case False
    with assms(2) have "unat d div 4 \<noteq> k" by auto
    with False q show ?thesis unfolding ucast_add_of_nat array_mem_def write_bytes_def e by (auto simp: d_def [symmetric])
  qed
qed


text \<open>The program, and an array of \<open>n\<close> words apart from it and from the timer register.\<close>

definition apart :: "u32 \<Rightarrow> nat \<Rightarrow> u32 \<Rightarrow> nat \<Rightarrow> bool" where
  "apart p n a m \<longleftrightarrow> list_all (\<lambda>k. n \<le> unat (a + of_nat k - p)) [0..<m]"

definition sort_area :: "u64 \<Rightarrow> u64 \<Rightarrow> nat \<Rightarrow> bytes \<Rightarrow> bool" where
  "sort_area a p n g \<longleftrightarrow> code_at sort_program a g \<and> \<not> touches_timer (ucast p) (4 * n) \<and> 4 * n \<le> 2 ^ 32 \<and> apart (ucast p) (4 * n) (ucast a) 76"

lemma length_sort_program: "length sort_program = 19"
  by (simp add: sort_program_def)

lemma area_code:
  assumes "sort_area a p (length xs) g"
  shows "code_at sort_program a (array_mem g p xs)"
proof -
  have "read_bytes (array_mem g p xs) (ucast a + of_nat (4 * k)) 4 = read_bytes g (ucast a + of_nat (4 * k)) 4" if "k < 19" for k
  proof (rule nth_equalityI)
    fix j assume "j < length (read_bytes (array_mem g p xs) (ucast a + of_nat (4 * k)) 4)"
    then have j: "j < 4" by simp
    have "4 * length xs \<le> unat (ucast a + of_nat (4 * k + j) - ucast p :: u32)"
      using assms that j by (auto simp: sort_area_def apart_def list_all_iff simp del: of_nat_add of_nat_mult)
    then show "read_bytes (array_mem g p xs) (ucast a + of_nat (4 * k)) 4 ! j = read_bytes g (ucast a + of_nat (4 * k)) 4 ! j"
      unfolding nth_read_bytes [OF j] array_mem_def by (intro write_bytes_other) (simp add: add.assoc)
  qed simp
  with assms show ?thesis by (simp add: sort_area_def code_at_def holds_program_def length_sort_program)
qed

lemma area_timer: "sort_area a p n g \<Longrightarrow> k < n \<Longrightarrow> \<not> touches_timer (ucast (p + of_nat (4 * k))) 4"
  unfolding ucast_add_of_nat by (rule touches_timer_part [of _ "4 * n"]) (auto simp: sort_area_def)

section \<open>Insertion sort: the program\<close>

lemma sort_words:
  "sort_program = [0x00450693, 0x00100713, 0x00B76463, 0x00008067, 0x0006A803, 0x00068613, 0x00070793, 0xFFC62883, 0x01185A63, 0x01162023, 0xFFF78793, 0xFFC60613, 0xFE0796E3, 0x00279793, 0x00F507B3, 0x0107A023, 0x00170713, 0x00468693, 0xFC1FF06F]"
  by (simp add: sort_program_def asm_words bitcrop_signed_eq bitcrop_eq mask_numeral)

lemma sort_decode:
  "isa_decode 0x00450693 = Some INST_ADDI" "isa_decode 0x00100713 = Some INST_ADDI" "isa_decode 0x00B76463 = Some INST_BLTU"
  "isa_decode 0x0006A803 = Some INST_LW" "isa_decode 0x00068613 = Some INST_ADDI" "isa_decode 0x00070793 = Some INST_ADDI"
  "isa_decode 0xFFC62883 = Some INST_LW" "isa_decode 0x01185A63 = Some INST_BGE" "isa_decode 0x01162023 = Some INST_SW"
  "isa_decode 0xFFF78793 = Some INST_ADDI" "isa_decode 0xFFC60613 = Some INST_ADDI" "isa_decode 0xFE0796E3 = Some INST_BNE"
  "isa_decode 0x00279793 = Some INST_SLLI" "isa_decode 0x00F507B3 = Some INST_ADD" "isa_decode 0x0107A023 = Some INST_SW"
  "isa_decode 0x00170713 = Some INST_ADDI" "isa_decode 0x00468693 = Some INST_ADDI" "isa_decode 0xFC1FF06F = Some INST_JAL"
  by (simp_all add: isa_decode_def table_defs)

lemma sort_regs:
  "GetRd 0x00450693 = 13" "GetRs1 0x00450693 = 10" "GetRd 0x00100713 = 14" "GetRs1 0x00100713 = 0" "GetRs1 0x00B76463 = 14" "GetRs2 0x00B76463 = 11"
  "GetRd 0x0006A803 = 16" "GetRs1 0x0006A803 = 13" "GetRd 0x00068613 = 12" "GetRs1 0x00068613 = 13" "GetRd 0x00070793 = 15" "GetRs1 0x00070793 = 14"
  "GetRd 0xFFC62883 = 17" "GetRs1 0xFFC62883 = 12" "GetRs1 0x01185A63 = 16" "GetRs2 0x01185A63 = 17" "GetRs1 0x01162023 = 12" "GetRs2 0x01162023 = 17"
  "GetRd 0xFFF78793 = 15" "GetRs1 0xFFF78793 = 15" "GetRd 0xFFC60613 = 12" "GetRs1 0xFFC60613 = 12" "GetRs1 0xFE0796E3 = 15" "GetRs2 0xFE0796E3 = 0"
  "GetRd 0x00279793 = 15" "GetRs1 0x00279793 = 15" "GetRd 0x00F507B3 = 15" "GetRs1 0x00F507B3 = 10" "GetRs2 0x00F507B3 = 15" "GetRs1 0x0107A023 = 15"
  "GetRs2 0x0107A023 = 16" "GetRd 0x00170713 = 14" "GetRs1 0x00170713 = 14" "GetRd 0x00468693 = 13" "GetRs1 0x00468693 = 13" "GetRd 0xFC1FF06F = 0"
  by (simp_all add: field_defs)

lemma sort_imm:
  "GetImm 0x00450693 = 4" "GetImm 0x00100713 = 1" "GetImm 0x00B76463 = 8" "GetImm 0x0006A803 = 0" "GetImm 0x00068613 = 0" "GetImm 0x00070793 = 0"
  "GetImm 0xFFC62883 = 0xFFFFFFFC" "GetImm 0x01185A63 = 20" "GetImm 0x01162023 = 0" "GetImm 0xFFF78793 = 0xFFFFFFFF" "GetImm 0xFFC60613 = 0xFFFFFFFC"
  "GetImm 0xFE0796E3 = 0xFFFFFFEC" "GetImm 0x00279793 = 2" "GetImm 0x0107A023 = 0" "GetImm 0x00170713 = 1" "GetImm 0x00468693 = 4"
  "GetImm 0xFC1FF06F = 0xFFFFFFC0"
  by (simp_all add: field_defs)

lemma isa_exec_memory:
  assumes "\<not> touches_timer (ucast (r rs1 + scast imm)) 4"
  shows "read_bytes f (ucast (r rs1 + scast imm)) 4 = le_bytes (ucast w) 4 \<Longrightarrow>
      isa_exec INST_LW rd rs1 rs2 imm (isa_at a k r f) = Some (isa_at a (Suc k) (r(rd := scast (w :: u32), 0 := 0)) f)"
    "isa_exec INST_SW rd rs1 rs2 imm (isa_at a k r f) = Some (isa_at a (Suc k) r (write_bytes f (ucast (r rs1 + scast imm)) (le_bytes (r rs2) 4)))"
proof -
  have "signed_take_bit 31 (take_bit 32 (ucast w)) = (scast w :: u64)"
    by (rule bit_word_eqI) (auto simp: bit_signed_take_bit_iff bit_take_bit_iff bit_signed_iff bit_unsigned_iff min_def)
  then show "isa_exec INST_LW rd rs1 rs2 imm (isa_at a k r f) = Some (isa_at a (Suc k) (r(rd := scast (w :: u32), 0 := 0)) f)"
    if "read_bytes f (ucast (r rs1 + scast imm)) 4 = le_bytes (ucast w) 4"
    using assms that
    by (simp add: isa_exec_def isa_value_def base_ops_def mult_ops_def word_ops_def mult_word_ops_def imm_ops_def shift_imm_ops_def shift_imm_word_ops_def
      isa_taken_def isa_loads_def isa_load_def load_spec_def le_word_le_bytes isa_set_def isa_at_def Let_def)
  show "isa_exec INST_SW rd rs1 rs2 imm (isa_at a k r f) = Some (isa_at a (Suc k) r (write_bytes f (ucast (r rs1 + scast imm)) (le_bytes (r rs2) 4)))"
    using assms
    by (simp add: isa_exec_def isa_value_def base_ops_def mult_ops_def word_ops_def mult_word_ops_def imm_ops_def shift_imm_ops_def shift_imm_word_ops_def
      isa_taken_def isa_loads_def isa_stores_def isa_store_def isa_at_def Let_def)
qed


lemma sort_steps:
  assumes "code_at sort_program a f"
  shows "isa_next (isa_at a 0 r f) = Some (isa_at a 1 (r(13 := r 10 + 4, 0 := 0)) f, None)"
    "isa_next (isa_at a 1 r f) = Some (isa_at a 2 (r(14 := r 0 + 1, 0 := 0)) f, None)"
    "isa_next (isa_at a 2 r f) = Some (isa_at a (if r 14 < r 11 then 4 else 3) r f, None)"
    "r 1 = 0 \<Longrightarrow> a + 12 \<noteq> 0 \<Longrightarrow> isa_next (isa_at a 3 r f) = Some (\<lparr>isa_pc = 0, isa_reg = r(0 := 0), isa_mem = f\<rparr>, Some False)"
    "isa_next (isa_at a 5 r f) = Some (isa_at a 6 (r(12 := r 13, 0 := 0)) f, None)"
    "isa_next (isa_at a 6 r f) = Some (isa_at a 7 (r(15 := r 14, 0 := 0)) f, None)"
    "isa_next (isa_at a 8 r f) = Some (isa_at a (if sint (r 17) \<le> sint (r 16) then 13 else 9) r f, None)"
    "isa_next (isa_at a 10 r f) = Some (isa_at a 11 (r(15 := r 15 - 1, 0 := 0)) f, None)"
    "isa_next (isa_at a 11 r f) = Some (isa_at a 12 (r(12 := r 12 - 4, 0 := 0)) f, None)"
    "isa_next (isa_at a 12 r f) = Some (isa_at a (if r 15 \<noteq> r 0 then 7 else 13) r f, None)"
    "isa_next (isa_at a 13 r f) = Some (isa_at a 14 (r(15 := push_bit 2 (r 15), 0 := 0)) f, None)"
    "isa_next (isa_at a 14 r f) = Some (isa_at a 15 (r(15 := r 10 + r 15, 0 := 0)) f, None)"
    "isa_next (isa_at a 16 r f) = Some (isa_at a 17 (r(14 := r 14 + 1, 0 := 0)) f, None)"
    "isa_next (isa_at a 17 r f) = Some (isa_at a 18 (r(13 := r 13 + 4, 0 := 0)) f, None)"
    "isa_next (isa_at a 18 r f) = Some (isa_at a 2 (r(0 := 0)) f, None)"
  by (simp_all add: isa_next_at [OF assms _ refl] sort_words sort_decode sum_decode sort_regs sort_imm ret_fields isa_exec_at isa_exec_jumps
      jump_to [of 2 8 4] jump_to [of 8 20 13] jump_to [of 12 "0xFFFFFFEC" 7] jump_to [of 18 "0xFFFFFFC0" 2])

lemma sort_memory_steps:
  assumes "code_at sort_program a f"
  shows "\<not> touches_timer (ucast (r 13)) 4 \<Longrightarrow> read_bytes f (ucast (r 13)) 4 = le_bytes (ucast w) 4 \<Longrightarrow>
      isa_next (isa_at a 4 r f) = Some (isa_at a 5 (r(16 := scast (w :: u32), 0 := 0)) f, None)"
    "\<not> touches_timer (ucast (r 12 - 4)) 4 \<Longrightarrow> read_bytes f (ucast (r 12 - 4)) 4 = le_bytes (ucast w) 4 \<Longrightarrow>
      isa_next (isa_at a 7 r f) = Some (isa_at a 8 (r(17 := scast (w :: u32), 0 := 0)) f, None)"
    "\<not> touches_timer (ucast (r 12)) 4 \<Longrightarrow> isa_next (isa_at a 9 r f) = Some (isa_at a 10 r (write_bytes f (ucast (r 12)) (le_bytes (r 17) 4)), None)"
    "\<not> touches_timer (ucast (r 15)) 4 \<Longrightarrow> isa_next (isa_at a 15 r f) = Some (isa_at a 16 r (write_bytes f (ucast (r 15)) (le_bytes (r 16) 4)), None)"
  by (simp_all add: isa_next_at [OF assms _ refl] sort_words sort_decode sort_regs sort_imm isa_exec_memory)


text \<open>The registers at the head of the outer loop, with \<open>i\<close> elements sorted, and of the inner one, with the hole at \<open>j\<close>.\<close>

definition outer_regs :: "u64 \<Rightarrow> nat \<Rightarrow> nat \<Rightarrow> (u32 \<Rightarrow> u64) \<Rightarrow> bool" where
  "outer_regs p n i r \<longleftrightarrow> r 0 = 0 \<and> r 1 = 0 \<and> r 10 = p \<and> r 11 = of_nat n \<and> r 13 = p + of_nat (4 * i) \<and> r 14 = of_nat i"

definition inner_regs :: "u64 \<Rightarrow> nat \<Rightarrow> nat \<Rightarrow> nat \<Rightarrow> u32 \<Rightarrow> (u32 \<Rightarrow> u64) \<Rightarrow> bool" where
  "inner_regs p n i j x r \<longleftrightarrow> outer_regs p n i r \<and> r 12 = p + of_nat (4 * j) \<and> r 15 = of_nat j \<and> r 16 = scast x"

lemma sint_scast: "sint (scast (x :: u32) :: u64) = sint x"
  by (simp add: sint_up_scast is_up)

lemma ucast_scast: "ucast (scast (x :: u32) :: u64) = x"
  by (rule bit_word_eqI) (auto simp: bit_unsigned_iff bit_signed_iff min_def)

text \<open>One round of the inner loop: either the place is found, or the hole moves down.\<close>

lemma sort_inner_step:
  assumes area: "sort_area a p (length zs) g" and i: "i < length zs" "Suc j \<le> i" and r: "inner_regs p n i (Suc j) (zs ! i) r"
  shows "sint (zs ! j) \<le> sint (zs ! i) \<Longrightarrow>
      \<exists>r'. leads (isa_at a 7 r (array_mem g p (hole zs i (Suc j) v))) (isa_at a 13 r' (array_mem g p (hole zs i (Suc j) v))) \<and> inner_regs p n i (Suc j) (zs ! i) r'"
    "sint (zs ! i) < sint (zs ! j) \<Longrightarrow>
      \<exists>r'. leads (isa_at a 7 r (array_mem g p (hole zs i (Suc j) v))) (isa_at a (if j = 0 then 13 else 7) r' (array_mem g p (hole zs i j (zs ! j)))) \<and>
        inner_regs p n i j (zs ! i) r'"
proof -
  let ?f = "array_mem g p (hole zs i (Suc j) v)" and ?f' = "array_mem g p (hole zs i j (zs ! j))" and ?r = "r(17 := scast (zs ! j), 0 := 0)"
  let ?r' = "?r(15 := of_nat j, 12 := p + of_nat (4 * j))"
  have len: "4 * length zs \<le> 2 ^ 32" using area by (simp add: sort_area_def)
  have c: "code_at sort_program a (array_mem g p (hole zs i j' w))" if "j' \<le> i" for j' w
    using that i area by (intro area_code) simp
  have r12: "r 12 - 4 = p + of_nat (4 * j)" "r 12 = p + of_nat (4 * Suc j)" using r by (simp_all add: inner_regs_def)
  have "isa_next (isa_at a 7 r ?f) = Some (isa_at a 8 ?r ?f, None)"
    using area_timer [OF area, of j] array_read [of "hole zs i (Suc j) v" j g p] hole_nth [of j "Suc j" i zs v] len i
    unfolding r12(1) [symmetric] by (intro sort_memory_steps(2) [OF c]) simp_all
  then have 8: "leads (isa_at a 7 r ?f) s" if "leads (isa_at a (if sint (zs ! j) \<le> sint (zs ! i) then 13 else 9) ?r ?f) s" for s
    by (rule leads_step, intro leads_step [OF sort_steps(7) [OF c [OF i(2)]]]) (use that r in \<open>simp add: sint_scast inner_regs_def\<close>)
  show "\<exists>r'. leads (isa_at a 7 r ?f) (isa_at a 13 r' ?f) \<and> inner_regs p n i (Suc j) (zs ! i) r'" if "sint (zs ! j) \<le> sint (zs ! i)"
    using 8 [of "isa_at a 13 ?r ?f"] that r by (intro exI [of _ ?r]) (auto simp: inner_regs_def outer_regs_def)
  assume lt: "sint (zs ! i) < sint (zs ! j)"
  have "write_bytes ?f (ucast (r 12)) (le_bytes (scast (zs ! j)) 4) = ?f'"
    using array_write [of "hole zs i (Suc j) v" "Suc j" g p "scast (zs ! j)"] len i hole_shift [OF i(2,1), of v] by (simp add: r12(2) ucast_scast)
  then have 9: "isa_next (isa_at a 9 ?r ?f) = Some (isa_at a 10 ?r ?f', None)"
    using sort_memory_steps(3) [OF c [OF i(2)], of ?r] area_timer [OF area, of "Suc j"] i unfolding r12(2) [symmetric] by simp
  have j0: "of_nat j = (0 :: u64) \<longleftrightarrow> j = 0" using len i of_nat_inverse [of j "0 :: u64"] by auto
  have cj: "code_at sort_program a ?f'" using c i by simp
  have d: "r 15 - 1 = of_nat j" "r 0 = 0" using r by (simp_all add: inner_regs_def outer_regs_def)
  have "leads (isa_at a 10 ?r ?f') (isa_at a (if j = 0 then 13 else 7) ?r' ?f')"
    by (rule leads_step [OF sort_steps(8) [OF cj]], rule leads_step [OF sort_steps(9) [OF cj]], rule leads_step [OF sort_steps(10) [OF cj]])
      (rule leads_at, simp_all add: j0 d r12(1) del: of_nat_mult)
  from leads_step [OF 9 this] lt have "leads (isa_at a 7 r ?f) (isa_at a (if j = 0 then 13 else 7) ?r' ?f')" by (intro 8) simp
  moreover have "inner_regs p n i j (zs ! i) ?r'" using r by (simp add: inner_regs_def outer_regs_def)
  ultimately show "\<exists>r'. leads (isa_at a 7 r ?f) (isa_at a (if j = 0 then 13 else 7) r' ?f') \<and> inner_regs p n i j (zs ! i) r'" by blast
qed


text \<open>The inner loop ends with the hole where the element belongs.\<close>

definition place :: "u32 list \<Rightarrow> nat \<Rightarrow> nat \<Rightarrow> bool" where
  "place zs i k \<longleftrightarrow> k \<le> i \<and> (\<forall>y\<in>set (drop k (take i zs)). sint (zs ! i) < sint y)"

lemma place_down:
  assumes "place zs i (Suc j)" "i < length zs" "sint (zs ! i) < sint (zs ! j)"
  shows "place zs i j"
proof -
  have "drop j (take i zs) = zs ! j # drop (Suc j) (take i zs)" using assms Cons_nth_drop_Suc [of j "take i zs"] by (simp add: place_def)
  with assms show ?thesis by (simp add: place_def)
qed

lemma sort_inner:
  assumes "sort_area a p (length zs) g" "i < length zs" "0 < j" "place zs i j" "inner_regs p n i j (zs ! i) r"
  shows "\<exists>r' k v'. leads (isa_at a 7 r (array_mem g p (hole zs i j v))) (isa_at a 13 r' (array_mem g p (hole zs i k v'))) \<and>
    inner_regs p n i k (zs ! i) r' \<and> place zs i k \<and> (k = 0 \<or> sint (zs ! (k - 1)) \<le> sint (zs ! i))"
  using assms(3-)
proof (induction j arbitrary: r v)
  case (Suc j)
  have ji: "Suc j \<le> i" using Suc.prems(2) by (simp add: place_def)
  note s = sort_inner_step [OF assms(1,2) ji Suc.prems(3), of v]
  show ?case
  proof (cases "sint (zs ! j) \<le> sint (zs ! i)")
    case True
    with s(1) Suc.prems(2) show ?thesis by (metis diff_Suc_1)
  next
    case False
    then have lt: "sint (zs ! i) < sint (zs ! j)" by simp
    from s(2) [OF lt] obtain r' where
      r': "leads (isa_at a 7 r (array_mem g p (hole zs i (Suc j) v))) (isa_at a (if j = 0 then 13 else 7) r' (array_mem g p (hole zs i j (zs ! j))))"
        "inner_regs p n i j (zs ! i) r'" by blast
    note pl = place_down [OF Suc.prems(2) assms(2) lt]
    show ?thesis
    proof (cases "j = 0")
      case True
      with r' pl show ?thesis by auto
    next
      case False
      then obtain r2 k v2 where r2: "leads (isa_at a 7 r' (array_mem g p (hole zs i j (zs ! j)))) (isa_at a 13 r2 (array_mem g p (hole zs i k v2)))"
          "inner_regs p n i k (zs ! i) r2 \<and> place zs i k \<and> (k = 0 \<or> sint (zs ! (k - 1)) \<le> sint (zs ! i))"
        using Suc.IH [OF _ pl r'(2), of "zs ! j"] by blast
      from leads_trans [OF r'(1), unfolded if_not_P [OF False], OF r2(1)] r2(2) show ?thesis by blast
    qed
  qed
qed simp

text \<open>One round of the outer loop.\<close>

lemma sort_outer_step:
  assumes area: "sort_area a p (length zs) g" and i: "i < length zs" "0 < i" and r: "outer_regs p (length zs) i r"
  shows "\<exists>r' k. leads (isa_at a 4 r (array_mem g p zs)) (isa_at a 2 r' (array_mem g p (hole zs i k (zs ! i)))) \<and> outer_regs p (length zs) (Suc i) r' \<and>
    place zs i k \<and> (k = 0 \<or> sint (zs ! (k - 1)) \<le> sint (zs ! i))"
proof -
  let ?f = "array_mem g p zs" and ?r = "r(16 := scast (zs ! i), 12 := p + of_nat (4 * i), 15 := of_nat i)"
  have len: "4 * length zs \<le> 2 ^ 32" using area by (simp add: sort_area_def)
  note c = area_code [OF area]
  have r0: "r 0 = 0" "r 13 = p + of_nat (4 * i)" "r 14 = of_nat i" using r by (simp_all add: outer_regs_def)
  have "isa_next (isa_at a 4 r ?f) = Some (isa_at a 5 (r(16 := scast (zs ! i), 0 := 0)) ?f, None)"
    by (rule sort_memory_steps(1) [OF c]) (use area_timer [OF area i(1)] array_read [OF len i(1)] in \<open>simp_all add: r0(2)\<close>)
  then have "leads (isa_at a 4 r ?f) (isa_at a 7 ?r ?f)"
    by (rule leads_step, intro leads_step [OF sort_steps(5) [OF c]] leads_step [OF sort_steps(6) [OF c]]) (rule leads_at, simp_all add: r0 del: of_nat_mult)
  moreover have "inner_regs p (length zs) i i (zs ! i) ?r" "place zs i i" using r by (simp_all add: inner_regs_def outer_regs_def place_def)
  with sort_inner [OF area i, of "length zs" ?r "zs ! i"] obtain q k v where
    q: "leads (isa_at a 7 ?r ?f) (isa_at a 13 q (array_mem g p (hole zs i k v)))" "inner_regs p (length zs) i k (zs ! i) q" "place zs i k"
      "k = 0 \<or> sint (zs ! (k - 1)) \<le> sint (zs ! i)" unfolding hole_full [OF i(1)] by blast
  ultimately have m: "leads (isa_at a 4 r ?f) (isa_at a 13 q (array_mem g p (hole zs i k v)))" using leads_trans by blast
  let ?h = "array_mem g p (hole zs i k v)" and ?h' = "array_mem g p (hole zs i k (zs ! i))"
  have k: "k \<le> i" using q(3) by (simp add: place_def)
  have ch: "code_at sort_program a (array_mem g p (hole zs i k w))" for w using k i area by (intro area_code) simp
  let ?q = "q(15 := p + of_nat (4 * k), 0 := 0)" and ?q' = "q(15 := p + of_nat (4 * k), 14 := of_nat (Suc i), 13 := p + of_nat (4 * Suc i), 0 := 0)"
  have e: "q 0 = 0" "q 10 = p" "push_bit 2 (q 15) = of_nat (4 * k)" "q 16 = scast (zs ! i)" "q 14 + 1 = of_nat (Suc i)" "q 13 + 4 = p + of_nat (4 * Suc i)"
    using q(2) by (simp_all add: inner_regs_def outer_regs_def push_bit_eq_mult)
  have "leads (isa_at a 13 q ?h) (isa_at a 15 ?q ?h)"
    by (rule leads_step [OF sort_steps(11) [OF ch]], rule leads_step [OF sort_steps(12) [OF ch]]) (rule leads_at, simp_all add: e del: of_nat_mult)
  moreover have "write_bytes ?h (ucast (p + of_nat (4 * k))) (le_bytes (scast (zs ! i)) 4) = ?h'"
    using array_write [of "hole zs i k v" k g p "scast (zs ! i)"] len i k hole_update [OF k i(1), of v] by (simp add: ucast_scast del: of_nat_mult)
  then have "isa_next (isa_at a 15 ?q ?h) = Some (isa_at a 16 ?q ?h', None)"
    using sort_memory_steps(4) [OF ch, of ?q] area_timer [OF area, of k] i k by (simp add: e del: of_nat_mult)
  moreover have "leads (isa_at a 16 ?q ?h') (isa_at a 2 ?q' ?h')"
    by (rule leads_step [OF sort_steps(13) [OF ch]], rule leads_step [OF sort_steps(14) [OF ch]], rule leads_step [OF sort_steps(15) [OF ch]])
      (rule leads_at, simp_all add: e del: of_nat_mult of_nat_Suc)
  ultimately have "leads (isa_at a 4 r ?f) (isa_at a 2 ?q' ?h')" using m leads_trans leads_step by blast
  moreover have "outer_regs p (length zs) (Suc i) ?q'" using q(2) by (simp add: inner_regs_def outer_regs_def)
  ultimately show ?thesis using q(3,4) by blast
qed


lemma sort_outer:
  assumes "sort_area a p (length zs) g" "0 < i" "i \<le> max 1 (length zs)" "outer_regs p (length zs) i r" "sorted (map sint (take i zs))"
  shows "\<exists>r' zs'. leads (isa_at a 2 r (array_mem g p zs)) (isa_at a 3 r' (array_mem g p zs')) \<and> r' 1 = 0 \<and> mset zs' = mset zs \<and> sorted (map sint zs')"
  using assms
proof (induction "length zs - i" arbitrary: i r zs)
  case 0
  have "length zs < 2 ^ 64" "i < 2 ^ 64" using 0 by (auto simp: sort_area_def max_def split: if_splits)
  with 0 have "\<not> r 14 < r 11" by (simp add: outer_regs_def word_less_nat_alt unat_of_nat_small)
  then have "leads (isa_at a 2 r (array_mem g p zs)) (isa_at a 3 r (array_mem g p zs))"
    by (intro leads_step [OF sort_steps(3) [OF area_code [OF 0(2)]]]) (auto intro: leads_at)
  moreover have "r 1 = 0" "sorted (map sint zs)" using 0 by (simp_all add: outer_regs_def)
  ultimately show ?case by blast
next
  case (Suc d)
  then have i: "i < length zs" by simp
  have "length zs < 2 ^ 64" using Suc.prems by (simp add: sort_area_def)
  with i Suc.prems have "r 14 < r 11" by (simp add: outer_regs_def word_less_nat_alt unat_of_nat_small)
  then have l: "leads (isa_at a 2 r (array_mem g p zs)) (isa_at a 4 r (array_mem g p zs))"
    by (intro leads_step [OF sort_steps(3) [OF area_code [OF Suc.prems(1)]]]) (auto intro: leads_at)
  from sort_outer_step [OF Suc.prems(1) i Suc.prems(2,4)] obtain r' k where
    r': "leads (isa_at a 4 r (array_mem g p zs)) (isa_at a 2 r' (array_mem g p (hole zs i k (zs ! i))))" "outer_regs p (length zs) (Suc i) r'"
      "place zs i k" "k = 0 \<or> sint (zs ! (k - 1)) \<le> sint (zs ! i)" by blast
  let ?h = "hole zs i k (zs ! i)"
  have k: "k \<le> i" "\<forall>y\<in>set (drop k (take i zs)). sint (zs ! i) < sint y" using r'(3) by (simp_all add: place_def)
  have "length ?h = length zs" using k i by simp
  moreover have "sorted (map sint (take (Suc i) ?h))" by (rule sorted_hole [OF Suc.prems(5) k(1) i k(2) r'(4)])
  moreover have "d = length zs - Suc i" using Suc.hyps(2) i by linarith
  ultimately obtain r2 zs' where r2: "leads (isa_at a 2 r' (array_mem g p ?h)) (isa_at a 3 r2 (array_mem g p zs'))" "r2 1 = 0" "mset zs' = mset ?h"
      "sorted (map sint zs')"
    using Suc.hyps(1) [of ?h "Suc i" r'] Suc.prems(1) r'(2) i by auto
  from leads_trans [OF leads_trans [OF l r'(1)] r2(1)] r2(2-4) mset_hole [OF k(1) i] show ?case by auto
qed

lemma sort_run:
  assumes "sort_area a p (length xs) g" "a + 12 \<noteq> 0" "r 0 = 0" "r 1 = 0" "r 10 = p" "r 11 = of_nat (length xs)"
  shows "\<exists>n r'. spec_run isa_next n (isa_at a 0 r (array_mem g p xs)) = Some (\<lparr>isa_pc = 0, isa_reg = r', isa_mem = array_mem g p (sort_key sint xs)\<rparr>, False)"
proof -
  let ?r = "r(13 := p + 4, 14 := 1)"
  note c = area_code [OF assms(1)]
  have l: "leads (isa_at a 0 r (array_mem g p xs)) (isa_at a 2 ?r (array_mem g p xs))"
    by (rule leads_step [OF sort_steps(1) [OF c]], rule leads_step [OF sort_steps(2) [OF c]]) (rule leads_at, simp_all add: assms)
  have "outer_regs p (length xs) 1 ?r" "sorted (map sint (take 1 xs))" using assms by (simp_all add: outer_regs_def) (cases xs; simp)
  with sort_outer [OF assms(1), of 1 ?r] obtain r' zs where
    z: "leads (isa_at a 2 ?r (array_mem g p xs)) (isa_at a 3 r' (array_mem g p zs))" "r' 1 = 0" "mset zs = mset xs" "sorted (map sint zs)" by auto
  have e: "sort_key sint xs = zs" by (rule sort_key_inj_key_eq [OF z(3) [symmetric] _ z(4)]) (auto intro!: inj_onI intro: signed_word_eqI)
  have "code_at sort_program a (array_mem g p zs)" using assms(1) z(3) by (intro area_code) (metis size_mset)
  from leads_end [OF leads_trans [OF l z(1)] sort_steps(4) [OF this, of r', OF z(2) assms(2)]] show ?thesis unfolding e by blast
qed

lemma array_mem_same:
  assumes "read_bytes g (ucast p) (4 * length xs) = program_bytes xs"
  shows "array_mem g p xs = g"
proof
  fix x :: u32
  show "array_mem g p xs x = g x"
  proof (cases "unat (x - ucast p) < 4 * length xs")
    case True
    with nth_read_bytes [OF True, of g "ucast p"] assms show ?thesis by (simp add: array_mem_def write_bytes_def)
  qed (simp add: array_mem_def write_bytes_def)
qed

lemma read_outside_program:
  assumes "apart p n a (length bs)"
  shows "read_bytes (write_bytes f a bs) p n = read_bytes f p n"
proof (rule nth_equalityI)
  fix j assume "j < length (read_bytes (write_bytes f a bs) p n)"
  then have j: "j < n" by simp
  have "length bs \<le> unat (p + of_nat j - a)"
  proof (rule ccontr)
    assume "\<not> length bs \<le> unat (p + of_nat j - a)"
    moreover define k where "k = unat (p + of_nat j - a)"
    ultimately have "k < length bs" by simp
    with assms have "n \<le> unat (a + of_nat k - p)" by (simp add: apart_def list_all_iff)
    then have "n \<le> unat (of_nat j :: u32)" by (simp add: k_def)
    moreover have "take_bit 32 j < n" using take_bit_nat_less_eq_self j by (rule le_less_trans)
    ultimately show False by (simp add: unsigned_of_nat)
  qed
  then show "read_bytes (write_bytes f a bs) p n ! j = read_bytes f p n ! j" using j by (simp add: write_bytes_other)
qed simp

section \<open>Properties\<close>

text \<open>The first test program computes its sum: assembled and placed at an aligned address (not over the timer register, its return not at address 0), it is run by
  \<open>RunCpu\<close> on a quiet 64-bit hart to its end without error, returns 55 in \<open>a0\<close>, and leaves memory as it was, the timer register excepted.\<close>

theorem sum_program_returns:
  assumes "quiet64 c" "a AND 3 = 0" "\<not> touches_timer (ucast a) 40" "a + 36 \<noteq> 0"
  shows "\<exists>m c'. LoadAssemblerSum (cpu_memory c) a = Inr (a + 40, m) \<and> RunCpu h (SetMemory c m) a = Some (Inr (False, c')) \<and>
    cpu_reg c' A0 = 55 \<and> mem_view (mem_abs (cpu_memory c')) = mem_view (mem_abs m)"
proof -
  have l: "length sum_program = 10" by (simp add: sum_program_def)
  have "mem_wf (cpu_memory c)" "cpu_reg c 0 = 0" using assms(1) by (simp_all add: quiet64_def quiet_def loop_inv_def hart_ok_def)
  with add_cmds_abs [of "cpu_memory c" sum_program a] obtain m where m: "LoadAssemblerSum (cpu_memory c) a = Inr (a + 40, m)" "mem_wf m"
      "mem_abs m = write_bytes (mem_abs (cpu_memory c)) (ucast a) (program_bytes sum_program)" by (auto simp: l LoadAssemblerSum_cmds)
  have "code_at sum_program a (mem_view (mem_abs m))"
    unfolding m(3) by (rule code_at_loaded [OF assms(2) _ holds_written]) (simp_all add: l assms(3))
  from sum_run [OF this assms(4), of "cpu_reg c"] \<open>cpu_reg c 0 = 0\<close> obtain n r' where
    "spec_run isa_next n (isa_at a 0 (cpu_reg c) (mem_view (mem_abs m))) = Some (\<lparr>isa_pc = 0, isa_reg = r', isa_mem = mem_view (mem_abs m)\<rparr>, False)"
    "r' A0 = 55" by blast
  with run_at [OF quiet64_SetMemory [OF assms(1) m(2)], of n a _ False h] m(1) show ?thesis by (fastforce simp: SetMemory_def)
qed


definition demo_sort_hart :: "memory \<Rightarrow> unit cpu" where
  "demo_sort_hart m = (SetMemory (blank_hart True) m)\<lparr>cpu_reg := (\<lambda>_. 0)(10 := 0x80001000, 11 := 2)\<rparr>"

lemma demo_sort_quiet:
  assumes "mem_wf m"
  shows "quiet64 (demo_sort_hart m)"
  using quiet64_SetMemory [OF demo_program_hart_quiet assms]
  by (simp add: demo_sort_hart_def demo_program_hart_def quiet64_def quiet_def loop_inv_def hart_ok_def bare_def SetMemory_def)

theorem sum_program_returns_witness:
  "\<forall>h. \<exists>m c'. LoadAssemblerSum MemoryWrapper 0x80000000 = Inr (0x80000028, m) \<and>
     RunCpu h (SetMemory (demo_sort_hart MemoryWrapper) m) 0x80000000 = Some (Inr (False, c')) \<and> cpu_reg c' A0 = 55"
proof
  fix h :: "unit host"
  have "\<not> touches_timer (ucast (0x80000000 :: u64)) 40" by (simp add: touches_timer_def in_timer_def upt_rec)
  from sum_program_returns [OF demo_sort_quiet [OF mem_wf_MemoryWrapper], of "0x80000000", OF _ this, of h]
  show "\<exists>m c'. LoadAssemblerSum MemoryWrapper 0x80000000 = Inr (0x80000028, m) \<and>
      RunCpu h (SetMemory (demo_sort_hart MemoryWrapper) m) 0x80000000 = Some (Inr (False, c')) \<and> cpu_reg c' A0 = 55"
    by (auto simp: demo_sort_hart_def SetMemory_def)
qed

text \<open>C13: The second test program sorts: on a quiet 64-bit hart with \<open>ra\<close> zero, assembled and placed beside an array of words that \<open>a0\<close> points to and \<open>a1\<close> counts, it is run by \<open>RunCpu\<close> to its
  end without error, and memory then holds the array in ascending order of the signed values and is otherwise as it was, the timer register excepted.\<close>

theorem sort_program_sorts:
  assumes "quiet64 c" "a AND 3 = 0" "\<not> touches_timer (ucast a) 76" "a + 12 \<noteq> 0"
    "cpu_reg c RA = 0" "cpu_reg c A0 = p" "cpu_reg c A1 = of_nat (length xs)"
    "read_bytes (mem_abs (cpu_memory c)) (ucast p) (4 * length xs) = program_bytes xs" "4 * length xs \<le> 2 ^ 32"
    "\<not> touches_timer (ucast p) (4 * length xs)" "apart (ucast p) (4 * length xs) (ucast a) 76"
  shows "\<exists>m c'. LoadAssemblerSort (cpu_memory c) a = Inr (a + 76, m) \<and> RunCpu h (SetMemory c m) a = Some (Inr (False, c')) \<and>
    mem_view (mem_abs (cpu_memory c')) = mem_view (write_bytes (mem_abs m) (ucast p) (program_bytes (sort_key sint xs)))"
proof -
  have "mem_wf (cpu_memory c)" "cpu_reg c 0 = 0" using assms(1) by (simp_all add: quiet64_def quiet_def loop_inv_def hart_ok_def)
  with add_cmds_abs [of "cpu_memory c" sort_program a] obtain m where m: "LoadAssemblerSort (cpu_memory c) a = Inr (a + 76, m)" "mem_wf m"
      "mem_abs m = write_bytes (mem_abs (cpu_memory c)) (ucast a) (program_bytes sort_program)" by (auto simp: length_sort_program LoadAssemblerSort_cmds)
  let ?g = "mem_view (mem_abs m)"
  have "code_at sort_program a ?g"
    unfolding m(3) by (rule code_at_loaded [OF assms(2) _ holds_written]) (simp_all add: length_sort_program assms(3))
  with assms have area: "sort_area a p (length xs) ?g" by (simp add: sort_area_def)
  have "read_bytes ?g (ucast p) (4 * length xs) = program_bytes xs"
    using read_outside_program [of "ucast p" "4 * length xs" "ucast a" "program_bytes sort_program"] assms(8,10,11)
    by (simp add: read_bytes_view m(3) length_sort_program)
  note g = array_mem_same [OF this]
  obtain n r' where "spec_run isa_next n (isa_at a 0 (cpu_reg c) ?g) =
      Some (\<lparr>isa_pc = 0, isa_reg = r', isa_mem = array_mem ?g p (sort_key sint xs)\<rparr>, False)"
    using sort_run [OF area assms(4), of "cpu_reg c"] assms(5-7) \<open>cpu_reg c 0 = 0\<close> unfolding g by blast
  with run_at [OF quiet64_SetMemory [OF assms(1) m(2)], of n a _ False h] obtain c' where
    "RunCpu h (SetMemory c m) a = Some (Inr (False, c'))" "mem_view (mem_abs (cpu_memory c')) = array_mem ?g p (sort_key sint xs)"
    by (fastforce simp: SetMemory_def)
  moreover have "mem_view (write_bytes (mem_abs m) (ucast p) (program_bytes (sort_key sint xs))) = array_mem ?g p (sort_key sint xs)"
    unfolding array_mem_def by (rule mem_view_write) (simp add: assms(10))
  ultimately show ?thesis using m(1) by auto
qed

theorem sort_program_sorts_witness:
  "\<forall>h. \<exists>m0 m c'. load_program 0x80001000 [3, 0xFFFFFFFF] MemoryWrapper = Inr m0 \<and> LoadAssemblerSort m0 0x80000000 = Inr (0x8000004C, m) \<and>
     RunCpu h (SetMemory (demo_sort_hart m0) m) 0x80000000 = Some (Inr (False, c')) \<and>
     mem_view (mem_abs (cpu_memory c')) = mem_view (write_bytes (mem_abs m) 0x80001000 (program_bytes [0xFFFFFFFF, 3]))"
proof
  fix h :: "unit host"
  obtain m0 where m0: "load_program 0x80001000 [3, 0xFFFFFFFF] MemoryWrapper = Inr m0" "mem_wf m0"
      "mem_abs m0 = write_bytes (mem_abs MemoryWrapper) 0x80001000 (program_bytes [3, 0xFFFFFFFF])"
    using load_program_abs [OF mem_wf_MemoryWrapper, of "0x80001000" "[3, 0xFFFFFFFF]"] by auto
  let ?c = "demo_sort_hart m0"
  have t: "\<not> touches_timer (ucast (0x80000000 :: u64)) 76" "\<not> touches_timer (ucast (0x80001000 :: u64)) 8"
    by (simp_all add: touches_timer_def in_timer_def upt_rec)
  have d: "apart (ucast (0x80001000 :: u64)) 8 (ucast (0x80000000 :: u64)) 76" by (simp add: apart_def upt_rec)
  have "read_bytes (mem_abs (cpu_memory ?c)) (ucast (0x80001000 :: u64)) (4 * length [3, 0xFFFFFFFF :: u32]) = program_bytes [3, 0xFFFFFFFF]"
    using read_write_bytes [of "program_bytes [3, 0xFFFFFFFF]" "mem_abs MemoryWrapper" "0x80001000"] m0(3) by (simp add: demo_sort_hart_def SetMemory_def)
  from sort_program_sorts [OF demo_sort_quiet [OF m0(2)], of "0x80000000" "0x80001000" "[3, 0xFFFFFFFF]", OF _ t(1) _ _ _ _ this, of h] t(2) d m0(1)
  show "\<exists>m0 m c'. load_program 0x80001000 [3, 0xFFFFFFFF] MemoryWrapper = Inr m0 \<and> LoadAssemblerSort m0 0x80000000 = Inr (0x8000004C, m) \<and>
     RunCpu h (SetMemory (demo_sort_hart m0) m) 0x80000000 = Some (Inr (False, c')) \<and>
     mem_view (mem_abs (cpu_memory c')) = mem_view (write_bytes (mem_abs m) 0x80001000 (program_bytes [0xFFFFFFFF, 3]))"
    by (auto simp: demo_sort_hart_def SetMemory_def)
qed

end
