(* ===== verification/Spec2Isabelle.thy ===== *)
theory Spec2Isabelle
  imports Front_Spec Paging_Spec Virtio_Spec Disassembler Assembler_Spec Test_Programs
begin

text \<open>
  Verification of the m99 RISC-V emulator.

  \<^bold>\<open>The program.\<close>  An interpreter for RV32IMAC and RV64IMAC with machine, supervisor and user mode.  \<open>RiscvCpu\<close>
  (\<open>RISCV_cpu.cc\<close>) owns the registers and runs the loop \<open>RunCpu\<close>: tick the timer, take a pending interrupt, fetch through the \<open>Mmu\<close>
  (\<open>Mmu.cpp\<close>, on the entries of \<open>pte.cpp\<close>), decode (\<open>instruction_encdec.cc\<close> and \<open>GetCode32\<close>/\<open>GetCode16\<close>), execute, let the devices of
  \<open>PeripheralEmulator.cpp\<close> run.  CPU, MMU and devices share one \<open>MemoryWrapper\<close>.  With system call emulation on, \<open>ECALL\<close> calls
  \<open>system_call_emulator.cpp\<close>, which forwards to the host.  \<open>run\<close> (\<open>RISCV_Emulator.cc\<close>) reads the command line, loads the ELF file, writes
  default page tables, sets the CPU up, calls \<open>RunCpu\<close> and returns \<open>a0\<close>.  \<open>Disassembler.cpp\<close> prints an instruction for the verbose mode.

  \<^bold>\<open>The model.\<close>  C++ integers are words of the same width; \<open>uint64_t\<close> arithmetic wraps.  Every call that can fail returns
  \<open>error + 'a\<close>: a failed \<open>assert\<close>, an uncaught exception, an access outside a vector, a division by zero and undefined behaviour are the
  constructors of \<open>error\<close> in \<open>Prelude\<close>.  One undefined operation that a guest can reach has a value instead of an error: the signed product
  of \<open>MULH\<close> on a 32-bit hart wraps when the registers are not sign-extended 32-bit values.  Objects are records and methods functions on them; the shared memory is one field of the CPU record
  that is passed to the MMU and the devices.  The code outside the repository (POSIX files and ncurses) is the record \<open>host\<close> of functions
  on an arbitrary state \<open>'w\<close> of the outside world, with no assumption on it; the files that \<open>run\<close> opens are a function from names to bytes.  Members without an initialiser keep the value of an
  argument \<open>raw\<close>.  Output on \<open>cout\<close> and \<open>cerr\<close> is left out.

  \<^bold>\<open>Theories of the model\<close> (source files under \<open>src/\<close>):
  \<^item> \<open>Prelude\<close>: results, \<open>rbind\<close>, fallible folds and word lemmas; \<open>Bit_Tools\<close>: \<open>bit_tools.h\<close>;
  \<^item> \<open>Byte_Store\<close>: bytes, little-endian values and the locale of a byte-addressed store; \<open>Memory_Wrapper\<close>: \<open>memory_wrapper.cpp\<close>;
  \<^item> \<open>Pte\<close>: \<open>pte.cpp\<close>; \<open>Mmu\<close>: \<open>Mmu.cpp\<close>;
  \<^item> \<open>Cpu_Types\<close>: the enumerations of \<open>RISCV_cpu.h\<close>; \<open>Instruction_Encdec\<close>: \<open>instruction_encdec.cc\<close>; \<open>Decode\<close>: the decoders;
  \<^item> \<open>Host\<close>, \<open>Peripheral\<close>, \<open>System_Call\<close>: the outside world, \<open>PeripheralEmulator.cpp\<close> with \<open>ScreenEmulation.cpp\<close>, \<open>system_call_emulator.cpp\<close>;
  \<^item> \<open>Cpu_State\<close>: CSRs, traps, interrupts; \<open>Cpu_Alu\<close>: arithmetic; \<open>Cpu_Mem\<close>: memory instructions; \<open>Cpu_Run\<close>: dispatch and loop, all of
    \<open>RISCV_cpu.cc\<close>; \<open>Disassembler\<close>: \<open>Disassembler.cpp\<close>;
  \<^item> \<open>Elf\<close>: the file loader of \<open>RISCV_Emulator.cc\<close>, on the layouts of the ELF structures as tables of fields, with the file class as an argument
    where the code has a 32-bit and a 64-bit copy; \<open>Front_End\<close>: command line, default page tables, set-up and \<open>run\<close>;
  \<^item> \<open>Assembler\<close>: the assembler of the tests (\<open>tests/assembler.cc\<close>) and the two programs that \<open>tests/load_assembler.cc\<close> places in memory.

  \<^bold>\<open>Theories of the proofs.\<close>
  \<^item> \<open>Memory_Wrapper\<close> shows that the block-mapped memory is a byte store (interpretation of the locale of \<open>Byte_Store\<close>); \<open>Mmu\<close> that the walks are the
    Sv32 and Sv39 algorithms but for the permission checks, written once with the levels and field widths as parameters; \<open>Instruction_Encdec\<close> that formats round-trip
    (a locale interpreted for the six formats); \<open>Decode\<close> and \<open>Compressed_Layout\<close> that decoding follows the encoding tables of the ISA;
  \<^item> \<open>Cpu_Alu_Spec\<close> and \<open>Cpu_Mult_Spec\<close>: arithmetic against reference operations on words and integers, for both register widths;
    \<open>Cpu_Mem_Spec\<close>: loads, stores and AMOs of any alignment against the byte store;
  \<^item> \<open>Result_Logic\<close>: a calculus of pre- and postconditions for fallible calls; \<open>Cpu_Inv\<close>, \<open>Device_Inv\<close>, \<open>Run_Inv\<close>: with it, every operation keeps
    the consistency of the CSR mirrors and of memory, and fails only in listed ways, each with its cause in the state; \<open>Trap_Spec\<close>: traps, against an account of the entry in numbers and bits, and returns;
  \<^item> \<open>Transition\<close>: the reached states of a machine that may die, the locale \<open>machine\<close> of its invariants and the locale \<open>simulation\<close> of
    its specifications; \<open>Run_Spec\<close> interprets the first on the loop;
  \<^item> \<open>Isa_Spec\<close>: RV64IMA as a specification; \<open>Isa_Sim\<close>: the loop interprets \<open>simulation\<close> with it; \<open>Isa_Example\<close>: a program for the witnesses;
  \<^item> \<open>Page_Tables\<close>: the default tables are the identity under the walks of \<open>Mmu\<close>; \<open>Elf_Spec\<close>: loading against an image of the file;
    \<open>Front_Spec\<close>: the options, the grammar of the accepted command lines, the state in which \<open>RunCpu\<close> is called, and the exit status of the whole program by composing the loader, the tables and
    \<open>Isa_Sim\<close>; \<open>Device_Spec\<close>: the bytes that the disk and the system calls move; \<open>Virtio_Spec\<close>: a disk request from the
    driver's notification to the interrupt, composed from the descriptors, the transfer and the used ring, with the conditions under which the device follows the protocol of the rings; \<open>Disassembler\<close> that the text agrees with the decoder, with its exceptions;
  \<^item> \<open>Paging_Spec\<close>: fetches, loads, stores and AMOs under address translation against the walks of \<open>Mmu\<close> and the byte store, the page faults
    they enter, and concrete accesses that show the missing permission check and the double translation of a split load;
  \<^item> \<open>Assembler_Spec\<close>: the decoders invert the assembler; \<open>Test_Programs\<close>: the two test programs run on the emulator, through \<open>Isa_Sim\<close>, return the sum and
    sort the array that \<open>TestSum\<close> and \<open>TestSort\<close> (\<open>tests/cpu_test.cc\<close>) check for random inputs.

  \<^bold>\<open>Fuel and bounds.\<close>  The loop of \<open>RunCpu\<close> need not end: \<open>run_loop\<close> is a partial function, \<open>None\<close> when it does not return, and
  \<open>run_fuel\<close> is the loop cut off after \<open>n\<close> iterations; the two agree for some \<open>n\<close> whenever the loop returns.  The page walk recurses on
  the level.  The guest string length recurses on
  the limit that the code passes.  The loop over \<open>.bss\<close> is a partial function as well, since its 32-bit counter may never reach a 64-bit end;
  \<open>Elf_Spec\<close> says exactly when it returns.  No other definition has fuel.

  \<^bold>\<open>Not modelled.\<close>  The text that \<open>Dump...\<close>, the verbose mode and error messages print; the headers copied for the Windows build (\<open>elf.h\<close> and
  PDCurses), but for the ELF structures that the loader reads; the drivers of the tests, which compare results and print.
\<close>

section \<open>Properties\<close>

text \<open>C1: The emulator implements RV64IMA: on a 64-bit hart in machine mode, with interrupts disabled and no emulated devices, a program
  that the instruction set takes to its return (or to a jump to itself) in some number of steps is run by \<open>RunCpu\<close> to its
  end: it returns, without error (or with error), in a state with the registers, memory and program counter that the instruction set prescribes,
  the timer register in memory excepted.\<close>

theorem program_refines_isa:
  assumes "quiet64 c" "spec_run isa_next n ((hart_view c)\<lparr>isa_pc := pc\<rparr>) = Some (t, err)"
  shows "\<exists>c'. RunCpu h c pc = Some (Inr (err, c')) \<and> hart_view c' = t \<and> quiet64 c'"
  by (rule program_run [OF assms])

theorem program_refines_isa_witness:
  "\<forall>h. \<exists>c'. RunCpu h demo_program_hart 0x80000000 = Some (Inr (False, c')) \<and> cpu_reg c' A0 = 42"
proof
  fix h :: "unit host"
  let ?s = "demo_program_state (mem_abs demo_program_memory)"
  obtain r where r: "spec_run isa_next (Suc (Suc (Suc (Suc 0)))) (?s 0x80000000 (\<lambda>_. 0)) = Some (?s 0 r, False)" "r A0 = 42"
    using demo_run [OF demo_program_memory_loaded, of "\<lambda>_. 0"] by auto
  with program_refines_isa [OF demo_program_hart_quiet, unfolded demo_program_hart_view, OF r(1), of h]
  obtain c' where "RunCpu h demo_program_hart 0x80000000 = Some (Inr (False, c'))" "hart_view c' = ?s 0 r" by blast
  moreover from this(2) have "cpu_reg c' = r" by (simp add: hart_view_def demo_program_state_def)
  ultimately show "\<exists>c'. RunCpu h demo_program_hart 0x80000000 = Some (Inr (False, c')) \<and> cpu_reg c' A0 = 42" using r(2) by auto
qed


text \<open>C3: A hart constructed on a well-formed memory satisfies the invariant of the execution loop, and so does every state the loop
  reaches from there, whatever the program, the host and the devices do: the register width and its mirror in
  \<open>mstatus\<close> agree, the supervisor and user views of the status and interrupt enable registers are the masked machine registers, the
  memory is well formed and \<open>x0\<close> is zero.  The configuration never changes.\<close>

theorem loop_invariant:
  assumes "mem_wf m" "reach (step h) running (start_cpu (SetMemory (RiscvCpu b raw s) m) pc) c"
  shows "loop_inv c \<and> same_cfg (SetMemory (RiscvCpu b raw s) m) c"
  using loop.reach_inv [OF assms(2) loop_inv_start(1) [OF loop_inv_construct [OF assms(1)]]]
    same_cfg_trans [OF loop_inv_start(3)] by blast

theorem loop_invariant_witness:
  "\<forall>h. \<exists>c. step h (demo_hart 0xB3) = Inr c \<and> loop_inv c \<and> same_cfg (SetMemory (RiscvCpu True blank_cpu 0) (demo_memory 0xB3)) c"
proof
  fix h :: "unit host"
  have "(INST_ADD, 0x33) \<in> set isa_R" by (simp add: isa_R_def)
  moreover have "(0xB3 :: u32) AND 0xFE00707F = 0x33" by simp
  ultimately obtain c where c: "step h (demo_hart 0xB3) = Inr c"
    using step_rtype [OF demo_hart_quiet _ demo_hart_word, of "0xB3" INST_ADD "0x33" h] by (auto simp: base_ops_def)
  have "running (demo_hart 0xB3)" unfolding demo_hart_def by (rule loop_inv_start)
  then have "reach (step h) running (demo_hart 0xB3) c" using c by (rule reach_first)
  then have "loop_inv c \<and> same_cfg (SetMemory (RiscvCpu True blank_cpu 0) (demo_memory 0xB3)) c"
    unfolding demo_hart_def blank_hart_def by (rule loop_invariant [OF demo_memory_abs(1)])
  with c show "\<exists>c. step h (demo_hart 0xB3) = Inr c \<and> loop_inv c \<and> same_cfg (SetMemory (RiscvCpu True blank_cpu 0) (demo_memory 0xB3)) c"
    by blast
qed

text \<open>C8: The emulator dies inside the loop, from any state that a constructed hart reaches, only in the ways that \<open>step_error\<close> lists, each
  with the state that causes it.  An unsupported interrupt is pending and enabled (an assertion).  \<open>mstatus.MPP\<close> holds the
  reserved value (an uncaught exception).  The fetched word is a division whose divisor passes the zero test and is zero at the operand width
  (or \<open>-2^63\<close> by \<open>-1\<close> on a 32-bit hart), a \<open>SRAIW\<close> by 32 or more, or an emulated system call that reads or writes a negative number
  of bytes.  Or, with the devices enabled: the terminal does not exist, or the driver has notified the disk and its request is rejected, has a
  queue of length zero, or lies outside the disk image.  No access to guest memory is in the list: the block
  memory is never indexed outside its blocks.\<close>

theorem loop_failures:
  assumes "mem_wf m" "reach (step h) running (start_cpu (SetMemory (RiscvCpu b raw s) m) pc) c" "step h c = Inl e"
  shows "step_error h c e"
  using loop.reach_fails [OF assms(2) loop_inv_start(1) [OF loop_inv_construct [OF assms(1)]] assms(3)] .

theorem loop_failures_witness: "\<exists>ir d. fetched (demo_hart 0x4200509B) ir d \<and> word_error (demo_hart 0x4200509B) ir Undefined"
proof -
  have "reach (step (undefined :: unit host)) running (demo_hart 0x4200509B) (demo_hart 0x4200509B)" by (rule reach_start)
  moreover have "step (undefined :: unit host) (demo_hart 0x4200509B) = Inl Undefined"
    by (rule step_sraiw [OF demo_hart_quiet demo_hart_word])
  ultimately have "step_error (undefined :: unit host) (demo_hart 0x4200509B) Undefined"
    unfolding demo_hart_def blank_hart_def by (rule loop_failures [OF demo_memory_abs(1)])
  with quiet_step_error [OF demo_hart_quiet] show ?thesis by blast
qed

text \<open>C30: Executing one instruction fails only in these ways: with the reserved value of \<open>mstatus.MPP\<close>; on a division whose
  divisor passes the zero test on 64 bits and is zero at the operand width (or that overflows on a 32-bit hart); on an
  arithmetic word shift by 32 or more; or on an emulated system call that reads or writes a negative number of bytes.  Otherwise it returns and keeps the invariant and the configuration.\<close>

theorem instruction_outcomes:
  assumes "hart_ok c" "csr < 4096"
  shows "case execute h c i rd rs1 rs2 imm csr of
      Inl e \<Rightarrow> instruction_error c i rs1 rs2 imm e
    | Inr c' \<Rightarrow> hart_ok c' \<and> same_cfg c c'"
  using execute_triple [OF assms, of i rs1 rs2 imm h rd] by (cases "execute h c i rd rs1 rs2 imm csr") (simp_all add: good_def)

theorem instruction_outcomes_witness:
  "\<forall>h. case execute h (demo_hart 0) INST_SRAIW 1 0 0 32 0 of
      Inl e \<Rightarrow> instruction_error (demo_hart 0) INST_SRAIW 0 0 32 e
    | Inr c' \<Rightarrow> hart_ok c' \<and> same_cfg (demo_hart 0) c'"
  using instruction_outcomes [of "demo_hart 0" 0] demo_hart_loop_inv [of 0] by (simp add: loop_inv_def)

text \<open>C10: What a run returns: \<open>RunCpu\<close> returns a state exactly when finitely many iterations reach it and one of the two flags
  stops the loop there; the returned value is the error flag, and the state satisfies the invariant.  When the emulator dies, it is
  in an iteration that starts in a reached state, with a listed error.\<close>

theorem run_result:
  assumes "loop_inv c"
  shows "(RunCpu h c pc = Some (Inr (err, c')) \<longleftrightarrow>
      reach (step h) running (start_cpu c pc) c' \<and> (cpu_error_flag c' \<or> cpu_end_flag c') \<and> err = cpu_error_flag c') \<and>
    (RunCpu h c pc = Some (Inr (err, c')) \<longrightarrow> loop_inv c' \<and> same_cfg c c') \<and>
    (RunCpu h c pc = Some (Inl e) \<longrightarrow> (\<exists>d. reach (step h) running (start_cpu c pc) d \<and> step h d = Inl e \<and> step_error h d e))"
proof -
  note s = loop_inv_start(1) [OF assms, of pc] loop_inv_start(2) [of c pc] loop_inv_start(3) [of c pc]
  have r: "RunCpu h c pc = Some (Inr (err, c')) \<longleftrightarrow>
      reach (step h) running (start_cpu c pc) c' \<and> \<not> running c' \<and> err = cpu_error_flag c'"
    unfolding RunCpu_Inr_iff using run_fuel_reach [OF _ s(2)] run_fuel_stops reach_run [OF _ s(2)] by metis
  moreover have "loop_inv c' \<and> same_cfg c c'" if "RunCpu h c pc = Some (Inr (err, c'))"
    using that loop.reach_inv [OF _ s(1)] same_cfg_trans [OF s(3)] unfolding r by blast
  moreover have "\<exists>d. reach (step h) running (start_cpu c pc) d \<and> step h d = Inl e \<and> step_error h d e"
    if "RunCpu h c pc = Some (Inl e)"
    using that run_fuel_error [OF _ s(2)] loop.reach_fails [OF _ s(1)] unfolding RunCpu_Inl_iff by metis
  ultimately show ?thesis by (auto simp: running_def)
qed

theorem run_result_witness:
  "\<forall>h. \<exists>c'. reach (step h) running (start_cpu (demo_hart 0x8067) 0x80000000) c' \<and> (cpu_error_flag c' \<or> cpu_end_flag c') \<and>
     False = cpu_error_flag c'"
proof
  fix h :: "unit host"
  have "holds_word (demo_hart 0x8067) 0x80000000 0x8067" using demo_hart_word [of "0x8067"] by simp
  then obtain c' where "RunCpu h (demo_hart 0x8067) 0x80000000 = Some (Inr (False, c'))"
    using RunCpu_ret [OF demo_hart_quiet, of "0x8067" "0x80000000" h] by auto
  with run_result [OF demo_hart_loop_inv, of h "0x8067" "0x80000000" False c']
  show "\<exists>c'. reach (step h) running (start_cpu (demo_hart 0x8067) 0x80000000) c' \<and> (cpu_error_flag c' \<or> cpu_end_flag c') \<and>
     False = cpu_error_flag c'" by blast
qed

text \<open>The program's end: when the hart, undisturbed by interrupts and devices, fetches \<open>ret\<close> with \<open>ra\<close> zero, \<open>RunCpu\<close>
  returns without error, with registers and memory unchanged.\<close>

theorem ret_ends_run:
  assumes "quiet c" "holds_word c pc 0x8067" "cpu_reg c RA = 0" "pc \<noteq> 0"
  shows "\<exists>c'. RunCpu h c pc = Some (Inr (False, c')) \<and> cpu_reg c' = cpu_reg c \<and> cpu_memory c' = cpu_memory c"
  by (rule RunCpu_ret [OF assms])

theorem ret_ends_run_witness:
  "\<forall>h. \<exists>c'. RunCpu h (demo_hart 0x8067) 0x80000000 = Some (Inr (False, c')) \<and> cpu_reg c' = cpu_reg (demo_hart 0x8067) \<and>
     cpu_memory c' = cpu_memory (demo_hart 0x8067)"
  using ret_ends_run [OF demo_hart_quiet, of "0x8067" "0x80000000"] demo_hart_word [of "0x8067"] by simp

end
